(* ===== verification/Prelude.thy ===== *)
theory Prelude
  imports Main "HOL-Library.Word"
begin

text \<open>
  What every component of the development shares: the machine integer types of the runtime, the
  checked, saturating and wrapping arithmetic that Rust offers on them, the two combinators that
  stand for \<open>ensure!\<close> and for the question mark operator, sums over the (finite) type of
  accounts, loops that stop at the first error, decimal notation, and the execution of a sequence
  of calls together with the locale that lifts a one-call invariant to every reachable state.
\<close>

section \<open>Types\<close>

type_synonym u8 = "8 word"
type_synonym u32 = "32 word"
type_synonym u64 = "64 word"
type_synonym u128 = "128 word"
type_synonym u256 = "256 word"

text \<open>An \<open>AccountId32\<close> is 32 bytes; \<open>Vec<u8>\<close> is a list of bytes.\<close>

type_synonym account = "256 word"
type_synonym bytes = "8 word list"

section \<open>Collections of facts\<close>

named_theorems arith_eqs \<open>checked and saturating arithmetic read on natural numbers\<close>
named_theorems result_eqs \<open>when a result combinator returns a value or an error\<close>

section \<open>Results\<close>

text \<open>
  A fallible Rust function returns \<open>Result<A, E>\<close>; here that is \<open>'e + 'a\<close> with
  \<open>Inl\<close> for \<open>Err\<close>. \<open>ensure c e k\<close> is \<open>ensure!(c, e); k\<close>, and
  \<open>and_then m k\<close> is \<open>let x = m?; k(x)\<close>.
\<close>

definition ensure :: "bool \<Rightarrow> 'e \<Rightarrow> 'e + 'a \<Rightarrow> 'e + 'a" where
  "ensure c e k = (if c then k else Inl e)"

definition and_then :: "'e + 'a \<Rightarrow> ('a \<Rightarrow> 'e + 'b) \<Rightarrow> 'e + 'b" where
  "and_then m k = (case m of Inl e \<Rightarrow> Inl e | Inr x \<Rightarrow> k x)"

definition ok_or :: "'a option \<Rightarrow> 'e \<Rightarrow> 'e + 'a" where
  "ok_or m e = (case m of None \<Rightarrow> Inl e | Some x \<Rightarrow> Inr x)"

lemma ensure_simps [simp]:
  "ensure True e k = k"
  "ensure False e k = Inl e"
  by (simp_all add: ensure_def)

lemma and_then_simps [simp]:
  "and_then (Inr x) k = k x"
  "and_then (Inl e) k = Inl e"
  by (simp_all add: and_then_def)

lemma ok_or_simps [simp]:
  "ok_or (Some x) e = Inr x"
  "ok_or None e = Inl e"
  by (simp_all add: ok_or_def)

lemma ensure_eq_Inr [result_eqs]: "ensure c e k = Inr y \<longleftrightarrow> c \<and> k = Inr y"
  by (simp add: ensure_def)

lemma ensure_eq_Inl [result_eqs]: "ensure c e k = Inl d \<longleftrightarrow> (\<not> c \<and> d = e) \<or> (c \<and> k = Inl d)"
  by (auto simp: ensure_def)

lemma and_then_eq_Inr [result_eqs]: "and_then m k = Inr y \<longleftrightarrow> (\<exists>x. m = Inr x \<and> k x = Inr y)"
  by (auto simp: and_then_def split: sum.splits)

lemma and_then_eq_Inl [result_eqs]:
  "and_then m k = Inl d \<longleftrightarrow> m = Inl d \<or> (\<exists>x. m = Inr x \<and> k x = Inl d)"
  by (auto simp: and_then_def split: sum.splits)

lemma ok_or_eq_Inr [result_eqs]: "ok_or m e = Inr x \<longleftrightarrow> m = Some x"
  by (auto simp: ok_or_def split: option.splits)

lemma ok_or_eq_Inl [result_eqs]: "ok_or m e = Inl d \<longleftrightarrow> m = None \<and> d = e"
  by (auto simp: ok_or_def split: option.splits)

lemma ex_result [result_eqs]:
  "(\<exists>x. (\<exists>y. P y \<and> x = f y) \<and> Q x) \<longleftrightarrow> (\<exists>y. P y \<and> Q (f y))"
  by blast

lemma ex_result2 [result_eqs]:
  "(\<exists>x. (\<exists>y z. P y z \<and> x = f y z) \<and> Q x) \<longleftrightarrow> (\<exists>y z. P y z \<and> Q (f y z))"
  by blast

lemma and_then_cong [fundef_cong]:
  assumes "m = m'" and "\<And>x. m' = Inr x \<Longrightarrow> k x = k' x"
  shows "and_then m k = and_then m' k'"
  using assms by (auto simp: and_then_def split: sum.splits)

lemma ensure_cong [fundef_cong]:
  assumes "c = c'" and "e = e'" and "c' \<Longrightarrow> k = k'"
  shows "ensure c e k = ensure c' e' k'"
  using assms by (simp add: ensure_def)

text \<open>
  \<open>for_each f xs s\<close> is a loop whose body may fail: it threads the state through the elements
  and stops at the first error.
\<close>

fun for_each :: "('a \<Rightarrow> 's \<Rightarrow> 'e + 's) \<Rightarrow> 'a list \<Rightarrow> 's \<Rightarrow> 'e + 's" where
  "for_each f [] s = Inr s"
| "for_each f (x # xs) s = and_then (f x s) (for_each f xs)"

lemma for_each_inv:
  assumes "for_each f xs s = Inr s'" and "P s"
    and "\<And>x s s'. x \<in> set xs \<Longrightarrow> f x s = Inr s' \<Longrightarrow> P s \<Longrightarrow> P s'"
  shows "P s'"
  using assms by (induction xs arbitrary: s) (auto simp: result_eqs)

lemma for_each_append: "for_each f (xs @ ys) s = and_then (for_each f xs s) (for_each f ys)"
  by (induction xs arbitrary: s) (auto simp: and_then_def split: sum.splits)

text \<open>
  A pallet that calls another one runs it on that pallet's part of the state: \<open>focus get put f\<close>
  applies \<open>f\<close> to the part \<open>get\<close> reads and writes the result back with \<open>put\<close>.
\<close>

definition focus :: "('w \<Rightarrow> 's) \<Rightarrow> ('s \<Rightarrow> 'w \<Rightarrow> 'w) \<Rightarrow> ('s \<Rightarrow> 'e + 's) \<Rightarrow> 'w \<Rightarrow> 'e + 'w" where
  "focus get put f w = and_then (f (get w)) (\<lambda>s. Inr (put s w))"

lemma focus_eq_Inr [result_eqs]:
  "focus get put f w = Inr w' \<longleftrightarrow> (\<exists>s. f (get w) = Inr s \<and> w' = put s w)"
  by (auto simp: focus_def and_then_eq_Inr)

section \<open>Machine arithmetic\<close>

text \<open>
  \<open>checked_*\<close> returns \<open>None\<close> on overflow, \<open>saturating_*\<close> stops at the bound. The plain
  operators of an unsigned Rust integer wrap around in the release profile the node and the
  runtime are built with, as the operators of \<open>'a word\<close> do, so they need no definition here.
\<close>

definition checked_add :: "'a::len word \<Rightarrow> 'a word \<Rightarrow> 'a word option" where
  "checked_add a b = (if unat a + unat b < 2 ^ LENGTH('a) then Some (a + b) else None)"

definition checked_sub :: "'a::len word \<Rightarrow> 'a word \<Rightarrow> 'a word option" where
  "checked_sub a b = (if b \<le> a then Some (a - b) else None)"

definition checked_mul :: "'a::len word \<Rightarrow> 'a word \<Rightarrow> 'a word option" where
  "checked_mul a b = (if unat a * unat b < 2 ^ LENGTH('a) then Some (a * b) else None)"

definition checked_div :: "'a::len word \<Rightarrow> 'a word \<Rightarrow> 'a word option" where
  "checked_div a b = (if b = 0 then None else Some (a div b))"

definition saturating_add :: "'a::len word \<Rightarrow> 'a word \<Rightarrow> 'a word" where
  "saturating_add a b = (if unat a + unat b < 2 ^ LENGTH('a) then a + b else - 1)"

definition saturating_sub :: "'a::len word \<Rightarrow> 'a word \<Rightarrow> 'a word" where
  "saturating_sub a b = (if b \<le> a then a - b else 0)"

definition saturating_mul :: "'a::len word \<Rightarrow> 'a word \<Rightarrow> 'a word" where
  "saturating_mul a b = (if unat a * unat b < 2 ^ LENGTH('a) then a * b else - 1)"

text \<open>\<open>U256::from\<close> on a \<open>u128\<close> and \<open>TryInto<u128>\<close> back.\<close>

definition u256_of :: "u128 \<Rightarrow> u256" where
  "u256_of x = ucast x"

definition u128_try_from :: "u256 \<Rightarrow> u128 option" where
  "u128_try_from x = (if unat x < 2 ^ 128 then Some (ucast x) else None)"

lemma unat_of_nat_less: "n < 2 ^ LENGTH('a) \<Longrightarrow> unat (of_nat n :: 'a::len word) = n"
  by (simp add: unat_of_nat)

lemma word_eq_unatI: "unat a = unat b \<Longrightarrow> a = b" for a b :: "'a::len word"
  by (rule word_unat_eq_iff [THEN iffD2])

lemma unat_bound: "unat (x :: 'a::len word) < 2 ^ LENGTH('a)"
  by simp

lemma u128_bound: "unat (x :: u128) < 2 ^ 128"
  using unat_bound [of x] by simp

lemma u32_bound: "unat (x :: u32) < 2 ^ 32"
  using unat_bound [of x] by simp

lemma unat_add_small:
  "unat a + unat b < 2 ^ LENGTH('a) \<Longrightarrow> unat (a + b) = unat a + unat b"
  for a b :: "'a::len word"
  by (simp add: unat_word_ariths)

lemma unat_mult_small:
  "unat a * unat b < 2 ^ LENGTH('a) \<Longrightarrow> unat (a * b) = unat a * unat b"
  for a b :: "'a::len word"
  by (simp add: unat_word_ariths)

lemma unat_diff_le: "b \<le> a \<Longrightarrow> unat (a - b) = unat a - unat b" for a b :: "'a::len word"
  by (simp add: unat_sub)

lemma unat_minus_one: "unat (- 1 :: 'a::len word) = 2 ^ LENGTH('a) - 1"
  by (simp add: unsigned_minus_1_eq_mask mask_eq_exp_minus_1)

lemma checked_add_eq_Some [arith_eqs]: "checked_add a b = Some c \<longleftrightarrow> unat c = unat a + unat b"
  for a b c :: "'a::len word"
proof
  assume "checked_add a b = Some c"
  then show "unat c = unat a + unat b"
    by (auto simp: checked_add_def unat_add_small split: if_splits)
next
  assume *: "unat c = unat a + unat b"
  then have lt: "unat a + unat b < 2 ^ LENGTH('a)"
    using unat_bound [of c] by simp
  then have "a + b = c"
    using * by (intro word_eq_unatI) (simp add: unat_add_small)
  with lt show "checked_add a b = Some c"
    by (simp add: checked_add_def)
qed

lemma checked_add_eq_None [arith_eqs]:
  "checked_add a b = None \<longleftrightarrow> 2 ^ LENGTH('a) \<le> unat a + unat b" for a b :: "'a::len word"
  by (auto simp: checked_add_def)

lemma checked_sub_eq_Some [arith_eqs]: "checked_sub a b = Some c \<longleftrightarrow> unat a = unat b + unat c"
  for a b c :: "'a::len word"
proof
  assume "checked_sub a b = Some c"
  then show "unat a = unat b + unat c"
    by (auto simp: checked_sub_def unat_diff_le word_le_nat_alt split: if_splits)
next
  assume *: "unat a = unat b + unat c"
  then have le: "b \<le> a" by (simp add: word_le_nat_alt)
  then have "a - b = c"
    using * by (intro word_eq_unatI) (simp add: unat_diff_le)
  with le show "checked_sub a b = Some c"
    by (simp add: checked_sub_def)
qed

lemma checked_sub_eq_None [arith_eqs]: "checked_sub a b = None \<longleftrightarrow> unat a < unat b"
  for a b :: "'a::len word"
  by (auto simp: checked_sub_def word_le_nat_alt)

lemma checked_mul_eq_Some [arith_eqs]: "checked_mul a b = Some c \<longleftrightarrow> unat c = unat a * unat b"
  for a b c :: "'a::len word"
proof
  assume "checked_mul a b = Some c"
  then show "unat c = unat a * unat b"
    by (auto simp: checked_mul_def unat_mult_small split: if_splits)
next
  assume *: "unat c = unat a * unat b"
  then have lt: "unat a * unat b < 2 ^ LENGTH('a)"
    using unat_bound [of c] by simp
  then have "a * b = c"
    using * by (intro word_eq_unatI) (simp add: unat_mult_small)
  with lt show "checked_mul a b = Some c"
    by (simp add: checked_mul_def)
qed

lemma checked_mul_eq_None [arith_eqs]:
  "checked_mul a b = None \<longleftrightarrow> 2 ^ LENGTH('a) \<le> unat a * unat b" for a b :: "'a::len word"
  by (auto simp: checked_mul_def)

lemma checked_div_eq_Some [arith_eqs]:
  "checked_div a b = Some c \<longleftrightarrow> unat b \<noteq> 0 \<and> unat c = unat a div unat b"
  for a b c :: "'a::len word"
  by (auto simp: checked_div_def unat_div unat_eq_zero intro: word_eq_unatI)

lemma checked_div_eq_None [arith_eqs]: "checked_div a b = None \<longleftrightarrow> unat b = 0"
  for a b :: "'a::len word"
  by (auto simp: checked_div_def unat_eq_zero)

lemma unat_saturating_add [arith_eqs]:
  "unat (saturating_add a b) = min (2 ^ LENGTH('a) - 1) (unat a + unat b)" for a b :: "'a::len word"
  by (auto simp: saturating_add_def unat_add_small unat_minus_one min_def)

lemma unat_saturating_sub [arith_eqs]: "unat (saturating_sub a b) = unat a - unat b"
  for a b :: "'a::len word"
  by (auto simp: saturating_sub_def unat_diff_le word_le_nat_alt)

lemma unat_saturating_mul [arith_eqs]:
  "unat (saturating_mul a b) = min (2 ^ LENGTH('a) - 1) (unat a * unat b)" for a b :: "'a::len word"
  by (auto simp: saturating_mul_def unat_mult_small unat_minus_one min_def)

lemma unat_u256_of [arith_eqs, simp]: "unat (u256_of x) = unat x"
  by (simp add: u256_of_def unsigned_ucast_eq take_bit_nat_eq_self order.strict_trans2 [OF unat_bound])

lemma u128_try_from_eq_Some [arith_eqs]: "u128_try_from x = Some y \<longleftrightarrow> unat x = unat y"
proof
  assume "u128_try_from x = Some y"
  then show "unat x = unat y"
    by (auto simp: u128_try_from_def unsigned_ucast_eq take_bit_nat_eq_self split: if_splits)
next
  assume *: "unat x = unat y"
  then have lt: "unat x < 2 ^ 128" using unat_bound [of y] by simp
  then have "ucast x = y"
    using * by (intro word_eq_unatI) (simp add: unsigned_ucast_eq take_bit_nat_eq_self)
  with lt show "u128_try_from x = Some y"
    by (simp add: u128_try_from_def)
qed

lemma u128_try_from_eq_None [arith_eqs]: "u128_try_from x = None \<longleftrightarrow> 2 ^ 128 \<le> unat x"
  by (auto simp: u128_try_from_def)

text \<open>A product of two 128-bit numbers fits into 256 bits.\<close>

lemma u128_product_bound: "unat (x :: u128) * unat (y :: u128) < 2 ^ 256"
proof -
  have "unat x * unat y < 2 ^ 128 * 2 ^ 128"
    using unat_bound [of x] unat_bound [of y] by (intro mult_strict_mono) auto
  then show ?thesis by simp
qed

section \<open>Decimal notation\<close>

text \<open>\<open>decimal\<close> is \<open>u128::to_string\<close> as ASCII bytes.\<close>

fun decimal :: "nat \<Rightarrow> bytes" where
  "decimal n = (if n < 10 then [48 + of_nat n] else decimal (n div 10) @ [48 + of_nat (n mod 10)])"

declare decimal.simps [simp del]

text \<open>\<open>decimal\<close> can be read back, so it is injective.\<close>

lemma decimal_inverse: "foldl (\<lambda>acc d. 10 * acc + (unat d - 48)) 0 (decimal n) = n"
proof (induction n rule: decimal.induct)
  case (1 n)
  have digit: "unat (48 + of_nat k :: u8) = 48 + k" if "k < 10" for k
    using that by (simp add: unat_word_ariths unat_of_nat)
  show ?case
  proof (cases "n < 10")
    case True
    then show ?thesis by (simp add: decimal.simps [of n] digit)
  next
    case False
    with 1 show ?thesis by (simp add: decimal.simps [of n] digit)
  qed
qed

section \<open>Big-endian bytes\<close>

text \<open>The \<open>n\<close> low bytes of a number, most significant first, and back.\<close>

fun be_bytes :: "nat \<Rightarrow> nat \<Rightarrow> bytes" where
  "be_bytes 0 x = []"
| "be_bytes (Suc n) x = be_bytes n (x div 256) @ [of_nat x]"

definition from_be :: "bytes \<Rightarrow> nat" where
  "from_be bs = foldl (\<lambda>a b. a * 256 + unat b) 0 bs"

lemma length_be_bytes [simp]: "length (be_bytes n x) = n"
  by (induction n arbitrary: x) simp_all

lemma be_bytes_zero: "be_bytes n 0 = replicate n 0"
  by (induction n) (simp_all add: replicate_append_same)

lemma from_be_snoc [simp]: "from_be [] = 0" "from_be (bs @ [b]) = from_be bs * 256 + unat b"
  by (simp_all add: from_be_def)

lemma from_be_be_bytes: "from_be (be_bytes n x) = x mod 256 ^ n"
proof (induction n arbitrary: x)
  case (Suc n)
  have "unat (of_nat x :: 8 word) = x mod 256" by (simp add: unat_of_nat)
  then show ?case by (simp add: Suc mod_mult2_eq mult.commute)
qed simp

lemma from_be_bytes_exact: "x < 256 ^ n \<Longrightarrow> from_be (be_bytes n x) = x"
  by (simp add: from_be_be_bytes)

lemma from_be_less: "from_be bs < 256 ^ length bs"
proof (induction bs rule: rev_induct)
  case (snoc b bs)
  have "from_be bs * 256 + unat b < (from_be bs + 1) * 256" using unat_bound [of b] by simp
  also have "\<dots> \<le> 256 ^ length bs * 256" using snoc by (intro mult_right_mono) simp_all
  finally show ?case by simp
qed simp

lemma be_bytes_from_be: "be_bytes (length bs) (from_be bs) = bs"
proof (induction bs rule: rev_induct)
  case (snoc b bs)
  have "(from_be bs * 256 + unat b) div 256 = from_be bs" using unat_bound [of b] by simp
  moreover have "(of_nat (from_be bs * 256 + unat b) :: u8) = b"
  proof (rule word_eq_unatI)
    show "unat (of_nat (from_be bs * 256 + unat b) :: u8) = unat b"
      unfolding unat_of_nat using unat_bound [of b] by (simp del: of_nat_add of_nat_mult)
  qed
  ultimately show ?case using snoc by (simp del: of_nat_add of_nat_mult)
qed simp

lemma be_bytes_inj: "x < 256 ^ n \<Longrightarrow> y < 256 ^ n \<Longrightarrow> be_bytes n x = be_bytes n y \<Longrightarrow> x = y"
  by (metis from_be_bytes_exact)

section \<open>Sums over all accounts\<close>

text \<open>
  The type of accounts is finite, so "the sum of all balances" is a finite sum over the whole type.
\<close>

definition total_of :: "('a::finite \<Rightarrow> 'b::len word) \<Rightarrow> nat" where
  "total_of f = (\<Sum>a\<in>UNIV. unat (f a))"

lemma total_of_upd: "total_of (f(x := v)) + unat (f x) = total_of f + unat v"
proof -
  have "total_of (f(x := v)) = unat v + (\<Sum>a\<in>UNIV - {x}. unat (f a))"
    unfolding total_of_def by (subst sum.remove [of _ x]) auto
  moreover have "total_of f = unat (f x) + (\<Sum>a\<in>UNIV - {x}. unat (f a))"
    unfolding total_of_def by (subst sum.remove [of _ x]) auto
  ultimately show ?thesis by simp
qed

lemma total_of_ge: "unat (f x) \<le> total_of f"
  unfolding total_of_def by (rule member_le_sum) auto

lemma total_of_ge2: "x \<noteq> y \<Longrightarrow> unat (f x) + unat (f y) \<le> total_of f"
proof -
  assume "x \<noteq> y"
  then have "unat (f x) + unat (f y) = (\<Sum>a\<in>{x, y}. unat (f a))" by simp
  also have "\<dots> \<le> total_of f" unfolding total_of_def by (rule sum_mono2) auto
  finally show ?thesis .
qed

lemma total_of_zero [simp]: "total_of (\<lambda>_. 0) = 0"
  by (simp add: total_of_def)

lemma total_of_eq_0: "total_of f = 0 \<longleftrightarrow> (\<forall>a. f a = 0)"
  by (auto simp: total_of_def unat_eq_zero)

lemma total_of_single: "total_of ((\<lambda>_. 0)(x := v)) = unat v"
  using total_of_upd [of "\<lambda>_. 0" x v] by simp

section \<open>Sequences of calls\<close>

text \<open>
  An extrinsic runs inside a storage transaction: when the call returns an error nothing it wrote
  is kept. \<open>exec\<close> runs a list of calls that way, and \<open>reachable\<close> is the same as a relation
  on states.
\<close>

fun exec :: "('call \<Rightarrow> 's \<Rightarrow> 'e + 's) \<Rightarrow> 'call list \<Rightarrow> 's \<Rightarrow> 's" where
  "exec d [] s = s"
| "exec d (c # cs) s = (case d c s of Inl _ \<Rightarrow> exec d cs s | Inr s' \<Rightarrow> exec d cs s')"

inductive reachable :: "('call \<Rightarrow> 's \<Rightarrow> 'e + 's) \<Rightarrow> 's \<Rightarrow> 's \<Rightarrow> bool" for d s\<^sub>0 where
  start: "reachable d s\<^sub>0 s\<^sub>0"
| call: "reachable d s\<^sub>0 s \<Longrightarrow> d c s = Inr s' \<Longrightarrow> reachable d s\<^sub>0 s'"

lemma exec_append: "exec d (cs @ ds) s = exec d ds (exec d cs s)"
  by (induction cs arbitrary: s) (auto split: sum.splits)

lemma reachable_trans: "reachable d s t \<Longrightarrow> reachable d r s \<Longrightarrow> reachable d r t"
  by (induction rule: reachable.induct) (auto intro: reachable.call)

lemma reachable_exec: "reachable d s (exec d cs s)"
proof (induction cs arbitrary: s)
  case Nil
  show ?case by (simp add: reachable.start)
next
  case (Cons c cs)
  show ?case
  proof (cases "d c s")
    case (Inl e)
    with Cons.IH show ?thesis by simp
  next
    case (Inr s')
    then have "reachable d s s'" by (auto intro: reachable.intros)
    with Cons.IH [of s'] Inr show ?thesis by (simp add: reachable_trans)
  qed
qed

lemma reachable_imp_exec: "reachable d s t \<Longrightarrow> \<exists>cs. t = exec d cs s"
proof (induction rule: reachable.induct)
  case start
  show ?case by (rule exI [of _ "[]"]) simp
next
  case (call t c t')
  then obtain cs where "t = exec d cs s" by auto
  with call.hyps show ?case
    by (intro exI [of _ "cs @ [c]"]) (simp add: exec_append)
qed

text \<open>
  The contract a pallet offers on its storage: no call breaks the invariant. The two lemmas are
  what its clients use: the invariant holds after any sequence of calls.
\<close>

locale pallet_invariant =
  fixes dispatch :: "'call \<Rightarrow> 's \<Rightarrow> 'e + 's"
    and inv :: "'s \<Rightarrow> bool"
  assumes dispatch_inv: "inv s \<Longrightarrow> dispatch c s = Inr s' \<Longrightarrow> inv s'"
begin

lemma reachable_inv:
  assumes "reachable dispatch s t" and "inv s"
  shows "inv t"
  using assms by (induction rule: reachable.induct) (auto intro: dispatch_inv)

lemma exec_inv: "inv s \<Longrightarrow> inv (exec dispatch cs s)"
  by (rule reachable_inv [OF reachable_exec])

end

text \<open>
  The same for a relation between an earlier and a later state, for facts of the form "once set,
  never unset" and "this quantity never changes".
\<close>

locale pallet_history =
  fixes dispatch :: "'call \<Rightarrow> 's \<Rightarrow> 'e + 's"
    and rel :: "'s \<Rightarrow> 's \<Rightarrow> bool"
  assumes rel_refl: "rel s s"
    and rel_trans: "rel r s \<Longrightarrow> rel s t \<Longrightarrow> rel r t"
    and dispatch_rel: "dispatch c s = Inr s' \<Longrightarrow> rel s s'"
begin

lemma reachable_rel: "reachable dispatch s t \<Longrightarrow> rel s t"
  by (induction rule: reachable.induct) (auto intro: rel_refl rel_trans dispatch_rel)

lemma exec_rel: "rel s (exec dispatch cs s)"
  by (rule reachable_rel [OF reachable_exec])

end

end
