(* ===== verification/Frame.thy ===== *)
theory Frame
  imports Prelude
begin

text \<open>
  What the pallets take from FRAME and from the runtime they are instantiated in: call origins, the
  errors a call can return, the accounts derived from a pallet id, the current block, bounded
  vectors, and the native currency. The error enums are the \<open>Error\<close> enums of the pallets, each
  one a datatype; \<open>DispatchError\<close> joins them, as the \<open>?\<close> operator does when one pallet calls
  another. \<open>Panicked\<close> is no value of the code: it marks the branches where the code panics (an
  \<open>unwrap\<close> of \<open>None\<close>, an index out of range, a division by zero), which abort the call.
\<close>

section \<open>Errors\<close>

datatype fungible_error =
    FtUnknown | FtNoAvailableTokenId | FtNumOverflow | FtNoPermission | FtNotOwner | FtInvalidId
  | FtAmountExceedAllowance | FtBadMetadata | FtInsufficientAuthorizedTokens | FtInsufficientTokens
  | FtConfuseBehavior | FtApproveToCurrentOwner

datatype non_fungible_error =
    NftNoAvailableTokenId | NftOverflow | NftUnderflow | NftTokenAlreadyMinted | NftInvalidId
  | NftNoPermission | NftNotTokenOwner | NftTokenNonExistent | NftApproveToCurrentOwner
  | NftNotOwnerOrApproved | NftApproveToCaller | NftBadMetadata | NftConfuseBehavior
  | NftTransferTokenNotOwn | NftNotFound

datatype multi_error =
    MtUnknown | MtNoAvailableTokenId | MtNumOverflow | MtLengthMismatch | MtNoPermission
  | MtNotOwner | MtInvalidId | MtTokenNonExistent | MtBadMetadata | MtNotOwnerOrApproved
  | MtConfuseBehavior | MtInsufficientTokens | MtInsufficientAuthorizedTokens

datatype exchange_error =
    ExOverflow | ExPoolNotFound | ExNoAvailablePoolId | ExInsufficientAmount
  | ExInsufficientOutAmount | ExInsufficientInputAmount | ExInsufficientOutputAmount
  | ExInsufficientLiquidity | ExAdjustedError | ExInsufficientAAmount | ExInsufficientBAmount
  | ExInsufficientLiquidityMinted | ExInsufficientLiquidityBurned | ExInvalidPath
  | ExTokenAccountNotFound | ExPoolAlreadyCreated | ExTokenRepeat | ExDeadline

datatype marketplace_error =
    MpOrderNotFound | MpBidNotFound | MpOrderExpired | MpBidExpired | MpTooLittleDuration
  | MpTooLittlePrice | MpNotBidder | MpNotSeller | MpNotAdmin | MpNotSetAdmin | MpNeedHigherPrice
  | MpAssetTypeError

datatype farming_error =
    FaNoAvailablePoolId | FaNoPermisson | FaArithmeticOverflow | FaPoolNotFound
  | FaStakingNotStart | FaStakingTimeout | FaCurrentStakingTime | FaCurrentLockedTime
  | FaCurrentClaimTime | FaClaimNotStart | FaAlreadyClaim | FaNotStaking

datatype launchpad_error =
    LpNoAvailablePoolId | LpNoPermisson | LpArithmeticOverflow | LpPoolNotFound | LpOutOfSaleTime
  | LpClaimNotStart | LpAlreadyClaim | LpNotBuy | LpNotOwner

datatype player_id_error =
    PidUnknown | PidNotFound | PidPlayerIdTooLong | PidAddressTooLong
  | PidPlayerIdAlreadyRegistered | PidAddressAlreadyExists | PidNoPermission | PidTooManyAddresses

datatype proxy_pay_error =
    PpNoAvailableProgramId | PpNoAuthorization | PpOverflow | PpConversionError

datatype switchgear_error = SwCannotSwitchOff | SwInvalidCharacter

text \<open>
  \<open>BalancesError\<close> carries whatever code the native currency fails with; nothing here looks
  inside it. \<open>CallFiltered\<close> is the error of \<open>frame_system\<close> for a call that the base filter of the
  runtime stops. \<open>Other\<close> carries a message.
\<close>

datatype dispatch_error =
    Other string
  | BadOrigin
  | CallFiltered
  | BalancesError nat
  | TokenFungibleError fungible_error
  | TokenNonFungibleError non_fungible_error
  | TokenMultiError multi_error
  | ExchangeError exchange_error
  | MarketplaceError marketplace_error
  | FarmingError farming_error
  | LaunchpadError launchpad_error
  | PlayerIdError player_id_error
  | ProxyPayError proxy_pay_error
  | SwitchgearError switchgear_error
  | Panicked

type_synonym 'a dispatch = "dispatch_error + 'a"

section \<open>Origins\<close>

datatype origin = Root | Signed account | Unsigned

fun ensure_signed :: "origin \<Rightarrow> account dispatch" where
  "ensure_signed (Signed a) = Inr a"
| "ensure_signed Root = Inl BadOrigin"
| "ensure_signed Unsigned = Inl BadOrigin"

fun ensure_root :: "origin \<Rightarrow> unit dispatch" where
  "ensure_root Root = Inr ()"
| "ensure_root (Signed a) = Inl BadOrigin"
| "ensure_root Unsigned = Inl BadOrigin"

lemma ensure_signed_eq_Inr [result_eqs]: "ensure_signed orig = Inr a \<longleftrightarrow> orig = Signed a"
  by (cases orig) auto

lemma ensure_root_eq_Inr [result_eqs]: "ensure_root orig = Inr u \<longleftrightarrow> orig = Root"
  by (cases orig) auto

section \<open>The runtime around a call\<close>

text \<open>
  The block number of \<open>frame_system\<close>, and the conversions of a \<open>PalletId\<close> into the account of
  the pallet (\<open>into_account_truncating\<close>) and into one of its numbered sub-accounts
  (\<open>into_sub_account_truncating\<close>), which are code of \<open>sp_runtime\<close>: fields of a record that
  every call takes. A sub-account seed of fewer bits is widened.
\<close>

record env =
  env_now :: u32
  into_account :: "string \<Rightarrow> account"
  into_sub_account :: "string \<Rightarrow> u128 \<Rightarrow> account"

text \<open>An environment for the concrete instances: the accounts from 2000 up are sub-accounts.\<close>

definition env_example :: env where
  "env_example = \<lparr>env_now = 100, into_account = (\<lambda>p. 1000 + of_nat (size p)),
     into_sub_account = (\<lambda>p n. 2000 + ucast n)\<rparr>"

text \<open>The all-zero account: \<open>AccountId::decode\<close> of an endless run of zero bytes.\<close>

definition zero_account_id :: account where
  "zero_account_id = 0"

text \<open>The pallet ids and the limits the runtime configures.\<close>

definition TokenFungiblePalletId :: string where "TokenFungiblePalletId = ''w3g/tfpi''"

definition TokenNonFungiblePalletId :: string where "TokenNonFungiblePalletId = ''w3g/tnfp''"

definition TokenMultiPalletId :: string where "TokenMultiPalletId = ''w3g/tmpi''"

definition WrapCurrencyPalletId :: string where "WrapCurrencyPalletId = ''w3g/wrap''"

definition ExchangePalletId :: string where "ExchangePalletId = ''w3g/expi''"

definition MarketplacePalletId :: string where "MarketplacePalletId = ''w3g/mpct''"

definition FarmingPalletId :: string where "FarmingPalletId = ''w3g/farm''"

definition ProxyPayPalletId :: string where "ProxyPayPalletId = ''w3g/prox''"

definition StringLimit :: nat where "StringLimit = 50"

text \<open>\<open>BoundedVec::try_from\<close>: the vector itself when it is within the limit.\<close>

definition bounded_vec :: "nat \<Rightarrow> 'a list \<Rightarrow> 'a list option" where
  "bounded_vec limit xs = (if length xs \<le> limit then Some xs else None)"

lemma bounded_vec_eq_Some [result_eqs]:
  "bounded_vec limit xs = Some ys \<longleftrightarrow> ys = xs \<and> length xs \<le> limit"
  by (auto simp: bounded_vec_def)

lemma bounded_vec_eq_None [result_eqs]: "bounded_vec limit xs = None \<longleftrightarrow> limit < length xs"
  by (auto simp: bounded_vec_def)

section \<open>The native currency\<close>

text \<open>
  The pallets use the native currency (\<open>pallet_balances\<close>, which is not part of this repository)
  through the \<open>Currency\<close> trait. Its state has an unknown type \<open>'c\<close>, and the operations the
  pallets call are the fields of a record. \<open>currency_laws\<close> is what its documentation promises and
  the pallets rely on: a successful transfer moves exactly the amount between the two accounts and
  touches no other, a withdrawal takes it from the account, and the deposits add it. The runtime sets
  the existential deposit to 0, so that no remainder of a balance is ever removed as dust.
\<close>

datatype existence_requirement = KeepAlive | AllowDeath

datatype withdraw_reasons = TransactionPayment | TransactionPaymentOrTip

record 'c currency =
  cur_transfer ::
    "account \<Rightarrow> account \<Rightarrow> u128 \<Rightarrow> existence_requirement \<Rightarrow> 'c \<Rightarrow> 'c dispatch"
  cur_withdraw ::
    "account \<Rightarrow> u128 \<Rightarrow> withdraw_reasons \<Rightarrow> existence_requirement \<Rightarrow> 'c \<Rightarrow> 'c dispatch"
  cur_deposit_creating :: "account \<Rightarrow> u128 \<Rightarrow> 'c \<Rightarrow> 'c"
  cur_deposit_into_existing :: "account \<Rightarrow> u128 \<Rightarrow> 'c \<Rightarrow> 'c dispatch"
  cur_free :: "'c \<Rightarrow> account \<Rightarrow> u128"

definition currency_laws :: "'c currency \<Rightarrow> bool" where
  "currency_laws C \<longleftrightarrow>
     (\<forall>a b v k c c'. cur_transfer C a b v k c = Inr c' \<longrightarrow>
        (if a = b then cur_free C c' = cur_free C c
         else (\<exists>x y. unat (cur_free C c a) = unat x + unat v \<and> unat y = unat (cur_free C c b) + unat v
                   \<and> cur_free C c' = (cur_free C c)(a := x, b := y)))) \<and>
     (\<forall>a v w k c c'. cur_withdraw C a v w k c = Inr c' \<longrightarrow>
        (\<exists>x. unat (cur_free C c a) = unat x + unat v \<and> cur_free C c' = (cur_free C c)(a := x))) \<and>
     (\<forall>a v c c'. cur_deposit_into_existing C a v c = Inr c' \<longrightarrow>
        (\<exists>y. unat y = unat (cur_free C c a) + unat v \<and> cur_free C c' = (cur_free C c)(a := y)))"

lemma currency_transferE:
  assumes "currency_laws C" and "cur_transfer C a b v k c = Inr c'" and "a \<noteq> b"
  obtains x y where "unat (cur_free C c a) = unat x + unat v"
    and "unat y = unat (cur_free C c b) + unat v"
    and "cur_free C c' = (cur_free C c)(a := x, b := y)"
  using assms unfolding currency_laws_def by (metis (no_types, lifting))

text \<open>Only the payer can lose money.\<close>

lemma currency_transfer_ge:
  assumes "currency_laws C" and "cur_transfer C a b v k c = Inr c'" and "d \<noteq> a"
  shows "unat (cur_free C c d) \<le> unat (cur_free C c' d)"
proof (cases "a = b")
  case True
  with assms(1,2) show ?thesis by (auto simp: currency_laws_def)
next
  case False
  show ?thesis by (rule currency_transferE [OF assms(1,2) False]) (use assms(3) in auto)
qed

lemma currency_withdrawE:
  assumes "currency_laws C" and "cur_withdraw C a v w k c = Inr c'"
  obtains x where "unat (cur_free C c a) = unat x + unat v"
    and "cur_free C c' = (cur_free C c)(a := x)"
  using assms unfolding currency_laws_def by blast

lemma currency_depositE:
  assumes "currency_laws C" and "cur_deposit_into_existing C a v c = Inr c'"
  obtains y where "unat y = unat (cur_free C c a) + unat v"
    and "cur_free C c' = (cur_free C c)(a := y)"
  using assms unfolding currency_laws_def by blast

text \<open>
  The laws can be met: the plain ledger that keeps one number per account meets them. It serves the
  concrete instances of properties that assume the laws.
\<close>

definition ledger_currency :: "(account \<Rightarrow> u128) currency" where
  "ledger_currency =
     \<lparr>cur_transfer = (\<lambda>a b v k c. if a = b then Inr c else
         (case (checked_sub (c a) v, checked_add (c b) v) of
            (Some x, Some y) \<Rightarrow> Inr (c(a := x, b := y))
          | _ \<Rightarrow> Inl (BalancesError 0))),
      cur_withdraw = (\<lambda>a v w k c.
         (case checked_sub (c a) v of Some x \<Rightarrow> Inr (c(a := x)) | None \<Rightarrow> Inl (BalancesError 0))),
      cur_deposit_creating = (\<lambda>a v c. c(a := saturating_add (c a) v)),
      cur_deposit_into_existing = (\<lambda>a v c.
         (case checked_add (c a) v of Some y \<Rightarrow> Inr (c(a := y)) | None \<Rightarrow> Inl (BalancesError 0))),
      cur_free = (\<lambda>c. c)\<rparr>"

lemma ledger_currency_laws: "currency_laws ledger_currency"
  unfolding currency_laws_def ledger_currency_def
  by (auto simp: arith_eqs split: option.splits if_splits)

lemma sub_account_example: "unat (into_sub_account env_example p n) = 2000 + unat n"
  using u128_bound [of n]
  by (simp add: env_example_def unat_word_ariths unsigned_ucast_eq take_bit_nat_eq_self)

end
