(* ===== verification/TokenFungible.thy ===== *)
theory TokenFungible
  imports Frame
begin

text \<open>
  The fungible token pallet (\<open>pallets/token-fungible\<close>): its storage as a record, the internal
  operations in the order of the source, and the dispatchable calls. Then its invariant (every
  token's recorded supply is covered by the balances, and no balance exists without a token), who
  may move or create what, and the interface the exchange, farming and launchpad pallets use.
\<close>

section \<open>Storage, events and calls\<close>

record ft_token =
  ft_owner :: account
  ft_name :: bytes
  ft_symbol :: bytes
  ft_decimals :: u8
  ft_total_supply :: u128

datatype ft_event =
    FtTokenCreated u128 account bytes bytes u8
  | FtMint u128 account account u128
  | FtTransfer u128 account account u128
  | FtApproval u128 account account u128

text \<open>
  A \<open>ValueQuery\<close> map reads as its default (0) where nothing is stored, so it is a total function;
  an \<open>OptionQuery\<close> map is a partial one. \<open>ft_events\<close> are the events this pallet has
  deposited, oldest first.
\<close>

record ft_storage =
  ft_tokens :: "u128 \<rightharpoonup> ft_token"
  ft_balances :: "u128 \<times> account \<Rightarrow> u128"
  ft_allowances :: "u128 \<times> account \<times> account \<Rightarrow> u128"
  ft_events :: "ft_event list"

datatype ft_call =
    FtCreateToken u128 bytes bytes u8
  | FtApprove u128 account u128
  | FtTransferCall u128 account u128
  | FtTransferFrom u128 account account u128
  | FtMintCall u128 account u128
  | FtBurn u128 u128

definition ft_genesis :: ft_storage where
  "ft_genesis = \<lparr>ft_tokens = Map.empty, ft_balances = (\<lambda>_. 0), ft_allowances = (\<lambda>_. 0), ft_events = []\<rparr>"

section \<open>Operations\<close>

definition ft_deposit_event :: "ft_event \<Rightarrow> ft_storage \<Rightarrow> ft_storage" where
  "ft_deposit_event e s = s\<lparr>ft_events := ft_events s @ [e]\<rparr>"

definition ft_exists :: "u128 \<Rightarrow> ft_storage \<Rightarrow> bool" where
  "ft_exists tid s \<longleftrightarrow> ft_tokens s tid \<noteq> None"

definition ft_balance_of :: "u128 \<Rightarrow> account \<Rightarrow> ft_storage \<Rightarrow> u128" where
  "ft_balance_of tid a s = ft_balances s (tid, a)"

definition ft_supply :: "u128 \<Rightarrow> ft_storage \<Rightarrow> u128 dispatch" where
  "ft_supply tid s = (case ft_tokens s tid of None \<Rightarrow> Inl Panicked | Some t \<Rightarrow> Inr (ft_total_supply t))"

definition ft_do_create_token ::
  "account \<Rightarrow> u128 \<Rightarrow> bytes \<Rightarrow> bytes \<Rightarrow> u8 \<Rightarrow> ft_storage \<Rightarrow> ft_storage dispatch" where
  "ft_do_create_token who tid name symb decimals s =
     and_then (ok_or (bounded_vec StringLimit name) (TokenFungibleError FtBadMetadata)) (\<lambda>bounded_name.
     and_then (ok_or (bounded_vec StringLimit symb) (TokenFungibleError FtBadMetadata)) (\<lambda>bounded_symbol.
     let token = \<lparr>ft_owner = who, ft_name = bounded_name, ft_symbol = bounded_symbol,
                  ft_decimals = decimals, ft_total_supply = 0\<rparr> in
     Inr (ft_deposit_event (FtTokenCreated tid who name symb decimals)
           (s\<lparr>ft_tokens := (ft_tokens s)(tid \<mapsto> token)\<rparr>))))"

definition ft_do_approve ::
  "u128 \<Rightarrow> account \<Rightarrow> account \<Rightarrow> u128 \<Rightarrow> ft_storage \<Rightarrow> ft_storage dispatch" where
  "ft_do_approve tid who spender amount s =
     ensure (spender \<noteq> who) (TokenFungibleError FtApproveToCurrentOwner) (
     ensure (amount \<le> ft_balances s (tid, who)) (TokenFungibleError FtInsufficientAuthorizedTokens) (
     and_then (ok_or (checked_add (ft_allowances s (tid, who, spender)) amount)
                (TokenFungibleError FtNumOverflow)) (\<lambda>allowance.
     Inr (ft_deposit_event (FtTransfer tid who spender amount)
           (s\<lparr>ft_allowances := (ft_allowances s)((tid, who, spender) := allowance)\<rparr>)))))"

definition ft_increase_balance ::
  "u128 \<Rightarrow> account \<Rightarrow> u128 \<Rightarrow> ft_storage \<Rightarrow> ft_storage dispatch" where
  "ft_increase_balance tid to amount s =
     and_then (ok_or (checked_add (ft_balances s (tid, to)) amount) (TokenFungibleError FtNumOverflow))
       (\<lambda>balance. Inr (s\<lparr>ft_balances := (ft_balances s)((tid, to) := balance)\<rparr>))"

definition ft_decrease_balance ::
  "u128 \<Rightarrow> account \<Rightarrow> u128 \<Rightarrow> ft_storage \<Rightarrow> ft_storage dispatch" where
  "ft_decrease_balance tid from amount s =
     and_then (ok_or (checked_sub (ft_balances s (tid, from)) amount) (TokenFungibleError FtNumOverflow))
       (\<lambda>balance. Inr (s\<lparr>ft_balances := (ft_balances s)((tid, from) := balance)\<rparr>))"

definition ft_internal_transfer ::
  "u128 \<Rightarrow> account \<Rightarrow> account \<Rightarrow> u128 \<Rightarrow> ft_storage \<Rightarrow> ft_storage dispatch" where
  "ft_internal_transfer tid sender recipient amount s =
     and_then (ft_decrease_balance tid sender amount s) (\<lambda>s.
     and_then (ft_increase_balance tid recipient amount s) (\<lambda>s.
     Inr (ft_deposit_event (FtTransfer tid sender recipient amount) s)))"

definition ft_do_transfer_from ::
  "u128 \<Rightarrow> account \<Rightarrow> account \<Rightarrow> account \<Rightarrow> u128 \<Rightarrow> ft_storage \<Rightarrow> ft_storage dispatch" where
  "ft_do_transfer_from tid who sender recipient amount s =
     ensure (who \<noteq> recipient) (TokenFungibleError FtConfuseBehavior) (
     ensure (amount \<le> ft_allowances s (tid, sender, who))
       (TokenFungibleError FtInsufficientAuthorizedTokens) (
     and_then (ok_or (checked_sub (ft_allowances s (tid, sender, who)) amount)
                (TokenFungibleError FtNumOverflow)) (\<lambda>allowance.
     ft_internal_transfer tid sender recipient amount
       (s\<lparr>ft_allowances := (ft_allowances s)((tid, sender, who) := allowance)\<rparr>))))"

definition ft_do_transfer ::
  "u128 \<Rightarrow> account \<Rightarrow> account \<Rightarrow> u128 \<Rightarrow> ft_storage \<Rightarrow> ft_storage dispatch" where
  "ft_do_transfer tid who recipient amount s =
     ensure (who \<noteq> recipient) (TokenFungibleError FtConfuseBehavior) (
     ensure (amount \<le> ft_balances s (tid, who)) (TokenFungibleError FtInsufficientTokens) (
     ft_internal_transfer tid who recipient amount s))"

definition ft_maybe_check_permission :: "u128 \<Rightarrow> account \<Rightarrow> ft_storage \<Rightarrow> unit dispatch" where
  "ft_maybe_check_permission tid who s =
     (case ft_tokens s tid of
        None \<Rightarrow> Inl Panicked
      | Some token \<Rightarrow> ensure (who = ft_owner token) (TokenFungibleError FtNoPermission) (Inr ()))"

definition ft_internal_mint ::
  "u128 \<Rightarrow> account \<Rightarrow> u128 \<Rightarrow> ft_storage \<Rightarrow> ft_storage dispatch" where
  "ft_internal_mint tid a amount s =
     and_then (ok_or (ft_tokens s tid) (TokenFungibleError FtUnknown)) (\<lambda>token.
     and_then (ft_increase_balance tid a amount s) (\<lambda>s.
     Inr (ft_deposit_event (FtMint tid zero_account_id a amount)
       (s\<lparr>ft_tokens := (ft_tokens s)(tid \<mapsto>
            token\<lparr>ft_total_supply := saturating_add (ft_total_supply token) amount\<rparr>)\<rparr>))))"

definition ft_do_mint ::
  "u128 \<Rightarrow> account \<Rightarrow> account \<Rightarrow> u128 \<Rightarrow> ft_storage \<Rightarrow> ft_storage dispatch" where
  "ft_do_mint tid who a amount s =
     and_then (ft_maybe_check_permission tid who s) (\<lambda>_. ft_internal_mint tid a amount s)"

definition ft_do_burn ::
  "u128 \<Rightarrow> account \<Rightarrow> u128 \<Rightarrow> ft_storage \<Rightarrow> ft_storage dispatch" where
  "ft_do_burn tid a amount s =
     and_then (ok_or (ft_tokens s tid) (TokenFungibleError FtUnknown)) (\<lambda>token.
     and_then (ft_decrease_balance tid a amount s) (\<lambda>s.
     Inr (ft_deposit_event (FtTransfer tid a zero_account_id amount)
       (s\<lparr>ft_tokens := (ft_tokens s)(tid \<mapsto>
            token\<lparr>ft_total_supply := saturating_sub (ft_total_supply token) amount\<rparr>)\<rparr>))))"

text \<open>The \<open>FungibleMetadata\<close> getters, which unwrap the token.\<close>

definition ft_metadata :: "(ft_token \<Rightarrow> 'a) \<Rightarrow> u128 \<Rightarrow> ft_storage \<Rightarrow> 'a dispatch" where
  "ft_metadata f tid s = (case ft_tokens s tid of None \<Rightarrow> Inl Panicked | Some t \<Rightarrow> Inr (f t))"

definition ft_token_name :: "u128 \<Rightarrow> ft_storage \<Rightarrow> bytes dispatch" where
  "ft_token_name = ft_metadata ft_name"

definition ft_token_symbol :: "u128 \<Rightarrow> ft_storage \<Rightarrow> bytes dispatch" where
  "ft_token_symbol = ft_metadata ft_symbol"

definition ft_token_decimals :: "u128 \<Rightarrow> ft_storage \<Rightarrow> u8 dispatch" where
  "ft_token_decimals = ft_metadata ft_decimals"

section \<open>Dispatchable calls\<close>

definition ft_create_token ::
  "origin \<Rightarrow> u128 \<Rightarrow> bytes \<Rightarrow> bytes \<Rightarrow> u8 \<Rightarrow> ft_storage \<Rightarrow> ft_storage dispatch" where
  "ft_create_token orig tid name symb decimals s =
     and_then (ensure_signed orig) (\<lambda>who.
     ensure (\<not> ft_exists tid s) (TokenFungibleError FtInvalidId) (
     ft_do_create_token who tid name symb decimals s))"

definition ft_approve :: "origin \<Rightarrow> u128 \<Rightarrow> account \<Rightarrow> u128 \<Rightarrow> ft_storage \<Rightarrow> ft_storage dispatch" where
  "ft_approve orig tid spender amount s =
     and_then (ensure_signed orig) (\<lambda>who. ft_do_approve tid who spender amount s)"

definition ft_transfer :: "origin \<Rightarrow> u128 \<Rightarrow> account \<Rightarrow> u128 \<Rightarrow> ft_storage \<Rightarrow> ft_storage dispatch" where
  "ft_transfer orig tid recipient amount s =
     and_then (ensure_signed orig) (\<lambda>who. ft_do_transfer tid who recipient amount s)"

definition ft_transfer_from ::
  "origin \<Rightarrow> u128 \<Rightarrow> account \<Rightarrow> account \<Rightarrow> u128 \<Rightarrow> ft_storage \<Rightarrow> ft_storage dispatch" where
  "ft_transfer_from orig tid sender recipient amount s =
     and_then (ensure_signed orig) (\<lambda>who. ft_do_transfer_from tid who sender recipient amount s)"

definition ft_mint :: "origin \<Rightarrow> u128 \<Rightarrow> account \<Rightarrow> u128 \<Rightarrow> ft_storage \<Rightarrow> ft_storage dispatch" where
  "ft_mint orig tid a amount s =
     and_then (ensure_signed orig) (\<lambda>who.
     ensure (ft_exists tid s) (TokenFungibleError FtInvalidId) (
     ft_do_mint tid who a amount s))"

definition ft_burn :: "origin \<Rightarrow> u128 \<Rightarrow> u128 \<Rightarrow> ft_storage \<Rightarrow> ft_storage dispatch" where
  "ft_burn orig tid amount s =
     and_then (ensure_signed orig) (\<lambda>who. ft_do_burn tid who amount s)"

fun ft_dispatch :: "origin \<times> ft_call \<Rightarrow> ft_storage \<Rightarrow> ft_storage dispatch" where
  "ft_dispatch (orig, FtCreateToken tid name symb decimals) s = ft_create_token orig tid name symb decimals s"
| "ft_dispatch (orig, FtApprove tid spender amount) s = ft_approve orig tid spender amount s"
| "ft_dispatch (orig, FtTransferCall tid recipient amount) s = ft_transfer orig tid recipient amount s"
| "ft_dispatch (orig, FtTransferFrom tid sender recipient amount) s =
     ft_transfer_from orig tid sender recipient amount s"
| "ft_dispatch (orig, FtMintCall tid a amount) s = ft_mint orig tid a amount s"
| "ft_dispatch (orig, FtBurn tid amount) s = ft_burn orig tid amount s"

section \<open>Specification\<close>

text \<open>The sum of all balances of a token, and the invariant.\<close>

definition ft_sum :: "ft_storage \<Rightarrow> u128 \<Rightarrow> nat" where
  "ft_sum s tid = total_of (\<lambda>a. ft_balances s (tid, a))"

definition ft_token_ok :: "ft_storage \<Rightarrow> u128 \<Rightarrow> bool" where
  "ft_token_ok s tid \<longleftrightarrow>
     (case ft_tokens s tid of
        None \<Rightarrow> ft_sum s tid = 0
      | Some t \<Rightarrow> unat (ft_total_supply t) \<le> ft_sum s tid
               \<and> length (ft_name t) \<le> StringLimit \<and> length (ft_symbol t) \<le> StringLimit)"

definition ft_inv :: "ft_storage \<Rightarrow> bool" where
  "ft_inv s \<longleftrightarrow> (\<forall>tid. ft_token_ok s tid)"

text \<open>The recorded supply is exactly the sum of the balances.\<close>

definition ft_exact :: "u128 \<Rightarrow> ft_storage \<Rightarrow> bool" where
  "ft_exact tid s \<longleftrightarrow> (\<exists>t. ft_tokens s tid = Some t \<and> unat (ft_total_supply t) = ft_sum s tid)"

text \<open>
  Accounts that grant no allowance. The accounts that pallets derive from their ids are of this
  kind: nobody can sign for them, so they never approve anyone.
\<close>

definition ft_protected :: "account set \<Rightarrow> ft_storage \<Rightarrow> bool" where
  "ft_protected A s \<longleftrightarrow> (\<forall>a \<in> A. \<forall>t b. ft_allowances s (t, a, b) = 0)"

text \<open>A small state for the concrete instances.\<close>

definition ft_example :: ft_storage where
  "ft_example = \<lparr>ft_tokens = [7 \<mapsto> \<lparr>ft_owner = 1, ft_name = [119], ft_symbol = [119],
       ft_decimals = 18, ft_total_supply = 100\<rparr>],
     ft_balances = (\<lambda>_. 0)((7, 1) := 100), ft_allowances = (\<lambda>_. 0)((7, 1, 2) := 60), ft_events = []\<rparr>"

section \<open>What each operation does when it succeeds\<close>

lemmas ft_defs =
  ft_do_create_token_def ft_do_approve_def ft_internal_transfer_def ft_do_transfer_from_def
  ft_do_transfer_def ft_maybe_check_permission_def ft_internal_mint_def ft_do_mint_def ft_do_burn_def

lemmas ft_call_defs =
  ft_create_token_def ft_approve_def ft_transfer_def ft_transfer_from_def ft_mint_def ft_burn_def

lemma ft_deposit_event_simps [simp]:
  "ft_tokens (ft_deposit_event e s) = ft_tokens s"
  "ft_balances (ft_deposit_event e s) = ft_balances s"
  "ft_allowances (ft_deposit_event e s) = ft_allowances s"
  by (simp_all add: ft_deposit_event_def)

lemma ft_increase_balance_ok:
  "ft_increase_balance tid a v s = Inr s' \<longleftrightarrow>
     (\<exists>x. unat x = unat (ft_balances s (tid, a)) + unat v
        \<and> s' = s\<lparr>ft_balances := (ft_balances s)((tid, a) := x)\<rparr>)"
  by (auto simp: ft_increase_balance_def result_eqs arith_eqs)

lemma ft_decrease_balance_ok:
  "ft_decrease_balance tid a v s = Inr s' \<longleftrightarrow>
     (\<exists>x. unat (ft_balances s (tid, a)) = unat v + unat x
        \<and> s' = s\<lparr>ft_balances := (ft_balances s)((tid, a) := x)\<rparr>)"
  by (auto simp: ft_decrease_balance_def result_eqs arith_eqs)

lemma ft_internal_transfer_ok:
  "ft_internal_transfer tid a b v s = Inr s' \<longleftrightarrow>
     (\<exists>x y. unat (ft_balances s (tid, a)) = unat v + unat x
        \<and> unat y = unat (((ft_balances s)((tid, a) := x)) (tid, b)) + unat v
        \<and> s' = ft_deposit_event (FtTransfer tid a b v)
                 (s\<lparr>ft_balances := (ft_balances s)((tid, a) := x, (tid, b) := y)\<rparr>))"
  by (auto simp: ft_internal_transfer_def result_eqs ft_increase_balance_ok ft_decrease_balance_ok
      simp del: fun_upd_apply)

lemma ft_do_transfer_ok:
  "ft_do_transfer tid a b v s = Inr s' \<longleftrightarrow>
     a \<noteq> b \<and>
     (\<exists>x y. unat (ft_balances s (tid, a)) = unat v + unat x
        \<and> unat y = unat (ft_balances s (tid, b)) + unat v
        \<and> s' = ft_deposit_event (FtTransfer tid a b v)
                 (s\<lparr>ft_balances := (ft_balances s)((tid, a) := x, (tid, b) := y)\<rparr>))"
  by (auto simp: ft_do_transfer_def result_eqs ft_internal_transfer_ok word_le_nat_alt)

lemma ft_do_transfer_from_ok:
  "ft_do_transfer_from tid w a b v s = Inr s' \<longleftrightarrow>
     w \<noteq> b \<and>
     (\<exists>l. unat (ft_allowances s (tid, a, w)) = unat v + unat l
        \<and> ft_internal_transfer tid a b v
            (s\<lparr>ft_allowances := (ft_allowances s)((tid, a, w) := l)\<rparr>) = Inr s')"
  by (auto simp: ft_do_transfer_from_def result_eqs arith_eqs word_le_nat_alt)

lemma ft_internal_mint_ok:
  "ft_internal_mint tid a v s = Inr s' \<longleftrightarrow>
     (\<exists>t x. ft_tokens s tid = Some t \<and> unat x = unat (ft_balances s (tid, a)) + unat v
        \<and> s' = ft_deposit_event (FtMint tid zero_account_id a v)
            (s\<lparr>ft_balances := (ft_balances s)((tid, a) := x),
               ft_tokens := (ft_tokens s)(tid \<mapsto>
                 t\<lparr>ft_total_supply := saturating_add (ft_total_supply t) v\<rparr>)\<rparr>))"
  by (auto simp: ft_internal_mint_def result_eqs ft_increase_balance_ok)

lemma ft_do_mint_ok:
  "ft_do_mint tid w a v s = Inr s' \<longleftrightarrow>
     (\<exists>t. ft_tokens s tid = Some t \<and> ft_owner t = w) \<and> ft_internal_mint tid a v s = Inr s'"
  by (auto simp: ft_do_mint_def ft_maybe_check_permission_def result_eqs split: option.splits)

lemma ft_do_burn_ok:
  "ft_do_burn tid a v s = Inr s' \<longleftrightarrow>
     (\<exists>t x. ft_tokens s tid = Some t \<and> unat (ft_balances s (tid, a)) = unat v + unat x
        \<and> s' = ft_deposit_event (FtTransfer tid a zero_account_id v)
            (s\<lparr>ft_balances := (ft_balances s)((tid, a) := x),
               ft_tokens := (ft_tokens s)(tid \<mapsto>
                 t\<lparr>ft_total_supply := saturating_sub (ft_total_supply t) v\<rparr>)\<rparr>))"
  by (auto simp: ft_do_burn_def result_eqs ft_decrease_balance_ok)

lemma ft_do_approve_ok:
  "ft_do_approve tid w p v s = Inr s' \<longleftrightarrow>
     p \<noteq> w \<and> v \<le> ft_balances s (tid, w) \<and>
     (\<exists>l. unat l = unat (ft_allowances s (tid, w, p)) + unat v
        \<and> s' = ft_deposit_event (FtTransfer tid w p v)
                 (s\<lparr>ft_allowances := (ft_allowances s)((tid, w, p) := l)\<rparr>))"
  by (auto simp: ft_do_approve_def result_eqs arith_eqs)

lemma ft_do_create_token_ok:
  "ft_do_create_token w tid nm sy dc s = Inr s' \<longleftrightarrow>
     length nm \<le> StringLimit \<and> length sy \<le> StringLimit
     \<and> s' = ft_deposit_event (FtTokenCreated tid w nm sy dc)
         (s\<lparr>ft_tokens := (ft_tokens s)(tid \<mapsto>
            \<lparr>ft_owner = w, ft_name = nm, ft_symbol = sy, ft_decimals = dc, ft_total_supply = 0\<rparr>)\<rparr>)"
  by (auto simp: ft_do_create_token_def result_eqs Let_def)

lemmas ft_ok =
  ft_do_create_token_ok ft_do_approve_ok ft_do_transfer_ok ft_do_transfer_from_ok ft_do_mint_ok
  ft_do_burn_ok ft_internal_transfer_ok ft_internal_mint_ok

section \<open>Sums of balances\<close>

lemma ft_sum_cong: "ft_balances s = ft_balances s' \<Longrightarrow> ft_sum s i = ft_sum s' i"
  by (simp add: ft_sum_def)

lemma ft_sum_simps [simp]:
  "ft_sum (ft_deposit_event e s) i = ft_sum s i"
  "ft_sum (s\<lparr>ft_tokens := ts\<rparr>) i = ft_sum s i"
  "ft_sum (s\<lparr>ft_allowances := al\<rparr>) i = ft_sum s i"
  "ft_sum (s\<lparr>ft_balances := b, ft_tokens := ts\<rparr>) i = ft_sum (s\<lparr>ft_balances := b\<rparr>) i"
  "ft_sum (s\<lparr>ft_allowances := al, ft_balances := b\<rparr>) i = ft_sum (s\<lparr>ft_balances := b\<rparr>) i"
  by (simp_all add: ft_sum_def)

lemma ft_sum_upd:
  "ft_sum (s\<lparr>ft_balances := B((i, a) := v)\<rparr>) j + (if i = j then unat (B (i, a)) else 0)
     = ft_sum (s\<lparr>ft_balances := B\<rparr>) j + (if i = j then unat v else 0)"
proof (cases "i = j")
  case True
  have "(\<lambda>c. (B((i, a) := v)) (i, c)) = (\<lambda>c. B (i, c))(a := v)" by auto
  then show ?thesis
    using True total_of_upd [of "\<lambda>c. B (i, c)" a v] by (simp add: ft_sum_def)
qed (simp add: ft_sum_def)

lemma ft_sum_upd_same [simp]: "ft_sum (s\<lparr>ft_balances := ft_balances s\<rparr>) j = ft_sum s j"
  by (simp add: ft_sum_def)

lemma ft_sum_add:
  assumes "unat x = unat (ft_balances s (i, a)) + unat v"
  shows "ft_sum (s\<lparr>ft_balances := (ft_balances s)((i, a) := x)\<rparr>) j
           = ft_sum s j + (if i = j then unat v else 0)"
  using ft_sum_upd [where s = s and B = "ft_balances s" and i = i and a = a and v = x and j = j] assms by (auto split: if_splits)

lemma ft_sum_sub:
  assumes "unat (ft_balances s (i, a)) = unat v + unat x"
  shows "ft_sum (s\<lparr>ft_balances := (ft_balances s)((i, a) := x)\<rparr>) j + (if i = j then unat v else 0)
           = ft_sum s j"
  using ft_sum_upd [where s = s and B = "ft_balances s" and i = i and a = a and v = x and j = j] assms by (auto split: if_splits)

lemma ft_sum_move:
  assumes "unat (ft_balances s (i, a)) = unat v + unat x"
    and "unat y = unat (((ft_balances s)((i, a) := x)) (i, b)) + unat v"
  shows "ft_sum (s\<lparr>ft_balances := (ft_balances s)((i, a) := x, (i, b) := y)\<rparr>) j = ft_sum s j"
  using ft_sum_upd [where s = s and B = "(ft_balances s)((i, a) := x)" and i = i and a = b and v = y and j = j]
    ft_sum_sub [OF assms(1), of j] assms(2)
  by (auto split: if_splits)

lemma ft_internal_transfer_sum:
  "ft_internal_transfer i a b v s = Inr s' \<Longrightarrow> ft_sum s' j = ft_sum s j"
  by (auto simp: ft_internal_transfer_ok ft_sum_move)

lemma ft_do_mint_sum:
  assumes "ft_do_mint i w a v s = Inr s'"
  shows "ft_sum s' j = ft_sum s j + (if i = j then unat v else 0)"
proof -
  from assms obtain x where "unat x = unat (ft_balances s (i, a)) + unat v"
    and "ft_sum s' j = ft_sum (s\<lparr>ft_balances := (ft_balances s)((i, a) := x)\<rparr>) j"
    by (auto simp: ft_do_mint_ok ft_internal_mint_ok)
  then show ?thesis by (simp add: ft_sum_add)
qed

lemma ft_balance_le_sum: "unat (ft_balances s (i, a)) \<le> ft_sum s i"
  unfolding ft_sum_def by (rule total_of_ge [of "\<lambda>a. ft_balances s (i, a)"])

lemma ft_balance_le_sum2:
  "a \<noteq> b \<Longrightarrow> unat (ft_balances s (i, a)) + unat (ft_balances s (i, b)) \<le> ft_sum s i"
  unfolding ft_sum_def by (rule total_of_ge2 [of a b "\<lambda>a. ft_balances s (i, a)"])

section \<open>The invariant\<close>

lemma ft_genesis_inv: "ft_inv ft_genesis"
  by (simp add: ft_inv_def ft_token_ok_def ft_genesis_def ft_sum_def)

lemma ft_inv_same:
  assumes "ft_inv s" and "ft_tokens s' = ft_tokens s" and "\<And>i. ft_sum s' i = ft_sum s i"
  shows "ft_inv s'"
  using assms by (simp add: ft_inv_def ft_token_ok_def cong: option.case_cong)

lemma ft_internal_transfer_inv:
  assumes "ft_inv s" and tr: "ft_internal_transfer i a b v s = Inr s'"
  shows "ft_inv s'"
proof (rule ft_inv_same [OF assms(1)])
  show "ft_tokens s' = ft_tokens s" using tr by (auto simp: ft_internal_transfer_ok)
qed (rule ft_internal_transfer_sum [OF tr])

lemma ft_do_create_token_inv:
  "ft_inv s \<Longrightarrow> ft_do_create_token w i nm sy dc s = Inr s' \<Longrightarrow> ft_inv s'"
  by (auto simp: ft_inv_def ft_token_ok_def ft_do_create_token_ok cong: option.case_cong)

lemma ft_internal_mint_inv:
  assumes inv: "ft_inv s" and mint: "ft_internal_mint i a v s = Inr s'"
  shows "ft_inv s'"
  unfolding ft_inv_def
proof
  fix j
  from mint obtain t x where t: "ft_tokens s i = Some t"
    and x: "unat x = unat (ft_balances s (i, a)) + unat v"
    and s': "s' = ft_deposit_event (FtMint i zero_account_id a v)
              (s\<lparr>ft_balances := (ft_balances s)((i, a) := x),
                 ft_tokens := (ft_tokens s)(i \<mapsto>
                   t\<lparr>ft_total_supply := saturating_add (ft_total_supply t) v\<rparr>)\<rparr>)"
    by (auto simp: ft_internal_mint_ok)
  have "ft_token_ok s i" and "ft_token_ok s j"
    using inv by (simp_all add: ft_inv_def)
  then show "ft_token_ok s' j"
    using t by (auto simp: ft_token_ok_def s' ft_sum_add [OF x] unat_saturating_add
        split: option.splits)
qed

lemma ft_do_burn_inv:
  assumes inv: "ft_inv s" and burn: "ft_do_burn i a v s = Inr s'"
  shows "ft_inv s'"
  unfolding ft_inv_def
proof
  fix j
  from burn obtain t x where t: "ft_tokens s i = Some t"
    and x: "unat (ft_balances s (i, a)) = unat v + unat x"
    and s': "s' = ft_deposit_event (FtTransfer i a zero_account_id v)
              (s\<lparr>ft_balances := (ft_balances s)((i, a) := x),
                 ft_tokens := (ft_tokens s)(i \<mapsto>
                   t\<lparr>ft_total_supply := saturating_sub (ft_total_supply t) v\<rparr>)\<rparr>)"
    by (auto simp: ft_do_burn_ok)
  have "ft_token_ok s i" and "ft_token_ok s j"
    using inv by (simp_all add: ft_inv_def)
  then show "ft_token_ok s' j"
    using t ft_sum_sub [OF x, of j] by (auto simp: ft_token_ok_def s' unat_saturating_sub
        split: option.splits if_splits)
qed

lemma ft_allowances_inv [simp]: "ft_inv (s\<lparr>ft_allowances := al\<rparr>) \<longleftrightarrow> ft_inv s"
  by (simp add: ft_inv_def ft_token_ok_def cong: option.case_cong)

lemma ft_event_inv [simp]: "ft_inv (ft_deposit_event e s) \<longleftrightarrow> ft_inv s"
  by (simp add: ft_inv_def ft_token_ok_def cong: option.case_cong)

lemma ft_do_transfer_internal:
  "ft_do_transfer i a b v s = Inr s' \<Longrightarrow> ft_internal_transfer i a b v s = Inr s'"
  by (simp add: ft_do_transfer_def result_eqs)

lemma ft_do_transfer_inv: "ft_inv s \<Longrightarrow> ft_do_transfer i a b v s = Inr s' \<Longrightarrow> ft_inv s'"
  by (blast intro: ft_internal_transfer_inv ft_do_transfer_internal)

lemma ft_do_mint_inv: "ft_inv s \<Longrightarrow> ft_do_mint i w a v s = Inr s' \<Longrightarrow> ft_inv s'"
  by (auto simp: ft_do_mint_ok intro: ft_internal_mint_inv)

lemma ft_do_transfer_from_inv:
  assumes "ft_inv s" and "ft_do_transfer_from i w a b v s = Inr s'"
  shows "ft_inv s'"
proof -
  from assms(2) obtain l where
    "ft_internal_transfer i a b v (s\<lparr>ft_allowances := (ft_allowances s)((i, a, w) := l)\<rparr>) = Inr s'"
    by (auto simp: ft_do_transfer_from_ok)
  from ft_internal_transfer_inv [OF _ this] assms(1) show ?thesis by simp
qed

lemma ft_do_approve_inv: "ft_inv s \<Longrightarrow> ft_do_approve i w p v s = Inr s' \<Longrightarrow> ft_inv s'"
  by (auto simp: ft_do_approve_ok)

lemma ft_dispatchE:
  assumes "ft_dispatch (orig, c) s = Inr s'"
  obtains (create) who tid nm sy dc where "orig = Signed who" "c = FtCreateToken tid nm sy dc"
      "ft_tokens s tid = None" "ft_do_create_token who tid nm sy dc s = Inr s'"
  | (approve) who tid p v where "orig = Signed who" "c = FtApprove tid p v"
      "ft_do_approve tid who p v s = Inr s'"
  | (transfer) who tid b v where "orig = Signed who" "c = FtTransferCall tid b v"
      "ft_do_transfer tid who b v s = Inr s'"
  | (transfer_from) who tid a b v where "orig = Signed who" "c = FtTransferFrom tid a b v"
      "ft_do_transfer_from tid who a b v s = Inr s'"
  | (mint) who tid a v where "orig = Signed who" "c = FtMintCall tid a v"
      "ft_do_mint tid who a v s = Inr s'"
  | (burn) who tid v where "orig = Signed who" "c = FtBurn tid v"
      "ft_do_burn tid who v s = Inr s'"
  using assms by (cases c) (auto simp: ft_call_defs result_eqs ft_exists_def)

lemma ft_dispatch_inv:
  assumes "ft_inv s" and "ft_dispatch c s = Inr s'"
  shows "ft_inv s'"
proof -
  obtain orig call where c: "c = (orig, call)" by (cases c)
  from assms(2) [unfolded c] show ?thesis
    by (cases rule: ft_dispatchE)
      (blast intro: ft_do_create_token_inv [OF assms(1)] ft_do_approve_inv [OF assms(1)]
        ft_do_transfer_inv [OF assms(1)] ft_do_transfer_from_inv [OF assms(1)]
        ft_do_mint_inv [OF assms(1)] ft_do_burn_inv [OF assms(1)])+
qed

interpretation ft: pallet_invariant ft_dispatch ft_inv
  by unfold_locales (rule ft_dispatch_inv)

section \<open>The interface other pallets rely on\<close>

text \<open>
  The exchange, farming and launchpad pallets hold tokens in accounts of their own and move them
  with \<open>do_transfer\<close> only. What they rely on: a successful transfer has two different ends, takes
  exactly the amount from one, gives exactly the amount to the other and changes no other balance;
  and it succeeds whenever the sender has the amount and the receiver's balance has room for it.
\<close>

locale fungible_ledger =
  fixes balance :: "'s \<Rightarrow> u128 \<Rightarrow> account \<Rightarrow> u128"
    and move :: "u128 \<Rightarrow> account \<Rightarrow> account \<Rightarrow> u128 \<Rightarrow> 's \<Rightarrow> 's dispatch"
  assumes move_ends: "move i a b v s = Inr s' \<Longrightarrow> a \<noteq> b"
    and move_from: "move i a b v s = Inr s' \<Longrightarrow> unat (balance s i a) = unat (balance s' i a) + unat v"
    and move_to: "move i a b v s = Inr s' \<Longrightarrow> unat (balance s' i b) = unat (balance s i b) + unat v"
    and move_frame: "move i a b v s = Inr s' \<Longrightarrow> j \<noteq> i \<or> c \<noteq> a \<and> c \<noteq> b \<Longrightarrow> balance s' j c = balance s j c"
    and move_progress: "a \<noteq> b \<Longrightarrow> unat v \<le> unat (balance s i a) \<Longrightarrow>
      unat (balance s i b) + unat v < 2 ^ 128 \<Longrightarrow> \<exists>s'. move i a b v s = Inr s'"
begin

text \<open>A balance is bounded below by what was there minus what left.\<close>

lemma move_other: "move i a b v s = Inr s' \<Longrightarrow> c \<noteq> a \<Longrightarrow> unat (balance s j c) \<le> unat (balance s' j c)"
  using move_to [of i a b v s s'] move_frame [of i a b v s s' j c]
  by (cases "j = i \<and> c = b") auto

lemma move_amount: "move i a b v s = Inr s' \<Longrightarrow> unat v \<le> unat (balance s i a)"
  using move_from [of i a b v s s'] by simp

text \<open>Paying into an account and taking the same amount back restores every balance.\<close>

lemma move_ret:
  assumes there: "move i a b v s = Inr s'"
  obtains t where "move i b a v s' = Inr t" and "balance t = balance s"
proof -
  note there_facts = move_ends [OF there] move_from [OF there] move_to [OF there]
  have "\<exists>t. move i b a v s' = Inr t"
    using there_facts unat_bound [of "balance s i a"] by (intro move_progress) auto
  then obtain t where ret: "move i b a v s' = Inr t" by blast
  have "balance t j c = balance s j c" for j c
  proof (cases "j = i \<and> (c = a \<or> c = b)")
    case True
    with there_facts move_from [OF ret] move_to [OF ret] show ?thesis
      by (auto intro!: word_eq_unatI)
  next
    case False
    then show ?thesis using move_frame [OF ret, of j c] move_frame [OF there, of j c] by auto
  qed
  then have "balance t = balance s" by (intro ext)
  with ret show thesis by (rule that)
qed

end

interpretation ftl: fungible_ledger "\<lambda>s i a. ft_balances s (i, a)" ft_do_transfer
proof unfold_locales
  fix a b :: account and v i :: u128 and s :: ft_storage
  assume "a \<noteq> b" and le: "unat v \<le> unat (ft_balances s (i, a))"
    and room: "unat (ft_balances s (i, b)) + unat v < 2 ^ 128"
  have "unat (ft_balances s (i, a)) = unat v + unat (ft_balances s (i, a) - v)"
    using le by (simp add: unat_diff_le word_le_nat_alt)
  moreover have "unat (ft_balances s (i, b) + v) = unat (ft_balances s (i, b)) + unat v"
    using room by (simp add: unat_add_small)
  ultimately show "\<exists>s'. ft_do_transfer i a b v s = Inr s'"
    using \<open>a \<noteq> b\<close> by (auto simp: ft_do_transfer_ok)
qed (auto simp: ft_do_transfer_ok)

lemma ft_do_transfer_frame:
  "ft_do_transfer i a b v s = Inr s' \<Longrightarrow>
     ft_tokens s' = ft_tokens s \<and> ft_allowances s' = ft_allowances s \<and> ft_sum s' j = ft_sum s j"
  using ft_internal_transfer_sum [OF ft_do_transfer_internal]
  by (auto simp: ft_do_transfer_ok)

lemma ft_owner_stable:
  assumes "ft_dispatch c s = Inr s'" and "ft_tokens s i = Some t"
  shows "\<exists>t'. ft_tokens s' i = Some t' \<and> ft_owner t' = ft_owner t"
proof -
  obtain orig call where c: "c = (orig, call)" by (cases c)
  from assms(1) [unfolded c] show ?thesis
    by (cases rule: ft_dispatchE) (use assms(2) in \<open>auto simp: ft_ok\<close>)
qed

lemma ft_do_burn_sum:
  assumes "ft_do_burn i a v s = Inr s'"
  shows "ft_sum s j = ft_sum s' j + (if i = j then unat v else 0)"
proof -
  from assms obtain x where x: "unat (ft_balances s (i, a)) = unat v + unat x"
    and "ft_sum s' j = ft_sum (s\<lparr>ft_balances := (ft_balances s)((i, a) := x)\<rparr>) j"
    by (auto simp: ft_do_burn_ok)
  with ft_sum_sub [OF x, of j] show ?thesis by simp
qed

lemma ft_sum_increase_owner:
  assumes "ft_dispatch (orig, c) s = Inr s'" and "ft_sum s tid < ft_sum s' tid"
  shows "\<exists>t. ft_tokens s tid = Some t \<and> orig = Signed (ft_owner t)"
  using assms(1)
proof (cases rule: ft_dispatchE)
  case (mint who i b v)
  then obtain t where "ft_tokens s i = Some t" "ft_owner t = who"
    and "ft_internal_mint i b v s = Inr s'"
    by (auto simp: ft_do_mint_ok)
  moreover from this have "i = tid"
    using assms(2) by (auto simp: ft_internal_mint_ok ft_sum_add split: if_splits)
  ultimately show ?thesis using mint by auto
next
  case (transfer_from who i frm b v)
  then obtain l where "ft_internal_transfer i frm b v
          (s\<lparr>ft_allowances := (ft_allowances s)((i, frm, who) := l)\<rparr>) = Inr s'"
    by (auto simp: ft_do_transfer_from_ok)
  from ft_internal_transfer_sum [OF this, of tid] assms(2) show ?thesis by simp
next
  case (transfer who i b v)
  with ft_do_transfer_frame assms(2) show ?thesis by fastforce
next
  case (burn who i v)
  then obtain x where "unat (ft_balances s (i, who)) = unat v + unat x"
    and "ft_sum s' tid = ft_sum (s\<lparr>ft_balances := (ft_balances s)((i, who) := x)\<rparr>) tid"
    by (auto simp: ft_do_burn_ok)
  with ft_sum_sub [of s i who v x tid] assms(2) show ?thesis by simp
qed (use assms(2) in \<open>auto simp: ft_do_create_token_ok ft_do_approve_ok\<close>)

lemma ft_debit_allowance:
  assumes "ft_dispatch (Signed w, c) s = Inr s'" and "a \<noteq> w"
  shows "unat (ft_balances s (tid, a)) + unat (ft_allowances s' (tid, a, w))
       \<le> unat (ft_balances s' (tid, a)) + unat (ft_allowances s (tid, a, w))"
  using assms(1)
proof (cases rule: ft_dispatchE)
  case (transfer_from who i frm b v)
  then obtain l where l: "unat (ft_allowances s (i, frm, w)) = unat v + unat l"
    and tr: "ft_internal_transfer i frm b v
          (s\<lparr>ft_allowances := (ft_allowances s)((i, frm, w) := l)\<rparr>) = Inr s'"
    by (auto simp: ft_do_transfer_from_ok)
  from tr l show ?thesis
    by (auto simp: ft_internal_transfer_ok split: if_splits)
next
  case (mint who i b v)
  then show ?thesis by (auto simp: ft_do_mint_ok ft_internal_mint_ok)
qed (use assms(2) in \<open>auto simp: ft_do_create_token_ok ft_do_approve_ok ft_do_transfer_ok ft_do_burn_ok\<close>)

lemma ft_dispatch_signed: "ft_dispatch (orig, c) s = Inr s' \<Longrightarrow> \<exists>who. orig = Signed who"
  by (erule ft_dispatchE) auto

lemma ft_allowance_le:
  assumes "ft_dispatch (Signed w, c) s = Inr s'" and "a \<noteq> w"
  shows "unat (ft_allowances s' (tid, a, b)) \<le> unat (ft_allowances s (tid, a, b))"
  using assms(1)
proof (cases rule: ft_dispatchE)
  case (transfer_from who i frm d v)
  then obtain l where "unat (ft_allowances s (i, frm, w)) = unat v + unat l"
    and "ft_allowances s' = (ft_allowances s)((i, frm, w) := l)"
    by (auto simp: ft_do_transfer_from_ok ft_internal_transfer_ok)
  then show ?thesis by auto
qed (use assms(2) in \<open>auto simp: ft_ok\<close>)

text \<open>Nobody else can take tokens out of protected accounts, or lift their protection.\<close>

lemma ft_dispatch_protected:
  assumes "ft_dispatch (orig, c) s = Inr s'" and "ft_protected A s" and "\<forall>a \<in> A. orig \<noteq> Signed a"
  shows "ft_protected A s'" and "a \<in> A \<Longrightarrow> ft_balances s (t, a) \<le> ft_balances s' (t, a)"
proof -
  from ft_dispatch_signed [OF assms(1)] obtain w where w: "orig = Signed w" by blast
  note call = assms(1) [unfolded w]
  have zero: "ft_allowances s' (t, a, b) = 0" if "a \<in> A" for t a b
    using ft_allowance_le [OF call, of a t b] assms(2,3) that w
    by (auto simp: ft_protected_def unat_eq_zero)
  then show "ft_protected A s'" by (simp add: ft_protected_def)
  show "ft_balances s (t, a) \<le> ft_balances s' (t, a)" if "a \<in> A"
    using ft_debit_allowance [OF call, of a t] zero [OF that] assms(2,3) that w
    by (auto simp: ft_protected_def word_le_nat_alt)
qed

lemma ft_do_transfer_protected:
  "ft_do_transfer i a b v s = Inr s' \<Longrightarrow> ft_protected A s' \<longleftrightarrow> ft_protected A s"
  by (auto simp: ft_do_transfer_ok ft_protected_def)

section \<open>Properties\<close>

lemma ft_exact_bound:
  assumes "ft_exact tid s"
  shows "ft_sum s tid < 2 ^ 128"
proof -
  from assms obtain t :: ft_token where "unat (ft_total_supply t) = ft_sum s tid"
    by (auto simp: ft_exact_def)
  with u128_bound [of "ft_total_supply t"] show ?thesis by simp
qed

lemma ft_exact_same:
  assumes "ft_exact i s" and "ft_tokens s' i = ft_tokens s i" and "ft_sum s' i = ft_sum s i"
  shows "ft_exact i s'"
  using assms by (simp add: ft_exact_def)

text \<open>
  C3: Whatever calls are made from genesis, in whatever order and by whomever, failed ones included,
  every token's recorded supply is covered by the balances of its holders, no account holds a token
  that was never created, and every stored name and symbol is within the length limit.
\<close>

theorem ft_inv_exec: "ft_inv (exec ft_dispatch cs ft_genesis)"
  by (rule ft.exec_inv [OF ft_genesis_inv])

text \<open>
  What \<open>transfer\<close> returns, on every branch: to oneself is refused, more than the balance is
  refused, and otherwise the amount moves. The overflow error of the receiving balance cannot occur
  while the recorded supply is the sum of the balances.
\<close>

theorem ft_transfer_spec:
  assumes "ft_exact tid s"
  shows "ft_transfer (Signed a) tid b v s =
    (if a = b then Inl (TokenFungibleError FtConfuseBehavior)
     else if ft_balances s (tid, a) < v then Inl (TokenFungibleError FtInsufficientTokens)
     else Inr (ft_deposit_event (FtTransfer tid a b v)
       (s\<lparr>ft_balances := (ft_balances s)((tid, a) := ft_balances s (tid, a) - v,
                                         (tid, b) := ft_balances s (tid, b) + v)\<rparr>)))"
proof (cases "a \<noteq> b \<and> v \<le> ft_balances s (tid, a)")
  case True
  then have "unat (ft_balances s (tid, a)) = unat v + unat (ft_balances s (tid, a) - v)"
    by (simp add: unat_diff_le word_le_nat_alt)
  moreover have "unat (ft_balances s (tid, b) + v) = unat (ft_balances s (tid, b)) + unat v"
    using True ft_balance_le_sum2 [of a b s tid] ft_exact_bound [OF assms]
    by (intro unat_add_small) (auto simp: word_le_nat_alt)
  ultimately have "ft_do_transfer tid a b v s = Inr (ft_deposit_event (FtTransfer tid a b v)
       (s\<lparr>ft_balances := (ft_balances s)((tid, a) := ft_balances s (tid, a) - v,
                                         (tid, b) := ft_balances s (tid, b) + v)\<rparr>))"
    using True by (auto simp: ft_do_transfer_ok)
  with True show ?thesis by (simp add: ft_transfer_def not_less)
qed (auto simp: ft_transfer_def ft_do_transfer_def ensure_def)

text \<open>
  C6: Nobody else can take an account's tokens: a call signed by \<open>w\<close> lowers the balance of
  another account by no more than it lowers that account's allowance for \<open>w\<close>.
\<close>

theorem ft_no_theft:
  assumes "ft_dispatch (Signed w, c) s = Inr s'" and "a \<noteq> w"
  shows "unat (ft_balances s (tid, a)) + unat (ft_allowances s' (tid, a, w))
       \<le> unat (ft_balances s' (tid, a)) + unat (ft_allowances s (tid, a, w))"
  using assms by (rule ft_debit_allowance)

text \<open>
  C7: Only the owner of a token can bring more of it into existence: if a call raises the sum of the
  balances, then it was signed by the account the token records as its owner.
\<close>

theorem ft_supply_only_owner:
  assumes "ft_dispatch (orig, c) s = Inr s'" and "ft_sum s tid < ft_sum s' tid"
  shows "\<exists>t. ft_tokens s tid = Some t \<and> orig = Signed (ft_owner t)"
  using assms by (rule ft_sum_increase_owner)

text \<open>
  The recorded supply stays the exact sum of the balances across any call after which that sum is
  below \<open>u128::MAX\<close>: only saturation can make the two part.
\<close>

theorem ft_exact_step:
  assumes "ft_exact tid s" and "ft_dispatch (orig, c) s = Inr s'" and "ft_sum s' tid < 2 ^ 128"
  shows "ft_exact tid s'"
  using assms(2)
proof (cases rule: ft_dispatchE)
  case (create who i nm sy dc)
  then have "i \<noteq> tid" using assms(1) by (auto simp: ft_exact_def)
  with create assms(1) show ?thesis by (auto simp: ft_do_create_token_ok ft_exact_def)
next
  case (transfer_from who i frm b v)
  then obtain l where tr: "ft_internal_transfer i frm b v
          (s\<lparr>ft_allowances := (ft_allowances s)((i, frm, who) := l)\<rparr>) = Inr s'"
    by (auto simp: ft_do_transfer_from_ok)
  then have "ft_tokens s' = ft_tokens s" by (auto simp: ft_internal_transfer_ok)
  with ft_internal_transfer_sum [OF tr, of tid] assms(1) show ?thesis
    by (intro ft_exact_same [OF assms(1)]) auto
next
  case (transfer who i b v)
  from ft_do_transfer_frame [OF transfer(3), of tid] show ?thesis
    by (intro ft_exact_same [OF assms(1)]) simp_all
next
  case (mint who i b v)
  then have "ft_internal_mint i b v s = Inr s'" by (auto simp: ft_do_mint_ok)
  then show ?thesis
    using assms(1,3)
    by (auto simp: ft_internal_mint_ok ft_exact_def ft_sum_add unat_saturating_add split: if_splits)
next
  case (burn who i v)
  then obtain t x where t: "ft_tokens s i = Some t"
    and x: "unat (ft_balances s (i, who)) = unat v + unat x"
    and s': "s' = ft_deposit_event (FtTransfer i who zero_account_id v)
              (s\<lparr>ft_balances := (ft_balances s)((i, who) := x),
                 ft_tokens := (ft_tokens s)(i \<mapsto>
                   t\<lparr>ft_total_supply := saturating_sub (ft_total_supply t) v\<rparr>)\<rparr>)"
    by (auto simp: ft_do_burn_ok)
  with assms(1) ft_sum_sub [OF x, of tid] show ?thesis
    by (auto simp: ft_exact_def unat_saturating_sub split: if_splits)
qed (use assms(1) in \<open>auto simp: ft_do_approve_ok ft_exact_def\<close>)

text \<open>
  The recorded supply can fall below what is held: the largest amount minted to one account, one
  more unit to another (the supply saturates) and the first burned again leaves the supply at 0 with
  one unit still in circulation.
\<close>

theorem ft_supply_drift:
  "let s = exec ft_dispatch
       [(Signed 1, FtCreateToken 7 [] [] 0), (Signed 1, FtMintCall 7 2 (- 1)),
        (Signed 1, FtMintCall 7 3 1), (Signed 2, FtBurn 7 (- 1))] ft_genesis
   in ft_supply 7 s = Inr 0 \<and> ft_balance_of 7 3 s = 1"
  by (simp add: ft_call_defs ft_defs ft_increase_balance_def ft_decrease_balance_def ft_genesis_def
      ft_exists_def ft_deposit_event_def ft_supply_def ft_balance_of_def checked_add_def
      checked_sub_def saturating_add_def saturating_sub_def bounded_vec_def StringLimit_def ensure_def
      ok_or_def unat_minus_one)

section \<open>Concrete instances\<close>

lemma ft_example_exact: "ft_exact 7 ft_example"
proof -
  have "(\<lambda>a. ft_balances ft_example (7, a)) = (\<lambda>_. 0)(1 := 100)"
    by (auto simp: ft_example_def)
  then have "ft_sum ft_example 7 = 100" by (simp add: ft_sum_def total_of_single)
  then show ?thesis by (simp add: ft_exact_def ft_example_def)
qed

lemmas ft_eval =
  ft_call_defs ft_defs ft_increase_balance_def ft_decrease_balance_def ft_example_def
  ft_exists_def ft_deposit_event_def checked_add_def checked_sub_def saturating_add_def
  saturating_sub_def bounded_vec_def StringLimit_def ensure_def ok_or_def

theorem ft_transfer_spec_witness:
  "ft_transfer (Signed 1) 7 2 40 ft_example
     = Inr (ft_deposit_event (FtTransfer 7 1 2 40)
         (ft_example\<lparr>ft_balances := (ft_balances ft_example)((7, 1) := 60, (7, 2) := 40)\<rparr>))"
  using ft_transfer_spec [OF ft_example_exact, of 1 2 40] by (simp add: ft_example_def)

theorem ft_no_theft_witness:
  "\<exists>s'. ft_dispatch (Signed 2, FtTransferFrom 7 1 3 50) ft_example = Inr s'
     \<and> 100 + unat (ft_allowances s' (7, 1, 2)) \<le> unat (ft_balances s' (7, 1)) + 60"
proof -
  obtain s' where s': "ft_dispatch (Signed 2, FtTransferFrom 7 1 3 50) ft_example = Inr s'"
    by (simp add: ft_eval)
  from ft_no_theft [OF s', of 1 7] show ?thesis
    by (intro exI [of _ s'] conjI s') (simp add: ft_example_def)
qed

theorem ft_supply_only_owner_witness:
  "\<exists>s' t. ft_dispatch (Signed 1, FtMintCall 7 2 5) ft_example = Inr s'
     \<and> ft_tokens ft_example 7 = Some t \<and> Signed 1 = Signed (ft_owner t)"
proof -
  obtain s' where s': "ft_dispatch (Signed 1, FtMintCall 7 2 5) ft_example = Inr s'"
    by (simp add: ft_eval)
  then have "ft_sum ft_example 7 < ft_sum s' 7"
    by (auto simp: ft_mint_def result_eqs dest: ft_do_mint_sum [where j = 7])
  from ft_supply_only_owner [OF s' this] s' show ?thesis by blast
qed

theorem ft_exact_step_witness:
  "\<exists>s'. ft_dispatch (Signed 1, FtMintCall 7 2 5) ft_example = Inr s' \<and> ft_exact 7 s'"
proof -
  obtain s' where s': "ft_dispatch (Signed 1, FtMintCall 7 2 5) ft_example = Inr s'"
    by (simp add: ft_eval)
  have "ft_sum ft_example 7 = 100"
    using ft_example_exact by (simp add: ft_exact_def ft_example_def)
  with s' have "ft_sum s' 7 < 2 ^ 128"
    by (auto simp: ft_mint_def result_eqs dest: ft_do_mint_sum [where j = 7])
  from ft_exact_step [OF ft_example_exact s' this] s' show ?thesis by blast
qed

end
