(* ===== verification/Enumeration.thy ===== *)
theory Enumeration
  imports Prelude "HOL-Library.FuncSet"
begin

text \<open>
  An indexed enumeration of a set, kept as two tables: position to element and element to
  position. The non-fungible pallet keeps one over all tokens of a class and one over the tokens of
  each account, and removes by moving the last element into the gap. \<open>enumerates n at ix S\<close> says
  that the first \<open>n\<close> positions list the set \<open>S\<close> without repetition and that \<open>ix\<close> is
  the inverse table.
\<close>

definition enumerates :: "u32 \<Rightarrow> (u32 \<Rightarrow> 't) \<Rightarrow> ('t \<Rightarrow> u32) \<Rightarrow> 't set \<Rightarrow> bool" where
  "enumerates n at ix S \<longleftrightarrow>
     (\<forall>i. i < n \<longrightarrow> at i \<in> S \<and> ix (at i) = i) \<and>
     (\<forall>t. t \<in> S \<longrightarrow> ix t < n \<and> at (ix t) = t)"

lemma enumeratesI:
  assumes "\<And>i. i < n \<Longrightarrow> at i \<in> S" and "\<And>i. i < n \<Longrightarrow> ix (at i) = i"
    and "\<And>t. t \<in> S \<Longrightarrow> ix t < n" and "\<And>t. t \<in> S \<Longrightarrow> at (ix t) = t"
  shows "enumerates n at ix S"
  using assms by (simp add: enumerates_def)

lemma enumerates_at: "enumerates n at ix S \<Longrightarrow> i < n \<Longrightarrow> at i \<in> S"
  by (simp add: enumerates_def)

lemma enumerates_ix_at: "enumerates n at ix S \<Longrightarrow> i < n \<Longrightarrow> ix (at i) = i"
  by (simp add: enumerates_def)

lemma enumerates_ix: "enumerates n at ix S \<Longrightarrow> t \<in> S \<Longrightarrow> ix t < n"
  by (simp add: enumerates_def)

lemma enumerates_at_ix: "enumerates n at ix S \<Longrightarrow> t \<in> S \<Longrightarrow> at (ix t) = t"
  by (simp add: enumerates_def)

lemma enumerates_empty [simp]: "enumerates 0 at ix {}"
  by (simp add: enumerates_def)

text \<open>The tables only matter inside the enumerated range.\<close>

lemma enumerates_cong:
  assumes "enumerates n at ix S"
    and "\<And>i. i < n \<Longrightarrow> at' i = at i" and "\<And>t. t \<in> S \<Longrightarrow> ix' t = ix t"
  shows "enumerates n at' ix' S"
  using assms by (auto simp: enumerates_def)

lemma enumerates_bij: "enumerates n at ix S \<Longrightarrow> bij_betw at {..<n} S"
  by (intro bij_betwI [where g = ix]) (auto simp: enumerates_def)

lemma enumerates_card:
  assumes "enumerates n at ix S"
  shows "finite S" and "card S = unat n"
proof -
  have "bij_betw at {..<n} S" using assms by (rule enumerates_bij)
  moreover have "card {..<n} = unat n"
  proof -
    have small: "unat (of_nat y :: u32) = y" if "y < unat n" for y
      using that unat_bound [of n] by (intro unat_of_nat_less) simp
    have "bij_betw unat {..<n} {..<unat n}"
      by (intro bij_betwI [where g = of_nat]) (auto simp: word_less_nat_alt small)
    then show ?thesis by (simp add: bij_betw_same_card)
  qed
  ultimately show "finite S" and "card S = unat n"
    by (auto simp: bij_betw_finite [symmetric] bij_betw_same_card [symmetric])
qed

text \<open>A set is enumerated by one length only, so an empty set has length 0 and conversely.\<close>

lemma enumerates_zero_iff: "enumerates n at ix S \<Longrightarrow> n = 0 \<longleftrightarrow> S = {}"
  using enumerates_card [of n at ix S] by (auto simp: unat_eq_zero)

text \<open>Appending a new element at position \<open>n\<close>.\<close>

lemma enumerates_push:
  assumes en: "enumerates n at ix S" and new: "t \<notin> S" and n': "unat n' = unat n + 1"
  shows "enumerates n' (at(n := t)) (ix(t := n)) (insert t S)"
proof -
  have lt: "i < n' \<longleftrightarrow> i < n \<or> i = n" for i
    using n' by (auto simp: word_less_nat_alt intro: word_eq_unatI)
  show ?thesis
  proof (rule enumeratesI)
    fix i assume "i < n'"
    then show "(at(n := t)) i \<in> insert t S"
      using en by (auto simp: lt enumerates_at)
    from \<open>i < n'\<close> show "(ix(t := n)) ((at(n := t)) i) = i"
      using en new by (auto simp: lt enumerates_ix_at dest: enumerates_at)
  next
    fix u assume u: "u \<in> insert t S"
    then show "(ix(t := n)) u < n'"
      using en by (auto simp: lt enumerates_ix)
    from u show "(at(n := t)) ((ix(t := n)) u) = u"
      using en new enumerates_ix [OF en, of u] by (auto simp: enumerates_at_ix)
  qed
qed

text \<open>
  Removing \<open>t\<close>: the last element moves to the position of \<open>t\<close>, then the last position and
  the entry of \<open>t\<close> are cleared (to whatever the tables read as when nothing is stored).
\<close>

lemma enumerates_swap_remove:
  assumes en: "enumerates n at ix S" and t: "t \<in> S" and last: "unat n = unat m + 1"
  shows "enumerates m ((at(ix t := at m))(m := d)) ((ix(at m := ix t))(t := e)) (S - {t})"
proof -
  have lt: "i < n \<longleftrightarrow> i < m \<or> i = m" for i
    using last by (auto simp: word_less_nat_alt intro: word_eq_unatI)
  have m: "m < n" by (simp add: lt)
  have at_eq: "at i = t \<longleftrightarrow> i = ix t" if "i < n" for i
    using en t that by (auto simp: enumerates_at_ix dest: enumerates_ix_at)
  have at_m: "at m \<in> S" "ix (at m) = m"
    using en m by (auto simp: enumerates_at enumerates_ix_at)
  show ?thesis
  proof (rule enumeratesI)
    fix i assume i: "i < m"
    then have "i < n" "i \<noteq> m" by (auto simp: lt)
    then show "((at(ix t := at m))(m := d)) i \<in> S - {t}"
      using en at_eq [of i] at_eq [OF m] at_m by (auto simp: enumerates_at)
    from \<open>i < n\<close> \<open>i \<noteq> m\<close>
    show "((ix(at m := ix t))(t := e)) (((at(ix t := at m))(m := d)) i) = i"
      using en at_eq [of i] at_eq [OF m] at_m enumerates_ix_at [OF en, of i]
      by (auto simp: fun_upd_def)
  next
    fix u assume u: "u \<in> S - {t}"
    then have "u \<in> S" "u \<noteq> t" by auto
    have ix_t: "ix t < n" "at (ix t) = t"
      using en t by (auto simp: enumerates_ix enumerates_at_ix)
    have ix_u: "ix u < n" "at (ix u) = u"
      using en \<open>u \<in> S\<close> by (auto simp: enumerates_ix enumerates_at_ix)
    have u_m: "ix u = m \<longleftrightarrow> u = at m"
      using ix_u at_m by auto
    have t_m: "ix t < m \<or> t = at m"
      using ix_t by (auto simp: lt)
    show "((ix(at m := ix t))(t := e)) u < m"
      using ix_u u_m t_m \<open>u \<noteq> t\<close> by (auto simp: lt)
    show "((at(ix t := at m))(m := d)) (((ix(at m := ix t))(t := e)) u) = u"
      using ix_u ix_t u_m t_m \<open>u \<noteq> t\<close> by (auto simp: fun_upd_def)
  qed
qed

text \<open>
  The owner table skips the move when the removed element is already the last one; the result is
  the same enumeration.
\<close>

lemma enumerates_remove_last:
  assumes en: "enumerates n at ix S" and t: "t \<in> S" and last: "unat n = unat m + 1" and "ix t = m"
  shows "enumerates m (at(m := d)) (ix(t := e)) (S - {t})"
proof -
  have "at m = t" using en t \<open>ix t = m\<close> by (auto simp: enumerates_at_ix)
  with enumerates_swap_remove [OF en t last, of d e] \<open>ix t = m\<close> show ?thesis
    by simp
qed

end
