(* ===== verification/TokenNonFungible.thy ===== *)
theory TokenNonFungible
  imports Frame Enumeration
begin

text \<open>
  The non-fungible token pallet (\<open>pallets/token-non-fungible\<close>): its storage, its internal
  operations in the order of the source, and its calls. The pallet keeps two enumerations by
  position, one of all tokens of a collection and one of the tokens of each owner, and updates them
  by moving the last element into the gap; the invariant states that both list exactly the existing
  tokens, each once.
\<close>

section \<open>Storage, events and calls\<close>

record nft_token =
  nft_owner :: account
  nft_name :: bytes
  nft_symbol :: bytes
  nft_base_uri :: bytes

datatype nft_event =
    NftTokenCreated u128 account bytes bytes bytes
  | NftTransfer u128 account account u128
  | NftApproval u128 account account u128
  | NftApprovalForAll u128 account account bool

record nft_storage =
  nft_tokens :: "u128 \<rightharpoonup> nft_token"
  nft_owners :: "u128 \<times> u128 \<rightharpoonup> account"
  nft_balances :: "u128 \<times> account \<Rightarrow> u32"
  nft_token_approvals :: "u128 \<times> u128 \<rightharpoonup> account"
  nft_operator_approvals :: "u128 \<times> account \<times> account \<Rightarrow> bool"
  nft_total_supplies :: "u128 \<Rightarrow> u32"
  nft_all_tokens :: "u128 \<times> u32 \<Rightarrow> u128"
  nft_all_tokens_index :: "u128 \<times> u128 \<Rightarrow> u32"
  nft_owned_tokens :: "u128 \<times> account \<times> u32 \<Rightarrow> u128"
  nft_owned_tokens_index :: "u128 \<times> account \<times> u128 \<Rightarrow> u32"
  nft_events :: "nft_event list"

datatype nft_call =
    NftCreateToken u128 bytes bytes bytes
  | NftApprove u128 account u128
  | NftSetApproveForAll u128 account bool
  | NftTransferFrom u128 account account u128
  | NftMint u128 account u128
  | NftBurn u128 u128

definition nft_genesis :: nft_storage where
  "nft_genesis = \<lparr>nft_tokens = Map.empty, nft_owners = Map.empty, nft_balances = (\<lambda>_. 0),
     nft_token_approvals = Map.empty, nft_operator_approvals = (\<lambda>_. False),
     nft_total_supplies = (\<lambda>_. 0), nft_all_tokens = (\<lambda>_. 0), nft_all_tokens_index = (\<lambda>_. 0),
     nft_owned_tokens = (\<lambda>_. 0), nft_owned_tokens_index = (\<lambda>_. 0), nft_events = []\<rparr>"

section \<open>Operations\<close>

definition nft_deposit_event :: "nft_event \<Rightarrow> nft_storage \<Rightarrow> nft_storage" where
  "nft_deposit_event e s = s\<lparr>nft_events := nft_events s @ [e]\<rparr>"

definition nft_exists :: "u128 \<Rightarrow> nft_storage \<Rightarrow> bool" where
  "nft_exists tid s \<longleftrightarrow> nft_tokens s tid \<noteq> None"

definition nft_token_exists :: "u128 \<Rightarrow> u128 \<Rightarrow> nft_storage \<Rightarrow> bool" where
  "nft_token_exists tid t s \<longleftrightarrow> nft_owners s (tid, t) \<noteq> None"

definition nft_is_approved_or_owner :: "u128 \<Rightarrow> account \<Rightarrow> u128 \<Rightarrow> nft_storage \<Rightarrow> bool dispatch" where
  "nft_is_approved_or_owner tid spender t s =
     and_then (ok_or (nft_owners s (tid, t)) (TokenNonFungibleError NftNotFound)) (\<lambda>owner.
     Inr (spender = owner \<or> nft_token_approvals s (tid, t) = Some spender
            \<or> nft_operator_approvals s (tid, owner, spender)))"

definition nft_has_permission :: "u128 \<Rightarrow> account \<Rightarrow> nft_storage \<Rightarrow> bool dispatch" where
  "nft_has_permission tid who s =
     (case nft_tokens s tid of None \<Rightarrow> Inl Panicked | Some token \<Rightarrow> Inr (who = nft_owner token))"

definition nft_clear_approval :: "u128 \<Rightarrow> u128 \<Rightarrow> nft_storage \<Rightarrow> nft_storage dispatch" where
  "nft_clear_approval tid t s =
     Inr (s\<lparr>nft_token_approvals := (nft_token_approvals s)((tid, t) := None)\<rparr>)"

definition nft_add_token_to_owner_enumeration ::
  "u128 \<Rightarrow> account \<Rightarrow> u128 \<Rightarrow> nft_storage \<Rightarrow> nft_storage dispatch" where
  "nft_add_token_to_owner_enumeration tid to t s =
     (let new_token_index = nft_balances s (tid, to) in
      Inr (s\<lparr>nft_owned_tokens_index := (nft_owned_tokens_index s)((tid, to, t) := new_token_index),
             nft_owned_tokens := (nft_owned_tokens s)((tid, to, new_token_index) := t)\<rparr>))"

definition nft_add_token_to_all_tokens_enumeration ::
  "u128 \<Rightarrow> u128 \<Rightarrow> nft_storage \<Rightarrow> nft_storage dispatch" where
  "nft_add_token_to_all_tokens_enumeration tid t s =
     (let new_token_index = nft_total_supplies s tid in
      and_then (ok_or (checked_add new_token_index 1) (TokenNonFungibleError NftOverflow)) (\<lambda>total_supply.
      Inr (s\<lparr>nft_all_tokens_index := (nft_all_tokens_index s)((tid, t) := new_token_index),
             nft_all_tokens := (nft_all_tokens s)((tid, new_token_index) := t),
             nft_total_supplies := (nft_total_supplies s)(tid := total_supply)\<rparr>)))"

text \<open>A removed entry of a \<open>ValueQuery\<close> map reads as the default, 0.\<close>

definition nft_remove_token_from_owner_enumeration ::
  "u128 \<Rightarrow> account \<Rightarrow> u128 \<Rightarrow> nft_storage \<Rightarrow> nft_storage dispatch" where
  "nft_remove_token_from_owner_enumeration tid frm t s =
     and_then (ok_or (checked_sub (nft_balances s (tid, frm)) 1) (TokenNonFungibleError NftOverflow))
       (\<lambda>last_token_index.
     let token_index = nft_owned_tokens_index s (tid, frm, t);
         s = (if token_index \<noteq> last_token_index then
                let last_token_id = nft_owned_tokens s (tid, frm, last_token_index) in
                s\<lparr>nft_owned_tokens := (nft_owned_tokens s)((tid, frm, token_index) := last_token_id),
                  nft_owned_tokens_index :=
                    (nft_owned_tokens_index s)((tid, frm, last_token_id) := token_index)\<rparr>
              else s) in
     Inr (s\<lparr>nft_owned_tokens_index := (nft_owned_tokens_index s)((tid, frm, t) := 0),
            nft_owned_tokens := (nft_owned_tokens s)((tid, frm, last_token_index) := 0)\<rparr>))"

definition nft_remove_token_from_all_tokens_enumeration ::
  "u128 \<Rightarrow> u128 \<Rightarrow> nft_storage \<Rightarrow> nft_storage dispatch" where
  "nft_remove_token_from_all_tokens_enumeration tid t s =
     and_then (ok_or (checked_sub (nft_total_supplies s tid) 1) (TokenNonFungibleError NftOverflow))
       (\<lambda>new_total_supply.
     let last_token_index = new_total_supply;
         token_index = nft_all_tokens_index s (tid, t);
         last_token_id = nft_all_tokens s (tid, last_token_index) in
     Inr (s\<lparr>nft_all_tokens := (nft_all_tokens s)
              ((tid, token_index) := last_token_id, (tid, last_token_index) := 0),
            nft_all_tokens_index := (nft_all_tokens_index s)
              ((tid, last_token_id) := token_index, (tid, t) := 0),
            nft_total_supplies := (nft_total_supplies s)(tid := new_total_supply)\<rparr>))"

definition nft_do_create_token ::
  "account \<Rightarrow> u128 \<Rightarrow> bytes \<Rightarrow> bytes \<Rightarrow> bytes \<Rightarrow> nft_storage \<Rightarrow> nft_storage dispatch" where
  "nft_do_create_token who tid name symb base_uri s =
     ensure (\<not> nft_exists tid s) (TokenNonFungibleError NftInvalidId) (
     and_then (ok_or (bounded_vec StringLimit name) (TokenNonFungibleError NftBadMetadata)) (\<lambda>bounded_name.
     and_then (ok_or (bounded_vec StringLimit symb) (TokenNonFungibleError NftBadMetadata)) (\<lambda>bounded_symbol.
     and_then (ok_or (bounded_vec StringLimit base_uri) (TokenNonFungibleError NftBadMetadata)) (\<lambda>bounded_base_uri.
     let token = \<lparr>nft_owner = who, nft_name = bounded_name, nft_symbol = bounded_symbol,
                  nft_base_uri = bounded_base_uri\<rparr> in
     Inr (nft_deposit_event (NftTokenCreated tid who name symb base_uri)
           (s\<lparr>nft_tokens := (nft_tokens s)(tid \<mapsto> token)\<rparr>))))))"

definition nft_do_approve ::
  "account \<Rightarrow> u128 \<Rightarrow> account \<Rightarrow> u128 \<Rightarrow> nft_storage \<Rightarrow> nft_storage dispatch" where
  "nft_do_approve who tid to t s =
     and_then (ok_or (nft_owners s (tid, t)) (TokenNonFungibleError NftNotFound)) (\<lambda>owner.
     ensure (to \<noteq> owner) (TokenNonFungibleError NftApproveToCurrentOwner) (
     ensure (who = owner \<or> nft_operator_approvals s (tid, owner, who))
       (TokenNonFungibleError NftNotOwnerOrApproved) (
     Inr (nft_deposit_event (NftApproval tid owner to t)
           (s\<lparr>nft_token_approvals := (nft_token_approvals s)((tid, t) \<mapsto> to)\<rparr>)))))"

definition nft_do_set_approve_for_all ::
  "account \<Rightarrow> u128 \<Rightarrow> account \<Rightarrow> bool \<Rightarrow> nft_storage \<Rightarrow> nft_storage dispatch" where
  "nft_do_set_approve_for_all who tid operator approved s =
     ensure (operator \<noteq> who) (TokenNonFungibleError NftApproveToCaller) (
     Inr (nft_deposit_event (NftApprovalForAll tid who operator approved)
           (s\<lparr>nft_operator_approvals := (nft_operator_approvals s)((tid, who, operator) := approved)\<rparr>)))"

definition nft_do_transfer ::
  "u128 \<Rightarrow> account \<Rightarrow> account \<Rightarrow> u128 \<Rightarrow> nft_storage \<Rightarrow> nft_storage dispatch" where
  "nft_do_transfer tid frm to t s =
     ensure (nft_owners s (tid, t) = Some frm) (TokenNonFungibleError NftTransferTokenNotOwn) (
     if frm = to then Inr s else
     (let balance_from = nft_balances s (tid, frm); balance_to = nft_balances s (tid, to) in
      and_then (ok_or (checked_sub balance_from 1) (TokenNonFungibleError NftUnderflow)) (\<lambda>new_balance_from.
      and_then (ok_or (checked_add balance_to 1) (TokenNonFungibleError NftOverflow)) (\<lambda>new_balance_to.
      and_then (nft_remove_token_from_owner_enumeration tid frm t s) (\<lambda>s.
      and_then (nft_add_token_to_owner_enumeration tid to t s) (\<lambda>s.
      and_then (nft_clear_approval tid t s) (\<lambda>s.
      Inr (nft_deposit_event (NftTransfer tid frm to t)
            (s\<lparr>nft_balances := (nft_balances s)((tid, frm) := new_balance_from, (tid, to) := new_balance_to),
               nft_owners := (nft_owners s)((tid, t) \<mapsto> to)\<rparr>)))))))))"

definition nft_do_transfer_from ::
  "account \<Rightarrow> u128 \<Rightarrow> account \<Rightarrow> account \<Rightarrow> u128 \<Rightarrow> nft_storage \<Rightarrow> nft_storage dispatch" where
  "nft_do_transfer_from who tid frm to t s =
     ensure (nft_token_exists tid t s) (TokenNonFungibleError NftTokenNonExistent) (
     case nft_is_approved_or_owner tid who t s of
       Inl _ \<Rightarrow> Inl Panicked
     | Inr ok \<Rightarrow>
         ensure ok (TokenNonFungibleError NftNotOwnerOrApproved) (
         nft_do_transfer tid frm to t s))"

definition nft_do_mint ::
  "account \<Rightarrow> u128 \<Rightarrow> account \<Rightarrow> u128 \<Rightarrow> nft_storage \<Rightarrow> nft_storage dispatch" where
  "nft_do_mint who tid to t s =
     ensure (nft_exists tid s) (TokenNonFungibleError NftInvalidId) (
     and_then (nft_has_permission tid who s) (\<lambda>permitted.
     ensure permitted (TokenNonFungibleError NftNoPermission) (
     ensure (\<not> nft_token_exists tid t s) (TokenNonFungibleError NftTokenAlreadyMinted) (
     let balance = nft_balances s (tid, to) in
     and_then (ok_or (checked_add balance 1) (TokenNonFungibleError NftOverflow)) (\<lambda>new_balance.
     and_then (nft_add_token_to_all_tokens_enumeration tid t s) (\<lambda>s.
     and_then (nft_add_token_to_owner_enumeration tid to t s) (\<lambda>s.
     Inr (nft_deposit_event (NftTransfer tid zero_account_id to t)
           (s\<lparr>nft_balances := (nft_balances s)((tid, to) := new_balance),
              nft_owners := (nft_owners s)((tid, t) \<mapsto> to)\<rparr>)))))))))"

definition nft_do_burn :: "account \<Rightarrow> u128 \<Rightarrow> u128 \<Rightarrow> nft_storage \<Rightarrow> nft_storage dispatch" where
  "nft_do_burn who tid t s =
     and_then (ok_or (nft_owners s (tid, t)) (TokenNonFungibleError NftNotFound)) (\<lambda>owner.
     ensure (who = owner) (TokenNonFungibleError NftNotTokenOwner) (
     let balance = nft_balances s (tid, owner) in
     and_then (ok_or (checked_sub balance 1) (TokenNonFungibleError NftUnderflow)) (\<lambda>new_balance.
     and_then (nft_remove_token_from_all_tokens_enumeration tid t s) (\<lambda>s.
     and_then (nft_remove_token_from_owner_enumeration tid owner t s) (\<lambda>s.
     and_then (nft_clear_approval tid t s) (\<lambda>s.
     Inr (nft_deposit_event (NftTransfer tid owner zero_account_id t)
           (s\<lparr>nft_balances := (nft_balances s)((tid, owner) := new_balance),
              nft_owners := (nft_owners s)((tid, t) := None)\<rparr>))))))))"

text \<open>The metadata getters.\<close>

definition nft_token_name :: "u128 \<Rightarrow> nft_storage \<Rightarrow> bytes dispatch" where
  "nft_token_name tid s = (case nft_tokens s tid of None \<Rightarrow> Inl Panicked | Some token \<Rightarrow> Inr (nft_name token))"

definition nft_token_symbol :: "u128 \<Rightarrow> nft_storage \<Rightarrow> bytes dispatch" where
  "nft_token_symbol tid s = (case nft_tokens s tid of None \<Rightarrow> Inl Panicked | Some token \<Rightarrow> Inr (nft_symbol token))"

definition nft_token_uri :: "u128 \<Rightarrow> u128 \<Rightarrow> nft_storage \<Rightarrow> bytes dispatch" where
  "nft_token_uri tid t s =
     (case nft_tokens s tid of None \<Rightarrow> Inl Panicked
      | Some token \<Rightarrow> Inr (nft_base_uri token @ decimal (unat t)))"

definition nft_total_supply :: "u128 \<Rightarrow> nft_storage \<Rightarrow> u32" where
  "nft_total_supply tid s = nft_total_supplies s tid"

definition nft_token_by_index :: "u128 \<Rightarrow> u32 \<Rightarrow> nft_storage \<Rightarrow> u128" where
  "nft_token_by_index tid i s = nft_all_tokens s (tid, i)"

definition nft_token_of_owner_by_index :: "u128 \<Rightarrow> account \<Rightarrow> u32 \<Rightarrow> nft_storage \<Rightarrow> u128" where
  "nft_token_of_owner_by_index tid owner i s = nft_owned_tokens s (tid, owner, i)"

section \<open>Dispatchable calls\<close>

definition nft_create_token ::
  "origin \<Rightarrow> u128 \<Rightarrow> bytes \<Rightarrow> bytes \<Rightarrow> bytes \<Rightarrow> nft_storage \<Rightarrow> nft_storage dispatch" where
  "nft_create_token orig tid name symb base_uri s =
     and_then (ensure_signed orig) (\<lambda>who. nft_do_create_token who tid name symb base_uri s)"

definition nft_approve :: "origin \<Rightarrow> u128 \<Rightarrow> account \<Rightarrow> u128 \<Rightarrow> nft_storage \<Rightarrow> nft_storage dispatch" where
  "nft_approve orig tid to t s = and_then (ensure_signed orig) (\<lambda>who. nft_do_approve who tid to t s)"

definition nft_set_approve_for_all ::
  "origin \<Rightarrow> u128 \<Rightarrow> account \<Rightarrow> bool \<Rightarrow> nft_storage \<Rightarrow> nft_storage dispatch" where
  "nft_set_approve_for_all orig tid operator approved s =
     and_then (ensure_signed orig) (\<lambda>who. nft_do_set_approve_for_all who tid operator approved s)"

definition nft_transfer_from ::
  "origin \<Rightarrow> u128 \<Rightarrow> account \<Rightarrow> account \<Rightarrow> u128 \<Rightarrow> nft_storage \<Rightarrow> nft_storage dispatch" where
  "nft_transfer_from orig tid frm to t s =
     and_then (ensure_signed orig) (\<lambda>who. nft_do_transfer_from who tid frm to t s)"

definition nft_mint :: "origin \<Rightarrow> u128 \<Rightarrow> account \<Rightarrow> u128 \<Rightarrow> nft_storage \<Rightarrow> nft_storage dispatch" where
  "nft_mint orig tid to t s = and_then (ensure_signed orig) (\<lambda>who. nft_do_mint who tid to t s)"

definition nft_burn :: "origin \<Rightarrow> u128 \<Rightarrow> u128 \<Rightarrow> nft_storage \<Rightarrow> nft_storage dispatch" where
  "nft_burn orig tid t s = and_then (ensure_signed orig) (\<lambda>who. nft_do_burn who tid t s)"

fun nft_dispatch :: "origin \<times> nft_call \<Rightarrow> nft_storage \<Rightarrow> nft_storage dispatch" where
  "nft_dispatch (orig, NftCreateToken tid name symb base_uri) s = nft_create_token orig tid name symb base_uri s"
| "nft_dispatch (orig, NftApprove tid to t) s = nft_approve orig tid to t s"
| "nft_dispatch (orig, NftSetApproveForAll tid operator approved) s =
     nft_set_approve_for_all orig tid operator approved s"
| "nft_dispatch (orig, NftTransferFrom tid frm to t) s = nft_transfer_from orig tid frm to t s"
| "nft_dispatch (orig, NftMint tid to t) s = nft_mint orig tid to t s"
| "nft_dispatch (orig, NftBurn tid t) s = nft_burn orig tid t s"

section \<open>Specification\<close>

text \<open>The tokens of a collection, the tokens of one owner, and what the two enumerations promise.\<close>

definition nft_all :: "nft_storage \<Rightarrow> u128 \<Rightarrow> u128 set" where
  "nft_all s tid = {t. nft_owners s (tid, t) \<noteq> None}"

definition nft_owned :: "nft_storage \<Rightarrow> u128 \<Rightarrow> account \<Rightarrow> u128 set" where
  "nft_owned s tid a = {t. nft_owners s (tid, t) = Some a}"

definition nft_all_ok :: "nft_storage \<Rightarrow> u128 \<Rightarrow> bool" where
  "nft_all_ok s tid \<longleftrightarrow>
     enumerates (nft_total_supplies s tid) (\<lambda>i. nft_all_tokens s (tid, i))
       (\<lambda>t. nft_all_tokens_index s (tid, t)) (nft_all s tid)"

definition nft_owned_ok :: "nft_storage \<Rightarrow> u128 \<Rightarrow> account \<Rightarrow> bool" where
  "nft_owned_ok s tid a \<longleftrightarrow>
     enumerates (nft_balances s (tid, a)) (\<lambda>i. nft_owned_tokens s (tid, a, i))
       (\<lambda>t. nft_owned_tokens_index s (tid, a, t)) (nft_owned s tid a)"

definition nft_meta_ok :: "nft_storage \<Rightarrow> u128 \<Rightarrow> bool" where
  "nft_meta_ok s tid \<longleftrightarrow>
     (case nft_tokens s tid of
        None \<Rightarrow> nft_all s tid = {}
      | Some c \<Rightarrow> length (nft_name c) \<le> StringLimit \<and> length (nft_symbol c) \<le> StringLimit
               \<and> length (nft_base_uri c) \<le> StringLimit)"

definition nft_approvals_ok :: "nft_storage \<Rightarrow> u128 \<Rightarrow> bool" where
  "nft_approvals_ok s tid \<longleftrightarrow>
     (\<forall>t b. nft_token_approvals s (tid, t) = Some b \<longrightarrow> (\<exists>a. nft_owners s (tid, t) = Some a \<and> a \<noteq> b)) \<and>
     (\<forall>a. \<not> nft_operator_approvals s (tid, a, a))"

definition nft_inv :: "nft_storage \<Rightarrow> bool" where
  "nft_inv s \<longleftrightarrow>
     (\<forall>tid. nft_all_ok s tid \<and> nft_meta_ok s tid \<and> nft_approvals_ok s tid \<and> (\<forall>a. nft_owned_ok s tid a))"

text \<open>A small state for the concrete instances: one collection, one token, one approval.\<close>

definition nft_example :: nft_storage where
  "nft_example = exec nft_dispatch
     [(Signed 1, NftCreateToken 1 [] [] [47]), (Signed 1, NftMint 1 2 5), (Signed 2, NftApprove 1 3 5)]
     nft_genesis"

section \<open>What the operations do\<close>

lemmas nft_call_defs =
  nft_create_token_def nft_approve_def nft_set_approve_for_all_def nft_transfer_from_def nft_mint_def
  nft_burn_def

lemma nft_deposit_event_simps [simp]:
  "nft_tokens (nft_deposit_event e s) = nft_tokens s"
  "nft_owners (nft_deposit_event e s) = nft_owners s"
  "nft_balances (nft_deposit_event e s) = nft_balances s"
  "nft_token_approvals (nft_deposit_event e s) = nft_token_approvals s"
  "nft_operator_approvals (nft_deposit_event e s) = nft_operator_approvals s"
  "nft_total_supplies (nft_deposit_event e s) = nft_total_supplies s"
  "nft_all_tokens (nft_deposit_event e s) = nft_all_tokens s"
  "nft_all_tokens_index (nft_deposit_event e s) = nft_all_tokens_index s"
  "nft_owned_tokens (nft_deposit_event e s) = nft_owned_tokens s"
  "nft_owned_tokens_index (nft_deposit_event e s) = nft_owned_tokens_index s"
  by (simp_all add: nft_deposit_event_def)

text \<open>A table keyed by a tuple, read with its first components fixed.\<close>

lemma fixed_key_upd:
  "(\<lambda>k. (f((i, x) := v)) (j, k)) = (if i = j then (\<lambda>k. f (j, k))(x := v) else (\<lambda>k. f (j, k)))"
  "(\<lambda>k. (g((i, a, x) := v)) (j, b, k))
     = (if i = j \<and> a = b then (\<lambda>k. g (j, b, k))(x := v) else (\<lambda>k. g (j, b, k)))"
  by (auto simp: fun_eq_iff)

text \<open>
  The two owner enumeration updates, seen through the invariant of the table of one owner: the
  tables of all other owners and collections stay as they are.
\<close>

lemma nft_remove_ownerE:
  assumes rm: "nft_remove_token_from_owner_enumeration i a t s = Inr s'"
    and en: "enumerates (nft_balances s (i, a)) (\<lambda>k. nft_owned_tokens s (i, a, k))
               (\<lambda>u. nft_owned_tokens_index s (i, a, u)) S" and t: "t \<in> S"
  obtains m ot oi where "unat (nft_balances s (i, a)) = 1 + unat m"
    and "s' = s\<lparr>nft_owned_tokens := ot, nft_owned_tokens_index := oi\<rparr>"
    and "enumerates m (\<lambda>k. ot (i, a, k)) (\<lambda>u. oi (i, a, u)) (S - {t})"
    and "\<And>j b k. j \<noteq> i \<or> b \<noteq> a \<Longrightarrow> ot (j, b, k) = nft_owned_tokens s (j, b, k)"
    and "\<And>j b u. j \<noteq> i \<or> b \<noteq> a \<Longrightarrow> oi (j, b, u) = nft_owned_tokens_index s (j, b, u)"
proof -
  from rm obtain m where sub: "checked_sub (nft_balances s (i, a)) 1 = Some m"
    by (auto simp: nft_remove_token_from_owner_enumeration_def result_eqs)
  then have m: "unat (nft_balances s (i, a)) = 1 + unat m"
    by (simp add: arith_eqs)
  let ?ix = "nft_owned_tokens_index s (i, a, t)" and ?last = "nft_owned_tokens s (i, a, m)"
  show thesis
  proof (cases "?ix = m")
    case True
    show thesis
    proof (rule that [OF m])
      show "s' = s\<lparr>nft_owned_tokens := (nft_owned_tokens s)((i, a, m) := 0),
               nft_owned_tokens_index := (nft_owned_tokens_index s)((i, a, t) := 0)\<rparr>"
        using rm sub True by (auto simp: nft_remove_token_from_owner_enumeration_def)
      show "enumerates m (\<lambda>k. ((nft_owned_tokens s)((i, a, m) := 0)) (i, a, k))
          (\<lambda>u. ((nft_owned_tokens_index s)((i, a, t) := 0)) (i, a, u)) (S - {t})"
        unfolding fixed_key_upd using enumerates_remove_last [OF en t _ True] m by simp
    qed auto
  next
    case False
    show thesis
    proof (rule that [OF m])
      show "s' = s\<lparr>nft_owned_tokens := (nft_owned_tokens s)((i, a, ?ix) := ?last, (i, a, m) := 0),
               nft_owned_tokens_index := (nft_owned_tokens_index s)((i, a, ?last) := ?ix, (i, a, t) := 0)\<rparr>"
        using rm sub False by (auto simp: nft_remove_token_from_owner_enumeration_def Let_def)
      show "enumerates m (\<lambda>k. ((nft_owned_tokens s)((i, a, ?ix) := ?last, (i, a, m) := 0)) (i, a, k))
          (\<lambda>u. ((nft_owned_tokens_index s)((i, a, ?last) := ?ix, (i, a, t) := 0)) (i, a, u)) (S - {t})"
        unfolding fixed_key_upd using enumerates_swap_remove [OF en t, of m] m by simp
    qed auto
  qed
qed

lemma nft_add_ownerE:
  assumes ad: "nft_add_token_to_owner_enumeration i a t s = Inr s'"
    and en: "enumerates (nft_balances s (i, a)) (\<lambda>k. nft_owned_tokens s (i, a, k))
               (\<lambda>u. nft_owned_tokens_index s (i, a, u)) S" and t: "t \<notin> S"
    and n: "unat n = unat (nft_balances s (i, a)) + 1"
  obtains ot oi where "s' = s\<lparr>nft_owned_tokens := ot, nft_owned_tokens_index := oi\<rparr>"
    and "enumerates n (\<lambda>k. ot (i, a, k)) (\<lambda>u. oi (i, a, u)) (insert t S)"
    and "\<And>j b k. j \<noteq> i \<or> b \<noteq> a \<Longrightarrow> ot (j, b, k) = nft_owned_tokens s (j, b, k)"
    and "\<And>j b u. j \<noteq> i \<or> b \<noteq> a \<Longrightarrow> oi (j, b, u) = nft_owned_tokens_index s (j, b, u)"
proof (rule that)
  let ?n = "nft_balances s (i, a)"
  show "s' = s\<lparr>nft_owned_tokens := (nft_owned_tokens s)((i, a, ?n) := t),
           nft_owned_tokens_index := (nft_owned_tokens_index s)((i, a, t) := ?n)\<rparr>"
    using ad by (auto simp: nft_add_token_to_owner_enumeration_def Let_def)
  show "enumerates n (\<lambda>k. ((nft_owned_tokens s)((i, a, ?n) := t)) (i, a, k))
      (\<lambda>u. ((nft_owned_tokens_index s)((i, a, t) := ?n)) (i, a, u)) (insert t S)"
    unfolding fixed_key_upd using enumerates_push [OF en t n] by simp
qed auto

lemma nft_remove_allE:
  assumes rm: "nft_remove_token_from_all_tokens_enumeration i t s = Inr s'"
    and en: "nft_all_ok s i" and t: "t \<in> nft_all s i"
  obtains at ai m where "unat (nft_total_supplies s i) = 1 + unat m"
    and "s' = s\<lparr>nft_total_supplies := (nft_total_supplies s)(i := m), nft_all_tokens := at,
               nft_all_tokens_index := ai\<rparr>"
    and "enumerates m (\<lambda>k. at (i, k)) (\<lambda>u. ai (i, u)) (nft_all s i - {t})"
    and "\<And>j k. j \<noteq> i \<Longrightarrow> at (j, k) = nft_all_tokens s (j, k)"
    and "\<And>j u. j \<noteq> i \<Longrightarrow> ai (j, u) = nft_all_tokens_index s (j, u)"
proof -
  from rm obtain m where sub: "checked_sub (nft_total_supplies s i) 1 = Some m"
    by (auto simp: nft_remove_token_from_all_tokens_enumeration_def result_eqs)
  then have m: "unat (nft_total_supplies s i) = 1 + unat m"
    by (simp add: arith_eqs)
  let ?ix = "nft_all_tokens_index s (i, t)" and ?last = "nft_all_tokens s (i, m)"
  show thesis
  proof (rule that [OF m])
    show "s' = s\<lparr>nft_total_supplies := (nft_total_supplies s)(i := m),
             nft_all_tokens := (nft_all_tokens s)((i, ?ix) := ?last, (i, m) := 0),
             nft_all_tokens_index := (nft_all_tokens_index s)((i, ?last) := ?ix, (i, t) := 0)\<rparr>"
      using rm sub by (auto simp: nft_remove_token_from_all_tokens_enumeration_def Let_def)
    show "enumerates m (\<lambda>k. ((nft_all_tokens s)((i, ?ix) := ?last, (i, m) := 0)) (i, k))
        (\<lambda>u. ((nft_all_tokens_index s)((i, ?last) := ?ix, (i, t) := 0)) (i, u)) (nft_all s i - {t})"
      unfolding fixed_key_upd
      using enumerates_swap_remove [OF en [unfolded nft_all_ok_def] t, of m] m by simp
  qed auto
qed

lemma nft_add_allE:
  assumes ad: "nft_add_token_to_all_tokens_enumeration i t s = Inr s'"
    and en: "nft_all_ok s i" and t: "t \<notin> nft_all s i"
  obtains at ai m where "unat m = unat (nft_total_supplies s i) + 1"
    and "s' = s\<lparr>nft_total_supplies := (nft_total_supplies s)(i := m), nft_all_tokens := at,
               nft_all_tokens_index := ai\<rparr>"
    and "enumerates m (\<lambda>k. at (i, k)) (\<lambda>u. ai (i, u)) (insert t (nft_all s i))"
    and "\<And>j k. j \<noteq> i \<Longrightarrow> at (j, k) = nft_all_tokens s (j, k)"
    and "\<And>j u. j \<noteq> i \<Longrightarrow> ai (j, u) = nft_all_tokens_index s (j, u)"
proof -
  from ad obtain m where sum: "checked_add (nft_total_supplies s i) 1 = Some m"
    by (auto simp: nft_add_token_to_all_tokens_enumeration_def result_eqs Let_def)
  then have m: "unat m = unat (nft_total_supplies s i) + 1"
    by (simp add: arith_eqs)
  let ?n = "nft_total_supplies s i"
  show thesis
  proof (rule that [OF m])
    show "s' = s\<lparr>nft_total_supplies := (nft_total_supplies s)(i := m),
             nft_all_tokens := (nft_all_tokens s)((i, ?n) := t),
             nft_all_tokens_index := (nft_all_tokens_index s)((i, t) := ?n)\<rparr>"
      using ad sum by (auto simp: nft_add_token_to_all_tokens_enumeration_def Let_def)
    show "enumerates m (\<lambda>k. ((nft_all_tokens s)((i, ?n) := t)) (i, k))
        (\<lambda>u. ((nft_all_tokens_index s)((i, t) := ?n)) (i, u)) (insert t (nft_all s i))"
      unfolding fixed_key_upd
      using enumerates_push [OF en [unfolded nft_all_ok_def] t m] by simp
  qed auto
qed

section \<open>The invariant\<close>

lemma nft_invD:
  assumes "nft_inv s"
  shows "nft_all_ok s i" and "nft_meta_ok s i" and "nft_approvals_ok s i" and "nft_owned_ok s i a"
  using assms by (auto simp: nft_inv_def)

lemma nft_invI:
  assumes "\<And>i. nft_all_ok s i" and "\<And>i. nft_meta_ok s i" and "\<And>i. nft_approvals_ok s i"
    and "\<And>i a. nft_owned_ok s i a"
  shows "nft_inv s"
  using assms by (simp add: nft_inv_def)

lemmas nft_ok_defs =
  nft_all_ok_def nft_meta_ok_def nft_approvals_ok_def nft_owned_ok_def nft_all_def nft_owned_def

lemma nft_genesis_inv: "nft_inv nft_genesis"
  by (rule nft_invI) (simp_all add: nft_ok_defs nft_genesis_def)

lemma nft_do_transfer_steps:
  assumes "nft_do_transfer i a b t s = Inr s'" and "a \<noteq> b"
  obtains x y s1 s2 where "nft_owners s (i, t) = Some a"
    and "unat (nft_balances s (i, a)) = 1 + unat x" and "unat y = unat (nft_balances s (i, b)) + 1"
    and "nft_remove_token_from_owner_enumeration i a t s = Inr s1"
    and "nft_add_token_to_owner_enumeration i b t s1 = Inr s2"
    and "s' = nft_deposit_event (NftTransfer i a b t)
        (s2\<lparr>nft_token_approvals := (nft_token_approvals s2)((i, t) := None),
            nft_balances := (nft_balances s2)((i, a) := x, (i, b) := y),
            nft_owners := (nft_owners s2)((i, t) \<mapsto> b)\<rparr>)"
  using assms by (auto simp: nft_do_transfer_def nft_clear_approval_def result_eqs arith_eqs Let_def)

lemma nft_do_transferE:
  assumes tr: "nft_do_transfer i a b t s = Inr s'" and inv: "nft_inv s" and ne: "a \<noteq> b"
  obtains x y ot oi where "nft_owners s (i, t) = Some a"
    and "unat (nft_balances s (i, a)) = 1 + unat x" and "unat y = unat (nft_balances s (i, b)) + 1"
    and "s' = nft_deposit_event (NftTransfer i a b t)
           (s\<lparr>nft_owners := (nft_owners s)((i, t) \<mapsto> b),
              nft_balances := (nft_balances s)((i, a) := x, (i, b) := y),
              nft_token_approvals := (nft_token_approvals s)((i, t) := None),
              nft_owned_tokens := ot, nft_owned_tokens_index := oi\<rparr>)"
    and "\<And>j c. nft_owned_ok s' j c"
proof -
  obtain x y s1 s2 where ow: "nft_owners s (i, t) = Some a"
    and x': "unat (nft_balances s (i, a)) = 1 + unat x" and y': "unat y = unat (nft_balances s (i, b)) + 1"
    and rm: "nft_remove_token_from_owner_enumeration i a t s = Inr s1"
    and ad: "nft_add_token_to_owner_enumeration i b t s1 = Inr s2"
    and s': "s' = nft_deposit_event (NftTransfer i a b t)
        (s2\<lparr>nft_token_approvals := (nft_token_approvals s2)((i, t) := None),
            nft_balances := (nft_balances s2)((i, a) := x, (i, b) := y),
            nft_owners := (nft_owners s2)((i, t) \<mapsto> b)\<rparr>)"
    by (rule nft_do_transfer_steps [OF tr ne])
  have owned: "nft_owned_ok s j c" for j c using inv by (rule nft_invD)
  have t: "t \<in> nft_owned s i a" "t \<notin> nft_owned s i b" using ow ne by (auto simp: nft_owned_def)
  obtain m ot1 oi1 where m: "unat (nft_balances s (i, a)) = 1 + unat m"
    and s1: "s1 = s\<lparr>nft_owned_tokens := ot1, nft_owned_tokens_index := oi1\<rparr>"
    and en1: "enumerates m (\<lambda>k. ot1 (i, a, k)) (\<lambda>u. oi1 (i, a, u)) (nft_owned s i a - {t})"
    and fr1: "\<And>j b k. j \<noteq> i \<or> b \<noteq> a \<Longrightarrow> ot1 (j, b, k) = nft_owned_tokens s (j, b, k)"
      "\<And>j b u. j \<noteq> i \<or> b \<noteq> a \<Longrightarrow> oi1 (j, b, u) = nft_owned_tokens_index s (j, b, u)"
    by (rule nft_remove_ownerE [OF rm owned [of i a, unfolded nft_owned_ok_def] t(1)]) blast
  have "m = x" using m x' by (intro word_eq_unatI) simp
  have "enumerates (nft_balances s1 (i, b)) (\<lambda>k. nft_owned_tokens s1 (i, b, k))
           (\<lambda>u. nft_owned_tokens_index s1 (i, b, u)) (nft_owned s i b)"
    using owned [of i b] ne by (simp add: s1 fr1 nft_owned_ok_def)
  moreover have "unat y = unat (nft_balances s1 (i, b)) + 1" using y' by (simp add: s1)
  ultimately obtain ot oi where s2: "s2 = s1\<lparr>nft_owned_tokens := ot, nft_owned_tokens_index := oi\<rparr>"
    and en2: "enumerates y (\<lambda>k. ot (i, b, k)) (\<lambda>u. oi (i, b, u)) (insert t (nft_owned s i b))"
    and fr2: "\<And>j c k. j \<noteq> i \<or> c \<noteq> b \<Longrightarrow> ot (j, c, k) = nft_owned_tokens s1 (j, c, k)"
      "\<And>j c u. j \<noteq> i \<or> c \<noteq> b \<Longrightarrow> oi (j, c, u) = nft_owned_tokens_index s1 (j, c, u)"
    using nft_add_ownerE [OF ad _ t(2)] by blast
  let ?s = "s\<lparr>nft_owners := (nft_owners s)((i, t) \<mapsto> b),
              nft_balances := (nft_balances s)((i, a) := x, (i, b) := y),
              nft_token_approvals := (nft_token_approvals s)((i, t) := None),
              nft_owned_tokens := ot, nft_owned_tokens_index := oi\<rparr>"
  have s'': "s' = nft_deposit_event (NftTransfer i a b t) ?s"
    by (simp add: s' s2 s1 nft_deposit_event_def)
  have "nft_owned s' j c = (if j = i \<and> c = b then insert t (nft_owned s i b)
      else if j = i \<and> c = a then nft_owned s i a - {t} else nft_owned s j c)" for j c
    using ow ne by (auto simp: nft_owned_def s'')
  then have "nft_owned_ok s' j c" for j c
    using en1 en2 fr1 fr2 owned [of j c] ne \<open>m = x\<close>
    by (cases "j = i \<and> c = b"; cases "j = i \<and> c = a") (auto simp: nft_owned_ok_def s'' s1)
  with that [OF ow x' y' s''] show thesis by blast
qed

lemma nft_do_transfer_inv:
  assumes inv: "nft_inv s" and tr: "nft_do_transfer i a b t s = Inr s'"
  shows "nft_inv s'"
proof (cases "a = b")
  case True
  with tr inv show ?thesis by (auto simp: nft_do_transfer_def result_eqs)
next
  case False
  from nft_do_transferE [OF tr inv False]
  obtain x y ot oi where ow: "nft_owners s (i, t) = Some a"
    and s': "s' = nft_deposit_event (NftTransfer i a b t)
           (s\<lparr>nft_owners := (nft_owners s)((i, t) \<mapsto> b),
              nft_balances := (nft_balances s)((i, a) := x, (i, b) := y),
              nft_token_approvals := (nft_token_approvals s)((i, t) := None),
              nft_owned_tokens := ot, nft_owned_tokens_index := oi\<rparr>)"
    and owned: "\<And>j c. nft_owned_ok s' j c" by metis
  have all: "nft_all s' j = nft_all s j" for j using ow by (auto simp: nft_all_def s')
  have tok: "nft_tokens s' = nft_tokens s" by (simp add: s')
  show ?thesis
  proof (rule nft_invI)
    show "nft_all_ok s' j" for j
      using nft_invD(1) [OF inv, of j] by (simp add: nft_all_ok_def all) (simp add: s')
    show "nft_meta_ok s' j" for j
      using nft_invD(2) [OF inv, of j] tok by (simp add: nft_meta_ok_def all split: option.splits)
    show "nft_approvals_ok s' j" for j
      using nft_invD(3) [OF inv, of j] by (auto simp: nft_approvals_ok_def s')
  qed (rule owned)
qed

lemma nft_do_mint_steps:
  assumes "nft_do_mint w i a t s = Inr s'"
  obtains c y s1 s2 where "nft_tokens s i = Some c" "nft_owner c = w" and "nft_owners s (i, t) = None"
    and "unat y = unat (nft_balances s (i, a)) + 1"
    and "nft_add_token_to_all_tokens_enumeration i t s = Inr s1"
    and "nft_add_token_to_owner_enumeration i a t s1 = Inr s2"
    and "s' = nft_deposit_event (NftTransfer i zero_account_id a t)
        (s2\<lparr>nft_balances := (nft_balances s2)((i, a) := y), nft_owners := (nft_owners s2)((i, t) \<mapsto> a)\<rparr>)"
  using assms
  by (auto simp: nft_do_mint_def nft_has_permission_def nft_exists_def nft_token_exists_def
      result_eqs arith_eqs Let_def split: option.splits)

lemma nft_do_mintE:
  assumes mint: "nft_do_mint w i a t s = Inr s'" and inv: "nft_inv s"
  obtains c y m ot oi at ai where "nft_tokens s i = Some c" and "nft_owner c = w"
    and "nft_owners s (i, t) = None"
    and "unat y = unat (nft_balances s (i, a)) + 1" and "unat m = unat (nft_total_supplies s i) + 1"
    and "s' = nft_deposit_event (NftTransfer i zero_account_id a t)
           (s\<lparr>nft_owners := (nft_owners s)((i, t) \<mapsto> a),
              nft_balances := (nft_balances s)((i, a) := y),
              nft_total_supplies := (nft_total_supplies s)(i := m),
              nft_all_tokens := at, nft_all_tokens_index := ai,
              nft_owned_tokens := ot, nft_owned_tokens_index := oi\<rparr>)"
    and "\<And>j c. nft_owned_ok s' j c" and "\<And>j. nft_all_ok s' j"
proof -
  obtain c y s1 s2 where c: "nft_tokens s i = Some c" "nft_owner c = w" and ow: "nft_owners s (i, t) = None"
    and y': "unat y = unat (nft_balances s (i, a)) + 1"
    and all: "nft_add_token_to_all_tokens_enumeration i t s = Inr s1"
    and ad: "nft_add_token_to_owner_enumeration i a t s1 = Inr s2"
    and s': "s' = nft_deposit_event (NftTransfer i zero_account_id a t)
        (s2\<lparr>nft_balances := (nft_balances s2)((i, a) := y), nft_owners := (nft_owners s2)((i, t) \<mapsto> a)\<rparr>)"
    by (rule nft_do_mint_steps [OF mint])
  have t: "t \<notin> nft_owned s i a" "t \<notin> nft_all s i" using ow by (auto simp: nft_owned_def nft_all_def)
  obtain at ai m where m: "unat m = unat (nft_total_supplies s i) + 1"
    and s1: "s1 = s\<lparr>nft_total_supplies := (nft_total_supplies s)(i := m), nft_all_tokens := at,
               nft_all_tokens_index := ai\<rparr>"
    and en1: "enumerates m (\<lambda>k. at (i, k)) (\<lambda>u. ai (i, u)) (insert t (nft_all s i))"
    and fr1: "\<And>j k. j \<noteq> i \<Longrightarrow> at (j, k) = nft_all_tokens s (j, k)"
      "\<And>j u. j \<noteq> i \<Longrightarrow> ai (j, u) = nft_all_tokens_index s (j, u)"
    by (rule nft_add_allE [OF all nft_invD(1) [OF inv] t(2)]) blast
  have owned: "nft_owned_ok s j c" for j c using inv by (rule nft_invD)
  have "enumerates (nft_balances s1 (i, a)) (\<lambda>k. nft_owned_tokens s1 (i, a, k))
           (\<lambda>u. nft_owned_tokens_index s1 (i, a, u)) (nft_owned s i a)"
    using owned [of i a] by (simp add: s1 nft_owned_ok_def)
  moreover have "unat y = unat (nft_balances s1 (i, a)) + 1" using y' by (simp add: s1)
  ultimately obtain ot oi where s2: "s2 = s1\<lparr>nft_owned_tokens := ot, nft_owned_tokens_index := oi\<rparr>"
    and en2: "enumerates y (\<lambda>k. ot (i, a, k)) (\<lambda>u. oi (i, a, u)) (insert t (nft_owned s i a))"
    and fr2: "\<And>j c k. j \<noteq> i \<or> c \<noteq> a \<Longrightarrow> ot (j, c, k) = nft_owned_tokens s1 (j, c, k)"
      "\<And>j c u. j \<noteq> i \<or> c \<noteq> a \<Longrightarrow> oi (j, c, u) = nft_owned_tokens_index s1 (j, c, u)"
    using nft_add_ownerE [OF ad _ t(1)] by blast
  have "nft_owned s' j c = (if j = i \<and> c = a then insert t (nft_owned s i a) else nft_owned s j c)" for j c
    using ow by (auto simp: nft_owned_def s' s2 s1)
  then have 1: "nft_owned_ok s' j c" for j c
    using en2 fr2 owned [of j c] by (auto simp: nft_owned_ok_def s' s2 s1)
  have "nft_all s' j = (if j = i then insert t (nft_all s i) else nft_all s j)" for j
    using ow by (auto simp: nft_all_def s' s2 s1)
  then have 2: "nft_all_ok s' j" for j
    using en1 fr1 nft_invD(1) [OF inv, of j] by (auto simp: nft_all_ok_def s' s2 s1)
  from that [where ot = ot and oi = oi and at = at and ai = ai, OF c ow y' m _ 1 2] show thesis
    by (simp add: s' s2 s1 nft_deposit_event_def)
qed

lemma nft_do_mint_effect:
  assumes "nft_do_mint w i a t s = Inr s'" and "nft_inv s"
  shows "\<exists>y m. nft_owners s (i, t) = None \<and> nft_owners s' = (nft_owners s)((i, t) \<mapsto> a)
    \<and> unat y = unat (nft_balances s (i, a)) + 1 \<and> nft_balances s' = (nft_balances s)((i, a) := y)
    \<and> unat m = unat (nft_total_supplies s i) + 1
    \<and> nft_total_supplies s' = (nft_total_supplies s)(i := m)
    \<and> nft_token_approvals s' = nft_token_approvals s"
proof (rule nft_do_mintE [OF assms], intro exI conjI)
  fix y m :: u32
  assume "unat y = unat (nft_balances s (i, a)) + 1" and "unat m = unat (nft_total_supplies s i) + 1"
  then show "unat y = unat (nft_balances s (i, a)) + 1" and "unat m = unat (nft_total_supplies s i) + 1"
    by simp_all
qed simp_all

lemma nft_do_burn_steps:
  assumes "nft_do_burn a i t s = Inr s'"
  obtains x s1 s2 where "nft_owners s (i, t) = Some a" and "unat (nft_balances s (i, a)) = 1 + unat x"
    and "nft_remove_token_from_all_tokens_enumeration i t s = Inr s1"
    and "nft_remove_token_from_owner_enumeration i a t s1 = Inr s2"
    and "s' = nft_deposit_event (NftTransfer i a zero_account_id t)
        (s2\<lparr>nft_token_approvals := (nft_token_approvals s2)((i, t) := None),
            nft_balances := (nft_balances s2)((i, a) := x), nft_owners := (nft_owners s2)((i, t) := None)\<rparr>)"
  using assms by (auto simp: nft_do_burn_def nft_clear_approval_def result_eqs arith_eqs Let_def)

lemma nft_do_burnE:
  assumes burn: "nft_do_burn a i t s = Inr s'" and inv: "nft_inv s"
  obtains x m ot oi at ai where "nft_owners s (i, t) = Some a"
    and "unat (nft_balances s (i, a)) = 1 + unat x" and "unat (nft_total_supplies s i) = 1 + unat m"
    and "s' = nft_deposit_event (NftTransfer i a zero_account_id t)
           (s\<lparr>nft_owners := (nft_owners s)((i, t) := None),
              nft_balances := (nft_balances s)((i, a) := x),
              nft_token_approvals := (nft_token_approvals s)((i, t) := None),
              nft_total_supplies := (nft_total_supplies s)(i := m),
              nft_all_tokens := at, nft_all_tokens_index := ai,
              nft_owned_tokens := ot, nft_owned_tokens_index := oi\<rparr>)"
    and "\<And>j c. nft_owned_ok s' j c" and "\<And>j. nft_all_ok s' j"
proof -
  obtain x s1 s2 where ow: "nft_owners s (i, t) = Some a"
    and x': "unat (nft_balances s (i, a)) = 1 + unat x"
    and all: "nft_remove_token_from_all_tokens_enumeration i t s = Inr s1"
    and rm: "nft_remove_token_from_owner_enumeration i a t s1 = Inr s2"
    and s': "s' = nft_deposit_event (NftTransfer i a zero_account_id t)
        (s2\<lparr>nft_token_approvals := (nft_token_approvals s2)((i, t) := None),
            nft_balances := (nft_balances s2)((i, a) := x), nft_owners := (nft_owners s2)((i, t) := None)\<rparr>)"
    by (rule nft_do_burn_steps [OF burn])
  have t: "t \<in> nft_owned s i a" "t \<in> nft_all s i" using ow by (auto simp: nft_owned_def nft_all_def)
  obtain at ai m where m: "unat (nft_total_supplies s i) = 1 + unat m"
    and s1: "s1 = s\<lparr>nft_total_supplies := (nft_total_supplies s)(i := m), nft_all_tokens := at,
               nft_all_tokens_index := ai\<rparr>"
    and en1: "enumerates m (\<lambda>k. at (i, k)) (\<lambda>u. ai (i, u)) (nft_all s i - {t})"
    and fr1: "\<And>j k. j \<noteq> i \<Longrightarrow> at (j, k) = nft_all_tokens s (j, k)"
      "\<And>j u. j \<noteq> i \<Longrightarrow> ai (j, u) = nft_all_tokens_index s (j, u)"
    by (rule nft_remove_allE [OF all nft_invD(1) [OF inv] t(2)]) blast
  have owned: "nft_owned_ok s j c" for j c using inv by (rule nft_invD)
  have "enumerates (nft_balances s1 (i, a)) (\<lambda>k. nft_owned_tokens s1 (i, a, k))
           (\<lambda>u. nft_owned_tokens_index s1 (i, a, u)) (nft_owned s i a)"
    using owned [of i a] by (simp add: s1 nft_owned_ok_def)
  from nft_remove_ownerE [OF rm this t(1)]
  obtain k ot oi where k: "unat (nft_balances s1 (i, a)) = 1 + unat k"
    and s2: "s2 = s1\<lparr>nft_owned_tokens := ot, nft_owned_tokens_index := oi\<rparr>"
    and en2: "enumerates k (\<lambda>k. ot (i, a, k)) (\<lambda>u. oi (i, a, u)) (nft_owned s i a - {t})"
    and fr2: "\<And>j c k. j \<noteq> i \<or> c \<noteq> a \<Longrightarrow> ot (j, c, k) = nft_owned_tokens s1 (j, c, k)"
      "\<And>j c u. j \<noteq> i \<or> c \<noteq> a \<Longrightarrow> oi (j, c, u) = nft_owned_tokens_index s1 (j, c, u)"
    by blast
  have "k = x" using k x' by (intro word_eq_unatI) (simp add: s1)
  have "nft_owned s' j c = (if j = i \<and> c = a then nft_owned s i a - {t} else nft_owned s j c)" for j c
    using ow by (auto simp: nft_owned_def s' s2 s1)
  then have 1: "nft_owned_ok s' j c" for j c
    using en2 fr2 owned [of j c] \<open>k = x\<close> by (auto simp: nft_owned_ok_def s' s2 s1)
  have "nft_all s' j = (if j = i then nft_all s i - {t} else nft_all s j)" for j
    using ow by (auto simp: nft_all_def s' s2 s1)
  then have 2: "nft_all_ok s' j" for j
    using en1 fr1 nft_invD(1) [OF inv, of j] by (auto simp: nft_all_ok_def s' s2 s1)
  from that [where ot = ot and oi = oi and at = at and ai = ai, OF ow x' m _ 1 2] show thesis
    by (simp add: s' s2 s1 nft_deposit_event_def)
qed

lemma nft_do_mint_inv:
  assumes inv: "nft_inv s" and mint: "nft_do_mint w i a t s = Inr s'"
  shows "nft_inv s'"
proof (rule nft_invI)
  from nft_do_mintE [OF mint inv] obtain c where c: "nft_tokens s i = Some c"
    and tok: "nft_tokens s' = nft_tokens s"
    and ow: "nft_owners s' = (nft_owners s)((i, t) \<mapsto> a)" "nft_owners s (i, t) = None"
    and apr: "nft_token_approvals s' = nft_token_approvals s"
      "nft_operator_approvals s' = nft_operator_approvals s"
    by fastforce
  show "nft_meta_ok s' j" for j
    using nft_invD(2) [OF inv, of j] c by (auto simp: nft_meta_ok_def nft_all_def tok ow split: option.splits)
  show "nft_approvals_ok s' j" for j
    using nft_invD(3) [OF inv, of j] ow by (force simp: nft_approvals_ok_def apr)
qed (rule nft_do_mintE [OF mint inv], assumption)+

lemma nft_do_burn_inv:
  assumes inv: "nft_inv s" and burn: "nft_do_burn a i t s = Inr s'"
  shows "nft_inv s'"
proof (rule nft_invI)
  from nft_do_burnE [OF burn inv] have tok: "nft_tokens s' = nft_tokens s"
    and ow: "nft_owners s' = (nft_owners s)((i, t) := None)"
    and apr: "nft_token_approvals s' = (nft_token_approvals s)((i, t) := None)"
      "nft_operator_approvals s' = nft_operator_approvals s"
    by (fastforce+)
  show "nft_meta_ok s' j" for j
    using nft_invD(2) [OF inv, of j] by (auto simp: nft_meta_ok_def nft_all_def tok ow split: option.splits)
  show "nft_approvals_ok s' j" for j
    using nft_invD(3) [OF inv, of j] by (auto simp: nft_approvals_ok_def apr ow)
qed (rule nft_do_burnE [OF burn inv], assumption)+

lemma nft_do_create_token_ok:
  "nft_do_create_token w i nm sy uri s = Inr s' \<longleftrightarrow>
     nft_tokens s i = None \<and> length nm \<le> StringLimit \<and> length sy \<le> StringLimit
     \<and> length uri \<le> StringLimit
     \<and> s' = nft_deposit_event (NftTokenCreated i w nm sy uri)
         (s\<lparr>nft_tokens := (nft_tokens s)(i \<mapsto>
            \<lparr>nft_owner = w, nft_name = nm, nft_symbol = sy, nft_base_uri = uri\<rparr>)\<rparr>)"
  by (auto simp: nft_do_create_token_def nft_exists_def result_eqs Let_def)

lemma nft_do_approve_ok:
  "nft_do_approve w i b t s = Inr s' \<longleftrightarrow>
     (\<exists>a. nft_owners s (i, t) = Some a \<and> a \<noteq> b \<and> (w = a \<or> nft_operator_approvals s (i, a, w))
        \<and> s' = nft_deposit_event (NftApproval i a b t)
            (s\<lparr>nft_token_approvals := (nft_token_approvals s)((i, t) \<mapsto> b)\<rparr>))"
  by (auto simp: nft_do_approve_def result_eqs)

lemma nft_do_set_approve_for_all_ok:
  "nft_do_set_approve_for_all w i p v s = Inr s' \<longleftrightarrow>
     p \<noteq> w \<and> s' = nft_deposit_event (NftApprovalForAll i w p v)
       (s\<lparr>nft_operator_approvals := (nft_operator_approvals s)((i, w, p) := v)\<rparr>)"
  by (auto simp: nft_do_set_approve_for_all_def result_eqs)

lemma nft_do_transfer_from_ok:
  "nft_do_transfer_from w i a b t s = Inr s' \<longleftrightarrow>
     (\<exists>c. nft_owners s (i, t) = Some c
        \<and> (w = c \<or> nft_token_approvals s (i, t) = Some w \<or> nft_operator_approvals s (i, c, w)))
     \<and> nft_do_transfer i a b t s = Inr s'"
  by (auto simp: nft_do_transfer_from_def nft_is_approved_or_owner_def nft_token_exists_def result_eqs
      split: sum.splits)

lemma nft_do_create_token_inv:
  assumes inv: "nft_inv s" and "nft_do_create_token w i nm sy uri s = Inr s'"
  shows "nft_inv s'"
proof (rule nft_invI)
  fix j a
  from assms(2) show "nft_all_ok s' j" "nft_approvals_ok s' j" "nft_owned_ok s' j a" "nft_meta_ok s' j"
    using nft_invD [OF inv, of j]
    by (auto simp: nft_do_create_token_ok nft_ok_defs split: option.splits)
qed

lemma nft_do_approve_inv:
  assumes inv: "nft_inv s" and "nft_do_approve w i b t s = Inr s'"
  shows "nft_inv s'"
proof (rule nft_invI)
  fix j a
  from assms(2) show "nft_all_ok s' j" "nft_approvals_ok s' j" "nft_owned_ok s' j a" "nft_meta_ok s' j"
    using nft_invD [OF inv, of j]
    by (auto simp: nft_do_approve_ok nft_ok_defs split: option.splits)
qed

lemma nft_do_set_approve_for_all_inv:
  assumes inv: "nft_inv s" and "nft_do_set_approve_for_all w i p v s = Inr s'"
  shows "nft_inv s'"
proof (rule nft_invI)
  fix j a
  from assms(2) show "nft_all_ok s' j" "nft_approvals_ok s' j" "nft_owned_ok s' j a" "nft_meta_ok s' j"
    using nft_invD [OF inv, of j]
    by (auto simp: nft_do_set_approve_for_all_ok nft_ok_defs split: option.splits)
qed

lemma nft_do_transfer_from_inv: "nft_inv s \<Longrightarrow> nft_do_transfer_from w i a b t s = Inr s' \<Longrightarrow> nft_inv s'"
  by (auto simp: nft_do_transfer_from_ok dest: nft_do_transfer_inv)

lemma nft_dispatchE:
  assumes "nft_dispatch (orig, c) s = Inr s'"
  obtains (create) who i nm sy uri where "orig = Signed who" "c = NftCreateToken i nm sy uri"
      "nft_do_create_token who i nm sy uri s = Inr s'"
  | (approve) who i b t where "orig = Signed who" "c = NftApprove i b t"
      "nft_do_approve who i b t s = Inr s'"
  | (approve_all) who i p v where "orig = Signed who" "c = NftSetApproveForAll i p v"
      "nft_do_set_approve_for_all who i p v s = Inr s'"
  | (transfer_from) who i a b t where "orig = Signed who" "c = NftTransferFrom i a b t"
      "nft_do_transfer_from who i a b t s = Inr s'"
  | (mint) who i a t where "orig = Signed who" "c = NftMint i a t" "nft_do_mint who i a t s = Inr s'"
  | (burn) who i t where "orig = Signed who" "c = NftBurn i t" "nft_do_burn who i t s = Inr s'"
  using assms by (cases c) (auto simp: nft_call_defs result_eqs)

lemma nft_dispatch_inv:
  assumes "nft_inv s" and "nft_dispatch c s = Inr s'"
  shows "nft_inv s'"
proof -
  obtain orig call where c: "c = (orig, call)" by (cases c)
  from assms(2) [unfolded c] show ?thesis
    by (cases rule: nft_dispatchE)
      (blast intro: nft_do_create_token_inv [OF assms(1)] nft_do_approve_inv [OF assms(1)]
        nft_do_set_approve_for_all_inv [OF assms(1)] nft_do_transfer_from_inv [OF assms(1)]
        nft_do_mint_inv [OF assms(1)] nft_do_burn_inv [OF assms(1)])+
qed

interpretation nft: pallet_invariant nft_dispatch nft_inv
  by unfold_locales (rule nft_dispatch_inv)

section \<open>Properties\<close>

lemma nft_all_Union: "nft_all s i = (\<Union>a. nft_owned s i a)"
  by (auto simp: nft_all_def nft_owned_def)

lemma nft_balances_total:
  assumes "nft_inv s"
  shows "total_of (\<lambda>a. nft_balances s (i, a)) = unat (nft_total_supplies s i)"
proof -
  have owned: "finite (nft_owned s i a)" "card (nft_owned s i a) = unat (nft_balances s (i, a))" for a
    using enumerates_card [OF nft_invD(4) [OF assms, unfolded nft_owned_ok_def]] by blast+
  have "card (\<Union>a. nft_owned s i a) = (\<Sum>a\<in>UNIV. card (nft_owned s i a))"
    by (rule card_UN_disjoint) (auto simp: owned(1) nft_owned_def)
  then show ?thesis
    using enumerates_card(2) [OF nft_invD(1) [OF assms, unfolded nft_all_ok_def]]
    by (simp add: nft_all_Union owned(2) total_of_def)
qed

text \<open>
  C2: After any sequence of calls from genesis, the two enumerations of a collection are exact: the
  positions below the total supply list every existing token exactly once, the positions below an
  account's balance list exactly the tokens that account owns, each once, and the balances add up to
  the total supply.
\<close>

theorem nft_enumerations_exact:
  fixes cs tid
  defines "s \<equiv> exec nft_dispatch cs nft_genesis"
  shows "bij_betw (\<lambda>i. nft_token_by_index tid i s) {..<nft_total_supply tid s} {t. nft_token_exists tid t s}
    \<and> (\<forall>a. bij_betw (\<lambda>i. nft_token_of_owner_by_index tid a i s) {..<nft_balances s (tid, a)}
              {t. nft_owners s (tid, t) = Some a})
    \<and> total_of (\<lambda>a. nft_balances s (tid, a)) = unat (nft_total_supply tid s)"
proof -
  have inv: "nft_inv s" unfolding s_def by (rule nft.exec_inv [OF nft_genesis_inv])
  from nft_invD(1) [OF inv, of tid] nft_invD(4) [OF inv, of tid] nft_balances_total [OF inv, of tid]
  show ?thesis
    by (auto simp: nft_all_ok_def nft_owned_ok_def nft_all_def nft_owned_def nft_token_by_index_def
        nft_token_of_owner_by_index_def nft_total_supply_def nft_token_exists_def
        intro: enumerates_bij)
qed

lemma nft_owner_change:
  assumes "nft_inv s" and "nft_dispatch (Signed w, c) s = Inr s'"
    and "nft_owners s (tid, t) = Some a" and "nft_owners s' (tid, t) \<noteq> Some a"
  shows "w = a \<or> nft_token_approvals s (tid, t) = Some w \<or> nft_operator_approvals s (tid, a, w)"
  using assms(2)
proof (cases rule: nft_dispatchE)
  case (transfer_from who i frm b u)
  then obtain d where d: "nft_owners s (i, u) = Some d"
    "w = d \<or> nft_token_approvals s (i, u) = Some w \<or> nft_operator_approvals s (i, d, w)"
    and tr: "nft_do_transfer i frm b u s = Inr s'"
    by (auto simp: nft_do_transfer_from_ok)
  have "frm \<noteq> b" using tr assms(3,4) by (auto simp: nft_do_transfer_def result_eqs)
  from nft_do_transferE [OF tr assms(1) this]
  have "nft_owners s' = (nft_owners s)((i, u) \<mapsto> b)" by fastforce
  with d assms(3,4) show ?thesis by (auto split: if_splits)
next
  case (mint who i b u)
  from nft_do_mint_effect [OF mint(3) assms(1)] assms(3,4) show ?thesis by (auto split: if_splits)
next
  case (burn who i u)
  from nft_do_burnE [OF burn(3) assms(1)]
  have "nft_owners s (i, u) = Some who" "nft_owners s' = (nft_owners s)((i, u) := None)" by fastforce+
  with burn(1) assms(3,4) show ?thesis by (auto split: if_splits)
qed (use assms(3,4) in \<open>auto simp: nft_do_create_token_ok nft_do_approve_ok nft_do_set_approve_for_all_ok\<close>)

text \<open>
  An account that signs no call and has approved nobody is safe: it stays without approvals, and
  keeps its tokens.
\<close>

definition nft_guarded :: "account \<Rightarrow> nft_storage \<Rightarrow> bool" where
  "nft_guarded a s \<longleftrightarrow> (\<forall>tid b. \<not> nft_operator_approvals s (tid, a, b)) \<and>
     (\<forall>k. nft_owners s k = Some a \<longrightarrow> nft_token_approvals s k = None)"

lemma nft_do_transfer_owners:
  assumes "nft_do_transfer i a b t s = Inr s'" and "nft_inv s"
  shows "nft_owners s' = (nft_owners s)((i, t) \<mapsto> b)"
proof (cases "a = b")
  case True
  with assms(1) show ?thesis by (auto simp: nft_do_transfer_def result_eqs)
next
  case False
  from nft_do_transferE [OF assms False] show ?thesis by fastforce
qed

lemma nft_do_transfer_guarded:
  assumes inv: "nft_inv s" and tr: "nft_do_transfer i x y t s = Inr s'" and "nft_guarded a s"
  shows "nft_guarded a s'"
proof (cases "x = y")
  case True
  with tr assms(3) show ?thesis by (auto simp: nft_do_transfer_def result_eqs)
next
  case False
  from nft_do_transferE [OF tr inv False]
  have "nft_owners s' = (nft_owners s)((i, t) \<mapsto> y)"
    "nft_token_approvals s' = (nft_token_approvals s)((i, t) := None)"
    "nft_operator_approvals s' = nft_operator_approvals s" by fastforce+
  with assms(3) show ?thesis by (auto simp: nft_guarded_def)
qed

lemma nft_do_mint_operators: "nft_do_mint w i x t s = Inr s' \<Longrightarrow> nft_operator_approvals s' = nft_operator_approvals s"
  by (auto simp: nft_do_mint_def nft_add_token_to_all_tokens_enumeration_def nft_add_token_to_owner_enumeration_def
      result_eqs Let_def)

lemma nft_dispatch_guarded:
  assumes inv: "nft_inv s" and call: "nft_dispatch (Signed w, c) s = Inr s'"
    and g: "nft_guarded a s" and "w \<noteq> a"
  shows "nft_guarded a s'" and "nft_owners s k = Some a \<Longrightarrow> nft_owners s' k = Some a"
proof -
  show "nft_guarded a s'" using call
  proof (cases rule: nft_dispatchE)
    case (transfer_from who i x y t)
    then show ?thesis using nft_do_transfer_guarded [OF inv _ g] by (auto simp: nft_do_transfer_from_ok)
  next
    case (mint who i x t)
    have free: "nft_owners s (i, t) = None"
      using mint(3) by (auto simp: nft_do_mint_def nft_token_exists_def result_eqs Let_def)
    then have "nft_token_approvals s (i, t) = None"
      using nft_invD(3) [OF inv, of i] by (cases "nft_token_approvals s (i, t)") (fastforce simp: nft_approvals_ok_def)+
    with nft_do_mint_effect [OF mint(3) inv] nft_do_mint_operators [OF mint(3)] g
    show ?thesis by (auto simp: nft_guarded_def)
  next
    case (burn who i t)
    from nft_do_burnE [OF burn(3) inv]
    have "nft_owners s' = (nft_owners s)((i, t) := None)"
      "nft_token_approvals s' = (nft_token_approvals s)((i, t) := None)"
      "nft_operator_approvals s' = nft_operator_approvals s" by fastforce+
    with g show ?thesis by (auto simp: nft_guarded_def)
  qed (use g \<open>w \<noteq> a\<close> in \<open>auto simp: nft_guarded_def nft_do_create_token_ok nft_do_approve_ok
      nft_do_set_approve_for_all_ok\<close>)
  show "nft_owners s k = Some a \<Longrightarrow> nft_owners s' k = Some a"
    using nft_owner_change [OF inv call, of "fst k" "snd k" a] g \<open>w \<noteq> a\<close>
    by (cases k) (fastforce simp: nft_guarded_def)
qed

text \<open>
  C8: A token leaves its owner only by the hand of the owner, of the account approved for the token,
  or of an operator the owner has approved.
\<close>

theorem nft_only_authorised:
  assumes "nft_inv s" and "nft_dispatch (Signed w, c) s = Inr s'"
    and "nft_owners s (tid, t) = Some a" and "nft_owners s' (tid, t) \<noteq> Some a"
  shows "w = a \<or> nft_token_approvals s (tid, t) = Some w \<or> nft_operator_approvals s (tid, a, w)"
  using assms by (rule nft_owner_change)

lemma nft_do_transfer_progress:
  assumes inv: "nft_inv s" and ow: "nft_owners s (i, t) = Some a"
    and room: "unat (nft_balances s (i, b)) + 1 < 2 ^ 32"
  shows "\<exists>s'. nft_do_transfer i a b t s = Inr s'"
proof -
  have "nft_owned s i a \<noteq> {}" using ow by (auto simp: nft_owned_def)
  then have "nft_balances s (i, a) \<noteq> 0"
    using enumerates_zero_iff [OF nft_invD(4) [OF inv, unfolded nft_owned_ok_def]] by blast
  then have "unat (nft_balances s (i, a)) = 1 + unat (nft_balances s (i, a) - 1)"
    using unat_diff_le [of 1 "nft_balances s (i, a)"] by (simp add: word_le_nat_alt unat_eq_zero Suc_leI unat_gt_0)
  then have "checked_sub (nft_balances s (i, a)) 1 = Some (nft_balances s (i, a) - 1)"
    by (simp add: arith_eqs)
  moreover have "checked_add (nft_balances s (i, b)) 1 = Some (nft_balances s (i, b) + 1)"
    using room by (simp add: checked_add_def)
  ultimately show ?thesis
    using ow by (simp add: nft_do_transfer_def nft_remove_token_from_owner_enumeration_def
        nft_add_token_to_owner_enumeration_def nft_clear_approval_def Let_def)
qed

text \<open>
  C9: What \<open>transfer_from\<close> does. It succeeds exactly when the named sender owns the token, the
  caller is authorised, and the receiver's 32-bit balance has room (or sender and receiver are the
  same); then the receiver owns the token, its approval is gone, one unit of balance has moved, and
  no other token of any collection has changed hands.
\<close>

theorem nft_transfer_from_spec:
  assumes inv: "nft_inv s"
  shows "(case nft_transfer_from (Signed w) tid a b t s of
            Inl _ \<Rightarrow> nft_owners s (tid, t) \<noteq> Some a
              \<or> \<not> (w = a \<or> nft_token_approvals s (tid, t) = Some w \<or> nft_operator_approvals s (tid, a, w))
              \<or> (a \<noteq> b \<and> unat (nft_balances s (tid, b)) + 1 = 2 ^ 32)
          | Inr s' \<Rightarrow> nft_owners s (tid, t) = Some a
              \<and> (w = a \<or> nft_token_approvals s (tid, t) = Some w \<or> nft_operator_approvals s (tid, a, w))
              \<and> nft_owners s' = (nft_owners s)((tid, t) \<mapsto> b)
              \<and> (if a = b then s' = s else
                  nft_token_approvals s' = (nft_token_approvals s)((tid, t) := None)
                  \<and> unat (nft_balances s' (tid, a)) + 1 = unat (nft_balances s (tid, a))
                  \<and> unat (nft_balances s' (tid, b)) = unat (nft_balances s (tid, b)) + 1))"
proof (cases "nft_transfer_from (Signed w) tid a b t s")
  case (Inl e)
  have "nft_owners s (tid, t) = Some a \<Longrightarrow>
      w = a \<or> nft_token_approvals s (tid, t) = Some w \<or> nft_operator_approvals s (tid, a, w) \<Longrightarrow>
      a \<noteq> b \<and> \<not> unat (nft_balances s (tid, b)) + 1 < 2 ^ 32"
    using Inl nft_do_transfer_progress [OF inv, of tid t a b]
    by (auto simp: nft_transfer_from_def nft_do_transfer_from_def nft_is_approved_or_owner_def
        nft_token_exists_def nft_do_transfer_def)
  moreover have "unat (nft_balances s (tid, b)) < 2 ^ 32" by (rule u32_bound)
  ultimately show ?thesis using Inl by auto
next
  case (Inr s')
  then have auth: "\<exists>c. nft_owners s (tid, t) = Some c \<and>
      (w = c \<or> nft_token_approvals s (tid, t) = Some w \<or> nft_operator_approvals s (tid, c, w))"
    and tr: "nft_do_transfer tid a b t s = Inr s'"
    by (auto simp: nft_transfer_from_def nft_do_transfer_from_ok)
  show ?thesis
  proof (cases "a = b")
    case True
    with Inr auth tr show ?thesis by (auto simp: nft_do_transfer_def result_eqs)
  next
    case False
    from nft_do_transferE [OF tr inv False] Inr auth False show ?thesis by fastforce
  qed
qed

text \<open>C37: No call of this pallet panics, whatever the state: each \<open>unwrap\<close> is guarded.\<close>

theorem nft_no_panic: "nft_dispatch (orig, c) s \<noteq> Inl Panicked"
  by (cases orig; cases c)
    (auto simp: nft_call_defs nft_do_create_token_def nft_do_approve_def nft_do_set_approve_for_all_def
      nft_do_transfer_from_def nft_do_transfer_def nft_do_mint_def nft_do_burn_def
      nft_is_approved_or_owner_def nft_has_permission_def nft_exists_def nft_token_exists_def
      nft_remove_token_from_owner_enumeration_def nft_remove_token_from_all_tokens_enumeration_def
      nft_add_token_to_owner_enumeration_def nft_add_token_to_all_tokens_enumeration_def
      nft_clear_approval_def Let_def result_eqs split: if_splits)

text \<open>
  Burning a freshly minted token succeeds and undoes the mint: owners, balances and the supply
  are again what they were, and no approval of the token is left.
\<close>

theorem nft_mint_burn:
  assumes inv: "nft_inv s" and mint: "nft_mint (Signed w) tid a t s = Inr s1"
  shows "\<exists>s2. nft_burn (Signed a) tid t s1 = Inr s2 \<and> nft_owners s2 = nft_owners s
    \<and> nft_balances s2 = nft_balances s \<and> nft_total_supplies s2 = nft_total_supplies s
    \<and> nft_token_approvals s2 = (nft_token_approvals s)((tid, t) := None)"
proof -
  from mint have do_mint: "nft_do_mint w tid a t s = Inr s1" by (simp add: nft_mint_def)
  from nft_do_mint_effect [OF do_mint inv]
  obtain y m where ow: "nft_owners s (tid, t) = None" "nft_owners s1 = (nft_owners s)((tid, t) \<mapsto> a)"
    and y: "unat y = unat (nft_balances s (tid, a)) + 1" "nft_balances s1 = (nft_balances s)((tid, a) := y)"
    and m: "unat m = unat (nft_total_supplies s tid) + 1"
      "nft_total_supplies s1 = (nft_total_supplies s)(tid := m)"
    and apr: "nft_token_approvals s1 = nft_token_approvals s"
    by blast
  have subs: "checked_sub y 1 = Some (nft_balances s (tid, a))"
    "checked_sub m 1 = Some (nft_total_supplies s tid)"
    using y(1) m(1) by (simp_all add: arith_eqs)
  let ?s = "\<lambda>x. nft_owners x = nft_owners s \<and> nft_balances x = nft_balances s
    \<and> nft_total_supplies x = nft_total_supplies s
    \<and> nft_token_approvals x = (nft_token_approvals s)((tid, t) := None)"
  have "\<exists>s2. nft_do_burn a tid t s1 = Inr s2 \<and> ?s s2"
    using ow(1) by (auto simp: nft_do_burn_def nft_remove_token_from_owner_enumeration_def
        nft_remove_token_from_all_tokens_enumeration_def nft_clear_approval_def Let_def
        ow(2) y(2) m(2) apr subs fun_eq_iff)
  then show ?thesis by (simp add: nft_burn_def)
qed

text \<open>Two different tokens of a collection never share a token URI.\<close>

theorem nft_token_uri_inj:
  assumes "nft_token_uri tid t s = Inr u" and "nft_token_uri tid t' s = Inr u"
  shows "t = t'"
proof -
  from assms have "decimal (unat t) = decimal (unat t')"
    by (auto simp: nft_token_uri_def split: option.splits)
  then have "unat t = unat t'" by (metis decimal_inverse)
  then show ?thesis by (rule word_eq_unatI)
qed

section \<open>Concrete instances\<close>

lemma nft_example_inv: "nft_inv nft_example"
  unfolding nft_example_def by (rule nft.exec_inv [OF nft_genesis_inv])

lemma nft_example_eval:
  "nft_tokens nft_example = [1 \<mapsto> \<lparr>nft_owner = 1, nft_name = [], nft_symbol = [], nft_base_uri = [47]\<rparr>]"
  "nft_owners nft_example = [(1, 5) \<mapsto> 2]"
  "nft_balances nft_example = (\<lambda>_. 0)((1, 2) := 1)"
  "nft_token_approvals nft_example = [(1, 5) \<mapsto> 3]"
  "nft_operator_approvals nft_example = (\<lambda>_. False)"
  "nft_total_supplies nft_example = (\<lambda>_. 0)(1 := 1)"
  by (simp_all add: nft_example_def nft_genesis_def nft_call_defs nft_do_create_token_def
      nft_do_mint_def nft_do_approve_def nft_exists_def nft_token_exists_def nft_has_permission_def
      nft_add_token_to_all_tokens_enumeration_def nft_add_token_to_owner_enumeration_def
      checked_add_def bounded_vec_def StringLimit_def ensure_def ok_or_def Let_def)

theorem nft_only_authorised_witness:
  "\<exists>s'. nft_dispatch (Signed 3, NftTransferFrom 1 2 4 5) nft_example = Inr s' \<and>
     ((3 :: account) = 2 \<or> nft_token_approvals nft_example (1, 5) = Some 3
       \<or> nft_operator_approvals nft_example (1, 2, 3))"
proof -
  obtain s1 where s1: "nft_do_transfer 1 2 4 5 nft_example = Inr s1"
    using nft_do_transfer_progress [OF nft_example_inv, of 1 5 2 4] by (auto simp: nft_example_eval)
  then have d: "nft_dispatch (Signed 3, NftTransferFrom 1 2 4 5) nft_example = Inr s1"
    by (simp add: nft_transfer_from_def nft_do_transfer_from_ok nft_example_eval)
  from nft_do_transferE [OF s1 nft_example_inv] have "nft_owners s1 (1, 5) \<noteq> Some 2" by fastforce
  from nft_only_authorised [OF nft_example_inv d _ this] d show ?thesis
    by (auto simp: nft_example_eval)
qed

theorem nft_transfer_from_spec_witness:
  "\<exists>s'. nft_transfer_from (Signed 3) 1 2 4 5 nft_example = Inr s' \<and> nft_owners s' (1, 5) = Some 4"
  using nft_transfer_from_spec [OF nft_example_inv, where w = 3 and tid = 1 and a = 2 and b = 4 and t = 5]
  by (auto simp: nft_example_eval split: sum.splits)

theorem nft_mint_burn_witness:
  "\<exists>s1 s2. nft_mint (Signed 1) 1 7 9 nft_example = Inr s1 \<and> nft_burn (Signed 7) 1 9 s1 = Inr s2
     \<and> nft_balances s2 = nft_balances nft_example"
proof -
  obtain s1 where s1: "nft_mint (Signed 1) 1 7 9 nft_example = Inr s1"
    by (simp add: nft_mint_def nft_do_mint_def nft_exists_def nft_token_exists_def nft_has_permission_def
        nft_example_eval nft_add_token_to_all_tokens_enumeration_def
        nft_add_token_to_owner_enumeration_def checked_add_def Let_def)
  from nft_mint_burn [OF nft_example_inv s1] s1 show ?thesis by blast
qed

theorem nft_token_uri_inj_witness:
  "nft_token_uri 1 5 nft_example = Inr [47, 53] \<and> nft_token_uri 1 (2 + 3) nft_example = Inr [47, 53]
     \<and> (5 :: u128) = 2 + 3"
proof -
  have uri: "nft_token_uri 1 5 nft_example = Inr [47, 53]"
    by (simp add: nft_token_uri_def nft_example_eval decimal.simps)
  have "nft_token_uri 1 (2 + 3) nft_example = Inr [47, 53]" using uri by simp
  with nft_token_uri_inj [OF uri this] uri show ?thesis by blast
qed

end
