(* ===== verification/TokenMulti.thy ===== *)
theory TokenMulti
  imports Frame
begin

text \<open>
  The multi token pallet (\<open>pallets/token-multi\<close>, the ERC-1155 counterpart): a collection holds
  many token ids, each with a balance per account; the recorded supply is that of the whole
  collection. The batch operations are loops over two vectors of the same length.
\<close>

section \<open>Storage, events and calls\<close>

record mt_token =
  mt_owner :: account
  mt_token_uri :: bytes
  mt_total_supply :: u128

datatype mt_event =
    MtTokenCreated u128 account
  | MtMint u128 account u128 u128
  | MtBatchMint u128 account "u128 list" "u128 list"
  | MtBurn u128 account u128 u128
  | MtBatchBurn u128 account "u128 list" "u128 list"
  | MtTransferred u128 account account u128 u128
  | MtBatchTransferred u128 account account "u128 list" "u128 list"
  | MtApprovalForAll u128 account account bool

record mt_storage =
  mt_tokens :: "u128 \<rightharpoonup> mt_token"
  mt_balances :: "u128 \<times> u128 \<times> account \<Rightarrow> u128"
  mt_operator_approvals :: "u128 \<times> account \<times> account \<Rightarrow> bool"
  mt_events :: "mt_event list"

datatype mt_call =
    MtCreateToken u128 bytes
  | MtSetApprovalForAll u128 account bool
  | MtTransferFrom u128 account account u128 u128
  | MtBatchTransferFrom u128 account account "u128 list" "u128 list"
  | MtMintCall u128 account u128 u128
  | MtMintBatch u128 account "u128 list" "u128 list"
  | MtBurnCall u128 u128 u128
  | MtBurnBatch u128 "u128 list" "u128 list"

definition mt_genesis :: mt_storage where
  "mt_genesis = \<lparr>mt_tokens = Map.empty, mt_balances = (\<lambda>_. 0),
     mt_operator_approvals = (\<lambda>_. False), mt_events = []\<rparr>"

section \<open>Operations\<close>

definition mt_deposit_event :: "mt_event \<Rightarrow> mt_storage \<Rightarrow> mt_storage" where
  "mt_deposit_event e s = s\<lparr>mt_events := mt_events s @ [e]\<rparr>"

definition mt_exists :: "u128 \<Rightarrow> mt_storage \<Rightarrow> bool" where
  "mt_exists tid s \<longleftrightarrow> mt_tokens s tid \<noteq> None"

definition mt_increase_balance ::
  "u128 \<Rightarrow> account \<Rightarrow> u128 \<Rightarrow> u128 \<Rightarrow> mt_storage \<Rightarrow> mt_storage dispatch" where
  "mt_increase_balance tid to t amount s =
     and_then (ok_or (checked_add (mt_balances s (tid, t, to)) amount) (TokenMultiError MtNumOverflow))
       (\<lambda>balance. Inr (s\<lparr>mt_balances := (mt_balances s)((tid, t, to) := balance)\<rparr>))"

definition mt_decrease_balance ::
  "u128 \<Rightarrow> account \<Rightarrow> u128 \<Rightarrow> u128 \<Rightarrow> mt_storage \<Rightarrow> mt_storage dispatch" where
  "mt_decrease_balance tid frm t amount s =
     and_then (ok_or (checked_sub (mt_balances s (tid, t, frm)) amount) (TokenMultiError MtNumOverflow))
       (\<lambda>balance. Inr (s\<lparr>mt_balances := (mt_balances s)((tid, t, frm) := balance)\<rparr>))"

definition mt_owner_or_approved :: "u128 \<Rightarrow> account \<Rightarrow> account \<Rightarrow> mt_storage \<Rightarrow> bool" where
  "mt_owner_or_approved tid who owner s \<longleftrightarrow> who = owner \<or> mt_operator_approvals s (tid, owner, who)"

definition mt_has_permission :: "u128 \<Rightarrow> account \<Rightarrow> mt_storage \<Rightarrow> bool dispatch" where
  "mt_has_permission tid who s =
     (case mt_tokens s tid of None \<Rightarrow> Inl Panicked | Some token \<Rightarrow> Inr (who = mt_owner token))"

definition mt_do_create_token :: "account \<Rightarrow> u128 \<Rightarrow> bytes \<Rightarrow> mt_storage \<Rightarrow> mt_storage dispatch" where
  "mt_do_create_token who tid uri s =
     ensure (\<not> mt_exists tid s) (TokenMultiError MtInvalidId) (
     and_then (ok_or (bounded_vec StringLimit uri) (TokenMultiError MtBadMetadata)) (\<lambda>bounded_uri.
     let token = \<lparr>mt_owner = who, mt_token_uri = bounded_uri, mt_total_supply = 0\<rparr> in
     Inr (mt_deposit_event (MtTokenCreated tid who) (s\<lparr>mt_tokens := (mt_tokens s)(tid \<mapsto> token)\<rparr>))))"

definition mt_do_set_approval_for_all ::
  "account \<Rightarrow> u128 \<Rightarrow> account \<Rightarrow> bool \<Rightarrow> mt_storage \<Rightarrow> mt_storage dispatch" where
  "mt_do_set_approval_for_all who tid operator approved s =
     ensure (mt_exists tid s) (TokenMultiError MtInvalidId) (
     Inr (mt_deposit_event (MtApprovalForAll tid who operator approved)
           (s\<lparr>mt_operator_approvals := (mt_operator_approvals s)((tid, who, operator) := approved)\<rparr>)))"

text \<open>The \<open>try_mutate\<close> closures that mint and burn share with their batch versions.\<close>

definition mt_mint_one :: "u128 \<Rightarrow> account \<Rightarrow> u128 \<times> u128 \<Rightarrow> mt_storage \<Rightarrow> mt_storage dispatch" where
  "mt_mint_one tid to = (\<lambda>(t, amount) s.
     and_then (ok_or (mt_tokens s tid) (TokenMultiError MtUnknown)) (\<lambda>token.
     and_then (mt_increase_balance tid to t amount s) (\<lambda>s.
     Inr (s\<lparr>mt_tokens := (mt_tokens s)(tid \<mapsto>
            token\<lparr>mt_total_supply := saturating_add (mt_total_supply token) amount\<rparr>)\<rparr>))))"

definition mt_burn_one :: "u128 \<Rightarrow> account \<Rightarrow> u128 \<times> u128 \<Rightarrow> mt_storage \<Rightarrow> mt_storage dispatch" where
  "mt_burn_one tid who = (\<lambda>(t, amount) s.
     and_then (ok_or (mt_tokens s tid) (TokenMultiError MtUnknown)) (\<lambda>token.
     and_then (mt_decrease_balance tid who t amount s) (\<lambda>s.
     Inr (s\<lparr>mt_tokens := (mt_tokens s)(tid \<mapsto>
            token\<lparr>mt_total_supply := saturating_sub (mt_total_supply token) amount\<rparr>)\<rparr>))))"

definition mt_do_mint ::
  "account \<Rightarrow> u128 \<Rightarrow> account \<Rightarrow> u128 \<Rightarrow> u128 \<Rightarrow> mt_storage \<Rightarrow> mt_storage dispatch" where
  "mt_do_mint who tid to t amount s =
     and_then (mt_has_permission tid who s) (\<lambda>permitted.
     ensure permitted (TokenMultiError MtNoPermission) (
     and_then (mt_mint_one tid to (t, amount) s) (\<lambda>s.
     Inr (mt_deposit_event (MtMint tid to t amount) s))))"

definition mt_do_batch_mint ::
  "account \<Rightarrow> u128 \<Rightarrow> account \<Rightarrow> u128 list \<Rightarrow> u128 list \<Rightarrow> mt_storage \<Rightarrow> mt_storage dispatch" where
  "mt_do_batch_mint who tid to token_ids amounts s =
     ensure (mt_exists tid s) (TokenMultiError MtInvalidId) (
     and_then (mt_has_permission tid who s) (\<lambda>permitted.
     ensure permitted (TokenMultiError MtNoPermission) (
     ensure (length token_ids = length amounts) (TokenMultiError MtLengthMismatch) (
     and_then (for_each (mt_mint_one tid to) (zip token_ids amounts) s) (\<lambda>s.
     Inr (mt_deposit_event (MtBatchMint tid to token_ids amounts) s))))))"

definition mt_do_burn :: "account \<Rightarrow> u128 \<Rightarrow> u128 \<Rightarrow> u128 \<Rightarrow> mt_storage \<Rightarrow> mt_storage dispatch" where
  "mt_do_burn who tid t amount s =
     and_then (mt_burn_one tid who (t, amount) s) (\<lambda>s.
     Inr (mt_deposit_event (MtBurn tid who t amount) s))"

definition mt_do_batch_burn ::
  "account \<Rightarrow> u128 \<Rightarrow> u128 list \<Rightarrow> u128 list \<Rightarrow> mt_storage \<Rightarrow> mt_storage dispatch" where
  "mt_do_batch_burn who tid token_ids amounts s =
     ensure (length token_ids = length amounts) (TokenMultiError MtLengthMismatch) (
     and_then (for_each (mt_burn_one tid who) (zip token_ids amounts) s) (\<lambda>s.
     Inr (mt_deposit_event (MtBatchBurn tid who token_ids amounts) s)))"

definition mt_do_transfer_from ::
  "account \<Rightarrow> u128 \<Rightarrow> account \<Rightarrow> account \<Rightarrow> u128 \<Rightarrow> u128 \<Rightarrow> mt_storage \<Rightarrow> mt_storage dispatch" where
  "mt_do_transfer_from who tid frm to t amount s =
     ensure (mt_owner_or_approved tid who frm s) (TokenMultiError MtNotOwnerOrApproved) (
     ensure (amount \<le> mt_balances s (tid, t, frm)) (TokenMultiError MtInsufficientTokens) (
     if frm = to then Inr s else
     and_then (mt_decrease_balance tid frm t amount s) (\<lambda>s.
     and_then (mt_increase_balance tid to t amount s) (\<lambda>s.
     Inr (mt_deposit_event (MtTransferred tid frm to t amount) s)))))"

text \<open>The body of the loop of \<open>do_batch_transfer_from\<close>.\<close>

definition mt_transfer_one ::
  "u128 \<Rightarrow> account \<Rightarrow> account \<Rightarrow> u128 \<times> u128 \<Rightarrow> mt_storage \<Rightarrow> mt_storage dispatch" where
  "mt_transfer_one tid frm to = (\<lambda>(t, amount) s.
     ensure (amount \<le> mt_balances s (tid, t, frm)) (TokenMultiError MtInsufficientTokens) (
     and_then (mt_decrease_balance tid frm t amount s) (mt_increase_balance tid to t amount)))"

definition mt_do_batch_transfer_from ::
  "account \<Rightarrow> u128 \<Rightarrow> account \<Rightarrow> account \<Rightarrow> u128 list \<Rightarrow> u128 list \<Rightarrow> mt_storage \<Rightarrow> mt_storage dispatch" where
  "mt_do_batch_transfer_from who tid frm to token_ids amounts s =
     ensure (mt_owner_or_approved tid who frm s) (TokenMultiError MtNotOwnerOrApproved) (
     ensure (length token_ids = length amounts) (TokenMultiError MtLengthMismatch) (
     if frm = to then Inr s else
     and_then (for_each (mt_transfer_one tid frm to) (zip token_ids amounts) s) (\<lambda>s.
     Inr (mt_deposit_event (MtBatchTransferred tid frm to token_ids amounts) s))))"

text \<open>\<open>balance_of_batch\<close> fills a vector of zeroes position by position.\<close>

definition mt_balance_of_batch ::
  "u128 \<Rightarrow> account list \<Rightarrow> u128 list \<Rightarrow> mt_storage \<Rightarrow> u128 list dispatch" where
  "mt_balance_of_batch tid accounts token_ids s =
     ensure (length accounts = length token_ids) (TokenMultiError MtLengthMismatch) (
     Inr (fold (\<lambda>i batch_balances. batch_balances[i := mt_balances s (tid, token_ids ! i, accounts ! i)])
            [0..<length accounts] (replicate (length accounts) 0)))"

definition mt_uri :: "u128 \<Rightarrow> u128 \<Rightarrow> mt_storage \<Rightarrow> bytes dispatch" where
  "mt_uri tid t s =
     (case mt_tokens s tid of None \<Rightarrow> Inl Panicked
      | Some token \<Rightarrow> Inr (mt_token_uri token @ decimal (unat t)))"

section \<open>Dispatchable calls\<close>

definition mt_create_token :: "origin \<Rightarrow> u128 \<Rightarrow> bytes \<Rightarrow> mt_storage \<Rightarrow> mt_storage dispatch" where
  "mt_create_token orig tid uri s = and_then (ensure_signed orig) (\<lambda>who. mt_do_create_token who tid uri s)"

definition mt_set_approval_for_all ::
  "origin \<Rightarrow> u128 \<Rightarrow> account \<Rightarrow> bool \<Rightarrow> mt_storage \<Rightarrow> mt_storage dispatch" where
  "mt_set_approval_for_all orig tid operator approved s =
     and_then (ensure_signed orig) (\<lambda>who. mt_do_set_approval_for_all who tid operator approved s)"

definition mt_transfer_from ::
  "origin \<Rightarrow> u128 \<Rightarrow> account \<Rightarrow> account \<Rightarrow> u128 \<Rightarrow> u128 \<Rightarrow> mt_storage \<Rightarrow> mt_storage dispatch" where
  "mt_transfer_from orig tid frm to t amount s =
     and_then (ensure_signed orig) (\<lambda>who. mt_do_transfer_from who tid frm to t amount s)"

definition mt_batch_transfer_from ::
  "origin \<Rightarrow> u128 \<Rightarrow> account \<Rightarrow> account \<Rightarrow> u128 list \<Rightarrow> u128 list \<Rightarrow> mt_storage \<Rightarrow> mt_storage dispatch" where
  "mt_batch_transfer_from orig tid frm to token_ids amounts s =
     and_then (ensure_signed orig) (\<lambda>who. mt_do_batch_transfer_from who tid frm to token_ids amounts s)"

definition mt_mint ::
  "origin \<Rightarrow> u128 \<Rightarrow> account \<Rightarrow> u128 \<Rightarrow> u128 \<Rightarrow> mt_storage \<Rightarrow> mt_storage dispatch" where
  "mt_mint orig tid to t amount s =
     ensure (mt_exists tid s) (TokenMultiError MtInvalidId) (
     and_then (ensure_signed orig) (\<lambda>who. mt_do_mint who tid to t amount s))"

definition mt_mint_batch ::
  "origin \<Rightarrow> u128 \<Rightarrow> account \<Rightarrow> u128 list \<Rightarrow> u128 list \<Rightarrow> mt_storage \<Rightarrow> mt_storage dispatch" where
  "mt_mint_batch orig tid to token_ids amounts s =
     and_then (ensure_signed orig) (\<lambda>who. mt_do_batch_mint who tid to token_ids amounts s)"

definition mt_burn :: "origin \<Rightarrow> u128 \<Rightarrow> u128 \<Rightarrow> u128 \<Rightarrow> mt_storage \<Rightarrow> mt_storage dispatch" where
  "mt_burn orig tid t amount s = and_then (ensure_signed orig) (\<lambda>who. mt_do_burn who tid t amount s)"

definition mt_burn_batch ::
  "origin \<Rightarrow> u128 \<Rightarrow> u128 list \<Rightarrow> u128 list \<Rightarrow> mt_storage \<Rightarrow> mt_storage dispatch" where
  "mt_burn_batch orig tid token_ids amounts s =
     and_then (ensure_signed orig) (\<lambda>who. mt_do_batch_burn who tid token_ids amounts s)"

fun mt_dispatch :: "origin \<times> mt_call \<Rightarrow> mt_storage \<Rightarrow> mt_storage dispatch" where
  "mt_dispatch (orig, MtCreateToken tid uri) s = mt_create_token orig tid uri s"
| "mt_dispatch (orig, MtSetApprovalForAll tid operator approved) s =
     mt_set_approval_for_all orig tid operator approved s"
| "mt_dispatch (orig, MtTransferFrom tid frm to t amount) s = mt_transfer_from orig tid frm to t amount s"
| "mt_dispatch (orig, MtBatchTransferFrom tid frm to token_ids amounts) s =
     mt_batch_transfer_from orig tid frm to token_ids amounts s"
| "mt_dispatch (orig, MtMintCall tid to t amount) s = mt_mint orig tid to t amount s"
| "mt_dispatch (orig, MtMintBatch tid to token_ids amounts) s = mt_mint_batch orig tid to token_ids amounts s"
| "mt_dispatch (orig, MtBurnCall tid t amount) s = mt_burn orig tid t amount s"
| "mt_dispatch (orig, MtBurnBatch tid token_ids amounts) s = mt_burn_batch orig tid token_ids amounts s"

section \<open>Specification\<close>

text \<open>The sum of all balances of a collection, over all its token ids and all accounts.\<close>

definition mt_sum :: "mt_storage \<Rightarrow> u128 \<Rightarrow> nat" where
  "mt_sum s tid = total_of (\<lambda>k. mt_balances s (tid, k))"

definition mt_token_ok :: "mt_storage \<Rightarrow> u128 \<Rightarrow> bool" where
  "mt_token_ok s tid \<longleftrightarrow>
     (case mt_tokens s tid of
        None \<Rightarrow> mt_sum s tid = 0
      | Some c \<Rightarrow> unat (mt_total_supply c) \<le> mt_sum s tid \<and> length (mt_token_uri c) \<le> StringLimit)"

definition mt_inv :: "mt_storage \<Rightarrow> bool" where
  "mt_inv s \<longleftrightarrow> (\<forall>tid. mt_token_ok s tid)"

text \<open>What a batch asks for one token id: a token id may occur more than once.\<close>

definition batch_amount :: "u128 \<Rightarrow> (u128 \<times> u128) list \<Rightarrow> nat" where
  "batch_amount t xs = (\<Sum>(u, v)\<leftarrow>xs. if u = t then unat v else 0)"

text \<open>A small state for the concrete instances.\<close>

definition mt_example :: mt_storage where
  "mt_example = \<lparr>mt_tokens = [1 \<mapsto> \<lparr>mt_owner = 1, mt_token_uri = [], mt_total_supply = 30\<rparr>],
     mt_balances = (\<lambda>_. 0)((1, 5, 2) := 30), mt_operator_approvals = (\<lambda>_. False)((1, 2, 3) := True),
     mt_events = []\<rparr>"

section \<open>What the operations do\<close>

lemmas mt_call_defs =
  mt_create_token_def mt_set_approval_for_all_def mt_transfer_from_def mt_batch_transfer_from_def
  mt_mint_def mt_mint_batch_def mt_burn_def mt_burn_batch_def

lemma mt_deposit_event_simps [simp]:
  "mt_tokens (mt_deposit_event e s) = mt_tokens s"
  "mt_balances (mt_deposit_event e s) = mt_balances s"
  "mt_operator_approvals (mt_deposit_event e s) = mt_operator_approvals s"
  by (simp_all add: mt_deposit_event_def)

lemma batch_amount_simps [simp]:
  "batch_amount t [] = 0"
  "batch_amount t ((u, v) # xs) = (if u = t then unat v else 0) + batch_amount t xs"
  by (simp_all add: batch_amount_def)

lemma mt_increase_balance_ok:
  "mt_increase_balance i a t v s = Inr s' \<longleftrightarrow>
     (\<exists>x. unat x = unat (mt_balances s (i, t, a)) + unat v
        \<and> s' = s\<lparr>mt_balances := (mt_balances s)((i, t, a) := x)\<rparr>)"
  by (auto simp: mt_increase_balance_def result_eqs arith_eqs)

lemma mt_decrease_balance_ok:
  "mt_decrease_balance i a t v s = Inr s' \<longleftrightarrow>
     (\<exists>x. unat (mt_balances s (i, t, a)) = unat v + unat x
        \<and> s' = s\<lparr>mt_balances := (mt_balances s)((i, t, a) := x)\<rparr>)"
  by (auto simp: mt_decrease_balance_def result_eqs arith_eqs)

lemma mt_mint_one_ok:
  "mt_mint_one i a (t, v) s = Inr s' \<longleftrightarrow>
     (\<exists>c x. mt_tokens s i = Some c \<and> unat x = unat (mt_balances s (i, t, a)) + unat v
        \<and> s' = s\<lparr>mt_balances := (mt_balances s)((i, t, a) := x),
                 mt_tokens := (mt_tokens s)(i \<mapsto>
                   c\<lparr>mt_total_supply := saturating_add (mt_total_supply c) v\<rparr>)\<rparr>)"
  by (auto simp: mt_mint_one_def result_eqs mt_increase_balance_ok)

lemma mt_burn_one_ok:
  "mt_burn_one i a (t, v) s = Inr s' \<longleftrightarrow>
     (\<exists>c x. mt_tokens s i = Some c \<and> unat (mt_balances s (i, t, a)) = unat v + unat x
        \<and> s' = s\<lparr>mt_balances := (mt_balances s)((i, t, a) := x),
                 mt_tokens := (mt_tokens s)(i \<mapsto>
                   c\<lparr>mt_total_supply := saturating_sub (mt_total_supply c) v\<rparr>)\<rparr>)"
  by (auto simp: mt_burn_one_def result_eqs mt_decrease_balance_ok)

lemma mt_transfer_one_ok:
  "mt_transfer_one i a b (t, v) s = Inr s' \<longleftrightarrow>
     (\<exists>x y. unat (mt_balances s (i, t, a)) = unat v + unat x
        \<and> unat y = unat (((mt_balances s)((i, t, a) := x)) (i, t, b)) + unat v
        \<and> s' = s\<lparr>mt_balances := (mt_balances s)((i, t, a) := x, (i, t, b) := y)\<rparr>)"
  by (auto simp: mt_transfer_one_def result_eqs mt_decrease_balance_ok mt_increase_balance_ok
      word_le_nat_alt simp del: fun_upd_apply)

lemma mt_do_mint_ok:
  "mt_do_mint w i a t v s = Inr s' \<longleftrightarrow>
     (\<exists>c s1. mt_tokens s i = Some c \<and> mt_owner c = w \<and> mt_mint_one i a (t, v) s = Inr s1
        \<and> s' = mt_deposit_event (MtMint i a t v) s1)"
  by (auto simp: mt_do_mint_def mt_has_permission_def result_eqs split: option.splits)

lemma mt_do_batch_mint_ok:
  "mt_do_batch_mint w i a ts vs s = Inr s' \<longleftrightarrow>
     (\<exists>c s1. mt_tokens s i = Some c \<and> mt_owner c = w \<and> length ts = length vs
        \<and> for_each (mt_mint_one i a) (zip ts vs) s = Inr s1
        \<and> s' = mt_deposit_event (MtBatchMint i a ts vs) s1)"
  by (auto simp: mt_do_batch_mint_def mt_exists_def mt_has_permission_def result_eqs split: option.splits)

lemma mt_do_burn_ok:
  "mt_do_burn w i t v s = Inr s' \<longleftrightarrow>
     (\<exists>s1. mt_burn_one i w (t, v) s = Inr s1 \<and> s' = mt_deposit_event (MtBurn i w t v) s1)"
  by (auto simp: mt_do_burn_def result_eqs)

lemma mt_do_batch_burn_ok:
  "mt_do_batch_burn w i ts vs s = Inr s' \<longleftrightarrow>
     length ts = length vs \<and>
     (\<exists>s1. for_each (mt_burn_one i w) (zip ts vs) s = Inr s1
        \<and> s' = mt_deposit_event (MtBatchBurn i w ts vs) s1)"
  by (auto simp: mt_do_batch_burn_def result_eqs)

lemma mt_do_transfer_from_ok:
  "mt_do_transfer_from w i a b t v s = Inr s' \<longleftrightarrow>
     mt_owner_or_approved i w a s \<and> v \<le> mt_balances s (i, t, a) \<and>
     (if a = b then s' = s else
      (\<exists>s1. mt_transfer_one i a b (t, v) s = Inr s1 \<and> s' = mt_deposit_event (MtTransferred i a b t v) s1))"
  by (auto simp: mt_do_transfer_from_def mt_transfer_one_def result_eqs)

lemma mt_do_batch_transfer_from_ok:
  "mt_do_batch_transfer_from w i a b ts vs s = Inr s' \<longleftrightarrow>
     mt_owner_or_approved i w a s \<and> length ts = length vs \<and>
     (if a = b then s' = s else
      (\<exists>s1. for_each (mt_transfer_one i a b) (zip ts vs) s = Inr s1
          \<and> s' = mt_deposit_event (MtBatchTransferred i a b ts vs) s1))"
  by (auto simp: mt_do_batch_transfer_from_def result_eqs)

lemma mt_do_create_token_ok:
  "mt_do_create_token w i uri s = Inr s' \<longleftrightarrow>
     mt_tokens s i = None \<and> length uri \<le> StringLimit
     \<and> s' = mt_deposit_event (MtTokenCreated i w)
         (s\<lparr>mt_tokens := (mt_tokens s)(i \<mapsto> \<lparr>mt_owner = w, mt_token_uri = uri, mt_total_supply = 0\<rparr>)\<rparr>)"
  by (auto simp: mt_do_create_token_def mt_exists_def result_eqs Let_def)

lemma mt_do_set_approval_for_all_ok:
  "mt_do_set_approval_for_all w i p v s = Inr s' \<longleftrightarrow>
     mt_exists i s \<and> s' = mt_deposit_event (MtApprovalForAll i w p v)
       (s\<lparr>mt_operator_approvals := (mt_operator_approvals s)((i, w, p) := v)\<rparr>)"
  by (auto simp: mt_do_set_approval_for_all_def result_eqs)

section \<open>The invariant\<close>

lemma mt_sum_simps [simp]:
  "mt_sum (mt_deposit_event e s) i = mt_sum s i"
  "mt_sum (s\<lparr>mt_tokens := ts\<rparr>) i = mt_sum s i"
  "mt_sum (s\<lparr>mt_operator_approvals := al\<rparr>) i = mt_sum s i"
  "mt_sum (s\<lparr>mt_balances := b, mt_tokens := ts\<rparr>) i = mt_sum (s\<lparr>mt_balances := b\<rparr>) i"
  by (simp_all add: mt_sum_def)

lemma mt_sum_upd:
  "mt_sum (s\<lparr>mt_balances := B((i, k) := v)\<rparr>) j + (if i = j then unat (B (i, k)) else 0)
     = mt_sum (s\<lparr>mt_balances := B\<rparr>) j + (if i = j then unat v else 0)"
proof (cases "i = j")
  case True
  have "(\<lambda>c. (B((i, k) := v)) (i, c)) = (\<lambda>c. B (i, c))(k := v)" by auto
  then show ?thesis
    using True total_of_upd [of "\<lambda>c. B (i, c)" k v] by (simp add: mt_sum_def)
qed (simp add: mt_sum_def)

lemma mt_sum_upd_same [simp]: "mt_sum (s\<lparr>mt_balances := mt_balances s\<rparr>) j = mt_sum s j"
  by (simp add: mt_sum_def)

lemma mt_mint_one_sum:
  assumes "mt_mint_one i a (t, v) s = Inr s'"
  shows "mt_sum s' j = mt_sum s j + (if i = j then unat v else 0)"
proof -
  from assms obtain x where "unat x = unat (mt_balances s (i, t, a)) + unat v"
    and "mt_sum s' j = mt_sum (s\<lparr>mt_balances := (mt_balances s)((i, t, a) := x)\<rparr>) j"
    by (auto simp: mt_mint_one_ok)
  with mt_sum_upd [where s = s and B = "mt_balances s" and i = i and k = "(t, a)" and v = x and j = j]
  show ?thesis by (auto split: if_splits)
qed

lemma mt_burn_one_sum:
  assumes "mt_burn_one i a (t, v) s = Inr s'"
  shows "mt_sum s j = mt_sum s' j + (if i = j then unat v else 0)"
proof -
  from assms obtain x where "unat (mt_balances s (i, t, a)) = unat v + unat x"
    and "mt_sum s' j = mt_sum (s\<lparr>mt_balances := (mt_balances s)((i, t, a) := x)\<rparr>) j"
    by (auto simp: mt_burn_one_ok)
  with mt_sum_upd [where s = s and B = "mt_balances s" and i = i and k = "(t, a)" and v = x and j = j]
  show ?thesis by (auto split: if_splits)
qed

lemma mt_transfer_one_sum:
  assumes "mt_transfer_one i a b (t, v) s = Inr s'"
  shows "mt_sum s' j = mt_sum s j"
proof -
  from assms obtain x y where x: "unat (mt_balances s (i, t, a)) = unat v + unat x"
    and y: "unat y = unat (((mt_balances s)((i, t, a) := x)) (i, t, b)) + unat v"
    and s': "s' = s\<lparr>mt_balances := (mt_balances s)((i, t, a) := x, (i, t, b) := y)\<rparr>"
    by (auto simp: mt_transfer_one_ok)
  from mt_sum_upd [where s = s and B = "mt_balances s" and i = i and k = "(t, a)" and v = x and j = j]
    mt_sum_upd [where s = s and B = "(mt_balances s)((i, t, a) := x)" and i = i and k = "(t, b)"
      and v = y and j = j] x y
  show ?thesis by (simp only: s') (auto split: if_splits)
qed

lemma mt_genesis_inv: "mt_inv mt_genesis"
  by (simp add: mt_inv_def mt_token_ok_def mt_genesis_def mt_sum_def)

lemma mt_inv_same:
  assumes "mt_inv s" and "mt_tokens s' = mt_tokens s" and "\<And>i. mt_sum s' i = mt_sum s i"
  shows "mt_inv s'"
  using assms by (simp add: mt_inv_def mt_token_ok_def cong: option.case_cong)

lemma mt_event_inv [simp]: "mt_inv (mt_deposit_event e s) \<longleftrightarrow> mt_inv s"
  by (simp add: mt_inv_def mt_token_ok_def cong: option.case_cong)

lemma mt_mint_one_inv:
  assumes inv: "mt_inv s" and mint: "mt_mint_one i a p s = Inr s'"
  shows "mt_inv s'"
  unfolding mt_inv_def
proof
  fix j
  obtain t v where p: "p = (t, v)" by (cases p)
  have "mt_token_ok s i" and "mt_token_ok s j" using inv by (simp_all add: mt_inv_def)
  with mint mt_mint_one_sum [OF mint [unfolded p], of j] mt_mint_one_sum [OF mint [unfolded p], of i]
  show "mt_token_ok s' j"
    by (auto simp: p mt_mint_one_ok mt_token_ok_def unat_saturating_add split: option.splits if_splits)
qed

lemma mt_burn_one_inv:
  assumes inv: "mt_inv s" and burn: "mt_burn_one i a p s = Inr s'"
  shows "mt_inv s'"
  unfolding mt_inv_def
proof
  fix j
  obtain t v where p: "p = (t, v)" by (cases p)
  have "mt_token_ok s i" and "mt_token_ok s j" using inv by (simp_all add: mt_inv_def)
  with burn mt_burn_one_sum [OF burn [unfolded p], of j] mt_burn_one_sum [OF burn [unfolded p], of i]
  show "mt_token_ok s' j"
    by (auto simp: p mt_burn_one_ok mt_token_ok_def unat_saturating_sub split: option.splits if_splits)
qed

lemma mt_transfer_one_inv:
  assumes inv: "mt_inv s" and tr: "mt_transfer_one i a b p s = Inr s'"
  shows "mt_inv s'"
proof (rule mt_inv_same [OF inv])
  obtain t v where p: "p = (t, v)" by (cases p)
  show "mt_tokens s' = mt_tokens s" using tr by (auto simp: p mt_transfer_one_ok)
  show "mt_sum s' j = mt_sum s j" for j by (rule mt_transfer_one_sum [OF tr [unfolded p]])
qed

lemma mt_loops_inv:
  "mt_inv s \<Longrightarrow> for_each (mt_mint_one i a) xs s = Inr s' \<Longrightarrow> mt_inv s'"
  "mt_inv s \<Longrightarrow> for_each (mt_burn_one i a) xs s = Inr s' \<Longrightarrow> mt_inv s'"
  "mt_inv s \<Longrightarrow> for_each (mt_transfer_one i a b) xs s = Inr s' \<Longrightarrow> mt_inv s'"
  by (blast intro: for_each_inv mt_mint_one_inv mt_burn_one_inv mt_transfer_one_inv)+

lemma mt_dispatchE:
  assumes "mt_dispatch (orig, c) s = Inr s'"
  obtains (create) who i uri where "orig = Signed who" "c = MtCreateToken i uri"
      "mt_do_create_token who i uri s = Inr s'"
  | (approve) who i p v where "orig = Signed who" "c = MtSetApprovalForAll i p v"
      "mt_do_set_approval_for_all who i p v s = Inr s'"
  | (transfer) who i a b t v where "orig = Signed who" "c = MtTransferFrom i a b t v"
      "mt_do_transfer_from who i a b t v s = Inr s'"
  | (transfers) who i a b ts vs where "orig = Signed who" "c = MtBatchTransferFrom i a b ts vs"
      "mt_do_batch_transfer_from who i a b ts vs s = Inr s'"
  | (mint) who i a t v where "orig = Signed who" "c = MtMintCall i a t v"
      "mt_do_mint who i a t v s = Inr s'"
  | (mints) who i a ts vs where "orig = Signed who" "c = MtMintBatch i a ts vs"
      "mt_do_batch_mint who i a ts vs s = Inr s'"
  | (burn) who i t v where "orig = Signed who" "c = MtBurnCall i t v" "mt_do_burn who i t v s = Inr s'"
  | (burns) who i ts vs where "orig = Signed who" "c = MtBurnBatch i ts vs"
      "mt_do_batch_burn who i ts vs s = Inr s'"
  using assms by (cases c) (auto simp: mt_call_defs result_eqs)

lemma mt_dispatch_inv:
  assumes "mt_inv s" and "mt_dispatch c s = Inr s'"
  shows "mt_inv s'"
proof -
  obtain orig call where c: "c = (orig, call)" by (cases c)
  from assms(2) [unfolded c] show ?thesis
  proof (cases rule: mt_dispatchE)
    case (create who i uri)
    with assms(1) show ?thesis
      by (auto simp: mt_do_create_token_ok mt_inv_def mt_token_ok_def cong: option.case_cong)
  next
    case (approve who i p v)
    with assms(1) show ?thesis
      by (auto simp: mt_do_set_approval_for_all_ok mt_inv_def mt_token_ok_def cong: option.case_cong)
  qed (auto simp: mt_do_transfer_from_ok mt_do_batch_transfer_from_ok mt_do_mint_ok mt_do_batch_mint_ok
      mt_do_burn_ok mt_do_batch_burn_ok assms(1) split: if_splits
      dest: mt_loops_inv [OF assms(1)] mt_mint_one_inv [OF assms(1)] mt_burn_one_inv [OF assms(1)]
        mt_transfer_one_inv [OF assms(1)])
qed

interpretation mt: pallet_invariant mt_dispatch mt_inv
  by unfold_locales (rule mt_dispatch_inv)

section \<open>The loops\<close>

lemma mt_mint_loop:
  assumes "for_each (mt_mint_one i a) xs s = Inr s'"
  shows "unat (mt_balances s' (j, t, b))
    = unat (mt_balances s (j, t, b)) + (if j = i \<and> b = a then batch_amount t xs else 0)"
  using assms
proof (induction xs arbitrary: s)
  case (Cons p xs)
  obtain u v where p: "p = (u, v)" by (cases p)
  from Cons.prems obtain s1 where "mt_mint_one i a (u, v) s = Inr s1"
    and "for_each (mt_mint_one i a) xs s1 = Inr s'"
    by (auto simp: p result_eqs)
  with Cons.IH [of s1] show ?case by (auto simp: p mt_mint_one_ok)
qed simp

lemma mt_burn_loop:
  assumes "for_each (mt_burn_one i a) xs s = Inr s'"
  shows "unat (mt_balances s (j, t, b))
    = unat (mt_balances s' (j, t, b)) + (if j = i \<and> b = a then batch_amount t xs else 0)"
  using assms
proof (induction xs arbitrary: s)
  case (Cons p xs)
  obtain u v where p: "p = (u, v)" by (cases p)
  from Cons.prems obtain s1 where "mt_burn_one i a (u, v) s = Inr s1"
    and "for_each (mt_burn_one i a) xs s1 = Inr s'"
    by (auto simp: p result_eqs)
  with Cons.IH [of s1] show ?case by (auto simp: p mt_burn_one_ok)
qed simp

text \<open>What a loop of transfers moves, and when it gets through.\<close>

lemma mt_transfer_loop:
  assumes "for_each (mt_transfer_one i a b) xs s = Inr s'" and "a \<noteq> b"
  shows "unat (mt_balances s (i, t, a)) = unat (mt_balances s' (i, t, a)) + batch_amount t xs
    \<and> unat (mt_balances s' (i, t, b)) = unat (mt_balances s (i, t, b)) + batch_amount t xs
    \<and> (j \<noteq> i \<or> c \<noteq> a \<and> c \<noteq> b \<longrightarrow> mt_balances s' (j, t, c) = mt_balances s (j, t, c))"
  using assms(1)
proof (induction xs arbitrary: s)
  case (Cons p xs)
  obtain u v where p: "p = (u, v)" by (cases p)
  from Cons.prems obtain s1 where "mt_transfer_one i a b (u, v) s = Inr s1"
    and "for_each (mt_transfer_one i a b) xs s1 = Inr s'"
    by (auto simp: p result_eqs)
  with Cons.IH [of s1] assms(2) show ?case by (auto simp: p mt_transfer_one_ok)
qed simp

lemma mt_transfer_one_progress:
  assumes "a \<noteq> b" and "unat v \<le> unat (mt_balances s (i, t, a))"
    and "unat (mt_balances s (i, t, b)) + unat v < 2 ^ 128"
  shows "\<exists>s'. mt_transfer_one i a b (t, v) s = Inr s'"
proof -
  have "unat (mt_balances s (i, t, a)) = unat v + unat (mt_balances s (i, t, a) - v)"
    using assms(2) by (simp add: unat_diff_le word_le_nat_alt)
  moreover have "unat (mt_balances s (i, t, b) + v) = unat (mt_balances s (i, t, b)) + unat v"
    using assms(3) by (simp add: unat_add_small)
  ultimately show ?thesis
    using assms(1) by (auto simp: mt_transfer_one_ok)
qed

lemma mt_transfer_loop_progress:
  assumes "a \<noteq> b"
    and "\<And>t. batch_amount t xs \<le> unat (mt_balances s (i, t, a))"
    and "\<And>t. unat (mt_balances s (i, t, b)) + batch_amount t xs < 2 ^ 128"
  shows "\<exists>s'. for_each (mt_transfer_one i a b) xs s = Inr s'"
  using assms(2,3)
proof (induction xs arbitrary: s)
  case (Cons p xs)
  obtain u v where p: "p = (u, v)" by (cases p)
  have "unat v \<le> unat (mt_balances s (i, u, a))" "unat (mt_balances s (i, u, b)) + unat v < 2 ^ 128"
    using Cons.prems [of u] by (auto simp: p)
  from mt_transfer_one_progress [OF assms(1) this] obtain s1
    where s1: "mt_transfer_one i a b (u, v) s = Inr s1" by blast
  have "batch_amount t xs \<le> unat (mt_balances s1 (i, t, a))"
    "unat (mt_balances s1 (i, t, b)) + batch_amount t xs < 2 ^ 128" for t
    using s1 assms(1) Cons.prems [of t] by (auto simp: p mt_transfer_one_ok split: if_splits)
  from Cons.IH [OF this] s1 show ?case by (simp add: p)
qed simp

section \<open>Properties\<close>

text \<open>
  After any sequence of calls from genesis, the supply recorded for each collection is covered by
  the balances held in it, and nothing is held in a collection that was never created.
\<close>

theorem mt_inv_exec: "mt_inv (exec mt_dispatch cs mt_genesis)"
  by (rule mt.exec_inv [OF mt_genesis_inv])

text \<open>
  C5: What \<open>batch_transfer_from\<close> does, token ids that occur several times in the batch
  included. It succeeds exactly when the caller is authorised, the vectors have the same length and,
  unless sender and receiver are the same account, the sender holds for every token id all that the
  batch asks for it and the receiver has room for it. A transfer to the sender himself changes
  nothing, covered or not; after any other exactly the amounts of the batch have moved and no other
  balance has changed.
\<close>

theorem mt_batch_transfer_spec:
  "case mt_batch_transfer_from (Signed w) tid a b ts vs s of
     Inl _ \<Rightarrow> \<not> (mt_owner_or_approved tid w a s \<and> length ts = length vs
       \<and> (a = b \<or> (\<forall>t. batch_amount t (zip ts vs) \<le> unat (mt_balances s (tid, t, a))
             \<and> unat (mt_balances s (tid, t, b)) + batch_amount t (zip ts vs) < 2 ^ 128)))
   | Inr s' \<Rightarrow> mt_owner_or_approved tid w a s \<and> length ts = length vs
       \<and> (if a = b then s' = s else
            (\<forall>t. unat (mt_balances s (tid, t, a)) = unat (mt_balances s' (tid, t, a)) + batch_amount t (zip ts vs)
                \<and> unat (mt_balances s' (tid, t, b)) = unat (mt_balances s (tid, t, b)) + batch_amount t (zip ts vs))
            \<and> (\<forall>j t c. j \<noteq> tid \<or> c \<noteq> a \<and> c \<noteq> b \<longrightarrow> mt_balances s' (j, t, c) = mt_balances s (j, t, c)))"
proof (cases "mt_batch_transfer_from (Signed w) tid a b ts vs s")
  case (Inl e)
  have "\<exists>s'. mt_do_batch_transfer_from w tid a b ts vs s = Inr s'"
    if "mt_owner_or_approved tid w a s" "length ts = length vs"
      and "a = b \<or> (\<exists>s1. for_each (mt_transfer_one tid a b) (zip ts vs) s = Inr s1)"
    using that by (auto simp: mt_do_batch_transfer_from_ok)
  with mt_transfer_loop_progress [of a b "zip ts vs" s tid] Inl show ?thesis
    by (auto simp: mt_batch_transfer_from_def)
next
  case (Inr s')
  then have ok: "mt_do_batch_transfer_from w tid a b ts vs s = Inr s'"
    by (simp add: mt_batch_transfer_from_def)
  then have auth: "mt_owner_or_approved tid w a s" "length ts = length vs"
    by (simp_all add: mt_do_batch_transfer_from_ok)
  show ?thesis
  proof (cases "a = b")
    case True
    with ok auth Inr show ?thesis by (simp add: mt_do_batch_transfer_from_ok)
  next
    case False
    with ok obtain s1 where s1: "for_each (mt_transfer_one tid a b) (zip ts vs) s = Inr s1"
      and bal: "mt_balances s' = mt_balances s1"
      by (auto simp: mt_do_batch_transfer_from_ok)
    from mt_transfer_loop [OF s1 False] auth Inr False show ?thesis by (simp add: bal)
  qed
qed

text \<open>
  Minting a batch credits the receiver, for every token id, with the sum of the amounts the batch
  names for it, changes nobody else's balance, and is only for the owner of the collection.
\<close>

theorem mt_batch_mint_spec:
  assumes "mt_mint_batch (Signed w) tid a ts vs s = Inr s'"
  shows "(\<exists>c. mt_tokens s tid = Some c \<and> mt_owner c = w) \<and>
    unat (mt_balances s' (j, t, b)) = unat (mt_balances s (j, t, b))
      + (if j = tid \<and> b = a then batch_amount t (zip ts vs) else 0)"
proof -
  from assms obtain c s1 where "mt_tokens s tid = Some c" "mt_owner c = w"
    and s1: "for_each (mt_mint_one tid a) (zip ts vs) s = Inr s1" and "mt_balances s' = mt_balances s1"
    by (auto simp: mt_mint_batch_def mt_do_batch_mint_ok)
  with mt_mint_loop [OF s1, of j t b] show ?thesis by simp
qed

lemma mt_debit_authorised:
  assumes "mt_dispatch (Signed w, c) s = Inr s'" and "\<not> mt_owner_or_approved tid w a s"
  shows "unat (mt_balances s (tid, t, a)) \<le> unat (mt_balances s' (tid, t, a))"
  using assms(1)
proof (cases rule: mt_dispatchE)
  case (transfer who i x y u v)
  with assms(2) show ?thesis
    by (auto simp: mt_do_transfer_from_ok mt_transfer_one_ok split: if_splits)
next
  case (transfers who i x y us vs)
  then have "mt_owner_or_approved i w x s" by (simp add: mt_do_batch_transfer_from_ok)
  with assms(2) have ne: "tid \<noteq> i \<or> a \<noteq> x" by auto
  show ?thesis
  proof (cases "x = y")
    case True
    with transfers show ?thesis by (simp add: mt_do_batch_transfer_from_ok)
  next
    case False
    from transfers False obtain s1 where s1: "for_each (mt_transfer_one i x y) (zip us vs) s = Inr s1"
      and "mt_balances s' = mt_balances s1"
      by (auto simp: mt_do_batch_transfer_from_ok)
    with mt_transfer_loop [OF s1 False, of t tid a] ne show ?thesis
      by (cases "tid = i \<and> a = y") auto
  qed
next
  case (mints who i b us vs)
  then obtain s1 where s1: "for_each (mt_mint_one i b) (zip us vs) s = Inr s1"
    and "mt_balances s' = mt_balances s1"
    by (auto simp: mt_do_batch_mint_ok)
  with mt_mint_loop [OF s1, of tid t a] show ?thesis by simp
next
  case (burns who i us vs)
  then obtain s1 where s1: "for_each (mt_burn_one i w) (zip us vs) s = Inr s1"
    and "mt_balances s' = mt_balances s1"
    by (auto simp: mt_do_batch_burn_ok)
  with mt_burn_loop [OF s1, of tid t a] assms(2) show ?thesis
    by (auto simp: mt_owner_or_approved_def)
qed (use assms(2) in \<open>auto simp: mt_do_create_token_ok mt_do_set_approval_for_all_ok mt_do_mint_ok
    mt_mint_one_ok mt_do_burn_ok mt_burn_one_ok mt_owner_or_approved_def\<close>)

text \<open>An account that signs no call and has approved nobody keeps its tokens.\<close>

definition mt_guarded :: "account \<Rightarrow> mt_storage \<Rightarrow> bool" where
  "mt_guarded a s \<longleftrightarrow> (\<forall>tid b. \<not> mt_operator_approvals s (tid, a, b))"

lemma mt_loops_frame:
  "for_each (mt_mint_one i b) xs s = Inr s' \<Longrightarrow> mt_operator_approvals s' = mt_operator_approvals s"
  "for_each (mt_burn_one i b) xs s = Inr s' \<Longrightarrow> mt_operator_approvals s' = mt_operator_approvals s"
  "for_each (mt_transfer_one i b c) xs s = Inr s' \<Longrightarrow> mt_operator_approvals s' = mt_operator_approvals s"
  by (induction xs arbitrary: s) (fastforce simp: result_eqs mt_mint_one_ok mt_burn_one_ok mt_transfer_one_ok)+

lemma mt_dispatch_guarded:
  assumes call: "mt_dispatch (Signed w, c) s = Inr s'" and g: "mt_guarded a s" and "w \<noteq> a"
  shows "mt_guarded a s'" and "unat (mt_balances s (tid, t, a)) \<le> unat (mt_balances s' (tid, t, a))"
proof -
  show "mt_guarded a s'" using call
    by (cases rule: mt_dispatchE)
      (use g \<open>w \<noteq> a\<close> in \<open>auto simp: mt_guarded_def mt_do_create_token_ok mt_do_set_approval_for_all_ok mt_do_mint_ok
        mt_mint_one_ok mt_do_burn_ok mt_burn_one_ok mt_do_transfer_from_ok mt_transfer_one_ok mt_do_batch_mint_ok
        mt_do_batch_burn_ok mt_do_batch_transfer_from_ok mt_loops_frame split: if_splits\<close>)
  show "unat (mt_balances s (tid, t, a)) \<le> unat (mt_balances s' (tid, t, a))"
    using g \<open>w \<noteq> a\<close> by (intro mt_debit_authorised [OF call]) (simp add: mt_guarded_def mt_owner_or_approved_def)
qed

text \<open>
  C10: Nobody but the holder and the operators the holder approved can lower a balance.
\<close>

theorem mt_no_theft:
  assumes "mt_dispatch (Signed w, c) s = Inr s'" and "\<not> mt_owner_or_approved tid w a s"
  shows "unat (mt_balances s (tid, t, a)) \<le> unat (mt_balances s' (tid, t, a))"
  using assms by (rule mt_debit_authorised)

text \<open>
  \<open>balance_of_batch\<close> returns the balances asked for, in order, and an error exactly when the two
  vectors differ in length.
\<close>

theorem mt_balance_of_batch_spec:
  "mt_balance_of_batch tid accounts token_ids s =
     (if length accounts = length token_ids
      then Inr (map2 (\<lambda>a t. mt_balances s (tid, t, a)) accounts token_ids)
      else Inl (TokenMultiError MtLengthMismatch))"
proof -
  have fill: "fold (\<lambda>i xs. xs[i := f i]) [0..<n] ys = map f [0..<n] @ drop n ys"
    if "n \<le> length ys" for f :: "nat \<Rightarrow> u128" and n ys
    using that
  proof (induction n)
    case (Suc n)
    then show ?case by (simp add: list_update_append Cons_nth_drop_Suc [symmetric])
  qed simp
  have "map (\<lambda>i. mt_balances s (tid, token_ids ! i, accounts ! i)) [0..<length accounts]
      = map2 (\<lambda>a t. mt_balances s (tid, t, a)) accounts token_ids"
    if "length accounts = length token_ids"
    using that by (intro nth_equalityI) auto
  then show ?thesis by (auto simp: mt_balance_of_batch_def fill ensure_def)
qed

section \<open>Concrete instances\<close>

theorem mt_batch_transfer_spec_witness:
  "\<exists>s'. mt_batch_transfer_from (Signed 3) 1 2 4 [5, 5] [10, 15] mt_example = Inr s'
     \<and> unat (mt_balances s' (1, 5, 4)) = 25"
proof -
  have ok: "mt_batch_transfer_from (Signed 3) 1 2 4 [5, 5] [10, 15] mt_example \<noteq> Inl e" for e
    by (simp add: mt_batch_transfer_from_def mt_do_batch_transfer_from_def mt_owner_or_approved_def
        mt_transfer_one_def mt_decrease_balance_def mt_increase_balance_def mt_example_def
        checked_sub_def checked_add_def)
  from mt_batch_transfer_spec [where w = 3 and tid = 1 and a = 2 and b = 4 and ts = "[5, 5]"
      and vs = "[10, 15]" and s = mt_example] ok
  show ?thesis by (auto simp: mt_example_def split: sum.splits)
qed

theorem mt_batch_mint_spec_witness:
  "\<exists>s'. mt_mint_batch (Signed 1) 1 2 [5, 5] [10, 15] mt_example = Inr s'
     \<and> unat (mt_balances s' (1, 5, 2)) = 55"
proof -
  obtain s' where s': "mt_mint_batch (Signed 1) 1 2 [5, 5] [10, 15] mt_example = Inr s'"
    by (simp add: mt_mint_batch_def mt_do_batch_mint_def mt_exists_def mt_has_permission_def
        mt_mint_one_def mt_increase_balance_def mt_example_def checked_add_def)
  from mt_batch_mint_spec [OF s', of 1 5 2] s' show ?thesis by (auto simp: mt_example_def)
qed

theorem mt_no_theft_witness:
  "\<exists>s'. mt_dispatch (Signed 1, MtMintCall 1 4 5 7) mt_example = Inr s'
     \<and> 30 \<le> unat (mt_balances s' (1, 5, 2))"
proof -
  obtain s' where s': "mt_dispatch (Signed 1, MtMintCall 1 4 5 7) mt_example = Inr s'"
    by (simp add: mt_mint_def mt_do_mint_def mt_exists_def mt_has_permission_def
        mt_mint_one_def mt_increase_balance_def mt_example_def checked_add_def)
  have "\<not> mt_owner_or_approved 1 1 2 mt_example"
    by (simp add: mt_owner_or_approved_def mt_example_def)
  from mt_no_theft [OF s' this, of 5] s' show ?thesis by (auto simp: mt_example_def)
qed

end
