(* ===== verification/WrapCurrency.thy ===== *)
theory WrapCurrency
  imports TokenFungible
begin

text \<open>
  The wrap pallet (\<open>pallets/wrap-currency\<close>): native currency paid into the pallet's vault
  account is matched by fungible tokens (WW3G) minted to the payer, and the reverse. The pallet calls
  the fungible token pallet and the native currency, so its state holds the states of both. The
  property it exists for is that the wrapped tokens stay backed by the vault.
\<close>

section \<open>Storage, events and operations\<close>

datatype wr_event = WrDeposited account u128 | WrWithdrawn account u128

record 'c wr_world =
  wr_ft :: ft_storage
  wr_native :: 'c
  wr_wrap_token :: u128
  wr_events :: "wr_event list"

definition wr_on_ft :: "(ft_storage \<Rightarrow> ft_storage dispatch) \<Rightarrow> 'c wr_world \<Rightarrow> 'c wr_world dispatch" where
  "wr_on_ft = focus wr_ft (\<lambda>s w. w\<lparr>wr_ft := s\<rparr>)"

definition wr_on_native :: "('c \<Rightarrow> 'c dispatch) \<Rightarrow> 'c wr_world \<Rightarrow> 'c wr_world dispatch" where
  "wr_on_native = focus wr_native (\<lambda>c w. w\<lparr>wr_native := c\<rparr>)"

definition wr_account_id :: "env \<Rightarrow> account" where
  "wr_account_id E = into_account E WrapCurrencyPalletId"

definition wr_deposit_event :: "wr_event \<Rightarrow> 'c wr_world \<Rightarrow> 'c wr_world" where
  "wr_deposit_event e w = w\<lparr>wr_events := wr_events w @ [e]\<rparr>"

definition wr_do_deposit ::
  "'c currency \<Rightarrow> env \<Rightarrow> account \<Rightarrow> u128 \<Rightarrow> 'c wr_world \<Rightarrow> 'c wr_world dispatch" where
  "wr_do_deposit C E who amount w =
     (let vault_account = wr_account_id E in
      and_then (wr_on_native (cur_transfer C who vault_account amount KeepAlive) w) (\<lambda>w.
      let token_id = wr_wrap_token w in
      and_then (wr_on_ft (ft_do_mint token_id vault_account who amount) w) (\<lambda>w.
      Inr (wr_deposit_event (WrDeposited who amount) w))))"

definition wr_do_withdraw ::
  "'c currency \<Rightarrow> env \<Rightarrow> account \<Rightarrow> u128 \<Rightarrow> 'c wr_world \<Rightarrow> 'c wr_world dispatch" where
  "wr_do_withdraw C E who amount w =
     and_then (wr_on_native (cur_transfer C (wr_account_id E) who amount KeepAlive) w) (\<lambda>w.
     let token_id = wr_wrap_token w in
     and_then (wr_on_ft (ft_do_burn token_id who amount) w) (\<lambda>w.
     Inr (wr_deposit_event (WrWithdrawn who amount) w)))"

text \<open>The name is the ASCII of \<open>Wrapped Currency\<close>, the symbol that of \<open>WW3G\<close>.\<close>

definition wr_create_wrap_token ::
  "'c currency \<Rightarrow> env \<Rightarrow> u128 \<Rightarrow> 'c wr_world \<Rightarrow> 'c wr_world dispatch" where
  "wr_create_wrap_token C E create_token_deposit w =
     (let vault_account = wr_account_id E;
          w = w\<lparr>wr_native := cur_deposit_creating C vault_account create_token_deposit (wr_native w)\<rparr>;
          tid = 0;
          name = [87, 114, 97, 112, 112, 101, 100, 32, 67, 117, 114, 114, 101, 110, 99, 121];
          symb = [87, 87, 51, 71] in
      and_then (wr_on_ft (ft_do_create_token vault_account tid name symb 18) w) (\<lambda>w.
      Inr (w\<lparr>wr_wrap_token := tid\<rparr>)))"

definition wr_deposit ::
  "'c currency \<Rightarrow> env \<Rightarrow> origin \<Rightarrow> u128 \<Rightarrow> 'c wr_world \<Rightarrow> 'c wr_world dispatch" where
  "wr_deposit C E orig amount w = and_then (ensure_signed orig) (\<lambda>who. wr_do_deposit C E who amount w)"

definition wr_withdraw ::
  "'c currency \<Rightarrow> env \<Rightarrow> origin \<Rightarrow> u128 \<Rightarrow> 'c wr_world \<Rightarrow> 'c wr_world dispatch" where
  "wr_withdraw C E orig amount w = and_then (ensure_signed orig) (\<lambda>who. wr_do_withdraw C E who amount w)"

section \<open>Specification\<close>

text \<open>
  The calls that reach the wrapped token: those of this pallet, every call of the fungible token
  pallet, and native transfers. The vault account is derived from the pallet id and nobody holds a
  key for it, so no call is signed by it; \<open>wr_dispatch\<close> refuses such an origin.
\<close>

datatype wr_call = WrDeposit u128 | WrWithdraw u128 | WrToken ft_call | WrTransfer account u128

fun wr_dispatch ::
  "'c currency \<Rightarrow> env \<Rightarrow> origin \<times> wr_call \<Rightarrow> 'c wr_world \<Rightarrow> 'c wr_world dispatch" where
  "wr_dispatch C E (orig, c) w =
     ensure (orig \<noteq> Signed (wr_account_id E)) BadOrigin (
     case c of
       WrDeposit amount \<Rightarrow> wr_deposit C E orig amount w
     | WrWithdraw amount \<Rightarrow> wr_withdraw C E orig amount w
     | WrToken call \<Rightarrow> wr_on_ft (ft_dispatch (orig, call)) w
     | WrTransfer dest amount \<Rightarrow>
         and_then (ensure_signed orig) (\<lambda>who. wr_on_native (cur_transfer C who dest amount AllowDeath) w))"

text \<open>The wrapped token is the vault's own token, and what is held of it is backed by the vault.\<close>

definition wr_inv :: "'c currency \<Rightarrow> env \<Rightarrow> 'c wr_world \<Rightarrow> bool" where
  "wr_inv C E w \<longleftrightarrow>
     (\<exists>t. ft_tokens (wr_ft w) (wr_wrap_token w) = Some t \<and> ft_owner t = wr_account_id E) \<and>
     ft_sum (wr_ft w) (wr_wrap_token w) \<le> unat (cur_free C (wr_native w) (wr_account_id E))"

text \<open>A genesis for the concrete instances.\<close>

definition wr_genesis :: "(account \<Rightarrow> u128) wr_world" where
  "wr_genesis = \<lparr>wr_ft = ft_genesis, wr_native = (\<lambda>_. 0)(1 := 500), wr_wrap_token = 0, wr_events = []\<rparr>"

section \<open>What the operations do\<close>

lemmas wr_lift_defs = wr_on_ft_def wr_on_native_def

lemma wr_deposit_event_simps [simp]:
  "wr_ft (wr_deposit_event e w) = wr_ft w"
  "wr_native (wr_deposit_event e w) = wr_native w"
  "wr_wrap_token (wr_deposit_event e w) = wr_wrap_token w"
  by (simp_all add: wr_deposit_event_def)

lemma wr_do_depositE:
  assumes "wr_do_deposit C E who v w = Inr w'"
  obtains c s where "cur_transfer C who (wr_account_id E) v KeepAlive (wr_native w) = Inr c"
    and "ft_do_mint (wr_wrap_token w) (wr_account_id E) who v (wr_ft w) = Inr s"
    and "w' = wr_deposit_event (WrDeposited who v) (w\<lparr>wr_native := c, wr_ft := s\<rparr>)"
  using assms by (auto simp: wr_do_deposit_def wr_lift_defs result_eqs Let_def)

lemma wr_do_withdrawE:
  assumes "wr_do_withdraw C E who v w = Inr w'"
  obtains c s where "cur_transfer C (wr_account_id E) who v KeepAlive (wr_native w) = Inr c"
    and "ft_do_burn (wr_wrap_token w) who v (wr_ft w) = Inr s"
    and "w' = wr_deposit_event (WrWithdrawn who v) (w\<lparr>wr_native := c, wr_ft := s\<rparr>)"
  using assms by (auto simp: wr_do_withdraw_def wr_lift_defs result_eqs Let_def)

lemma wr_dispatchE:
  assumes "wr_dispatch C E (orig, c) w = Inr w'"
  obtains (deposit) who v where "orig = Signed who" "who \<noteq> wr_account_id E" "c = WrDeposit v"
      "wr_do_deposit C E who v w = Inr w'"
  | (withdraw) who v where "orig = Signed who" "who \<noteq> wr_account_id E" "c = WrWithdraw v"
      "wr_do_withdraw C E who v w = Inr w'"
  | (token) call s where "orig \<noteq> Signed (wr_account_id E)" "c = WrToken call"
      "ft_dispatch (orig, call) (wr_ft w) = Inr s" "w' = w\<lparr>wr_ft := s\<rparr>"
  | (native) who b v n where "orig = Signed who" "who \<noteq> wr_account_id E" "c = WrTransfer b v"
      "cur_transfer C who b v AllowDeath (wr_native w) = Inr n" "w' = w\<lparr>wr_native := n\<rparr>"
  using assms by (cases c) (auto simp: wr_deposit_def wr_withdraw_def wr_lift_defs result_eqs)

lemma wr_dispatch_inv:
  assumes laws: "currency_laws C" and inv: "wr_inv C E w" and call: "wr_dispatch C E c w = Inr w'"
  shows "wr_inv C E w'"
proof -
  let ?vault = "wr_account_id E" and ?id = "wr_wrap_token w"
  obtain orig cl where c: "c = (orig, cl)" by (cases c)
  from inv obtain t where t: "ft_tokens (wr_ft w) ?id = Some t" "ft_owner t = ?vault"
    and le: "ft_sum (wr_ft w) ?id \<le> unat (cur_free C (wr_native w) ?vault)"
    by (auto simp: wr_inv_def)
  from call [unfolded c] show ?thesis
  proof (cases rule: wr_dispatchE)
    case (deposit who v)
    from wr_do_depositE [OF deposit(4)] obtain n s where
      n: "cur_transfer C who ?vault v KeepAlive (wr_native w) = Inr n"
      and s: "ft_do_mint ?id ?vault who v (wr_ft w) = Inr s"
      and w': "w' = wr_deposit_event (WrDeposited who v) (w\<lparr>wr_native := n, wr_ft := s\<rparr>)" .
    have "unat (cur_free C n ?vault) = unat (cur_free C (wr_native w) ?vault) + unat v"
      by (rule currency_transferE [OF laws n deposit(2)]) (use deposit(2) in auto)
    then show ?thesis
      using ft_do_mint_sum [OF s, of ?id] s le t
      by (auto simp: wr_inv_def w' ft_do_mint_ok ft_internal_mint_ok)
  next
    case (withdraw who v)
    from wr_do_withdrawE [OF withdraw(4)] obtain n s where
      n: "cur_transfer C ?vault who v KeepAlive (wr_native w) = Inr n"
      and s: "ft_do_burn ?id who v (wr_ft w) = Inr s"
      and w': "w' = wr_deposit_event (WrWithdrawn who v) (w\<lparr>wr_native := n, wr_ft := s\<rparr>)" .
    have "unat (cur_free C (wr_native w) ?vault) = unat (cur_free C n ?vault) + unat v"
      by (rule currency_transferE [OF laws n withdraw(2) [symmetric]]) (use withdraw(2) in auto)
    then show ?thesis
      using ft_do_burn_sum [OF s, of ?id] s le t by (auto simp: wr_inv_def w' ft_do_burn_ok)
  next
    case (token call s)
    have "ft_sum s ?id \<le> ft_sum (wr_ft w) ?id"
      using ft_sum_increase_owner [OF token(3), of ?id] token(1) t by force
    with ft_owner_stable [OF token(3) t(1)] le t(2) show ?thesis
      by (auto simp: wr_inv_def token(4))
  next
    case (native who b v n)
    have "unat (cur_free C (wr_native w) ?vault) \<le> unat (cur_free C n ?vault)"
      by (rule currency_transfer_ge [OF laws native(4)]) (use native(2) in auto)
    with le t show ?thesis by (auto simp: wr_inv_def native(5))
  qed
qed

lemma wr_pallet_invariant:
  "currency_laws C \<Longrightarrow> pallet_invariant (wr_dispatch C E) (wr_inv C E)"
  by unfold_locales (rule wr_dispatch_inv)

lemma wr_create_wrap_token_inv:
  assumes "wr_create_wrap_token C E d w = Inr w'" and "ft_sum (wr_ft w) 0 = 0"
  shows "wr_inv C E w'"
  using assms
  by (auto simp: wr_create_wrap_token_def wr_lift_defs result_eqs Let_def ft_do_create_token_ok wr_inv_def)

section \<open>Properties\<close>

text \<open>
  C4: The wrapped token is backed, as far as calls of the wrap pallet, calls of the fungible token pallet
  and native transfers go. From a genesis that created it, and where nobody signs for the vault, any
  sequence of these leaves the wrapped tokens held by all accounts together within the native balance
  of the vault. Contracts are not among these calls: the chain extension can break the backing.
\<close>

theorem wr_backed:
  assumes "currency_laws C"
    and "wr_create_wrap_token C E d w = Inr w0" and "ft_sum (wr_ft w) 0 = 0"
    and "w' = exec (wr_dispatch C E) cs w0"
  shows "ft_sum (wr_ft w') (wr_wrap_token w') \<le> unat (cur_free C (wr_native w') (wr_account_id E))"
  using pallet_invariant.exec_inv [OF wr_pallet_invariant [OF assms(1)]
      wr_create_wrap_token_inv [OF assms(2,3)], of cs]
  by (simp add: wr_inv_def assms(4))

text \<open>
  Depositing and withdrawing the same amount gives the account its native balance back, leaves the
  vault as it was, and leaves every token balance as it was.
\<close>

theorem wr_deposit_withdraw:
  assumes laws: "currency_laws C" and ne: "a \<noteq> wr_account_id E"
    and dep: "wr_deposit C E (Signed a) v w = Inr w1"
    and wd: "wr_withdraw C E (Signed a) v w1 = Inr w2"
  shows "cur_free C (wr_native w2) = cur_free C (wr_native w) \<and> ft_balances (wr_ft w2) = ft_balances (wr_ft w)"
proof -
  let ?vault = "wr_account_id E"
  from dep have "wr_do_deposit C E a v w = Inr w1" by (simp add: wr_deposit_def)
  then obtain n s where n: "cur_transfer C a ?vault v KeepAlive (wr_native w) = Inr n"
    and s: "ft_do_mint (wr_wrap_token w) ?vault a v (wr_ft w) = Inr s"
    and w1: "w1 = wr_deposit_event (WrDeposited a v) (w\<lparr>wr_native := n, wr_ft := s\<rparr>)"
    by (rule wr_do_depositE)
  from wd have "wr_do_withdraw C E a v w1 = Inr w2" by (simp add: wr_withdraw_def)
  then obtain m r where m: "cur_transfer C ?vault a v KeepAlive n = Inr m"
    and r: "ft_do_burn (wr_wrap_token w) a v s = Inr r"
    and w2: "wr_native w2 = m" "wr_ft w2 = r"
    by (rule wr_do_withdrawE) (simp add: w1)
  from currency_transferE [OF laws n ne]
  obtain x y where x: "unat (cur_free C (wr_native w) a) = unat x + unat v"
    and y: "unat y = unat (cur_free C (wr_native w) ?vault) + unat v"
    and free1: "cur_free C n = (cur_free C (wr_native w))(a := x, ?vault := y)" .
  from currency_transferE [OF laws m ne [symmetric]]
  obtain x' y' where x': "unat (cur_free C n ?vault) = unat x' + unat v"
    and y': "unat y' = unat (cur_free C n a) + unat v"
    and free2: "cur_free C m = (cur_free C n)(?vault := x', a := y')" .
  have "x' = cur_free C (wr_native w) ?vault" "y' = cur_free C (wr_native w) a"
    using x y x' y' ne by (auto simp: free1 intro: word_eq_unatI)
  then have "cur_free C m = cur_free C (wr_native w)"
    using ne by (auto simp: free2 free1 fun_eq_iff)
  moreover have "ft_balances r = ft_balances (wr_ft w)"
    using s r by (auto simp: ft_do_mint_ok ft_internal_mint_ok ft_do_burn_ok fun_eq_iff intro: word_eq_unatI)
  ultimately show ?thesis by (simp add: w2)
qed

section \<open>Concrete instances\<close>

lemmas wr_eval =
  wr_create_wrap_token_def wr_genesis_def wr_lift_defs focus_def env_example_def wr_account_id_def
  WrapCurrencyPalletId_def ledger_currency_def ft_do_create_token_def bounded_vec_def StringLimit_def
  ft_deposit_event_def ft_genesis_def saturating_add_def

lemma wr_example_start:
  "\<exists>w0. wr_create_wrap_token ledger_currency env_example 10 wr_genesis = Inr w0"
  by (simp add: wr_eval Let_def)

theorem wr_backed_witness:
  "\<exists>w0 w'. wr_create_wrap_token ledger_currency env_example 10 wr_genesis = Inr w0
     \<and> w' = exec (wr_dispatch ledger_currency env_example) [(Signed 1, WrDeposit 70)] w0
     \<and> ft_sum (wr_ft w') (wr_wrap_token w')
         \<le> unat (cur_free ledger_currency (wr_native w') (wr_account_id env_example))"
proof -
  from wr_example_start obtain w0 where w0: "wr_create_wrap_token ledger_currency env_example 10 wr_genesis = Inr w0"
    by blast
  have "ft_sum (wr_ft wr_genesis) 0 = 0"
    by (simp add: wr_genesis_def ft_genesis_def ft_sum_def)
  from wr_backed [OF ledger_currency_laws w0 this refl, of "[(Signed 1, WrDeposit 70)]"] w0
  show ?thesis by blast
qed

theorem wr_deposit_withdraw_witness:
  "\<exists>w0 w1 w2. wr_create_wrap_token ledger_currency env_example 10 wr_genesis = Inr w0
     \<and> wr_deposit ledger_currency env_example (Signed 1) 70 w0 = Inr w1
     \<and> wr_withdraw ledger_currency env_example (Signed 1) 70 w1 = Inr w2
     \<and> ft_balances (wr_ft w2) = ft_balances (wr_ft w0)"
proof -
  obtain w0 w1 w2 where w: "wr_create_wrap_token ledger_currency env_example 10 wr_genesis = Inr w0"
    "wr_deposit ledger_currency env_example (Signed 1) 70 w0 = Inr w1"
    "wr_withdraw ledger_currency env_example (Signed 1) 70 w1 = Inr w2"
    by (simp add: wr_eval Let_def wr_deposit_def wr_do_deposit_def wr_withdraw_def wr_do_withdraw_def
        ft_do_mint_def ft_maybe_check_permission_def ft_internal_mint_def ft_increase_balance_def
        ft_do_burn_def ft_decrease_balance_def checked_add_def checked_sub_def wr_deposit_event_def)
  have "(1 :: account) \<noteq> wr_account_id env_example"
    by (simp add: wr_account_id_def env_example_def WrapCurrencyPalletId_def)
  from wr_deposit_withdraw [OF ledger_currency_laws this w(2,3)] w show ?thesis by blast
qed

end
