(* ===== verification/ExchangeMath.thy ===== *)
theory ExchangeMath
  imports Frame
begin

text \<open>
  The arithmetic of the exchange pallet (\<open>pallets/exchange\<close>): quotes, swap prices in both
  directions, the amounts and adjusted balances a swap is checked with. Each function is translated
  with its checked, saturating and wrapping operations at their widths, and then shown to compute
  the fraction of natural numbers it stands for, with the bounds under which it does.
\<close>

section \<open>Definitions\<close>

definition MINIMUM_LIQUIDITY :: u128 where "MINIMUM_LIQUIDITY = 1000"

text \<open>\<open>U256::from(a).checked_mul(b).checked_div(c).try_into::<u128>()\<close>, a recurring phrase.\<close>

definition mul_div :: "u128 \<Rightarrow> u128 \<Rightarrow> u128 \<Rightarrow> u128 option" where
  "mul_div a b c =
     Option.bind (checked_mul (u256_of a) (u256_of b)) (\<lambda>l.
     Option.bind (checked_div l (u256_of c)) u128_try_from)"

definition ex_sort_tokens :: "u128 \<Rightarrow> u128 \<Rightarrow> u128 \<times> u128" where
  "ex_sort_tokens token_a token_b = (if token_a < token_b then (token_a, token_b) else (token_b, token_a))"

definition ex_quote :: "u128 \<Rightarrow> u128 \<Rightarrow> u128 \<Rightarrow> u128 dispatch" where
  "ex_quote amount_a reserve_a reserve_b =
     ensure (amount_a > 0) (ExchangeError ExInsufficientAmount) (
     ensure (reserve_a > 0 \<and> reserve_b > 0) (ExchangeError ExInsufficientLiquidity) (
     and_then (ok_or (mul_div amount_a reserve_b reserve_a) (ExchangeError ExOverflow)) Inr))"

definition ex_get_amount_out :: "u128 \<Rightarrow> u128 \<Rightarrow> u128 \<Rightarrow> u128 dispatch" where
  "ex_get_amount_out amount_in reserve_in reserve_out =
     ensure (amount_in > 0) (ExchangeError ExInsufficientInputAmount) (
     ensure (reserve_in > 0 \<and> reserve_out > 0) (ExchangeError ExInsufficientLiquidity) (
     let amount_in_with_fee = saturating_mul (u256_of amount_in) (u256_of 997);
         numerator = saturating_mul amount_in_with_fee (u256_of reserve_out);
         denominator = saturating_add (saturating_mul (u256_of reserve_in) (u256_of 1000)) amount_in_with_fee in
     and_then (ok_or (Option.bind (checked_div numerator denominator) u128_try_from) (ExchangeError ExOverflow)) Inr))"

definition ex_get_amount_in :: "u128 \<Rightarrow> u128 \<Rightarrow> u128 \<Rightarrow> u128 dispatch" where
  "ex_get_amount_in amount_out reserve_in reserve_out =
     ensure (amount_out > 0) (ExchangeError ExInsufficientOutputAmount) (
     ensure (reserve_in > 0 \<and> reserve_out > 0) (ExchangeError ExInsufficientLiquidity) (
     let numerator = saturating_mul (saturating_mul (u256_of reserve_in) (u256_of amount_out)) (u256_of 1000);
         denominator = saturating_mul (saturating_sub (u256_of reserve_out) (u256_of amount_out)) (u256_of 997) in
     and_then (ok_or (Option.bind (checked_div numerator denominator) (\<lambda>r.
                      Option.bind (checked_add r 1) u128_try_from)) (ExchangeError ExOverflow)) Inr))"

definition ex_init_amount_in :: "u128 \<Rightarrow> u128 \<Rightarrow> u128 \<Rightarrow> u128 dispatch" where
  "ex_init_amount_in balance reserve amount_out =
     (if balance > reserve then
        and_then (ok_or (checked_sub (u256_of reserve) (u256_of amount_out)) (ExchangeError ExOverflow)) (\<lambda>temp.
        and_then (ok_or (Option.bind (checked_sub (u256_of balance) temp) u128_try_from)
          (ExchangeError ExOverflow)) Inr)
      else Inr 0)"

definition ex_init_balance_adjusted :: "u128 \<Rightarrow> u128 \<Rightarrow> u128 dispatch" where
  "ex_init_balance_adjusted balance amount_in =
     and_then (ok_or (checked_mul (u256_of balance) (u256_of 1000)) (ExchangeError ExOverflow)) (\<lambda>temp_0.
     and_then (ok_or (checked_mul (u256_of amount_in) (u256_of 3)) (ExchangeError ExOverflow)) (\<lambda>temp_1.
     and_then (ok_or (Option.bind (checked_sub temp_0 temp_1) u128_try_from) (ExchangeError ExOverflow)) Inr))"

text \<open>The condition of the last \<open>ensure!\<close> of \<open>swap\<close>: plain 128-bit products, which wrap.\<close>

definition ex_k_check :: "u128 \<Rightarrow> u128 \<Rightarrow> u128 \<Rightarrow> u128 \<Rightarrow> bool" where
  "ex_k_check balance_0_adjusted balance_1_adjusted reserve_0 reserve_1 \<longleftrightarrow>
     balance_0_adjusted * balance_1_adjusted \<ge> reserve_0 * reserve_1 * 1000 * 1000"

section \<open>Specification\<close>

text \<open>The natural number a swap pays out, and the one it asks for; \<open>min\<close> is the saturation.\<close>

definition price_out :: "nat \<Rightarrow> nat \<Rightarrow> nat \<Rightarrow> nat" where
  "price_out x reserve_in reserve_out =
     min (2 ^ 256 - 1) (997 * x * reserve_out) div (1000 * reserve_in + 997 * x)"

definition price_in :: "nat \<Rightarrow> nat \<Rightarrow> nat \<Rightarrow> nat" where
  "price_in y reserve_in reserve_out =
     min (2 ^ 256 - 1) (1000 * reserve_in * y) div (997 * (reserve_out - y)) + 1"

section \<open>Exact values\<close>

lemma bind_eq_Some_iff: "Option.bind m k = Some y \<longleftrightarrow> (\<exists>x. m = Some x \<and> k x = Some y)"
  by (cases m) auto

lemma and_then_Inr_eta [simp]: "and_then m Inr = m"
  by (cases m) simp_all

lemma of_nat_u128: "n < 2 ^ 128 \<Longrightarrow> unat (of_nat n :: u128) = n"
  by (simp add: unat_of_nat_less)

lemma u256_of_eq_0 [simp]: "u256_of c = 0 \<longleftrightarrow> c = 0"
  by (simp add: unat_eq_zero [symmetric])

lemma mul_div_eq_Some:
  "mul_div a b c = Some x \<longleftrightarrow> unat c \<noteq> 0 \<and> unat x = unat a * unat b div unat c"
proof -
  have mul: "checked_mul (u256_of a) (u256_of b) = Some (u256_of a * u256_of b)"
    "unat (u256_of a * u256_of b) = unat a * unat b"
    using u128_product_bound [of a b] by (simp_all add: checked_mul_def unat_mult_small)
  show ?thesis
    by (auto simp: mul_div_def mul checked_div_def unat_div u128_try_from_eq_Some unat_eq_zero)
qed

lemma word_pos_iff: "0 < x \<longleftrightarrow> unat x \<noteq> 0" for x :: "'a::len word"
  by (simp add: word_gt_0 unat_eq_zero)

lemma price_out_le: "price_out x ri ro * (1000 * ri + 997 * x) \<le> 997 * x * ro"
proof -
  have "price_out x ri ro * (1000 * ri + 997 * x) \<le> min (2 ^ 256 - 1) (997 * x * ro)"
    unfolding price_out_def by (rule div_times_less_eq_dividend)
  also have "\<dots> \<le> 997 * x * ro" by simp
  finally show ?thesis .
qed

lemma price_out_less:
  assumes "0 < ri" and "0 < ro"
  shows "price_out x ri ro < ro"
proof (rule ccontr)
  assume "\<not> price_out x ri ro < ro"
  then have "ro * (1000 * ri + 997 * x) \<le> price_out x ri ro * (1000 * ri + 997 * x)"
    by (intro mult_right_mono) auto
  also note price_out_le [of x ri ro]
  finally have "1000 * (ri * ro) + 997 * x * ro \<le> 997 * x * ro" by (simp add: algebra_simps)
  with assms show False by simp
qed

text \<open>The constant product with the fee left in the pool does not fall.\<close>

lemma price_out_constant_product:
  assumes "0 < ri" and "0 < ro"
  shows "1000 * 1000 * (ri * ro)
    \<le> (1000 * (ri + x) - 3 * x) * (1000 * (ro - price_out x ri ro))"
proof -
  let ?y = "price_out x ri ro" and ?d = "1000 * ri + 997 * x"
  have "?d * ro - 997 * x * ro \<le> ?d * ro - ?y * ?d"
    using price_out_le [of x ri ro] by (rule diff_le_mono2)
  also have "?d * ro - 997 * x * ro = 1000 * (ri * ro)" by (simp add: distrib_right)
  also have "?d * ro - ?y * ?d = ?d * (ro - ?y)" by (metis diff_mult_distrib2 mult.commute)
  finally have "1000 * (1000 * (ri * ro)) \<le> 1000 * (?d * (ro - ?y))"
    by (rule mult_left_mono) simp
  moreover have "1000 * (ri + x) - 3 * x = ?d" by simp
  ultimately show ?thesis by (simp add: add.commute)
qed

lemma price_in_enough:
  assumes "y < ro" and small: "1000 * ri * y < 2 ^ 256"
  shows "y * (1000 * ri + 997 * price_in y ri ro) \<le> 997 * price_in y ri ro * ro"
proof -
  let ?d = "997 * (ro - y)"
  have "0 < ?d" using assms(1) by simp
  then have "1000 * ri * y < (1000 * ri * y div ?d + 1) * ?d"
    using div_less_iff_less_mult [of ?d "1000 * ri * y" "1000 * ri * y div ?d + 1"] by simp
  also have "(1000 * ri * y div ?d + 1) = price_in y ri ro"
    using small by (simp add: price_in_def min_def)
  finally have "1000 * ri * y + 997 * price_in y ri ro * y \<le> price_in y ri ro * ?d + 997 * price_in y ri ro * y"
    by simp
  also have "\<dots> = 997 * price_in y ri ro * (ro - y + y)" by (simp add: distrib_left mult.commute mult.left_commute)
  finally show ?thesis using assms(1) by (simp add: distrib_left mult.commute mult.left_commute)
qed

lemma ex_k_check_bound:
  assumes "ex_k_check a0 a1 r0 r1" and "unat r0 * unat r1 * 1000 * 1000 < 2 ^ 128"
  shows "unat r0 * unat r1 * 1000 * 1000 \<le> unat a0 * unat a1"
proof -
  have r: "unat (r0 * r1 * 1000 * 1000) = unat r0 * unat r1 * 1000 * 1000"
    using assms(2) by (simp add: unat_mult_small)
  have "unat (a0 * a1) \<le> unat a0 * unat a1"
    by (simp add: unat_word_ariths)
  with assms(1) r show ?thesis by (simp add: ex_k_check_def word_le_nat_alt)
qed

lemma ex_adjusted_le: "ex_init_balance_adjusted b i = Inr d \<Longrightarrow> unat d \<le> unat b * 1000"
  by (auto simp: ex_init_balance_adjusted_def result_eqs arith_eqs bind_eq_Some_iff)

section \<open>Properties\<close>

lemma ex_get_amount_out_value:
  assumes "0 < x" and "0 < ri" and "0 < ro"
  shows "ex_get_amount_out x ri ro = Inr (of_nat (price_out (unat x) (unat ri) (unat ro)))"
proof -
  let ?q = "price_out (unat x) (unat ri) (unat ro)"
  let ?fee = "saturating_mul (u256_of x) (u256_of 997)"
  let ?num = "saturating_mul ?fee (u256_of ro)"
  let ?den = "saturating_add (saturating_mul (u256_of ri) (u256_of 1000)) ?fee"
  have fee: "unat ?fee = 997 * unat x"
    using u128_bound [of x] by (simp add: unat_saturating_mul mult.commute)
  have num: "unat ?num = min (2 ^ 256 - 1) (997 * unat x * unat ro)"
    unfolding unat_saturating_mul [of ?fee] fee by simp
  have den: "unat ?den = 1000 * unat ri + 997 * unat x"
    using u128_bound [of x] u128_bound [of ri]
    by (simp add: unat_saturating_add unat_saturating_mul fee mult.commute)
  have q: "?q < 2 ^ 128"
    using price_out_less [of "unat ri" "unat ro" "unat x"] assms u128_bound [of ro]
    by (auto simp: word_pos_iff)
  have "?den \<noteq> 0"
  proof
    assume "?den = 0"
    with den have "1000 * unat ri + 997 * unat x = 0" by simp
    with assms show False by (simp add: word_pos_iff)
  qed
  moreover have "unat (?num div ?den) = ?q"
    by (simp only: unat_div num den price_out_def)
  ultimately have "Option.bind (checked_div ?num ?den) u128_try_from = Some (of_nat ?q)"
    using q by (simp add: checked_div_def u128_try_from_eq_Some of_nat_u128)
  with assms show ?thesis by (simp add: ex_get_amount_out_def Let_def)
qed

text \<open>
  C14: \<open>get_amount_out\<close> on every input: two errors, and otherwise an amount below the reserve. It
  is the price \<open>997 x r\<^sub>o / (1000 r\<^sub>i + 997 x)\<close> rounded down as long as the numerator
  fits into 256 bits; beyond that the numerator has saturated at \<open>2\<^sup>2\<^sup>5\<^sup>6 - 1\<close> and the amount is less
  than this price. It is never cut off at 128 bits and never an overflow error.
\<close>

theorem ex_get_amount_out_spec:
  "case ex_get_amount_out x ri ro of
     Inl e \<Rightarrow> e = ExchangeError (if x = 0 then ExInsufficientInputAmount else ExInsufficientLiquidity)
       \<and> (x = 0 \<or> ri = 0 \<or> ro = 0)
   | Inr y \<Rightarrow> 0 < x \<and> 0 < ri \<and> 0 < ro \<and> y < ro \<and>
       unat y = (if 997 * unat x * unat ro < 2 ^ 256 then 997 * unat x * unat ro else 2 ^ 256 - 1)
         div (1000 * unat ri + 997 * unat x)"
proof (cases "0 < x \<and> 0 < ri \<and> 0 < ro")
  case True
  let ?q = "price_out (unat x) (unat ri) (unat ro)"
  have "?q < unat ro" using True by (intro price_out_less) (auto simp: word_pos_iff)
  then have u: "unat (of_nat ?q :: u128) = ?q" using u128_bound [of ro] by (simp add: of_nat_u128)
  with \<open>?q < unat ro\<close> have "(of_nat ?q :: u128) < ro" by (simp add: word_less_nat_alt)
  moreover have "?q = (if 997 * unat x * unat ro < 2 ^ 256 then 997 * unat x * unat ro else 2 ^ 256 - 1)
         div (1000 * unat ri + 997 * unat x)"
    unfolding price_out_def by (rule arg_cong [where f = "\<lambda>n. n div _"]) (simp add: min_def)
  ultimately show ?thesis using True ex_get_amount_out_value [of x ri ro] u by simp
next
  case False
  then show ?thesis by (auto simp: ex_get_amount_out_def ensure_def word_gt_0)
qed

text \<open>
  A swap at the price of \<open>get_amount_out\<close> never empties the pool and never lowers the
  product of the reserves, even after the 0.3 percent fee is set aside.
\<close>

theorem ex_get_amount_out_product:
  assumes "ex_get_amount_out x ri ro = Inr y"
  shows "unat y < unat ro \<and>
    1000 * 1000 * (unat ri * unat ro)
      \<le> (1000 * (unat ri + unat x) - 3 * unat x) * (1000 * (unat ro - unat y))"
proof -
  from assms have pos: "0 < x" "0 < ri" "0 < ro"
    by (auto simp: ex_get_amount_out_def result_eqs)
  then have nat: "0 < unat ri" "0 < unat ro" by (auto simp: word_pos_iff)
  have less: "price_out (unat x) (unat ri) (unat ro) < unat ro" using nat by (rule price_out_less)
  moreover have "y = of_nat (price_out (unat x) (unat ri) (unat ro))"
    using assms ex_get_amount_out_value [OF pos] by simp
  ultimately have "unat y = price_out (unat x) (unat ri) (unat ro)"
    using u128_bound [of ro] by (simp add: of_nat_u128)
  with less price_out_constant_product [OF nat, of "unat x"] show ?thesis by simp
qed

lemma ex_get_amount_in_value:
  assumes "0 < y" and "0 < ri" and "0 < ro"
  shows "ex_get_amount_in y ri ro =
    (if unat ro \<le> unat y \<or> 2 ^ 128 \<le> price_in (unat y) (unat ri) (unat ro)
     then Inl (ExchangeError ExOverflow)
     else Inr (of_nat (price_in (unat y) (unat ri) (unat ro))))"
proof -
  let ?q = "price_in (unat y) (unat ri) (unat ro)"
  let ?num = "saturating_mul (saturating_mul (u256_of ri) (u256_of y)) (u256_of 1000)"
  let ?den = "saturating_mul (saturating_sub (u256_of ro) (u256_of y)) (u256_of 997)"
  have "unat (saturating_mul (u256_of ri) (u256_of y)) = unat ri * unat y"
    using u128_product_bound [of ri y] by (simp add: unat_saturating_mul)
  then have num: "unat ?num = min (2 ^ 256 - 1) (1000 * unat ri * unat y)"
    by (simp add: unat_saturating_mul mult.commute mult.left_commute)
  have den: "unat ?den = 997 * (unat ro - unat y)"
    using u128_bound [of ro] by (simp add: unat_saturating_mul unat_saturating_sub mult.commute)
  show ?thesis
  proof (cases "unat ro \<le> unat y")
    case True
    with den have "checked_div ?num ?den = None" by (simp add: arith_eqs)
    with True assms show ?thesis by (simp add: ex_get_amount_in_def Let_def)
  next
    case False
    then have d: "checked_div ?num ?den = Some (?num div ?den)"
      using den by (auto simp: checked_div_def)
    have r: "unat (?num div ?den) + 1 = ?q"
      by (simp only: unat_div num den price_in_def)
    have "unat (?num div ?den) < 2 ^ 256 - 1"
    proof -
      have "1 < 997 * (unat ro - unat y)" using False by simp
      then have "unat (?num div ?den) < 2 ^ 256 - 1 \<or> unat ?num = 0"
        unfolding unat_div den using num by (cases "unat ?num = 0") (auto intro: order.strict_trans2 [OF div_less_dividend])
      then show ?thesis by (auto simp: unat_div)
    qed
    then have a: "checked_add (?num div ?den) 1 = Some (?num div ?den + 1)"
      and a': "unat (?num div ?den + 1) = ?q"
      using r by (simp_all add: checked_add_def unat_add_small)
    have "u128_try_from (?num div ?den + 1) = (if 2 ^ 128 \<le> ?q then None else Some (of_nat ?q))"
      using a' by (auto simp: u128_try_from_eq_None u128_try_from_eq_Some of_nat_u128)
    then show ?thesis
      using False assms by (simp add: ex_get_amount_in_def Let_def d a)
  qed
qed

text \<open>
  \<open>get_amount_in\<close> on every input: the two argument errors, an overflow error when the pool does
  not hold more than the amount asked for or the price does not fit into 128 bits, and otherwise the
  price \<open>1000 r\<^sub>i y / (997 (r\<^sub>o - y))\<close> rounded down, plus one, with a numerator that
  saturates at 256 bits.
\<close>

theorem ex_get_amount_in_spec:
  "ex_get_amount_in y ri ro =
     (if y = 0 then Inl (ExchangeError ExInsufficientOutputAmount)
      else if ri = 0 \<or> ro = 0 then Inl (ExchangeError ExInsufficientLiquidity)
      else if ro \<le> y \<or> 2 ^ 128 \<le> price_in (unat y) (unat ri) (unat ro) then Inl (ExchangeError ExOverflow)
      else Inr (of_nat (price_in (unat y) (unat ri) (unat ro))))"
proof (cases "0 < y \<and> 0 < ri \<and> 0 < ro")
  case True
  then show ?thesis using ex_get_amount_in_value [of y ri ro] by (auto simp: word_le_nat_alt)
next
  case False
  then show ?thesis by (auto simp: ex_get_amount_in_def ensure_def word_gt_0)
qed

text \<open>
  The two price functions agree: paying what \<open>get_amount_in\<close> asks for buys at least the amount
  wanted, as long as neither 256-bit numerator saturates.
\<close>

theorem ex_amount_in_out:
  assumes inp: "ex_get_amount_in y ri ro = Inr x"
    and "1000 * unat ri * unat y < 2 ^ 256" and "997 * unat x * unat ro < 2 ^ 256"
  shows "\<exists>z. ex_get_amount_out x ri ro = Inr z \<and> y \<le> z"
proof -
  from inp have pos: "0 < y" "0 < ri" "0 < ro"
    by (auto simp: ex_get_amount_in_def result_eqs)
  with inp have lt: "unat y < unat ro" and x: "unat x = price_in (unat y) (unat ri) (unat ro)"
    by (auto simp: ex_get_amount_in_value of_nat_u128 split: if_splits)
  then have "0 < x" by (simp add: word_pos_iff price_in_def)
  let ?d = "1000 * unat ri + 997 * unat x"
  have "unat y * ?d \<le> 997 * unat x * unat ro"
    using price_in_enough [OF lt assms(2)] by (simp add: x)
  moreover have "0 < ?d" using pos by (simp add: word_pos_iff)
  ultimately have "unat y \<le> 997 * unat x * unat ro div ?d"
    by (simp add: less_eq_div_iff_mult_less_eq)
  also have "\<dots> = price_out (unat x) (unat ri) (unat ro)"
    unfolding price_out_def by (subst min_absorb2) (use assms(3) in simp_all)
  finally have "unat y \<le> price_out (unat x) (unat ri) (unat ro)" .
  moreover have "price_out (unat x) (unat ri) (unat ro) < 2 ^ 128"
    using price_out_less [of "unat ri" "unat ro" "unat x"] pos u128_bound [of ro] by (auto simp: word_pos_iff)
  ultimately show ?thesis
    using ex_get_amount_out_value [OF \<open>0 < x\<close> pos(2,3)] by (simp add: word_le_nat_alt of_nat_u128)
qed

text \<open>
  \<open>quote\<close> on every input: the exact proportion, rounded down, or an error.
\<close>

theorem ex_quote_spec:
  "ex_quote a ra rb =
     (if a = 0 then Inl (ExchangeError ExInsufficientAmount)
      else if ra = 0 \<or> rb = 0 then Inl (ExchangeError ExInsufficientLiquidity)
      else if unat a * unat rb div unat ra < 2 ^ 128 then Inr (of_nat (unat a * unat rb div unat ra))
      else Inl (ExchangeError ExOverflow))"
proof (cases "0 < a \<and> 0 < ra \<and> 0 < rb")
  case True
  have "mul_div a rb ra = (if unat a * unat rb div unat ra < 2 ^ 128
      then Some (of_nat (unat a * unat rb div unat ra)) else None)"
  proof (cases "mul_div a rb ra")
    case None
    then have "\<not> unat a * unat rb div unat ra < 2 ^ 128"
      using True mul_div_eq_Some [of a rb ra "of_nat (unat a * unat rb div unat ra)"]
      by (auto simp: of_nat_u128 word_pos_iff)
    with None show ?thesis by simp
  next
    case (Some q)
    then have "unat q = unat a * unat rb div unat ra" by (simp add: mul_div_eq_Some)
    with Some u128_bound [of q] show ?thesis by (auto intro!: word_eq_unatI simp: of_nat_u128)
  qed
  with True show ?thesis by (auto simp: ex_quote_def)
next
  case False
  then show ?thesis by (auto simp: ex_quote_def ensure_def word_gt_0)
qed

text \<open>
  As long as the product of the reserves times a million fits into 128 bits, the check at the end
  of a swap means what it says: the adjusted balances have at least the product of the old reserves.
\<close>

theorem ex_k_check_sound:
  assumes "ex_k_check a0 a1 r0 r1" and "unat r0 * unat r1 * 1000 * 1000 < 2 ^ 128"
  shows "unat r0 * unat r1 * 1000 * 1000 \<le> unat a0 * unat a1"
  using assms by (rule ex_k_check_bound)

text \<open>
  Without that bound the check means nothing: with reserves of \<open>2\<^sup>6\<^sup>4\<close> units each, which is
  about 18.4 tokens of 18 decimals, the right-hand side wraps to 0 and every pair of balances
  passes, empty ones included.
\<close>

theorem ex_k_check_vacuous: "ex_k_check a0 a1 (2 ^ 64) (2 ^ 64)"
proof -
  have "(2 ^ 64 * 2 ^ 64 * 1000 * 1000 :: u128) = 0"
    by (rule word_eq_unatI) simp
  then show ?thesis by (simp only: ex_k_check_def word_zero_le)
qed

section \<open>Concrete instances\<close>

lemma ex_price_example: "ex_get_amount_out 1000 50000 80000 = Inr 1564"
  by (simp add: ex_get_amount_out_value price_out_def)

theorem ex_get_amount_out_product_witness:
  "ex_get_amount_out 1000 50000 80000 = Inr 1564 \<and>
    1000 * 1000 * (50000 * 80000) \<le> (1000 * (50000 + 1000) - 3 * 1000) * (1000 * (80000 - (1564 :: nat)))"
  using ex_get_amount_out_product [OF ex_price_example] ex_price_example by simp

theorem ex_amount_in_out_witness:
  "\<exists>z. ex_get_amount_in 1564 50000 80000 = Inr 1000 \<and> ex_get_amount_out 1000 50000 80000 = Inr z \<and> 1564 \<le> z"
proof -
  have "ex_get_amount_in 1564 50000 80000 = Inr 1000"
    by (simp add: ex_get_amount_in_value price_in_def)
  with ex_amount_in_out [OF this] show ?thesis by simp
qed

theorem ex_k_check_sound_witness:
  "ex_k_check 60000 70000 50 60 \<and> unat (50 :: u128) * unat (60 :: u128) * 1000 * 1000 \<le> unat (60000 :: u128) * unat (70000 :: u128)"
proof -
  have "ex_k_check 60000 70000 50 60" by (simp add: ex_k_check_def)
  with ex_k_check_sound [OF this] show ?thesis by simp
qed

end
