(* ===== verification/Exchange.thy ===== *)
theory Exchange
  imports ExchangeMath WrapCurrency
begin

text \<open>
  The exchange pallet (\<open>pallets/exchange\<close>), a constant product market over pairs of fungible
  tokens. Its state holds that of the wrap pallet, and through it that of the fungible token pallet
  and of the native currency. Each pool keeps its tokens in an account of its own; the recorded
  reserves say how much of them is accounted for.
\<close>

section \<open>Storage, events and calls\<close>

record ex_pool =
  pool_token_0 :: u128
  pool_token_1 :: u128
  pool_lp_token :: u128
  pool_lp_account :: account

datatype ex_event =
    ExPoolCreated u128 u128 u128 account
  | ExLiquidityAdded u128 u128 u128 u128
  | ExLiquidityRemoved u128 u128 u128 u128
  | ExSwap account u128 u128 u128 u128 account
  | ExSetFeeTo account
  | ExBurn account u128 u128 account
  | ExMint account u128 u128 account
  | ExSync u128 u128

record 'c ex_world =
  ex_wr :: "'c wr_world"
  ex_pools :: "u128 \<times> u128 \<rightharpoonup> ex_pool"
  ex_next_pool_id :: u128
  ex_lp_token_to_token :: "u128 \<rightharpoonup> u128 \<times> u128"
  ex_reserves :: "u128 \<times> u128 \<Rightarrow> u128 \<times> u128"
  ex_k_last :: "u128 \<times> u128 \<Rightarrow> u128"
  ex_fee_to :: "account option"
  ex_events :: "ex_event list"

text \<open>
  Code of other crates: the square roots of \<open>integer_sqrt\<close> on 128 and on 256 bits, and the id that
  the randomness of the current block yields for a pair of tokens.
\<close>

record ex_params =
  integer_sqrt :: "u128 \<Rightarrow> u128"
  integer_sqrt_256 :: "u256 \<Rightarrow> u256"
  random_id :: "u128 \<Rightarrow> u128 \<Rightarrow> u128"

datatype ex_call =
    ExCreatePool u128 u128
  | ExAddLiquidity u128 u128 u128 u128 u128 u128 account u32
  | ExAddLiquidityW3G u128 u128 u128 u128 u128 account u32
  | ExRemoveLiquidity u128 u128 u128 u128 u128 account u32
  | ExRemoveLiquidityW3G u128 u128 u128 u128 account u32
  | ExSwapExactTokensForTokens u128 u128 "u128 list" account u32
  | ExSwapExactW3GForTokens u128 u128 "u128 list" account u32
  | ExSwapTokensForExactTokens u128 u128 "u128 list" account u32
  | ExSwapTokensForExactW3G u128 u128 "u128 list" account u32
  | ExSetFeeToCall account

text \<open>\<open>500 * MILLICENTS\<close>, and the id of the wrapped native currency.\<close>

definition CreatePoolDeposit :: u128 where "CreatePoolDeposit = 5000000000000000"

definition WW3G :: u128 where "WW3G = 0"

section \<open>Access to the other pallets\<close>

definition ex_on_wr :: "('c wr_world \<Rightarrow> 'c wr_world dispatch) \<Rightarrow> 'c ex_world \<Rightarrow> 'c ex_world dispatch" where
  "ex_on_wr = focus ex_wr (\<lambda>s w. w\<lparr>ex_wr := s\<rparr>)"

definition ex_on_ft :: "(ft_storage \<Rightarrow> ft_storage dispatch) \<Rightarrow> 'c ex_world \<Rightarrow> 'c ex_world dispatch" where
  "ex_on_ft f = ex_on_wr (wr_on_ft f)"

definition ex_ft :: "'c ex_world \<Rightarrow> ft_storage" where
  "ex_ft w = wr_ft (ex_wr w)"

definition ex_deposit_event :: "ex_event \<Rightarrow> 'c ex_world \<Rightarrow> 'c ex_world" where
  "ex_deposit_event e w = w\<lparr>ex_events := ex_events w @ [e]\<rparr>"

text \<open>Indexing a vector panics out of range.\<close>

definition index :: "'a list \<Rightarrow> nat \<Rightarrow> 'a dispatch" where
  "index xs i = (if i < length xs then Inr (xs ! i) else Inl Panicked)"

section \<open>Internal operations\<close>

definition ex_account_id :: "env \<Rightarrow> account" where
  "ex_account_id E = into_account E ExchangePalletId"

definition ex_token_id_to_account_id :: "env \<Rightarrow> u128 \<Rightarrow> account" where
  "ex_token_id_to_account_id E token = into_sub_account E ExchangePalletId token"

definition ex_exists :: "u128 \<Rightarrow> u128 \<Rightarrow> 'c ex_world \<Rightarrow> bool" where
  "ex_exists token_a token_b w \<longleftrightarrow> ex_pools w (ex_sort_tokens token_a token_b) \<noteq> None"

definition ex_get_pool :: "u128 \<times> u128 \<Rightarrow> 'c ex_world \<Rightarrow> ex_pool dispatch" where
  "ex_get_pool key w = ok_or (ex_pools w key) (ExchangeError ExPoolNotFound)"

text \<open>The name is the ASCII of \<open>LP Token\<close>, the symbol that of \<open>LPV1\<close>.\<close>

definition ex_do_create_pool ::
  "'c currency \<Rightarrow> env \<Rightarrow> ex_params \<Rightarrow> account \<Rightarrow> u128 \<Rightarrow> u128 \<Rightarrow> 'c ex_world \<Rightarrow> (u128 \<times> 'c ex_world) dispatch" where
  "ex_do_create_pool C E X who token_a token_b w =
     (let pid = ex_next_pool_id w in
      and_then (ok_or (checked_add pid 1) (ExchangeError ExNoAvailablePoolId)) (\<lambda>next_id.
      let w = w\<lparr>ex_next_pool_id := next_id\<rparr> in
      and_then (ex_on_wr (wr_on_native (cur_transfer C who (ex_account_id E) CreatePoolDeposit AllowDeath)) w) (\<lambda>w.
      let (token_0, token_1) = ex_sort_tokens token_a token_b;
          lp_token = random_id X token_0 token_1;
          lp_token_account_id = ex_token_id_to_account_id E lp_token;
          name = [76, 80, 32, 84, 111, 107, 101, 110];
          symb = [76, 80, 86, 49] in
      and_then (ex_on_ft (ft_do_create_token (ex_account_id E) lp_token name symb 18) w) (\<lambda>w.
      let pool = \<lparr>pool_token_0 = token_0, pool_token_1 = token_1, pool_lp_token = lp_token,
                  pool_lp_account = lp_token_account_id\<rparr> in
      Inr (pid, ex_deposit_event (ExPoolCreated pid token_0 token_1 who)
        (w\<lparr>ex_pools := (ex_pools w)((token_0, token_1) \<mapsto> pool),
           ex_lp_token_to_token := (ex_lp_token_to_token w)(lp_token \<mapsto> (token_0, token_1))\<rparr>))))))"

definition ex_get_reserves :: "u128 \<Rightarrow> u128 \<Rightarrow> 'c ex_world \<Rightarrow> (u128 \<times> u128) dispatch" where
  "ex_get_reserves token_a token_b w =
     (let (token_0, token_1) = ex_sort_tokens token_a token_b;
          (reserve_0, reserve_1) = ex_reserves w (token_0, token_1) in
      Inr (if token_a = token_0 then (reserve_0, reserve_1) else (reserve_1, reserve_0)))"

definition ex_do_add_liquidity ::
  "u128 \<Rightarrow> u128 \<Rightarrow> u128 \<Rightarrow> u128 \<Rightarrow> u128 \<Rightarrow> u128 \<Rightarrow> 'c ex_world \<Rightarrow> (u128 \<times> u128) dispatch" where
  "ex_do_add_liquidity token_0 token_1 amount_a_desired amount_b_desired amount_a_min amount_b_min w =
     and_then (ex_get_reserves token_0 token_1 w) (\<lambda>(reserve_a, reserve_b).
     if reserve_a = 0 \<and> reserve_b = 0 then Inr (amount_a_desired, amount_b_desired)
     else
       and_then (ex_quote amount_a_desired reserve_a reserve_b) (\<lambda>amount_b_optimal.
       if amount_b_optimal \<le> amount_b_desired then
         ensure (amount_b_optimal \<ge> amount_b_min) (ExchangeError ExInsufficientBAmount) (
         Inr (amount_a_desired, amount_b_optimal))
       else
         and_then (ex_quote amount_b_desired reserve_b reserve_a) (\<lambda>amount_a_optimal.
         ensure (amount_a_optimal \<le> amount_a_desired) (ExchangeError ExInsufficientAmount) (
         ensure (amount_a_optimal \<ge> amount_a_min) (ExchangeError ExInsufficientAAmount) (
         Inr (amount_a_optimal, amount_b_desired))))))"

definition ex_do_update :: "u128 \<Rightarrow> u128 \<Rightarrow> u128 \<Rightarrow> u128 \<Rightarrow> 'c ex_world \<Rightarrow> 'c ex_world dispatch" where
  "ex_do_update token_0 token_1 balance_0 balance_1 w =
     Inr (ex_deposit_event (ExSync balance_0 balance_1)
       (w\<lparr>ex_reserves := (ex_reserves w)((token_0, token_1) := (balance_0, balance_1))\<rparr>))"

text \<open>One of the two conditional payouts of \<open>swap\<close>.\<close>

definition ex_pay_out :: "u128 \<Rightarrow> account \<Rightarrow> account \<Rightarrow> u128 \<Rightarrow> 'c ex_world \<Rightarrow> 'c ex_world dispatch" where
  "ex_pay_out token lp_account to amount w =
     (if amount > 0 then ex_on_ft (ft_do_transfer token lp_account to amount) w else Inr w)"

definition ex_swap ::
  "account \<Rightarrow> u128 \<Rightarrow> u128 \<Rightarrow> u128 \<Rightarrow> u128 \<Rightarrow> account \<Rightarrow> 'c ex_world \<Rightarrow> 'c ex_world dispatch" where
  "ex_swap who token_0 token_1 amount_0_out amount_1_out to w =
     ensure (amount_0_out > 0 \<or> amount_1_out > 0) (ExchangeError ExInsufficientOutAmount) (
     and_then (ex_get_reserves token_0 token_1 w) (\<lambda>(reserve_0, reserve_1).
     and_then (ex_get_pool (token_0, token_1) w) (\<lambda>pool.
     ensure (amount_0_out < reserve_0 \<and> amount_1_out < reserve_1) (ExchangeError ExInsufficientLiquidity) (
     and_then (ex_pay_out (pool_token_0 pool) (pool_lp_account pool) to amount_0_out w) (\<lambda>w.
     and_then (ex_pay_out (pool_token_1 pool) (pool_lp_account pool) to amount_1_out w) (\<lambda>w.
     let balance_0 = ft_balance_of (pool_token_0 pool) (pool_lp_account pool) (ex_ft w);
         balance_1 = ft_balance_of (pool_token_1 pool) (pool_lp_account pool) (ex_ft w) in
     and_then (ex_init_amount_in balance_0 reserve_0 amount_0_out) (\<lambda>amount_0_in.
     and_then (ex_init_amount_in balance_1 reserve_1 amount_1_out) (\<lambda>amount_1_in.
     ensure (amount_0_in > 0 \<or> amount_1_in > 0) (ExchangeError ExInsufficientInputAmount) (
     and_then (ex_init_balance_adjusted balance_0 amount_0_in) (\<lambda>balance_0_adjusted.
     and_then (ex_init_balance_adjusted balance_1 amount_1_in) (\<lambda>balance_1_adjusted.
     ensure (ex_k_check balance_0_adjusted balance_1_adjusted reserve_0 reserve_1)
       (ExchangeError ExAdjustedError) (
     and_then (ex_do_update token_0 token_1 balance_0 balance_1 w) (\<lambda>w.
     Inr (ex_deposit_event (ExSwap who amount_0_in amount_1_in amount_0_out amount_1_out to) w))))))))))))))"

text \<open>
  The body of the loop of \<open>do_swap\<close>, for the position \<open>i\<close> of the path. The positions it reads
  are inside the path, since the loop stops before the last one.
\<close>

definition ex_hop ::
  "account \<Rightarrow> u128 list \<Rightarrow> u128 list \<Rightarrow> account \<Rightarrow> nat \<Rightarrow> 'c ex_world \<Rightarrow> 'c ex_world dispatch" where
  "ex_hop who amounts path to i w =
     (let inp = path ! i; out = path ! (i + 1);
          (token_0, token_1) = ex_sort_tokens inp out in
      and_then (index amounts (i + 1)) (\<lambda>amount_out.
      let (amount_0_out, amount_1_out) = (if inp = token_0 then (0, amount_out) else (amount_out, 0)) in
      and_then (if i < length path - 2
                then and_then (ex_get_pool (ex_sort_tokens out (path ! (i + 2))) w) (\<lambda>pool. Inr (pool_lp_account pool))
                else Inr to) (\<lambda>receiver.
      ex_swap who token_0 token_1 amount_0_out amount_1_out receiver w)))"

definition ex_do_swap ::
  "account \<Rightarrow> u128 list \<Rightarrow> u128 list \<Rightarrow> account \<Rightarrow> 'c ex_world \<Rightarrow> 'c ex_world dispatch" where
  "ex_do_swap who amounts path to w =
     (if path = [] then Inl Panicked
      else for_each (ex_hop who amounts path to) [0..<length path - 1] w)"

definition ex_mint_fee ::
  "env \<Rightarrow> ex_params \<Rightarrow> u128 \<Rightarrow> u128 \<Rightarrow> u128 \<Rightarrow> u128 \<Rightarrow> 'c ex_world \<Rightarrow> (bool \<times> 'c ex_world) dispatch" where
  "ex_mint_fee E X token_0 token_1 reserve_0 reserve_1 w =
     (let k_last = ex_k_last w (token_0, token_1) in
      case ex_fee_to w of
        Some fee_on \<Rightarrow>
          and_then (ex_get_pool (token_0, token_1) w) (\<lambda>pool.
          and_then (ft_supply (pool_lp_token pool) (ex_ft w)) (\<lambda>total_supply.
          if k_last \<noteq> 0 then
            (let root_k = integer_sqrt_256 X (saturating_mul (u256_of reserve_0) (u256_of reserve_1));
                 root_k_last = integer_sqrt_256 X (u256_of k_last) in
             if root_k > root_k_last then
               and_then (ok_or (checked_sub root_k root_k_last) (ExchangeError ExOverflow)) (\<lambda>root_diff.
               let numerator = saturating_mul (u256_of total_supply) root_diff in
               and_then (ok_or (checked_add (saturating_mul root_k (u256_of 5)) root_k_last)
                 (ExchangeError ExOverflow)) (\<lambda>denominator.
               and_then (ok_or (Option.bind (checked_div numerator denominator) u128_try_from)
                 (ExchangeError ExOverflow)) (\<lambda>liquidity.
               if liquidity > 0 then
                 and_then (ex_on_ft (ft_do_mint (pool_lp_token pool) (ex_account_id E) fee_on liquidity) w)
                   (\<lambda>w. Inr (True, w))
               else Inr (True, w))))
             else Inr (True, w))
          else Inr (True, w)))
      | None \<Rightarrow>
          Inr (False, if k_last \<noteq> 0 then w\<lparr>ex_k_last := (ex_k_last w)((token_0, token_1) := 0)\<rparr> else w))"

text \<open>The end of \<open>mint\<close> and \<open>burn\<close>: the last product is kept when the fee is on; it wraps.\<close>

definition ex_update_k_last :: "bool \<Rightarrow> u128 \<Rightarrow> u128 \<Rightarrow> 'c ex_world \<Rightarrow> 'c ex_world" where
  "ex_update_k_last fee_on token_0 token_1 w =
     (if fee_on then
        let (reserve_0, reserve_1) = ex_reserves w (token_0, token_1) in
        w\<lparr>ex_k_last := (ex_k_last w)((token_0, token_1) := reserve_0 * reserve_1)\<rparr>
      else w)"

text \<open>
  The liquidity \<open>mint\<close> credits: for the first deposit a square root, of which a minimum is locked
  in the pallet's account for good; later the smaller of the two shares.
\<close>

definition ex_mint_liquidity ::
  "env \<Rightarrow> ex_params \<Rightarrow> ex_pool \<Rightarrow> u128 \<Rightarrow> u128 \<Rightarrow> u128 \<Rightarrow> u128 \<Rightarrow> u128 \<Rightarrow> 'c ex_world \<Rightarrow>
   (u128 \<times> 'c ex_world) dispatch" where
  "ex_mint_liquidity E X pool amount_0 amount_1 reserve_0 reserve_1 total_supply w =
     (if total_supply = 0 then
        and_then (ok_or (checked_sub (integer_sqrt X (amount_0 * amount_1)) MINIMUM_LIQUIDITY)
          (ExchangeError ExOverflow)) (\<lambda>liquidity.
        and_then (ex_on_ft (ft_do_mint (pool_lp_token pool) (ex_account_id E) (ex_account_id E)
          MINIMUM_LIQUIDITY) w) (\<lambda>w.
        Inr (liquidity, w)))
      else
        and_then (ok_or (mul_div amount_0 total_supply reserve_0) (ExchangeError ExOverflow)) (\<lambda>liquidity_0.
        and_then (ok_or (mul_div amount_1 total_supply reserve_1) (ExchangeError ExOverflow)) (\<lambda>liquidity_1.
        Inr (min liquidity_0 liquidity_1, w))))"

definition ex_mint ::
  "env \<Rightarrow> ex_params \<Rightarrow> account \<Rightarrow> u128 \<Rightarrow> u128 \<Rightarrow> account \<Rightarrow> 'c ex_world \<Rightarrow> (u128 \<times> 'c ex_world) dispatch" where
  "ex_mint E X who token_0 token_1 to w =
     and_then (ex_get_pool (token_0, token_1) w) (\<lambda>pool.
     let (reserve_0, reserve_1) = ex_reserves w (token_0, token_1);
         balance_0 = ft_balance_of (pool_token_0 pool) (pool_lp_account pool) (ex_ft w);
         balance_1 = ft_balance_of (pool_token_1 pool) (pool_lp_account pool) (ex_ft w) in
     and_then (ok_or (checked_sub balance_0 reserve_0) (ExchangeError ExOverflow)) (\<lambda>amount_0.
     and_then (ok_or (checked_sub balance_1 reserve_1) (ExchangeError ExOverflow)) (\<lambda>amount_1.
     and_then (ex_mint_fee E X token_0 token_1 reserve_0 reserve_1 w) (\<lambda>(fee_on, w).
     and_then (ft_supply (pool_lp_token pool) (ex_ft w)) (\<lambda>total_supply.
     and_then (ex_mint_liquidity E X pool amount_0 amount_1 reserve_0 reserve_1 total_supply w) (\<lambda>(liquidity, w).
     ensure (liquidity \<ge> 0) (ExchangeError ExInsufficientLiquidityMinted) (
     and_then (ex_on_ft (ft_do_mint (pool_lp_token pool) (ex_account_id E) to liquidity) w) (\<lambda>w.
     and_then (ex_do_update token_0 token_1 balance_0 balance_1 w) (\<lambda>w.
     Inr (liquidity, ex_deposit_event (ExMint who amount_0 amount_1 to)
       (ex_update_k_last fee_on token_0 token_1 w)))))))))))"

definition ex_get_liquidity ::
  "ex_params \<Rightarrow> u128 \<Rightarrow> u128 \<Rightarrow> u128 \<Rightarrow> u128 \<Rightarrow> 'c ex_world \<Rightarrow> u128 dispatch" where
  "ex_get_liquidity X token_a amount_a token_b amount_b w =
     (let (token_0, token_1) = ex_sort_tokens token_a token_b;
          (amount_0, amount_1) = (if token_a = token_0 then (amount_a, amount_b) else (amount_b, amount_a)) in
      and_then (ex_get_pool (token_0, token_1) w) (\<lambda>pool.
      let (reserve_0, reserve_1) = ex_reserves w (token_0, token_1) in
      and_then (ft_supply (pool_lp_token pool) (ex_ft w)) (\<lambda>total_supply.
      and_then (if total_supply = 0 then
                  ok_or (checked_sub (integer_sqrt X (amount_0 * amount_1)) MINIMUM_LIQUIDITY)
                    (ExchangeError ExOverflow)
                else
                  and_then (ok_or (mul_div amount_0 total_supply reserve_0) (ExchangeError ExOverflow)) (\<lambda>liquidity_0.
                  and_then (ok_or (mul_div amount_1 total_supply reserve_1) (ExchangeError ExOverflow)) (\<lambda>liquidity_1.
                  Inr (min liquidity_0 liquidity_1)))) (\<lambda>liquidity.
      ensure (liquidity \<ge> 0) (ExchangeError ExInsufficientLiquidityMinted) (Inr liquidity)))))"

definition ex_liquidity_to_token :: "u128 \<Rightarrow> u128 \<Rightarrow> 'c ex_world \<Rightarrow> (u128 \<times> u128) dispatch" where
  "ex_liquidity_to_token lp_token lp_balance w =
     and_then (ok_or (ex_lp_token_to_token w lp_token) (ExchangeError ExPoolNotFound)) (\<lambda>(token_0, token_1).
     ensure (token_0 \<noteq> token_1) (ExchangeError ExPoolNotFound) (
     and_then (ex_get_pool (token_0, token_1) w) (\<lambda>pool.
     let balance_0 = ft_balance_of (pool_token_0 pool) (pool_lp_account pool) (ex_ft w);
         balance_1 = ft_balance_of (pool_token_1 pool) (pool_lp_account pool) (ex_ft w);
         liquidity_balance = ft_balance_of (pool_lp_token pool) (pool_lp_account pool) (ex_ft w);
         liquidity = liquidity_balance + lp_balance in
     and_then (ft_supply (pool_lp_token pool) (ex_ft w)) (\<lambda>total_supply.
     and_then (ok_or (mul_div liquidity balance_0 total_supply) (ExchangeError ExOverflow)) (\<lambda>amount_0.
     and_then (ok_or (mul_div liquidity balance_1 total_supply) (ExchangeError ExOverflow)) (\<lambda>amount_1.
     ensure (amount_0 > 0 \<and> amount_1 > 0) (ExchangeError ExInsufficientLiquidityBurned) (
     Inr (amount_0, amount_1))))))))"

definition ex_burn ::
  "env \<Rightarrow> ex_params \<Rightarrow> account \<Rightarrow> u128 \<Rightarrow> u128 \<Rightarrow> account \<Rightarrow> 'c ex_world \<Rightarrow> ((u128 \<times> u128) \<times> 'c ex_world) dispatch" where
  "ex_burn E X who token_0 token_1 to w =
     and_then (ex_get_pool (token_0, token_1) w) (\<lambda>pool.
     let (reserve_0, reserve_1) = ex_reserves w (token_0, token_1);
         balance_0 = ft_balance_of (pool_token_0 pool) (pool_lp_account pool) (ex_ft w);
         balance_1 = ft_balance_of (pool_token_1 pool) (pool_lp_account pool) (ex_ft w);
         liquidity = ft_balance_of (pool_lp_token pool) (pool_lp_account pool) (ex_ft w) in
     and_then (ex_mint_fee E X token_0 token_1 reserve_0 reserve_1 w) (\<lambda>(fee_on, w).
     and_then (ft_supply (pool_lp_token pool) (ex_ft w)) (\<lambda>total_supply.
     and_then (ok_or (mul_div liquidity balance_0 total_supply) (ExchangeError ExOverflow)) (\<lambda>amount_0.
     and_then (ok_or (mul_div liquidity balance_1 total_supply) (ExchangeError ExOverflow)) (\<lambda>amount_1.
     ensure (amount_0 > 0 \<and> amount_1 > 0) (ExchangeError ExInsufficientLiquidityBurned) (
     and_then (ex_on_ft (ft_do_burn (pool_lp_token pool) (pool_lp_account pool) liquidity) w) (\<lambda>w.
     and_then (ex_on_ft (ft_do_transfer (pool_token_0 pool) (pool_lp_account pool) to amount_0) w) (\<lambda>w.
     and_then (ex_on_ft (ft_do_transfer (pool_token_1 pool) (pool_lp_account pool) to amount_1) w) (\<lambda>w.
     let balance_0 = ft_balance_of (pool_token_0 pool) (pool_lp_account pool) (ex_ft w);
         balance_1 = ft_balance_of (pool_token_1 pool) (pool_lp_account pool) (ex_ft w) in
     and_then (ex_do_update token_0 token_1 balance_0 balance_1 w) (\<lambda>w.
     Inr ((amount_0, amount_1), ex_deposit_event (ExBurn who amount_0 amount_1 to)
       (ex_update_k_last fee_on token_0 token_1 w))))))))))))"

text \<open>
  The two price loops over a path fill a vector of zeroes; \<open>get_amounts_out\<close> from the front,
  \<open>get_amounts_in\<close> from the back.
\<close>

definition ex_get_amounts_out :: "u128 \<Rightarrow> u128 list \<Rightarrow> 'c ex_world \<Rightarrow> u128 list dispatch" where
  "ex_get_amounts_out amount_in path w =
     ensure (length path \<ge> 2) (ExchangeError ExInvalidPath) (
     for_each (\<lambda>i amounts.
         and_then (ex_get_reserves (path ! i) (path ! (i + 1)) w) (\<lambda>(reserve_in, reserve_out).
         and_then (ex_get_amount_out (amounts ! i) reserve_in reserve_out) (\<lambda>amount.
         Inr (amounts[i + 1 := amount]))))
       [0..<length path - 1] ((replicate (length path) 0)[0 := amount_in]))"

definition ex_get_amounts_in :: "u128 \<Rightarrow> u128 list \<Rightarrow> 'c ex_world \<Rightarrow> u128 list dispatch" where
  "ex_get_amounts_in amount_out path w =
     ensure (length path \<ge> 2) (ExchangeError ExInvalidPath) (
     for_each (\<lambda>i amounts.
         and_then (ex_get_reserves (path ! (i - 1)) (path ! i) w) (\<lambda>(reserve_in, reserve_out).
         and_then (ex_get_amount_in (amounts ! i) reserve_in reserve_out) (\<lambda>amount.
         Inr (amounts[i - 1 := amount]))))
       (rev [1..<length path]) ((replicate (length path) 0)[length path - 1 := amount_out]))"

section \<open>Dispatchable calls\<close>

definition ex_create_pool ::
  "'c currency \<Rightarrow> env \<Rightarrow> ex_params \<Rightarrow> origin \<Rightarrow> u128 \<Rightarrow> u128 \<Rightarrow> 'c ex_world \<Rightarrow> 'c ex_world dispatch" where
  "ex_create_pool C E X orig token_a token_b w =
     and_then (ensure_signed orig) (\<lambda>who.
     ensure (token_a \<noteq> token_b) (ExchangeError ExTokenRepeat) (
     ensure (ft_exists token_a (ex_ft w) \<and> ft_exists token_b (ex_ft w)) (ExchangeError ExTokenAccountNotFound) (
     ensure (\<not> ex_exists token_a token_b w) (ExchangeError ExPoolAlreadyCreated) (
     and_then (ex_do_create_pool C E X who token_a token_b w) (\<lambda>(pid, w). Inr w)))))"

text \<open>The part both \<open>add_liquidity\<close> calls end with.\<close>

definition ex_pay_in_and_mint ::
  "env \<Rightarrow> ex_params \<Rightarrow> account \<Rightarrow> u128 \<Rightarrow> u128 \<Rightarrow> ex_pool \<Rightarrow> u128 \<Rightarrow> u128 \<Rightarrow> account \<Rightarrow> 'c ex_world \<Rightarrow> 'c ex_world dispatch" where
  "ex_pay_in_and_mint E X who token_0 token_1 pool amount_a amount_b to w =
     and_then (ex_on_ft (ft_do_transfer (pool_token_0 pool) who (pool_lp_account pool) amount_a) w) (\<lambda>w.
     and_then (ex_on_ft (ft_do_transfer (pool_token_1 pool) who (pool_lp_account pool) amount_b) w) (\<lambda>w.
     and_then (ex_mint E X who token_0 token_1 to w) (\<lambda>(liquidity, w).
     Inr (ex_deposit_event (ExLiquidityAdded (pool_lp_token pool) amount_a amount_b liquidity) w))))"

definition ex_add_liquidity ::
  "env \<Rightarrow> ex_params \<Rightarrow> origin \<Rightarrow> u128 \<Rightarrow> u128 \<Rightarrow> u128 \<Rightarrow> u128 \<Rightarrow> u128 \<Rightarrow> u128 \<Rightarrow> account \<Rightarrow> u32 \<Rightarrow>
   'c ex_world \<Rightarrow> 'c ex_world dispatch" where
  "ex_add_liquidity E X orig token_a token_b amount_a_desired amount_b_desired amount_a_min amount_b_min to deadline w =
     and_then (ensure_signed orig) (\<lambda>who.
     ensure (deadline > env_now E) (ExchangeError ExDeadline) (
     let (token_0, token_1) = ex_sort_tokens token_a token_b;
         (amount_0, amount_1, amount_0_min, amount_1_min) =
           (if token_a = token_0 then (amount_a_desired, amount_b_desired, amount_a_min, amount_b_min)
            else (amount_b_desired, amount_a_desired, amount_b_min, amount_a_min)) in
     and_then (ex_get_pool (token_0, token_1) w) (\<lambda>pool.
     and_then (ex_do_add_liquidity token_0 token_1 amount_0 amount_1 amount_0_min amount_1_min w)
       (\<lambda>(amount_a, amount_b).
     ex_pay_in_and_mint E X who token_0 token_1 pool amount_a amount_b to w))))"

definition ex_add_liquidity_w3g ::
  "'c currency \<Rightarrow> env \<Rightarrow> ex_params \<Rightarrow> origin \<Rightarrow> u128 \<Rightarrow> u128 \<Rightarrow> u128 \<Rightarrow> u128 \<Rightarrow> u128 \<Rightarrow> account \<Rightarrow> u32 \<Rightarrow>
   'c ex_world \<Rightarrow> 'c ex_world dispatch" where
  "ex_add_liquidity_w3g C E X orig token amount_w3g_desired amount_desired amount_w3g_min amount_min to deadline w =
     and_then (ensure_signed orig) (\<lambda>who.
     ensure (deadline > env_now E) (ExchangeError ExDeadline) (
     and_then (ex_on_wr (wr_do_deposit C E who amount_w3g_desired) w) (\<lambda>w.
     let (token_0, token_1) = ex_sort_tokens WW3G token in
     and_then (ex_get_pool (token_0, token_1) w) (\<lambda>pool.
     and_then (ex_do_add_liquidity WW3G token amount_w3g_desired amount_desired amount_w3g_min amount_min w)
       (\<lambda>(amount_a, amount_b).
     ex_pay_in_and_mint E X who token_0 token_1 pool amount_a amount_b to w)))))"

definition ex_remove_liquidity ::
  "env \<Rightarrow> ex_params \<Rightarrow> origin \<Rightarrow> u128 \<Rightarrow> u128 \<Rightarrow> u128 \<Rightarrow> u128 \<Rightarrow> u128 \<Rightarrow> account \<Rightarrow> u32 \<Rightarrow>
   'c ex_world \<Rightarrow> 'c ex_world dispatch" where
  "ex_remove_liquidity E X orig token_a token_b liquidity amount_a_min amount_b_min to deadline w =
     and_then (ensure_signed orig) (\<lambda>who.
     ensure (deadline > env_now E) (ExchangeError ExDeadline) (
     let (token_0, token_1) = ex_sort_tokens token_a token_b in
     and_then (ex_get_pool (token_0, token_1) w) (\<lambda>pool.
     and_then (ex_on_ft (ft_do_transfer (pool_lp_token pool) who (pool_lp_account pool) liquidity) w) (\<lambda>w.
     and_then (ex_burn E X who token_0 token_1 to w) (\<lambda>((amount_0, amount_1), w).
     ensure (amount_0 \<ge> amount_a_min) (ExchangeError ExInsufficientAAmount) (
     ensure (amount_1 \<ge> amount_b_min) (ExchangeError ExInsufficientBAmount) (
     Inr (ex_deposit_event (ExLiquidityRemoved (pool_lp_token pool) amount_0 amount_1 liquidity) w))))))))"

definition ex_remove_liquidity_w3g ::
  "'c currency \<Rightarrow> env \<Rightarrow> ex_params \<Rightarrow> origin \<Rightarrow> u128 \<Rightarrow> u128 \<Rightarrow> u128 \<Rightarrow> u128 \<Rightarrow> account \<Rightarrow> u32 \<Rightarrow>
   'c ex_world \<Rightarrow> 'c ex_world dispatch" where
  "ex_remove_liquidity_w3g C E X orig token liquidity amount_w3g_min amount_min to deadline w =
     and_then (ensure_signed orig) (\<lambda>who.
     ensure (deadline > env_now E) (ExchangeError ExDeadline) (
     let (token_0, token_1) = ex_sort_tokens WW3G token in
     and_then (ex_get_pool (token_0, token_1) w) (\<lambda>pool.
     and_then (ex_on_ft (ft_do_transfer (pool_lp_token pool) who (pool_lp_account pool) liquidity) w) (\<lambda>w.
     and_then (ex_burn E X who token_0 token_1 to w) (\<lambda>((amount_0, amount_1), w).
     ensure (amount_0 \<ge> amount_w3g_min) (ExchangeError ExInsufficientAAmount) (
     ensure (amount_1 \<ge> amount_min) (ExchangeError ExInsufficientBAmount) (
     and_then (ex_on_wr (wr_do_withdraw C E who amount_0) w) (\<lambda>w.
     Inr (ex_deposit_event (ExLiquidityRemoved (pool_lp_token pool) amount_0 amount_1 liquidity) w)))))))))"

text \<open>The pool of the first hop; reading the first two positions of a shorter path panics.\<close>

definition ex_first_pool :: "u128 list \<Rightarrow> 'c ex_world \<Rightarrow> ex_pool dispatch" where
  "ex_first_pool path w =
     and_then (index path 0) (\<lambda>p0.
     and_then (index path 1) (\<lambda>p1.
     ex_get_pool (ex_sort_tokens p0 p1) w))"

text \<open>What all four swap calls do once the amounts are known: pay in, then hop along the path.\<close>

definition ex_pay_in_and_swap ::
  "account \<Rightarrow> ex_pool \<Rightarrow> u128 list \<Rightarrow> u128 list \<Rightarrow> account \<Rightarrow> 'c ex_world \<Rightarrow> 'c ex_world dispatch" where
  "ex_pay_in_and_swap who pool amounts path to w =
     and_then (index path 0) (\<lambda>p0.
     and_then (index amounts 0) (\<lambda>amount_0.
     and_then (ex_on_ft (ft_do_transfer p0 who (pool_lp_account pool) amount_0) w) (\<lambda>w.
     ex_do_swap who amounts path to w)))"

definition ex_swap_exact_tokens_for_tokens ::
  "env \<Rightarrow> origin \<Rightarrow> u128 \<Rightarrow> u128 \<Rightarrow> u128 list \<Rightarrow> account \<Rightarrow> u32 \<Rightarrow> 'c ex_world \<Rightarrow> 'c ex_world dispatch" where
  "ex_swap_exact_tokens_for_tokens E orig amount_in amount_out_min path to deadline w =
     and_then (ensure_signed orig) (\<lambda>who.
     ensure (deadline > env_now E) (ExchangeError ExDeadline) (
     and_then (ex_first_pool path w) (\<lambda>pool.
     and_then (ex_get_amounts_out amount_in path w) (\<lambda>amounts.
     and_then (index amounts (length amounts - 1)) (\<lambda>amount_last.
     ensure (amount_last \<ge> amount_out_min) (ExchangeError ExInsufficientOutAmount) (
     ex_pay_in_and_swap who pool amounts path to w))))))"

definition ex_swap_exact_w3g_for_tokens ::
  "'c currency \<Rightarrow> env \<Rightarrow> origin \<Rightarrow> u128 \<Rightarrow> u128 \<Rightarrow> u128 list \<Rightarrow> account \<Rightarrow> u32 \<Rightarrow> 'c ex_world \<Rightarrow> 'c ex_world dispatch" where
  "ex_swap_exact_w3g_for_tokens C E orig amount_in_w3g amount_out_min path to deadline w =
     and_then (ensure_signed orig) (\<lambda>who.
     and_then (index path 0) (\<lambda>p0.
     ensure (p0 = WW3G) (ExchangeError ExInvalidPath) (
     ensure (deadline > env_now E) (ExchangeError ExDeadline) (
     and_then (ex_first_pool path w) (\<lambda>pool.
     and_then (ex_get_amounts_out amount_in_w3g path w) (\<lambda>amounts.
     and_then (index amounts (length amounts - 1)) (\<lambda>amount_last.
     ensure (amount_last \<ge> amount_out_min) (ExchangeError ExInsufficientOutAmount) (
     and_then (index amounts 0) (\<lambda>amount_0.
     and_then (ex_on_wr (wr_do_deposit C E who amount_0) w) (\<lambda>w.
     ex_pay_in_and_swap who pool amounts path to w))))))))))"

definition ex_swap_tokens_for_exact_tokens ::
  "env \<Rightarrow> origin \<Rightarrow> u128 \<Rightarrow> u128 \<Rightarrow> u128 list \<Rightarrow> account \<Rightarrow> u32 \<Rightarrow> 'c ex_world \<Rightarrow> 'c ex_world dispatch" where
  "ex_swap_tokens_for_exact_tokens E orig amount_out amount_in_max path to deadline w =
     and_then (ensure_signed orig) (\<lambda>who.
     ensure (deadline > env_now E) (ExchangeError ExDeadline) (
     and_then (ex_first_pool path w) (\<lambda>pool.
     and_then (ex_get_amounts_in amount_out path w) (\<lambda>amounts.
     and_then (index amounts 0) (\<lambda>amount_0.
     ensure (amount_0 \<le> amount_in_max) (ExchangeError ExInsufficientInputAmount) (
     ex_pay_in_and_swap who pool amounts path to w))))))"

definition ex_swap_tokens_for_exact_w3g ::
  "'c currency \<Rightarrow> env \<Rightarrow> origin \<Rightarrow> u128 \<Rightarrow> u128 \<Rightarrow> u128 list \<Rightarrow> account \<Rightarrow> u32 \<Rightarrow> 'c ex_world \<Rightarrow> 'c ex_world dispatch" where
  "ex_swap_tokens_for_exact_w3g C E orig amount_out_w3g amount_in_max path to deadline w =
     and_then (ensure_signed orig) (\<lambda>who.
     and_then (if path = [] then Inl Panicked else Inr (path ! (length path - 1))) (\<lambda>p_last.
     ensure (p_last = WW3G) (ExchangeError ExInvalidPath) (
     ensure (deadline > env_now E) (ExchangeError ExDeadline) (
     and_then (ex_first_pool path w) (\<lambda>pool.
     and_then (ex_get_amounts_in amount_out_w3g path w) (\<lambda>amounts.
     and_then (index amounts 0) (\<lambda>amount_0.
     ensure (amount_0 \<le> amount_in_max) (ExchangeError ExInsufficientInputAmount) (
     and_then (ex_pay_in_and_swap who pool amounts path to w) (\<lambda>w.
     and_then (index amounts (length amounts - 1)) (\<lambda>amount_last.
     ex_on_wr (wr_do_withdraw C E to amount_last) w))))))))))"

definition ex_set_fee_to :: "origin \<Rightarrow> account \<Rightarrow> 'c ex_world \<Rightarrow> 'c ex_world dispatch" where
  "ex_set_fee_to orig to w =
     and_then (ensure_root orig) (\<lambda>_. Inr (ex_deposit_event (ExSetFeeTo to) (w\<lparr>ex_fee_to := Some to\<rparr>)))"

fun ex_call_dispatch ::
  "'c currency \<Rightarrow> env \<Rightarrow> ex_params \<Rightarrow> origin \<Rightarrow> ex_call \<Rightarrow> 'c ex_world \<Rightarrow> 'c ex_world dispatch" where
  "ex_call_dispatch C E X orig (ExCreatePool a b) w = ex_create_pool C E X orig a b w"
| "ex_call_dispatch C E X orig (ExAddLiquidity a b ad bd am bm to dl) w =
     ex_add_liquidity E X orig a b ad bd am bm to dl w"
| "ex_call_dispatch C E X orig (ExAddLiquidityW3G t ad bd am bm to dl) w =
     ex_add_liquidity_w3g C E X orig t ad bd am bm to dl w"
| "ex_call_dispatch C E X orig (ExRemoveLiquidity a b l am bm to dl) w =
     ex_remove_liquidity E X orig a b l am bm to dl w"
| "ex_call_dispatch C E X orig (ExRemoveLiquidityW3G t l am bm to dl) w =
     ex_remove_liquidity_w3g C E X orig t l am bm to dl w"
| "ex_call_dispatch C E X orig (ExSwapExactTokensForTokens v m p to dl) w =
     ex_swap_exact_tokens_for_tokens E orig v m p to dl w"
| "ex_call_dispatch C E X orig (ExSwapExactW3GForTokens v m p to dl) w =
     ex_swap_exact_w3g_for_tokens C E orig v m p to dl w"
| "ex_call_dispatch C E X orig (ExSwapTokensForExactTokens v m p to dl) w =
     ex_swap_tokens_for_exact_tokens E orig v m p to dl w"
| "ex_call_dispatch C E X orig (ExSwapTokensForExactW3G v m p to dl) w =
     ex_swap_tokens_for_exact_w3g C E orig v m p to dl w"
| "ex_call_dispatch C E X orig (ExSetFeeToCall to) w = ex_set_fee_to orig to w"

end
