(* ===== verification/ExchangeSafety.thy ===== *)
theory ExchangeSafety
  imports Exchange
begin

text \<open>
  What the exchange promises: the recorded reserves of every pool are covered by the tokens in the
  account of the pool, whatever calls of the exchange, of wrap-currency and of the fungible token
  pallet are made; a swap does not lower the product of the reserves
  (within the range where the 128-bit check is exact); a swap that succeeds has paid the receiver at
  least the minimum asked for.
\<close>

section \<open>Specification\<close>

abbreviation ex_bal :: "'c ex_world \<Rightarrow> u128 \<Rightarrow> account \<Rightarrow> u128" where
  "ex_bal w t a \<equiv> ft_balances (ex_ft w) (t, a)"

abbreviation ex_wrap_token :: "'c ex_world \<Rightarrow> u128" where
  "ex_wrap_token w \<equiv> wr_wrap_token (ex_wr w)"

text \<open>The accounts derived from the pallet id: the pool accounts are among them.\<close>

definition ex_sub_accounts :: "env \<Rightarrow> account set" where
  "ex_sub_accounts E = range (ex_token_id_to_account_id E)"

definition ex_pool_ok :: "env \<Rightarrow> 'c ex_world \<Rightarrow> u128 \<times> u128 \<Rightarrow> ex_pool \<Rightarrow> bool" where
  "ex_pool_ok E w key pool \<longleftrightarrow>
     key = (pool_token_0 pool, pool_token_1 pool) \<and> pool_token_0 pool < pool_token_1 pool \<and>
     pool_lp_account pool = ex_token_id_to_account_id E (pool_lp_token pool) \<and>
     fst (ex_reserves w key) \<le> ex_bal w (pool_token_0 pool) (pool_lp_account pool) \<and>
     snd (ex_reserves w key) \<le> ex_bal w (pool_token_1 pool) (pool_lp_account pool)"

text \<open>
  The invariant. Besides the pools: two pools never share an account, no account of the pallet has
  granted an allowance, and the token the wrap pallet mints is the one the exchange calls WW3G.
\<close>

definition ex_inv :: "env \<Rightarrow> 'c ex_world \<Rightarrow> bool" where
  "ex_inv E w \<longleftrightarrow>
     (\<forall>key. case ex_pools w key of None \<Rightarrow> ex_reserves w key = (0, 0) | Some pool \<Rightarrow> ex_pool_ok E w key pool) \<and>
     (\<forall>k l p q. ex_pools w k = Some p \<longrightarrow> ex_pools w l = Some q \<longrightarrow> pool_lp_account p = pool_lp_account q \<longrightarrow> k = l) \<and>
     (\<forall>a \<in> ex_sub_accounts E. \<forall>t b. ft_allowances (ex_ft w) (t, a, b) = 0) \<and>
     ex_wrap_token w = WW3G"

text \<open>
  The states that calls lead to. A call may come at any block and with any randomness, but it is
  signed by no account of the pallet (nobody has a key for one), and the id drawn for a new pool's
  liquidity token gives an account that no other pool has.
\<close>

definition ex_fresh :: "env \<Rightarrow> ex_params \<Rightarrow> ex_call \<Rightarrow> 'c ex_world \<Rightarrow> bool" where
  "ex_fresh E X c w \<longleftrightarrow>
     (case c of
        ExCreatePool a b \<Rightarrow>
          (let (t0, t1) = ex_sort_tokens a b in
           \<forall>k p. ex_pools w k = Some p \<longrightarrow> pool_lp_account p \<noteq> ex_token_id_to_account_id E (random_id X t0 t1))
      | _ \<Rightarrow> True)"

inductive ex_reach :: "'c currency \<Rightarrow> env \<Rightarrow> 'c ex_world \<Rightarrow> 'c ex_world \<Rightarrow> bool" for C E w0 where
  start: "ex_reach C E w0 w0"
| exchange: "ex_reach C E w0 w \<Longrightarrow> \<forall>a \<in> ex_sub_accounts E. orig \<noteq> Signed a \<Longrightarrow> ex_fresh E X c w \<Longrightarrow>
    ex_call_dispatch C (E\<lparr>env_now := now\<rparr>) X orig c w = Inr w' \<Longrightarrow> ex_reach C E w0 w'"
| wrap: "ex_reach C E w0 w \<Longrightarrow> \<forall>a \<in> ex_sub_accounts E. orig \<noteq> Signed a \<Longrightarrow>
    ex_on_wr (wr_dispatch C E (orig, wc)) w = Inr w' \<Longrightarrow> ex_reach C E w0 w'"

text \<open>
  What happens between two settlements: pools and the wrap token stay, no account of the pallet
  grants an allowance, and only accounts in \<open>A\<close> may lose tokens.
\<close>

definition ex_moves :: "env \<Rightarrow> account set \<Rightarrow> 'c ex_world \<Rightarrow> 'c ex_world \<Rightarrow> bool" where
  "ex_moves E A w w' \<longleftrightarrow>
     ex_pools w' = ex_pools w \<and> ex_wrap_token w' = ex_wrap_token w \<and>
     (\<forall>a \<in> ex_sub_accounts E. \<forall>t b. ft_allowances (ex_ft w') (t, a, b) = ft_allowances (ex_ft w) (t, a, b)) \<and>
     (\<forall>t a. a \<notin> A \<longrightarrow> ex_bal w t a \<le> ex_bal w' t a)"

text \<open>A small state for the concrete instances: one pool of the tokens 5 and 7.\<close>

definition ex_example :: "(account \<Rightarrow> u128) ex_world" where
  "ex_example =
     \<lparr>ex_wr = \<lparr>wr_ft = \<lparr>ft_tokens = Map.empty,
          ft_balances = (\<lambda>_. 0)((5, 2009) := 50000, (7, 2009) := 80000, (5, 1) := 4000),
          ft_allowances = (\<lambda>_. 0), ft_events = []\<rparr>,
        wr_native = (\<lambda>_. 0), wr_wrap_token = 0, wr_events = []\<rparr>,
      ex_pools = [(5, 7) \<mapsto> \<lparr>pool_token_0 = 5, pool_token_1 = 7, pool_lp_token = 9, pool_lp_account = 2009\<rparr>],
      ex_next_pool_id = 1, ex_lp_token_to_token = [9 \<mapsto> (5, 7)],
      ex_reserves = (\<lambda>_. (0, 0))((5, 7) := (50000, 80000)), ex_k_last = (\<lambda>_. 0),
      ex_fee_to = None, ex_events = []\<rparr>"

text \<open>The same after account 1 has paid 1000 units of token 5 into the pool.\<close>

definition ex_paid_example :: "(account \<Rightarrow> u128) ex_world" where
  "ex_paid_example = ex_example\<lparr>ex_wr := (ex_wr ex_example)\<lparr>wr_ft := (wr_ft (ex_wr ex_example))\<lparr>ft_balances :=
     (\<lambda>_. 0)((5, 2009) := 51000, (7, 2009) := 80000, (5, 1) := 3000)\<rparr>\<rparr>\<rparr>"

section \<open>Moves\<close>

lemma ex_moves_refl [simp]: "ex_moves E A w w"
  by (simp add: ex_moves_def)

lemma ex_moves_trans: "ex_moves E A w1 w2 \<Longrightarrow> ex_moves E A w2 w3 \<Longrightarrow> ex_moves E A w1 w3"
  unfolding ex_moves_def by (force intro: order_trans)

lemma ex_moves_mono: "ex_moves E A w w' \<Longrightarrow> A \<subseteq> B \<Longrightarrow> ex_moves E B w w'"
  unfolding ex_moves_def by blast

lemma ex_ft_simps [simp]:
  "ex_ft (ex_deposit_event e w) = ex_ft w"
  "ex_ft (w\<lparr>ex_pools := p\<rparr>) = ex_ft w"
  "ex_ft (w\<lparr>ex_next_pool_id := n\<rparr>) = ex_ft w"
  "ex_ft (w\<lparr>ex_lp_token_to_token := l\<rparr>) = ex_ft w"
  "ex_ft (w\<lparr>ex_reserves := r\<rparr>) = ex_ft w"
  "ex_ft (w\<lparr>ex_k_last := k\<rparr>) = ex_ft w"
  "ex_ft (w\<lparr>ex_fee_to := f\<rparr>) = ex_ft w"
  "ex_ft (w\<lparr>ex_wr := x\<rparr>) = wr_ft x"
  by (simp_all add: ex_ft_def ex_deposit_event_def)

lemma ex_deposit_event_simps [simp]:
  "ex_pools (ex_deposit_event e w) = ex_pools w"
  "ex_reserves (ex_deposit_event e w) = ex_reserves w"
  "ex_wr (ex_deposit_event e w) = ex_wr w"
  "ex_k_last (ex_deposit_event e w) = ex_k_last w"
  by (simp_all add: ex_deposit_event_def)

lemma ex_update_k_last_simps [simp]:
  "ex_pools (ex_update_k_last f t0 t1 w) = ex_pools w"
  "ex_reserves (ex_update_k_last f t0 t1 w) = ex_reserves w"
  "ex_wr (ex_update_k_last f t0 t1 w) = ex_wr w"
  "ex_ft (ex_update_k_last f t0 t1 w) = ex_ft w"
  by (simp_all add: ex_update_k_last_def ex_ft_def split: prod.splits)

lemma ex_on_wr_ok:
  "ex_on_wr f w = Inr w' \<longleftrightarrow> (\<exists>x. f (ex_wr w) = Inr x \<and> w' = w\<lparr>ex_wr := x\<rparr>)"
  by (simp add: ex_on_wr_def result_eqs)

lemma ex_on_ft_ok:
  "ex_on_ft f w = Inr w' \<longleftrightarrow> (\<exists>s. f (ex_ft w) = Inr s \<and> w' = w\<lparr>ex_wr := (ex_wr w)\<lparr>wr_ft := s\<rparr>\<rparr>)"
  by (auto simp: ex_on_ft_def ex_on_wr_ok wr_on_ft_def result_eqs ex_ft_def)

text \<open>What the fungible token operations do, as moves that leave the reserves alone.\<close>

definition ex_still :: "env \<Rightarrow> account set \<Rightarrow> 'c ex_world \<Rightarrow> 'c ex_world \<Rightarrow> bool" where
  "ex_still E A w w' \<longleftrightarrow> ex_moves E A w w' \<and> ex_reserves w' = ex_reserves w"

lemma ex_still_refl [simp]: "ex_still E A w w"
  by (simp add: ex_still_def)

lemma ex_still_trans: "ex_still E A w1 w2 \<Longrightarrow> ex_still E A w2 w3 \<Longrightarrow> ex_still E A w1 w3"
  by (auto simp: ex_still_def intro: ex_moves_trans)

lemma ex_still_mono: "ex_still E A w w' \<Longrightarrow> A \<subseteq> B \<Longrightarrow> ex_still E B w w'"
  by (auto simp: ex_still_def intro: ex_moves_mono)

lemma ex_still_event [simp]: "ex_still E A w (ex_deposit_event e w') \<longleftrightarrow> ex_still E A w w'"
  by (simp add: ex_still_def ex_moves_def)

lemma ex_still_ftI:
  assumes "ft_allowances s = ft_allowances (ex_ft w)"
    and "\<And>t a. a \<notin> A \<Longrightarrow> ft_balances (ex_ft w) (t, a) \<le> ft_balances s (t, a)"
  shows "ex_still E A w (w\<lparr>ex_wr := (ex_wr w)\<lparr>wr_ft := s\<rparr>\<rparr>)"
  using assms by (auto simp: ex_still_def ex_moves_def)

lemma ex_transfer_still:
  assumes "ex_on_ft (ft_do_transfer t a b v) w = Inr w'"
  shows "ex_still E {a} w w'"
proof -
  from assms obtain s where s: "ft_do_transfer t a b v (ex_ft w) = Inr s"
    and w': "w' = w\<lparr>ex_wr := (ex_wr w)\<lparr>wr_ft := s\<rparr>\<rparr>" by (auto simp: ex_on_ft_ok)
  show ?thesis unfolding w'
    by (rule ex_still_ftI) (use s in \<open>auto simp: ft_do_transfer_ok word_le_nat_alt\<close>)
qed

lemma ex_mint_still:
  assumes "ex_on_ft (ft_do_mint t o' a v) w = Inr w'"
  shows "ex_still E {} w w'"
proof -
  from assms obtain s where s: "ft_do_mint t o' a v (ex_ft w) = Inr s"
    and w': "w' = w\<lparr>ex_wr := (ex_wr w)\<lparr>wr_ft := s\<rparr>\<rparr>" by (auto simp: ex_on_ft_ok)
  show ?thesis unfolding w'
    by (rule ex_still_ftI) (use s in \<open>auto simp: ft_do_mint_ok ft_internal_mint_ok word_le_nat_alt\<close>)
qed

lemma ex_burn_still:
  assumes "ex_on_ft (ft_do_burn t a v) w = Inr w'"
  shows "ex_still E {a} w w'"
proof -
  from assms obtain s where s: "ft_do_burn t a v (ex_ft w) = Inr s"
    and w': "w' = w\<lparr>ex_wr := (ex_wr w)\<lparr>wr_ft := s\<rparr>\<rparr>" by (auto simp: ex_on_ft_ok)
  show ?thesis unfolding w'
    by (rule ex_still_ftI) (use s in \<open>auto simp: ft_do_burn_ok word_le_nat_alt\<close>)
qed

lemma ex_deposit_still:
  assumes "ex_on_wr (wr_do_deposit C E' who v) w = Inr w'"
  shows "ex_still E {} w w'"
proof -
  from assms obtain x where x: "wr_do_deposit C E' who v (ex_wr w) = Inr x"
    and w': "w' = w\<lparr>ex_wr := x\<rparr>" by (auto simp: ex_on_wr_ok)
  from x show ?thesis unfolding w'
    by (rule wr_do_depositE)
      (auto simp: ex_still_def ex_moves_def ft_do_mint_ok ft_internal_mint_ok word_le_nat_alt ex_ft_def)
qed

lemma ex_withdraw_effect:
  assumes "ex_on_wr (wr_do_withdraw C E' who v) w = Inr w'"
  shows "ex_still E {who} w w'"
    and "\<And>t a. a \<noteq> who \<or> t \<noteq> ex_wrap_token w \<Longrightarrow> ex_bal w' t a = ex_bal w t a"
    and "unat (ex_bal w (ex_wrap_token w) who) = unat v + unat (ex_bal w' (ex_wrap_token w) who)"
proof -
  from assms obtain x where x: "wr_do_withdraw C E' who v (ex_wr w) = Inr x"
    and w': "w' = w\<lparr>ex_wr := x\<rparr>" by (auto simp: ex_on_wr_ok)
  from x show "ex_still E {who} w w'" unfolding w'
    by (rule wr_do_withdrawE) (auto simp: ex_still_def ex_moves_def ft_do_burn_ok word_le_nat_alt ex_ft_def)
  from x show "ex_bal w' t a = ex_bal w t a" if "a \<noteq> who \<or> t \<noteq> ex_wrap_token w" for t a
    unfolding w' using that by - (rule wr_do_withdrawE, auto simp: ft_do_burn_ok ex_ft_def)
  from x show "unat (ex_bal w (ex_wrap_token w) who) = unat v + unat (ex_bal w' (ex_wrap_token w) who)"
    unfolding w' by - (rule wr_do_withdrawE, auto simp: ft_do_burn_ok ex_ft_def)
qed

lemma ex_mint_fee_still:
  assumes "ex_mint_fee E' X t0 t1 r0 r1 w = Inr (f, w')"
  shows "ex_still E {} w w'"
proof -
  have "\<exists>t o' a v. ex_on_ft (ft_do_mint t o' a v) w = Inr w' \<or> w' = w \<or>
      w' = w\<lparr>ex_k_last := (ex_k_last w)((t0, t1) := 0)\<rparr>"
    using assms by (auto simp: ex_mint_fee_def result_eqs Let_def split: option.splits if_splits)
  then show ?thesis
    by (auto intro: ex_mint_still) (simp add: ex_still_def ex_moves_def)
qed

section \<open>Keeping the invariant\<close>

lemma ex_invD:
  assumes "ex_inv E w"
  shows "ex_pools w key = Some pool \<Longrightarrow> ex_pool_ok E w key pool"
    and "ex_pools w key = None \<Longrightarrow> ex_reserves w key = (0, 0)"
    and "ex_pools w k = Some p \<Longrightarrow> ex_pools w l = Some q \<Longrightarrow> pool_lp_account p = pool_lp_account q \<Longrightarrow> k = l"
    and "a \<in> ex_sub_accounts E \<Longrightarrow> ft_allowances (ex_ft w) (t, a, b) = 0"
    and "ex_wrap_token w = WW3G"
  using assms unfolding ex_inv_def by (metis option.simps(4,5))+

lemma ex_inv_pool_account:
  "ex_inv E w \<Longrightarrow> ex_pools w key = Some pool \<Longrightarrow> pool_lp_account pool \<in> ex_sub_accounts E"
  using ex_invD(1) [of E w key pool] by (simp add: ex_pool_ok_def ex_sub_accounts_def)

text \<open>
  Settling: one pool may lose tokens, if its reserves are then set to no more than it holds. All other pools
  are covered as before, because their accounts lose nothing.
\<close>

lemma ex_inv_settle:
  assumes inv: "ex_inv E w" and pool: "ex_pools w key = Some pool"
    and mv: "ex_moves E A w w'" and A: "A \<inter> ex_sub_accounts E \<subseteq> {pool_lp_account pool}"
    and res: "ex_reserves w' = (ex_reserves w)(key := (x, y))"
    and x: "x \<le> ex_bal w' (pool_token_0 pool) (pool_lp_account pool)"
    and y: "y \<le> ex_bal w' (pool_token_1 pool) (pool_lp_account pool)"
  shows "ex_inv E w'"
proof -
  have pools: "ex_pools w' = ex_pools w" using mv by (simp add: ex_moves_def)
  have ok: "ex_pool_ok E w' k p" if p: "ex_pools w k = Some p" for k p
  proof (cases "k = key")
    case True
    with p pool ex_invD(1) [OF inv p] x y show ?thesis by (simp add: ex_pool_ok_def res)
  next
    case False
    then have "pool_lp_account p \<noteq> pool_lp_account pool" using ex_invD(3) [OF inv p pool] by blast
    then have "pool_lp_account p \<notin> A" using A ex_inv_pool_account [OF inv p] by blast
    then have "ex_bal w t (pool_lp_account p) \<le> ex_bal w' t (pool_lp_account p)" for t
      using mv by (simp add: ex_moves_def)
    with ex_invD(1) [OF inv p] False show ?thesis
      by (auto simp: ex_pool_ok_def res intro: order_trans)
  qed
  have "ex_reserves w' k = (0, 0)" if "ex_pools w k = None" for k
    using that pool ex_invD(2) [OF inv that] by (auto simp: res)
  with ok ex_invD(3-5) [OF inv] mv show ?thesis
    unfolding ex_inv_def by (auto simp: pools ex_moves_def split: option.splits)
qed

lemma ex_inv_still:
  assumes inv: "ex_inv E w" and st: "ex_still E A w w'" and A: "A \<inter> ex_sub_accounts E = {}"
  shows "ex_inv E w'"
proof -
  have pools: "ex_pools w' = ex_pools w" and res: "ex_reserves w' = ex_reserves w"
    using st by (simp_all add: ex_still_def ex_moves_def)
  have ok: "ex_pool_ok E w' k p" if p: "ex_pools w k = Some p" for k p
  proof -
    have "pool_lp_account p \<notin> A" using A ex_inv_pool_account [OF inv p] by blast
    then have "ex_bal w t (pool_lp_account p) \<le> ex_bal w' t (pool_lp_account p)" for t
      using st by (simp add: ex_still_def ex_moves_def)
    with ex_invD(1) [OF inv p] show ?thesis by (auto simp: ex_pool_ok_def res intro: order_trans)
  qed
  with ex_invD(2-5) [OF inv] st show ?thesis
    unfolding ex_inv_def by (auto simp: pools res ex_still_def ex_moves_def split: option.splits)
qed

lemma ex_inv_event [simp]: "ex_inv E (ex_deposit_event e w) \<longleftrightarrow> ex_inv E w"
  by (simp add: ex_inv_def ex_pool_ok_def cong: option.case_cong)

section \<open>Swap, mint and burn\<close>

lemma ex_pay_out_still: "ex_pay_out t a b v w = Inr w' \<Longrightarrow> ex_still E {a} w w'"
  by (auto simp: ex_pay_out_def split: if_splits intro: ex_transfer_still)

lemma ex_pay_out_paid:
  assumes "ex_pay_out t a b v w = Inr w'" and "v > 0"
  shows "b \<noteq> a" and "unat (ex_bal w' t b) = unat (ex_bal w t b) + unat v"
  using assms by (auto simp: ex_pay_out_def ex_on_ft_ok ft_do_transfer_ok)

lemma ex_swapE:
  assumes "ex_swap who t0 t1 a0 a1 to w = Inr w'"
  obtains pool r0 r1 w1 w2 b0 b1 i0 i1 d0 d1
  where "ex_pools w (t0, t1) = Some pool" and "ex_get_reserves t0 t1 w = Inr (r0, r1)"
    and "a0 > 0 \<or> a1 > 0" and "a0 < r0" and "a1 < r1"
    and "ex_pay_out (pool_token_0 pool) (pool_lp_account pool) to a0 w = Inr w1"
    and "ex_pay_out (pool_token_1 pool) (pool_lp_account pool) to a1 w1 = Inr w2"
    and "b0 = ex_bal w2 (pool_token_0 pool) (pool_lp_account pool)"
    and "b1 = ex_bal w2 (pool_token_1 pool) (pool_lp_account pool)"
    and "ex_init_amount_in b0 r0 a0 = Inr i0" and "ex_init_amount_in b1 r1 a1 = Inr i1"
    and "ex_init_balance_adjusted b0 i0 = Inr d0" and "ex_init_balance_adjusted b1 i1 = Inr d1"
    and "ex_k_check d0 d1 r0 r1"
    and "w' = ex_deposit_event (ExSwap who i0 i1 a0 a1 to) (ex_deposit_event (ExSync b0 b1)
          (w2\<lparr>ex_reserves := (ex_reserves w2)((t0, t1) := (b0, b1))\<rparr>))"
  using assms
  by (auto simp: ex_swap_def ex_get_pool_def ft_balance_of_def ex_do_update_def result_eqs Let_def)

lemma ex_swap_effect:
  assumes "ex_swap who t0 t1 a0 a1 to w = Inr w'"
  shows "\<exists>pool x y. ex_pools w (t0, t1) = Some pool \<and> (a0 > 0 \<or> a1 > 0)
    \<and> ex_moves E {pool_lp_account pool} w w'
    \<and> ex_reserves w' = (ex_reserves w)((t0, t1) := (x, y))
    \<and> x = ex_bal w' (pool_token_0 pool) (pool_lp_account pool)
    \<and> y = ex_bal w' (pool_token_1 pool) (pool_lp_account pool)
    \<and> (a0 > 0 \<longrightarrow> to \<noteq> pool_lp_account pool
          \<and> unat (ex_bal w (pool_token_0 pool) to) + unat a0 \<le> unat (ex_bal w' (pool_token_0 pool) to))
    \<and> (a1 > 0 \<longrightarrow> to \<noteq> pool_lp_account pool
          \<and> unat (ex_bal w (pool_token_1 pool) to) + unat a1 \<le> unat (ex_bal w' (pool_token_1 pool) to))"
  using assms
proof (rule ex_swapE)
  fix pool :: ex_pool and r0 r1 w1 w2 b0 b1 i0 i1 d0 d1
  let ?a = "pool_lp_account pool"
  assume pool: "ex_pools w (t0, t1) = Some pool" and pos: "a0 > 0 \<or> a1 > 0"
    and p0: "ex_pay_out (pool_token_0 pool) ?a to a0 w = Inr w1"
    and p1: "ex_pay_out (pool_token_1 pool) ?a to a1 w1 = Inr w2"
    and b: "b0 = ex_bal w2 (pool_token_0 pool) ?a" "b1 = ex_bal w2 (pool_token_1 pool) ?a"
    and w': "w' = ex_deposit_event (ExSwap who i0 i1 a0 a1 to) (ex_deposit_event (ExSync b0 b1)
          (w2\<lparr>ex_reserves := (ex_reserves w2)((t0, t1) := (b0, b1))\<rparr>))"
  have st0: "ex_still E {?a} w w1" and st1: "ex_still E {?a} w1 w2"
    using p0 p1 by (auto intro: ex_pay_out_still)
  then have st: "ex_still E {?a} w w2" by (rule ex_still_trans)
  have grow: "unat (ex_bal w t to) \<le> unat (ex_bal w1 t to)" "unat (ex_bal w1 t to) \<le> unat (ex_bal w2 t to)"
    if "to \<noteq> ?a" for t
    using st0 st1 that by (simp_all add: ex_still_def ex_moves_def word_le_nat_alt)
  have "ex_moves E {?a} w w'" using st by (simp add: w' ex_still_def ex_moves_def)
  moreover have "ex_reserves w' = (ex_reserves w)((t0, t1) := (b0, b1))"
    using st by (simp add: w' ex_still_def)
  moreover have "to \<noteq> ?a \<and> unat (ex_bal w (pool_token_0 pool) to) + unat a0 \<le> unat (ex_bal w' (pool_token_0 pool) to)"
    if "a0 > 0"
    using ex_pay_out_paid [OF p0 that] grow(2) [of "pool_token_0 pool"] by (simp add: w')
  moreover have "to \<noteq> ?a \<and> unat (ex_bal w (pool_token_1 pool) to) + unat a1 \<le> unat (ex_bal w' (pool_token_1 pool) to)"
    if "a1 > 0"
    using ex_pay_out_paid [OF p1 that] grow(1) [of "pool_token_1 pool"] by (simp add: w')
  ultimately show ?thesis using pool pos b by (simp add: w')
qed

lemma ex_swap_inv:
  assumes "ex_inv E w" and "ex_swap who t0 t1 a0 a1 to w = Inr w'"
  shows "ex_inv E w'"
proof -
  from ex_swap_effect [OF assms(2), of E] obtain pool x y where "ex_pools w (t0, t1) = Some pool"
    and "ex_moves E {pool_lp_account pool} w w'" and "ex_reserves w' = (ex_reserves w)((t0, t1) := (x, y))"
    and "x = ex_bal w' (pool_token_0 pool) (pool_lp_account pool)"
    and "y = ex_bal w' (pool_token_1 pool) (pool_lp_account pool)" by blast
  then show ?thesis by (intro ex_inv_settle [OF assms(1)]) auto
qed

lemma ex_hop_inv:
  assumes "ex_inv E w" and "ex_hop who amounts path to i w = Inr w'"
  shows "ex_inv E w'"
  using assms(2) by (auto simp: ex_hop_def result_eqs Let_def split: prod.splits if_splits
      intro: ex_swap_inv [OF assms(1)])

lemma ex_do_swap_inv:
  assumes "ex_inv E w" and "ex_do_swap who amounts path to w = Inr w'"
  shows "ex_inv E w'"
  using assms by (auto simp: ex_do_swap_def split: if_splits intro: for_each_inv ex_hop_inv)

lemma ex_mintE:
  assumes "ex_mint E' X who t0 t1 to w = Inr (l, w')"
  obtains pool r0 r1 b0 b1 a0 a1 fee_on w1 sp w2 w3
  where "ex_pools w (t0, t1) = Some pool" and "ex_reserves w (t0, t1) = (r0, r1)"
    and "b0 = ex_bal w (pool_token_0 pool) (pool_lp_account pool)"
    and "b1 = ex_bal w (pool_token_1 pool) (pool_lp_account pool)"
    and "checked_sub b0 r0 = Some a0" and "checked_sub b1 r1 = Some a1"
    and "ex_mint_fee E' X t0 t1 r0 r1 w = Inr (fee_on, w1)"
    and "ft_supply (pool_lp_token pool) (ex_ft w1) = Inr sp"
    and "ex_mint_liquidity E' X pool a0 a1 r0 r1 sp w1 = Inr (l, w2)"
    and "ex_on_ft (ft_do_mint (pool_lp_token pool) (ex_account_id E') to l) w2 = Inr w3"
    and "w' = ex_deposit_event (ExMint who a0 a1 to) (ex_update_k_last fee_on t0 t1
          (ex_deposit_event (ExSync b0 b1) (w3\<lparr>ex_reserves := (ex_reserves w3)((t0, t1) := (b0, b1))\<rparr>)))"
  using assms
  by (cases "ex_reserves w (t0, t1)")
    (auto simp: ex_mint_def ex_get_pool_def ft_balance_of_def ex_do_update_def result_eqs Let_def)

lemma ex_burnE:
  assumes "ex_burn E' X who t0 t1 to w = Inr (l, w')"
  obtains pool r0 r1 v fee_on w1 sp a0 a1 w2 w3 w4 b0 b1
  where "ex_pools w (t0, t1) = Some pool" and "ex_reserves w (t0, t1) = (r0, r1)"
    and "v = ex_bal w (pool_lp_token pool) (pool_lp_account pool)"
    and "ex_mint_fee E' X t0 t1 r0 r1 w = Inr (fee_on, w1)"
    and "ft_supply (pool_lp_token pool) (ex_ft w1) = Inr sp"
    and "mul_div v (ex_bal w (pool_token_0 pool) (pool_lp_account pool)) sp = Some a0"
    and "mul_div v (ex_bal w (pool_token_1 pool) (pool_lp_account pool)) sp = Some a1"
    and "0 < a0" and "0 < a1" and "l = (a0, a1)"
    and "ex_on_ft (ft_do_burn (pool_lp_token pool) (pool_lp_account pool) v) w1 = Inr w2"
    and "ex_on_ft (ft_do_transfer (pool_token_0 pool) (pool_lp_account pool) to a0) w2 = Inr w3"
    and "ex_on_ft (ft_do_transfer (pool_token_1 pool) (pool_lp_account pool) to a1) w3 = Inr w4"
    and "b0 = ex_bal w4 (pool_token_0 pool) (pool_lp_account pool)"
    and "b1 = ex_bal w4 (pool_token_1 pool) (pool_lp_account pool)"
    and "w' = ex_deposit_event (ExBurn who a0 a1 to) (ex_update_k_last fee_on t0 t1
          (ex_deposit_event (ExSync b0 b1) (w4\<lparr>ex_reserves := (ex_reserves w4)((t0, t1) := (b0, b1))\<rparr>)))"
  using assms
  by (cases "ex_reserves w (t0, t1)")
    (auto simp: ex_burn_def ex_get_pool_def ft_balance_of_def ex_do_update_def result_eqs Let_def)

lemma ex_mint_liquidity_still:
  assumes "ex_mint_liquidity E' X pool a0 a1 r0 r1 sp w = Inr (l, w')"
  shows "ex_still E {} w w'"
  using assms by (auto simp: ex_mint_liquidity_def result_eqs split: if_splits intro: ex_mint_still)

lemma ex_mint_inv:
  assumes inv: "ex_inv E w" and mint: "ex_mint E' X who t0 t1 to w = Inr (l, w')"
  shows "ex_inv E w'"
  using mint
proof (rule ex_mintE)
  fix pool :: ex_pool and r0 r1 b0 b1 a0 a1 fee_on w1 sp w2 w3
  assume pool: "ex_pools w (t0, t1) = Some pool"
    and b: "b0 = ex_bal w (pool_token_0 pool) (pool_lp_account pool)"
      "b1 = ex_bal w (pool_token_1 pool) (pool_lp_account pool)"
    and w1: "ex_mint_fee E' X t0 t1 r0 r1 w = Inr (fee_on, w1)"
    and w2: "ex_mint_liquidity E' X pool a0 a1 r0 r1 sp w1 = Inr (l, w2)"
    and w3: "ex_on_ft (ft_do_mint (pool_lp_token pool) (ex_account_id E') to l) w2 = Inr w3"
    and w': "w' = ex_deposit_event (ExMint who a0 a1 to) (ex_update_k_last fee_on t0 t1
          (ex_deposit_event (ExSync b0 b1) (w3\<lparr>ex_reserves := (ex_reserves w3)((t0, t1) := (b0, b1))\<rparr>)))"
  have st: "ex_still E {} w w3"
    using ex_mint_fee_still [OF w1] ex_mint_liquidity_still [OF w2] ex_mint_still [OF w3]
    by (blast intro: ex_still_trans)
  then have mv: "ex_moves E {} w w'" by (simp add: ex_still_def ex_moves_def w')
  show ?thesis
  proof (rule ex_inv_settle [OF inv pool mv])
    show "ex_reserves w' = (ex_reserves w)((t0, t1) := (b0, b1))"
      using st by (simp add: w' ex_still_def)
    show "b0 \<le> ex_bal w' (pool_token_0 pool) (pool_lp_account pool)"
      "b1 \<le> ex_bal w' (pool_token_1 pool) (pool_lp_account pool)"
      using mv by (simp_all add: b ex_moves_def)
  qed simp
qed

lemma ex_burn_inv:
  assumes inv: "ex_inv E w" and burn: "ex_burn E' X who t0 t1 to w = Inr (l, w')"
  shows "ex_inv E w'"
  using burn
proof (rule ex_burnE)
  fix pool :: ex_pool and r0 r1 v fee_on w1 sp a0 a1 w2 w3 w4 b0 b1
  let ?a = "pool_lp_account pool"
  assume pool: "ex_pools w (t0, t1) = Some pool"
    and w1: "ex_mint_fee E' X t0 t1 r0 r1 w = Inr (fee_on, w1)"
    and w2: "ex_on_ft (ft_do_burn (pool_lp_token pool) ?a v) w1 = Inr w2"
    and w3: "ex_on_ft (ft_do_transfer (pool_token_0 pool) ?a to a0) w2 = Inr w3"
    and w4: "ex_on_ft (ft_do_transfer (pool_token_1 pool) ?a to a1) w3 = Inr w4"
    and b: "b0 = ex_bal w4 (pool_token_0 pool) ?a" "b1 = ex_bal w4 (pool_token_1 pool) ?a"
    and w': "w' = ex_deposit_event (ExBurn who a0 a1 to) (ex_update_k_last fee_on t0 t1
          (ex_deposit_event (ExSync b0 b1) (w4\<lparr>ex_reserves := (ex_reserves w4)((t0, t1) := (b0, b1))\<rparr>)))"
  have "ex_still E {?a} w w1" by (rule ex_still_mono [OF ex_mint_fee_still [OF w1]]) simp
  then have st: "ex_still E {?a} w w4"
    using ex_burn_still [OF w2] ex_transfer_still [OF w3] ex_transfer_still [OF w4]
    by (blast intro: ex_still_trans)
  then have mv: "ex_moves E {?a} w w'" by (simp add: ex_still_def ex_moves_def w')
  show ?thesis
  proof (rule ex_inv_settle [OF inv pool mv])
    show "ex_reserves w' = (ex_reserves w)((t0, t1) := (b0, b1))"
      using st by (simp add: w' ex_still_def)
  qed (simp_all add: w' b)
qed

section \<open>The calls\<close>

lemma ex_env_now [simp]:
  "ex_token_id_to_account_id (E\<lparr>env_now := n\<rparr>) = ex_token_id_to_account_id E"
  "ex_account_id (E\<lparr>env_now := n\<rparr>) = ex_account_id E"
  by (simp_all add: fun_eq_iff ex_token_id_to_account_id_def ex_account_id_def)

lemma ex_inv_user:
  assumes "ex_inv E w" and "who \<notin> ex_sub_accounts E"
  shows "ex_on_ft (ft_do_transfer t who b v) w = Inr w' \<Longrightarrow> ex_inv E w'"
    and "ex_on_wr (wr_do_deposit C E' a v) w = Inr w' \<Longrightarrow> ex_inv E w'"
    and "ex_on_wr (wr_do_withdraw C E' who v) w = Inr w' \<Longrightarrow> ex_inv E w'"
  using assms by (auto intro: ex_inv_still [OF assms(1)] dest: ex_transfer_still ex_deposit_still ex_withdraw_effect(1))

lemma ex_create_pool_inv:
  assumes inv: "ex_inv E w" and fresh: "ex_fresh E X (ExCreatePool a b) w"
    and call: "ex_create_pool C (E\<lparr>env_now := now\<rparr>) X orig a b w = Inr w'"
  shows "ex_inv E w'"
proof -
  obtain t0 t1 where key: "ex_sort_tokens a b = (t0, t1)" by (cases "ex_sort_tokens a b")
  let ?acc = "ex_token_id_to_account_id E (random_id X t0 t1)"
  let ?pool = "\<lparr>pool_token_0 = t0, pool_token_1 = t1, pool_lp_token = random_id X t0 t1, pool_lp_account = ?acc\<rparr>"
  from call have none: "ex_pools w (t0, t1) = None" and "a \<noteq> b"
    by (auto simp: ex_create_pool_def ex_exists_def result_eqs key)
  with key have lt: "t0 < t1" by (auto simp: ex_sort_tokens_def not_less_iff_gr_or_eq split: if_splits)
  from call have w': "ex_pools w' = (ex_pools w)((t0, t1) \<mapsto> ?pool)" "ex_reserves w' = ex_reserves w"
    "ft_balances (ex_ft w') = ft_balances (ex_ft w)" "ft_allowances (ex_ft w') = ft_allowances (ex_ft w)"
    "ex_wrap_token w' = ex_wrap_token w"
    by (auto simp: ex_create_pool_def ex_do_create_pool_def result_eqs key Let_def ex_on_ft_ok ex_on_wr_ok
        wr_on_native_def ft_do_create_token_ok ex_ft_def)
  have new: "pool_lp_account p \<noteq> ?acc" if "ex_pools w k = Some p" for k p
    using fresh that by (cases k) (auto simp: ex_fresh_def key)
  have "ex_pool_ok E w' (t0, t1) ?pool"
    using lt ex_invD(2) [OF inv none] by (simp add: ex_pool_ok_def w')
  moreover have "ex_pool_ok E w' k p" if "ex_pools w k = Some p" for k p
    using ex_invD(1) [OF inv that] by (auto simp: ex_pool_ok_def w')
  ultimately have 1: "case ex_pools w' k of None \<Rightarrow> ex_reserves w' k = (0, 0) | Some p \<Rightarrow> ex_pool_ok E w' k p" for k
    using ex_invD(2) [OF inv, of k] by (cases "k = (t0, t1)") (simp_all add: w' split: option.splits)
  have 2: "k = l" if "ex_pools w' k = Some p" "ex_pools w' l = Some q" "pool_lp_account p = pool_lp_account q" for k l p q
  proof (cases "k = (t0, t1) \<or> l = (t0, t1)")
    case True
    with that new [of k p] new [of l q] show ?thesis by (auto simp: w' split: if_splits)
  next
    case False
    with that have "ex_pools w k = Some p" "ex_pools w l = Some q" by (auto simp: w')
    from ex_invD(3) [OF inv this that(3)] show ?thesis .
  qed
  have 3: "ft_allowances (ex_ft w') (t, c, d) = 0" if "c \<in> ex_sub_accounts E" for t c d
    using ex_invD(4) [OF inv that] by (simp add: w')
  have 4: "ex_wrap_token w' = WW3G" using ex_invD(5) [OF inv] by (simp add: w')
  show ?thesis unfolding ex_inv_def using 1 2 3 4 by blast
qed

lemma ex_pay_in_and_mint_inv:
  assumes inv: "ex_inv E w" and who: "who \<notin> ex_sub_accounts E"
    and call: "ex_pay_in_and_mint E' X who t0 t1 pool a b to w = Inr w'"
  shows "ex_inv E w'"
proof -
  from call obtain w1 w2 l w3 where
    "ex_on_ft (ft_do_transfer (pool_token_0 pool) who (pool_lp_account pool) a) w = Inr w1"
    "ex_on_ft (ft_do_transfer (pool_token_1 pool) who (pool_lp_account pool) b) w1 = Inr w2"
    "ex_mint E' X who t0 t1 to w2 = Inr (l, w3)" and w': "ex_inv E w' \<longleftrightarrow> ex_inv E w3"
    by (auto simp: ex_pay_in_and_mint_def result_eqs)
  then show ?thesis using ex_inv_user(1) [OF _ who] inv ex_mint_inv by metis
qed

lemma ex_add_liquidity_inv:
  assumes "ex_inv E w" and "who \<notin> ex_sub_accounts E"
    and "ex_add_liquidity E' X (Signed who) a b ad bd am bm to dl w = Inr w'"
  shows "ex_inv E w'"
  using assms(3)
  by (auto simp: ex_add_liquidity_def result_eqs Let_def split: prod.splits if_splits
      intro: ex_pay_in_and_mint_inv [OF assms(1,2)])

lemma ex_add_liquidity_w3g_inv:
  assumes "ex_inv E w" and "who \<notin> ex_sub_accounts E"
    and "ex_add_liquidity_w3g C E' X (Signed who) t ad bd am bm to dl w = Inr w'"
  shows "ex_inv E w'"
proof -
  from assms(3) obtain w1 t0 t1 pool a b where "ex_on_wr (wr_do_deposit C E' who ad) w = Inr w1"
    and "ex_pay_in_and_mint E' X who t0 t1 pool a b to w1 = Inr w'"
    by (cases "ex_sort_tokens WW3G t") (auto simp: ex_add_liquidity_w3g_def result_eqs Let_def)
  then show ?thesis
    using ex_inv_user(2) [OF assms(1,2)] ex_pay_in_and_mint_inv [OF _ assms(2)] by metis
qed

lemma ex_remove_liquidity_inv:
  assumes "ex_inv E w" and "who \<notin> ex_sub_accounts E"
    and "ex_remove_liquidity E' X (Signed who) a b l am bm to dl w = Inr w'"
  shows "ex_inv E w'"
proof -
  from assms(3) obtain pool :: ex_pool and w1 t0 t1 r w2 e where
    "ex_on_ft (ft_do_transfer (pool_lp_token pool) who (pool_lp_account pool) l) w = Inr w1"
    "ex_burn E' X who t0 t1 to w1 = Inr (r, w2)" and w': "w' = ex_deposit_event e w2"
    by (cases "ex_sort_tokens a b") (auto simp: ex_remove_liquidity_def result_eqs Let_def)
  then show ?thesis unfolding w' using ex_inv_user(1) [OF assms(1,2)] ex_burn_inv ex_inv_event by metis
qed

lemma ex_remove_liquidity_w3g_inv:
  assumes "ex_inv E w" and "who \<notin> ex_sub_accounts E"
    and "ex_remove_liquidity_w3g C E' X (Signed who) t l am bm to dl w = Inr w'"
  shows "ex_inv E w'"
proof -
  from assms(3) obtain pool :: ex_pool and w1 t0 t1 r w2 v w3 e where
    "ex_on_ft (ft_do_transfer (pool_lp_token pool) who (pool_lp_account pool) l) w = Inr w1"
    "ex_burn E' X who t0 t1 to w1 = Inr (r, w2)"
    "ex_on_wr (wr_do_withdraw C E' who v) w2 = Inr w3" and w': "w' = ex_deposit_event e w3"
    by (cases "ex_sort_tokens WW3G t") (auto simp: ex_remove_liquidity_w3g_def result_eqs Let_def)
  then show ?thesis unfolding w'
    using ex_inv_user(1) [OF assms(1,2)] ex_burn_inv ex_inv_user(3) [OF _ assms(2)] ex_inv_event by metis
qed

lemma ex_pay_in_and_swap_inv:
  assumes "ex_inv E w" and "who \<notin> ex_sub_accounts E"
    and "ex_pay_in_and_swap who pool amounts path to w = Inr w'"
  shows "ex_inv E w'"
proof -
  from assms(3) obtain t v w1 where "ex_on_ft (ft_do_transfer t who (pool_lp_account pool) v) w = Inr w1"
    and "ex_do_swap who amounts path to w1 = Inr w'"
    by (auto simp: ex_pay_in_and_swap_def result_eqs)
  then show ?thesis using ex_inv_user(1) [OF assms(1,2)] ex_do_swap_inv by metis
qed

text \<open>
  \<open>swap_tokens_for_exact_w3g\<close> withdraws from the receiver, who may be any account, a pool's own
  included. What saves the invariant is that the receiver has just been paid the same amount.
\<close>

lemma ex_last_hop_withdraw_inv:
  assumes inv: "ex_inv E w" and i: "i + 2 = length path" and last: "path ! (i + 1) = WW3G"
    and len: "length amounts = length path"
    and hop: "ex_hop who amounts path to i w = Inr w2"
    and wd: "ex_on_wr (wr_do_withdraw C E' to (amounts ! (i + 1))) w2 = Inr w3"
  shows "ex_inv E w3"
proof -
  let ?v = "amounts ! (i + 1)" and ?t = "path ! i"
  have key: "ex_sort_tokens ?t WW3G = (WW3G, ?t)" by (simp add: ex_sort_tokens_def WW3G_def)
  have sw: "ex_swap who WW3G ?t (if ?t = WW3G then 0 else ?v) (if ?t = WW3G then ?v else 0) to w = Inr w2"
    using hop i len last key by (auto simp: ex_hop_def index_def Let_def split: if_splits)
  from ex_swap_effect [OF sw, of E] obtain pool x y where pool: "ex_pools w (WW3G, ?t) = Some pool"
    and mv: "ex_moves E {pool_lp_account pool} w w2"
    and res: "ex_reserves w2 = (ex_reserves w)((WW3G, ?t) := (x, y))"
    and x: "x = ex_bal w2 (pool_token_0 pool) (pool_lp_account pool)"
    and y: "y = ex_bal w2 (pool_token_1 pool) (pool_lp_account pool)"
    and pos: "(if ?t = WW3G then 0 else ?v) > 0 \<or> (if ?t = WW3G then ?v else 0) > 0"
    and paid: "(if ?t = WW3G then 0 else ?v) > 0 \<Longrightarrow> to \<noteq> pool_lp_account pool
      \<and> unat (ex_bal w (pool_token_0 pool) to) + unat (if ?t = WW3G then 0 else ?v)
          \<le> unat (ex_bal w2 (pool_token_0 pool) to)"
    by blast
  from ex_invD(1) [OF inv pool] have ne: "?t \<noteq> WW3G" and t0: "pool_token_0 pool = WW3G"
    by (auto simp: ex_pool_ok_def)
  with pos paid have to: "to \<noteq> pool_lp_account pool"
    and got: "unat (ex_bal w WW3G to) + unat ?v \<le> unat (ex_bal w2 WW3G to)" by auto
  have wt: "ex_wrap_token w2 = WW3G" using mv ex_invD(5) [OF inv] by (simp add: ex_moves_def)
  note eff = ex_withdraw_effect [OF wd]
  have "ex_bal w t a \<le> ex_bal w3 t a" if "a \<noteq> pool_lp_account pool" for t a
  proof (cases "a = to \<and> t = WW3G")
    case True
    with eff(3) got wt show ?thesis by (simp add: word_le_nat_alt)
  next
    case False
    with eff(2) [of a t] wt mv that show ?thesis by (auto simp: ex_moves_def)
  qed
  with mv eff(1) [of E] have "ex_moves E {pool_lp_account pool} w w3"
    by (auto simp: ex_still_def ex_moves_def)
  then show ?thesis
  proof (rule ex_inv_settle [OF inv pool])
    show "ex_reserves w3 = (ex_reserves w)((WW3G, ?t) := (x, y))"
      using eff(1) [of E] res by (simp add: ex_still_def)
  qed (use eff(2) to in \<open>auto simp: x y\<close>)
qed

lemma ex_amounts_length:
  "ex_get_amounts_out v path w = Inr amounts \<Longrightarrow> length amounts = length path \<and> 2 \<le> length path"
  "ex_get_amounts_in v path w = Inr amounts \<Longrightarrow> length amounts = length path \<and> 2 \<le> length path"
  by (auto simp: ex_get_amounts_out_def ex_get_amounts_in_def result_eqs
      elim!: for_each_inv [where P = "\<lambda>xs. length xs = length path"] split: prod.splits)

lemma ex_do_swap_split:
  assumes "ex_do_swap who amounts path to w = Inr w'" and "i + 2 = length path"
  obtains w1 where "for_each (ex_hop who amounts path to) [0..<i] w = Inr w1"
    and "ex_hop who amounts path to i w1 = Inr w'"
proof -
  have "[0..<length path - 1] = [0..<i] @ [i]" using assms(2) by (simp flip: assms(2))
  with assms(1) that show thesis
    by (auto simp: ex_do_swap_def for_each_append result_eqs split: if_splits)
qed

lemma ex_swap_tokens_for_exact_w3g_inv:
  assumes inv: "ex_inv E w" and who: "who \<notin> ex_sub_accounts E"
    and call: "ex_swap_tokens_for_exact_w3g C E' (Signed who) v m path to dl w = Inr w'"
  shows "ex_inv E w'"
proof -
  from call obtain amounts t pool a w1 w2 where
    amounts: "ex_get_amounts_in v path w = Inr amounts" and last: "path ! (length path - 1) = WW3G"
    and w1: "ex_on_ft (ft_do_transfer t who (pool_lp_account (pool :: ex_pool)) a) w = Inr w1"
    and w2: "ex_do_swap who amounts path to w1 = Inr w2"
    and w': "ex_on_wr (wr_do_withdraw C E' to (amounts ! (length amounts - 1))) w2 = Inr w'"
    by (auto simp: ex_swap_tokens_for_exact_w3g_def ex_pay_in_and_swap_def index_def result_eqs
        split: if_splits)
  from ex_amounts_length(2) [OF amounts] obtain i where i: "i + 2 = length path"
    and len: "length amounts = length path"
    by (metis add.commute le_Suc_ex)
  from w2 i obtain w3 where w3: "for_each (ex_hop who amounts path to) [0..<i] w1 = Inr w3"
    and hop: "ex_hop who amounts path to i w3 = Inr w2"
    by (rule ex_do_swap_split)
  have "ex_inv E w1" using w1 by (rule ex_inv_user(1) [OF inv who])
  with w3 have inv3: "ex_inv E w3" by (blast intro: for_each_inv ex_hop_inv)
  have pos: "length path - 1 = i + 1" "length amounts - 1 = i + 1" using i len by simp_all
  show ?thesis
    using ex_last_hop_withdraw_inv [OF inv3 i _ len hop] last w' by (simp only: pos)
qed

lemma ex_swap_calls_inv:
  assumes inv: "ex_inv E w" and who: "who \<notin> ex_sub_accounts E"
  shows "ex_swap_exact_tokens_for_tokens E' (Signed who) v m path to dl w = Inr w' \<Longrightarrow> ex_inv E w'"
    and "ex_swap_tokens_for_exact_tokens E' (Signed who) v m path to dl w = Inr w' \<Longrightarrow> ex_inv E w'"
    and "ex_swap_exact_w3g_for_tokens C E' (Signed who) v m path to dl w = Inr w' \<Longrightarrow> ex_inv E w'"
  by (auto simp: ex_swap_exact_tokens_for_tokens_def ex_swap_tokens_for_exact_tokens_def
      ex_swap_exact_w3g_for_tokens_def result_eqs
      intro: ex_pay_in_and_swap_inv [OF inv who]
        ex_pay_in_and_swap_inv [OF ex_inv_user(2) [OF inv who] who])

lemma ex_call_signed:
  assumes "ex_call_dispatch C E X orig c w = Inr w'" and "\<And>to. c \<noteq> ExSetFeeToCall to"
  obtains who where "orig = Signed who"
  using assms
  by (cases c) (auto simp: ex_create_pool_def ex_add_liquidity_def ex_add_liquidity_w3g_def ex_remove_liquidity_def
      ex_remove_liquidity_w3g_def ex_swap_exact_tokens_for_tokens_def ex_swap_tokens_for_exact_tokens_def
      ex_swap_exact_w3g_for_tokens_def ex_swap_tokens_for_exact_w3g_def result_eqs)

lemma ex_call_inv:
  assumes inv: "ex_inv E w" and orig: "\<forall>a \<in> ex_sub_accounts E. orig \<noteq> Signed a"
    and fresh: "ex_fresh E X c w"
    and call: "ex_call_dispatch C (E\<lparr>env_now := now\<rparr>) X orig c w = Inr w'"
  shows "ex_inv E w'"
proof (cases "\<exists>to. c = ExSetFeeToCall to")
  case True
  with call inv show ?thesis
    by (auto simp: ex_set_fee_to_def result_eqs ex_inv_def ex_pool_ok_def cong: option.case_cong)
next
  case False
  then obtain who where who: "orig = Signed who" using ex_call_signed [OF call] by blast
  with orig have user: "who \<notin> ex_sub_accounts E" by blast
  note pool = ex_create_pool_inv [OF inv]
  note liquidity = ex_add_liquidity_inv [OF inv] ex_add_liquidity_w3g_inv [OF inv] ex_remove_liquidity_inv [OF inv]
    ex_remove_liquidity_w3g_inv [OF inv]
  note swaps = ex_swap_calls_inv [OF inv] ex_swap_tokens_for_exact_w3g_inv [OF inv]
  show ?thesis
    using call fresh user False unfolding who by (cases c) (auto intro: pool liquidity swaps)
qed

lemma ex_wrap_inv:
  assumes inv: "ex_inv E w" and orig: "\<forall>a \<in> ex_sub_accounts E. orig \<noteq> Signed a"
    and call: "ex_on_wr (wr_dispatch C E (orig, c)) w = Inr w'"
  shows "ex_inv E w'"
proof -
  from call obtain x where x: "wr_dispatch C E (orig, c) (ex_wr w) = Inr x" and w': "w' = w\<lparr>ex_wr := x\<rparr>"
    by (auto simp: ex_on_wr_ok)
  from x show ?thesis
  proof (cases rule: wr_dispatchE)
    case (deposit who v)
    then have "ex_on_wr (wr_do_deposit C E who v) w = Inr w'" by (simp add: ex_on_wr_ok w')
    with orig deposit(1) show ?thesis using ex_inv_user(2) [OF inv] by blast
  next
    case (withdraw who v)
    then have "ex_on_wr (wr_do_withdraw C E who v) w = Inr w'" by (simp add: ex_on_wr_ok w')
    with orig withdraw(1) show ?thesis using ex_inv_user(3) [OF inv] by blast
  next
    case (native who b v n)
    then have "ex_still E {} w w'" by (simp add: ex_still_def ex_moves_def w' ex_ft_def)
    then show ?thesis by (rule ex_inv_still [OF inv]) simp
  next
    case (token call s)
    have ft: "ex_ft w' = s" by (simp add: w' token(4))
    have d: "ft_dispatch (orig, call) (ex_ft w) = Inr s" using token(3) by (simp add: ex_ft_def)
    have prot: "ft_protected (ex_sub_accounts E) (ex_ft w)"
      using ex_invD(4) [OF inv] by (simp add: ft_protected_def)
    have zero: "ft_allowances s (t, a, b) = 0" if "a \<in> ex_sub_accounts E" for t a b
      using ft_dispatch_protected(1) [OF d prot orig] that by (simp add: ft_protected_def)
    have "ex_bal w t a \<le> ex_bal w' t a" if "a \<in> ex_sub_accounts E" for t a
      using ft_dispatch_protected(2) [OF d prot orig that] by (simp add: ft)
    then have "ex_still E (- ex_sub_accounts E) w w'"
      using zero ex_invD(4) [OF inv]
      by (auto simp: ex_still_def ex_moves_def ft) (simp_all add: w' token(4))
    then show ?thesis by (rule ex_inv_still [OF inv]) simp
  qed
qed

section \<open>Properties\<close>

text \<open>
  C11: The reserves are real, as far as calls of the exchange, the wrap pallet and the fungible token
  pallet and native transfers go. From a state where every pool is covered and the pallet's accounts
  have granted no allowances, such as one with no pools, any such calls that are not signed by a pool account and
  draw fresh ids for new pools leave in every pool's account at least the reserves recorded for the
  pool. Contracts are not among these calls: \<open>transfer_from\<close> of the chain extension can drain a pool.
\<close>

theorem ex_reserves_covered:
  assumes "ex_reach C E w0 w" and "ex_inv E w0" and "ex_pools w (t0, t1) = Some pool"
  shows "fst (ex_reserves w (t0, t1)) \<le> ft_balance_of t0 (pool_lp_account pool) (ex_ft w)
    \<and> snd (ex_reserves w (t0, t1)) \<le> ft_balance_of t1 (pool_lp_account pool) (ex_ft w)"
proof -
  from assms(1,2) have "ex_inv E w"
    by (induction rule: ex_reach.induct) (auto intro: ex_call_inv ex_wrap_inv)
  from ex_invD(1) [OF this assms(3)] show ?thesis by (auto simp: ex_pool_ok_def ft_balance_of_def)
qed

text \<open>
  C12: A swap never lowers the product of the reserves, as long as a million times that product fits
  into 128 bits.
\<close>

theorem ex_swap_product:
  assumes "ex_swap who t0 t1 a0 a1 to w = Inr w'" and "t0 < t1"
    and "unat (fst (ex_reserves w (t0, t1))) * unat (snd (ex_reserves w (t0, t1))) * 1000 * 1000 < 2 ^ 128"
  shows "unat (fst (ex_reserves w (t0, t1))) * unat (snd (ex_reserves w (t0, t1)))
    \<le> unat (fst (ex_reserves w' (t0, t1))) * unat (snd (ex_reserves w' (t0, t1)))"
  using assms(1)
proof (rule ex_swapE)
  fix pool :: ex_pool and r0 r1 w1 w2 b0 b1 i0 i1 d0 d1
  assume res: "ex_get_reserves t0 t1 w = Inr (r0, r1)"
    and d: "ex_init_balance_adjusted b0 i0 = Inr d0" "ex_init_balance_adjusted b1 i1 = Inr d1"
    and k: "ex_k_check d0 d1 r0 r1"
    and w': "w' = ex_deposit_event (ExSwap who i0 i1 a0 a1 to) (ex_deposit_event (ExSync b0 b1)
          (w2\<lparr>ex_reserves := (ex_reserves w2)((t0, t1) := (b0, b1))\<rparr>))"
  have r: "ex_reserves w (t0, t1) = (r0, r1)"
    using res assms(2) by (cases "ex_reserves w (t0, t1)") (simp add: ex_get_reserves_def ex_sort_tokens_def)
  with assms(3) have "unat r0 * unat r1 * 1000 * 1000 \<le> unat d0 * unat d1"
    by (intro ex_k_check_bound [OF k]) simp
  also have "\<dots> \<le> (unat b0 * 1000) * (unat b1 * 1000)"
    using d by (intro mult_mono) (auto dest: ex_adjusted_le)
  finally show ?thesis by (simp add: r w')
qed

lemma ex_hop_pays:
  assumes inv: "ex_inv E w" and i: "i + 2 = length path" and len: "length amounts = length path"
    and hop: "ex_hop who amounts path to i w = Inr w'"
  shows "unat (ex_bal w (path ! (i + 1)) to) + unat (amounts ! (i + 1)) \<le> unat (ex_bal w' (path ! (i + 1)) to)"
proof -
  let ?v = "amounts ! (i + 1)" and ?p = "path ! i" and ?q = "path ! (i + 1)"
  obtain t0 t1 where key: "ex_sort_tokens ?p ?q = (t0, t1)" by (cases "ex_sort_tokens ?p ?q")
  have sw: "ex_swap who t0 t1 (if ?p = t0 then 0 else ?v) (if ?p = t0 then ?v else 0) to w = Inr w'"
    using hop i len key by (auto simp: ex_hop_def index_def Let_def split: if_splits)
  from ex_swap_effect [OF sw, of E] obtain pool where pool: "ex_pools w (t0, t1) = Some pool"
    and pos: "(if ?p = t0 then 0 else ?v) > 0 \<or> (if ?p = t0 then ?v else 0) > 0"
    and paid0: "(if ?p = t0 then 0 else ?v) > 0 \<Longrightarrow>
      unat (ex_bal w (pool_token_0 pool) to) + unat (if ?p = t0 then 0 else ?v) \<le> unat (ex_bal w' (pool_token_0 pool) to)"
    and paid1: "(if ?p = t0 then ?v else 0) > 0 \<Longrightarrow>
      unat (ex_bal w (pool_token_1 pool) to) + unat (if ?p = t0 then ?v else 0) \<le> unat (ex_bal w' (pool_token_1 pool) to)"
    by blast
  from ex_invD(1) [OF inv pool] have "pool_token_0 pool = t0" "pool_token_1 pool = t1" "t0 < t1"
    by (auto simp: ex_pool_ok_def)
  with key pos paid0 paid1 show ?thesis by (auto simp: ex_sort_tokens_def split: if_splits)
qed

lemma ex_hop_keeps:
  assumes inv: "ex_inv E w" and to: "a \<notin> ex_sub_accounts E"
    and hop: "ex_hop who amounts path to i w = Inr w'"
  shows "ex_bal w t a \<le> ex_bal w' t a"
proof -
  from hop obtain t0 t1 a0 a1 r where sw: "ex_swap who t0 t1 a0 a1 r w = Inr w'"
    by (auto simp: ex_hop_def result_eqs Let_def split: prod.splits if_splits)
  from ex_swap_effect [OF sw, of E] obtain pool where pool: "ex_pools w (t0, t1) = Some pool"
    and mv: "ex_moves E {pool_lp_account pool} w w'" by blast
  have "a \<noteq> pool_lp_account pool" using to ex_inv_pool_account [OF inv pool] by blast
  with mv show ?thesis by (simp add: ex_moves_def)
qed

text \<open>
  The receiver of \<open>swap_exact_tokens_for_tokens\<close> gets at least the minimum asked for, in the last
  token of the path, over however many pools the path leads.
\<close>

theorem ex_swap_exact_pays:
  assumes inv: "ex_inv E w" and who: "who \<notin> ex_sub_accounts E"
    and to: "to \<notin> ex_sub_accounts E" "to \<noteq> who"
    and call: "ex_swap_exact_tokens_for_tokens E (Signed who) v amount_out_min path to deadline w = Inr w'"
  shows "unat (ft_balance_of (last path) to (ex_ft w)) + unat amount_out_min
    \<le> unat (ft_balance_of (last path) to (ex_ft w'))"
proof -
  from call obtain amounts pool t a w1 where amounts: "ex_get_amounts_out v path w = Inr amounts"
    and min: "amount_out_min \<le> amounts ! (length amounts - 1)"
    and w1: "ex_on_ft (ft_do_transfer t who (pool_lp_account (pool :: ex_pool)) a) w = Inr w1"
    and w': "ex_do_swap who amounts path to w1 = Inr w'"
    by (auto simp: ex_swap_exact_tokens_for_tokens_def ex_pay_in_and_swap_def index_def result_eqs
        split: if_splits)
  from ex_amounts_length(1) [OF amounts] obtain i where i: "i + 2 = length path"
    and len: "length amounts = length path"
    by (metis add.commute le_Suc_ex)
  from w' i obtain w2 where w2: "for_each (ex_hop who amounts path to) [0..<i] w1 = Inr w2"
    and hop: "ex_hop who amounts path to i w2 = Inr w'"
    by (rule ex_do_swap_split)
  let ?t = "path ! (i + 1)"
  have inv1: "ex_inv E w1" using w1 by (rule ex_inv_user(1) [OF inv who])
  have "ex_inv E w2 \<and> ex_bal w1 ?t to \<le> ex_bal w2 ?t to"
    by (rule for_each_inv [OF w2, where P = "\<lambda>x. ex_inv E x \<and> ex_bal w1 ?t to \<le> ex_bal x ?t to"])
      (auto intro: inv1 ex_hop_inv order_trans ex_hop_keeps [OF _ to(1)])
  moreover have "ex_bal w ?t to \<le> ex_bal w1 ?t to"
    using ex_transfer_still [OF w1, of E] to(2) by (simp add: ex_still_def ex_moves_def)
  moreover have "last path = ?t"
    using i by (metis add_2_eq_Suc' add_diff_cancel_left' last_conv_nth list.size(3) nat.distinct(1) plus_1_eq_Suc Suc_eq_plus1)
  moreover have "length amounts - 1 = i + 1" using i len by simp
  ultimately show ?thesis
    using ex_hop_pays [OF _ i len hop] min by (fastforce simp: ft_balance_of_def word_le_nat_alt)
qed

text \<open>
  \<open>get_amounts_out\<close> chains the prices: it starts with the amount paid in, and each further
  amount is the price of the one before it in the pool of that hop.
\<close>

theorem ex_get_amounts_out_spec:
  assumes "ex_get_amounts_out v path w = Inr amounts"
  shows "length amounts = length path \<and> amounts ! 0 = v \<and>
    (\<forall>i. i + 1 < length path \<longrightarrow>
      (\<exists>ri ro. ex_get_reserves (path ! i) (path ! (i + 1)) w = Inr (ri, ro)
             \<and> ex_get_amount_out (amounts ! i) ri ro = Inr (amounts ! (i + 1))))"
proof -
  let ?f = "\<lambda>i amounts. and_then (ex_get_reserves (path ! i) (path ! (i + 1)) w) (\<lambda>(reserve_in, reserve_out).
         and_then (ex_get_amount_out (amounts ! i) reserve_in reserve_out) (\<lambda>amount.
         Inr (amounts[i + 1 := amount])))"
  let ?ok = "\<lambda>xs i. \<exists>ri ro. ex_get_reserves (path ! i) (path ! (i + 1)) w = Inr (ri, ro)
             \<and> ex_get_amount_out (xs ! i) ri ro = Inr (xs ! (i + 1))"
  have loop: "length xs = length path \<and> xs ! 0 = v \<and> (\<forall>i<n. ?ok xs i)"
    if "for_each ?f [0..<n] ((replicate (length path) 0)[0 := v]) = Inr xs" "n < length path" for n xs
    using that
  proof (induction n arbitrary: xs)
    case (Suc n)
    then obtain ys ri ro y where ys: "for_each ?f [0..<n] ((replicate (length path) 0)[0 := v]) = Inr ys"
      and r: "ex_get_reserves (path ! n) (path ! (n + 1)) w = Inr (ri, ro)"
      and y: "ex_get_amount_out (ys ! n) ri ro = Inr y" and xs: "xs = ys[n + 1 := y]"
      by (auto simp: for_each_append result_eqs)
    from Suc.IH [OF ys] Suc.prems(2) have "length ys = length path" "ys ! 0 = v" "\<forall>i<n. ?ok ys i" by auto
    then show ?case using r y Suc.prems(2) by (auto simp: xs less_Suc_eq)
  qed auto
  from assms have "for_each ?f [0..<length path - 1] ((replicate (length path) 0)[0 := v]) = Inr amounts"
    and "2 \<le> length path"
    by (auto simp: ex_get_amounts_out_def result_eqs)
  with loop [of "length path - 1" amounts] show ?thesis by auto
qed

text \<open>
  A path of fewer than two tokens makes the swap calls panic instead of returning the error
  \<open>InvalidPath\<close> that \<open>get_amounts_out\<close> has for it: the first two positions are read before.
\<close>

theorem ex_short_path_panics:
  assumes "length path < 2" and "env_now E < deadline"
  shows "ex_swap_exact_tokens_for_tokens E (Signed who) v m path to deadline w = Inl Panicked
    \<and> ex_swap_tokens_for_exact_tokens E (Signed who) v m path to deadline w = Inl Panicked"
  using assms
  by (auto simp: ex_swap_exact_tokens_for_tokens_def ex_swap_tokens_for_exact_tokens_def
      ex_first_pool_def index_def)

text \<open>
  \<open>remove_liquidity\<close> does the same whichever way round the two tokens are named, although its two
  minimum amounts are not exchanged along: the minimum of \<open>token_a\<close> is always compared with the
  payout of the token with the smaller id.
\<close>

theorem ex_remove_liquidity_ignores_order:
  "ex_remove_liquidity E X orig token_b token_a liquidity amount_a_min amount_b_min to deadline w
     = ex_remove_liquidity E X orig token_a token_b liquidity amount_a_min amount_b_min to deadline w"
proof -
  have "ex_sort_tokens token_b token_a = ex_sort_tokens token_a token_b"
    by (auto simp: ex_sort_tokens_def not_less_iff_gr_or_eq)
  then show ?thesis by (simp add: ex_remove_liquidity_def)
qed

section \<open>Concrete instances\<close>

lemma sub_accounts_example: "a < 2000 \<Longrightarrow> a \<notin> ex_sub_accounts env_example"
  using sub_account_example [of ExchangePalletId]
  by (auto simp: ex_sub_accounts_def ex_token_id_to_account_id_def word_less_nat_alt)

lemma ex_example_inv: "ex_inv env_example ex_example"
  by (auto simp: ex_inv_def ex_example_def ex_pool_ok_def ex_ft_def ex_token_id_to_account_id_def
      env_example_def WW3G_def split: option.splits if_splits)

lemmas ex_eval =
  ex_swap_def ex_get_reserves_def ex_sort_tokens_def ex_get_pool_def ex_pay_out_def ex_on_ft_def
  ex_on_wr_def wr_on_ft_def focus_def ft_do_transfer_def ft_internal_transfer_def
  ft_decrease_balance_def ft_increase_balance_def checked_add_def checked_sub_def checked_mul_def
  ex_ft_def ft_balance_of_def ft_deposit_event_def ex_init_amount_in_def u256_of_def
  ex_init_balance_adjusted_def u128_try_from_def ex_k_check_def ex_do_update_def
  ex_deposit_event_def ok_or_def ensure_def

lemma ex_example_amounts: "ex_get_amounts_out 1000 [5, 7] ex_example = Inr [1000, 1564]"
proof -
  have "ex_get_amount_out 1000 50000 80000 = Inr 1564"
    by (simp add: ex_get_amount_out_value price_out_def)
  then show ?thesis
    by (simp add: ex_get_amounts_out_def ex_get_reserves_def ex_sort_tokens_def ex_example_def
        ensure_def)
qed

lemma ex_example_swap:
  "\<exists>w'. ex_swap_exact_tokens_for_tokens env_example (Signed 1) 1000 1500 [5, 7] 2 200 ex_example = Inr w'
     \<and> ex_pools w' = ex_pools ex_example"
proof -
  show ?thesis
    by (simp add: ex_swap_exact_tokens_for_tokens_def ex_example_amounts ex_first_pool_def index_def
        ex_pay_in_and_swap_def ex_do_swap_def ex_hop_def Let_def env_example_def)
      (simp add: ex_eval ex_example_def)
qed

theorem ex_swap_exact_pays_witness:
  "\<exists>w'. ex_swap_exact_tokens_for_tokens env_example (Signed 1) 1000 1500 [5, 7] 2 200 ex_example = Inr w'
     \<and> 1500 \<le> unat (ft_balance_of 7 2 (ex_ft w'))"
proof -
  from ex_example_swap obtain w' where
    w': "ex_swap_exact_tokens_for_tokens env_example (Signed 1) 1000 1500 [5, 7] 2 200 ex_example = Inr w'"
    by blast
  have "(1 :: account) \<notin> ex_sub_accounts env_example" "(2 :: account) \<notin> ex_sub_accounts env_example"
    by (simp_all add: sub_accounts_example)
  from ex_swap_exact_pays [OF ex_example_inv this _ w'] w' show ?thesis by auto
qed

theorem ex_reserves_covered_witness:
  "\<exists>w' pool. ex_reach ledger_currency env_example ex_example w' \<and> ex_pools w' (5, 7) = Some pool
     \<and> fst (ex_reserves w' (5, 7)) \<le> ft_balance_of 5 (pool_lp_account pool) (ex_ft w')"
proof -
  let ?c = "ExSwapExactTokensForTokens 1000 1500 [5, 7] 2 200"
  from ex_example_swap obtain w' where
    w': "ex_swap_exact_tokens_for_tokens env_example (Signed 1) 1000 1500 [5, 7] 2 200 ex_example = Inr w'"
    and pools: "ex_pools w' = ex_pools ex_example" by blast
  have one: "\<forall>a \<in> ex_sub_accounts env_example. Signed 1 \<noteq> Signed a"
    using sub_accounts_example [of 1] by auto
  have reach: "ex_reach ledger_currency env_example ex_example w'"
  proof (rule ex_reach.exchange [OF ex_reach.start one])
    show "ex_fresh env_example X ?c ex_example" for X by (simp add: ex_fresh_def)
    show "ex_call_dispatch ledger_currency (env_example\<lparr>env_now := env_now env_example\<rparr>) X (Signed 1) ?c
        ex_example = Inr w'" for X using w' by simp
  qed
  from pools obtain pool where "ex_pools w' (5, 7) = Some pool" by (simp add: ex_example_def)
  with ex_reserves_covered [OF reach ex_example_inv this] reach show ?thesis by blast
qed

theorem ex_swap_product_witness:
  "\<exists>w'. ex_swap 1 5 7 0 1500 2 ex_paid_example = Inr w'
     \<and> 50000 * 80000 \<le> unat (fst (ex_reserves w' (5, 7))) * unat (snd (ex_reserves w' (5, 7)))"
proof -
  obtain w' where w': "ex_swap 1 5 7 0 1500 2 ex_paid_example = Inr w'"
    by (simp add: ex_eval ex_paid_example_def ex_example_def)
  from ex_swap_product [OF w'] w' show ?thesis by (auto simp: ex_paid_example_def ex_example_def)
qed

theorem ex_get_amounts_out_spec_witness:
  "ex_get_amounts_out 1000 [5, 7] ex_example = Inr [1000, 1564] \<and>
     (\<exists>ri ro. ex_get_reserves 5 7 ex_example = Inr (ri, ro) \<and> ex_get_amount_out 1000 ri ro = Inr 1564)"
proof -
  have a: "ex_get_amounts_out 1000 [5, 7] ex_example = Inr [1000, 1564]"
    by (rule ex_example_amounts)
  from ex_get_amounts_out_spec [OF a] have "\<exists>ri ro. ex_get_reserves ([5, 7] ! 0) ([5, 7] ! (0 + 1)) ex_example = Inr (ri, ro)
      \<and> ex_get_amount_out ([1000, 1564] ! 0) ri ro = Inr ([1000, 1564] ! (0 + 1))" by fastforce
  with a show ?thesis by simp
qed

theorem ex_short_path_panics_witness:
  "ex_swap_exact_tokens_for_tokens env_example (Signed 1) 10 0 [5] 2 200 ex_example = Inl Panicked"
proof -
  have "length [5 :: u128] < 2" "env_now env_example < 200" by (simp_all add: env_example_def)
  from ex_short_path_panics [OF this] show ?thesis by blast
qed

end
