(* ===== verification/Farming.thy ===== *)
theory Farming
  imports TokenFungible
begin

text \<open>
  The farming pallet (\<open>pallets/farming\<close>): an administrator opens a pool and pays its award into an
  escrow account; users stake tokens during a period, the stakes are locked for another period, and
  then each user claims the stake back with a share of the award.
\<close>

section \<open>Storage, events and calls\<close>

record fa_pool =
  fa_escrow_account :: account
  fa_start_at :: u32
  fa_staking_duration :: u32
  fa_locked_duration :: u32
  fa_locked_token_id :: u128
  fa_award_token_id :: u128
  fa_total_locked :: u128
  fa_total_award :: u128

record fa_staking_info =
  fa_staking_balance :: u128
  fa_is_claimed :: bool

datatype fa_status = FaStakingNotStartStatus | FaStakingStatus | FaLockedStatus | FaClaimStatus

datatype fa_event =
    FaPoolCreated u64
  | FaStaking account u64 u128
  | FaClaim account u64 u128 u128

record fa_world =
  fa_ft :: ft_storage
  fa_admin :: "account option"
  fa_next_pool_id :: u64
  fa_pools :: "u64 \<rightharpoonup> fa_pool"
  fa_locked :: "account \<times> u64 \<rightharpoonup> fa_staking_info"
  fa_events :: "fa_event list"

datatype fa_call =
    FaSetAdmin account
  | FaCreatePool u32 u32 u32 u128 u128 u128
  | FaStakingCall u64 u128
  | FaClaimCall u64
  | FaForceClaim account u64

section \<open>Operations\<close>

definition fa_on_ft :: "(ft_storage \<Rightarrow> ft_storage dispatch) \<Rightarrow> fa_world \<Rightarrow> fa_world dispatch" where
  "fa_on_ft = focus fa_ft (\<lambda>s w. w\<lparr>fa_ft := s\<rparr>)"

definition fa_deposit_event :: "fa_event \<Rightarrow> fa_world \<Rightarrow> fa_world" where
  "fa_deposit_event e w = w\<lparr>fa_events := fa_events w @ [e]\<rparr>"

definition fa_is_admin :: "account \<Rightarrow> fa_world \<Rightarrow> bool" where
  "fa_is_admin sender w \<longleftrightarrow> fa_admin w = Some sender"

definition fa_escrow_account_id :: "env \<Rightarrow> u64 \<Rightarrow> account" where
  "fa_escrow_account_id E pool_id = into_sub_account E FarmingPalletId (ucast pool_id)"

text \<open>The ends of the two periods are sums of block numbers, which wrap.\<close>

definition fa_staking_end :: "fa_pool \<Rightarrow> u32" where
  "fa_staking_end pool = fa_start_at pool + fa_staking_duration pool"

definition fa_pool_status :: "u32 \<Rightarrow> fa_pool \<Rightarrow> fa_status" where
  "fa_pool_status now pool =
     (let start_at = fa_start_at pool;
          staking_end_time = fa_staking_end pool;
          locked_end_time = fa_start_at pool + fa_staking_duration pool + fa_locked_duration pool in
      if now < start_at then FaStakingNotStartStatus
      else if start_at \<le> now \<and> now < staking_end_time then FaStakingStatus
      else if staking_end_time \<le> now \<and> now < locked_end_time then FaLockedStatus
      else FaClaimStatus)"

text \<open>\<open>staking_balance * total_award / total_locked\<close>: the product wraps, the quotient panics on 0.\<close>

definition fa_award :: "u128 \<Rightarrow> u128 \<Rightarrow> u128 \<Rightarrow> u128 dispatch" where
  "fa_award staking_balance total_award total_locked =
     (if total_locked = 0 then Inl Panicked else Inr (staking_balance * total_award div total_locked))"

section \<open>Dispatchable calls\<close>

definition fa_set_admin :: "origin \<Rightarrow> account \<Rightarrow> fa_world \<Rightarrow> fa_world dispatch" where
  "fa_set_admin orig new_admin w = and_then (ensure_root orig) (\<lambda>_. Inr (w\<lparr>fa_admin := Some new_admin\<rparr>))"

definition fa_create_pool ::
  "env \<Rightarrow> origin \<Rightarrow> u32 \<Rightarrow> u32 \<Rightarrow> u32 \<Rightarrow> u128 \<Rightarrow> u128 \<Rightarrow> u128 \<Rightarrow> fa_world \<Rightarrow> fa_world dispatch" where
  "fa_create_pool E orig start_at staking_duration locked_duration locked_token_id award_token_id total_award w =
     and_then (ensure_signed orig) (\<lambda>sender.
     ensure (fa_is_admin sender w) (FarmingError FaNoPermisson) (
     let pool_id = fa_next_pool_id w in
     and_then (ok_or (checked_add pool_id 1) (FarmingError FaNoAvailablePoolId)) (\<lambda>next_id.
     let w = w\<lparr>fa_next_pool_id := next_id\<rparr>;
         escrow_account = fa_escrow_account_id E pool_id in
     and_then (fa_on_ft (ft_do_transfer award_token_id sender escrow_account total_award) w) (\<lambda>w.
     Inr (fa_deposit_event (FaPoolCreated pool_id)
       (w\<lparr>fa_pools := (fa_pools w)(pool_id \<mapsto>
          \<lparr>fa_escrow_account = escrow_account, fa_start_at = start_at,
           fa_staking_duration = staking_duration, fa_locked_duration = locked_duration,
           fa_locked_token_id = locked_token_id, fa_award_token_id = award_token_id,
           fa_total_locked = 0, fa_total_award = total_award\<rparr>)\<rparr>))))))"

definition fa_staking :: "env \<Rightarrow> origin \<Rightarrow> u64 \<Rightarrow> u128 \<Rightarrow> fa_world \<Rightarrow> fa_world dispatch" where
  "fa_staking E orig pool_id amount w =
     and_then (ensure_signed orig) (\<lambda>sender.
     and_then (ok_or (fa_pools w pool_id) (FarmingError FaPoolNotFound)) (\<lambda>pool.
     and_then (case fa_pool_status (env_now E) pool of
                 FaStakingNotStartStatus \<Rightarrow> Inl (FarmingError FaStakingNotStart)
               | FaStakingStatus \<Rightarrow> Inr ()
               | FaLockedStatus \<Rightarrow> Inl (FarmingError FaCurrentLockedTime)
               | FaClaimStatus \<Rightarrow> Inl (FarmingError FaCurrentClaimTime)) (\<lambda>_.
     and_then (fa_on_ft (ft_do_transfer (fa_locked_token_id pool) sender (fa_escrow_account pool) amount) w) (\<lambda>w.
     let info = (case fa_locked w (sender, pool_id) of
                   None \<Rightarrow> \<lparr>fa_staking_balance = amount, fa_is_claimed = False\<rparr>
                 | Some i \<Rightarrow> i\<lparr>fa_staking_balance := saturating_add (fa_staking_balance i) amount\<rparr>) in
     Inr (fa_deposit_event (FaStaking sender pool_id amount)
       (w\<lparr>fa_locked := (fa_locked w)((sender, pool_id) \<mapsto> info),
          fa_pools := (fa_pools w)(pool_id := map_option
            (\<lambda>op. op\<lparr>fa_total_locked := saturating_add (fa_total_locked op) amount\<rparr>) (fa_pools w pool_id))\<rparr>))))))"

definition fa_claim :: "env \<Rightarrow> origin \<Rightarrow> u64 \<Rightarrow> fa_world \<Rightarrow> fa_world dispatch" where
  "fa_claim E orig pool_id w =
     and_then (ensure_signed orig) (\<lambda>sender.
     and_then (ok_or (fa_pools w pool_id) (FarmingError FaPoolNotFound)) (\<lambda>pool.
     and_then (case fa_pool_status (env_now E) pool of
                 FaStakingNotStartStatus \<Rightarrow> Inl (FarmingError FaStakingNotStart)
               | FaStakingStatus \<Rightarrow> Inl (FarmingError FaCurrentStakingTime)
               | FaLockedStatus \<Rightarrow> Inl (FarmingError FaCurrentLockedTime)
               | FaClaimStatus \<Rightarrow> Inr ()) (\<lambda>_.
     and_then (ok_or (fa_locked w (sender, pool_id)) (FarmingError FaNotStaking)) (\<lambda>pool_id_locked.
     ensure (\<not> fa_is_claimed pool_id_locked) (FarmingError FaAlreadyClaim) (
     and_then (fa_on_ft (ft_do_transfer (fa_locked_token_id pool) (fa_escrow_account pool) sender
       (fa_staking_balance pool_id_locked)) w) (\<lambda>w.
     let w = w\<lparr>fa_locked := (fa_locked w)((sender, pool_id) :=
                 map_option (\<lambda>i. i\<lparr>fa_is_claimed := True\<rparr>) (fa_locked w (sender, pool_id)))\<rparr> in
     and_then (fa_award (fa_staking_balance pool_id_locked) (fa_total_award pool) (fa_total_locked pool)) (\<lambda>award.
     and_then (fa_on_ft (ft_do_transfer (fa_award_token_id pool) (fa_escrow_account pool) sender award) w) (\<lambda>w.
     Inr (fa_deposit_event (FaClaim sender pool_id (fa_staking_balance pool_id_locked) award) w)))))))))"

definition fa_force_claim :: "origin \<Rightarrow> account \<Rightarrow> u64 \<Rightarrow> fa_world \<Rightarrow> fa_world dispatch" where
  "fa_force_claim orig target pool_id w =
     and_then (ensure_signed orig) (\<lambda>sender.
     ensure (fa_is_admin sender w) (FarmingError FaNoPermisson) (
     and_then (ok_or (fa_pools w pool_id) (FarmingError FaPoolNotFound)) (\<lambda>pool.
     and_then (ok_or (fa_locked w (target, pool_id)) (FarmingError FaNotStaking)) (\<lambda>pool_id_locked.
     ensure (\<not> fa_is_claimed pool_id_locked) (FarmingError FaAlreadyClaim) (
     and_then (fa_on_ft (ft_do_transfer (fa_locked_token_id pool) (fa_escrow_account pool) target
       (fa_staking_balance pool_id_locked)) w) (\<lambda>w.
     Inr (w\<lparr>fa_locked := (fa_locked w)((target, pool_id) := None),
            fa_pools := (fa_pools w)(pool_id := map_option
              (\<lambda>op. op\<lparr>fa_total_locked := saturating_sub (fa_total_locked op)
                 (fa_staking_balance pool_id_locked)\<rparr>) (fa_pools w pool_id))\<rparr>)))))))"

fun fa_call_dispatch :: "env \<Rightarrow> origin \<Rightarrow> fa_call \<Rightarrow> fa_world \<Rightarrow> fa_world dispatch" where
  "fa_call_dispatch E orig (FaSetAdmin a) w = fa_set_admin orig a w"
| "fa_call_dispatch E orig (FaCreatePool st sd ld lt at ta) w = fa_create_pool E orig st sd ld lt at ta w"
| "fa_call_dispatch E orig (FaStakingCall p v) w = fa_staking E orig p v w"
| "fa_call_dispatch E orig (FaClaimCall p) w = fa_claim E orig p w"
| "fa_call_dispatch E orig (FaForceClaim a p) w = fa_force_claim orig a p w"

section \<open>Specification\<close>

text \<open>
  The stakes of a pool that are still to be claimed and those already claimed, and the awards paid
  out of it so far, which the events of the claims record.
\<close>

definition fa_open :: "fa_world \<Rightarrow> u64 \<Rightarrow> account \<Rightarrow> u128" where
  "fa_open w p a = (case fa_locked w (a, p) of
     Some i \<Rightarrow> if fa_is_claimed i then 0 else fa_staking_balance i | None \<Rightarrow> 0)"

definition fa_done :: "fa_world \<Rightarrow> u64 \<Rightarrow> account \<Rightarrow> u128" where
  "fa_done w p a = (case fa_locked w (a, p) of
     Some i \<Rightarrow> if fa_is_claimed i then fa_staking_balance i else 0 | None \<Rightarrow> 0)"

definition fa_paid :: "fa_world \<Rightarrow> u64 \<Rightarrow> nat" where
  "fa_paid w p = (\<Sum>e\<leftarrow>fa_events w. case e of FaClaim _ q _ v \<Rightarrow> (if q = p then unat v else 0) | _ \<Rightarrow> 0)"

definition fa_claimed_by :: "fa_world \<Rightarrow> u64 \<Rightarrow> account \<Rightarrow> bool" where
  "fa_claimed_by w p a \<longleftrightarrow> (\<exists>i. fa_locked w (a, p) = Some i \<and> fa_is_claimed i)"

text \<open>
  A pool is in order at block \<open>n\<close>: its recorded total is the sum of the stakes; the awards paid are
  no more than the share of the stakes claimed; nothing is claimed before staking has ended; and the
  escrow account holds the open stakes and the rest of the award, also when both are of one token.
\<close>

definition fa_pool_ok :: "env \<Rightarrow> u32 \<Rightarrow> fa_world \<Rightarrow> u64 \<Rightarrow> fa_pool \<Rightarrow> bool" where
  "fa_pool_ok E n w p pool \<longleftrightarrow>
     fa_escrow_account pool = fa_escrow_account_id E p \<and>
     unat (fa_total_locked pool) = total_of (fa_open w p) + total_of (fa_done w p) \<and>
     fa_paid w p * unat (fa_total_locked pool) \<le> unat (fa_total_award pool) * total_of (fa_done w p) \<and>
     fa_paid w p \<le> unat (fa_total_award pool) \<and>
     ((\<exists>a. fa_claimed_by w p a) \<or> fa_paid w p \<noteq> 0 \<longrightarrow> fa_start_at pool \<le> n \<and> fa_staking_end pool \<le> n) \<and>
     (if fa_locked_token_id pool = fa_award_token_id pool
      then total_of (fa_open w p) + unat (fa_total_award pool)
             \<le> unat (ft_balances (fa_ft w) (fa_locked_token_id pool, fa_escrow_account pool)) + fa_paid w p
      else total_of (fa_open w p) \<le> unat (ft_balances (fa_ft w) (fa_locked_token_id pool, fa_escrow_account pool))
         \<and> unat (fa_total_award pool)
             \<le> unat (ft_balances (fa_ft w) (fa_award_token_id pool, fa_escrow_account pool)) + fa_paid w p)"

definition fa_escrows :: "env \<Rightarrow> account set" where
  "fa_escrows E = range (fa_escrow_account_id E)"

definition fa_inv :: "env \<Rightarrow> u32 \<Rightarrow> fa_world \<Rightarrow> bool" where
  "fa_inv E n w \<longleftrightarrow>
     (\<forall>p. case fa_pools w p of
            None \<Rightarrow> (\<forall>a. fa_locked w (a, p) = None) \<and> fa_paid w p = 0
          | Some pool \<Rightarrow> p < fa_next_pool_id w \<and> fa_pool_ok E n w p pool) \<and>
     ft_protected (fa_escrows E) (fa_ft w)"

text \<open>
  The states that calls lead to, with the block of the last call: blocks only go up, and no call is
  signed by an escrow account. Calls of the fungible token pallet happen in between.
\<close>

inductive fa_reach :: "env \<Rightarrow> fa_world \<Rightarrow> u32 \<Rightarrow> fa_world \<Rightarrow> bool" for E w0 where
  start: "fa_reach E w0 0 w0"
| farming: "fa_reach E w0 n w \<Longrightarrow> n \<le> m \<Longrightarrow> \<forall>a \<in> fa_escrows E. orig \<noteq> Signed a \<Longrightarrow>
    fa_call_dispatch (E\<lparr>env_now := m\<rparr>) orig c w = Inr w' \<Longrightarrow> fa_reach E w0 m w'"
| token: "fa_reach E w0 n w \<Longrightarrow> \<forall>a \<in> fa_escrows E. orig \<noteq> Signed a \<Longrightarrow>
    fa_on_ft (ft_dispatch (orig, tc)) w = Inr w' \<Longrightarrow> fa_reach E w0 n w'"

text \<open>
  A start for the concrete instances: the administrator, account 1, holds the award, account 2 holds
  tokens to stake.
\<close>

definition fa_example :: fa_world where
  "fa_example =
     \<lparr>fa_ft = \<lparr>ft_tokens = Map.empty, ft_balances = (\<lambda>_. 0)((5, 1) := 1000, (7, 2) := 100),
        ft_allowances = (\<lambda>_. 0), ft_events = []\<rparr>,
      fa_admin = Some 1, fa_next_pool_id = 0, fa_pools = Map.empty, fa_locked = Map.empty, fa_events = []\<rparr>"

section \<open>What the calls do\<close>

lemma fa_env_now [simp]: "fa_escrow_account_id (E\<lparr>env_now := n\<rparr>) = fa_escrow_account_id E"
  by (simp add: fun_eq_iff fa_escrow_account_id_def)

lemma fa_deposit_event_simps [simp]:
  "fa_ft (fa_deposit_event e w) = fa_ft w"
  "fa_admin (fa_deposit_event e w) = fa_admin w"
  "fa_next_pool_id (fa_deposit_event e w) = fa_next_pool_id w"
  "fa_pools (fa_deposit_event e w) = fa_pools w"
  "fa_locked (fa_deposit_event e w) = fa_locked w"
  "fa_events (fa_deposit_event e w) = fa_events w @ [e]"
  by (simp_all add: fa_deposit_event_def)

lemma fa_on_ft_ok: "fa_on_ft f w = Inr w' \<longleftrightarrow> (\<exists>s. f (fa_ft w) = Inr s \<and> w' = w\<lparr>fa_ft := s\<rparr>)"
  by (simp add: fa_on_ft_def result_eqs)

lemma fa_staking_end_upd [simp]: "fa_staking_end (pool\<lparr>fa_total_locked := v\<rparr>) = fa_staking_end pool"
  by (simp add: fa_staking_end_def)

lemma fa_pool_status_staking:
  "fa_pool_status n pool = FaStakingStatus \<longleftrightarrow> fa_start_at pool \<le> n \<and> n < fa_staking_end pool"
  by (auto simp: fa_pool_status_def Let_def not_less)

lemma fa_pool_status_claim:
  "fa_pool_status n pool = FaClaimStatus \<Longrightarrow> fa_start_at pool \<le> n \<and> fa_staking_end pool \<le> n"
  by (auto simp: fa_pool_status_def Let_def not_less split: if_splits)

lemma fa_status_guards [result_eqs]:
  "(case st of FaStakingNotStartStatus \<Rightarrow> Inl a | FaStakingStatus \<Rightarrow> Inr () | FaLockedStatus \<Rightarrow> Inl b
    | FaClaimStatus \<Rightarrow> Inl c) = Inr u \<longleftrightarrow> st = FaStakingStatus"
  "(case st of FaStakingNotStartStatus \<Rightarrow> Inl a | FaStakingStatus \<Rightarrow> Inl b | FaLockedStatus \<Rightarrow> Inl c
    | FaClaimStatus \<Rightarrow> Inr ()) = Inr u \<longleftrightarrow> st = FaClaimStatus"
  by (cases st; simp)+

lemma fa_create_poolE:
  assumes "fa_create_pool E orig st sd ld lt at v w = Inr w'"
  obtains sender nx s where "orig = Signed sender" and "unat nx = unat (fa_next_pool_id w) + 1"
    and "ft_do_transfer at sender (fa_escrow_account_id E (fa_next_pool_id w)) v (fa_ft w) = Inr s"
    and "w' = fa_deposit_event (FaPoolCreated (fa_next_pool_id w))
       (w\<lparr>fa_next_pool_id := nx, fa_ft := s, fa_pools := (fa_pools w)(fa_next_pool_id w \<mapsto>
          \<lparr>fa_escrow_account = fa_escrow_account_id E (fa_next_pool_id w), fa_start_at = st,
           fa_staking_duration = sd, fa_locked_duration = ld, fa_locked_token_id = lt,
           fa_award_token_id = at, fa_total_locked = 0, fa_total_award = v\<rparr>)\<rparr>)"
  using assms by (auto simp: fa_create_pool_def result_eqs arith_eqs Let_def fa_on_ft_ok)

lemma fa_stakingE:
  assumes "fa_staking E orig p v w = Inr w'"
  obtains sender pool s info where "orig = Signed sender" and "fa_pools w p = Some pool"
    and "fa_pool_status (env_now E) pool = FaStakingStatus"
    and "ft_do_transfer (fa_locked_token_id pool) sender (fa_escrow_account pool) v (fa_ft w) = Inr s"
    and "info = (case fa_locked w (sender, p) of
                   None \<Rightarrow> \<lparr>fa_staking_balance = v, fa_is_claimed = False\<rparr>
                 | Some i \<Rightarrow> i\<lparr>fa_staking_balance := saturating_add (fa_staking_balance i) v\<rparr>)"
    and "w' = fa_deposit_event (FaStaking sender p v)
       (w\<lparr>fa_ft := s, fa_locked := (fa_locked w)((sender, p) \<mapsto> info),
          fa_pools := (fa_pools w)(p \<mapsto> pool\<lparr>fa_total_locked := saturating_add (fa_total_locked pool) v\<rparr>)\<rparr>)"
  using assms
  by (auto simp: fa_staking_def result_eqs Let_def fa_on_ft_ok)

lemma fa_claimE:
  assumes "fa_claim E orig p w = Inr w'"
  obtains sender pool i s award s' where "orig = Signed sender" and "fa_pools w p = Some pool"
    and "fa_pool_status (env_now E) pool = FaClaimStatus"
    and "fa_locked w (sender, p) = Some i" and "\<not> fa_is_claimed i"
    and "ft_do_transfer (fa_locked_token_id pool) (fa_escrow_account pool) sender (fa_staking_balance i) (fa_ft w) = Inr s"
    and "fa_award (fa_staking_balance i) (fa_total_award pool) (fa_total_locked pool) = Inr award"
    and "ft_do_transfer (fa_award_token_id pool) (fa_escrow_account pool) sender award s = Inr s'"
    and "w' = fa_deposit_event (FaClaim sender p (fa_staking_balance i) award)
       (w\<lparr>fa_ft := s', fa_locked := (fa_locked w)((sender, p) \<mapsto> i\<lparr>fa_is_claimed := True\<rparr>)\<rparr>)"
  using assms
  by (auto simp: fa_claim_def result_eqs Let_def fa_on_ft_ok)

lemma fa_force_claimE:
  assumes "fa_force_claim orig a p w = Inr w'"
  obtains sender pool i s where "orig = Signed sender" and "fa_is_admin sender w"
    and "fa_pools w p = Some pool" and "fa_locked w (a, p) = Some i" and "\<not> fa_is_claimed i"
    and "ft_do_transfer (fa_locked_token_id pool) (fa_escrow_account pool) a (fa_staking_balance i) (fa_ft w) = Inr s"
    and "w' = w\<lparr>fa_ft := s, fa_locked := (fa_locked w)((a, p) := None),
          fa_pools := (fa_pools w)(p \<mapsto>
            pool\<lparr>fa_total_locked := saturating_sub (fa_total_locked pool) (fa_staking_balance i)\<rparr>)\<rparr>"
  using assms by (auto simp: fa_force_claim_def result_eqs fa_on_ft_ok)

section \<open>The invariant\<close>

lemma fa_stakes_other:
  assumes "\<And>a. fa_locked w' (a, q) = fa_locked w (a, q)"
  shows "fa_open w' q = fa_open w q" and "fa_done w' q = fa_done w q"
    and "fa_claimed_by w' q = fa_claimed_by w q"
  using assms by (auto simp: fun_eq_iff fa_open_def fa_done_def fa_claimed_by_def)

lemma fa_stakes_upd:
  assumes "fa_locked w' = (fa_locked w)((a, p) := x)"
  shows "fa_open w' p = (fa_open w p)(a := (case x of Some i \<Rightarrow> if fa_is_claimed i then 0 else fa_staking_balance i | None \<Rightarrow> 0))"
    and "fa_done w' p = (fa_done w p)(a := (case x of Some i \<Rightarrow> if fa_is_claimed i then fa_staking_balance i else 0 | None \<Rightarrow> 0))"
  using assms by (auto simp: fun_eq_iff fa_open_def fa_done_def)

lemma fa_paid_event:
  "fa_events w' = fa_events w @ [e] \<Longrightarrow>
     fa_paid w' p = fa_paid w p + (case e of FaClaim _ q _ v \<Rightarrow> (if q = p then unat v else 0) | _ \<Rightarrow> 0)"
  by (simp add: fa_paid_def)

lemma fa_paid_cong: "fa_events w' = fa_events w \<Longrightarrow> fa_paid w' p = fa_paid w p"
  by (simp add: fa_paid_def)

text \<open>A pool stays in order as long as its stakes stay and its escrow account loses nothing.\<close>

lemma fa_pool_ok_mono:
  assumes ok: "fa_pool_ok E n w q pool" and "n \<le> m"
    and locked: "\<And>a. fa_locked w' (a, q) = fa_locked w (a, q)"
    and paid: "fa_paid w' q = fa_paid w q"
    and bal: "\<And>t. ft_balances (fa_ft w) (t, fa_escrow_account pool) \<le> ft_balances (fa_ft w') (t, fa_escrow_account pool)"
  shows "fa_pool_ok E m w' q pool"
proof -
  have b: "unat (ft_balances (fa_ft w) (t, fa_escrow_account pool)) \<le> unat (ft_balances (fa_ft w') (t, fa_escrow_account pool))" for t
    using bal [of t] by (simp add: word_le_nat_alt)
  show ?thesis
    using ok \<open>n \<le> m\<close> b [of "fa_locked_token_id pool"] b [of "fa_award_token_id pool"]
    unfolding fa_pool_ok_def fa_stakes_other [of w' q w, OF locked] paid
    by (auto split: if_splits intro: order_trans)
qed

lemma fa_pool_okD:
  assumes "fa_pool_ok E n w p pool"
  shows "fa_escrow_account pool = fa_escrow_account_id E p"
    and "unat (fa_total_locked pool) = total_of (fa_open w p) + total_of (fa_done w p)"
    and "fa_paid w p * unat (fa_total_locked pool) \<le> unat (fa_total_award pool) * total_of (fa_done w p)"
    and "fa_paid w p \<le> unat (fa_total_award pool)"
  using assms unfolding fa_pool_ok_def by blast+

lemma fa_invD:
  assumes "fa_inv E n w"
  shows "fa_pools w p = Some pool \<Longrightarrow> p < fa_next_pool_id w \<and> fa_pool_ok E n w p pool"
    and "fa_pools w p = None \<Longrightarrow> (\<forall>a. fa_locked w (a, p) = None) \<and> fa_paid w p = 0"
    and "ft_protected (fa_escrows E) (fa_ft w)"
proof -
  have *: "case fa_pools w p of
            None \<Rightarrow> (\<forall>a. fa_locked w (a, p) = None) \<and> fa_paid w p = 0
          | Some pool \<Rightarrow> p < fa_next_pool_id w \<and> fa_pool_ok E n w p pool"
    using assms by (simp add: fa_inv_def)
  show "fa_pools w p = Some pool \<Longrightarrow> p < fa_next_pool_id w \<and> fa_pool_ok E n w p pool"
    and "fa_pools w p = None \<Longrightarrow> (\<forall>a. fa_locked w (a, p) = None) \<and> fa_paid w p = 0"
    using * by simp_all
  show "ft_protected (fa_escrows E) (fa_ft w)" using assms by (simp add: fa_inv_def)
qed

text \<open>
  A call touches one pool \<open>p\<close>: the others keep their stakes, and only the escrow of \<open>p\<close> and
  accounts outside the pallet lose tokens.
\<close>

lemma fa_inv_step:
  assumes inv: "fa_inv E n w" and "n \<le> m" and inj: "inj (fa_escrow_account_id E)"
    and pool: "fa_pools w' = (fa_pools w)(p \<mapsto> pool)" "p < fa_next_pool_id w'" "fa_pool_ok E m w' p pool"
    and next_id: "fa_next_pool_id w \<le> fa_next_pool_id w'"
    and locked: "\<And>q a. q \<noteq> p \<Longrightarrow> fa_locked w' (a, q) = fa_locked w (a, q)"
    and paid: "\<And>q. q \<noteq> p \<Longrightarrow> fa_paid w' q = fa_paid w q"
    and bal: "\<And>a t. a \<in> fa_escrows E \<Longrightarrow> a \<noteq> fa_escrow_account_id E p \<Longrightarrow>
      ft_balances (fa_ft w) (t, a) \<le> ft_balances (fa_ft w') (t, a)"
    and prot: "ft_protected (fa_escrows E) (fa_ft w')"
  shows "fa_inv E m w'"
  unfolding fa_inv_def
proof (intro conjI allI prot)
  fix q
  show "case fa_pools w' q of
            None \<Rightarrow> (\<forall>a. fa_locked w' (a, q) = None) \<and> fa_paid w' q = 0
          | Some pool \<Rightarrow> q < fa_next_pool_id w' \<and> fa_pool_ok E m w' q pool"
  proof (cases "q = p")
    case True
    with pool show ?thesis by simp
  next
    case False
    show ?thesis
    proof (cases "fa_pools w q")
      case None
      with False fa_invD(2) [OF inv None] show ?thesis by (simp add: pool(1) locked paid)
    next
      case (Some P)
      with fa_invD(1) [OF inv Some] have ok: "fa_pool_ok E n w q P" "q < fa_next_pool_id w" by auto
      then have esc: "fa_escrow_account P = fa_escrow_account_id E q" by (simp add: fa_pool_ok_def)
      then have "fa_escrow_account P \<noteq> fa_escrow_account_id E p" using inj False by (auto dest: injD)
      then have "fa_pool_ok E m w' q P"
        using False by (intro fa_pool_ok_mono [OF ok(1) \<open>n \<le> m\<close>] locked paid bal)
          (auto simp: esc fa_escrows_def)
      with ok(2) next_id False Some show ?thesis by (simp add: pool(1))
    qed
  qed
qed

lemma fa_create_pool_inv:
  assumes inv: "fa_inv E n w" and "n \<le> m" and inj: "inj (fa_escrow_account_id E)"
    and orig: "\<forall>a \<in> fa_escrows E. orig \<noteq> Signed a"
    and call: "fa_create_pool (E\<lparr>env_now := m\<rparr>) orig st sd ld lt at v w = Inr w'"
  shows "fa_inv E m w'"
  using call
proof (rule fa_create_poolE)
  fix sender nx s
  let ?p = "fa_next_pool_id w"
  let ?e = "fa_escrow_account_id E ?p"
  let ?pool = "\<lparr>fa_escrow_account = ?e, fa_start_at = st,
           fa_staking_duration = sd, fa_locked_duration = ld, fa_locked_token_id = lt,
           fa_award_token_id = at, fa_total_locked = 0, fa_total_award = v\<rparr>"
  assume "orig = Signed sender" and nx: "unat nx = unat ?p + 1"
    and s: "ft_do_transfer at sender (fa_escrow_account_id (E\<lparr>env_now := m\<rparr>) ?p) v (fa_ft w) = Inr s"
    and "w' = fa_deposit_event (FaPoolCreated ?p)
       (w\<lparr>fa_next_pool_id := nx, fa_ft := s, fa_pools := (fa_pools w)(?p \<mapsto>
          \<lparr>fa_escrow_account = fa_escrow_account_id (E\<lparr>env_now := m\<rparr>) ?p, fa_start_at = st,
           fa_staking_duration = sd, fa_locked_duration = ld, fa_locked_token_id = lt,
           fa_award_token_id = at, fa_total_locked = 0, fa_total_award = v\<rparr>)\<rparr>)"
  then have w': "fa_pools w' = (fa_pools w)(?p \<mapsto> ?pool)" "fa_next_pool_id w' = nx" "fa_ft w' = s"
    "fa_locked w' = fa_locked w" "fa_events w' = fa_events w @ [FaPoolCreated ?p]" by simp_all
  have none: "fa_pools w ?p = None" using fa_invD(1) [OF inv, of ?p] by (cases "fa_pools w ?p") auto
  have paid: "fa_paid w' q = fa_paid w q" for q by (simp add: fa_paid_event [OF w'(5)])
  have empty: "fa_open w' ?p = (\<lambda>_. 0)" "fa_done w' ?p = (\<lambda>_. 0)" "\<not> fa_claimed_by w' ?p a" for a
    using fa_invD(2) [OF inv none] by (auto simp: fun_eq_iff fa_open_def fa_done_def fa_claimed_by_def w')
  have tr: "unat (ft_balances s (at, ?e)) = unat (ft_balances (fa_ft w) (at, ?e)) + unat v"
    using s by (auto simp: ft_do_transfer_ok)
  show ?thesis
  proof (rule fa_inv_step [OF inv \<open>n \<le> m\<close> inj w'(1)])
    show "?p < fa_next_pool_id w'" "?p \<le> fa_next_pool_id w'"
      using nx by (simp_all add: w' word_less_nat_alt word_le_nat_alt)
    show "fa_pool_ok E m w' ?p ?pool"
      using tr fa_invD(2) [OF inv none] by (simp add: fa_pool_ok_def empty paid w')
    show "ft_balances (fa_ft w) (t, a) \<le> ft_balances (fa_ft w') (t, a)" if "a \<in> fa_escrows E" for a t
      using s that orig \<open>orig = Signed sender\<close> by (auto simp: w' ft_do_transfer_ok word_le_nat_alt)
    show "ft_protected (fa_escrows E) (fa_ft w')"
      using ft_do_transfer_protected [OF s] fa_invD(3) [OF inv] by (simp add: w')
  qed (simp_all add: w' paid)
qed

lemma fa_stake_added:
  assumes locked: "fa_locked w' = (fa_locked w)((a, p) \<mapsto> (case fa_locked w (a, p) of
        None \<Rightarrow> \<lparr>fa_staking_balance = v, fa_is_claimed = False\<rparr>
      | Some i \<Rightarrow> i\<lparr>fa_staking_balance := saturating_add (fa_staking_balance i) v\<rparr>))"
    and fresh: "\<And>b. \<not> fa_claimed_by w p b" and room: "total_of (fa_open w p) + unat v < 2 ^ 128"
  shows "total_of (fa_open w' p) = total_of (fa_open w p) + unat v" and "fa_done w' p = (\<lambda>_. 0)"
    and "\<not> fa_claimed_by w' p b"
proof -
  obtain info where info: "info = (case fa_locked w (a, p) of
        None \<Rightarrow> \<lparr>fa_staking_balance = v, fa_is_claimed = False\<rparr>
      | Some i \<Rightarrow> i\<lparr>fa_staking_balance := saturating_add (fa_staking_balance i) v\<rparr>)" by blast
  note locked = locked [folded info]
  have nodone: "fa_done w p = (\<lambda>_. 0)" and unclaimed: "fa_locked w (a, p) = Some i \<Longrightarrow> \<not> fa_is_claimed i" for i
    using fresh by (auto simp: fun_eq_iff fa_done_def fa_claimed_by_def split: option.splits)
  have st: "\<not> fa_is_claimed info" "unat (fa_staking_balance info) = unat (fa_open w p a) + unat v"
    using room total_of_ge [of "fa_open w p" a] unclaimed
    by (auto simp: info fa_open_def unat_saturating_add split: option.splits)
  have "total_of (fa_open w' p) + unat (fa_open w p a) = total_of (fa_open w p) + unat (fa_staking_balance info)"
    using total_of_upd [of "fa_open w p" a "fa_staking_balance info"] st(1)
    by (simp add: fa_stakes_upd(1) [OF locked])
  with st(2) show "total_of (fa_open w' p) = total_of (fa_open w p) + unat v" by simp
  show "fa_done w' p = (\<lambda>_. 0)" using st(1) by (simp add: fa_stakes_upd(2) [OF locked] nodone fun_eq_iff)
  show "\<not> fa_claimed_by w' p b" using fresh [of b] st(1) by (auto simp: fa_claimed_by_def locked)
qed

lemma fa_staking_inv:
  assumes inv: "fa_inv E n w" and "n \<le> m" and inj: "inj (fa_escrow_account_id E)"
    and orig: "\<forall>a \<in> fa_escrows E. orig \<noteq> Signed a"
    and call: "fa_staking (E\<lparr>env_now := m\<rparr>) orig p v w = Inr w'"
  shows "fa_inv E m w'"
  using call
proof (rule fa_stakingE)
  fix a :: account and pool :: fa_pool and s info
  let ?e = "fa_escrow_account pool" and ?t = "fa_locked_token_id pool"
  let ?pool = "pool\<lparr>fa_total_locked := saturating_add (fa_total_locked pool) v\<rparr>"
  assume a: "orig = Signed a" and pool: "fa_pools w p = Some pool"
    and status: "fa_pool_status (env_now (E\<lparr>env_now := m\<rparr>)) pool = FaStakingStatus"
    and s: "ft_do_transfer ?t a ?e v (fa_ft w) = Inr s"
    and info: "info = (case fa_locked w (a, p) of
                   None \<Rightarrow> \<lparr>fa_staking_balance = v, fa_is_claimed = False\<rparr>
                 | Some i \<Rightarrow> i\<lparr>fa_staking_balance := saturating_add (fa_staking_balance i) v\<rparr>)"
    and "w' = fa_deposit_event (FaStaking a p v)
       (w\<lparr>fa_ft := s, fa_locked := (fa_locked w)((a, p) \<mapsto> info), fa_pools := (fa_pools w)(p \<mapsto> ?pool)\<rparr>)"
  then have w': "fa_pools w' = (fa_pools w)(p \<mapsto> ?pool)" "fa_next_pool_id w' = fa_next_pool_id w"
    "fa_ft w' = s" "fa_locked w' = (fa_locked w)((a, p) \<mapsto> info)"
    "fa_events w' = fa_events w @ [FaStaking a p v]" by simp_all
  from fa_invD(1) [OF inv pool] have lt: "p < fa_next_pool_id w" and ok: "fa_pool_ok E n w p pool" by auto
  from ok status \<open>n \<le> m\<close> have fresh: "\<not> fa_claimed_by w p b" "fa_paid w p = 0" for b
    by (auto simp: fa_pool_ok_def fa_pool_status_staking)
  then have nodone: "fa_done w p = (\<lambda>_. 0)"
    by (auto simp: fun_eq_iff fa_done_def fa_claimed_by_def split: option.splits)
  have bal: "unat (ft_balances s (?t, ?e)) = unat (ft_balances (fa_ft w) (?t, ?e)) + unat v"
    and others: "b \<noteq> a \<Longrightarrow> unat (ft_balances (fa_ft w) (u, b)) \<le> unat (ft_balances s (u, b))" for u b
    using s by (auto simp: ft_do_transfer_ok)
  have open_le: "total_of (fa_open w p) \<le> unat (ft_balances (fa_ft w) (?t, ?e))"
    using ok by (auto simp: fa_pool_ok_def fresh split: if_splits)
  then have room: "total_of (fa_open w p) + unat v < 2 ^ 128"
    using bal u128_bound [of "ft_balances s (?t, ?e)"] by simp
  have tot: "unat (fa_total_locked pool) = total_of (fa_open w p)"
    using ok by (simp add: fa_pool_ok_def nodone)
  note new = fa_stake_added [OF w'(4) [unfolded info] fresh(1) room]
  have paid: "fa_paid w' q = fa_paid w q" for q by (simp add: fa_paid_event [OF w'(5)])
  show ?thesis
  proof (rule fa_inv_step [OF inv \<open>n \<le> m\<close> inj w'(1)])
    show "fa_pool_ok E m w' p ?pool"
      using ok bal room others [of ?e "fa_award_token_id pool"] s
      by (auto simp: fa_pool_ok_def new paid fresh tot w' unat_saturating_add nodone
          ft_do_transfer_ok split: if_splits)
    show "ft_balances (fa_ft w) (u, b) \<le> ft_balances (fa_ft w') (u, b)" if "b \<in> fa_escrows E" for b u
      using others [of b u] that orig a by (auto simp: w' word_le_nat_alt)
    show "ft_protected (fa_escrows E) (fa_ft w')"
      using ft_do_transfer_protected [OF s] fa_invD(3) [OF inv] by (simp add: w')
  qed (simp_all add: w' paid lt)
qed

lemma fa_award_le:
  assumes "fa_award b W T = Inr v"
  shows "unat T \<noteq> 0" and "unat v * unat T \<le> unat W * unat b"
proof -
  from assms have T: "T \<noteq> 0" and v: "v = b * W div T" by (auto simp: fa_award_def split: if_splits)
  from T show "unat T \<noteq> 0" by (simp add: unat_eq_zero)
  have "unat v * unat T \<le> unat (b * W)" by (simp add: v unat_div div_times_less_eq_dividend)
  also have "\<dots> \<le> unat W * unat b" by (simp add: unat_word_ariths mult.commute)
  finally show "unat v * unat T \<le> unat W * unat b" .
qed

text \<open>The arithmetic of a claim: the share stays within the award.\<close>

lemma fa_share_step:
  fixes paid v T W K b :: nat
  assumes "paid * T \<le> W * K" and "v * T \<le> W * b" and "K + b \<le> T" and "T \<noteq> 0"
  shows "(paid + v) * T \<le> W * (K + b)" and "paid + v \<le> W"
proof -
  show le: "(paid + v) * T \<le> W * (K + b)" using assms(1,2) by (simp add: distrib_left distrib_right)
  also have "\<dots> \<le> W * T" using assms(3) by (rule mult_left_mono) simp
  finally show "paid + v \<le> W" using assms(4) by simp
qed

text \<open>Two transfers out of one account, of the same token or of two.\<close>

lemma ft_two_transfers:
  assumes "ft_do_transfer t e a v s = Inr s1" and "ft_do_transfer u e a x s1 = Inr s2"
  shows "unat (ft_balances s (t, e)) = unat (ft_balances s2 (t, e)) + unat v + (if t = u then unat x else 0)"
    and "t \<noteq> u \<Longrightarrow> unat (ft_balances s (u, e)) = unat (ft_balances s2 (u, e)) + unat x"
    and "b \<noteq> e \<Longrightarrow> ft_balances s (i, b) \<le> ft_balances s2 (i, b)"
    and "ft_protected A s2 \<longleftrightarrow> ft_protected A s"
proof -
  note f = ftl.move_from [OF assms(1)] ftl.move_from [OF assms(2)]
  show "unat (ft_balances s (t, e)) = unat (ft_balances s2 (t, e)) + unat v + (if t = u then unat x else 0)"
    using f ftl.move_frame [OF assms(2), of t e] by (cases "t = u") auto
  show "unat (ft_balances s (u, e)) = unat (ft_balances s2 (u, e)) + unat x" if "t \<noteq> u"
    using f ftl.move_frame [OF assms(1), of u e] that by auto
  show "ft_balances s (i, b) \<le> ft_balances s2 (i, b)" if "b \<noteq> e"
    using ftl.move_other [OF assms(1) that, of i] ftl.move_other [OF assms(2) that, of i]
    by (simp add: word_le_nat_alt)
  show "ft_protected A s2 \<longleftrightarrow> ft_protected A s"
    using ft_do_transfer_protected [OF assms(1)] ft_do_transfer_protected [OF assms(2)] by simp
qed

lemma fa_claim_inv:
  assumes inv: "fa_inv E n w" and "n \<le> m" and inj: "inj (fa_escrow_account_id E)"
    and call: "fa_claim (E\<lparr>env_now := m\<rparr>) orig p w = Inr w'"
  shows "fa_inv E m w'"
  using call
proof (rule fa_claimE)
  fix a :: account and pool :: fa_pool and i :: fa_staking_info and s award s'
  let ?e = "fa_escrow_account pool" and ?b = "fa_staking_balance i"
  assume pool: "fa_pools w p = Some pool"
    and status: "fa_pool_status (env_now (E\<lparr>env_now := m\<rparr>)) pool = FaClaimStatus"
    and i: "fa_locked w (a, p) = Some i" "\<not> fa_is_claimed i"
    and s: "ft_do_transfer (fa_locked_token_id pool) ?e a ?b (fa_ft w) = Inr s"
    and award: "fa_award ?b (fa_total_award pool) (fa_total_locked pool) = Inr award"
    and s': "ft_do_transfer (fa_award_token_id pool) ?e a award s = Inr s'"
    and "w' = fa_deposit_event (FaClaim a p ?b award)
       (w\<lparr>fa_ft := s', fa_locked := (fa_locked w)((a, p) \<mapsto> i\<lparr>fa_is_claimed := True\<rparr>)\<rparr>)"
  then have w': "fa_pools w' = fa_pools w" "fa_next_pool_id w' = fa_next_pool_id w" "fa_ft w' = s'"
    "fa_locked w' = (fa_locked w)((a, p) \<mapsto> i\<lparr>fa_is_claimed := True\<rparr>)"
    "fa_events w' = fa_events w @ [FaClaim a p ?b award]" by simp_all
  from fa_invD(1) [OF inv pool] have lt: "p < fa_next_pool_id w" and ok: "fa_pool_ok E n w p pool" by auto
  have paid: "fa_paid w' q = fa_paid w q + (if q = p then unat award else 0)" for q
    by (simp add: fa_paid_event [OF w'(5)])
  have here: "fa_open w p a = ?b" "fa_done w p a = 0" using i by (simp_all add: fa_open_def fa_done_def)
  have open': "total_of (fa_open w' p) + unat ?b = total_of (fa_open w p)"
    using total_of_upd [of "fa_open w p" a 0] here by (simp add: fa_stakes_upd(1) [OF w'(4)])
  have done': "total_of (fa_done w' p) = total_of (fa_done w p) + unat ?b"
    using total_of_upd [of "fa_done w p" a ?b] here by (simp add: fa_stakes_upd(2) [OF w'(4)])
  have share: "(fa_paid w p + unat award) * unat (fa_total_locked pool)
      \<le> unat (fa_total_award pool) * (total_of (fa_done w p) + unat ?b)"
    "fa_paid w p + unat award \<le> unat (fa_total_award pool)"
    using fa_share_step [OF fa_pool_okD(3) [OF ok] fa_award_le(2) [OF award] _ fa_award_le(1) [OF award]]
      fa_pool_okD(2) [OF ok] open' by simp_all
  have ok': "fa_pool_ok E m w' p pool"
    using ok share open' ft_two_transfers(1,2) [OF s s'] fa_pool_status_claim [of m pool] status
    by (auto simp: fa_pool_ok_def paid done' w'(3) split: if_splits)
  show ?thesis
  proof (rule fa_inv_step [OF inv \<open>n \<le> m\<close> inj _ _ ok'])
    show "fa_pools w' = (fa_pools w)(p \<mapsto> pool)" using pool by (auto simp: w' fun_eq_iff)
    show "ft_balances (fa_ft w) (u, b) \<le> ft_balances (fa_ft w') (u, b)"
      if "b \<noteq> fa_escrow_account_id E p" for b u
      using ft_two_transfers(3) [OF s s', of b u] ok that by (simp add: w' fa_pool_ok_def)
    show "ft_protected (fa_escrows E) (fa_ft w')"
      using ft_two_transfers(4) [OF s s'] fa_invD(3) [OF inv] by (simp add: w')
  qed (simp_all add: w' paid lt)
qed

lemma fa_force_claim_inv:
  assumes inv: "fa_inv E n w" and "n \<le> m" and inj: "inj (fa_escrow_account_id E)"
    and call: "fa_force_claim orig a p w = Inr w'"
  shows "fa_inv E m w'"
  using call
proof (rule fa_force_claimE)
  fix sender and pool :: fa_pool and i :: fa_staking_info and s
  let ?e = "fa_escrow_account pool" and ?b = "fa_staking_balance i"
  let ?pool = "pool\<lparr>fa_total_locked := saturating_sub (fa_total_locked pool) ?b\<rparr>"
  assume pool: "fa_pools w p = Some pool" and i: "fa_locked w (a, p) = Some i" "\<not> fa_is_claimed i"
    and s: "ft_do_transfer (fa_locked_token_id pool) ?e a ?b (fa_ft w) = Inr s"
    and "w' = w\<lparr>fa_ft := s, fa_locked := (fa_locked w)((a, p) := None), fa_pools := (fa_pools w)(p \<mapsto> ?pool)\<rparr>"
  then have w': "fa_pools w' = (fa_pools w)(p \<mapsto> ?pool)" "fa_next_pool_id w' = fa_next_pool_id w"
    "fa_ft w' = s" "fa_locked w' = (fa_locked w)((a, p) := None)" "fa_events w' = fa_events w" by simp_all
  from fa_invD(1) [OF inv pool] have lt: "p < fa_next_pool_id w" and ok: "fa_pool_ok E n w p pool" by auto
  have paid: "fa_paid w' q = fa_paid w q" for q by (rule fa_paid_cong [OF w'(5)])
  have here: "fa_open w p a = ?b" "fa_done w p a = 0" using i by (simp_all add: fa_open_def fa_done_def)
  have open': "total_of (fa_open w p) = total_of (fa_open w' p) + unat ?b"
    using total_of_upd [of "fa_open w p" a 0] here by (simp add: fa_stakes_upd(1) [OF w'(4)])
  have done': "fa_done w' p = fa_done w p" using here by (simp add: fa_stakes_upd(2) [OF w'(4)] fun_eq_iff)
  have claimed': "fa_claimed_by w' p = fa_claimed_by w p"
    using i by (auto simp: fun_eq_iff fa_claimed_by_def w')
  have tot: "unat (fa_total_locked ?pool) = total_of (fa_open w' p) + total_of (fa_done w p)"
    using fa_pool_okD(2) [OF ok] open' by (simp add: unat_saturating_sub)
  have "fa_paid w p * (total_of (fa_open w' p) + total_of (fa_done w p))
      \<le> fa_paid w p * unat (fa_total_locked pool)"
    using fa_pool_okD(2) [OF ok] open' by (intro mult_left_mono) auto
  also have "\<dots> \<le> unat (fa_total_award pool) * total_of (fa_done w p)"
    by (rule fa_pool_okD(3) [OF ok])
  finally have share: "fa_paid w p * (total_of (fa_open w' p) + total_of (fa_done w p))
      \<le> unat (fa_total_award pool) * total_of (fa_done w p)" .
  note tr = ftl.move_from [OF s] ftl.move_frame [OF s, of "fa_award_token_id pool" ?e]
  have ok': "fa_pool_ok E m w' p ?pool"
    using ok share open' tr \<open>n \<le> m\<close> unfolding fa_pool_ok_def tot paid done' claimed' w'(3)
    by (auto split: if_splits intro: order_trans)
  show ?thesis
  proof (rule fa_inv_step [OF inv \<open>n \<le> m\<close> inj w'(1) _ ok'])
    show "ft_balances (fa_ft w) (u, b) \<le> ft_balances (fa_ft w') (u, b)"
      if "b \<noteq> fa_escrow_account_id E p" for b u
      using ftl.move_other [OF s, of b u] ok that by (simp add: w' fa_pool_ok_def word_le_nat_alt)
    show "ft_protected (fa_escrows E) (fa_ft w')"
      using ft_do_transfer_protected [OF s] fa_invD(3) [OF inv] by (simp add: w')
  qed (simp_all add: w' paid lt)
qed

lemma fa_inv_keep:
  assumes inv: "fa_inv E n w" and ok: "\<And>q pool. fa_pool_ok E n w q pool \<Longrightarrow> fa_pool_ok E m w' q pool"
    and same: "fa_pools w' = fa_pools w" "fa_locked w' = fa_locked w" "fa_events w' = fa_events w"
      "fa_next_pool_id w' = fa_next_pool_id w"
    and prot: "ft_protected (fa_escrows E) (fa_ft w')"
  shows "fa_inv E m w'"
  unfolding fa_inv_def
proof (intro conjI allI prot)
  fix q
  show "case fa_pools w' q of
            None \<Rightarrow> (\<forall>a. fa_locked w' (a, q) = None) \<and> fa_paid w' q = 0
          | Some pool \<Rightarrow> q < fa_next_pool_id w' \<and> fa_pool_ok E m w' q pool"
    using fa_invD(1,2) [OF inv, of q] ok fa_paid_cong [OF same(3)]
    by (cases "fa_pools w q") (simp_all add: same)
qed

lemma fa_call_inv:
  assumes inv: "fa_inv E n w" and "n \<le> m" and inj: "inj (fa_escrow_account_id E)"
    and orig: "\<forall>a \<in> fa_escrows E. orig \<noteq> Signed a"
    and call: "fa_call_dispatch (E\<lparr>env_now := m\<rparr>) orig c w = Inr w'"
  shows "fa_inv E m w'"
proof (cases c)
  case (FaSetAdmin a)
  with call have w': "w' = w\<lparr>fa_admin := Some a\<rparr>" by (auto simp: fa_set_admin_def result_eqs)
  have "fa_pool_ok E m w' q pool" if "fa_pool_ok E n w q pool" for q pool
    using that by (rule fa_pool_ok_mono [OF _ \<open>n \<le> m\<close>]) (simp_all add: w' fa_paid_def)
  then show ?thesis by (rule fa_inv_keep [OF inv]) (simp_all add: w' fa_invD(3) [OF inv])
qed (use call orig in \<open>auto intro: fa_create_pool_inv [OF inv \<open>n \<le> m\<close> inj]
    fa_staking_inv [OF inv \<open>n \<le> m\<close> inj] fa_claim_inv [OF inv \<open>n \<le> m\<close> inj]
    fa_force_claim_inv [OF inv \<open>n \<le> m\<close> inj]\<close>)

lemma fa_token_inv:
  assumes inv: "fa_inv E n w" and orig: "\<forall>a \<in> fa_escrows E. orig \<noteq> Signed a"
    and call: "fa_on_ft (ft_dispatch (orig, c)) w = Inr w'"
  shows "fa_inv E n w'"
proof -
  from call obtain s where s: "ft_dispatch (orig, c) (fa_ft w) = Inr s" and w': "w' = w\<lparr>fa_ft := s\<rparr>"
    by (auto simp: fa_on_ft_ok)
  note prot = ft_dispatch_protected [OF s fa_invD(3) [OF inv] orig]
  have "fa_pool_ok E n w' q pool" if "fa_pool_ok E n w q pool" for q pool
    using that by (rule fa_pool_ok_mono)
      (use prot(2) fa_pool_okD(1) [OF that] in \<open>simp_all add: w' fa_paid_def fa_escrows_def\<close>)
  then show ?thesis by (rule fa_inv_keep [OF inv]) (simp_all add: w' prot(1))
qed

lemma fa_reach_inv:
  assumes "fa_reach E w0 n w" and "fa_inv E 0 w0" and "inj (fa_escrow_account_id E)"
  shows "fa_inv E n w"
  using assms by (induction rule: fa_reach.induct) (blast intro: fa_call_inv fa_token_inv)+

section \<open>Properties\<close>

text \<open>
  C16: Farming alone is solvent. Whatever calls of the farming and the fungible token pallet are made, in
  whatever order, and no others, the escrow account of a pool holds all stakes that are still to be claimed and
  what is left of the award, and the awards paid never exceed the award of the pool. The product in
  the computation of an award may wrap; that only makes awards smaller. Calls of the launchpad, whose
  pools have the same escrow accounts, are excluded: its owners can empty them.
\<close>

theorem fa_solvent:
  assumes "fa_reach E w0 n w" and "fa_inv E 0 w0" and "inj (fa_escrow_account_id E)"
    and "fa_pools w p = Some pool"
  shows "total_of (fa_open w p)
      \<le> unat (ft_balance_of (fa_locked_token_id pool) (fa_escrow_account_id E p) (fa_ft w))
    \<and> unat (fa_total_award pool) - fa_paid w p
      \<le> unat (ft_balance_of (fa_award_token_id pool) (fa_escrow_account_id E p) (fa_ft w))
    \<and> fa_paid w p \<le> unat (fa_total_award pool)"
proof -
  from fa_invD(1) [OF fa_reach_inv [OF assms(1-3)] assms(4)] have ok: "fa_pool_ok E n w p pool" by simp
  then show ?thesis
    using fa_pool_okD(1,4) [OF ok] by (auto simp: fa_pool_ok_def ft_balance_of_def split: if_splits)
qed

lemma ft_do_transfer_room:
  assumes "a \<noteq> b" and "unat v \<le> unat (ft_balances s (t, a))" and "ft_sum s t < 2 ^ 128"
  shows "\<exists>s'. ft_do_transfer t a b v s = Inr s'"
  using ftl.move_progress [OF assms(1,2)] ft_balance_le_sum2 [OF assms(1), of s t] assms by fastforce

text \<open>
  C17: Stakers can claim, as long as only calls of the farming and the fungible token pallet have been
  made. Once the claim period has come, a claim of an account other than the escrow with an unclaimed
  stake goes through, returns at least the stake and is recorded, provided the recorded total stake of the
  pool is not zero and the units in existence of each token fit into 128 bits (which the supply of a
  token guarantees until it saturates). The launchpad, which shares the escrow accounts, can break this.
\<close>

theorem fa_claim_live:
  assumes reach: "fa_reach E w0 n w" "fa_inv E 0 w0" "inj (fa_escrow_account_id E)"
    and pool: "fa_pools w p = Some pool" and stake: "fa_locked w (a, p) = Some i" "\<not> fa_is_claimed i"
    and "fa_total_locked pool \<noteq> 0" and a: "a \<noteq> fa_escrow_account_id E p"
    and status: "fa_pool_status (env_now E) pool = FaClaimStatus"
    and sums: "\<And>t. ft_sum (fa_ft w) t < 2 ^ 128"
  shows "\<exists>w'. fa_claim E (Signed a) p w = Inr w' \<and> fa_claimed_by w' p a \<and>
    unat (ft_balance_of (fa_locked_token_id pool) a (fa_ft w)) + unat (fa_staking_balance i)
      \<le> unat (ft_balance_of (fa_locked_token_id pool) a (fa_ft w'))"
proof -
  from fa_invD(1) [OF fa_reach_inv [OF reach] pool] have ok: "fa_pool_ok E n w p pool" by simp
  note esc = fa_pool_okD(1) [OF ok]
  let ?e = "fa_escrow_account_id E p" and ?b = "fa_staking_balance i"
  from \<open>fa_total_locked pool \<noteq> 0\<close> obtain award where
    award: "fa_award ?b (fa_total_award pool) (fa_total_locked pool) = Inr award"
    by (simp add: fa_award_def)
  have open_a: "unat ?b \<le> total_of (fa_open w p)"
    using total_of_ge [of "fa_open w p" a] stake by (simp add: fa_open_def)
  then have "unat ?b \<le> unat (ft_balances (fa_ft w) (fa_locked_token_id pool, ?e))"
    using ok fa_pool_okD(4) [OF ok] by (auto simp: fa_pool_ok_def split: if_splits)
  from ft_do_transfer_room [OF a [symmetric] this sums]
  obtain s where s: "ft_do_transfer (fa_locked_token_id pool) ?e a ?b (fa_ft w) = Inr s" by blast
  have "fa_paid w p + unat award \<le> unat (fa_total_award pool)"
    using fa_share_step(2) [OF fa_pool_okD(3) [OF ok] fa_award_le(2) [OF award] _ fa_award_le(1) [OF award]]
      fa_pool_okD(2) [OF ok] open_a by simp
  then have "unat award \<le> unat (ft_balances s (fa_award_token_id pool, ?e))"
    using ok esc open_a ftl.move_from [OF s] ftl.move_frame [OF s, of "fa_award_token_id pool" ?e]
    by (auto simp: fa_pool_ok_def split: if_splits)
  moreover have "ft_sum s (fa_award_token_id pool) < 2 ^ 128"
    using ft_do_transfer_frame [OF s] sums by simp
  ultimately obtain s' where s': "ft_do_transfer (fa_award_token_id pool) ?e a award s = Inr s'"
    using ft_do_transfer_room [OF a [symmetric]] by blast
  have "unat (ft_balances (fa_ft w) (fa_locked_token_id pool, a)) + unat ?b
      \<le> unat (ft_balances s' (fa_locked_token_id pool, a))"
    using ftl.move_to [OF s] ftl.move_other [OF s' a, of "fa_locked_token_id pool"] by simp
  with pool stake status s award s' show ?thesis
    by (simp add: fa_claim_def fa_on_ft_def focus_def esc fa_claimed_by_def ft_balance_of_def)
qed

text \<open>
  No stake is claimed twice: after a successful claim, the same account's next claim on the pool
  fails.
\<close>

theorem fa_claim_once:
  assumes "fa_claim E (Signed a) p w = Inr w'"
  shows "\<exists>e. fa_claim E' (Signed a) p w' = Inl e"
proof -
  from assms obtain i where "fa_locked w' (a, p) = Some i" "fa_is_claimed i"
    by (rule fa_claimE) auto
  then have "fa_claim E' (Signed a) p w' \<noteq> Inr x" for x
    by (auto simp: fa_claim_def result_eqs)
  then show ?thesis by (cases "fa_claim E' (Signed a) p w'") auto
qed

text \<open>
  The award is computed with a product that wraps at 128 bits: the only staker of a pool, with
  1000 tokens of 18 decimals staked and 1000 such tokens as the award, is owed all of it and gets
  about 0.25 tokens.
\<close>

theorem fa_award_wraps:
  "fa_award (10 ^ 21) (10 ^ 21) (10 ^ 21) = Inr 250405986282794344"
proof -
  have "(10 ^ 21 * 10 ^ 21 div 10 ^ 21 :: u128) = 250405986282794344"
    by (rule word_eq_unatI) (simp add: unat_div)
  moreover have "(10 ^ 21 :: u128) \<noteq> 0" by simp
  ultimately show ?thesis by (simp only: fa_award_def if_False)
qed

section \<open>Concrete instances\<close>

lemma fa_example_env:
  shows "inj (fa_escrow_account_id env_example)"
    and "a < 2000 \<Longrightarrow> a \<notin> fa_escrows env_example"
proof -
  have e: "unat (fa_escrow_account_id env_example p) = 2000 + unat p" for p
    using sub_account_example [of FarmingPalletId "ucast p"] unat_bound [of p]
    by (simp add: fa_escrow_account_id_def unsigned_ucast_eq take_bit_nat_eq_self)
  show "inj (fa_escrow_account_id env_example)"
    by (rule injI) (metis e add_left_cancel word_eq_unatI)
  show "a < 2000 \<Longrightarrow> a \<notin> fa_escrows env_example"
    by (auto simp: fa_escrows_def word_less_nat_alt e)
qed

lemma fa_example_inv: "fa_inv env_example 0 fa_example"
  by (simp add: fa_inv_def fa_example_def fa_paid_def ft_protected_def)

lemmas fa_eval =
  fa_create_pool_def fa_staking_def fa_is_admin_def fa_on_ft_def focus_def fa_escrow_account_id_def
  env_example_def ft_do_transfer_def ft_internal_transfer_def ft_decrease_balance_def
  ft_increase_balance_def checked_add_def checked_sub_def fa_deposit_event_def ft_deposit_event_def
  fa_pool_status_def fa_staking_end_def saturating_add_def ok_or_def ensure_def

lemma fa_call_sum:
  assumes "fa_call_dispatch E orig c w = Inr w'"
  shows "ft_sum (fa_ft w') t = ft_sum (fa_ft w) t"
proof (cases c)
  case (FaForceClaim a p)
  with assms have "fa_force_claim orig a p w = Inr w'" by simp
  then show ?thesis by (rule fa_force_claimE) (simp add: ft_do_transfer_frame)
next
  case (FaClaimCall p)
  with assms have "fa_claim E orig p w = Inr w'" by simp
  then show ?thesis by (rule fa_claimE) (simp add: ft_do_transfer_frame)
next
  case (FaStakingCall p v)
  with assms have "fa_staking E orig p v w = Inr w'" by simp
  then show ?thesis by (rule fa_stakingE) (simp add: ft_do_transfer_frame)
next
  case (FaCreatePool st sd ld lt at v)
  with assms have "fa_create_pool E orig st sd ld lt at v w = Inr w'" by simp
  then show ?thesis by (rule fa_create_poolE) (simp add: ft_do_transfer_frame)
next
  case (FaSetAdmin a)
  with assms show ?thesis by (auto simp: fa_set_admin_def result_eqs)
qed

lemma fa_example_run:
  "\<exists>w pool i. fa_reach env_example fa_example 5 w \<and> fa_pools w 0 = Some pool \<and> fa_locked w (2, 0) = Some i
     \<and> \<not> fa_is_claimed i \<and> fa_total_locked pool \<noteq> 0
     \<and> fa_pool_status (env_now env_example) pool = FaClaimStatus \<and> fa_total_award pool = 1000
     \<and> (\<forall>t. ft_sum (fa_ft w) t = ft_sum (fa_ft fa_example) t)"
proof -
  have users: "\<forall>a \<in> fa_escrows env_example. Signed 1 \<noteq> Signed a" "\<forall>a \<in> fa_escrows env_example. Signed 2 \<noteq> Signed a"
    using fa_example_env(2) [of 1] fa_example_env(2) [of 2] by auto
  obtain w1 where w1: "fa_create_pool (env_example\<lparr>env_now := 1\<rparr>) (Signed 1) 1 10 10 7 5 1000 fa_example = Inr w1"
    by (simp add: fa_eval fa_example_def)
  have c1: "fa_call_dispatch (env_example\<lparr>env_now := 1\<rparr>) (Signed 1) (FaCreatePool 1 10 10 7 5 1000) fa_example = Inr w1"
    using w1 by simp
  have r1: "fa_reach env_example fa_example 1 w1"
    by (rule fa_reach.farming [OF fa_reach.start _ users(1) c1]) simp
  obtain w pool i where w: "fa_staking (env_example\<lparr>env_now := 5\<rparr>) (Signed 2) 0 60 w1 = Inr w"
      "fa_pools w 0 = Some pool" "fa_locked w (2, 0) = Some i" "\<not> fa_is_claimed i"
      "fa_total_locked pool \<noteq> 0" "fa_pool_status (env_now env_example) pool = FaClaimStatus"
      "fa_total_award pool = 1000"
    using w1 by (auto simp: fa_eval fa_example_def)
  have c2: "fa_call_dispatch (env_example\<lparr>env_now := 5\<rparr>) (Signed 2) (FaStakingCall 0 60) w1 = Inr w"
    using w(1) by simp
  have "fa_reach env_example fa_example 5 w"
    by (rule fa_reach.farming [OF r1 _ users(2) c2]) simp
  with w show ?thesis using fa_call_sum [OF c1] fa_call_sum [OF c2] by auto
qed

lemma fa_example_sum: "ft_sum (fa_ft fa_example) t < 2 ^ 128"
proof -
  consider "t = 5" | "t = 7" | "t \<noteq> 5" "t \<noteq> 7" by blast
  then show ?thesis
  proof cases
    case 1
    then have "(\<lambda>a. ft_balances (fa_ft fa_example) (t, a)) = (\<lambda>_. 0)(1 := 1000)"
      by (simp add: fun_eq_iff fa_example_def)
    then show ?thesis unfolding ft_sum_def by (simp only: total_of_single) simp
  next
    case 2
    then have "(\<lambda>a. ft_balances (fa_ft fa_example) (t, a)) = (\<lambda>_. 0)(2 := 100)"
      by (simp add: fun_eq_iff fa_example_def)
    then show ?thesis unfolding ft_sum_def by (simp only: total_of_single) simp
  next
    case 3
    then show ?thesis by (simp add: ft_sum_def fa_example_def)
  qed
qed

theorem fa_solvent_witness:
  "\<exists>w pool. fa_reach env_example fa_example 5 w \<and> fa_pools w 0 = Some pool
     \<and> total_of (fa_open w 0) \<le> unat (ft_balance_of (fa_locked_token_id pool) (fa_escrow_account_id env_example 0) (fa_ft w))
     \<and> fa_paid w 0 \<le> 1000"
proof -
  from fa_example_run obtain w pool where w: "fa_reach env_example fa_example 5 w" "fa_pools w 0 = Some pool"
    "fa_total_award pool = 1000" by blast
  from fa_solvent [OF w(1) fa_example_inv fa_example_env(1) w(2)] w show ?thesis by auto
qed

theorem fa_claim_live_witness:
  "\<exists>w w'. fa_reach env_example fa_example 5 w \<and> fa_claim env_example (Signed 2) 0 w = Inr w' \<and> fa_claimed_by w' 0 2"
proof -
  from fa_example_run obtain w pool i where w: "fa_reach env_example fa_example 5 w" "fa_pools w 0 = Some pool"
    "fa_locked w (2, 0) = Some i" "\<not> fa_is_claimed i" "fa_total_locked pool \<noteq> 0"
    "fa_pool_status (env_now env_example) pool = FaClaimStatus"
    "\<And>t. ft_sum (fa_ft w) t = ft_sum (fa_ft fa_example) t" by blast
  have "2 \<noteq> fa_escrow_account_id env_example 0"
    using fa_example_env(2) [of 2] by (auto simp: fa_escrows_def)
  from fa_claim_live [OF w(1) fa_example_inv fa_example_env(1) w(2-5) this w(6)] w(1,7) fa_example_sum
  show ?thesis by auto
qed

definition fa_claim_example :: fa_world where
  "fa_claim_example = fa_example\<lparr>
     fa_ft := \<lparr>ft_tokens = Map.empty, ft_balances = (\<lambda>_. 0)((5, 2000) := 1000, (7, 2000) := 60),
        ft_allowances = (\<lambda>_. 0), ft_events = []\<rparr>,
     fa_pools := [0 \<mapsto> \<lparr>fa_escrow_account = 2000, fa_start_at = 1, fa_staking_duration = 10,
        fa_locked_duration = 10, fa_locked_token_id = 7, fa_award_token_id = 5, fa_total_locked = 60,
        fa_total_award = 1000\<rparr>],
     fa_locked := [(2, 0) \<mapsto> \<lparr>fa_staking_balance = 60, fa_is_claimed = False\<rparr>]\<rparr>"

theorem fa_claim_once_witness:
  "\<exists>w' e. fa_claim env_example (Signed 2) 0 fa_claim_example = Inr w' \<and> fa_claim env_example (Signed 2) 0 w' = Inl e"
proof -
  have "\<exists>w'. fa_claim env_example (Signed 2) 0 fa_claim_example = Inr w'"
    by (simp add: fa_eval fa_claim_def fa_claim_example_def fa_example_def fa_award_def)
  then show ?thesis using fa_claim_once by blast
qed

end
