(* ===== verification/Launchpad.thy ===== *)
theory Launchpad
  imports Farming
begin

text \<open>
  The launchpad pallet (\<open>pallets/launchpad\<close>): the owner of a pool deposits the tokens for sale in
  an escrow account, users buy during the sale, and after it the buyers claim what they bought and
  the owner claims the proceeds and what was not sold.
\<close>

section \<open>Storage, events and calls\<close>

record lp_pool =
  lp_owner :: account
  lp_escrow_account :: account
  lp_sale_start :: u32
  lp_sale_end :: u32
  lp_sale_token_id :: u128
  lp_buy_token_id :: u128
  lp_token_price :: u128
  lp_total_sale_amount :: u128
  lp_raise_amount :: u128

record lp_claim_info =
  lp_balance :: u128
  lp_is_claimed :: bool

datatype lp_event =
    LpPoolCreated u64
  | LpBuyToken account u64 u128
  | LpClaim account u64 u128
  | LpOwnerClaim account u64 u128 u128

record lp_world =
  lp_ft :: ft_storage
  lp_next_pool_id :: u64
  lp_pools :: "u64 \<rightharpoonup> lp_pool"
  lp_locked :: "account \<times> u64 \<rightharpoonup> lp_claim_info"
  lp_events :: "lp_event list"

datatype lp_call =
    LpCreatePool u32 u32 u128 u128 u128 u128
  | LpBuyTokenCall u64 u128
  | LpClaimCall u64
  | LpOwnerClaimCall u64

section \<open>Operations\<close>

definition lp_on_ft :: "(ft_storage \<Rightarrow> ft_storage dispatch) \<Rightarrow> lp_world \<Rightarrow> lp_world dispatch" where
  "lp_on_ft = focus lp_ft (\<lambda>s w. w\<lparr>lp_ft := s\<rparr>)"

definition lp_deposit_event :: "lp_event \<Rightarrow> lp_world \<Rightarrow> lp_world" where
  "lp_deposit_event e w = w\<lparr>lp_events := lp_events w @ [e]\<rparr>"

text \<open>The runtime gives this pallet the pallet id of the farming pallet.\<close>

definition lp_escrow_account_id :: "env \<Rightarrow> u64 \<Rightarrow> account" where
  "lp_escrow_account_id E pool_id = into_sub_account E FarmingPalletId (ucast pool_id)"

section \<open>Dispatchable calls\<close>

definition lp_create_pool ::
  "env \<Rightarrow> origin \<Rightarrow> u32 \<Rightarrow> u32 \<Rightarrow> u128 \<Rightarrow> u128 \<Rightarrow> u128 \<Rightarrow> u128 \<Rightarrow> lp_world \<Rightarrow> lp_world dispatch" where
  "lp_create_pool E orig sale_start sale_duration sale_token_id buy_token_id total_sale_amount token_price w =
     and_then (ensure_signed orig) (\<lambda>sender.
     let pool_id = lp_next_pool_id w in
     and_then (ok_or (checked_add pool_id 1) (LaunchpadError LpNoAvailablePoolId)) (\<lambda>next_id.
     let w = w\<lparr>lp_next_pool_id := next_id\<rparr>;
         escrow_account = lp_escrow_account_id E pool_id in
     and_then (lp_on_ft (ft_do_transfer sale_token_id sender escrow_account total_sale_amount) w) (\<lambda>w.
     Inr (lp_deposit_event (LpPoolCreated pool_id)
       (w\<lparr>lp_pools := (lp_pools w)(pool_id \<mapsto>
          \<lparr>lp_owner = sender, lp_escrow_account = escrow_account, lp_sale_start = sale_start,
           lp_sale_end = sale_start + sale_duration, lp_sale_token_id = sale_token_id,
           lp_buy_token_id = buy_token_id, lp_token_price = token_price,
           lp_total_sale_amount = total_sale_amount, lp_raise_amount = total_sale_amount\<rparr>)\<rparr>)))))"

text \<open>\<open>10u128.pow(decimals)\<close> wraps in the release profile, as the power of a word does.\<close>

definition lp_buy_token :: "env \<Rightarrow> origin \<Rightarrow> u64 \<Rightarrow> u128 \<Rightarrow> lp_world \<Rightarrow> lp_world dispatch" where
  "lp_buy_token E orig pool_id amount w =
     and_then (ensure_signed orig) (\<lambda>sender.
     and_then (ok_or (lp_pools w pool_id) (LaunchpadError LpPoolNotFound)) (\<lambda>pool.
     ensure (lp_sale_start pool \<le> env_now E \<and> env_now E < lp_sale_end pool) (LaunchpadError LpOutOfSaleTime) (
     let pay_amount = saturating_mul amount (lp_token_price pool) in
     and_then (lp_on_ft (ft_do_transfer (lp_buy_token_id pool) sender (lp_escrow_account pool) pay_amount) w) (\<lambda>w.
     and_then (ft_token_decimals (lp_sale_token_id pool) (lp_ft w)) (\<lambda>decimals.
     let claim_amount = saturating_mul amount (10 ^ unat decimals);
         info = (case lp_locked w (sender, pool_id) of
                   None \<Rightarrow> \<lparr>lp_balance = claim_amount, lp_is_claimed = False\<rparr>
                 | Some i \<Rightarrow> i\<lparr>lp_balance := saturating_add (lp_balance i) claim_amount\<rparr>) in
     Inr (lp_deposit_event (LpBuyToken sender pool_id claim_amount)
       (w\<lparr>lp_locked := (lp_locked w)((sender, pool_id) \<mapsto> info),
          lp_pools := (lp_pools w)(pool_id := map_option
            (\<lambda>op. op\<lparr>lp_raise_amount := saturating_sub (lp_raise_amount op) claim_amount\<rparr>)
            (lp_pools w pool_id))\<rparr>)))))))"

definition lp_claim :: "env \<Rightarrow> origin \<Rightarrow> u64 \<Rightarrow> lp_world \<Rightarrow> lp_world dispatch" where
  "lp_claim E orig pool_id w =
     and_then (ensure_signed orig) (\<lambda>sender.
     and_then (ok_or (lp_pools w pool_id) (LaunchpadError LpPoolNotFound)) (\<lambda>pool.
     ensure (lp_sale_end pool < env_now E) (LaunchpadError LpClaimNotStart) (
     and_then (ok_or (lp_locked w (sender, pool_id)) (LaunchpadError LpNotBuy)) (\<lambda>claim_info.
     ensure (\<not> lp_is_claimed claim_info) (LaunchpadError LpAlreadyClaim) (
     and_then (lp_on_ft (ft_do_transfer (lp_sale_token_id pool) (lp_escrow_account pool) sender
       (lp_balance claim_info)) w) (\<lambda>w.
     Inr (lp_deposit_event (LpClaim sender pool_id (lp_balance claim_info))
       (w\<lparr>lp_locked := (lp_locked w)((sender, pool_id) :=
          map_option (\<lambda>i. i\<lparr>lp_is_claimed := True\<rparr>) (lp_locked w (sender, pool_id)))\<rparr>))))))))"

definition lp_owner_claim :: "env \<Rightarrow> origin \<Rightarrow> u64 \<Rightarrow> lp_world \<Rightarrow> lp_world dispatch" where
  "lp_owner_claim E orig pool_id w =
     and_then (ensure_signed orig) (\<lambda>sender.
     and_then (ok_or (lp_pools w pool_id) (LaunchpadError LpPoolNotFound)) (\<lambda>pool.
     ensure (lp_sale_end pool < env_now E) (LaunchpadError LpClaimNotStart) (
     ensure (lp_owner pool = sender) (LaunchpadError LpNotOwner) (
     and_then (lp_on_ft (ft_do_transfer (lp_sale_token_id pool) (lp_escrow_account pool) sender
       (lp_raise_amount pool)) w) (\<lambda>w.
     let buy_token_amount = ft_balance_of (lp_buy_token_id pool) (lp_escrow_account pool) (lp_ft w) in
     and_then (lp_on_ft (ft_do_transfer (lp_buy_token_id pool) (lp_escrow_account pool) sender
       buy_token_amount) w) (\<lambda>w.
     Inr (lp_deposit_event (LpOwnerClaim sender pool_id (lp_raise_amount pool) buy_token_amount) w)))))))"

fun lp_dispatch :: "env \<Rightarrow> u32 \<times> origin \<times> lp_call \<Rightarrow> lp_world \<Rightarrow> lp_world dispatch" where
  "lp_dispatch E (now, orig, LpCreatePool st d si bi ts pr) w = lp_create_pool (E\<lparr>env_now := now\<rparr>) orig st d si bi ts pr w"
| "lp_dispatch E (now, orig, LpBuyTokenCall p v) w = lp_buy_token (E\<lparr>env_now := now\<rparr>) orig p v w"
| "lp_dispatch E (now, orig, LpClaimCall p) w = lp_claim (E\<lparr>env_now := now\<rparr>) orig p w"
| "lp_dispatch E (now, orig, LpOwnerClaimCall p) w = lp_owner_claim (E\<lparr>env_now := now\<rparr>) orig p w"

section \<open>Specification\<close>

text \<open>
  The events are the history of the sales: what an account bought of a pool, what was sold and paid
  out to buyers in all, and what the owner took of the tokens for sale.
\<close>

definition lp_bought :: "lp_world \<Rightarrow> u64 \<Rightarrow> account \<Rightarrow> nat" where
  "lp_bought w p a = (\<Sum>e\<leftarrow>lp_events w. case e of LpBuyToken b q v \<Rightarrow> (if b = a \<and> q = p then unat v else 0) | _ \<Rightarrow> 0)"

definition lp_claimed :: "lp_world \<Rightarrow> u64 \<Rightarrow> account \<Rightarrow> nat" where
  "lp_claimed w p a = (\<Sum>e\<leftarrow>lp_events w. case e of LpClaim b q v \<Rightarrow> (if b = a \<and> q = p then unat v else 0) | _ \<Rightarrow> 0)"

definition lp_owner_taken :: "lp_world \<Rightarrow> u64 \<Rightarrow> nat" where
  "lp_owner_taken w p = (\<Sum>e\<leftarrow>lp_events w. case e of LpOwnerClaim _ q v _ \<Rightarrow> (if q = p then unat v else 0) | _ \<Rightarrow> 0)"

definition lp_sold :: "lp_world \<Rightarrow> u64 \<Rightarrow> nat" where
  "lp_sold w p = (\<Sum>a\<in>UNIV. lp_bought w p a)"

definition lp_paid :: "lp_world \<Rightarrow> u64 \<Rightarrow> nat" where
  "lp_paid w p = (\<Sum>a\<in>UNIV. lp_claimed w p a)"

text \<open>The claim record of an account says what the history says, up to saturation.\<close>

definition lp_info_ok :: "lp_world \<Rightarrow> u64 \<Rightarrow> account \<Rightarrow> bool" where
  "lp_info_ok w p a \<longleftrightarrow> (case lp_locked w (a, p) of
       None \<Rightarrow> lp_bought w p a = 0 \<and> lp_claimed w p a = 0
     | Some i \<Rightarrow> unat (lp_balance i) = min (2 ^ 128 - 1) (lp_bought w p a)
         \<and> lp_claimed w p a \<le> (if lp_is_claimed i then lp_bought w p a else 0))"

definition lp_pool_ok :: "env \<Rightarrow> lp_world \<Rightarrow> u64 \<Rightarrow> lp_pool \<Rightarrow> bool" where
  "lp_pool_ok E w p pool \<longleftrightarrow>
     lp_escrow_account pool = lp_escrow_account_id E p \<and>
     unat (lp_raise_amount pool) = unat (lp_total_sale_amount pool) - lp_sold w p \<and>
     (lp_sale_token_id pool \<noteq> lp_buy_token_id pool \<longrightarrow>
        unat (lp_total_sale_amount pool)
          \<le> unat (ft_balances (lp_ft w) (lp_sale_token_id pool, lp_escrow_account pool))
            + lp_paid w p + lp_owner_taken w p)"

definition lp_escrows :: "env \<Rightarrow> account set" where
  "lp_escrows E = range (lp_escrow_account_id E)"

definition lp_inv :: "env \<Rightarrow> lp_world \<Rightarrow> bool" where
  "lp_inv E w \<longleftrightarrow>
     (\<forall>p. case lp_pools w p of
            None \<Rightarrow> (\<forall>a. lp_locked w (a, p) = None) \<and> lp_owner_taken w p = 0
          | Some pool \<Rightarrow> p < lp_next_pool_id w \<and> lp_pool_ok E w p pool) \<and>
     (\<forall>p a. lp_info_ok w p a) \<and>
     ft_protected (lp_escrows E) (lp_ft w)"

text \<open>
  The states that calls of this and of the fungible token pallet lead to, none of them signed by an
  escrow account.
\<close>

inductive lp_reach :: "env \<Rightarrow> lp_world \<Rightarrow> lp_world \<Rightarrow> bool" for E w0 where
  start: "lp_reach E w0 w0"
| launchpad: "lp_reach E w0 w \<Longrightarrow> \<forall>a \<in> lp_escrows E. orig \<noteq> Signed a \<Longrightarrow>
    lp_dispatch E (now, orig, c) w = Inr w' \<Longrightarrow> lp_reach E w0 w'"
| token: "lp_reach E w0 w \<Longrightarrow> \<forall>a \<in> lp_escrows E. orig \<noteq> Signed a \<Longrightarrow>
    lp_on_ft (ft_dispatch (orig, tc)) w = Inr w' \<Longrightarrow> lp_reach E w0 w'"

text \<open>
  A start for the concrete instances: account 1 holds the tokens to sell, account 2 the tokens to buy
  with. The second state is a sale under way, with 60 of 100 tokens sold.
\<close>

definition lp_example :: lp_world where
  "lp_example =
     \<lparr>lp_ft = \<lparr>ft_tokens = [7 \<mapsto> \<lparr>ft_owner = 1, ft_name = [119], ft_symbol = [119], ft_decimals = 0,
          ft_total_supply = 100\<rparr>],
        ft_balances = (\<lambda>_. 0)((7, 1) := 100, (5, 2) := 1000), ft_allowances = (\<lambda>_. 0), ft_events = []\<rparr>,
      lp_next_pool_id = 0, lp_pools = Map.empty, lp_locked = Map.empty, lp_events = []\<rparr>"

definition lp_sale_example :: lp_world where
  "lp_sale_example = lp_example\<lparr>
     lp_ft := (lp_ft lp_example)\<lparr>ft_balances := (\<lambda>_. 0)((7, 2000) := 100, (5, 2000) := 120, (5, 2) := 880),
       ft_events := [FtTransfer 7 1 2000 100, FtTransfer 5 2 2000 120]\<rparr>,
     lp_next_pool_id := 1,
     lp_pools := [0 \<mapsto> \<lparr>lp_owner = 1, lp_escrow_account = 2000, lp_sale_start = 1, lp_sale_end = 11,
        lp_sale_token_id = 7, lp_buy_token_id = 5, lp_token_price = 2, lp_total_sale_amount = 100, lp_raise_amount = 40\<rparr>],
     lp_locked := [(2, 0) \<mapsto> \<lparr>lp_balance = 60, lp_is_claimed = False\<rparr>],
     lp_events := [LpPoolCreated 0, LpBuyToken 2 0 60]\<rparr>"

section \<open>What the calls do\<close>

lemma lp_env_now [simp]: "lp_escrow_account_id (E\<lparr>env_now := n\<rparr>) = lp_escrow_account_id E"
  by (simp add: fun_eq_iff lp_escrow_account_id_def)

lemma lp_deposit_event_simps [simp]:
  "lp_ft (lp_deposit_event e w) = lp_ft w"
  "lp_next_pool_id (lp_deposit_event e w) = lp_next_pool_id w"
  "lp_pools (lp_deposit_event e w) = lp_pools w"
  "lp_locked (lp_deposit_event e w) = lp_locked w"
  "lp_events (lp_deposit_event e w) = lp_events w @ [e]"
  by (simp_all add: lp_deposit_event_def)

lemma lp_on_ft_ok: "lp_on_ft f w = Inr w' \<longleftrightarrow> (\<exists>s. f (lp_ft w) = Inr s \<and> w' = w\<lparr>lp_ft := s\<rparr>)"
  by (simp add: lp_on_ft_def result_eqs)

lemma lp_create_poolE:
  assumes "lp_create_pool E orig st d si bi ts pr w = Inr w'"
  obtains sender nx s where "orig = Signed sender" and "unat nx = unat (lp_next_pool_id w) + 1"
    and "ft_do_transfer si sender (lp_escrow_account_id E (lp_next_pool_id w)) ts (lp_ft w) = Inr s"
    and "w' = lp_deposit_event (LpPoolCreated (lp_next_pool_id w))
       (w\<lparr>lp_next_pool_id := nx, lp_ft := s, lp_pools := (lp_pools w)(lp_next_pool_id w \<mapsto>
          \<lparr>lp_owner = sender, lp_escrow_account = lp_escrow_account_id E (lp_next_pool_id w),
           lp_sale_start = st, lp_sale_end = st + d, lp_sale_token_id = si, lp_buy_token_id = bi,
           lp_token_price = pr, lp_total_sale_amount = ts, lp_raise_amount = ts\<rparr>)\<rparr>)"
  using assms by (auto simp: lp_create_pool_def result_eqs arith_eqs Let_def lp_on_ft_ok)

lemma lp_buy_tokenE:
  assumes "lp_buy_token E orig p v w = Inr w'"
  obtains sender pool s decimals claim info where "orig = Signed sender" and "lp_pools w p = Some pool"
    and "lp_sale_start pool \<le> env_now E" and "env_now E < lp_sale_end pool"
    and "ft_do_transfer (lp_buy_token_id pool) sender (lp_escrow_account pool)
       (saturating_mul v (lp_token_price pool)) (lp_ft w) = Inr s"
    and "ft_token_decimals (lp_sale_token_id pool) s = Inr decimals"
    and "claim = saturating_mul v (10 ^ unat decimals)"
    and "info = (case lp_locked w (sender, p) of
                   None \<Rightarrow> \<lparr>lp_balance = claim, lp_is_claimed = False\<rparr>
                 | Some i \<Rightarrow> i\<lparr>lp_balance := saturating_add (lp_balance i) claim\<rparr>)"
    and "w' = lp_deposit_event (LpBuyToken sender p claim)
       (w\<lparr>lp_ft := s, lp_locked := (lp_locked w)((sender, p) \<mapsto> info),
          lp_pools := (lp_pools w)(p \<mapsto> pool\<lparr>lp_raise_amount := saturating_sub (lp_raise_amount pool) claim\<rparr>)\<rparr>)"
  using assms by (auto simp: lp_buy_token_def result_eqs Let_def lp_on_ft_ok)

lemma lp_claimE:
  assumes "lp_claim E orig p w = Inr w'"
  obtains sender pool i s where "orig = Signed sender" and "lp_pools w p = Some pool"
    and "lp_sale_end pool < env_now E" and "lp_locked w (sender, p) = Some i" and "\<not> lp_is_claimed i"
    and "ft_do_transfer (lp_sale_token_id pool) (lp_escrow_account pool) sender (lp_balance i) (lp_ft w) = Inr s"
    and "w' = lp_deposit_event (LpClaim sender p (lp_balance i))
       (w\<lparr>lp_ft := s, lp_locked := (lp_locked w)((sender, p) \<mapsto> i\<lparr>lp_is_claimed := True\<rparr>)\<rparr>)"
  using assms by (auto simp: lp_claim_def result_eqs lp_on_ft_ok)

lemma lp_owner_claimE:
  assumes "lp_owner_claim E orig p w = Inr w'"
  obtains sender pool s s' v where "orig = Signed sender" and "lp_pools w p = Some pool"
    and "lp_sale_end pool < env_now E" and "lp_owner pool = sender"
    and "ft_do_transfer (lp_sale_token_id pool) (lp_escrow_account pool) sender (lp_raise_amount pool) (lp_ft w) = Inr s"
    and "v = ft_balance_of (lp_buy_token_id pool) (lp_escrow_account pool) s"
    and "ft_do_transfer (lp_buy_token_id pool) (lp_escrow_account pool) sender v s = Inr s'"
    and "w' = lp_deposit_event (LpOwnerClaim sender p (lp_raise_amount pool) v) (w\<lparr>lp_ft := s'\<rparr>)"
  using assms by (auto simp: lp_owner_claim_def result_eqs Let_def lp_on_ft_ok)

section \<open>The invariant\<close>

lemma lp_hist_event:
  assumes "lp_events w' = lp_events w @ [e]"
  shows "lp_bought w' p a = lp_bought w p a + (case e of LpBuyToken b q v \<Rightarrow> (if b = a \<and> q = p then unat v else 0) | _ \<Rightarrow> 0)"
    and "lp_claimed w' p a = lp_claimed w p a + (case e of LpClaim b q v \<Rightarrow> (if b = a \<and> q = p then unat v else 0) | _ \<Rightarrow> 0)"
    and "lp_owner_taken w' p = lp_owner_taken w p + (case e of LpOwnerClaim _ q v _ \<Rightarrow> (if q = p then unat v else 0) | _ \<Rightarrow> 0)"
  using assms by (simp_all add: lp_bought_def lp_claimed_def lp_owner_taken_def)

lemma lp_hist_sums:
  assumes "lp_events w' = lp_events w @ [e]"
  shows "lp_sold w' p = lp_sold w p + (case e of LpBuyToken b q v \<Rightarrow> (if q = p then unat v else 0) | _ \<Rightarrow> 0)"
    and "lp_paid w' p = lp_paid w p + (case e of LpClaim b q v \<Rightarrow> (if q = p then unat v else 0) | _ \<Rightarrow> 0)"
  using lp_hist_event [OF assms]
  by (cases e; simp add: lp_sold_def lp_paid_def sum.distrib)+

lemma lp_hist_keep:
  assumes "lp_events w' = lp_events w"
  shows "lp_bought w' = lp_bought w" and "lp_claimed w' = lp_claimed w" and "lp_owner_taken w' = lp_owner_taken w"
    and "lp_sold w' = lp_sold w" and "lp_paid w' = lp_paid w"
  using assms by (simp_all add: fun_eq_iff lp_bought_def lp_claimed_def lp_owner_taken_def lp_sold_def lp_paid_def)

lemma lp_info_keep:
  assumes "lp_locked w' (a, p) = lp_locked w (a, p)" and "lp_bought w' p a = lp_bought w p a"
    and "lp_claimed w' p a = lp_claimed w p a"
  shows "lp_info_ok w' p a \<longleftrightarrow> lp_info_ok w p a"
  unfolding lp_info_ok_def assms ..

lemma lp_pool_okD:
  assumes "lp_pool_ok E w p pool"
  shows "lp_escrow_account pool = lp_escrow_account_id E p"
    and "unat (lp_raise_amount pool) = unat (lp_total_sale_amount pool) - lp_sold w p"
    and "lp_sale_token_id pool \<noteq> lp_buy_token_id pool \<Longrightarrow> unat (lp_total_sale_amount pool)
          \<le> unat (ft_balances (lp_ft w) (lp_sale_token_id pool, lp_escrow_account pool))
            + lp_paid w p + lp_owner_taken w p"
  using assms unfolding lp_pool_ok_def by blast+

lemma lp_pool_ok_mono:
  assumes ok: "lp_pool_ok E w q pool"
    and hist: "lp_sold w' q = lp_sold w q" "lp_paid w' q = lp_paid w q" "lp_owner_taken w' q = lp_owner_taken w q"
    and bal: "\<And>t. ft_balances (lp_ft w) (t, lp_escrow_account pool) \<le> ft_balances (lp_ft w') (t, lp_escrow_account pool)"
  shows "lp_pool_ok E w' q pool"
  using ok bal [of "lp_sale_token_id pool"] unfolding lp_pool_ok_def hist word_le_nat_alt by auto

lemma lp_invD:
  assumes "lp_inv E w"
  shows "lp_pools w p = Some pool \<Longrightarrow> p < lp_next_pool_id w \<and> lp_pool_ok E w p pool"
    and "lp_pools w p = None \<Longrightarrow> (\<forall>a. lp_locked w (a, p) = None) \<and> lp_owner_taken w p = 0"
    and "lp_info_ok w p a"
    and "ft_protected (lp_escrows E) (lp_ft w)"
proof -
  have *: "case lp_pools w p of
            None \<Rightarrow> (\<forall>a. lp_locked w (a, p) = None) \<and> lp_owner_taken w p = 0
          | Some pool \<Rightarrow> p < lp_next_pool_id w \<and> lp_pool_ok E w p pool"
    using assms by (simp add: lp_inv_def)
  show "lp_pools w p = Some pool \<Longrightarrow> p < lp_next_pool_id w \<and> lp_pool_ok E w p pool"
    and "lp_pools w p = None \<Longrightarrow> (\<forall>a. lp_locked w (a, p) = None) \<and> lp_owner_taken w p = 0"
    using * by simp_all
  show "lp_info_ok w p a" and "ft_protected (lp_escrows E) (lp_ft w)" using assms by (simp_all add: lp_inv_def)
qed

text \<open>A call changes one pool and its records, and appends one event, which is about that pool.\<close>

fun lp_event_pool :: "lp_event \<Rightarrow> u64" where
  "lp_event_pool (LpPoolCreated p) = p"
| "lp_event_pool (LpBuyToken a p v) = p"
| "lp_event_pool (LpClaim a p v) = p"
| "lp_event_pool (LpOwnerClaim a p v x) = p"

lemma lp_hist_other:
  assumes ev: "lp_events w' = lp_events w @ [e]" and "q \<noteq> lp_event_pool e"
  shows "lp_bought w' q = lp_bought w q" and "lp_claimed w' q = lp_claimed w q"
    and "lp_owner_taken w' q = lp_owner_taken w q" and "lp_sold w' q = lp_sold w q" and "lp_paid w' q = lp_paid w q"
  using assms(2) lp_hist_event [OF ev] lp_hist_sums [OF ev] by (cases e; simp add: fun_eq_iff)+

lemma lp_inv_step:
  assumes inv: "lp_inv E w" and inj: "inj (lp_escrow_account_id E)"
    and pool: "lp_pools w' = (lp_pools w)(p \<mapsto> pool)" "p < lp_next_pool_id w'" "lp_pool_ok E w' p pool"
    and next_id: "lp_next_pool_id w \<le> lp_next_pool_id w'"
    and locked: "\<And>q a. q \<noteq> p \<Longrightarrow> lp_locked w' (a, q) = lp_locked w (a, q)"
    and ev: "lp_events w' = lp_events w @ [e]" "lp_event_pool e = p"
    and info: "\<And>a. lp_info_ok w' p a"
    and bal: "\<And>a t. a \<noteq> lp_escrow_account_id E p \<Longrightarrow> a \<in> lp_escrows E \<Longrightarrow>
      ft_balances (lp_ft w) (t, a) \<le> ft_balances (lp_ft w') (t, a)"
    and prot: "ft_protected (lp_escrows E) (lp_ft w')"
  shows "lp_inv E w'"
  unfolding lp_inv_def
proof (intro conjI allI prot)
  note hist = lp_hist_other [OF ev(1), unfolded ev(2)]
  fix q a
  show "lp_info_ok w' q a"
    using info lp_info_keep [OF locked, of q a] hist lp_invD(3) [OF inv, of q a] by (cases "q = p") simp_all
  show "case lp_pools w' q of
            None \<Rightarrow> (\<forall>a. lp_locked w' (a, q) = None) \<and> lp_owner_taken w' q = 0
          | Some pool \<Rightarrow> q < lp_next_pool_id w' \<and> lp_pool_ok E w' q pool"
  proof (cases "q = p \<or> lp_pools w q = None")
    case True
    then show ?thesis using pool locked hist lp_invD(2) [OF inv, of q] by (cases "q = p") simp_all
  next
    case False
    then obtain P where P: "lp_pools w q = Some P" and "q \<noteq> p" by auto
    with lp_invD(1) [OF inv P] have ok: "lp_pool_ok E w q P" "q < lp_next_pool_id w" by auto
    have "lp_escrow_account P \<noteq> lp_escrow_account_id E p"
      using lp_pool_okD(1) [OF ok(1)] inj \<open>q \<noteq> p\<close> by (auto dest: injD)
    then have "lp_pool_ok E w' q P"
      using \<open>q \<noteq> p\<close> lp_pool_okD(1) [OF ok(1)]
      by (intro lp_pool_ok_mono [OF ok(1)] hist bal) (auto simp: lp_escrows_def)
    with P ok \<open>q \<noteq> p\<close> next_id show ?thesis by (simp add: pool(1) order.strict_trans2)
  qed
qed

lemma lp_create_pool_inv:
  assumes inv: "lp_inv E w" and inj: "inj (lp_escrow_account_id E)" and orig: "\<forall>a \<in> lp_escrows E. orig \<noteq> Signed a"
    and call: "lp_create_pool (E\<lparr>env_now := n\<rparr>) orig st d si bi ts pr w = Inr w'"
  shows "lp_inv E w'"
  using call
proof (rule lp_create_poolE)
  fix sender nx s
  let ?p = "lp_next_pool_id w" and ?e = "lp_escrow_account_id E (lp_next_pool_id w)"
  assume sender: "orig = Signed sender" and nx: "unat nx = unat ?p + 1"
    and s0: "ft_do_transfer si sender (lp_escrow_account_id (E\<lparr>env_now := n\<rparr>) ?p) ts (lp_ft w) = Inr s"
    and w': "w' = lp_deposit_event (LpPoolCreated ?p)
       (w\<lparr>lp_next_pool_id := nx, lp_ft := s, lp_pools := (lp_pools w)(?p \<mapsto>
          \<lparr>lp_owner = sender, lp_escrow_account = lp_escrow_account_id (E\<lparr>env_now := n\<rparr>) ?p,
           lp_sale_start = st, lp_sale_end = st + d, lp_sale_token_id = si, lp_buy_token_id = bi,
           lp_token_price = pr, lp_total_sale_amount = ts, lp_raise_amount = ts\<rparr>)\<rparr>)"
  from s0 have s: "ft_do_transfer si sender ?e ts (lp_ft w) = Inr s" by simp
  have free: "lp_pools w ?p = None" using lp_invD(1) [OF inv, of ?p] by (cases "lp_pools w ?p") auto
  have ev: "lp_events w' = lp_events w @ [LpPoolCreated ?p]" by (simp add: w')
  have hist: "lp_bought w ?p a = 0" for a
    using lp_invD(3) [OF inv, of ?p a] lp_invD(2) [OF inv free] by (simp add: lp_info_ok_def)
  have sold: "lp_sold w' ?p = 0" using lp_hist_sums(1) [OF ev, of ?p] by (simp add: lp_sold_def hist)
  define pool where "pool = \<lparr>lp_owner = sender, lp_escrow_account = ?e, lp_sale_start = st, lp_sale_end = st + d,
     lp_sale_token_id = si, lp_buy_token_id = bi, lp_token_price = pr, lp_total_sale_amount = ts, lp_raise_amount = ts\<rparr>"
  have w'_simps: "lp_ft w' = s" "lp_pools w' = (lp_pools w)(?p \<mapsto> pool)" "lp_locked w' = lp_locked w" "lp_next_pool_id w' = nx"
    by (simp_all add: w' pool_def)
  show ?thesis
  proof (rule lp_inv_step [OF inv inj w'_simps(2), where e = "LpPoolCreated ?p"])
    show "lp_info_ok w' ?p a" for a
      using lp_invD(3) [OF inv, of ?p a] lp_hist_event(1,2) [OF ev, of ?p a]
      by (subst lp_info_keep [of _ a ?p w]) (simp_all add: w'_simps)
    show "lp_pool_ok E w' ?p pool"
      using sold ftl.move_to [OF s] by (simp add: lp_pool_ok_def w'_simps pool_def)
    show "ft_balances (lp_ft w) (t, b) \<le> ft_balances (lp_ft w') (t, b)" if "b \<in> lp_escrows E" for b t
      using ftl.move_other [OF s, of b t] orig sender that by (auto simp: w'_simps word_le_nat_alt)
    show "ft_protected (lp_escrows E) (lp_ft w')"
      using ft_do_transfer_protected [OF s] lp_invD(4) [OF inv] by (simp add: w'_simps)
  qed (use nx ev in \<open>simp_all add: w'_simps word_less_nat_alt word_le_nat_alt\<close>)
qed

lemma lp_buy_token_inv:
  assumes inv: "lp_inv E w" and inj: "inj (lp_escrow_account_id E)" and orig: "\<forall>a \<in> lp_escrows E. orig \<noteq> Signed a"
    and call: "lp_buy_token (E\<lparr>env_now := n\<rparr>) orig p v w = Inr w'"
  shows "lp_inv E w'"
  using call
proof (rule lp_buy_tokenE)
  fix sender s decimals claim and pool :: lp_pool and info :: lp_claim_info
  let ?pool = "pool\<lparr>lp_raise_amount := saturating_sub (lp_raise_amount pool) claim\<rparr>"
  assume sender: "orig = Signed sender" and pool: "lp_pools w p = Some pool"
    and s: "ft_do_transfer (lp_buy_token_id pool) sender (lp_escrow_account pool)
       (saturating_mul v (lp_token_price pool)) (lp_ft w) = Inr s"
    and info: "info = (case lp_locked w (sender, p) of
                   None \<Rightarrow> \<lparr>lp_balance = claim, lp_is_claimed = False\<rparr>
                 | Some i \<Rightarrow> i\<lparr>lp_balance := saturating_add (lp_balance i) claim\<rparr>)"
    and w': "w' = lp_deposit_event (LpBuyToken sender p claim)
       (w\<lparr>lp_ft := s, lp_locked := (lp_locked w)((sender, p) \<mapsto> info), lp_pools := (lp_pools w)(p \<mapsto> ?pool)\<rparr>)"
  from lp_invD(1) [OF inv pool] have ok: "lp_pool_ok E w p pool" and lt: "p < lp_next_pool_id w" by auto
  have ev: "lp_events w' = lp_events w @ [LpBuyToken sender p claim]" by (simp add: w')
  note hist = lp_hist_event [OF ev] lp_hist_sums [OF ev]
  have locked: "lp_locked w' = (lp_locked w)((sender, p) \<mapsto> info)" by (simp add: w')
  have up: "ft_balances (lp_ft w) (t, b) \<le> ft_balances (lp_ft w') (t, b)" if "b \<in> lp_escrows E" for b t
    using ftl.move_other [OF s, of b t] orig sender that by (auto simp: w' word_le_nat_alt)
  show ?thesis
  proof (rule lp_inv_step [OF inv inj, where p = p and pool = ?pool and e = "LpBuyToken sender p claim"])
    show "lp_info_ok w' p a" for a
      using lp_invD(3) [OF inv, of p a] hist(1,2) [of p a] u128_bound [of claim]
      by (auto simp: lp_info_ok_def locked info unat_saturating_add min_def split: option.splits if_splits)
    show "lp_pool_ok E w' p ?pool"
      using ok up [of "lp_escrow_account pool" "lp_sale_token_id pool"] hist(3-5) [of p] lp_pool_okD(1) [OF ok]
      by (auto simp: lp_pool_ok_def unat_saturating_sub word_le_nat_alt lp_escrows_def)
    show "ft_protected (lp_escrows E) (lp_ft w')"
      using ft_do_transfer_protected [OF s] lp_invD(4) [OF inv] by (simp add: w')
  qed (use ev lt up in \<open>simp_all add: w'\<close>)
qed

lemma lp_claim_inv:
  assumes inv: "lp_inv E w" and inj: "inj (lp_escrow_account_id E)"
    and call: "lp_claim (E\<lparr>env_now := n\<rparr>) orig p w = Inr w'"
  shows "lp_inv E w'"
  using call
proof (rule lp_claimE)
  fix sender s and pool :: lp_pool and i :: lp_claim_info
  assume pool: "lp_pools w p = Some pool" and i: "lp_locked w (sender, p) = Some i" "\<not> lp_is_claimed i"
    and s: "ft_do_transfer (lp_sale_token_id pool) (lp_escrow_account pool) sender (lp_balance i) (lp_ft w) = Inr s"
    and w': "w' = lp_deposit_event (LpClaim sender p (lp_balance i))
       (w\<lparr>lp_ft := s, lp_locked := (lp_locked w)((sender, p) \<mapsto> i\<lparr>lp_is_claimed := True\<rparr>)\<rparr>)"
  from lp_invD(1) [OF inv pool] have ok: "lp_pool_ok E w p pool" and lt: "p < lp_next_pool_id w" by auto
  have ev: "lp_events w' = lp_events w @ [LpClaim sender p (lp_balance i)]" by (simp add: w')
  note hist = lp_hist_event [OF ev] lp_hist_sums [OF ev]
  have locked: "lp_locked w' = (lp_locked w)((sender, p) \<mapsto> i\<lparr>lp_is_claimed := True\<rparr>)" by (simp add: w')
  have ft: "lp_ft w' = s" by (simp add: w')
  show ?thesis
  proof (rule lp_inv_step [OF inv inj, where p = p and pool = pool and e = "LpClaim sender p (lp_balance i)"])
    show "lp_info_ok w' p a" for a
      using lp_invD(3) [OF inv, of p a] hist(1,2) [of p a] i
      by (auto simp: lp_info_ok_def locked split: option.splits)
    show "lp_pool_ok E w' p pool"
      using ok ftl.move_from [OF s] hist(3-5) [of p] by (auto simp: lp_pool_ok_def ft)
    show "ft_balances (lp_ft w) (t, b) \<le> ft_balances (lp_ft w') (t, b)" if "b \<noteq> lp_escrow_account_id E p" for b t
      using ftl.move_other [OF s, of b t] lp_pool_okD(1) [OF ok] that by (simp add: ft word_le_nat_alt)
    show "ft_protected (lp_escrows E) (lp_ft w')"
      using ft_do_transfer_protected [OF s] lp_invD(4) [OF inv] by (simp add: ft)
    show "lp_pools w' = (lp_pools w)(p \<mapsto> pool)" using pool by (auto simp: w')
  qed (use ev lt in \<open>simp_all add: w'\<close>)
qed

lemma lp_owner_claim_inv:
  assumes inv: "lp_inv E w" and inj: "inj (lp_escrow_account_id E)"
    and call: "lp_owner_claim (E\<lparr>env_now := n\<rparr>) orig p w = Inr w'"
  shows "lp_inv E w'"
  using call
proof (rule lp_owner_claimE)
  fix sender s s' v and pool :: lp_pool
  assume pool: "lp_pools w p = Some pool"
    and s: "ft_do_transfer (lp_sale_token_id pool) (lp_escrow_account pool) sender (lp_raise_amount pool) (lp_ft w) = Inr s"
    and s': "ft_do_transfer (lp_buy_token_id pool) (lp_escrow_account pool) sender v s = Inr s'"
    and w': "w' = lp_deposit_event (LpOwnerClaim sender p (lp_raise_amount pool) v) (w\<lparr>lp_ft := s'\<rparr>)"
  from lp_invD(1) [OF inv pool] have ok: "lp_pool_ok E w p pool" and lt: "p < lp_next_pool_id w" by auto
  have ev: "lp_events w' = lp_events w @ [LpOwnerClaim sender p (lp_raise_amount pool) v]" by (simp add: w')
  note hist = lp_hist_event [OF ev] lp_hist_sums [OF ev]
  have ft: "lp_ft w' = s'" by (simp add: w')
  show ?thesis
  proof (rule lp_inv_step [OF inv inj, where p = p and pool = pool and e = "LpOwnerClaim sender p (lp_raise_amount pool) v"])
    show "lp_info_ok w' p a" for a
      using lp_invD(3) [OF inv, of p a] hist(1,2) [of p a] by (subst lp_info_keep [of _ a p w]) (simp_all add: w')
    show "lp_pool_ok E w' p pool"
      using ok ftl.move_from [OF s] ftl.move_frame [OF s', of "lp_sale_token_id pool" "lp_escrow_account pool"] hist(3-5) [of p]
      by (auto simp: lp_pool_ok_def ft)
    show "ft_balances (lp_ft w) (t, b) \<le> ft_balances (lp_ft w') (t, b)" if "b \<noteq> lp_escrow_account_id E p" for b t
      using ftl.move_other [OF s, of b t] ftl.move_other [OF s', of b t] lp_pool_okD(1) [OF ok] that
      by (simp add: ft word_le_nat_alt)
    show "ft_protected (lp_escrows E) (lp_ft w')"
      using ft_do_transfer_protected [OF s] ft_do_transfer_protected [OF s'] lp_invD(4) [OF inv] by (simp add: ft)
    show "lp_pools w' = (lp_pools w)(p \<mapsto> pool)" using pool by (auto simp: w')
  qed (use ev lt in \<open>simp_all add: w'\<close>)
qed

lemma lp_dispatch_inv:
  assumes "lp_inv E w" and "inj (lp_escrow_account_id E)" and "\<forall>a \<in> lp_escrows E. orig \<noteq> Signed a"
    and "lp_dispatch E (now, orig, c) w = Inr w'"
  shows "lp_inv E w'"
  using assms by (cases c) (auto intro: lp_create_pool_inv lp_buy_token_inv lp_claim_inv lp_owner_claim_inv)

lemma lp_token_inv:
  assumes inv: "lp_inv E w" and orig: "\<forall>a \<in> lp_escrows E. orig \<noteq> Signed a"
    and call: "lp_on_ft (ft_dispatch (orig, c)) w = Inr w'"
  shows "lp_inv E w'"
proof -
  from call obtain s where s: "ft_dispatch (orig, c) (lp_ft w) = Inr s" and w': "w' = w\<lparr>lp_ft := s\<rparr>"
    by (auto simp: lp_on_ft_ok)
  note prot = ft_dispatch_protected [OF s lp_invD(4) [OF inv] orig]
  have hist: "lp_events w' = lp_events w" and ft: "lp_ft w' = s" by (simp_all add: w')
  have ok: "lp_pool_ok E w' q pool" if "lp_pool_ok E w q pool" for q pool
    using that by (rule lp_pool_ok_mono)
      (use prot(2) lp_pool_okD(1) [OF that] ft in \<open>simp_all add: lp_hist_keep [OF hist] lp_escrows_def\<close>)
  have info: "lp_info_ok w' q a" for q a
    using lp_invD(3) [OF inv, of q a] by (subst lp_info_keep [of _ a q w]) (simp_all add: lp_hist_keep [OF hist], simp add: w')
  have "case lp_pools w' q of
            None \<Rightarrow> (\<forall>a. lp_locked w' (a, q) = None) \<and> lp_owner_taken w' q = 0
          | Some pool \<Rightarrow> q < lp_next_pool_id w' \<and> lp_pool_ok E w' q pool" for q
    using lp_invD(1,2) [OF inv, of q] ok lp_hist_keep(3) [OF hist] by (cases "lp_pools w q") (simp_all add: w')
  then show ?thesis using info prot(1) unfolding lp_inv_def ft by blast
qed

lemma lp_reach_inv:
  assumes "lp_reach E w0 w" and "lp_inv E w0" and "inj (lp_escrow_account_id E)"
  shows "lp_inv E w"
  using assms by (induction rule: lp_reach.induct) (blast intro: lp_dispatch_inv lp_token_inv)+

section \<open>A pool never changes hands\<close>

text \<open>
  Between two states, a pool keeps everything but the amount left for sale, which only goes down, and
  a claim that was paid stays paid.
\<close>

definition lp_later :: "lp_world \<Rightarrow> lp_world \<Rightarrow> bool" where
  "lp_later w w' \<longleftrightarrow>
     lp_next_pool_id w \<le> lp_next_pool_id w' \<and>
     (\<forall>p pool. lp_pools w p = Some pool \<and> p < lp_next_pool_id w \<longrightarrow>
        (\<exists>v. v \<le> lp_raise_amount pool \<and> lp_pools w' p = Some (pool\<lparr>lp_raise_amount := v\<rparr>))) \<and>
     (\<forall>k i. lp_locked w k = Some i \<and> lp_is_claimed i \<longrightarrow> (\<exists>j. lp_locked w' k = Some j \<and> lp_is_claimed j))"

lemma lp_pool_same: "lp_pools w p = Some pool \<Longrightarrow> \<exists>v. v \<le> lp_raise_amount pool \<and> lp_pools w p = Some (pool\<lparr>lp_raise_amount := v\<rparr>)"
  by (rule exI [of _ "lp_raise_amount pool"]) simp

lemma saturating_sub_le: "saturating_sub a b \<le> a" for a b :: "'a::len word"
  by (simp add: word_le_nat_alt unat_saturating_sub)

lemma lp_pool_sold: "\<exists>u \<le> lp_raise_amount pool.
    pool\<lparr>lp_raise_amount := saturating_sub (lp_raise_amount pool) v\<rparr> = pool\<lparr>lp_raise_amount := u\<rparr>"
  using saturating_sub_le by blast

lemma lp_later_trans:
  assumes "lp_later r s" and "lp_later s t"
  shows "lp_later r t"
proof -
  have "\<exists>v. v \<le> lp_raise_amount pool \<and> lp_pools t p = Some (pool\<lparr>lp_raise_amount := v\<rparr>)"
    if "lp_pools r p = Some pool" "p < lp_next_pool_id r" for p and pool :: lp_pool
  proof -
    from assms(1) that obtain v where v: "v \<le> lp_raise_amount pool" "lp_pools s p = Some (pool\<lparr>lp_raise_amount := v\<rparr>)"
      and "p < lp_next_pool_id s" unfolding lp_later_def by (meson order.strict_trans2)
    with assms(2) obtain u where "u \<le> v" "lp_pools t p = Some (pool\<lparr>lp_raise_amount := u\<rparr>)"
      unfolding lp_later_def by fastforce
    with v show ?thesis by (auto intro: order_trans)
  qed
  then show ?thesis using assms unfolding lp_later_def by (meson order_trans)
qed

lemma lp_dispatch_later:
  assumes "lp_dispatch E (now, orig, c) w = Inr w'"
  shows "lp_later w w'"
proof (cases c)
  case (LpCreatePool st d si bi ts pr)
  with assms have "lp_create_pool (E\<lparr>env_now := now\<rparr>) orig st d si bi ts pr w = Inr w'" by simp
  then show ?thesis
    by (rule lp_create_poolE) (auto simp: lp_later_def word_le_nat_alt word_less_nat_alt dest: lp_pool_same)
next
  case (LpBuyTokenCall p v)
  with assms have "lp_buy_token (E\<lparr>env_now := now\<rparr>) orig p v w = Inr w'" by simp
  then show ?thesis
    by (rule lp_buy_tokenE)
      (auto simp: lp_later_def lp_pool_sold split: option.splits intro: lp_pool_same)
next
  case (LpClaimCall p)
  with assms have "lp_claim (E\<lparr>env_now := now\<rparr>) orig p w = Inr w'" by simp
  then show ?thesis by (rule lp_claimE) (auto simp: lp_later_def dest: lp_pool_same)
next
  case (LpOwnerClaimCall p)
  with assms have "lp_owner_claim (E\<lparr>env_now := now\<rparr>) orig p w = Inr w'" by simp
  then show ?thesis by (rule lp_owner_claimE) (auto simp: lp_later_def dest: lp_pool_same)
qed

interpretation lp: pallet_history "lp_dispatch E" lp_later for E
proof unfold_locales
  show "lp_later s s" for s by (auto simp: lp_later_def dest: lp_pool_same)
  show "lp_later r s \<Longrightarrow> lp_later s t \<Longrightarrow> lp_later r t" for r s t by (rule lp_later_trans)
  show "lp_dispatch E c s = Inr s' \<Longrightarrow> lp_later s s'" for c s s'
    by (cases c) (auto intro: lp_dispatch_later)
qed

section \<open>Properties\<close>

lemma lp_paid_bound:
  assumes inv: "lp_inv E w" and i: "lp_locked w (a, p) = Some i" "\<not> lp_is_claimed i"
  shows "lp_paid w p + lp_bought w p a \<le> lp_sold w p"
proof -
  have le: "lp_claimed w p b \<le> lp_bought w p b" for b
    using lp_invD(3) [OF inv, of p b] by (auto simp: lp_info_ok_def split: option.splits if_splits)
  have zero: "lp_claimed w p a = 0" using lp_invD(3) [OF inv, of p a] i by (simp add: lp_info_ok_def)
  have "lp_paid w p = (\<Sum>b\<in>UNIV - {a}. lp_claimed w p b)"
    unfolding lp_paid_def by (subst sum.remove [of _ a]) (simp_all add: zero)
  also have "\<dots> \<le> (\<Sum>b\<in>UNIV - {a}. lp_bought w p b)" by (rule sum_mono) (rule le)
  finally show ?thesis unfolding lp_sold_def by (subst sum.remove [of _ a]) simp_all
qed

text \<open>
  C18: The records of a sale are exact. Whatever calls are made to the launchpad and the fungible token
  pallet, in whatever order, the claim record of an account is the sum of what it bought of that pool,
  as the events tell it (at most the largest 128-bit number), the amount a pool has left is the
  amount for sale minus everything sold, and no account was paid more than it bought.
\<close>

theorem lp_records_exact:
  assumes "lp_reach E w0 w" and "lp_inv E w0" and "inj (lp_escrow_account_id E)"
    and "lp_pools w p = Some pool" and "lp_locked w (a, p) = Some i"
  shows "unat (lp_balance i) = min (2 ^ 128 - 1) (lp_bought w p a)
    \<and> lp_claimed w p a \<le> lp_bought w p a
    \<and> unat (lp_raise_amount pool) = unat (lp_total_sale_amount pool) - lp_sold w p"
proof -
  note inv = lp_reach_inv [OF assms(1-3)]
  show ?thesis
    using lp_pool_okD(2) lp_invD(1) [OF inv assms(4)] lp_invD(3) [OF inv, of p a] assms(5)
    by (auto simp: lp_info_ok_def split: if_splits)
qed

text \<open>
  C19: When buyers get their tokens. After a sale of one token for another, a claim of a buyer other than
  the escrow who has not claimed goes through, pays all that the buyer's record says and is recorded,
  provided no more than the amount for sale was sold and taken by the owner together, the units of the
  sold token in existence fit into 128 bits, and only calls of the launchpad and the fungible token
  pallet have been made. The condition on the amounts can fail: the pallet sells more than there is, and
  lets the owner take the unsold rest again and again.
\<close>

theorem lp_claim_live:
  assumes reach: "lp_reach E w0 w" "lp_inv E w0" "inj (lp_escrow_account_id E)"
    and pool: "lp_pools w p = Some pool" and i: "lp_locked w (a, p) = Some i" "\<not> lp_is_claimed i"
    and "lp_sale_token_id pool \<noteq> lp_buy_token_id pool"
    and room: "lp_sold w p + lp_owner_taken w p \<le> unat (lp_total_sale_amount pool)"
    and a: "a \<noteq> lp_escrow_account_id E p" and "lp_sale_end pool < env_now E"
    and sums: "ft_sum (lp_ft w) (lp_sale_token_id pool) < 2 ^ 128"
  shows "\<exists>w'. lp_claim E (Signed a) p w = Inr w' \<and> lp_locked w' (a, p) = Some (i\<lparr>lp_is_claimed := True\<rparr>) \<and>
    unat (ft_balance_of (lp_sale_token_id pool) a (lp_ft w')) =
      unat (ft_balance_of (lp_sale_token_id pool) a (lp_ft w)) + unat (lp_balance i)"
proof -
  note inv = lp_reach_inv [OF reach]
  from lp_invD(1) [OF inv pool] have ok: "lp_pool_ok E w p pool" by simp
  note esc = lp_pool_okD(1) [OF ok]
  have "unat (lp_balance i) \<le> lp_bought w p a"
    using lp_invD(3) [OF inv, of p a] i by (simp add: lp_info_ok_def)
  then have "unat (lp_balance i) \<le> unat (ft_balances (lp_ft w) (lp_sale_token_id pool, lp_escrow_account_id E p))"
    using lp_paid_bound [OF inv i] lp_pool_okD(3) [OF ok assms(7)] room esc by simp
  from ft_do_transfer_room [OF a [symmetric] this sums] obtain s
    where s: "ft_do_transfer (lp_sale_token_id pool) (lp_escrow_account_id E p) a (lp_balance i) (lp_ft w) = Inr s" by blast
  then show ?thesis
    using pool i assms(10) ftl.move_to [OF s] by (simp add: lp_claim_def lp_on_ft_def focus_def esc ft_balance_of_def)
qed

text \<open>
  A pool never changes hands and never changes its terms: after any sequence of calls of the
  launchpad it is the same pool, except that the amount left for sale may have gone down.
\<close>

theorem lp_pool_permanent:
  assumes "lp_pools w p = Some pool" and "p < lp_next_pool_id w"
  shows "\<exists>v \<le> lp_raise_amount pool. lp_pools (exec (lp_dispatch E) cs w) p = Some (pool\<lparr>lp_raise_amount := v\<rparr>)"
  using lp.exec_rel [of w E cs] assms unfolding lp_later_def by blast

text \<open>
  The launchpad takes what belongs to farming. The runtime gives both pallets the same pallet id,
  so the pools of the same number share their escrow account; when the owner of a launchpad pool
  claims, the escrow account of the farming pool of that number is left with nothing of the token the
  sale was paid in, stakes included.
\<close>

theorem lp_owner_claim_empties:
  assumes "lp_owner_claim E orig p w = Inr w'" and "lp_pools w p = Some pool"
    and "lp_escrow_account pool = lp_escrow_account_id E p"
  shows "ft_balance_of (lp_buy_token_id pool) (fa_escrow_account_id E p) (lp_ft w') = 0"
  using assms(1)
proof (rule lp_owner_claimE)
  fix sender s s' v and pl :: lp_pool
  assume "lp_pools w p = Some pl" and "v = ft_balance_of (lp_buy_token_id pl) (lp_escrow_account pl) s"
    and s': "ft_do_transfer (lp_buy_token_id pl) (lp_escrow_account pl) sender v s = Inr s'"
    and "w' = lp_deposit_event (LpOwnerClaim sender p (lp_raise_amount pl) v) (w\<lparr>lp_ft := s'\<rparr>)"
  then show ?thesis
    using ftl.move_from [OF s'] assms(2,3)
    by (simp add: ft_balance_of_def fa_escrow_account_id_def lp_escrow_account_id_def unat_eq_zero)
qed

text \<open>All of it goes to the owner of the launchpad pool.\<close>

lemma lp_owner_claim_takes:
  assumes "lp_owner_claim E orig p w = Inr w'" and "lp_pools w p = Some pool"
  defines "t \<equiv> lp_buy_token_id pool"
  shows "ft_balance_of t (lp_escrow_account pool) (lp_ft w') = 0"
    and "unat (ft_balance_of t (lp_owner pool) (lp_ft w')) =
      unat (ft_balance_of t (lp_owner pool) (lp_ft w)) + unat (ft_balance_of t (lp_escrow_account pool) (lp_ft w))"
proof -
  from assms(1, 2) obtain s s' v
    where s: "ft_do_transfer (lp_sale_token_id pool) (lp_escrow_account pool) (lp_owner pool) (lp_raise_amount pool) (lp_ft w) = Inr s"
      and v: "v = ft_balance_of t (lp_escrow_account pool) s"
      and s': "ft_do_transfer t (lp_escrow_account pool) (lp_owner pool) v s = Inr s'"
      and w': "lp_ft w' = s'"
    by (auto elim!: lp_owner_claimE simp: t_def)
  show "ft_balance_of t (lp_escrow_account pool) (lp_ft w') = 0"
    using ftl.move_from [OF s'] v w' by (simp add: ft_balance_of_def unat_eq_zero)
  have "unat (ft_balances s (t, lp_owner pool)) + unat (ft_balances s (t, lp_escrow_account pool)) =
      unat (ft_balances (lp_ft w) (t, lp_owner pool)) + unat (ft_balances (lp_ft w) (t, lp_escrow_account pool))"
    using ftl.move_from [OF s] ftl.move_to [OF s] ftl.move_frame [OF s, of t] by (cases "t = lp_sale_token_id pool") auto
  then show "unat (ft_balance_of t (lp_owner pool) (lp_ft w')) =
      unat (ft_balance_of t (lp_owner pool) (lp_ft w)) + unat (ft_balance_of t (lp_escrow_account pool) (lp_ft w))"
    using ftl.move_to [OF s'] v w' by (simp add: ft_balance_of_def)
qed

lemmas lp_eval =
  lp_create_pool_def lp_buy_token_def lp_claim_def lp_owner_claim_def lp_on_ft_def focus_def
  lp_escrow_account_id_def env_example_def ft_do_transfer_def ft_internal_transfer_def
  ft_decrease_balance_def ft_increase_balance_def checked_add_def checked_sub_def lp_deposit_event_def
  ft_deposit_event_def saturating_add_def saturating_sub_def saturating_mul_def ok_or_def ensure_def
  ft_token_decimals_def ft_metadata_def ft_balance_of_def

text \<open>
  The owner can claim again and again. The claim of the owner does not record that the unsold
  tokens are gone: in a sale of 100 tokens of which 60 are sold, two claims of the owner take 80, and
  the buyer's claim fails.
\<close>

theorem lp_owner_claim_repeats:
  "\<exists>w1 w2. lp_owner_claim env_example (Signed 1) 0 lp_sale_example = Inr w1
     \<and> lp_owner_claim env_example (Signed 1) 0 w1 = Inr w2
     \<and> lp_claim env_example (Signed 2) 0 w2 = Inl (TokenFungibleError FtInsufficientTokens)"
  by (simp add: lp_eval lp_sale_example_def lp_example_def)

text \<open>
  A sale can sell more than it has. Buying does not look at the amount left: with 40 tokens left, a
  purchase of 300 goes through and is paid for, and the claim for it fails.
\<close>

theorem lp_oversell:
  "\<exists>w1. lp_buy_token (env_example\<lparr>env_now := 5\<rparr>) (Signed 2) 0 300 lp_sale_example = Inr w1
     \<and> map_option lp_balance (lp_locked w1 (2, 0)) = Some 360
     \<and> lp_claim env_example (Signed 2) 0 w1 = Inl (TokenFungibleError FtInsufficientTokens)"
  by (simp add: lp_eval lp_sale_example_def lp_example_def)

section \<open>Concrete instances\<close>

lemma lp_escrow_fa: "lp_escrow_account_id = fa_escrow_account_id"
  by (simp add: fun_eq_iff lp_escrow_account_id_def fa_escrow_account_id_def)

lemmas lp_example_env = fa_example_env [folded lp_escrow_fa, unfolded fa_escrows_def, folded lp_escrow_fa, folded lp_escrows_def]

lemma lp_example_inv: "lp_inv env_example lp_example"
  by (simp add: lp_inv_def lp_example_def lp_info_ok_def lp_bought_def lp_claimed_def lp_owner_taken_def ft_protected_def)

lemma lp_example_run: "lp_reach env_example lp_example lp_sale_example"
proof -
  have users: "\<forall>a \<in> lp_escrows env_example. Signed 1 \<noteq> Signed a" "\<forall>a \<in> lp_escrows env_example. Signed 2 \<noteq> Signed a"
    using lp_example_env(2) [of 1] lp_example_env(2) [of 2] by auto
  obtain w1 where w1: "lp_create_pool (env_example\<lparr>env_now := 1\<rparr>) (Signed 1) 1 10 7 5 100 2 lp_example = Inr w1"
    by (simp add: lp_eval lp_example_def)
  have "lp_reach env_example lp_example w1"
    by (rule lp_reach.launchpad [OF lp_reach.start users(1), where now = 1 and c = "LpCreatePool 1 10 7 5 100 2"])
      (simp add: w1)
  moreover have "lp_buy_token (env_example\<lparr>env_now := 5\<rparr>) (Signed 2) 0 60 w1 = Inr lp_sale_example"
    using w1 by (auto simp: lp_eval lp_example_def lp_sale_example_def fun_eq_iff)
  ultimately show ?thesis
    using lp_reach.launchpad [OF _ users(2), where now = 5 and c = "LpBuyTokenCall 0 60"] by fastforce
qed

lemma lp_sale_example_sums:
  "lp_sold lp_sale_example 0 = 60" "lp_owner_taken lp_sale_example 0 = 0" "ft_sum (lp_ft lp_sale_example) 7 = 100"
proof -
  have "lp_bought lp_sale_example 0 = (\<lambda>a. if 2 = a then 60 else 0)"
    by (auto simp: lp_bought_def lp_sale_example_def)
  then show "lp_sold lp_sale_example 0 = 60" by (simp add: lp_sold_def)
  show "lp_owner_taken lp_sale_example 0 = 0" by (simp add: lp_owner_taken_def lp_sale_example_def)
  have "(\<lambda>a. ft_balances (lp_ft lp_sale_example) (7, a)) = (\<lambda>_. 0)(2000 := 100)"
    by (simp add: fun_eq_iff lp_sale_example_def)
  then show "ft_sum (lp_ft lp_sale_example) 7 = 100" unfolding ft_sum_def by (simp only: total_of_single) simp
qed

theorem lp_records_exact_witness:
  "\<exists>pool i. lp_pools lp_sale_example 0 = Some pool \<and> lp_locked lp_sale_example (2, 0) = Some i
     \<and> unat (lp_balance i) = min (2 ^ 128 - 1) (lp_bought lp_sale_example 0 2)
     \<and> unat (lp_raise_amount pool) = unat (lp_total_sale_amount pool) - lp_sold lp_sale_example 0"
proof -
  have "\<exists>pool i. lp_pools lp_sale_example 0 = Some pool \<and> lp_locked lp_sale_example (2, 0) = Some i"
    by (simp add: lp_sale_example_def)
  then show ?thesis
    using lp_records_exact [OF lp_example_run lp_example_inv lp_example_env(1)] by blast
qed

theorem lp_claim_live_witness:
  "\<exists>w' i. lp_claim env_example (Signed 2) 0 lp_sale_example = Inr w' \<and> lp_locked w' (2, 0) = Some i \<and> lp_is_claimed i"
proof -
  obtain pool i where "lp_pools lp_sale_example 0 = Some pool" "lp_locked lp_sale_example (2, 0) = Some i"
    "\<not> lp_is_claimed i" "lp_sale_token_id pool \<noteq> lp_buy_token_id pool" "lp_sale_token_id pool = 7"
    "lp_sold lp_sale_example 0 + lp_owner_taken lp_sale_example 0 \<le> unat (lp_total_sale_amount pool)"
    "lp_sale_end pool < env_now env_example"
    unfolding lp_sale_example_sums by (auto simp: lp_sale_example_def env_example_def)
  moreover have "2 \<noteq> lp_escrow_account_id env_example 0"
    using lp_example_env(2) [of 2] by (auto simp: lp_escrows_def)
  ultimately show ?thesis
    using lp_claim_live [OF lp_example_run lp_example_inv lp_example_env(1), of 0 pool 2 i] lp_sale_example_sums(3)
    by auto
qed

theorem lp_pool_permanent_witness:
  "\<exists>v \<le> 40. map_option lp_raise_amount
     (lp_pools (exec (lp_dispatch env_example) [(5, Signed 2, LpBuyTokenCall 0 10)] lp_sale_example) 0) = Some v"
proof -
  obtain pool where "lp_pools lp_sale_example 0 = Some pool" "0 < lp_next_pool_id lp_sale_example" "lp_raise_amount pool = 40"
    by (simp add: lp_sale_example_def)
  with lp_pool_permanent [of lp_sale_example 0 pool env_example "[(5, Signed 2, LpBuyTokenCall 0 10)]"]
  show ?thesis by auto
qed

theorem lp_owner_claim_empties_witness:
  "\<exists>w'. lp_owner_claim env_example (Signed 1) 0 lp_sale_example = Inr w'
     \<and> ft_balance_of 5 (fa_escrow_account_id env_example 0) (lp_ft lp_sale_example) = 120
     \<and> ft_balance_of 5 (fa_escrow_account_id env_example 0) (lp_ft w') = 0"
proof -
  obtain pool w' where "lp_pools lp_sale_example 0 = Some pool"
    "lp_escrow_account pool = lp_escrow_account_id env_example 0" "lp_buy_token_id pool = 5"
    "lp_owner_claim env_example (Signed 1) 0 lp_sale_example = Inr w'"
    by (simp add: lp_eval lp_sale_example_def lp_example_def)
  moreover have "ft_balance_of 5 (fa_escrow_account_id env_example 0) (lp_ft lp_sale_example) = 120"
    by (simp add: ft_balance_of_def fa_escrow_account_id_def env_example_def lp_sale_example_def)
  ultimately show ?thesis using lp_owner_claim_empties by metis
qed

end
