(* ===== verification/Marketplace.thy ===== *)
theory Marketplace
  imports TokenNonFungible TokenMulti
begin

text \<open>
  The marketplace pallet (\<open>pallets/marketplace\<close>): a seller puts a non-fungible token, or one unit
  of a multi token, up for sale; the asset waits in the account of the pallet until the order is
  executed, cancelled, or a bid on it is accepted. Payments are in the native currency; the money
  of a bid waits in the account of the administrator.
\<close>

section \<open>Storage, events and calls\<close>

definition MIN_DURATION :: u32 where "MIN_DURATION = 100"

definition MIN_PRICE :: u128 where "MIN_PRICE = 10000"

datatype mp_asset = NonFungibleToken u128 u128 | MultiToken u128 u128 | ErrorToken

record mp_order =
  mp_creater :: account
  mp_price :: u128
  mp_start :: u32
  mp_duration :: u32

datatype mp_event =
    MpOrderCreated account mp_asset mp_order
  | MpOrderCancelled account mp_asset
  | MpOrderExecuted account mp_asset mp_order
  | MpBidCreated account mp_asset mp_order
  | MpBidCancelled account mp_asset
  | MpBidAccepted account mp_asset mp_order

record 'c mp_world =
  mp_nft :: nft_storage
  mp_mt :: mt_storage
  mp_cur :: 'c
  mp_admin :: "account option"
  mp_point :: u8
  mp_orders :: "mp_asset \<rightharpoonup> mp_order"
  mp_bids :: "mp_asset \<rightharpoonup> mp_order"
  mp_events :: "mp_event list"

datatype mp_call =
    MpSetAdmin account
  | MpSetServiceFeePoint u8
  | MpCreateOrder mp_asset u128 u32
  | MpCancelOrder mp_asset
  | MpExecuteOrder mp_asset
  | MpPlaceBid mp_asset u128 u32
  | MpCancelBid mp_asset
  | MpAcceptBid mp_asset

text \<open>Genesis sets the administrator when the chain specification names one.\<close>

definition mp_build :: "account option \<Rightarrow> 'c mp_world \<Rightarrow> 'c mp_world" where
  "mp_build admin_key w = (case admin_key of Some key \<Rightarrow> w\<lparr>mp_admin := Some key\<rparr> | None \<Rightarrow> w)"

section \<open>Operations\<close>

definition mp_deposit_event :: "mp_event \<Rightarrow> 'c mp_world \<Rightarrow> 'c mp_world" where
  "mp_deposit_event e w = w\<lparr>mp_events := mp_events w @ [e]\<rparr>"

definition mp_on_nft :: "(nft_storage \<Rightarrow> nft_storage dispatch) \<Rightarrow> 'c mp_world \<Rightarrow> 'c mp_world dispatch" where
  "mp_on_nft = focus mp_nft (\<lambda>s w. w\<lparr>mp_nft := s\<rparr>)"

definition mp_on_mt :: "(mt_storage \<Rightarrow> mt_storage dispatch) \<Rightarrow> 'c mp_world \<Rightarrow> 'c mp_world dispatch" where
  "mp_on_mt = focus mp_mt (\<lambda>s w. w\<lparr>mp_mt := s\<rparr>)"

definition mp_pay :: "'c currency \<Rightarrow> account \<Rightarrow> account \<Rightarrow> u128 \<Rightarrow> 'c mp_world \<Rightarrow> 'c mp_world dispatch" where
  "mp_pay C frm to v = focus mp_cur (\<lambda>c w. w\<lparr>mp_cur := c\<rparr>) (cur_transfer C frm to v KeepAlive)"

definition mp_account_id :: "env \<Rightarrow> account" where
  "mp_account_id E = into_account E MarketplacePalletId"

definition mp_is_admin :: "account \<Rightarrow> 'c mp_world \<Rightarrow> bool" where
  "mp_is_admin who w \<longleftrightarrow> mp_admin w = Some who"

text \<open>\<open>value / 10000 * point\<close>, in this order.\<close>

definition mp_calculate_service_fee :: "u128 \<Rightarrow> u8 \<Rightarrow> u128" where
  "mp_calculate_service_fee v fee_point = v div 10000 * ucast fee_point"

text \<open>\<open>start + duration >= now\<close>: the sum of the block numbers wraps.\<close>

definition mp_alive :: "env \<Rightarrow> mp_order \<Rightarrow> bool" where
  "mp_alive E order \<longleftrightarrow> env_now E \<le> mp_start order + mp_duration order"

fun mp_transfer_asset_to :: "account \<Rightarrow> mp_asset \<Rightarrow> account \<Rightarrow> 'c mp_world \<Rightarrow> 'c mp_world dispatch" where
  "mp_transfer_asset_to frm (NonFungibleToken group_id token_id) to w =
     mp_on_nft (nft_do_transfer_from frm group_id frm to token_id) w"
| "mp_transfer_asset_to frm (MultiToken group_id token_id) to w =
     mp_on_mt (mt_do_transfer_from frm group_id frm to token_id 1) w"
| "mp_transfer_asset_to frm ErrorToken to w = Inl (MarketplaceError MpAssetTypeError)"

definition mp_do_cancel_bid :: "'c currency \<Rightarrow> mp_asset \<Rightarrow> mp_order \<Rightarrow> 'c mp_world \<Rightarrow> 'c mp_world dispatch" where
  "mp_do_cancel_bid C asset bid w =
     and_then (ok_or (mp_admin w) (MarketplaceError MpNotSetAdmin)) (\<lambda>admin.
     and_then (mp_pay C admin (mp_creater bid) (mp_price bid) w) (\<lambda>w.
     Inr (mp_deposit_event (MpBidCancelled (mp_creater bid) asset)
       (w\<lparr>mp_bids := (mp_bids w)(asset := None)\<rparr>))))"

text \<open>The three calls that remove a pending bid share this step.\<close>

definition mp_refund_bid :: "'c currency \<Rightarrow> mp_asset \<Rightarrow> 'c mp_world \<Rightarrow> 'c mp_world dispatch" where
  "mp_refund_bid C asset w =
     (case mp_bids w asset of None \<Rightarrow> Inr w | Some bid \<Rightarrow> mp_do_cancel_bid C asset bid w)"

section \<open>Dispatchable calls\<close>

definition mp_set_admin :: "origin \<Rightarrow> account \<Rightarrow> 'c mp_world \<Rightarrow> 'c mp_world dispatch" where
  "mp_set_admin orig new_admin w = and_then (ensure_root orig) (\<lambda>_. Inr (w\<lparr>mp_admin := Some new_admin\<rparr>))"

definition mp_set_service_fee_point :: "origin \<Rightarrow> u8 \<Rightarrow> 'c mp_world \<Rightarrow> 'c mp_world dispatch" where
  "mp_set_service_fee_point orig new_point w =
     and_then (ensure_signed orig) (\<lambda>who.
     ensure (mp_is_admin who w) (MarketplaceError MpNotAdmin) (
     Inr (w\<lparr>mp_point := new_point\<rparr>)))"

definition mp_create_order ::
  "env \<Rightarrow> origin \<Rightarrow> mp_asset \<Rightarrow> u128 \<Rightarrow> u32 \<Rightarrow> 'c mp_world \<Rightarrow> 'c mp_world dispatch" where
  "mp_create_order E orig asset price duration w =
     and_then (ensure_signed orig) (\<lambda>who.
     ensure (MIN_PRICE \<le> price) (MarketplaceError MpTooLittlePrice) (
     ensure (MIN_DURATION \<le> duration) (MarketplaceError MpTooLittleDuration) (
     and_then (mp_transfer_asset_to who asset (mp_account_id E) w) (\<lambda>w.
     let order = \<lparr>mp_creater = who, mp_price = price, mp_start = env_now E, mp_duration = duration\<rparr> in
     Inr (mp_deposit_event (MpOrderCreated who asset order)
       (w\<lparr>mp_orders := (mp_orders w)(asset \<mapsto> order)\<rparr>))))))"

definition mp_cancel_order ::
  "'c currency \<Rightarrow> env \<Rightarrow> origin \<Rightarrow> mp_asset \<Rightarrow> 'c mp_world \<Rightarrow> 'c mp_world dispatch" where
  "mp_cancel_order C E orig asset w =
     and_then (ensure_signed orig) (\<lambda>who.
     and_then (ok_or (mp_orders w asset) (MarketplaceError MpOrderNotFound)) (\<lambda>order.
     ensure (mp_creater order = who) (MarketplaceError MpNotSeller) (
     and_then (mp_refund_bid C asset w) (\<lambda>w.
     and_then (mp_transfer_asset_to (mp_account_id E) asset who w) (\<lambda>w.
     Inr (mp_deposit_event (MpOrderCancelled who asset)
       (w\<lparr>mp_orders := (mp_orders w)(asset := None)\<rparr>)))))))"

definition mp_execute_order ::
  "'c currency \<Rightarrow> env \<Rightarrow> origin \<Rightarrow> mp_asset \<Rightarrow> 'c mp_world \<Rightarrow> 'c mp_world dispatch" where
  "mp_execute_order C E orig asset w =
     and_then (ensure_signed orig) (\<lambda>who.
     and_then (ok_or (mp_orders w asset) (MarketplaceError MpOrderNotFound)) (\<lambda>order.
     ensure (mp_alive E order) (MarketplaceError MpOrderExpired) (
     and_then (case mp_admin w of
                 Some admin \<Rightarrow>
                   let service_fee = mp_calculate_service_fee (mp_price order) (mp_point w) in
                   and_then (mp_pay C who admin service_fee w) (\<lambda>w. Inr (service_fee, w))
               | None \<Rightarrow> Inr (0, w)) (\<lambda>(service_fee, w).
     and_then (mp_refund_bid C asset w) (\<lambda>w.
     let to_seller = saturating_sub (mp_price order) service_fee in
     and_then (mp_pay C who (mp_creater order) to_seller w) (\<lambda>w.
     and_then (mp_transfer_asset_to (mp_account_id E) asset who w) (\<lambda>w.
     Inr (mp_deposit_event (MpOrderExecuted who asset order)
       (w\<lparr>mp_orders := (mp_orders w)(asset := None)\<rparr>)))))))))"

definition mp_place_bid ::
  "'c currency \<Rightarrow> env \<Rightarrow> origin \<Rightarrow> mp_asset \<Rightarrow> u128 \<Rightarrow> u32 \<Rightarrow> 'c mp_world \<Rightarrow> 'c mp_world dispatch" where
  "mp_place_bid C E orig asset price duration w =
     and_then (ensure_signed orig) (\<lambda>who.
     and_then (ok_or (mp_orders w asset) (MarketplaceError MpOrderNotFound)) (\<lambda>order.
     ensure (mp_alive E order) (MarketplaceError MpOrderExpired) (
     ensure (MIN_PRICE \<le> price) (MarketplaceError MpTooLittlePrice) (
     and_then (case mp_bids w asset of
                 None \<Rightarrow> Inr w
               | Some bid \<Rightarrow> ensure (mp_alive E bid \<longrightarrow> mp_price bid < price) (MarketplaceError MpNeedHigherPrice) (
                   mp_do_cancel_bid C asset bid w)) (\<lambda>w.
     and_then (ok_or (mp_admin w) (MarketplaceError MpNotSetAdmin)) (\<lambda>admin.
     and_then (mp_pay C who admin price w) (\<lambda>w.
     let bid = \<lparr>mp_creater = who, mp_price = price, mp_start = env_now E, mp_duration = duration\<rparr> in
     Inr (mp_deposit_event (MpBidCreated who asset bid)
       (w\<lparr>mp_bids := (mp_bids w)(asset \<mapsto> bid)\<rparr>)))))))))"

definition mp_cancel_bid :: "'c currency \<Rightarrow> origin \<Rightarrow> mp_asset \<Rightarrow> 'c mp_world \<Rightarrow> 'c mp_world dispatch" where
  "mp_cancel_bid C orig asset w =
     and_then (ensure_signed orig) (\<lambda>who.
     and_then (ok_or (mp_bids w asset) (MarketplaceError MpBidNotFound)) (\<lambda>bid.
     ensure (mp_creater bid = who) (MarketplaceError MpNotBidder) (
     mp_do_cancel_bid C asset bid w)))"

definition mp_accept_bid ::
  "'c currency \<Rightarrow> env \<Rightarrow> origin \<Rightarrow> mp_asset \<Rightarrow> 'c mp_world \<Rightarrow> 'c mp_world dispatch" where
  "mp_accept_bid C E orig asset w =
     and_then (ensure_signed orig) (\<lambda>who.
     and_then (ok_or (mp_orders w asset) (MarketplaceError MpOrderNotFound)) (\<lambda>order.
     ensure (mp_creater order = who) (MarketplaceError MpNotSeller) (
     and_then (ok_or (mp_bids w asset) (MarketplaceError MpBidNotFound)) (\<lambda>bid.
     ensure (mp_alive E bid) (MarketplaceError MpBidExpired) (
     let service_fee = mp_calculate_service_fee (mp_price bid) (mp_point w);
         to_seller = saturating_sub (mp_price bid) service_fee in
     and_then (ok_or (mp_admin w) (MarketplaceError MpNotSetAdmin)) (\<lambda>admin.
     and_then (mp_pay C admin (mp_creater order) to_seller w) (\<lambda>w.
     and_then (mp_transfer_asset_to (mp_account_id E) asset (mp_creater bid) w) (\<lambda>w.
     Inr (mp_deposit_event (MpBidAccepted who asset bid)
       (w\<lparr>mp_orders := (mp_orders w)(asset := None), mp_bids := (mp_bids w)(asset := None)\<rparr>))))))))))"

fun mp_call_dispatch ::
  "'c currency \<Rightarrow> env \<Rightarrow> origin \<Rightarrow> mp_call \<Rightarrow> 'c mp_world \<Rightarrow> 'c mp_world dispatch" where
  "mp_call_dispatch C E orig (MpSetAdmin a) w = mp_set_admin orig a w"
| "mp_call_dispatch C E orig (MpSetServiceFeePoint p) w = mp_set_service_fee_point orig p w"
| "mp_call_dispatch C E orig (MpCreateOrder x v d) w = mp_create_order E orig x v d w"
| "mp_call_dispatch C E orig (MpCancelOrder x) w = mp_cancel_order C E orig x w"
| "mp_call_dispatch C E orig (MpExecuteOrder x) w = mp_execute_order C E orig x w"
| "mp_call_dispatch C E orig (MpPlaceBid x v d) w = mp_place_bid C E orig x v d w"
| "mp_call_dispatch C E orig (MpCancelBid x) w = mp_cancel_bid C orig x w"
| "mp_call_dispatch C E orig (MpAcceptBid x) w = mp_accept_bid C E orig x w"

section \<open>Specification\<close>

text \<open>An account has an asset: it owns the token, or holds at least one unit of it.\<close>

fun mp_holds :: "account \<Rightarrow> mp_asset \<Rightarrow> 'c mp_world \<Rightarrow> bool" where
  "mp_holds a (NonFungibleToken g t) w \<longleftrightarrow> nft_owners (mp_nft w) (g, t) = Some a"
| "mp_holds a (MultiToken g t) w \<longleftrightarrow> mt_balances (mp_mt w) (g, t, a) \<noteq> 0"
| "mp_holds a ErrorToken w \<longleftrightarrow> False"

text \<open>
  The account of the pallet has every asset on sale, belongs to no seller and has approved nobody,
  and every bid is on an asset on sale.
\<close>

definition mp_inv :: "env \<Rightarrow> 'c mp_world \<Rightarrow> bool" where
  "mp_inv E w \<longleftrightarrow>
     nft_inv (mp_nft w) \<and> nft_guarded (mp_account_id E) (mp_nft w) \<and> mt_guarded (mp_account_id E) (mp_mt w) \<and>
     (\<forall>x order. mp_orders w x = Some order \<longrightarrow> mp_holds (mp_account_id E) x w \<and> mp_creater order \<noteq> mp_account_id E) \<and>
     dom (mp_bids w) \<subseteq> dom (mp_orders w)"

text \<open>
  The states that calls of the marketplace and of the two token pallets lead to, none signed by the
  account of the marketplace, with the native currency changing in between in any way.
\<close>

inductive mp_reach :: "'c currency \<Rightarrow> env \<Rightarrow> 'c mp_world \<Rightarrow> 'c mp_world \<Rightarrow> bool" for C E w0 where
  start: "mp_reach C E w0 w0"
| market: "mp_reach C E w0 w \<Longrightarrow> orig \<noteq> Signed (mp_account_id E) \<Longrightarrow>
    mp_call_dispatch C (E\<lparr>env_now := n\<rparr>) orig c w = Inr w' \<Longrightarrow> mp_reach C E w0 w'"
| nft: "mp_reach C E w0 w \<Longrightarrow> orig \<noteq> Signed (mp_account_id E) \<Longrightarrow>
    mp_on_nft (nft_dispatch (orig, nc)) w = Inr w' \<Longrightarrow> mp_reach C E w0 w'"
| multi: "mp_reach C E w0 w \<Longrightarrow> orig \<noteq> Signed (mp_account_id E) \<Longrightarrow>
    mp_on_mt (mt_dispatch (orig, mc)) w = Inr w' \<Longrightarrow> mp_reach C E w0 w'"
| currency: "mp_reach C E w0 w \<Longrightarrow> mp_reach C E w0 (w\<lparr>mp_cur := c\<rparr>)"

text \<open>
  A state for the concrete instances: account 2 owns token 5 of the non-fungible collection 1, accounts
  2 and 3 hold units of token 5 of the multi token collection 1, account 4 has money, account 9
  is the administrator.
\<close>

definition mp_example :: "(account \<Rightarrow> u128) mp_world" where
  "mp_example =
     \<lparr>mp_nft = exec nft_dispatch [(Signed 1, NftCreateToken 1 [] [] [47]), (Signed 1, NftMint 1 2 5)] nft_genesis,
      mp_mt = mt_genesis\<lparr>mt_balances := (\<lambda>_. 0)((1, 5, 2) := 3, (1, 5, 3) := 3)\<rparr>,
      mp_cur = (\<lambda>_. 0)(4 := 1000000), mp_admin = Some 9, mp_point = 100,
      mp_orders = Map.empty, mp_bids = Map.empty, mp_events = []\<rparr>"

section \<open>What the operations do\<close>

lemma mp_account_now [simp]: "mp_account_id (E\<lparr>env_now := n\<rparr>) = mp_account_id E"
  by (simp add: mp_account_id_def)

lemma mp_deposit_event_simps [simp]:
  "mp_nft (mp_deposit_event e w) = mp_nft w"
  "mp_mt (mp_deposit_event e w) = mp_mt w"
  "mp_cur (mp_deposit_event e w) = mp_cur w"
  "mp_admin (mp_deposit_event e w) = mp_admin w"
  "mp_orders (mp_deposit_event e w) = mp_orders w"
  "mp_bids (mp_deposit_event e w) = mp_bids w"
  by (simp_all add: mp_deposit_event_def)

lemma mp_pay_ok: "mp_pay C a b v w = Inr w' \<longleftrightarrow>
    (\<exists>c. cur_transfer C a b v KeepAlive (mp_cur w) = Inr c \<and> w' = w\<lparr>mp_cur := c\<rparr>)"
  by (simp add: mp_pay_def result_eqs)

lemma mp_on_nft_ok: "mp_on_nft f w = Inr w' \<longleftrightarrow> (\<exists>s. f (mp_nft w) = Inr s \<and> w' = w\<lparr>mp_nft := s\<rparr>)"
  by (simp add: mp_on_nft_def result_eqs)

lemma mp_on_mt_ok: "mp_on_mt f w = Inr w' \<longleftrightarrow> (\<exists>s. f (mp_mt w) = Inr s \<and> w' = w\<lparr>mp_mt := s\<rparr>)"
  by (simp add: mp_on_mt_def result_eqs)

lemma mp_holds_cong:
  "mp_nft w' = mp_nft w \<Longrightarrow> mp_mt w' = mp_mt w \<Longrightarrow> mp_holds a x w' \<longleftrightarrow> mp_holds a x w"
  by (cases x) simp_all

lemma mp_cancel_bidE:
  assumes "mp_do_cancel_bid C x bid w = Inr w'"
  obtains c ev where "w' = w\<lparr>mp_cur := c, mp_bids := (mp_bids w)(x := None), mp_events := ev\<rparr>"
  using assms by (auto simp: mp_do_cancel_bid_def result_eqs mp_pay_ok mp_deposit_event_def)

lemma mp_refundE:
  assumes "mp_refund_bid C x w = Inr w'"
  obtains c ev where "w' = w\<lparr>mp_cur := c, mp_bids := (mp_bids w)(x := None), mp_events := ev\<rparr>"
proof (cases "mp_bids w x")
  case None
  with assms have "w' = w\<lparr>mp_cur := mp_cur w, mp_bids := (mp_bids w)(x := None), mp_events := mp_events w\<rparr>"
    by (simp add: mp_refund_bid_def fun_upd_idem)
  then show thesis by (rule that)
next
  case (Some bid)
  with assms have "mp_do_cancel_bid C x bid w = Inr w'" by (simp add: mp_refund_bid_def)
  then show thesis by (rule mp_cancel_bidE) (rule that)
qed

lemma mp_transferE:
  assumes "mp_transfer_asset_to frm x to w = Inr w'" and inv: "nft_inv (mp_nft w)"
  obtains s m where "w' = w\<lparr>mp_nft := s, mp_mt := m\<rparr>" and "nft_inv s"
    and "\<And>a. nft_guarded a (mp_nft w) \<Longrightarrow> nft_guarded a s" and "\<And>a. mt_guarded a (mp_mt w) \<Longrightarrow> mt_guarded a m"
    and "mp_holds to x w'" and "\<And>a y. y \<noteq> x \<Longrightarrow> mp_holds a y w' \<longleftrightarrow> mp_holds a y w"
proof (cases x)
  case (NonFungibleToken g t)
  with assms obtain s where s: "nft_do_transfer g frm to t (mp_nft w) = Inr s" and w': "w' = w\<lparr>mp_nft := s, mp_mt := mp_mt w\<rparr>"
    by (auto simp: mp_on_nft_ok nft_do_transfer_from_ok)
  have own: "nft_owners s = (nft_owners (mp_nft w))((g, t) \<mapsto> to)"
    by (rule nft_do_transfer_owners [OF s inv])
  show thesis
  proof (rule that [OF w'])
    show "mp_holds a y w' \<longleftrightarrow> mp_holds a y w" if "y \<noteq> x" for a y
      using that NonFungibleToken by (cases y) (auto simp: w' own)
  qed (use nft_do_transfer_inv [OF inv s] nft_do_transfer_guarded [OF inv s] own NonFungibleToken w' in simp_all)
next
  case (MultiToken g t)
  with assms obtain m where m: "mt_do_transfer_from frm g frm to t 1 (mp_mt w) = Inr m" and w': "w' = w\<lparr>mp_nft := mp_nft w, mp_mt := m\<rparr>"
    by (auto simp: mp_on_mt_ok)
  have bal: "mt_balances m (i, u, a) = mt_balances (mp_mt w) (i, u, a)" if "(i, u) \<noteq> (g, t)" for i u a
    using m that by (auto simp: mt_do_transfer_from_ok mt_transfer_one_ok split: if_splits)
  have own: "mt_balances m (g, t, to) \<noteq> 0"
    using m by (auto simp: mt_do_transfer_from_ok mt_transfer_one_ok word_le_nat_alt unat_eq_zero split: if_splits)
  have gd: "mt_operator_approvals m = mt_operator_approvals (mp_mt w)"
    using m by (auto simp: mt_do_transfer_from_ok mt_transfer_one_ok split: if_splits)
  show thesis
  proof (rule that [OF w'])
    show "mp_holds a y w' \<longleftrightarrow> mp_holds a y w" if "y \<noteq> x" for a y
      using that MultiToken bal by (cases y) (auto simp: w')
  qed (use inv own gd MultiToken w' in \<open>simp_all add: mt_guarded_def\<close>)
qed (use assms in simp)

lemma mp_create_orderE:
  assumes "mp_create_order E orig x v d w = Inr w'"
  obtains who w1 order where "orig = Signed who" and "mp_transfer_asset_to who x (mp_account_id E) w = Inr w1"
    and "order = \<lparr>mp_creater = who, mp_price = v, mp_start = env_now E, mp_duration = d\<rparr>"
    and "w' = mp_deposit_event (MpOrderCreated who x order) (w1\<lparr>mp_orders := (mp_orders w1)(x \<mapsto> order)\<rparr>)"
  using assms by (auto simp: mp_create_order_def result_eqs Let_def)

lemma mp_cancel_orderE:
  assumes "mp_cancel_order C E orig x w = Inr w'"
  obtains who order w1 w2 where "orig = Signed who" and "mp_orders w x = Some order" and "mp_creater order = who"
    and "mp_refund_bid C x w = Inr w1" and "mp_transfer_asset_to (mp_account_id E) x who w1 = Inr w2"
    and "w' = mp_deposit_event (MpOrderCancelled who x) (w2\<lparr>mp_orders := (mp_orders w2)(x := None)\<rparr>)"
  using assms by (auto simp: mp_cancel_order_def result_eqs)

definition mp_fee_paid :: "'c currency \<Rightarrow> account \<Rightarrow> mp_order \<Rightarrow> 'c mp_world \<Rightarrow> u128 \<Rightarrow> 'c \<Rightarrow> bool" where
  "mp_fee_paid C who order w fee c \<longleftrightarrow> (case mp_admin w of
     Some admin \<Rightarrow> fee = mp_calculate_service_fee (mp_price order) (mp_point w)
       \<and> cur_transfer C who admin fee KeepAlive (mp_cur w) = Inr c
   | None \<Rightarrow> fee = 0 \<and> c = mp_cur w)"

lemma mp_fee_step:
  "(case mp_admin w of
      Some admin \<Rightarrow>
        let service_fee = mp_calculate_service_fee (mp_price order) (mp_point w) in
        and_then (mp_pay C who admin service_fee w) (\<lambda>w. Inr (service_fee, w))
    | None \<Rightarrow> Inr (0, w)) = Inr (fee, w1)
   \<longleftrightarrow> (\<exists>c. mp_fee_paid C who order w fee c \<and> w1 = w\<lparr>mp_cur := c\<rparr>)"
  by (cases "mp_admin w") (auto simp: mp_fee_paid_def result_eqs Let_def mp_pay_ok)

lemma mp_execute_orderE:
  assumes "mp_execute_order C E orig x w = Inr w'"
  obtains who order fee c w1 c2 w3 where "orig = Signed who" and "mp_orders w x = Some order"
    and "mp_alive E order" and "mp_fee_paid C who order w fee c" and "mp_refund_bid C x (w\<lparr>mp_cur := c\<rparr>) = Inr w1"
    and "cur_transfer C who (mp_creater order) (saturating_sub (mp_price order) fee) KeepAlive (mp_cur w1) = Inr c2"
    and "mp_transfer_asset_to (mp_account_id E) x who (w1\<lparr>mp_cur := c2\<rparr>) = Inr w3"
    and "w' = mp_deposit_event (MpOrderExecuted who x order) (w3\<lparr>mp_orders := (mp_orders w3)(x := None)\<rparr>)"
  using assms
  by (auto simp: mp_execute_order_def result_eqs mp_fee_step mp_pay_ok Let_def)

lemma mp_place_bidE:
  assumes "mp_place_bid C E orig x v d w = Inr w'"
  obtains who order c ev bid where "orig = Signed who" and "mp_orders w x = Some order"
    and "w' = w\<lparr>mp_cur := c, mp_bids := (mp_bids w)(x \<mapsto> bid), mp_events := ev\<rparr>"
proof -
  from assms obtain who order w1 admin c where "orig = Signed who" "mp_orders w x = Some order"
    and w1: "(case mp_bids w x of None \<Rightarrow> Inr w
        | Some bid \<Rightarrow> ensure (mp_alive E bid \<longrightarrow> mp_price bid < v) (MarketplaceError MpNeedHigherPrice) (
            mp_do_cancel_bid C x bid w)) = Inr w1"
    and w': "w' = mp_deposit_event (MpBidCreated who x
        \<lparr>mp_creater = who, mp_price = v, mp_start = env_now E, mp_duration = d\<rparr>) (w1\<lparr>mp_cur := c, mp_bids :=
        (mp_bids w1)(x \<mapsto> \<lparr>mp_creater = who, mp_price = v, mp_start = env_now E, mp_duration = d\<rparr>)\<rparr>)"
    by (auto simp: mp_place_bid_def result_eqs mp_pay_ok Let_def)
  moreover have "\<exists>c ev. w1 = w\<lparr>mp_cur := c, mp_bids := (mp_bids w)(x := None), mp_events := ev\<rparr>"
  proof (cases "mp_bids w x")
    case None
    with w1 have "w1 = w\<lparr>mp_cur := mp_cur w, mp_bids := (mp_bids w)(x := None), mp_events := mp_events w\<rparr>"
      by (simp add: fun_upd_idem)
    then show ?thesis by blast
  next
    case (Some bid)
    with w1 have "mp_do_cancel_bid C x bid w = Inr w1" by (simp add: result_eqs)
    then show ?thesis by (rule mp_cancel_bidE) blast
  qed
  ultimately show thesis using that by (auto simp: mp_deposit_event_def)
qed

lemma mp_accept_bidE:
  assumes "mp_accept_bid C E orig x w = Inr w'"
  obtains who order bid admin c w1 where "orig = Signed who" and "mp_orders w x = Some order"
    and "mp_creater order = who" and "mp_bids w x = Some bid" and "mp_alive E bid" and "mp_admin w = Some admin"
    and "cur_transfer C admin (mp_creater order)
       (saturating_sub (mp_price bid) (mp_calculate_service_fee (mp_price bid) (mp_point w))) KeepAlive (mp_cur w) = Inr c"
    and "mp_transfer_asset_to (mp_account_id E) x (mp_creater bid) (w\<lparr>mp_cur := c\<rparr>) = Inr w1"
    and "w' = mp_deposit_event (MpBidAccepted who x bid)
       (w1\<lparr>mp_orders := (mp_orders w1)(x := None), mp_bids := (mp_bids w1)(x := None)\<rparr>)"
  using assms by (auto simp: mp_accept_bid_def result_eqs mp_pay_ok Let_def)

section \<open>The invariant\<close>

lemma mp_invD:
  assumes "mp_inv E w"
  shows "nft_inv (mp_nft w)" and "nft_guarded (mp_account_id E) (mp_nft w)" and "mt_guarded (mp_account_id E) (mp_mt w)"
    and "mp_orders w x = Some order \<Longrightarrow> mp_holds (mp_account_id E) x w"
    and "mp_orders w x = Some order \<Longrightarrow> mp_creater order \<noteq> mp_account_id E"
    and "dom (mp_bids w) \<subseteq> dom (mp_orders w)"
  using assms unfolding mp_inv_def by blast+

text \<open>One asset moves, and its order appears or goes away.\<close>

lemma mp_inv_moved:
  assumes inv: "mp_inv E w" and same: "mp_nft w1 = mp_nft w" "mp_mt w1 = mp_mt w"
    and tr: "mp_transfer_asset_to frm x to w1 = Inr w2" and w': "mp_nft w' = mp_nft w2" "mp_mt w' = mp_mt w2"
    and orders: "mp_orders w' = (mp_orders w)(x := y)"
    and y: "\<And>order. y = Some order \<Longrightarrow> to = mp_account_id E \<and> mp_creater order \<noteq> mp_account_id E"
    and bids: "dom (mp_bids w') \<subseteq> dom (mp_orders w')"
  shows "mp_inv E w'"
proof (rule mp_transferE [OF tr])
  show "nft_inv (mp_nft w1)" using mp_invD(1) [OF inv] same by simp
  fix s m
  assume w2: "w2 = w1\<lparr>mp_nft := s, mp_mt := m\<rparr>" and "nft_inv s"
    and guards: "\<And>a. nft_guarded a (mp_nft w1) \<Longrightarrow> nft_guarded a s" "\<And>a. mt_guarded a (mp_mt w1) \<Longrightarrow> mt_guarded a m"
    and to: "mp_holds to x w2" and other: "\<And>a z. z \<noteq> x \<Longrightarrow> mp_holds a z w2 \<longleftrightarrow> mp_holds a z w1"
  have "mp_holds (mp_account_id E) z w' \<and> mp_creater order \<noteq> mp_account_id E"
    if "mp_orders w' z = Some order" for z order
  proof (cases "z = x")
    case True
    with that orders y [of order] to show ?thesis by (simp add: mp_holds_cong [OF w'])
  next
    case False
    with that orders mp_invD(4,5) [OF inv, of z order] other [OF False] show ?thesis
      by (simp add: mp_holds_cong [OF w'] mp_holds_cong [OF same])
  qed
  with guards \<open>nft_inv s\<close> bids mp_invD(2,3) [OF inv] show ?thesis
    unfolding mp_inv_def by (simp add: w' same w2)
qed

lemma mp_inv_kept:
  assumes inv: "mp_inv E w" and same: "mp_nft w' = mp_nft w" "mp_mt w' = mp_mt w" "mp_orders w' = mp_orders w"
    and "dom (mp_bids w') \<subseteq> dom (mp_orders w)"
  shows "mp_inv E w'"
  using assms unfolding mp_inv_def same mp_holds_cong [OF same(1,2)] by blast

lemma mp_on_sale:
  assumes "mp_inv E w" and "mp_bids w x = Some b"
  shows "\<exists>order. mp_orders w x = Some order"
  using mp_invD(6) [OF assms(1)] assms(2) by blast

lemma mp_inv_cong:
  assumes "mp_nft w' = mp_nft w" and "mp_mt w' = mp_mt w" and "mp_orders w' = mp_orders w" and "mp_bids w' = mp_bids w"
  shows "mp_inv E w' \<longleftrightarrow> mp_inv E w"
  unfolding mp_inv_def assms mp_holds_cong [OF assms(1,2)] ..

lemma mp_inv_simps [simp]:
  "mp_inv E (w\<lparr>mp_admin := a\<rparr>) \<longleftrightarrow> mp_inv E w" "mp_inv E (w\<lparr>mp_point := p\<rparr>) \<longleftrightarrow> mp_inv E w"
  "mp_inv E (w\<lparr>mp_cur := c\<rparr>) \<longleftrightarrow> mp_inv E w"
  by (rule mp_inv_cong; simp)+

lemma mp_create_order_inv:
  assumes inv: "mp_inv E w" and orig: "orig \<noteq> Signed (mp_account_id E)"
    and call: "mp_create_order (E\<lparr>env_now := n\<rparr>) orig x v d w = Inr w'"
  shows "mp_inv E w'"
  using call
proof (rule mp_create_orderE)
  fix who w1 order
  assume "orig = Signed who" and tr: "mp_transfer_asset_to who x (mp_account_id (E\<lparr>env_now := n\<rparr>)) w = Inr w1"
    and "order = \<lparr>mp_creater = who, mp_price = v, mp_start = env_now (E\<lparr>env_now := n\<rparr>), mp_duration = d\<rparr>"
    and w': "w' = mp_deposit_event (MpOrderCreated who x order) (w1\<lparr>mp_orders := (mp_orders w1)(x \<mapsto> order)\<rparr>)"
  moreover obtain s m where "w1 = w\<lparr>mp_nft := s, mp_mt := m\<rparr>" by (rule mp_transferE [OF tr mp_invD(1) [OF inv]])
  ultimately show ?thesis
    using orig mp_on_sale [OF inv] by (intro mp_inv_moved [OF inv refl refl tr, where y = "Some order"]) auto
qed

lemma mp_cancel_order_inv:
  assumes inv: "mp_inv E w" and call: "mp_cancel_order C (E\<lparr>env_now := n\<rparr>) orig x w = Inr w'"
  shows "mp_inv E w'"
  using call
proof (rule mp_cancel_orderE)
  fix who order w1 w2
  assume re: "mp_refund_bid C x w = Inr w1"
    and tr: "mp_transfer_asset_to (mp_account_id (E\<lparr>env_now := n\<rparr>)) x who w1 = Inr w2"
    and w': "w' = mp_deposit_event (MpOrderCancelled who x) (w2\<lparr>mp_orders := (mp_orders w2)(x := None)\<rparr>)"
  from re obtain c1 ev where w1: "w1 = w\<lparr>mp_cur := c1, mp_bids := (mp_bids w)(x := None), mp_events := ev\<rparr>"
    by (rule mp_refundE)
  have "nft_inv (mp_nft w1)" using mp_invD(1) [OF inv] by (simp add: w1)
  then obtain s m where "w2 = w1\<lparr>mp_nft := s, mp_mt := m\<rparr>" by (rule mp_transferE [OF tr])
  then show ?thesis
    using mp_on_sale [OF inv]
    by (intro mp_inv_moved [OF inv _ _ tr, where y = None]) (auto simp: w' w1 split: if_splits)
qed

lemma mp_execute_order_inv:
  assumes inv: "mp_inv E w" and call: "mp_execute_order C (E\<lparr>env_now := n\<rparr>) orig x w = Inr w'"
  shows "mp_inv E w'"
  using call
proof (rule mp_execute_orderE)
  fix who order fee c w1 c2 w3
  assume re: "mp_refund_bid C x (w\<lparr>mp_cur := c\<rparr>) = Inr w1"
    and tr: "mp_transfer_asset_to (mp_account_id (E\<lparr>env_now := n\<rparr>)) x who (w1\<lparr>mp_cur := c2\<rparr>) = Inr w3"
    and w': "w' = mp_deposit_event (MpOrderExecuted who x order) (w3\<lparr>mp_orders := (mp_orders w3)(x := None)\<rparr>)"
  from re obtain c1 ev where w1: "w1 = w\<lparr>mp_cur := c1, mp_bids := (mp_bids w)(x := None), mp_events := ev\<rparr>"
    by (rule mp_refundE) simp
  have "nft_inv (mp_nft (w1\<lparr>mp_cur := c2\<rparr>))" using mp_invD(1) [OF inv] by (simp add: w1)
  then obtain s m where "w3 = w1\<lparr>mp_cur := c2, mp_nft := s, mp_mt := m\<rparr>" by (rule mp_transferE [OF tr])
  then show ?thesis
    using mp_on_sale [OF inv]
    by (intro mp_inv_moved [OF inv _ _ tr, where y = None]) (auto simp: w' w1 split: if_splits)
qed

lemma mp_accept_bid_inv:
  assumes inv: "mp_inv E w" and call: "mp_accept_bid C (E\<lparr>env_now := n\<rparr>) orig x w = Inr w'"
  shows "mp_inv E w'"
  using call
proof (rule mp_accept_bidE)
  fix who order bid admin c w1
  assume tr: "mp_transfer_asset_to (mp_account_id (E\<lparr>env_now := n\<rparr>)) x (mp_creater bid) (w\<lparr>mp_cur := c\<rparr>) = Inr w1"
    and w': "w' = mp_deposit_event (MpBidAccepted who x bid)
       (w1\<lparr>mp_orders := (mp_orders w1)(x := None), mp_bids := (mp_bids w1)(x := None)\<rparr>)"
  have "nft_inv (mp_nft (w\<lparr>mp_cur := c\<rparr>))" using mp_invD(1) [OF inv] by simp
  then obtain s m where "w1 = w\<lparr>mp_cur := c, mp_nft := s, mp_mt := m\<rparr>" by (rule mp_transferE [OF tr])
  then show ?thesis
    using mp_on_sale [OF inv] by (intro mp_inv_moved [OF inv _ _ tr, where y = None]) (auto simp: w' split: if_splits)
qed

lemma mp_bids_inv:
  assumes inv: "mp_inv E w" and w': "w' = w\<lparr>mp_cur := c, mp_bids := (mp_bids w)(x := b), mp_events := ev\<rparr>"
    and "b \<noteq> None \<Longrightarrow> mp_orders w x \<noteq> None"
  shows "mp_inv E w'"
  using mp_on_sale [OF inv] assms(3) by (intro mp_inv_kept [OF inv]) (auto simp: w' split: if_splits)

lemma mp_call_inv:
  assumes inv: "mp_inv E w" and orig: "orig \<noteq> Signed (mp_account_id E)"
    and call: "mp_call_dispatch C (E\<lparr>env_now := n\<rparr>) orig c w = Inr w'"
  shows "mp_inv E w'"
proof (cases c)
  case (MpPlaceBid x v d)
  with call have "mp_place_bid C (E\<lparr>env_now := n\<rparr>) orig x v d w = Inr w'" by simp
  then show ?thesis by (rule mp_place_bidE) (auto intro: mp_bids_inv [OF inv])
next
  case (MpCancelBid x)
  with call obtain bid where "mp_do_cancel_bid C x bid w = Inr w'" by (auto simp: mp_cancel_bid_def result_eqs)
  then show ?thesis by (rule mp_cancel_bidE) (auto intro: mp_bids_inv [OF inv])
qed (use call orig inv in \<open>auto simp: mp_set_admin_def mp_set_service_fee_point_def result_eqs
    intro: mp_create_order_inv [OF inv] mp_cancel_order_inv [OF inv] mp_execute_order_inv [OF inv]
      mp_accept_bid_inv [OF inv]\<close>)

lemma mp_reach_inv:
  assumes "mp_reach C E w0 w" and "mp_inv E w0"
  shows "mp_inv E w"
  using assms
proof (induction rule: mp_reach.induct)
  case (market w orig n c w')
  then show ?case by (blast intro: mp_call_inv)
next
  case (nft w orig nc w')
  then obtain s where s: "nft_dispatch (orig, nc) (mp_nft w) = Inr s" and w': "w' = w\<lparr>mp_nft := s\<rparr>"
    by (auto simp: mp_on_nft_ok)
  from s obtain a where a: "orig = Signed a" by (cases rule: nft_dispatchE) auto
  have inv: "mp_inv E w" by (rule nft.IH [OF nft.prems])
  note step = nft_dispatch_guarded [OF mp_invD(1) [OF inv] s [unfolded a] mp_invD(2) [OF inv]]
  have "a \<noteq> mp_account_id E" using nft.hyps(2) a by simp
  then have "mp_holds (mp_account_id E) x w \<Longrightarrow> mp_holds (mp_account_id E) x w'" for x
    using step(2) by (cases x) (simp_all add: w')
  with \<open>a \<noteq> mp_account_id E\<close> step(1) nft_dispatch_inv [OF mp_invD(1) [OF inv] s] inv show ?case
    by (auto simp: mp_inv_def w')
next
  case (multi w orig mc w')
  then obtain s where s: "mt_dispatch (orig, mc) (mp_mt w) = Inr s" and w': "w' = w\<lparr>mp_mt := s\<rparr>"
    by (auto simp: mp_on_mt_ok)
  from s obtain a where a: "orig = Signed a" by (cases rule: mt_dispatchE) auto
  have inv: "mp_inv E w" by (rule multi.IH [OF multi.prems])
  note step = mt_dispatch_guarded [OF s [unfolded a] mp_invD(3) [OF inv]]
  have "a \<noteq> mp_account_id E" using multi.hyps(2) a by simp
  then have "mp_holds (mp_account_id E) x w \<Longrightarrow> mp_holds (mp_account_id E) x w'" for x
    using step(2) by (cases x) (auto simp: w' simp flip: unat_eq_zero intro: less_le_trans)
  with \<open>a \<noteq> mp_account_id E\<close> step(1) inv show ?case by (auto simp: mp_inv_def w')
next
  case (currency w c)
  then show ?case by simp
qed simp

section \<open>Properties\<close>

text \<open>
  C20: What is for sale is there. Whatever calls are made to the marketplace and the two token pallets,
  in whatever order, the account of the marketplace has every asset with an open order, and every
  bid is on an open order.
\<close>

theorem mp_custody:
  assumes "mp_reach C E w0 w" and "mp_inv E w0"
  shows "(\<forall>x order. mp_orders w x = Some order \<longrightarrow> mp_holds (mp_account_id E) x w)
    \<and> dom (mp_bids w) \<subseteq> dom (mp_orders w)"
  using mp_invD(4,6) [OF mp_reach_inv [OF assms]] by blast

text \<open>The receiver's counter has room for the asset.\<close>

fun mp_room :: "account \<Rightarrow> mp_asset \<Rightarrow> 'c mp_world \<Rightarrow> bool" where
  "mp_room a (NonFungibleToken g t) w \<longleftrightarrow> unat (nft_balances (mp_nft w) (g, a)) + 1 < 2 ^ 32"
| "mp_room a (MultiToken g t) w \<longleftrightarrow> unat (mt_balances (mp_mt w) (g, t, a)) + 1 < 2 ^ 128"
| "mp_room a ErrorToken w \<longleftrightarrow> False"

lemma mp_transfer_progress:
  assumes "nft_inv (mp_nft w)" and "mp_holds a x w" and "mp_room b x w" and "a \<noteq> b"
  shows "\<exists>w'. mp_transfer_asset_to a x b w = Inr w'"
proof (cases x)
  case (NonFungibleToken g t)
  with assms(2,3) nft_do_transfer_progress [OF assms(1), of g t a b] show ?thesis
    by (fastforce simp: mp_on_nft_ok nft_do_transfer_from_ok)
next
  case (MultiToken g t)
  let ?m = "mp_mt w"
  have le: "1 \<le> unat (mt_balances ?m (g, t, a))"
    using MultiToken assms(2) by (simp add: Suc_le_eq unat_gt_0)
  then have "unat (mt_balances ?m (g, t, a)) = 1 + unat (mt_balances ?m (g, t, a) - 1)"
    using unat_diff_le [of 1 "mt_balances ?m (g, t, a)"] by (simp add: word_le_nat_alt)
  moreover have "unat (mt_balances ?m (g, t, b) + 1) = unat (mt_balances ?m (g, t, b)) + 1"
    using MultiToken assms(3) by (subst unat_add_small) simp_all
  ultimately show ?thesis
    using MultiToken assms(4) le
    by (auto simp: mp_on_mt_ok mt_do_transfer_from_ok mt_transfer_one_ok mt_owner_or_approved_def word_le_nat_alt)
qed (use assms in simp)

text \<open>
  A seller gets the asset back. In every reachable state, cancelling an order without a bid works
  for its creator (if their counter has room), gives the asset back and removes the order.
\<close>

theorem mp_cancel_live:
  assumes reach: "mp_reach C E w0 w" "mp_inv E w0" and "mp_orders w x = Some order" and "mp_bids w x = None"
    and "mp_room (mp_creater order) x w"
  shows "\<exists>w'. mp_cancel_order C E (Signed (mp_creater order)) x w = Inr w'
    \<and> mp_holds (mp_creater order) x w' \<and> mp_orders w' = (mp_orders w)(x := None)"
proof -
  note inv = mp_reach_inv [OF reach]
  note order = mp_invD(4,5) [OF inv assms(3)]
  from mp_transfer_progress [OF mp_invD(1) [OF inv] order(1) assms(5)] order(2)
  obtain w1 where w1: "mp_transfer_asset_to (mp_account_id E) x (mp_creater order) w = Inr w1" by metis
  let ?w = "mp_deposit_event (MpOrderCancelled (mp_creater order) x) (w1\<lparr>mp_orders := (mp_orders w1)(x := None)\<rparr>)"
  have "mp_cancel_order C E (Signed (mp_creater order)) x w = Inr ?w"
    using assms(3,4) w1 by (simp add: mp_cancel_order_def mp_refund_bid_def)
  moreover obtain s m where "w1 = w\<lparr>mp_nft := s, mp_mt := m\<rparr>" and "mp_holds (mp_creater order) x w1"
    using mp_transferE [OF w1 mp_invD(1) [OF inv]] by metis
  ultimately show ?thesis using mp_holds_cong [of ?w w1] by auto
qed

lemma mp_service_fee_room: "unat v div 10000 * unat p \<le> unat v" for v :: u128 and p :: u8
proof -
  have "unat p \<le> 10000" using unat_bound [of p] by simp
  then have "unat v div 10000 * unat p \<le> unat v div 10000 * 10000" by (rule mult_left_mono) simp
  also have "\<dots> \<le> unat v" by simp
  finally show ?thesis .
qed

lemma mp_service_fee_exact: "unat (mp_calculate_service_fee v p) = unat v div 10000 * unat p"
proof -
  have "unat (ucast p :: u128) = unat p"
    using unat_bound [of p] by (simp add: unsigned_ucast_eq take_bit_nat_eq_self)
  moreover have "unat v div 10000 * unat p < 2 ^ 128"
    using mp_service_fee_room u128_bound by (rule le_less_trans)
  ultimately show ?thesis
    by (simp add: mp_calculate_service_fee_def unat_mult_small unat_div)
qed

text \<open>
  The service fee is exact, without overflow, and at most 2.55 per cent of the price.
\<close>

theorem mp_service_fee_bounds:
  "unat (mp_calculate_service_fee v p) = unat v div 10000 * unat p
   \<and> 10000 * unat (mp_calculate_service_fee v p) \<le> 255 * unat v"
proof -
  have "10000 * (unat v div 10000 * unat p) \<le> unat v * unat p"
    using mult_right_mono [OF times_div_less_eq_dividend [of 10000 "unat v"], of "unat p"] by (simp add: mult.assoc)
  also have "\<dots> \<le> unat v * 255" using unat_bound [of p] by (intro mult_left_mono) simp_all
  finally show ?thesis by (simp add: mp_service_fee_exact mult.commute)
qed

text \<open>
  C21: What a purchase costs. When an order without a bid is executed and buyer, seller and
  administrator are three accounts, the buyer pays exactly the price, the administrator receives the
  service fee and the seller the rest, nobody else's money changes, the buyer has the asset and the
  order is gone.
\<close>

theorem mp_execute_order_spec:
  assumes laws: "currency_laws C" and call: "mp_execute_order C E (Signed who) x w = Inr w'"
    and "nft_inv (mp_nft w)" and "mp_orders w x = Some order" and "mp_bids w x = None" and "mp_admin w = Some admin"
    and ne: "who \<noteq> admin" "who \<noteq> mp_creater order" "admin \<noteq> mp_creater order"
  shows "unat (cur_free C (mp_cur w) who) = unat (cur_free C (mp_cur w') who) + unat (mp_price order)
    \<and> unat (cur_free C (mp_cur w') admin)
        = unat (cur_free C (mp_cur w) admin) + unat (mp_price order) div 10000 * unat (mp_point w)
    \<and> unat (cur_free C (mp_cur w') (mp_creater order)) = unat (cur_free C (mp_cur w) (mp_creater order))
        + (unat (mp_price order) - unat (mp_price order) div 10000 * unat (mp_point w))
    \<and> (\<forall>a. a \<noteq> who \<and> a \<noteq> admin \<and> a \<noteq> mp_creater order \<longrightarrow> cur_free C (mp_cur w') a = cur_free C (mp_cur w) a)
    \<and> mp_holds who x w' \<and> mp_orders w' = (mp_orders w)(x := None)"
  using call
proof (rule mp_execute_orderE)
  fix who' ord fee c w1 c2 w3
  assume who: "Signed who = Signed who'" and "mp_orders w x = Some ord" and fee: "mp_fee_paid C who' ord w fee c"
    and re: "mp_refund_bid C x (w\<lparr>mp_cur := c\<rparr>) = Inr w1"
    and pay: "cur_transfer C who' (mp_creater ord) (saturating_sub (mp_price ord) fee) KeepAlive (mp_cur w1) = Inr c2"
    and tr: "mp_transfer_asset_to (mp_account_id E) x who' (w1\<lparr>mp_cur := c2\<rparr>) = Inr w3"
    and w': "w' = mp_deposit_event (MpOrderExecuted who' x ord) (w3\<lparr>mp_orders := (mp_orders w3)(x := None)\<rparr>)"
  have [simp]: "ord = order" "who' = who" using assms(4) who \<open>mp_orders w x = Some ord\<close> by simp_all
  have w1: "w1 = w\<lparr>mp_cur := c\<rparr>" using re assms(5) by (simp add: mp_refund_bid_def)
  have fee': "fee = mp_calculate_service_fee (mp_price order) (mp_point w)"
    and paid: "cur_transfer C who admin fee KeepAlive (mp_cur w) = Inr c"
    using fee assms(6) by (auto simp: mp_fee_paid_def)
  have le: "unat fee \<le> unat (mp_price order)"
    by (simp add: fee' mp_service_fee_exact mp_service_fee_room)
  have ninv: "nft_inv (mp_nft (w1\<lparr>mp_cur := c2\<rparr>))" using assms(3) by (simp add: w1)
  obtain s m where w3: "w3 = w1\<lparr>mp_cur := c2, mp_nft := s, mp_mt := m\<rparr>" and "mp_holds who' x w3"
    using mp_transferE [OF tr ninv] by metis
  then have "mp_holds who x w'" using mp_holds_cong [of w' w3] by (simp add: w')
  moreover have "mp_cur w' = c2" "mp_orders w' = (mp_orders w)(x := None)" by (simp_all add: w' w3 w1)
  moreover obtain x1 y1 where "unat (cur_free C (mp_cur w) who) = unat x1 + unat fee"
    "unat y1 = unat (cur_free C (mp_cur w) admin) + unat fee"
    "cur_free C c = (cur_free C (mp_cur w))(who := x1, admin := y1)"
    by (rule currency_transferE [OF laws paid ne(1)])
  moreover obtain x2 y2 where "unat (cur_free C c who) = unat x2 + unat (saturating_sub (mp_price order) fee)"
    "unat y2 = unat (cur_free C c (mp_creater order)) + unat (saturating_sub (mp_price order) fee)"
    "cur_free C c2 = (cur_free C c)(who := x2, mp_creater order := y2)"
    by (rule currency_transferE [OF laws _ ne(2)]) (use pay w1 in simp)
  ultimately show ?thesis
    using ne le mp_service_fee_exact [of "mp_price order" "mp_point w"]
    by (auto simp: unat_saturating_sub fee')
qed

section \<open>Concrete instances\<close>

lemmas mp_eval =
  mp_create_order_def mp_cancel_order_def mp_execute_order_def mp_refund_bid_def mp_pay_def mp_on_nft_def mp_on_mt_def
  focus_def mp_account_id_def env_example_def mp_deposit_event_def mp_alive_def MIN_PRICE_def MIN_DURATION_def
  mp_calculate_service_fee_def ensure_def ok_or_def saturating_sub_def checked_add_def checked_sub_def
  MarketplacePalletId_def Let_def

lemmas mp_nft_eval =
  nft_call_defs nft_do_create_token_def nft_do_mint_def nft_do_transfer_from_def nft_do_transfer_def
  nft_exists_def nft_token_exists_def nft_has_permission_def nft_is_approved_or_owner_def
  nft_add_token_to_all_tokens_enumeration_def nft_add_token_to_owner_enumeration_def
  nft_remove_token_from_owner_enumeration_def nft_clear_approval_def nft_deposit_event_def nft_genesis_def
  bounded_vec_def StringLimit_def

lemma mp_example_inv: "mp_inv env_example mp_example"
proof -
  have "nft_inv (mp_nft mp_example)"
    by (simp add: mp_example_def del: exec.simps) (rule nft.exec_inv [OF nft_genesis_inv])
  moreover have "nft_guarded (mp_account_id env_example) (mp_nft mp_example)"
    by (simp add: mp_example_def mp_nft_eval mp_eval nft_guarded_def)
  moreover have "mt_guarded (mp_account_id env_example) (mp_mt mp_example)"
    by (simp add: mp_example_def mt_guarded_def mt_genesis_def)
  ultimately show ?thesis by (simp add: mp_inv_def) (simp add: mp_example_def)
qed

text \<open>
  A multi token order can be lost. Orders are kept by asset, and two sellers may both sell a unit of
  the same token; the second order overwrites the first, whose seller can then neither cancel it nor
  be paid, while the account of the marketplace holds both units.
\<close>

theorem mp_multi_order_lost:
  "\<exists>w1 w2. mp_create_order env_example (Signed 2) (MultiToken 1 5) 10000 100 mp_example = Inr w1
     \<and> mp_create_order env_example (Signed 3) (MultiToken 1 5) 10000 100 w1 = Inr w2
     \<and> mp_cancel_order ledger_currency env_example (Signed 2) (MultiToken 1 5) w2 = Inl (MarketplaceError MpNotSeller)
     \<and> mt_balances (mp_mt w2) (1, 5, mp_account_id env_example) = 2"
  by (simp add: mp_eval mp_example_def mt_do_transfer_from_def mt_owner_or_approved_def mt_decrease_balance_def
      mt_increase_balance_def mt_deposit_event_def mt_genesis_def)

lemma mp_example_sale:
  obtains w where "mp_reach ledger_currency env_example mp_example w"
    and "mp_create_order env_example (Signed 2) (NonFungibleToken 1 5) 20000 100 mp_example = Inr w"
    and "mp_orders w = [NonFungibleToken 1 5 \<mapsto> \<lparr>mp_creater = 2, mp_price = 20000, mp_start = 100, mp_duration = 100\<rparr>]"
    and "mp_bids w = Map.empty" and "mp_admin w = Some 9" and "mp_cur w = mp_cur mp_example"
    and "mp_point w = 100" and "nft_balances (mp_nft w) (1, 2) = 0" and "nft_inv (mp_nft w)"
proof -
  obtain w where w: "mp_create_order env_example (Signed 2) (NonFungibleToken 1 5) 20000 100 mp_example = Inr w"
    and facts: "mp_orders w = [NonFungibleToken 1 5 \<mapsto> \<lparr>mp_creater = 2, mp_price = 20000, mp_start = 100, mp_duration = 100\<rparr>]"
    "mp_bids w = Map.empty" "mp_admin w = Some 9" "mp_cur w = mp_cur mp_example" "mp_point w = 100"
    "nft_balances (mp_nft w) (1, 2) = 0"
    by (simp add: mp_eval mp_example_def mp_nft_eval)
  have "(2 :: account) \<noteq> mp_account_id env_example" by (simp add: mp_eval)
  then have reach: "mp_reach ledger_currency env_example mp_example w"
    using w mp_reach.market [OF mp_reach.start, of "Signed 2" env_example ledger_currency "env_now env_example"
        "MpCreateOrder (NonFungibleToken 1 5) 20000 100" mp_example w] by simp
  show thesis by (rule that [OF reach w facts mp_invD(1) [OF mp_reach_inv [OF reach mp_example_inv]]])
qed

theorem mp_custody_witness:
  "\<exists>w order. mp_create_order env_example (Signed 2) (NonFungibleToken 1 5) 20000 100 mp_example = Inr w
     \<and> mp_orders w (NonFungibleToken 1 5) = Some order \<and> mp_holds (mp_account_id env_example) (NonFungibleToken 1 5) w"
proof (rule mp_example_sale)
  fix w
  assume "mp_reach ledger_currency env_example mp_example w"
    and "mp_create_order env_example (Signed 2) (NonFungibleToken 1 5) 20000 100 mp_example = Inr w"
    and "mp_orders w = [NonFungibleToken 1 5 \<mapsto> \<lparr>mp_creater = 2, mp_price = 20000, mp_start = 100, mp_duration = 100\<rparr>]"
  with mp_custody [OF this(1) mp_example_inv, THEN conjunct1, rule_format, of "NonFungibleToken 1 5"]
  show ?thesis by simp
qed

theorem mp_cancel_live_witness:
  "\<exists>w w'. mp_create_order env_example (Signed 2) (NonFungibleToken 1 5) 20000 100 mp_example = Inr w
     \<and> mp_cancel_order ledger_currency env_example (Signed 2) (NonFungibleToken 1 5) w = Inr w'
     \<and> mp_holds 2 (NonFungibleToken 1 5) w'"
proof (rule mp_example_sale)
  fix w
  assume "mp_reach ledger_currency env_example mp_example w"
    and "mp_create_order env_example (Signed 2) (NonFungibleToken 1 5) 20000 100 mp_example = Inr w"
    and "mp_orders w = [NonFungibleToken 1 5 \<mapsto> \<lparr>mp_creater = 2, mp_price = 20000, mp_start = 100, mp_duration = 100\<rparr>]"
    and "mp_bids w = Map.empty" and "nft_balances (mp_nft w) (1, 2) = 0"
  with mp_cancel_live [OF this(1) mp_example_inv, of "NonFungibleToken 1 5"] show ?thesis by fastforce
qed

theorem mp_execute_order_spec_witness:
  "\<exists>w w'. mp_create_order env_example (Signed 2) (NonFungibleToken 1 5) 20000 100 mp_example = Inr w
     \<and> mp_execute_order ledger_currency env_example (Signed 4) (NonFungibleToken 1 5) w = Inr w'
     \<and> unat (cur_free ledger_currency (mp_cur w') 2) = 19800 \<and> mp_holds 4 (NonFungibleToken 1 5) w'"
proof (rule mp_example_sale)
  fix w
  assume w: "mp_create_order env_example (Signed 2) (NonFungibleToken 1 5) 20000 100 mp_example = Inr w"
    and facts: "mp_orders w = [NonFungibleToken 1 5 \<mapsto> \<lparr>mp_creater = 2, mp_price = 20000, mp_start = 100, mp_duration = 100\<rparr>]"
      "mp_bids w = Map.empty" "mp_admin w = Some 9" "mp_cur w = mp_cur mp_example" "mp_point w = 100"
    and inv: "nft_inv (mp_nft w)"
  obtain w' where w': "mp_execute_order ledger_currency env_example (Signed 4) (NonFungibleToken 1 5) w = Inr w'"
    using w by (auto simp: mp_eval mp_example_def mp_nft_eval ledger_currency_def)
  have free: "cur_free ledger_currency (mp_cur w) 2 = 0" by (simp add: facts mp_example_def ledger_currency_def)
  show ?thesis
    using w w' mp_execute_order_spec [OF ledger_currency_laws w' inv, of _ 9] free by (simp add: facts)
qed

end
