(* ===== verification/PlayerId.thy ===== *)
theory PlayerId
  imports Frame "HOL-Library.List_Lexorder"
begin

text \<open>
  The player id pallet (\<open>pallets/player-id\<close>): a player id is registered with an account, which may
  then attach the addresses the player has on other chains. \<open>Addresses\<close> lists the addresses of a
  player on a chain, \<open>PlayerIdOf\<close> is the index back. The removal of an address looks it up with
  the binary search of the standard library, which is modelled as it is written there.
\<close>

section \<open>Storage, events and calls\<close>

datatype chains = W3G | BTC | ETH | DOT | SOL | MATIC | BNB | NEAR

datatype pid_event =
    PidRegistered bytes account
  | PidAddressAdded bytes chains bytes
  | PidAddressRemoved bytes chains bytes

record pid_storage =
  pid_player_id_of :: "bytes \<times> chains \<rightharpoonup> bytes"
  pid_addresses :: "bytes \<times> chains \<rightharpoonup> bytes list"
  pid_events :: "pid_event list"

text \<open>
  The arguments of type \<open>PlayerId\<close> and \<open>Address\<close> are bounded vectors: one that is longer than
  its bound does not decode, so that there is no such call.
\<close>

datatype pid_call =
    PidRegister bytes account
  | PidAddAddress bytes chains bytes
  | PidRemoveAddress bytes chains bytes

definition pid_genesis :: pid_storage where
  "pid_genesis = \<lparr>pid_player_id_of = Map.empty, pid_addresses = Map.empty, pid_events = []\<rparr>"

text \<open>The bounds: 32 bytes for both kinds of vectors, and the number of addresses per chain.\<close>

definition pid_bound :: nat where "pid_bound = 32"

definition MaxAddressesPerChain :: nat where "MaxAddressesPerChain = 10"

section \<open>Binary search\<close>

text \<open>
  \<open>slice::binary_search_by\<close>: \<open>size\<close> is always \<open>right - left\<close>, so it is not a state variable
  of its own. It is right for sorted lists only.
\<close>

function bsearch_loop :: "'a::linorder \<Rightarrow> 'a list \<Rightarrow> nat \<Rightarrow> nat \<Rightarrow> nat option" where
  "bsearch_loop key xs left right =
     (if left < right then
        let mid = left + (right - left) div 2 in
        if xs ! mid < key then bsearch_loop key xs (mid + 1) right
        else if key < xs ! mid then bsearch_loop key xs left mid
        else Some mid
      else None)"
  by pat_completeness auto
termination
  by (relation "measure (\<lambda>(key, xs, left, right). right - left)") auto

definition bsearch :: "'a::linorder \<Rightarrow> 'a list \<Rightarrow> nat option" where
  "bsearch key xs = bsearch_loop key xs 0 (length xs)"

declare bsearch_loop.simps [simp del]

section \<open>Operations\<close>

definition pid_deposit_event :: "pid_event \<Rightarrow> pid_storage \<Rightarrow> pid_storage" where
  "pid_deposit_event e s = s\<lparr>pid_events := pid_events s @ [e]\<rparr>"

text \<open>The 32 bytes of an account.\<close>

definition account_bytes :: "account \<Rightarrow> bytes" where
  "account_bytes a = be_bytes 32 (unat a)"

definition pid_account_to_address :: "account \<Rightarrow> bytes" where
  "pid_account_to_address a = account_bytes a"

definition pid_native_chain :: chains where "pid_native_chain = W3G"

definition pid_check_permission :: "account \<Rightarrow> bytes \<Rightarrow> pid_storage \<Rightarrow> bool" where
  "pid_check_permission who player_id s =
     (case pid_addresses s (player_id, pid_native_chain) of
        Some a \<Rightarrow> pid_account_to_address who \<in> set a
      | None \<Rightarrow> False)"

section \<open>Dispatchable calls\<close>

definition pid_register :: "origin \<Rightarrow> bytes \<Rightarrow> account \<Rightarrow> pid_storage \<Rightarrow> pid_storage dispatch" where
  "pid_register orig player_id owner s =
     and_then (ensure_signed orig) (\<lambda>_.
     and_then (ok_or (bounded_vec pid_bound player_id) (PlayerIdError PidPlayerIdTooLong)) (\<lambda>player_id.
     let chain = pid_native_chain in
     ensure (pid_addresses s (player_id, chain) = None) (PlayerIdError PidPlayerIdAlreadyRegistered) (
     let address = pid_account_to_address owner in
     Inr (pid_deposit_event (PidRegistered player_id owner)
       (s\<lparr>pid_addresses := (pid_addresses s)((player_id, chain) \<mapsto> [address]),
          pid_player_id_of := (pid_player_id_of s)((address, chain) \<mapsto> player_id)\<rparr>)))))"

definition pid_add_address :: "origin \<Rightarrow> bytes \<Rightarrow> chains \<Rightarrow> bytes \<Rightarrow> pid_storage \<Rightarrow> pid_storage dispatch" where
  "pid_add_address orig player_id chain address s =
     and_then (ensure_signed orig) (\<lambda>who.
     ensure (pid_check_permission who player_id s) (PlayerIdError PidNoPermission) (
     and_then (ok_or (bounded_vec pid_bound address) (PlayerIdError PidAddressTooLong)) (\<lambda>address.
     and_then (case pid_addresses s (player_id, chain) of
         Some a \<Rightarrow>
           ensure (address \<notin> set a) (PlayerIdError PidAddressAlreadyExists) (
           ok_or (bounded_vec MaxAddressesPerChain (a @ [address])) (PlayerIdError PidTooManyAddresses))
       | None \<Rightarrow> Inr [address]) (\<lambda>addresses.
     Inr (pid_deposit_event (PidAddressAdded address chain player_id)
       (s\<lparr>pid_addresses := (pid_addresses s)((player_id, chain) \<mapsto> addresses),
          pid_player_id_of := (pid_player_id_of s)((address, chain) \<mapsto> player_id)\<rparr>))))))"

definition pid_remove_address :: "origin \<Rightarrow> bytes \<Rightarrow> chains \<Rightarrow> bytes \<Rightarrow> pid_storage \<Rightarrow> pid_storage dispatch" where
  "pid_remove_address orig player_id chain address s =
     and_then (ensure_signed orig) (\<lambda>who.
     ensure (pid_check_permission who player_id s) (PlayerIdError PidNoPermission) (
     and_then (ok_or (pid_addresses s (player_id, chain)) (PlayerIdError PidUnknown)) (\<lambda>addresses.
     and_then (ok_or (bsearch address addresses) (PlayerIdError PidNotFound)) (\<lambda>pos.
     let addresses = take pos addresses @ drop (pos + 1) addresses in
     Inr (pid_deposit_event (PidAddressRemoved address chain player_id)
       (s\<lparr>pid_addresses := (pid_addresses s)((player_id, chain) \<mapsto> addresses),
          pid_player_id_of := (pid_player_id_of s)((address, chain) := None)\<rparr>))))))"

fun pid_dispatch :: "origin \<times> pid_call \<Rightarrow> pid_storage \<Rightarrow> pid_storage dispatch" where
  "pid_dispatch (orig, PidRegister p owner) s = pid_register orig p owner s"
| "pid_dispatch (orig, PidAddAddress p c a) s = pid_add_address orig p c a s"
| "pid_dispatch (orig, PidRemoveAddress p c a) s = pid_remove_address orig p c a s"

section \<open>Specification\<close>

text \<open>
  The lists of addresses have no repetition and respect the bounds, and the index only names
  players that have the address.
\<close>

definition pid_inv :: "pid_storage \<Rightarrow> bool" where
  "pid_inv s \<longleftrightarrow>
     (\<forall>p c as. pid_addresses s (p, c) = Some as \<longrightarrow>
        distinct as \<and> length as \<le> MaxAddressesPerChain \<and> (\<forall>a \<in> set as. length a \<le> pid_bound)) \<and>
     (\<forall>a c p. pid_player_id_of s (a, c) = Some p \<longrightarrow> (\<exists>as. pid_addresses s (p, c) = Some as \<and> a \<in> set as))"

section \<open>Binary search is right\<close>

lemma bsearch_loop_sound: "bsearch_loop key xs l r = Some i \<Longrightarrow> xs ! i = key \<and> l \<le> i \<and> i < r"
proof (induction key xs l r rule: bsearch_loop.induct)
  case (1 key xs l r)
  let ?m = "l + (r - l) div 2"
  show ?case
  proof (cases "l < r")
    case True
    then have m: "l \<le> ?m" "?m < r" by auto
    show ?thesis
      using "1.IH"(1) [OF True refl] "1.IH"(2) [OF True refl] "1.prems" True m
      by (subst (asm) bsearch_loop.simps) (fastforce simp: Let_def split: if_splits)
  next
    case False
    with "1.prems" show ?thesis by (simp add: bsearch_loop.simps)
  qed
qed

lemma bsearch_loop_complete:
  assumes "sorted xs" and "r \<le> length xs" and "bsearch_loop key xs l r = None" and "l \<le> i" and "i < r"
  shows "xs ! i \<noteq> key"
  using assms
proof (induction key xs l r rule: bsearch_loop.induct)
  case (1 key xs l r)
  let ?m = "l + (r - l) div 2"
  have lr: "l < r" and m: "l \<le> ?m" "?m < r" using "1.prems"(4,5) by auto
  have mono: "a \<le> b \<Longrightarrow> b < r \<Longrightarrow> xs ! a \<le> xs ! b" for a b
    using "1.prems"(1,2) by (auto intro: sorted_nth_mono)
  note unfold = bsearch_loop.simps [of key xs l r] Let_def
  consider (less) "xs ! ?m < key" | (greater) "key < xs ! ?m" | (found) "xs ! ?m = key" by fastforce
  then show ?case
  proof cases
    case less
    have "bsearch_loop key xs (?m + 1) r = None" using "1.prems"(3) lr less by (simp add: unfold)
    with "1.IH"(1) [OF lr refl less "1.prems"(1,2)] mono [of i ?m] m(2) less "1.prems"(5) show ?thesis
      by (cases "i \<le> ?m") auto
  next
    case greater
    then have "\<not> xs ! ?m < key" by simp
    moreover from this have "bsearch_loop key xs l ?m = None" using "1.prems"(3) lr greater by (simp add: unfold)
    ultimately show ?thesis
      using "1.IH"(2) [OF lr refl _ greater "1.prems"(1)] mono [of ?m i] m greater "1.prems"(2,4,5)
      by (cases "i < ?m") auto
  next
    case found
    with "1.prems"(3) lr show ?thesis by (simp add: unfold)
  qed
qed

lemma bsearch_Some: "bsearch key xs = Some i \<Longrightarrow> i < length xs \<and> xs ! i = key"
  using bsearch_loop_sound [of key xs 0 "length xs" i] by (simp add: bsearch_def)

lemma take_drop_remove:
  assumes "i < length xs" and "xs ! i = x" and "distinct xs"
  shows "distinct (take i xs @ drop (i + 1) xs)" and "set (take i xs @ drop (i + 1) xs) = set xs - {x}"
proof -
  have xs: "xs = take i xs @ x # drop (i + 1) xs" using id_take_nth_drop [OF assms(1)] assms(2) by simp
  then have d: "distinct (take i xs @ x # drop (i + 1) xs)" and "set xs = set (take i xs @ x # drop (i + 1) xs)"
    using assms(3) by auto
  then show "distinct (take i xs @ drop (i + 1) xs)" and "set (take i xs @ drop (i + 1) xs) = set xs - {x}"
    by auto
qed

section \<open>What the calls do\<close>

lemma pid_deposit_event_simps [simp]:
  "pid_player_id_of (pid_deposit_event e s) = pid_player_id_of s"
  "pid_addresses (pid_deposit_event e s) = pid_addresses s"
  by (simp_all add: pid_deposit_event_def)

lemma length_account_bytes [simp]: "length (account_bytes a) = 32"
  by (simp add: account_bytes_def)

lemma pid_dispatchE:
  assumes "pid_dispatch (orig, call) s = Inr s'"
  obtains (register) w p owner where "orig = Signed w" "call = PidRegister p owner"
      "length p \<le> pid_bound" "pid_addresses s (p, W3G) = None"
      "s' = pid_deposit_event (PidRegistered p owner)
         (s\<lparr>pid_addresses := (pid_addresses s)((p, W3G) \<mapsto> [account_bytes owner]),
            pid_player_id_of := (pid_player_id_of s)((account_bytes owner, W3G) \<mapsto> p)\<rparr>)"
  | (add) w p c a as where "orig = Signed w" "call = PidAddAddress p c a" "pid_check_permission w p s"
      "length a \<le> pid_bound" "as = (case pid_addresses s (p, c) of Some as \<Rightarrow> as | None \<Rightarrow> [])"
      "a \<notin> set as" "length as < MaxAddressesPerChain"
      "s' = pid_deposit_event (PidAddressAdded a c p)
         (s\<lparr>pid_addresses := (pid_addresses s)((p, c) \<mapsto> as @ [a]),
            pid_player_id_of := (pid_player_id_of s)((a, c) \<mapsto> p)\<rparr>)"
  | (remove) w p c a as i where "orig = Signed w" "call = PidRemoveAddress p c a" "pid_check_permission w p s"
      "pid_addresses s (p, c) = Some as" "bsearch a as = Some i"
      "s' = pid_deposit_event (PidAddressRemoved a c p)
         (s\<lparr>pid_addresses := (pid_addresses s)((p, c) \<mapsto> take i as @ drop (i + 1) as),
            pid_player_id_of := (pid_player_id_of s)((a, c) := None)\<rparr>)"
  using assms
  by (cases call) (auto simp: pid_register_def pid_add_address_def pid_remove_address_def result_eqs Let_def
      pid_account_to_address_def pid_native_chain_def MaxAddressesPerChain_def split: option.splits)

section \<open>The invariant\<close>

lemma pid_invD:
  assumes "pid_inv s"
  shows "pid_addresses s (p, c) = Some as \<Longrightarrow> distinct as"
    and "pid_addresses s (p, c) = Some as \<Longrightarrow> length as \<le> MaxAddressesPerChain"
    and "pid_addresses s (p, c) = Some as \<Longrightarrow> a \<in> set as \<Longrightarrow> length a \<le> pid_bound"
    and "pid_player_id_of s (a, c) = Some p \<Longrightarrow> \<exists>as. pid_addresses s (p, c) = Some as \<and> a \<in> set as"
  using assms unfolding pid_inv_def by blast+

text \<open>One list of addresses changes and with it one entry of the index.\<close>

lemma pid_inv_upd:
  assumes inv: "pid_inv s" and s': "pid_addresses s' = (pid_addresses s)((p, c) \<mapsto> as)"
    "pid_player_id_of s' = (pid_player_id_of s)((a, c) := y)"
    and as: "distinct as" "length as \<le> MaxAddressesPerChain" "\<And>b. b \<in> set as \<Longrightarrow> length b \<le> pid_bound"
    and old: "\<And>bs. pid_addresses s (p, c) = Some bs \<Longrightarrow> set bs - {a} \<subseteq> set as"
    and y: "y \<noteq> None \<Longrightarrow> y = Some p \<and> a \<in> set as"
  shows "pid_inv s'"
  unfolding pid_inv_def
proof (intro conjI allI impI)
  fix q d bs
  assume bs: "pid_addresses s' (q, d) = Some bs"
  then show "distinct bs" "length bs \<le> MaxAddressesPerChain" "\<forall>b \<in> set bs. length b \<le> pid_bound"
    using as pid_invD(1-3) [OF inv, of q d bs] by (auto simp: s' split: if_splits)
next
  fix b d q
  assume q: "pid_player_id_of s' (b, d) = Some q"
  show "\<exists>bs. pid_addresses s' (q, d) = Some bs \<and> b \<in> set bs"
  proof (cases "(b, d) = (a, c)")
    case True
    with q y show ?thesis by (auto simp: s')
  next
    case False
    with q obtain bs where "pid_addresses s (q, d) = Some bs" "b \<in> set bs"
      using pid_invD(4) [OF inv, of b d q] by (auto simp: s')
    with False old show ?thesis by (auto simp: s')
  qed
qed

lemma pid_dispatch_inv:
  assumes inv: "pid_inv s" and "pid_dispatch c s = Inr s'"
  shows "pid_inv s'"
proof -
  obtain orig call where c: "c = (orig, call)" by (cases c)
  from assms(2) [unfolded c] show ?thesis
  proof (cases rule: pid_dispatchE)
    case (register w p owner)
    then show ?thesis
      by (intro pid_inv_upd [OF inv, where a = "account_bytes owner" and y = "Some p"])
        (auto simp: MaxAddressesPerChain_def pid_bound_def)
  next
    case (add w p c a as)
    have as: "distinct as" "\<And>b. b \<in> set as \<Longrightarrow> length b \<le> pid_bound"
      using pid_invD(1,3) [OF inv, of p c] add(5) by (auto split: option.splits)
    show ?thesis
      by (rule pid_inv_upd [OF inv, where a = a and y = "Some p" and p = p and c = c and as = "as @ [a]"])
        (use add as in \<open>auto split: option.splits\<close>)
  next
    case (remove w p c a as i)
    define bs where "bs = take i as @ drop (i + 1) as"
    from bsearch_Some [OF remove(5)] have i: "i < length as" "as ! i = a" by auto
    note rem = take_drop_remove [OF i pid_invD(1) [OF inv remove(4)], folded bs_def]
    have "length bs \<le> MaxAddressesPerChain" using pid_invD(2) [OF inv remove(4)] by (simp add: bs_def)
    moreover have "pid_addresses s' = (pid_addresses s)((p, c) \<mapsto> bs)"
      "pid_player_id_of s' = (pid_player_id_of s)((a, c) := None)" by (simp_all add: remove(6) bs_def)
    ultimately show ?thesis
      using rem pid_invD(3) [OF inv remove(4)] remove(4)
      by (intro pid_inv_upd [OF inv, where a = a and y = None and p = p and c = c and as = bs]) auto
  qed
qed

interpretation pid: pallet_invariant pid_dispatch pid_inv
  by unfold_locales (rule pid_dispatch_inv)

section \<open>Properties\<close>

text \<open>
  C35: The index back to the player is right, and the bounds hold. After any sequence of calls, when
  \<open>PlayerIdOf\<close> names a player for an address, the address is on the list of that player and chain;
  the lists have no repetition, at most ten entries, and no entry of more than 32 bytes. (The length of
  a player id is checked when it is registered and is not part of this.)
\<close>

theorem pid_index_sound: "pid_inv (exec pid_dispatch cs pid_genesis)"
  by (rule pid.exec_inv) (simp add: pid_inv_def pid_genesis_def)

text \<open>
  C36: Only an account of the player changes the addresses of a registered player: a call that changes
  a list of addresses of a player that is registered is signed by an account on the native list.
\<close>

theorem pid_only_player:
  assumes "pid_dispatch (Signed w, call) s = Inr s'" and "pid_addresses s (p, W3G) = Some owners"
    and "pid_addresses s' (p, c) \<noteq> pid_addresses s (p, c)"
  shows "account_bytes w \<in> set owners"
  using assms(1)
  by (cases rule: pid_dispatchE)
    (use assms(2,3) in \<open>auto simp: pid_check_permission_def pid_account_to_address_def pid_native_chain_def split: if_splits\<close>)

text \<open>
  The binary search always ends; a position it returns holds the key, on any list; and on a
  sorted list it finds the key whenever it is there.
\<close>

lemma bsearch_correct:
  "(\<forall>i. bsearch key xs = Some i \<longrightarrow> i < length xs \<and> xs ! i = key)
   \<and> (sorted xs \<longrightarrow> (bsearch key xs = None \<longleftrightarrow> key \<notin> set xs))"
proof -
  have "key \<notin> set xs" if "sorted xs" "bsearch key xs = None"
    using bsearch_loop_complete [OF that(1) order_refl, of key 0] that(2)
    by (auto simp: bsearch_def in_set_conv_nth)
  moreover have "bsearch key xs = None" if "key \<notin> set xs"
    using bsearch_Some [of key xs] that by (cases "bsearch key xs") auto
  ultimately show ?thesis using bsearch_Some by blast
qed

section \<open>Concrete instances\<close>

text \<open>Account 1 registers a player and adds two Ethereum addresses, the greater one first.\<close>

definition pid_example :: pid_storage where
  "pid_example = exec pid_dispatch
     [(Signed 1, PidRegister [80] 1), (Signed 1, PidAddAddress [80] ETH [2]), (Signed 1, PidAddAddress [80] ETH [1])]
     pid_genesis"

lemmas pid_eval = pid_register_def pid_add_address_def pid_remove_address_def pid_check_permission_def
  pid_account_to_address_def pid_native_chain_def pid_deposit_event_def pid_genesis_def pid_bound_def
  MaxAddressesPerChain_def bounded_vec_def ensure_def Let_def

lemma pid_example_eval:
  "pid_addresses pid_example = [([80], W3G) \<mapsto> [account_bytes 1], ([80], ETH) \<mapsto> [[2], [1]]]"
  "pid_player_id_of pid_example = [(account_bytes 1, W3G) \<mapsto> [80], ([2], ETH) \<mapsto> [80], ([1], ETH) \<mapsto> [80]]"
  by (simp_all add: pid_example_def pid_eval)

text \<open>
  An address that was added may be impossible to remove. New addresses are appended, so the list
  is not sorted, and the binary search does not find every address on it: with addresses 2 and 1 added
  in this order, the player cannot remove address 2.
\<close>

theorem pid_remove_misses:
  "pid_remove_address (Signed 1) [80] ETH [2] pid_example = Inl (PlayerIdError PidNotFound)"
proof -
  have "bsearch ([2] :: bytes) [[2], [1]] = None"
    by (simp add: bsearch_def bsearch_loop.simps)
  then show ?thesis by (simp add: pid_eval pid_example_eval)
qed

theorem pid_only_player_witness:
  "\<exists>s'. pid_dispatch (Signed 1, PidRemoveAddress [80] ETH [1]) pid_example = Inr s'
     \<and> pid_addresses s' ([80], ETH) = Some [[2]] \<and> account_bytes 1 \<in> set [account_bytes 1]"
proof -
  have "bsearch ([1] :: bytes) [[2], [1]] = Some 1"
    by (simp add: bsearch_def bsearch_loop.simps)
  then have "\<exists>s'. pid_dispatch (Signed 1, PidRemoveAddress [80] ETH [1]) pid_example = Inr s'
      \<and> pid_addresses s' ([80], ETH) = Some [[2]]"
    by (simp add: pid_eval pid_example_eval)
  then obtain s' where s': "pid_dispatch (Signed 1, PidRemoveAddress [80] ETH [1]) pid_example = Inr s'"
    "pid_addresses s' ([80], ETH) = Some [[2]]" by blast
  moreover have "pid_addresses s' ([80], ETH) \<noteq> pid_addresses pid_example ([80], ETH)"
    using s'(2) by (simp add: pid_example_eval)
  ultimately show ?thesis
    using pid_only_player [OF s'(1), of "[80]" "[account_bytes 1]" ETH] by (simp add: pid_example_eval)
qed

end
