(* ===== verification/ProxyPay.thy ===== *)
theory ProxyPay
  imports Frame
begin

text \<open>
  The proxy pay pallet (\<open>pallets/proxy-pay\<close>): the owner of a program gives accounts a number of
  transactions whose fees the account of the program pays. The pallet is also the
  \<open>OnChargeTransaction\<close> of the runtime, which withdraws the fee before and corrects it after
  every transaction.
\<close>

section \<open>Storage, events and calls\<close>

record pp_program =
  pp_owner :: account
  pp_proxy_pay_account :: account

datatype pp_event =
    PpCreateProgame u128 pp_program
  | PpUpdateProgame u128 pp_program
  | PpAddProxyPay u128 account u128
  | PpSetProxyPay u128 account u128

record 'c pp_world =
  pp_cur :: 'c
  pp_next_program_id :: u128
  pp_program_info :: "u128 \<rightharpoonup> pp_program"
  pp_account_programs :: "account \<Rightarrow> u128 list"
  pp_proxy_pay_times :: "u128 \<times> account \<Rightarrow> u128"
  pp_events :: "pp_event list"

datatype pp_call =
    PpCreateProgram account
  | PpTransferProgramOwner u128 account
  | PpAddProxyPayCall u128 "(account \<times> u128) list"
  | PpSetProxyPayCall u128 "(account \<times> u128) list"

text \<open>
  What charging a fee fails with: \<open>InvalidTransaction::Payment\<close>, or a panic. A transaction that
  fails here is not included in a block, and nothing it wrote is kept.
\<close>

datatype pp_validity_error = PpPayment | PpPanic

section \<open>Operations\<close>

definition pp_deposit_event :: "pp_event \<Rightarrow> 'c pp_world \<Rightarrow> 'c pp_world" where
  "pp_deposit_event e w = w\<lparr>pp_events := pp_events w @ [e]\<rparr>"

definition pp_proxy_pay_account_id :: "env \<Rightarrow> u128 \<Rightarrow> account" where
  "pp_proxy_pay_account_id E program_id = into_sub_account E ProxyPayPalletId program_id"

text \<open>\<open>push\<close> unless it is there, and \<open>retain\<close> of everything else.\<close>

definition pp_list_program :: "u128 \<Rightarrow> u128 list \<Rightarrow> u128 list" where
  "pp_list_program program_id ids = (if program_id \<in> set ids then ids else ids @ [program_id])"

definition pp_unlist_program :: "u128 \<Rightarrow> u128 list \<Rightarrow> u128 list" where
  "pp_unlist_program program_id ids =
     (if program_id \<in> set ids then filter (\<lambda>p. p \<noteq> program_id) ids else ids)"

text \<open>The bodies of the two loops; \<open>*time + times\<close> wraps.\<close>

fun pp_add_one :: "u128 \<Rightarrow> account \<times> u128 \<Rightarrow> 'c pp_world \<Rightarrow> 'c pp_world" where
  "pp_add_one program_id (account, n) w =
     (if n \<noteq> 0 then
        pp_deposit_event (PpAddProxyPay program_id account n)
          (w\<lparr>pp_proxy_pay_times := (pp_proxy_pay_times w)
               ((program_id, account) := pp_proxy_pay_times w (program_id, account) + n),
             pp_account_programs := (pp_account_programs w)
               (account := pp_list_program program_id (pp_account_programs w account))\<rparr>)
      else w)"

fun pp_set_one :: "u128 \<Rightarrow> account \<times> u128 \<Rightarrow> 'c pp_world \<Rightarrow> 'c pp_world" where
  "pp_set_one program_id (account, n) w =
     pp_deposit_event (PpSetProxyPay program_id account n)
       (w\<lparr>pp_proxy_pay_times := (pp_proxy_pay_times w)((program_id, account) := n),
          pp_account_programs := (pp_account_programs w)(account :=
            (if n \<noteq> 0 then pp_list_program program_id (pp_account_programs w account)
             else pp_unlist_program program_id (pp_account_programs w account)))\<rparr>)"

section \<open>Dispatchable calls\<close>

definition pp_create_program :: "env \<Rightarrow> origin \<Rightarrow> account \<Rightarrow> 'c pp_world \<Rightarrow> 'c pp_world dispatch" where
  "pp_create_program E orig owner w =
     and_then (ensure_signed orig) (\<lambda>_.
     let id = pp_next_program_id w in
     and_then (ok_or (checked_add id 1) (ProxyPayError PpNoAvailableProgramId)) (\<lambda>next_id.
     let program = \<lparr>pp_owner = owner, pp_proxy_pay_account = pp_proxy_pay_account_id E id\<rparr> in
     Inr (pp_deposit_event (PpCreateProgame id program)
       (w\<lparr>pp_next_program_id := next_id, pp_program_info := (pp_program_info w)(id \<mapsto> program)\<rparr>))))"

definition pp_transfer_program_owner :: "origin \<Rightarrow> u128 \<Rightarrow> account \<Rightarrow> 'c pp_world \<Rightarrow> 'c pp_world dispatch" where
  "pp_transfer_program_owner orig program_id owner w =
     and_then (ensure_signed orig) (\<lambda>caller.
     and_then (ok_or (pp_program_info w program_id) (ProxyPayError PpNoAvailableProgramId)) (\<lambda>program_info.
     ensure (caller = pp_owner program_info) (ProxyPayError PpNoAuthorization) (
     let program = \<lparr>pp_owner = owner, pp_proxy_pay_account = pp_proxy_pay_account program_info\<rparr> in
     Inr (pp_deposit_event (PpUpdateProgame program_id program)
       (w\<lparr>pp_program_info := (pp_program_info w)(program_id \<mapsto> program)\<rparr>)))))"

definition pp_add_proxy_pay ::
  "origin \<Rightarrow> u128 \<Rightarrow> (account \<times> u128) list \<Rightarrow> 'c pp_world \<Rightarrow> 'c pp_world dispatch" where
  "pp_add_proxy_pay orig program_id accounts_times w =
     and_then (ensure_signed orig) (\<lambda>caller.
     and_then (ok_or (pp_program_info w program_id) (ProxyPayError PpNoAvailableProgramId)) (\<lambda>program_info.
     ensure (caller = pp_owner program_info) (ProxyPayError PpNoAuthorization) (
     Inr (fold (pp_add_one program_id) accounts_times w))))"

definition pp_set_proxy_pay ::
  "origin \<Rightarrow> u128 \<Rightarrow> (account \<times> u128) list \<Rightarrow> 'c pp_world \<Rightarrow> 'c pp_world dispatch" where
  "pp_set_proxy_pay orig program_id accounts_times w =
     and_then (ensure_signed orig) (\<lambda>caller.
     and_then (ok_or (pp_program_info w program_id) (ProxyPayError PpNoAvailableProgramId)) (\<lambda>program_info.
     ensure (caller = pp_owner program_info) (ProxyPayError PpNoAuthorization) (
     Inr (fold (pp_set_one program_id) accounts_times w))))"

fun pp_call_dispatch :: "env \<Rightarrow> origin \<Rightarrow> pp_call \<Rightarrow> 'c pp_world \<Rightarrow> 'c pp_world dispatch" where
  "pp_call_dispatch E orig (PpCreateProgram a) w = pp_create_program E orig a w"
| "pp_call_dispatch E orig (PpTransferProgramOwner i a) w = pp_transfer_program_owner orig i a w"
| "pp_call_dispatch E orig (PpAddProxyPayCall i xs) w = pp_add_proxy_pay orig i xs w"
| "pp_call_dispatch E orig (PpSetProxyPayCall i xs) w = pp_set_proxy_pay orig i xs w"

section \<open>Charging for a transaction\<close>

text \<open>The withdrawal with the error mapped; the imbalance it returns is the amount.\<close>

definition pp_withdraw ::
  "'c currency \<Rightarrow> account \<Rightarrow> u128 \<Rightarrow> withdraw_reasons \<Rightarrow> 'c pp_world
     \<Rightarrow> pp_validity_error + (u128 option \<times> 'c pp_world)" where
  "pp_withdraw C payer fee reason w =
     (case cur_withdraw C payer fee reason AllowDeath (pp_cur w) of
        Inl _ \<Rightarrow> Inl PpPayment
      | Inr c \<Rightarrow> Inr (Some fee, w\<lparr>pp_cur := c\<rparr>))"

definition pp_withdraw_fee ::
  "'c currency \<Rightarrow> account \<Rightarrow> u128 \<Rightarrow> u128 \<Rightarrow> 'c pp_world \<Rightarrow> pp_validity_error + (u128 option \<times> 'c pp_world)" where
  "pp_withdraw_fee C who fee tip w =
     (if fee = 0 then Inr (None, w) else
      let reason = (if tip = 0 then TransactionPayment else TransactionPaymentOrTip) in
      case pp_account_programs w who of
        [] \<Rightarrow> pp_withdraw C who fee reason w
      | program_id # _ \<Rightarrow>
          let time = pp_proxy_pay_times w (program_id, who);
              w = w\<lparr>pp_account_programs := (pp_account_programs w)(who :=
                      (if time = 1 then pp_unlist_program program_id (pp_account_programs w who)
                       else pp_account_programs w who)),
                    pp_proxy_pay_times := (pp_proxy_pay_times w)((program_id, who) := time - 1)\<rparr> in
          (case pp_program_info w program_id of
             None \<Rightarrow> Inl PpPanic
           | Some program \<Rightarrow> pp_withdraw C (pp_proxy_pay_account program) fee reason w))"

text \<open>
  A refund that fails leaves no imbalance. \<open>offset\<close> cannot be served when the refund exceeds what
  was paid; \<open>split\<close> cuts the tip off first, and the two parts go to the handler in this order.
  The handler of the runtime is the treasury, which is not part of this repository.
\<close>

definition pp_correct_and_deposit_fee ::
  "'c currency \<Rightarrow> (u128 list \<Rightarrow> 'c \<Rightarrow> 'c) \<Rightarrow> account \<Rightarrow> u128 \<Rightarrow> u128 \<Rightarrow> u128 option \<Rightarrow> 'c pp_world
     \<Rightarrow> pp_validity_error + 'c pp_world" where
  "pp_correct_and_deposit_fee C on_unbalanceds who corrected_fee tip already_withdrawn w =
     (case already_withdrawn of
        None \<Rightarrow> Inr w
      | Some paid \<Rightarrow>
          let refund_amount = saturating_sub paid corrected_fee;
              (refund_imbalance, w) =
                (case cur_deposit_into_existing C who refund_amount (pp_cur w) of
                   Inl _ \<Rightarrow> (0, w)
                 | Inr c \<Rightarrow> (refund_amount, w\<lparr>pp_cur := c\<rparr>)) in
          if refund_imbalance \<le> paid then
            let adjusted_paid = paid - refund_imbalance;
                part = min tip adjusted_paid in
            Inr (w\<lparr>pp_cur := on_unbalanceds [part, adjusted_paid - part] (pp_cur w)\<rparr>)
          else Inl PpPayment)"

section \<open>Specification\<close>

text \<open>
  The programs listed for an account exist and are listed once; the account of a program is the
  sub-account of its id.
\<close>

definition pp_inv :: "env \<Rightarrow> 'c pp_world \<Rightarrow> bool" where
  "pp_inv E w \<longleftrightarrow>
     (\<forall>a. distinct (pp_account_programs w a) \<and> (\<forall>i \<in> set (pp_account_programs w a). pp_program_info w i \<noteq> None)) \<and>
     (\<forall>i program. pp_program_info w i = Some program \<longrightarrow>
        i < pp_next_program_id w \<and> pp_proxy_pay_account program = pp_proxy_pay_account_id E i)"

text \<open>The listed programs are those with transactions left.\<close>

definition pp_listed :: "'c pp_world \<Rightarrow> bool" where
  "pp_listed w \<longleftrightarrow> (\<forall>a i. i \<in> set (pp_account_programs w a) \<longleftrightarrow> pp_proxy_pay_times w (i, a) \<noteq> 0)"

text \<open>The states that calls and charged transactions lead to.\<close>

inductive pp_reach :: "'c currency \<Rightarrow> (u128 list \<Rightarrow> 'c \<Rightarrow> 'c) \<Rightarrow> env \<Rightarrow> 'c pp_world \<Rightarrow> 'c pp_world \<Rightarrow> bool"
  for C h E w0 where
  start: "pp_reach C h E w0 w0"
| call: "pp_reach C h E w0 w \<Longrightarrow> pp_call_dispatch E orig c w = Inr w' \<Longrightarrow> pp_reach C h E w0 w'"
| withdraw: "pp_reach C h E w0 w \<Longrightarrow> pp_withdraw_fee C who fee tip w = Inr (paid, w') \<Longrightarrow> pp_reach C h E w0 w'"
| correct: "pp_reach C h E w0 w \<Longrightarrow> pp_correct_and_deposit_fee C h who fee tip paid w = Inr w' \<Longrightarrow>
    pp_reach C h E w0 w'"
| currency: "pp_reach C h E w0 w \<Longrightarrow> pp_reach C h E w0 (w\<lparr>pp_cur := c\<rparr>)"

text \<open>A state for the concrete instances: program 0 pays one transaction of account 2.\<close>

definition pp_example :: "(account \<Rightarrow> u128) pp_world" where
  "pp_example = \<lparr>pp_cur = (\<lambda>_. 0)(2000 := 1000), pp_next_program_id = 1,
     pp_program_info = [0 \<mapsto> \<lparr>pp_owner = 1, pp_proxy_pay_account = 2000\<rparr>],
     pp_account_programs = (\<lambda>_. [])(2 := [0]), pp_proxy_pay_times = (\<lambda>_. 0)((0, 2) := 1), pp_events = []\<rparr>"

section \<open>The invariant\<close>

lemma pp_deposit_event_simps [simp]:
  "pp_cur (pp_deposit_event e w) = pp_cur w"
  "pp_next_program_id (pp_deposit_event e w) = pp_next_program_id w"
  "pp_program_info (pp_deposit_event e w) = pp_program_info w"
  "pp_account_programs (pp_deposit_event e w) = pp_account_programs w"
  "pp_proxy_pay_times (pp_deposit_event e w) = pp_proxy_pay_times w"
  by (simp_all add: pp_deposit_event_def)

lemma pp_list_program_simps [simp]:
  "set (pp_list_program i ids) = insert i (set ids)" "distinct (pp_list_program i ids) \<longleftrightarrow> distinct ids"
  "set (pp_unlist_program i ids) = set ids - {i}" "distinct ids \<Longrightarrow> distinct (pp_unlist_program i ids)"
  by (auto simp: pp_list_program_def pp_unlist_program_def)

lemma pp_inv_cur [simp]: "pp_inv E (w\<lparr>pp_cur := c\<rparr>) \<longleftrightarrow> pp_inv E w"
  by (simp add: pp_inv_def)

lemma pp_invD:
  assumes "pp_inv E w"
  shows "distinct (pp_account_programs w a)" and "i \<in> set (pp_account_programs w a) \<Longrightarrow> pp_program_info w i \<noteq> None"
    and "pp_program_info w i = Some program \<Longrightarrow> pp_proxy_pay_account program = pp_proxy_pay_account_id E i"
  using assms unfolding pp_inv_def by blast+

lemma pp_one_info [simp]:
  "pp_program_info (pp_add_one i x w) = pp_program_info w" "pp_program_info (pp_set_one i x w) = pp_program_info w"
  by (cases x; simp)+

lemma pp_one_inv:
  assumes "pp_inv E w" and "pp_program_info w i \<noteq> None"
  shows "pp_inv E (pp_add_one i x w)" and "pp_inv E (pp_set_one i x w)"
  using assms by (cases x; auto simp: pp_inv_def)+

lemma pp_loops_inv:
  assumes "pp_inv E w" and "pp_program_info w i \<noteq> None"
  shows "pp_inv E (fold (pp_add_one i) xs w)" and "pp_inv E (fold (pp_set_one i) xs w)"
  using assms
  by (induction xs arbitrary: w) (simp_all add: pp_one_inv del: pp_add_one.simps pp_set_one.simps)

lemma pp_call_inv:
  assumes inv: "pp_inv E w" and "pp_call_dispatch E orig c w = Inr w'"
  shows "pp_inv E w'"
proof (cases c)
  case (PpCreateProgram a)
  with assms(2) obtain nx where nx: "unat nx = unat (pp_next_program_id w) + 1"
    and w': "w' = pp_deposit_event (PpCreateProgame (pp_next_program_id w)
         \<lparr>pp_owner = a, pp_proxy_pay_account = pp_proxy_pay_account_id E (pp_next_program_id w)\<rparr>)
       (w\<lparr>pp_next_program_id := nx, pp_program_info := (pp_program_info w)(pp_next_program_id w \<mapsto>
          \<lparr>pp_owner = a, pp_proxy_pay_account = pp_proxy_pay_account_id E (pp_next_program_id w)\<rparr>)\<rparr>)"
    by (auto simp: pp_create_program_def result_eqs arith_eqs Let_def)
  have "i < nx" if "i < pp_next_program_id w \<or> i = pp_next_program_id w" for i
    using that nx by (auto simp: word_less_nat_alt)
  with inv show ?thesis by (fastforce simp: pp_inv_def w' split: if_splits)
next
  case (PpTransferProgramOwner i a)
  with assms show ?thesis
    by (fastforce simp: pp_transfer_program_owner_def result_eqs Let_def pp_inv_def split: if_splits)
qed (use assms pp_loops_inv [OF inv] in \<open>auto simp: pp_add_proxy_pay_def pp_set_proxy_pay_def result_eqs\<close>)

lemma pp_withdraw_ok: "pp_withdraw C a fee r w = Inr (paid, w') \<longleftrightarrow>
    (\<exists>c. cur_withdraw C a fee r AllowDeath (pp_cur w) = Inr c \<and> paid = Some fee \<and> w' = w\<lparr>pp_cur := c\<rparr>)"
  by (auto simp: pp_withdraw_def split: sum.splits)

text \<open>
  The three ways to charge a fee: nothing to pay, the sender pays, or the first program listed for
  the sender pays.
\<close>

lemma pp_withdraw_feeE:
  assumes "pp_withdraw_fee C who fee tip w = Inr (paid, w')"
  obtains (free) "fee = 0" and "paid = None" and "w' = w"
  | (own) r c where "fee \<noteq> 0" and "pp_account_programs w who = []" and "paid = Some fee"
      and "cur_withdraw C who fee r AllowDeath (pp_cur w) = Inr c" and "w' = w\<lparr>pp_cur := c\<rparr>"
  | (sponsored) r c i js program where "fee \<noteq> 0" and "pp_account_programs w who = i # js"
      and "pp_program_info w i = Some program" and "paid = Some fee"
      and "cur_withdraw C (pp_proxy_pay_account program) fee r AllowDeath (pp_cur w) = Inr c"
      and "w' = w\<lparr>pp_account_programs := (pp_account_programs w)(who :=
              (if pp_proxy_pay_times w (i, who) = 1 then pp_unlist_program i (i # js) else i # js)),
            pp_proxy_pay_times := (pp_proxy_pay_times w)((i, who) := pp_proxy_pay_times w (i, who) - 1),
            pp_cur := c\<rparr>"
proof (cases "fee = 0")
  case True
  with assms show thesis by (intro free) (simp_all add: pp_withdraw_fee_def)
next
  case False
  show thesis
  proof (cases "pp_account_programs w who")
    case Nil
    with assms False own show thesis by (auto simp: pp_withdraw_fee_def pp_withdraw_ok Let_def)
  next
    case (Cons i js)
    with assms False show thesis
      by (auto simp: pp_withdraw_fee_def pp_withdraw_ok Let_def split: option.splits intro!: sponsored)
  qed
qed

lemma pp_withdraw_fee_inv:
  assumes "pp_withdraw_fee C who fee tip w = Inr (paid, w')" and inv: "pp_inv E w"
  shows "pp_inv E w'"
  using assms(1)
proof (cases rule: pp_withdraw_feeE)
  case (sponsored r c i js program)
  have "distinct (i # js)" "\<And>k. k \<in> set (i # js) \<Longrightarrow> \<exists>y. pp_program_info w k = Some y"
    using pp_invD(1) [OF inv, of who] pp_invD(2) [OF inv, of _ who] sponsored(2) by auto
  with inv sponsored(6) show ?thesis by (auto simp: pp_inv_def)
qed (use inv in simp_all)

lemma pp_correct_fee_frame:
  assumes "pp_correct_and_deposit_fee C h who fee tip paid w = Inr w'"
  shows "\<exists>c. w' = w\<lparr>pp_cur := c\<rparr>"
proof (cases paid)
  case None
  with assms have "w' = w\<lparr>pp_cur := pp_cur w\<rparr>" by (simp add: pp_correct_and_deposit_fee_def)
  then show ?thesis by blast
qed (use assms in \<open>auto simp: pp_correct_and_deposit_fee_def Let_def split: sum.splits if_splits\<close>)

lemma pp_reach_inv:
  assumes "pp_reach C h E w0 w" and "pp_inv E w0"
  shows "pp_inv E w"
  using assms
proof (induction rule: pp_reach.induct)
  case (correct w who fee tip paid w')
  then obtain c where "w' = w\<lparr>pp_cur := c\<rparr>" using pp_correct_fee_frame by blast
  with correct show ?case by simp
qed (auto intro: pp_call_inv pp_withdraw_fee_inv)

section \<open>Counting transactions\<close>

text \<open>What a list of pairs adds up to for an account.\<close>

definition pp_amount :: "account \<Rightarrow> (account \<times> u128) list \<Rightarrow> nat" where
  "pp_amount a xs = (\<Sum>(b, n)\<leftarrow>xs. if b = a then unat n else 0)"

lemma pp_set_one_listed: "pp_listed w \<Longrightarrow> pp_listed (pp_set_one i x w)"
  by (cases x) (auto simp: pp_listed_def)

lemma pp_add_one_listed:
  assumes "pp_listed w" and room: "unat (pp_proxy_pay_times w (i, a)) + unat n < 2 ^ 128"
  shows "pp_listed (pp_add_one i (a, n) w)"
proof (cases "n = 0")
  case True
  with assms show ?thesis by simp
next
  case False
  have "unat (pp_proxy_pay_times w (i, a) + n) = unat (pp_proxy_pay_times w (i, a)) + unat n"
    using room by (intro unat_add_small) simp
  with False have "pp_proxy_pay_times w (i, a) + n \<noteq> 0" by (metis add_is_0 unat_eq_zero)
  with assms(1) False show ?thesis by (auto simp: pp_listed_def)
qed

lemma pp_add_loop_listed:
  assumes "pp_listed w" and "\<And>a. unat (pp_proxy_pay_times w (i, a)) + pp_amount a xs < 2 ^ 128"
  shows "pp_listed (fold (pp_add_one i) xs w)"
  using assms
proof (induction xs arbitrary: w)
  case (Cons x xs)
  obtain b n where x: "x = (b, n)" by (cases x)
  have room: "unat (pp_proxy_pay_times w (i, b)) + unat n < 2 ^ 128"
    using Cons.prems(2) [of b] by (simp add: x pp_amount_def)
  have "unat (pp_proxy_pay_times (pp_add_one i x w) (i, a)) + pp_amount a xs < 2 ^ 128" for a
    using Cons.prems(2) [of a] room by (auto simp: x pp_amount_def unat_add_small)
  with Cons.IH [OF pp_add_one_listed [OF Cons.prems(1) room]] show ?case by (simp add: x del: pp_add_one.simps)
qed simp

lemma pp_withdraw_fee_listed:
  assumes "pp_withdraw_fee C who fee tip w = Inr (paid, w')" and li: "pp_listed w"
  shows "pp_listed w'"
  using assms(1)
proof (cases rule: pp_withdraw_feeE)
  case (sponsored r c i js program)
  let ?t = "pp_proxy_pay_times w (i, who)"
  have "?t - 1 = 0 \<longleftrightarrow> ?t = 1" by simp
  moreover have "k \<in> set (i # js) \<longleftrightarrow> pp_proxy_pay_times w (k, who) \<noteq> 0" for k
    using li sponsored(2) by (metis pp_listed_def)
  ultimately show ?thesis
    using li sponsored(6) by (auto simp: pp_listed_def)
qed (use li in \<open>simp_all add: pp_listed_def\<close>)

section \<open>Properties\<close>

text \<open>
  Charging a fee never panics: in every reachable state the programs listed for an account exist,
  so the \<open>unwrap\<close> of the program cannot fail.
\<close>

theorem pp_no_panic:
  assumes "pp_reach C h E w0 w" and "pp_inv E w0"
  shows "pp_withdraw_fee C who fee tip w \<noteq> Inl PpPanic"
proof -
  note inv = pp_reach_inv [OF assms]
  show ?thesis
  proof (cases "pp_account_programs w who")
    case Nil
    then show ?thesis by (auto simp: pp_withdraw_fee_def pp_withdraw_def Let_def split: sum.splits)
  next
    case (Cons i js)
    then obtain program where "pp_program_info w i = Some program" using pp_invD(2) [OF inv, of i who] by auto
    with Cons show ?thesis by (auto simp: pp_withdraw_fee_def pp_withdraw_def Let_def split: sum.splits)
  qed
qed


text \<open>
  C33: The counters are right as long as they do not wrap: if the programs listed for each account are
  exactly those with transactions left, it stays so through every call (when what is added fits into
  128 bits) and through every charged transaction.
\<close>

theorem pp_listed_step:
  assumes "pp_listed w"
  shows "(\<forall>E orig c w'. pp_call_dispatch E orig c w = Inr w' \<longrightarrow>
      (\<forall>i xs. c = PpAddProxyPayCall i xs \<longrightarrow> (\<forall>a. unat (pp_proxy_pay_times w (i, a)) + pp_amount a xs < 2 ^ 128)) \<longrightarrow>
      pp_listed w')
    \<and> (\<forall>C who fee tip paid w'. pp_withdraw_fee C who fee tip w = Inr (paid, w') \<longrightarrow> pp_listed w')"
proof (intro conjI allI impI)
  fix E orig c w'
  assume call: "pp_call_dispatch E orig c w = Inr w'"
    and room: "\<forall>i xs. c = PpAddProxyPayCall i xs \<longrightarrow> (\<forall>a. unat (pp_proxy_pay_times w (i, a)) + pp_amount a xs < 2 ^ 128)"
  have "pp_listed (fold (pp_set_one i) xs w)" for i xs
    using assms by (induction xs arbitrary: w) (simp_all add: pp_set_one_listed del: pp_set_one.simps)
  with call room assms pp_add_loop_listed [OF assms] show "pp_listed w'"
    by (cases c) (auto simp: pp_create_program_def pp_transfer_program_owner_def pp_add_proxy_pay_def
        pp_set_proxy_pay_def result_eqs Let_def pp_listed_def [of "pp_deposit_event _ _"]
        pp_listed_def [of w])
next
  fix C who fee tip paid w'
  assume "pp_withdraw_fee C who fee tip w = Inr (paid, w')"
  then show "pp_listed w'" using assms by (rule pp_withdraw_fee_listed)
qed

text \<open>
  The refund goes to the wrong account. When a program has paid the predicted fee and the final fee
  is lower, the difference is given to the sender of the transaction, not to the program: the sender
  gains what the program overpaid.
\<close>

theorem pp_refund_to_sender:
  assumes laws: "currency_laws C" and sponsored: "pp_account_programs w who = i # js"
    and "pp_program_info w i = Some program" and "who \<noteq> pp_proxy_pay_account program"
    and withdraw: "pp_withdraw_fee C who fee tip w = Inr (paid, w1)" and "corrected_fee \<le> fee" and "fee \<noteq> 0"
    and deposit: "cur_deposit_into_existing C who (fee - corrected_fee) (pp_cur w1) = Inr c"
    and correct: "pp_correct_and_deposit_fee C h who corrected_fee tip paid w1 = Inr w2"
    and handler: "\<And>xs c. cur_free C (h xs c) who = cur_free C c who"
  shows "unat (cur_free C (pp_cur w2) who) = unat (cur_free C (pp_cur w) who) + unat (fee - corrected_fee)"
  using withdraw
proof (cases rule: pp_withdraw_feeE)
  case (sponsored r c1 k ks prog)
  have p: "paid = Some fee" and k: "k = i" "prog = program" using sponsored assms by simp_all
  obtain x where "cur_free C c1 = (cur_free C (pp_cur w))(pp_proxy_pay_account program := x)"
    by (rule currency_withdrawE [OF laws sponsored(5) [unfolded k]])
  then have "cur_free C (pp_cur w1) who = cur_free C (pp_cur w) who" using sponsored(6) assms(4) by simp
  moreover obtain y where "unat y = unat (cur_free C (pp_cur w1) who) + unat (fee - corrected_fee)"
    "cur_free C c = (cur_free C (pp_cur w1))(who := y)"
    by (rule currency_depositE [OF laws deposit])
  moreover have "saturating_sub fee corrected_fee = fee - corrected_fee"
    using assms(6) by (simp add: saturating_sub_def)
  then have "cur_free C (pp_cur w2) who = cur_free C c who"
    using correct deposit by (auto simp: pp_correct_and_deposit_fee_def p Let_def handler split: if_splits)
  ultimately show ?thesis by simp
qed (use assms in simp_all)

section \<open>Concrete instances\<close>

lemma pp_example_inv: "pp_inv env_example pp_example"
  by (simp add: pp_inv_def pp_example_def pp_proxy_pay_account_id_def env_example_def)

lemma pp_example_listed: "pp_listed pp_example"
  by (auto simp: pp_listed_def pp_example_def)

lemma pp_example_withdraw:
  "\<exists>w. pp_withdraw_fee ledger_currency 2 100 0 pp_example = Inr (Some 100, w) \<and> pp_cur w = (\<lambda>_. 0)(2000 := 900)"
  by (simp add: pp_withdraw_fee_def pp_withdraw_def pp_example_def ledger_currency_def checked_sub_def Let_def)

theorem pp_no_panic_witness: "pp_withdraw_fee ledger_currency 2 100 0 pp_example \<noteq> Inl PpPanic"
  by (rule pp_no_panic [OF pp_reach.start [where h = "\<lambda>_ c. c"] pp_example_inv])


theorem pp_listed_step_witness:
  "\<exists>w. pp_withdraw_fee ledger_currency 2 100 0 pp_example = Inr (Some 100, w) \<and> pp_listed w"
  using pp_example_withdraw pp_listed_step [OF pp_example_listed] by blast

theorem pp_refund_to_sender_witness:
  "\<exists>w1 w2. pp_withdraw_fee ledger_currency 2 100 0 pp_example = Inr (Some 100, w1)
     \<and> pp_correct_and_deposit_fee ledger_currency (\<lambda>_ c. c) 2 60 0 (Some 100) w1 = Inr w2
     \<and> cur_free ledger_currency (pp_cur pp_example) 2 = 0 \<and> unat (cur_free ledger_currency (pp_cur w2) 2) = 40"
proof -
  from pp_example_withdraw obtain w1 where w1: "pp_withdraw_fee ledger_currency 2 100 0 pp_example = Inr (Some 100, w1)"
    and cur: "pp_cur w1 = (\<lambda>_. 0)(2000 := 900)" by blast
  obtain w2 c where w2: "pp_correct_and_deposit_fee ledger_currency (\<lambda>_ c. c) 2 60 0 (Some 100) w1 = Inr w2"
    and dep: "cur_deposit_into_existing ledger_currency 2 (100 - 60) (pp_cur w1) = Inr c"
    by (simp add: pp_correct_and_deposit_fee_def ledger_currency_def saturating_sub_def checked_add_def cur Let_def)
  have free: "cur_free ledger_currency (pp_cur pp_example) 2 = 0" by (simp add: pp_example_def ledger_currency_def)
  have "unat (cur_free ledger_currency (pp_cur w2) 2) = unat (cur_free ledger_currency (pp_cur pp_example) 2) + unat (100 - 60 :: u128)"
    by (rule pp_refund_to_sender [OF ledger_currency_laws _ _ _ w1 _ _ dep w2,
          where i = 0 and js = "[]" and program = "\<lparr>pp_owner = 1, pp_proxy_pay_account = 2000\<rparr>"])
      (simp_all add: pp_example_def)
  with w1 w2 free show ?thesis by auto
qed

end
