(* ===== verification/CallSwitchgear.thy ===== *)
theory CallSwitchgear
  imports Frame
begin

text \<open>
  The call switchgear pallet (\<open>pallets/call-switchgear\<close>), the call filter the runtime builds on
  it (\<open>CallFilter\<close> in \<open>runtime/web3games\<close>), and the storage of the Ethereum chain id
  (\<open>pallets/ethereum-chain-id\<close>). Root can switch single calls, or all calls, off and on again;
  every call is checked against the filter before it is dispatched.
\<close>

section \<open>Names\<close>

text \<open>
  \<open>str::from_utf8\<close> accepts exactly the well-formed sequences of the Unicode standard: no
  surrogates, no code point above 10FFFF, no overlong form.
\<close>

definition utf8_tail :: "u8 \<Rightarrow> bool" where
  "utf8_tail b \<longleftrightarrow> 0x80 \<le> b \<and> b \<le> 0xBF"

fun utf8_valid :: "bytes \<Rightarrow> bool" where
  "utf8_valid [] \<longleftrightarrow> True"
| "utf8_valid (a # bs) \<longleftrightarrow>
     (if a < 0x80 then utf8_valid bs
      else case bs of
        [] \<Rightarrow> False
      | b # cs \<Rightarrow>
          (if 0xC2 \<le> a \<and> a \<le> 0xDF then utf8_tail b \<and> utf8_valid cs
           else case cs of
             [] \<Rightarrow> False
           | c # ds \<Rightarrow>
               (if 0xE0 \<le> a \<and> a \<le> 0xEF then
                  utf8_tail b \<and> utf8_tail c \<and> (a = 0xE0 \<longrightarrow> 0xA0 \<le> b) \<and> (a = 0xED \<longrightarrow> b \<le> 0x9F) \<and> utf8_valid ds
                else case ds of
                  [] \<Rightarrow> False
                | d # es \<Rightarrow>
                    0xF0 \<le> a \<and> a \<le> 0xF4 \<and> utf8_tail b \<and> utf8_tail c \<and> utf8_tail d \<and>
                    (a = 0xF0 \<longrightarrow> 0x90 \<le> b) \<and> (a = 0xF4 \<longrightarrow> b \<le> 0x8F) \<and> utf8_valid es)))"

declare utf8_valid.simps(2) [simp del]

text \<open>
  \<open>to_lowercase() == "all"\<close>: no letter outside ASCII has \<open>a\<close> or \<open>l\<close> as its lower case.
\<close>

definition ascii_lower :: "u8 \<Rightarrow> u8" where
  "ascii_lower b = (if 65 \<le> b \<and> b \<le> 90 then b + 32 else b)"

definition sw_is_all :: "bytes \<Rightarrow> bool" where
  "sw_is_all name \<longleftrightarrow> map ascii_lower name = [97, 108, 108]"

definition name_bytes :: "string \<Rightarrow> bytes" where
  "name_bytes s = map of_char s"

text \<open>The name \<open>construct_runtime!\<close> gives the pallet.\<close>

definition sw_pallet_name :: bytes where
  "sw_pallet_name = name_bytes ''CallSwitchgear''"

section \<open>Storage, events and calls\<close>

datatype sw_event = TransactionSwitchedoff bytes bytes | TransactionSwitchedOn bytes bytes

record sw_storage =
  sw_overall_toggle :: bool
  sw_switched_off :: "bytes \<times> bytes \<Rightarrow> bool"
  sw_events :: "sw_event list"

datatype sw_call = SwitchoffTransaction bytes bytes | SwitchonTransaction bytes bytes

definition sw_genesis :: sw_storage where
  "sw_genesis = \<lparr>sw_overall_toggle = False, sw_switched_off = (\<lambda>_. False), sw_events = []\<rparr>"

definition sw_deposit_event :: "sw_event \<Rightarrow> sw_storage \<Rightarrow> sw_storage" where
  "sw_deposit_event e s = s\<lparr>sw_events := sw_events s @ [e]\<rparr>"

section \<open>Dispatchable calls\<close>

definition sw_switchoff_transaction :: "origin \<Rightarrow> bytes \<Rightarrow> bytes \<Rightarrow> sw_storage \<Rightarrow> sw_storage dispatch" where
  "sw_switchoff_transaction orig pallet_name function_name s =
     and_then (ensure_root orig) (\<lambda>_.
     ensure (utf8_valid pallet_name) (SwitchgearError SwInvalidCharacter) (
     ensure (pallet_name \<noteq> sw_pallet_name) (SwitchgearError SwCannotSwitchOff) (
     Inr (sw_deposit_event (TransactionSwitchedoff pallet_name function_name)
       (if sw_is_all pallet_name then s\<lparr>sw_overall_toggle := True\<rparr>
        else s\<lparr>sw_switched_off := (sw_switched_off s)((pallet_name, function_name) := True)\<rparr>)))))"

definition sw_switchon_transaction :: "origin \<Rightarrow> bytes \<Rightarrow> bytes \<Rightarrow> sw_storage \<Rightarrow> sw_storage dispatch" where
  "sw_switchon_transaction orig pallet_name function_name s =
     and_then (ensure_root orig) (\<lambda>_.
     ensure (utf8_valid pallet_name) (SwitchgearError SwInvalidCharacter) (
     Inr (sw_deposit_event (TransactionSwitchedOn pallet_name function_name)
       (if sw_is_all pallet_name then s\<lparr>sw_overall_toggle := False\<rparr>
        else s\<lparr>sw_switched_off := (sw_switched_off s)((pallet_name, function_name) := False)\<rparr>))))"

fun sw_dispatch :: "origin \<times> sw_call \<Rightarrow> sw_storage \<Rightarrow> sw_storage dispatch" where
  "sw_dispatch (orig, SwitchoffTransaction p f) s = sw_switchoff_transaction orig p f s"
| "sw_dispatch (orig, SwitchonTransaction p f) s = sw_switchon_transaction orig p f s"

section \<open>The filters\<close>

text \<open>A call of the runtime, as far as the filters see it: its \<open>CallMetadata\<close>.\<close>

record call_metadata =
  call_pallet_name :: bytes
  call_function_name :: bytes

definition switch_off_filter_contains :: "sw_storage \<Rightarrow> call_metadata \<Rightarrow> bool" where
  "switch_off_filter_contains s call = sw_switched_off s (call_pallet_name call, call_function_name call)"

definition get_overall_toggle_status :: "sw_storage \<Rightarrow> bool" where
  "get_overall_toggle_status s = sw_overall_toggle s"

text \<open>\<open>matches!(call, Call::System(_) | Call::Timestamp(_) | Call::Sudo(_))\<close>.\<close>

definition is_core_call :: "call_metadata \<Rightarrow> bool" where
  "is_core_call call \<longleftrightarrow> call_pallet_name call \<in> {name_bytes ''System'', name_bytes ''Timestamp'', name_bytes ''Sudo''}"

definition call_filter_contains :: "sw_storage \<Rightarrow> call_metadata \<Rightarrow> bool" where
  "call_filter_contains s call =
     (if is_core_call call then True
      else if get_overall_toggle_status s \<or> switch_off_filter_contains s call then False
      else True)"

section \<open>The Ethereum chain id\<close>

record chain_id_storage =
  chain_id :: u64

definition chain_id_build :: "u64 \<Rightarrow> chain_id_storage \<Rightarrow> chain_id_storage" where
  "chain_id_build i s = s\<lparr>chain_id := i\<rparr>"

definition chain_id_get :: "chain_id_storage \<Rightarrow> u64" where
  "chain_id_get s = chain_id s"

section \<open>Specification\<close>

text \<open>
  The abstract view: the commands that take effect, and the state of a switch as what the last
  command about it said.
\<close>

definition sw_accepted :: "origin \<times> sw_call \<Rightarrow> bool" where
  "sw_accepted c = (case c of
     (orig, SwitchoffTransaction p f) \<Rightarrow> orig = Root \<and> utf8_valid p \<and> p \<noteq> sw_pallet_name
   | (orig, SwitchonTransaction p f) \<Rightarrow> orig = Root \<and> utf8_valid p)"

fun sw_says :: "bool \<Rightarrow> bytes \<times> bytes \<Rightarrow> sw_call \<Rightarrow> bool option" where
  "sw_says overall k (SwitchoffTransaction p f) =
     (if (if overall then sw_is_all p else \<not> sw_is_all p \<and> (p, f) = k) then Some True else None)"
| "sw_says overall k (SwitchonTransaction p f) =
     (if (if overall then sw_is_all p else \<not> sw_is_all p \<and> (p, f) = k) then Some False else None)"

fun sw_last :: "bool \<Rightarrow> bytes \<times> bytes \<Rightarrow> (origin \<times> sw_call) list \<Rightarrow> bool" where
  "sw_last overall k [] = False"
| "sw_last overall k (c # cs) =
     (case if sw_accepted c then sw_says overall k (snd c) else None of Some v \<Rightarrow> v | None \<Rightarrow> sw_last overall k cs)"

section \<open>Proofs\<close>

lemma sw_dispatch_cases:
  "sw_dispatch (orig, SwitchoffTransaction p f) s = Inr s' \<longleftrightarrow>
     orig = Root \<and> utf8_valid p \<and> p \<noteq> sw_pallet_name \<and> s' = sw_deposit_event (TransactionSwitchedoff p f)
       (if sw_is_all p then s\<lparr>sw_overall_toggle := True\<rparr>
        else s\<lparr>sw_switched_off := (sw_switched_off s)((p, f) := True)\<rparr>)"
  "sw_dispatch (orig, SwitchonTransaction p f) s = Inr s' \<longleftrightarrow>
     orig = Root \<and> utf8_valid p \<and> s' = sw_deposit_event (TransactionSwitchedOn p f)
       (if sw_is_all p then s\<lparr>sw_overall_toggle := False\<rparr>
        else s\<lparr>sw_switched_off := (sw_switched_off s)((p, f) := False)\<rparr>)"
  by (auto simp: sw_switchoff_transaction_def sw_switchon_transaction_def result_eqs simp del: fun_upd_apply)

lemma sw_dispatch_accepted: "(\<exists>s'. sw_dispatch c s = Inr s') \<longleftrightarrow> sw_accepted c"
proof -
  obtain orig call where c: "c = (orig, call)" by (cases c)
  show ?thesis unfolding c by (cases call) (simp_all add: sw_dispatch_cases sw_accepted_def del: sw_dispatch.simps)
qed

lemma sw_dispatch_says:
  assumes "sw_dispatch c s = Inr s'"
  shows "sw_overall_toggle s' = (case sw_says True k (snd c) of Some v \<Rightarrow> v | None \<Rightarrow> sw_overall_toggle s)"
    and "sw_switched_off s' k = (case sw_says False k (snd c) of Some v \<Rightarrow> v | None \<Rightarrow> sw_switched_off s k)"
proof -
  obtain orig call where c: "c = (orig, call)" by (cases c)
  show "sw_overall_toggle s' = (case sw_says True k (snd c) of Some v \<Rightarrow> v | None \<Rightarrow> sw_overall_toggle s)"
    and "sw_switched_off s' k = (case sw_says False k (snd c) of Some v \<Rightarrow> v | None \<Rightarrow> sw_switched_off s k)"
    using assms unfolding c
    by (cases call; simp add: sw_dispatch_cases sw_deposit_event_def del: sw_dispatch.simps)+
qed

lemma exec_snoc: "exec d (cs @ [c]) s = (case d c (exec d cs s) of Inl _ \<Rightarrow> exec d cs s | Inr s' \<Rightarrow> s')"
  by (simp add: exec_append split: sum.splits)

lemma sw_exec_step:
  "sw_overall_toggle (exec sw_dispatch (cs @ [c]) s) =
     (case if sw_accepted c then sw_says True k (snd c) else None of
        Some v \<Rightarrow> v | None \<Rightarrow> sw_overall_toggle (exec sw_dispatch cs s))"
  "sw_switched_off (exec sw_dispatch (cs @ [c]) s) k =
     (case if sw_accepted c then sw_says False k (snd c) else None of
        Some v \<Rightarrow> v | None \<Rightarrow> sw_switched_off (exec sw_dispatch cs s) k)"
proof -
  let ?s = "exec sw_dispatch cs s"
  consider (failed) e where "sw_dispatch c ?s = Inl e" "\<not> sw_accepted c"
    | (ok) s' where "sw_dispatch c ?s = Inr s'" "sw_accepted c"
    using sw_dispatch_accepted [of c ?s] by (cases "sw_dispatch c ?s") auto
  then show "sw_overall_toggle (exec sw_dispatch (cs @ [c]) s) =
     (case if sw_accepted c then sw_says True k (snd c) else None of
        Some v \<Rightarrow> v | None \<Rightarrow> sw_overall_toggle (exec sw_dispatch cs s))"
    and "sw_switched_off (exec sw_dispatch (cs @ [c]) s) k =
     (case if sw_accepted c then sw_says False k (snd c) else None of
        Some v \<Rightarrow> v | None \<Rightarrow> sw_switched_off (exec sw_dispatch cs s) k)"
    by (cases; simp add: exec_snoc sw_dispatch_says [where k = k])+
qed

lemma sw_exec_last:
  "sw_overall_toggle (exec sw_dispatch cs sw_genesis) = sw_last True k (rev cs)"
  "sw_switched_off (exec sw_dispatch cs sw_genesis) k = sw_last False k (rev cs)"
proof (induction cs rule: rev_induct)
  case Nil
  show "sw_overall_toggle (exec sw_dispatch [] sw_genesis) = sw_last True k (rev [])"
    and "sw_switched_off (exec sw_dispatch [] sw_genesis) k = sw_last False k (rev [])"
    by (simp_all add: sw_genesis_def)
next
  case (snoc c cs)
  let ?s = "exec sw_dispatch cs sw_genesis"
  show "sw_overall_toggle (exec sw_dispatch (cs @ [c]) sw_genesis) = sw_last True k (rev (cs @ [c]))"
    and "sw_switched_off (exec sw_dispatch (cs @ [c]) sw_genesis) k = sw_last False k (rev (cs @ [c]))"
    using snoc sw_exec_step [of cs c sw_genesis k] by (auto split: option.splits)
qed

lemma sw_self_kept: "\<not> sw_last False (sw_pallet_name, f) cs"
  by (induction cs) (auto simp: sw_accepted_def split: sw_call.splits option.splits prod.splits)

section \<open>Properties\<close>

text \<open>
  C34: The filter does what the last command said. After any sequence of commands from the genesis
  state, a call is let through exactly when it is a core call, or when the last accepted command
  about all calls, and the last accepted one about this call, each left it on (or there was none).
\<close>

theorem sw_filter_history:
  "call_filter_contains (exec sw_dispatch cs sw_genesis) call \<longleftrightarrow>
     is_core_call call \<or>
     \<not> sw_last True k (rev cs) \<and> \<not> sw_last False (call_pallet_name call, call_function_name call) (rev cs)"
  using sw_exec_last(1) [of cs k] sw_exec_last(2) [of cs "(call_pallet_name call, call_function_name call)"]
  by (simp add: call_filter_contains_def get_overall_toggle_status_def switch_off_filter_contains_def)

text \<open>
  The switch cannot switch itself off: after any sequence of commands, the calls of this pallet pass
  the filter unless all calls are switched off; and calls of the system, timestamp and sudo pallets
  pass even then.
\<close>

theorem sw_no_lockout:
  assumes "call_pallet_name call = sw_pallet_name" and "\<not> sw_overall_toggle (exec sw_dispatch cs sw_genesis)"
  shows "call_filter_contains (exec sw_dispatch cs sw_genesis) call"
  using assms sw_exec_last(2) [of cs "(sw_pallet_name, call_function_name call)"] sw_self_kept
  by (simp add: call_filter_contains_def get_overall_toggle_status_def switch_off_filter_contains_def)

section \<open>Concrete instances\<close>

theorem sw_no_lockout_witness:
  "call_filter_contains (exec sw_dispatch [(Root, SwitchoffTransaction (name_bytes ''CallSwitchgear'') [120])] sw_genesis)
     \<lparr>call_pallet_name = sw_pallet_name, call_function_name = [120]\<rparr>"
  by (rule sw_no_lockout)
    (simp_all add: sw_switchoff_transaction_def sw_pallet_name_def sw_genesis_def ensure_def)

end
