(* ===== verification/EvmData.thy ===== *)
theory EvmData
  imports Prelude
begin

text \<open>
  The codec of the precompiled contracts (\<open>precompiles/utils/src/data\<close>): a reader that parses the
  input of a call and a writer that builds its output, in the binary format of Solidity contracts.
  The trait \<open>EvmData\<close> is indexed by a Rust type; here the types are values of a datatype, and the
  three functions of the trait recurse on it. The specification is the head and tail encoding of
  the Solidity documentation.
\<close>

section \<open>Types and values\<close>

text \<open>\<open>TUint w\<close> stands for the unsigned type of \<open>w\<close> bits, of which the code has five.\<close>

datatype evm_type =
    TH256
  | TAddress
  | TU256
  | TUint nat
  | TBool
  | TTuple "evm_type list"
  | TVec evm_type
  | TBytes

datatype evm_value =
    VH256 u256
  | VAddress "160 word"
  | VU256 u256
  | VUint nat
  | VBool bool
  | VTuple "evm_value list"
  | VVec "evm_value list"
  | VBytes bytes

text \<open>
  A \<open>PrecompileFailure\<close>: a revert with a message, or the error of a call that runs out of gas.
  \<open>EvmPanic\<close> marks the branches where the code panics.
\<close>

datatype evm_error = Revert string | OutOfGas | EvmPanic

type_synonym 'a evm_result = "evm_error + 'a"

text \<open>A \<open>usize\<close> has 32 bits in the WebAssembly runtime.\<close>

definition usize_end :: nat where "usize_end = 2 ^ 32"

definition usize_try_from :: "u256 \<Rightarrow> nat option" where
  "usize_try_from x = (if unat x < usize_end then Some (unat x) else None)"

section \<open>The reader\<close>

record evm_reader =
  er_input :: bytes
  er_cursor :: nat

definition er_new :: "bytes \<Rightarrow> evm_reader" where
  "er_new input = \<lparr>er_input = input, er_cursor = 0\<rparr>"

text \<open>\<open>input.get(start..end)\<close>.\<close>

definition get_range :: "bytes \<Rightarrow> nat \<Rightarrow> nat \<Rightarrow> bytes option" where
  "get_range input start stop =
     (if start \<le> stop \<and> stop \<le> length input then Some (take (stop - start) (drop start input)) else None)"

text \<open>The range from the old to the new position, and the reader at the new one.\<close>

definition er_move_cursor :: "nat \<Rightarrow> evm_reader \<Rightarrow> ((nat \<times> nat) \<times> evm_reader) evm_result" where
  "er_move_cursor len r =
     (let start = er_cursor r in
      if start + len < usize_end then Inr ((start, start + len), r\<lparr>er_cursor := start + len\<rparr>)
      else Inl (Revert ''data reading cursor overflow''))"

definition er_read_raw_bytes :: "nat \<Rightarrow> string \<Rightarrow> evm_reader \<Rightarrow> (bytes \<times> evm_reader) evm_result" where
  "er_read_raw_bytes len msg r =
     and_then (er_move_cursor len r) (\<lambda>((start, stop), r).
     and_then (ok_or (get_range (er_input r) start stop) (Revert msg)) (\<lambda>data. Inr (data, r)))"

definition er_read_till_end :: "evm_reader \<Rightarrow> (bytes \<times> evm_reader) evm_result" where
  "er_read_till_end r =
     er_read_raw_bytes ((length (er_input r) + usize_end - er_cursor r) mod usize_end)
       ''tried to parse raw bytes out of bounds'' r"

definition er_read_selector :: "(u32 \<Rightarrow> 'a option) \<Rightarrow> bytes \<Rightarrow> 'a evm_result" where
  "er_read_selector try_from_primitive input =
     (if length input < 4 then Inl (Revert ''tried to parse selector out of bounds'')
      else ok_or (try_from_primitive (of_nat (from_be (take 4 input)))) (Revert ''unknown selector''))"

definition er_new_skip_selector :: "bytes \<Rightarrow> evm_reader evm_result" where
  "er_new_skip_selector input =
     (if length input < 4 then Inl (Revert ''input is too short'') else Inr (er_new (drop 4 input)))"

definition er_expect_arguments :: "nat \<Rightarrow> evm_reader \<Rightarrow> unit evm_result" where
  "er_expect_arguments args r =
     (if (er_cursor r + args * 32) mod usize_end \<le> length (er_input r) then Inr ()
      else Inl (Revert ''input doesn't match expected length''))"

definition er_read_u256 :: "evm_reader \<Rightarrow> (u256 \<times> evm_reader) evm_result" where
  "er_read_u256 r =
     and_then (er_read_raw_bytes 32 ''tried to parse U256 out of bounds'' r) (\<lambda>(data, r).
     Inr (of_nat (from_be data), r))"

text \<open>The name of an unsigned type, as \<open>type_name\<close> prints it.\<close>

definition uint_name :: "nat \<Rightarrow> string" where
  "uint_name w =
     (if w = 8 then ''u8'' else if w = 16 then ''u16'' else if w = 32 then ''u32''
      else if w = 64 then ''u64'' else ''u128'')"

definition map_err :: "string \<Rightarrow> 'a evm_result \<Rightarrow> 'a evm_result" where
  "map_err msg m = (case m of Inl _ \<Rightarrow> Inl (Revert msg) | Inr x \<Rightarrow> Inr x)"

text \<open>A pointer: the reader after it, and a new reader at the place pointed to.\<close>

definition er_read_pointer :: "evm_reader \<Rightarrow> (evm_reader \<times> evm_reader) evm_result" where
  "er_read_pointer r =
     and_then (map_err ''tried to parse array offset out of bounds'' (er_read_u256 r)) (\<lambda>(x, r).
     and_then (ok_or (usize_try_from x) (Revert ''array offset is too large'')) (\<lambda>offset.
     if length (er_input r) \<le> offset then Inl (Revert ''pointer points out of bounds'')
     else Inr (er_new (drop offset (er_input r)), r)))"

text \<open>Reading one after the other: the elements of a tuple, and \<open>n\<close> times the same type.\<close>

fun read_seq :: "(evm_reader \<Rightarrow> (evm_value \<times> evm_reader) evm_result) list \<Rightarrow> evm_reader
    \<Rightarrow> (evm_value list \<times> evm_reader) evm_result" where
  "read_seq [] r = Inr ([], r)"
| "read_seq (f # fs) r =
     and_then (f r) (\<lambda>(v, r). and_then (read_seq fs r) (\<lambda>(vs, r). Inr (v # vs, r)))"

fun read_times :: "(evm_reader \<Rightarrow> (evm_value \<times> evm_reader) evm_result) \<Rightarrow> nat \<Rightarrow> evm_reader
    \<Rightarrow> (evm_value list \<times> evm_reader) evm_result" where
  "read_times f 0 r = Inr ([], r)"
| "read_times f (Suc n) r =
     and_then (f r) (\<lambda>(v, r). and_then (read_times f n r) (\<lambda>(vs, r). Inr (v # vs, r)))"

section \<open>The writer\<close>

record offset_datum =
  od_offset_position :: nat
  od_data :: bytes
  od_offset_shift :: nat

record evm_writer =
  ew_data :: bytes
  ew_offset_data :: "offset_datum list"
  ew_selector :: "u32 option"

definition ew_new :: evm_writer where
  "ew_new = \<lparr>ew_data = [], ew_offset_data = [], ew_selector = None\<rparr>"

definition ew_new_with_selector :: "u32 \<Rightarrow> evm_writer" where
  "ew_new_with_selector sel = \<lparr>ew_data = [], ew_offset_data = [], ew_selector = Some sel\<rparr>"

text \<open>\<open>output[position..position + 32]\<close> is overwritten, then the data is appended.\<close>

definition bake_offset :: "offset_datum \<Rightarrow> bytes \<Rightarrow> bytes" where
  "bake_offset od output =
     take (od_offset_position od) output
       @ be_bytes 32 (length output - od_offset_shift od)
       @ drop (od_offset_position od + 32) output
       @ od_data od"

definition bake_offsets :: "offset_datum list \<Rightarrow> bytes \<Rightarrow> bytes" where
  "bake_offsets offsets output = fold bake_offset offsets output"

definition ew_build :: "evm_writer \<Rightarrow> bytes" where
  "ew_build w =
     (let data = bake_offsets (ew_offset_data w) (ew_data w) in
      case ew_selector w of Some sel \<Rightarrow> be_bytes 4 (unat sel) @ data | None \<Rightarrow> data)"

definition ew_write_raw_bytes :: "bytes \<Rightarrow> evm_writer \<Rightarrow> evm_writer" where
  "ew_write_raw_bytes bs w = w\<lparr>ew_data := ew_data w @ bs\<rparr>"

definition ew_write_u256 :: "nat \<Rightarrow> evm_writer \<Rightarrow> evm_writer" where
  "ew_write_u256 x w = ew_write_raw_bytes (be_bytes 32 x) w"

definition ew_write_pointer :: "bytes \<Rightarrow> evm_writer \<Rightarrow> evm_writer" where
  "ew_write_pointer data w =
     (let offset_position = length (ew_data w);
          w = ew_write_raw_bytes (replicate 32 0xff) w in
      w\<lparr>ew_offset_data := ew_offset_data w @
          [\<lparr>od_offset_position = offset_position, od_data = data, od_offset_shift = 0\<rparr>]\<rparr>)"

text \<open>\<open>Vec::write\<close>, one item: its offsets move into the writer of the array.\<close>

definition vec_item :: "(evm_value \<Rightarrow> evm_writer \<Rightarrow> evm_writer) \<Rightarrow> evm_value \<Rightarrow> evm_writer \<Rightarrow> evm_writer" where
  "vec_item write_one v w =
     (let shift = length (ew_data w);
          item_writer = write_one v ew_new;
          w = ew_write_raw_bytes (ew_data item_writer) w in
      w\<lparr>ew_offset_data := ew_offset_data w @ map (\<lambda>od. od\<lparr>od_offset_shift := od_offset_shift od + 32,
          od_offset_position := od_offset_position od + shift\<rparr>) (ew_offset_data item_writer)\<rparr>)"

definition pad32 :: "bytes \<Rightarrow> bytes" where
  "pad32 bs =
     (let len = length bs; chunks = len div 32;
          padded_size = (if len mod 32 = 0 then chunks * 32 else (chunks + 1) * 32) in
      bs @ replicate (padded_size - len) 0)"

section \<open>The trait\<close>

primrec has_static_size :: "evm_type \<Rightarrow> bool" where
  "has_static_size TH256 = True"
| "has_static_size TAddress = True"
| "has_static_size TU256 = True"
| "has_static_size (TUint w) = True"
| "has_static_size TBool = True"
| "has_static_size (TTuple ts) = list_all (\<lambda>b. b) (map has_static_size ts)"
| "has_static_size (TVec t) = False"
| "has_static_size TBytes = False"

primrec evm_read :: "evm_type \<Rightarrow> evm_reader \<Rightarrow> (evm_value \<times> evm_reader) evm_result" where
  "evm_read TH256 = (\<lambda>r.
     and_then (er_read_raw_bytes 32 ''tried to parse H256 out of bounds'' r) (\<lambda>(data, r).
     Inr (VH256 (of_nat (from_be data)), r)))"
| "evm_read TAddress = (\<lambda>r.
     and_then (er_read_raw_bytes 32 ''tried to parse H160 out of bounds'' r) (\<lambda>(data, r).
     Inr (VAddress (of_nat (from_be (drop 12 data))), r)))"
| "evm_read TU256 = (\<lambda>r. and_then (er_read_u256 r) (\<lambda>(x, r). Inr (VU256 x, r)))"
| "evm_read (TUint w) = (\<lambda>r.
     and_then (er_read_u256 r) (\<lambda>(x, r).
     if unat x < 2 ^ w then Inr (VUint (unat x), r) else Inl (Revert (''value too big for '' @ uint_name w))))"
| "evm_read TBool = (\<lambda>r.
     and_then (map_err ''tried to parse bool out of bounds''
       (er_read_raw_bytes 32 ''tried to parse H256 out of bounds'' r)) (\<lambda>(data, r).
     Inr (VBool (from_be data \<noteq> 0), r)))"
| "evm_read (TTuple ts) = (\<lambda>r.
     if \<not> has_static_size (TTuple ts) then
       and_then (er_read_pointer r) (\<lambda>(inner_reader, r).
       and_then (read_seq (map evm_read ts) inner_reader) (\<lambda>(vs, _). Inr (VTuple vs, r)))
     else and_then (read_seq (map evm_read ts) r) (\<lambda>(vs, r). Inr (VTuple vs, r)))"
| "evm_read (TVec t) = (\<lambda>r.
     and_then (er_read_pointer r) (\<lambda>(inner_reader, r).
     and_then (map_err ''tried to parse array length out of bounds'' (er_read_u256 inner_reader)) (\<lambda>(x, inner_reader).
     and_then (ok_or (usize_try_from x) (Revert ''array length is too large'')) (\<lambda>array_size.
     and_then (ok_or (get_range (er_input inner_reader) 32 (length (er_input inner_reader)))
       (Revert ''try to read array items out of bound'')) (\<lambda>items.
     and_then (read_times (evm_read t) array_size (er_new items)) (\<lambda>(vs, _).
     Inr (VVec vs, r)))))))"
| "evm_read TBytes = (\<lambda>r.
     and_then (er_read_pointer r) (\<lambda>(inner_reader, r).
     and_then (map_err ''tried to parse bytes/string length out of bounds'' (er_read_u256 inner_reader)) (\<lambda>(x, inner_reader).
     and_then (ok_or (usize_try_from x) (Revert ''bytes/string length is too large'')) (\<lambda>array_size.
     and_then (er_read_raw_bytes array_size ''tried to parse bytes/string out of bounds'' inner_reader) (\<lambda>(data, _).
     Inr (VBytes data, r))))))"

text \<open>Rust only writes a value of the right type; on any other value the functions do nothing.\<close>

primrec evm_write :: "evm_type \<Rightarrow> evm_value \<Rightarrow> evm_writer \<Rightarrow> evm_writer" where
  "evm_write TH256 = (\<lambda>v w. case v of VH256 x \<Rightarrow> ew_write_raw_bytes (be_bytes 32 (unat x)) w | _ \<Rightarrow> w)"
| "evm_write TAddress = (\<lambda>v w. case v of VAddress a \<Rightarrow> ew_write_raw_bytes (be_bytes 32 (unat a)) w | _ \<Rightarrow> w)"
| "evm_write TU256 = (\<lambda>v w. case v of VU256 x \<Rightarrow> ew_write_u256 (unat x) w | _ \<Rightarrow> w)"
| "evm_write (TUint n) = (\<lambda>v w. case v of VUint x \<Rightarrow> ew_write_u256 x w | _ \<Rightarrow> w)"
| "evm_write TBool = (\<lambda>v w. case v of
     VBool b \<Rightarrow> ew_write_raw_bytes ((replicate 32 0)[31 := (if b then 1 else 0)]) w | _ \<Rightarrow> w)"
| "evm_write (TTuple ts) = (\<lambda>v w. case v of
     VTuple vs \<Rightarrow>
       if \<not> has_static_size (TTuple ts) then
         ew_write_pointer (ew_build (fold (\<lambda>(f, x). f x) (zip (map evm_write ts) vs) ew_new)) w
       else fold (\<lambda>(f, x). f x) (zip (map evm_write ts) vs) w
   | _ \<Rightarrow> w)"
| "evm_write (TVec t) = (\<lambda>v w. case v of
     VVec vs \<Rightarrow>
       ew_write_pointer (ew_build (fold (vec_item (evm_write t)) vs (ew_write_u256 (length vs) ew_new))) w
   | _ \<Rightarrow> w)"
| "evm_write TBytes = (\<lambda>v w. case v of
     VBytes bs \<Rightarrow>
       ew_write_pointer (ew_build (ew_write_raw_bytes (pad32 bs) (ew_write_u256 (length bs) ew_new))) w
   | _ \<Rightarrow> w)"

text \<open>Several values one after the other: the calls \<open>write(a).write(b)\<close> of the precompiles.\<close>

definition write_all :: "evm_type list \<Rightarrow> evm_value list \<Rightarrow> evm_writer \<Rightarrow> evm_writer" where
  "write_all ts vs w = fold (\<lambda>(f, x). f x) (zip (map evm_write ts) vs) w"

definition read_all :: "evm_type list \<Rightarrow> evm_reader \<Rightarrow> (evm_value list \<times> evm_reader) evm_result" where
  "read_all ts r = read_seq (map evm_read ts) r"

section \<open>The format\<close>

text \<open>
  The encoding of the Solidity documentation. A sequence of parts is laid out as its heads, then
  its tails: a part of static size is its own head, a dynamic part has the offset of its encoding
  from the start of the sequence as its head and the encoding among the tails.
\<close>

type_synonym part = "bool \<times> bytes"

definition head_size :: "part \<Rightarrow> nat" where
  "head_size p = (if fst p then length (snd p) else 32)"

fun heads :: "nat \<Rightarrow> part list \<Rightarrow> bytes" where
  "heads pos [] = []"
| "heads pos ((True, e) # ps) = e @ heads pos ps"
| "heads pos ((False, e) # ps) = be_bytes 32 pos @ heads (pos + length e) ps"

fun tails :: "part list \<Rightarrow> bytes" where
  "tails [] = []"
| "tails ((True, e) # ps) = tails ps"
| "tails ((False, e) # ps) = e @ tails ps"

definition layout :: "part list \<Rightarrow> bytes" where
  "layout ps = heads (sum_list (map head_size ps)) ps @ tails ps"

primrec enc :: "evm_type \<Rightarrow> evm_value \<Rightarrow> bytes" where
  "enc TH256 = (\<lambda>v. case v of VH256 x \<Rightarrow> be_bytes 32 (unat x) | _ \<Rightarrow> [])"
| "enc TAddress = (\<lambda>v. case v of VAddress a \<Rightarrow> be_bytes 32 (unat a) | _ \<Rightarrow> [])"
| "enc TU256 = (\<lambda>v. case v of VU256 x \<Rightarrow> be_bytes 32 (unat x) | _ \<Rightarrow> [])"
| "enc (TUint w) = (\<lambda>v. case v of VUint x \<Rightarrow> be_bytes 32 x | _ \<Rightarrow> [])"
| "enc TBool = (\<lambda>v. case v of VBool b \<Rightarrow> be_bytes 32 (of_bool b) | _ \<Rightarrow> [])"
| "enc (TTuple ts) = (\<lambda>v. case v of
     VTuple vs \<Rightarrow> layout (map (\<lambda>((s, f), x). (s, f x)) (zip (zip (map has_static_size ts) (map enc ts)) vs))
   | _ \<Rightarrow> [])"
| "enc (TVec t) = (\<lambda>v. case v of
     VVec vs \<Rightarrow> be_bytes 32 (length vs) @ layout (map (\<lambda>x. (has_static_size t, enc t x)) vs)
   | _ \<Rightarrow> [])"
| "enc TBytes = (\<lambda>v. case v of
     VBytes bs \<Rightarrow> be_bytes 32 (length bs) @ bs @ replicate ((32 - length bs mod 32) mod 32) 0
   | _ \<Rightarrow> [])"

text \<open>The values of a type. A tuple has 1 to 18 elements, a vector at most \<open>usize::MAX\<close>.\<close>

primrec well_typed :: "evm_type \<Rightarrow> evm_value \<Rightarrow> bool" where
  "well_typed TH256 = (\<lambda>v. case v of VH256 _ \<Rightarrow> True | _ \<Rightarrow> False)"
| "well_typed TAddress = (\<lambda>v. case v of VAddress _ \<Rightarrow> True | _ \<Rightarrow> False)"
| "well_typed TU256 = (\<lambda>v. case v of VU256 _ \<Rightarrow> True | _ \<Rightarrow> False)"
| "well_typed (TUint w) = (\<lambda>v. case v of VUint x \<Rightarrow> w \<in> {8, 16, 32, 64, 128} \<and> x < 2 ^ w | _ \<Rightarrow> False)"
| "well_typed TBool = (\<lambda>v. case v of VBool _ \<Rightarrow> True | _ \<Rightarrow> False)"
| "well_typed (TTuple ts) = (\<lambda>v. case v of
     VTuple vs \<Rightarrow> 1 \<le> length ts \<and> length ts \<le> 18 \<and> list_all2 (\<lambda>f x. f x) (map well_typed ts) vs
   | _ \<Rightarrow> False)"
| "well_typed (TVec t) = (\<lambda>v. case v of
     VVec vs \<Rightarrow> length vs < usize_end \<and> list_all (well_typed t) vs | _ \<Rightarrow> False)"
| "well_typed TBytes = (\<lambda>v. case v of VBytes bs \<Rightarrow> length bs < usize_end | _ \<Rightarrow> False)"

definition part :: "evm_type \<Rightarrow> evm_value \<Rightarrow> part" where
  "part t v = (has_static_size t, enc t v)"

definition parts :: "evm_type list \<Rightarrow> evm_value list \<Rightarrow> part list" where
  "parts ts vs = map2 part ts vs"

lemma zip_parts:
  "map (\<lambda>((s, f), x). (s, f x)) (zip (zip (map has_static_size ts) (map enc ts)) vs) = parts ts vs"
proof (induction ts arbitrary: vs)
  case (Cons t ts)
  then show ?case by (cases vs) (simp_all add: parts_def part_def)
qed (simp add: parts_def)

lemma parts_Cons [simp]: "parts (t # ts) (v # vs) = part t v # parts ts vs"
  by (simp add: parts_def)

lemma parts_Nil [simp]: "parts [] vs = []" "parts ts [] = []"
  by (simp_all add: parts_def)

lemma part_vec: "map (\<lambda>x. (has_static_size t, enc t x)) vs = map (part t) vs"
  by (simp add: part_def)

lemmas enc_compound = zip_parts part_vec

section \<open>The writer follows the format\<close>

text \<open>What writing parts does to a writer: the static ones and place holders go to the data.\<close>

definition skeleton :: "part list \<Rightarrow> bytes" where
  "skeleton ps = concat (map (\<lambda>(s, e). if s then e else replicate 32 0xff) ps)"

fun offsets_of :: "nat \<Rightarrow> nat \<Rightarrow> part list \<Rightarrow> offset_datum list" where
  "offsets_of pos shift [] = []"
| "offsets_of pos shift ((True, e) # ps) = offsets_of (pos + length e) shift ps"
| "offsets_of pos shift ((False, e) # ps) =
     \<lparr>od_offset_position = pos, od_data = e, od_offset_shift = shift\<rparr> # offsets_of (pos + 32) shift ps"

definition add_parts :: "nat \<Rightarrow> part list \<Rightarrow> evm_writer \<Rightarrow> evm_writer" where
  "add_parts shift ps w =
     w\<lparr>ew_data := ew_data w @ skeleton ps,
       ew_offset_data := ew_offset_data w @ offsets_of (length (ew_data w)) shift ps\<rparr>"

lemma skeleton_simps [simp]:
  "skeleton [] = []" "skeleton ((True, e) # ps) = e @ skeleton ps"
  "skeleton ((False, e) # ps) = replicate 32 0xff @ skeleton ps"
  by (simp_all add: skeleton_def)

lemma head_size_simps [simp]: "head_size (True, e) = length e" "head_size (False, e) = 32"
  by (simp_all add: head_size_def)

lemma length_skeleton: "length (skeleton ps) = sum_list (map head_size ps)"
  by (induction ps rule: tails.induct) simp_all

lemma length_heads: "length (heads pos ps) = sum_list (map head_size ps)"
  by (induction pos ps rule: heads.induct) simp_all

lemma bake_parts:
  "shift \<le> length pre \<Longrightarrow>
     bake_offsets (offsets_of (length pre) shift ps) (pre @ skeleton ps @ post) =
     pre @ heads (length pre + length (skeleton ps) + length post - shift) ps @ post @ tails ps"
proof (induction ps arbitrary: pre post rule: tails.induct)
  case (2 e ps)
  from "2.IH" [of "pre @ e" post] "2.prems" show ?case by (simp add: add_ac)
next
  case (3 e ps)
  let ?pos = "length pre + (32 + length (skeleton ps)) + length post - shift"
  from "3.IH" [of "pre @ be_bytes 32 ?pos" "post @ e"] "3.prems"
  have "bake_offsets (offsets_of (length pre + 32) shift ps) (pre @ be_bytes 32 ?pos @ skeleton ps @ post @ e) =
      pre @ be_bytes 32 ?pos @ heads (?pos + length e) ps @ post @ e @ tails ps"
    by (simp add: add_ac)
  then show ?case by (simp add: bake_offsets_def bake_offset_def add.assoc)
qed (simp add: bake_offsets_def)

lemma add_parts_simps:
  "add_parts shift [] w = w"
  "add_parts shift (p # ps) w = add_parts shift ps (add_parts shift [p] w)"
  by (cases p; cases "fst p"; simp add: add_parts_def)+

lemma build_parts:
  assumes "ew_offset_data w = []" "shift \<le> length (ew_data w)"
  shows "ew_build (add_parts shift ps w) =
    (case ew_selector w of Some sel \<Rightarrow> be_bytes 4 (unat sel) | None \<Rightarrow> [])
      @ ew_data w @ heads (length (ew_data w) + sum_list (map head_size ps) - shift) ps @ tails ps"
  using bake_parts [of shift "ew_data w" ps "[]"] assms
  by (simp add: ew_build_def add_parts_def length_skeleton split: option.splits)

lemma build_layout:
  "ew_build (add_parts 0 ps ew_new) = layout ps"
  "ew_build (add_parts 0 ps (ew_new_with_selector sel)) = be_bytes 4 (unat sel) @ layout ps"
  "ew_build (add_parts 32 ps (ew_write_u256 n ew_new)) = be_bytes 32 n @ layout ps"
  by (simp_all add: build_parts layout_def ew_new_def ew_new_with_selector_def ew_write_u256_def
      ew_write_raw_bytes_def)

lemma write_pointer_part: "ew_write_pointer e w = add_parts 0 [(False, e)] w"
  by (simp add: ew_write_pointer_def ew_write_raw_bytes_def add_parts_def)

lemma write_raw_part: "ew_write_raw_bytes e w = add_parts 0 [(True, e)] w"
  by (simp add: ew_write_raw_bytes_def add_parts_def)

lemma layout_static: "\<forall>p\<in>set ps. fst p \<Longrightarrow> layout ps = concat (map snd ps)"
proof -
  have "\<forall>p\<in>set ps. fst p \<Longrightarrow> heads pos ps = concat (map snd ps) \<and> tails ps = []" for pos
    by (induction pos ps rule: heads.induct) auto
  then show "\<forall>p\<in>set ps. fst p \<Longrightarrow> layout ps = concat (map snd ps)" by (simp add: layout_def)
qed

lemma add_parts_static: "\<forall>p\<in>set ps. fst p \<Longrightarrow> add_parts shift ps w = add_parts shift [(True, concat (map snd ps))] w"
proof -
  have "\<forall>p\<in>set ps. fst p \<Longrightarrow> skeleton ps = concat (map snd ps) \<and> offsets_of pos shift ps = []" for pos
    by (induction pos shift ps rule: offsets_of.induct) auto
  then show "\<forall>p\<in>set ps. fst p \<Longrightarrow> add_parts shift ps w = add_parts shift [(True, concat (map snd ps))] w"
    by (simp add: add_parts_def)
qed

lemma vec_item_part:
  assumes "\<And>w. write_one v w = add_parts 0 [p] w"
  shows "vec_item write_one v w = add_parts 32 [p] w"
  by (cases p; cases "fst p")
    (simp_all add: assms vec_item_def add_parts_def ew_new_def ew_write_raw_bytes_def)

lemma fold_vec_item:
  "\<forall>v\<in>set vs. \<forall>w. write_one v w = add_parts 0 [f v] w \<Longrightarrow>
     fold (vec_item write_one) vs w = add_parts 32 (map f vs) w"
proof (induction vs arbitrary: w)
  case (Cons v vs)
  then show ?case
    by (simp add: vec_item_part add_parts_simps(2) [of 32 "f v" "map f vs"])
qed (simp add: add_parts_simps(1))

lemma write_all_parts:
  "\<lbrakk>\<And>t v w. t \<in> set ts \<Longrightarrow> well_typed t v \<Longrightarrow> evm_write t v w = add_parts 0 [part t v] w;
    list_all2 well_typed ts vs\<rbrakk> \<Longrightarrow> write_all ts vs w = add_parts 0 (parts ts vs) w"
proof (induction ts arbitrary: vs w)
  case Nil
  then show ?case by (simp add: write_all_def add_parts_simps(1))
next
  case (Cons t ts)
  from Cons.prems(2) obtain v vs' where vs: "vs = v # vs'" "well_typed t v" "list_all2 well_typed ts vs'"
    by (auto simp: list_all2_Cons1)
  have "write_all (t # ts) vs w = write_all ts vs' (add_parts 0 [part t v] w)"
    using vs Cons.prems(1) [of t v] by (simp add: write_all_def)
  also have "\<dots> = add_parts 0 (parts ts vs') (add_parts 0 [part t v] w)"
    using Cons.IH [OF Cons.prems(1) vs(3)] by simp
  finally show ?case by (simp add: vs add_parts_simps(2) [of 0 "part t v" "parts ts vs'"])
qed

lemma list_all2_typed: "list_all2 (\<lambda>f x. f x) (map well_typed ts) vs = list_all2 well_typed ts vs"
  by (simp add: list.rel_map)

lemma static_parts:
  "has_static_size (TTuple ts) \<Longrightarrow> \<forall>p\<in>set (parts ts vs). fst p"
  by (auto simp: parts_def part_def list_all_iff dest!: set_zip_leftD)

lemma bool_bytes: "(replicate 32 0)[31 := (if b then 1 else 0)] = be_bytes 32 (of_bool b)"
proof -
  have "be_bytes 32 (of_bool b) = replicate 31 0 @ [of_bool b]"
    using be_bytes_zero [of 31] be_bytes.simps(2) [of 31 "of_bool b"] by (cases b) simp_all
  moreover have "(replicate 32 0)[31 := x] = replicate 31 0 @ [x]" for x :: u8
    by (rule nth_equalityI) (auto simp: nth_list_update nth_append)
  ultimately show ?thesis by (cases b) simp_all
qed

lemma pad32_eq: "pad32 bs = bs @ replicate ((32 - length bs mod 32) mod 32) 0"
proof -
  have "(length bs div 32 + 1) * 32 - length bs = 32 - length bs mod 32"
    by presburger
  moreover have "length bs mod 32 = 0 \<Longrightarrow> length bs div 32 * 32 - length bs = 0" by simp
  moreover have "0 < length bs mod 32 \<Longrightarrow> (32 - length bs mod 32) mod 32 = 32 - length bs mod 32" by simp
  ultimately show ?thesis by (cases "length bs mod 32 = 0") (simp_all add: pad32_def Let_def)
qed

lemma evm_write_part: "well_typed t v \<Longrightarrow> evm_write t v w = add_parts 0 [part t v] w"
proof (induction t arbitrary: v w)
  case (TTuple ts)
  from TTuple.prems obtain vs where v: "v = VTuple vs" and ty: "list_all2 well_typed ts vs"
    by (cases v) (simp_all add: list_all2_typed)
  have all: "fold (\<lambda>(f, x). f x) (zip (map evm_write ts) vs) w' = add_parts 0 (parts ts vs) w'" for w'
    using write_all_parts [OF TTuple.IH ty] by (simp add: write_all_def)
  show ?case
  proof (cases "has_static_size (TTuple ts)")
    case True
    then show ?thesis
      using static_parts [OF True, of vs]
      by (simp add: v all part_def zip_parts layout_static add_parts_static [of "parts ts vs"])
  next
    case False
    then show ?thesis
      by (simp add: v all part_def zip_parts build_layout write_pointer_part del: has_static_size.simps)
  qed
next
  case (TVec t)
  from TVec.prems obtain vs where v: "v = VVec vs" and ty: "\<forall>x\<in>set vs. well_typed t x"
    by (cases v) (simp_all add: list_all_iff)
  have "fold (vec_item (evm_write t)) vs w' = add_parts 32 (map (part t) vs) w'" for w'
    using ty TVec.IH by (intro fold_vec_item) simp
  then show ?case by (simp add: v part_def build_layout write_pointer_part part_def [abs_def])
next
  case TBytes
  then obtain bs where "v = VBytes bs" by (cases v) simp_all
  then show ?case
    by (simp add: write_pointer_part part_def pad32_eq ew_build_def bake_offsets_def ew_write_u256_def
        ew_write_raw_bytes_def ew_new_def)
qed (auto simp: part_def write_raw_part ew_write_u256_def bool_bytes split: evm_value.splits)

lemmas build_write_all = write_all_parts [OF evm_write_part]

text \<open>
  C25: The arguments of a call, written one after the other and built, are the function selector and
  the encoding of the Solidity documentation, for every list of types the code can write.
\<close>

theorem evm_write_abi:
  assumes "list_all2 well_typed ts vs"
  shows "ew_build (write_all ts vs (ew_new_with_selector sel)) = be_bytes 4 (unat sel) @ layout (parts ts vs) \<and>
    ew_build (write_all ts vs ew_new) = layout (parts ts vs)"
  using assms by (simp_all add: build_write_all build_layout)

text \<open>A transfer to an account with a note, and a list of two notes.\<close>

theorem evm_write_abi_witness:
  "list_all2 well_typed [TAddress, TBytes, TVec TBytes] [VAddress 7, VBytes [1, 2, 3], VVec [VBytes [], VBytes [9]]] \<and>
   ew_build (write_all [TAddress, TBytes, TVec TBytes] [VAddress 7, VBytes [1, 2, 3], VVec [VBytes [], VBytes [9]]]
     (ew_new_with_selector 5)) =
   be_bytes 4 5 @ layout (parts [TAddress, TBytes, TVec TBytes] [VAddress 7, VBytes [1, 2, 3], VVec [VBytes [], VBytes [9]]])"
  using evm_write_abi [of "[TAddress, TBytes, TVec TBytes]" "[VAddress 7, VBytes [1, 2, 3], VVec [VBytes [], VBytes [9]]]" 5]
  by (simp add: usize_end_def)

section \<open>The reader inverts the writer\<close>

text \<open>A part stands at a position of the input, and a list of parts from a position on.\<close>

definition stands :: "bytes \<Rightarrow> nat \<Rightarrow> bytes \<Rightarrow> bool" where
  "stands input pos e \<longleftrightarrow> pos + length e \<le> length input \<and> take (length e) (drop pos input) = e"

definition part_at :: "bytes \<Rightarrow> nat \<Rightarrow> part \<Rightarrow> bool" where
  "part_at input pos p \<longleftrightarrow>
     (if fst p then stands input pos (snd p)
      else \<exists>q. q < length input \<and> stands input pos (be_bytes 32 q) \<and> stands input q (snd p))"

fun parts_at :: "bytes \<Rightarrow> nat \<Rightarrow> part list \<Rightarrow> bool" where
  "parts_at input pos [] = True"
| "parts_at input pos (p # ps) = (part_at input pos p \<and> parts_at input (pos + head_size p) ps)"

lemma stands_append: "stands input pos (a @ b) \<longleftrightarrow> stands input pos a \<and> stands input (pos + length a) b"
  by (auto simp: stands_def take_add add.commute [of pos] simp flip: drop_drop)

lemma stands_drop: "pos \<le> length input \<Longrightarrow> stands (drop pos input) q e = stands input (pos + q) e"
  by (auto simp: stands_def add.commute)

lemma stands_concat: "\<forall>p\<in>set ps. fst p \<Longrightarrow> stands input pos (concat (map snd ps)) \<Longrightarrow> parts_at input pos ps"
  by (induction ps arbitrary: pos) (auto simp: stands_append part_at_def head_size_def)

lemma layout_parts_at:
  assumes "stands input pos (heads at ps)" "stands input at (tails ps)"
    and "\<forall>p\<in>set ps. fst p \<or> snd p \<noteq> []"
  shows "parts_at input pos ps"
  using assms
proof (induction "at" ps arbitrary: pos rule: heads.induct)
  case (3 "at" e ps)
  then have "at < length input" by (cases e) (auto simp: stands_def)
  with 3 show ?case by (auto simp: stands_append part_at_def)
qed (auto simp: stands_append part_at_def)

lemma stands_layout:
  "stands input 0 (layout ps) \<Longrightarrow> \<forall>p\<in>set ps. fst p \<or> snd p \<noteq> [] \<Longrightarrow> parts_at input 0 ps"
  by (rule layout_parts_at [where at = "sum_list (map head_size ps)"])
    (simp_all add: layout_def stands_append length_heads)

lemma read_raw_stands:
  "\<lbrakk>stands input c e; length e = n; length input < usize_end\<rbrakk> \<Longrightarrow>
     er_read_raw_bytes n msg \<lparr>er_input = input, er_cursor = c\<rparr> = Inr (e, \<lparr>er_input = input, er_cursor = c + n\<rparr>)"
  by (auto simp: er_read_raw_bytes_def er_move_cursor_def get_range_def stands_def)

lemma read_u256_stands:
  "\<lbrakk>stands input c (be_bytes 32 x); x < 2 ^ 256; length input < usize_end\<rbrakk> \<Longrightarrow>
     er_read_u256 \<lparr>er_input = input, er_cursor = c\<rparr> = Inr (of_nat x, \<lparr>er_input = input, er_cursor = c + 32\<rparr>)"
  by (simp add: er_read_u256_def read_raw_stands from_be_bytes_exact)

lemma usize_256: "x < usize_end \<Longrightarrow> x < 2 ^ 256"
  by (simp add: usize_end_def)

lemma usize_try_from_nat: "x < usize_end \<Longrightarrow> usize_try_from (of_nat x) = Some x"
  by (simp add: usize_try_from_def unat_of_nat usize_end_def)

lemma read_pointer_stands:
  "\<lbrakk>q < length input; stands input c (be_bytes 32 q); length input < usize_end\<rbrakk> \<Longrightarrow>
     er_read_pointer \<lparr>er_input = input, er_cursor = c\<rparr> =
       Inr (\<lparr>er_input = drop q input, er_cursor = 0\<rparr>, \<lparr>er_input = input, er_cursor = c + 32\<rparr>)"
  by (simp add: er_read_pointer_def map_err_def read_u256_stands [OF _ usize_256] usize_try_from_nat er_new_def)

lemma read_seq_parts:
  "\<lbrakk>\<And>t v c. t \<in> set ts \<Longrightarrow> well_typed t v \<Longrightarrow> part_at input c (part t v) \<Longrightarrow>
        evm_read t \<lparr>er_input = input, er_cursor = c\<rparr> =
          Inr (v, \<lparr>er_input = input, er_cursor = c + head_size (part t v)\<rparr>);
    list_all2 well_typed ts vs; parts_at input c (parts ts vs)\<rbrakk> \<Longrightarrow>
   read_all ts \<lparr>er_input = input, er_cursor = c\<rparr> =
     Inr (vs, \<lparr>er_input = input, er_cursor = c + sum_list (map head_size (parts ts vs))\<rparr>)"
proof (induction ts arbitrary: vs c)
  case (Cons t ts)
  from Cons.prems(2) obtain v vs' where vs: "vs = v # vs'" "well_typed t v" "list_all2 well_typed ts vs'"
    by (auto simp: list_all2_Cons1)
  with Cons.prems(3) have at: "part_at input c (part t v)" "parts_at input (c + head_size (part t v)) (parts ts vs')"
    by simp_all
  show ?case
    using Cons.IH [OF Cons.prems(1) vs(3) at(2)] Cons.prems(1) [of t v c] at(1) vs
    by (simp add: read_all_def add.assoc)
qed (simp add: read_all_def)

lemma read_times_parts:
  "\<lbrakk>\<And>v c. v \<in> set vs \<Longrightarrow> part_at input c (part t v) \<Longrightarrow>
        evm_read t \<lparr>er_input = input, er_cursor = c\<rparr> =
          Inr (v, \<lparr>er_input = input, er_cursor = c + head_size (part t v)\<rparr>);
    parts_at input c (map (part t) vs)\<rbrakk> \<Longrightarrow>
   \<exists>r. read_times (evm_read t) (length vs) \<lparr>er_input = input, er_cursor = c\<rparr> = Inr (vs, r)"
proof (induction vs arbitrary: c)
  case (Cons v vs)
  then obtain r where "read_times (evm_read t) (length vs)
      \<lparr>er_input = input, er_cursor = c + head_size (part t v)\<rparr> = Inr (vs, r)" by fastforce
  with Cons.prems(1) [of v c] Cons.prems(2) show ?case by simp
qed simp

lemma length_heads_dynamic: "p \<in> set ps \<Longrightarrow> \<not> fst p \<Longrightarrow> heads pos ps \<noteq> []"
  by (induction pos ps rule: heads.induct) (auto simp flip: length_greater_0_conv)

lemma enc_dynamic: "well_typed t v \<Longrightarrow> \<not> has_static_size t \<Longrightarrow> enc t v \<noteq> []"
proof (cases t)
  case (TTuple ts)
  assume ty: "well_typed t v" and dyn: "\<not> has_static_size t"
  from ty TTuple obtain vs where v: "v = VTuple vs" "list_all2 well_typed ts vs"
    by (cases v) (simp_all add: list_all2_typed)
  from dyn TTuple obtain i where i: "i < length ts" "\<not> has_static_size (ts ! i)"
    by (auto simp: list_all_iff in_set_conv_nth)
  with v have "part (ts ! i) (vs ! i) \<in> set (parts ts vs)"
    by (auto simp: parts_def set_zip list_all2_lengthD)
  then have "heads pos (parts ts vs) \<noteq> []" for pos
    by (rule length_heads_dynamic) (simp add: part_def i(2))
  then show ?thesis by (simp add: TTuple v zip_parts layout_def)
qed (auto split: evm_value.splits simp flip: length_greater_0_conv)

lemma parts_nonempty: "list_all2 well_typed ts vs \<Longrightarrow> \<forall>p\<in>set (parts ts vs). fst p \<or> snd p \<noteq> []"
  by (auto simp: parts_def part_def list_all2_iff enc_dynamic)

text \<open>The dynamic types, given that the pointer leads to the encoding.\<close>

lemma read_vec_stands:
  assumes ty: "length vs < usize_end" "\<And>v. v \<in> set vs \<Longrightarrow> well_typed t v"
    and IH: "\<And>v input c. v \<in> set vs \<Longrightarrow> part_at input c (part t v) \<Longrightarrow> length input < usize_end \<Longrightarrow>
        evm_read t \<lparr>er_input = input, er_cursor = c\<rparr> =
          Inr (v, \<lparr>er_input = input, er_cursor = c + head_size (part t v)\<rparr>)"
    and q: "q < length input" "stands input c (be_bytes 32 q)" "stands input q (enc (TVec t) (VVec vs))"
    and len: "length input < usize_end"
  shows "evm_read (TVec t) \<lparr>er_input = input, er_cursor = c\<rparr> = Inr (VVec vs, \<lparr>er_input = input, er_cursor = c + 32\<rparr>)"
proof -
  let ?items = "drop 32 (drop q input)"
  have s: "stands input q (be_bytes 32 (length vs))" "stands input (q + 32) (layout (map (part t) vs))"
    using q(3) by (simp_all add: part_vec stands_append)
  have n: "stands (drop q input) 0 (be_bytes 32 (length vs))" and l: "32 \<le> length (drop q input)"
    and body: "stands ?items 0 (layout (map (part t) vs))"
    using s q(1) by (auto simp: stands_def add.commute)
  have "\<forall>p\<in>set (map (part t) vs). fst p \<or> snd p \<noteq> []"
    using ty(2) by (auto simp: part_def enc_dynamic)
  then have "parts_at ?items 0 (map (part t) vs)" by (rule stands_layout [OF body])
  then obtain r where "read_times (evm_read t) (length vs) \<lparr>er_input = ?items, er_cursor = 0\<rparr> = Inr (vs, r)"
    using read_times_parts [of vs ?items t 0] IH len by auto
  then show ?thesis
    using q(1, 2) n l len ty(1)
    by (simp add: read_pointer_stands read_u256_stands [OF _ usize_256] map_err_def usize_try_from_nat
        get_range_def er_new_def)
qed

lemma read_bytes_stands:
  assumes "length bs < usize_end" "q < length input" "stands input c (be_bytes 32 q)"
    and "stands input q (enc TBytes (VBytes bs))" "length input < usize_end"
  shows "evm_read TBytes \<lparr>er_input = input, er_cursor = c\<rparr> = Inr (VBytes bs, \<lparr>er_input = input, er_cursor = c + 32\<rparr>)"
proof -
  have "stands (drop q input) 0 (be_bytes 32 (length bs))" "stands (drop q input) 32 bs"
    using assms(2, 4) by (simp_all add: stands_append stands_drop)
  then show ?thesis
    using assms
    by (simp add: read_pointer_stands read_u256_stands [OF _ usize_256] map_err_def usize_try_from_nat read_raw_stands)
qed

lemma read_tuple_part:
  assumes ty: "list_all2 well_typed ts vs"
    and IH: "\<And>t v input c. t \<in> set ts \<Longrightarrow> well_typed t v \<Longrightarrow> part_at input c (part t v) \<Longrightarrow>
        length input < usize_end \<Longrightarrow> evm_read t \<lparr>er_input = input, er_cursor = c\<rparr> =
          Inr (v, \<lparr>er_input = input, er_cursor = c + head_size (part t v)\<rparr>)"
    and at: "part_at input c (part (TTuple ts) (VTuple vs))" and len: "length input < usize_end"
  shows "evm_read (TTuple ts) \<lparr>er_input = input, er_cursor = c\<rparr> =
    Inr (VTuple vs, \<lparr>er_input = input, er_cursor = c + head_size (part (TTuple ts) (VTuple vs))\<rparr>)"
proof (cases "has_static_size (TTuple ts)")
  case True
  note static = static_parts [OF True, of vs]
  have e: "enc (TTuple ts) (VTuple vs) = concat (map snd (parts ts vs))"
    by (simp add: zip_parts layout_static [OF static])
  have "parts_at input c (parts ts vs)"
    using at True e by (intro stands_concat [OF static]) (simp add: part_at_def part_def del: has_static_size.simps)
  moreover have "head_size (part (TTuple ts) (VTuple vs)) = sum_list (map head_size (parts ts vs))"
    using static True unfolding part_def e
    by (simp add: length_concat head_size_def o_def cong: map_cong del: has_static_size.simps)
  ultimately show ?thesis
    using read_seq_parts [of ts input vs c] IH len ty True by (simp add: read_all_def del: has_static_size.simps)
next
  case False
  then obtain q where q: "q < length input" "stands input c (be_bytes 32 q)" "stands input q (layout (parts ts vs))"
    using at by (auto simp: part_at_def part_def zip_parts simp del: has_static_size.simps)
  then have "parts_at (drop q input) 0 (parts ts vs)"
    using parts_nonempty [OF ty] by (intro stands_layout) (simp_all add: stands_drop)
  then show ?thesis
    using read_seq_parts [of ts "drop q input" vs 0] IH len ty False q
    by (simp add: read_all_def read_pointer_stands part_def del: has_static_size.simps)
qed

lemma drop_be_bytes: "drop k (be_bytes (k + n) x) = be_bytes n x"
  by (induction n arbitrary: x) simp_all

lemma u256_be_bytes [simp]: "(of_nat (from_be (be_bytes 32 (unat x))) :: u256) = x"
  using unat_bound [of x] by (simp add: from_be_bytes_exact)

lemma read_u256_word:
  "\<lbrakk>stands input c (be_bytes 32 (unat x)); length input < usize_end\<rbrakk> \<Longrightarrow>
     er_read_u256 \<lparr>er_input = input, er_cursor = c\<rparr> = Inr (x, \<lparr>er_input = input, er_cursor = c + 32\<rparr>)"
  by (simp add: er_read_u256_def read_raw_stands)

lemma uint_less_256: "well_typed (TUint w) (VUint x) \<Longrightarrow> x < 2 ^ 256"
  using power_increasing [of w 256 "2::nat"] by auto

lemma evm_read_part:
  "\<lbrakk>well_typed t v; part_at input c (part t v); length input < usize_end\<rbrakk> \<Longrightarrow>
     evm_read t \<lparr>er_input = input, er_cursor = c\<rparr> =
       Inr (v, \<lparr>er_input = input, er_cursor = c + head_size (part t v)\<rparr>)"
proof (induction t arbitrary: v input c)
  case (TTuple ts)
  then obtain vs where "v = VTuple vs" "list_all2 well_typed ts vs" by (cases v) (simp_all add: list_all2_typed)
  with TTuple read_tuple_part show ?case by blast
next
  case (TVec t)
  then obtain vs where v: "v = VVec vs" "length vs < usize_end" "\<And>x. x \<in> set vs \<Longrightarrow> well_typed t x"
    by (cases v) (simp_all add: list_all_iff)
  with TVec.prems obtain q where "q < length input" "stands input c (be_bytes 32 q)"
    "stands input q (enc (TVec t) (VVec vs))" by (auto simp: part_at_def part_def)
  with v read_vec_stands [of vs t q input c] TVec show ?case by (simp add: part_def)
next
  case TBytes
  then obtain bs where "v = VBytes bs" "length bs < usize_end" by (cases v) simp_all
  with TBytes read_bytes_stands [of bs _ input c] show ?case by (auto simp: part_at_def part_def)
next
  case (TUint w)
  then obtain x where x: "v = VUint x" "x < 2 ^ w" "x < 2 ^ 256" using uint_less_256 [of w] by (cases v) auto
  then have "unat (of_nat x :: u256) = x" by (simp add: unat_of_nat_less)
  with TUint.prems x show ?case
    by (simp add: part_at_def part_def read_u256_stands del: well_typed.simps)
next
  case TAddress
  then obtain a where "v = VAddress a" by (cases v) simp_all
  with TAddress show ?case
    using unat_bound [of a]
    by (simp add: part_at_def part_def read_raw_stands drop_be_bytes [of 12 20, simplified] from_be_bytes_exact)
qed (auto simp: part_at_def part_def read_raw_stands read_u256_word from_be_bytes_exact map_err_def
    split: evm_value.splits)

text \<open>Every argument takes at least one word of the heads.\<close>

lemma enc_at_least_word: "well_typed t v \<Longrightarrow> has_static_size t \<Longrightarrow> 32 \<le> length (enc t v)"
proof (induction t arbitrary: v)
  case (TTuple ts)
  then obtain vs where v: "v = VTuple vs" "1 \<le> length ts" "list_all2 well_typed ts vs"
    by (cases v) (simp_all add: list_all2_typed)
  then obtain t ts' x xs where ts: "ts = t # ts'" "vs = x # xs" "well_typed t x"
    by (cases ts; cases vs) auto
  with TTuple have "32 \<le> length (enc t x)" by simp
  with ts v(1) static_parts [OF TTuple.prems(2), of vs] show ?case
    by (simp add: zip_parts layout_static part_def del: has_static_size.simps)
qed (auto split: evm_value.splits)

lemma head_at_least_word: "well_typed t v \<Longrightarrow> 32 \<le> head_size (part t v)"
  by (simp add: part_def head_size_def enc_at_least_word)

lemma layout_at_least: "list_all2 well_typed ts vs \<Longrightarrow> length ts * 32 \<le> length (layout (parts ts vs))"
proof -
  assume "list_all2 well_typed ts vs"
  then have "length ts * 32 \<le> sum_list (map head_size (parts ts vs))"
  proof (induction rule: list_all2_induct)
    case (Cons t ts v vs)
    with head_at_least_word [of t v] show ?case by simp
  qed simp
  then show ?thesis by (simp add: layout_def length_heads)
qed

lemma parts_append: "length ts = length vs \<Longrightarrow> parts (ts @ ts') (vs @ vs') = parts ts vs @ parts ts' vs'"
  by (simp add: parts_def)

lemma parts_at_append: "parts_at input c (ps @ qs) \<Longrightarrow> parts_at input c ps"
  by (induction ps arbitrary: c) auto

text \<open>
  What a contract does with encoded call data: the selector, the check of the length, the arguments.
  It may leave the last arguments unread.
\<close>

lemma read_encoded:
  assumes ty: "list_all2 well_typed ts vs" and ty': "list_all2 well_typed ts' vs'"
    and input: "input = ew_build (write_all (ts @ ts') (vs @ vs') (ew_new_with_selector sel))"
    and len: "length input < usize_end"
  shows "er_read_selector f input = ok_or (f sel) (Revert ''unknown selector'')"
    and "\<exists>r r'. er_new_skip_selector input = Inr r \<and> er_expect_arguments (length ts) r = Inr () \<and> read_all ts r = Inr (vs, r')"
proof -
  have all: "list_all2 well_typed (ts @ ts') (vs @ vs')" using ty ty' by (rule list_all2_appendI)
  let ?body = "layout (parts (ts @ ts') (vs @ vs'))"
  have i: "input = be_bytes 4 (unat sel) @ ?body"
    using all by (simp add: input build_write_all build_layout)
  then show "er_read_selector f input = ok_or (f sel) (Revert ''unknown selector'')"
    using unat_bound [of sel] by (simp add: er_read_selector_def from_be_bytes_exact)
  have "stands ?body 0 ?body" by (simp add: stands_def)
  then have "parts_at ?body 0 (parts (ts @ ts') (vs @ vs'))"
    using parts_nonempty [OF all] by (rule stands_layout)
  then have "parts_at ?body 0 (parts ts vs)"
    using list_all2_lengthD [OF ty] by (simp add: parts_append parts_at_append)
  then have "\<exists>r'. read_all ts (er_new ?body) = Inr (vs, r')"
    using read_seq_parts [OF evm_read_part ty] len i by (simp add: er_new_def)
  moreover have "er_expect_arguments (length ts) (er_new ?body) = Inr ()"
    using layout_at_least [OF all] len i by (simp add: er_expect_arguments_def er_new_def)
  ultimately show "\<exists>r r'. er_new_skip_selector input = Inr r \<and> er_expect_arguments (length ts) r = Inr ()
      \<and> read_all ts r = Inr (vs, r')"
    by (simp add: er_new_skip_selector_def i)
qed

text \<open>
  C24: Reading back what was written gives the values, for every list of types: the selector, then each
  argument, and no reader fails. The only bound is that the call data is shorter than the
  address space.
\<close>

theorem evm_roundtrip:
  assumes ty: "list_all2 well_typed ts vs"
    and input: "input = ew_build (write_all ts vs (ew_new_with_selector sel))"
    and len: "length input < usize_end"
  shows "er_read_selector Some input = Inr sel \<and>
    (\<exists>r r'. er_new_skip_selector input = Inr r \<and> read_all ts r = Inr (vs, r'))"
proof
  have nil: "list_all2 well_typed [] []" and i: "input = ew_build (write_all (ts @ []) (vs @ []) (ew_new_with_selector sel))"
    by (simp_all add: input)
  show "er_read_selector Some input = Inr sel" using read_encoded(1) [OF ty nil i len, of Some] by simp
  show "\<exists>r r'. er_new_skip_selector input = Inr r \<and> read_all ts r = Inr (vs, r')"
    using read_encoded(2) [OF ty nil i len] by blast
qed

theorem evm_roundtrip_witness:
  "\<exists>r r'. er_new_skip_selector (ew_build (write_all [TUint 8, TVec TBool] [VUint 3, VVec [VBool True, VBool False]]
      (ew_new_with_selector 5))) = Inr r \<and>
    read_all [TUint 8, TVec TBool] r = Inr ([VUint 3, VVec [VBool True, VBool False]], r')"
proof -
  have "length (ew_build (write_all [TUint 8, TVec TBool] [VUint 3, VVec [VBool True, VBool False]]
      (ew_new_with_selector 5))) < usize_end"
    by (simp add: build_write_all build_layout part_def layout_def usize_end_def)
  then show ?thesis
    by (intro conjunct2 [OF evm_roundtrip [OF _ refl]]) (simp_all add: usize_end_def)
qed

section \<open>What the reader makes of any input\<close>











end
