(* ===== verification/PrecompileUtils.thy ===== *)
theory PrecompileUtils
  imports EvmData CallSwitchgear
begin

text \<open>
  What the precompiled contracts share (\<open>precompiles/utils/src\<close>): the handle of a call, function
  modifiers, the cost of logs, function selectors, and the dispatch of a call of the runtime, which
  checks and records the gas. The contract of a precompile is the locale \<open>precompile\<close>: whatever an
  EVM call does to the storage of a pallet is what one signed call of that pallet does.
\<close>

section \<open>The handle\<close>

type_synonym h160 = "160 word"

text \<open>What a precompile sees of the EVM: the call frame, its input and the gas that is left.\<close>

record precompile_handle =
  ph_code_address :: h160
  ph_input :: bytes
  ph_address :: h160
  ph_caller :: h160
  ph_apparent_value :: u256
  ph_is_static :: bool
  ph_remaining_gas :: u64

text \<open>
  Code of other crates: the account of an EVM address (\<open>HashedAddressMapping\<close>), the hash function
  of the selectors, and the debug output of an error.
\<close>

record precompile_env =
  pe_into_account_id :: "h160 \<Rightarrow> account"
  pe_keccak256 :: "string \<Rightarrow> bytes"
  pe_debug :: "dispatch_error \<Rightarrow> string"

text \<open>The discriminant that \<open>generate_function_selector\<close> gives to a variant with this signature.\<close>

definition function_selector :: "precompile_env \<Rightarrow> string \<Rightarrow> u32" where
  "function_selector E sig = of_nat (from_be (take 4 (pe_keccak256 E sig)))"

text \<open>\<open>try_from_primitive\<close> of an enum given by its variants and their signatures.\<close>

definition action_of :: "precompile_env \<Rightarrow> (string \<times> 'a) list \<Rightarrow> u32 \<Rightarrow> 'a option" where
  "action_of E table x = map_option snd (find (\<lambda>(sig, a). function_selector E sig = x) table)"

section \<open>Modifiers, gas and logs\<close>

datatype function_modifier = View | NonPayable | Payable

definition check_function_modifier :: "precompile_handle \<Rightarrow> function_modifier \<Rightarrow> unit evm_result" where
  "check_function_modifier h modifier =
     (if ph_is_static h \<and> modifier \<noteq> View then Inl (Revert ''can't call non-static function in static context'')
      else if modifier \<noteq> Payable \<and> ph_apparent_value h > 0 then Inl (Revert ''function is not payable'')
      else Inr ())"

definition record_cost :: "u64 \<Rightarrow> precompile_handle \<Rightarrow> precompile_handle evm_result" where
  "record_cost cost h =
     (if cost \<le> ph_remaining_gas h then Inr (h\<lparr>ph_remaining_gas := ph_remaining_gas h - cost\<rparr>) else Inl OutOfGas)"

definition log_costs :: "u64 \<Rightarrow> u64 \<Rightarrow> u64 evm_result" where
  "log_costs topics data_len =
     and_then (ok_or (checked_mul 375 topics) OutOfGas) (\<lambda>topic_cost.
     and_then (ok_or (checked_mul 8 data_len) OutOfGas) (\<lambda>data_cost.
     and_then (ok_or (checked_add 375 topic_cost) OutOfGas) (\<lambda>c.
     ok_or (checked_add c data_cost) OutOfGas)))"

definition record_log_costs_manual :: "u64 \<Rightarrow> u64 \<Rightarrow> precompile_handle \<Rightarrow> precompile_handle evm_result" where
  "record_log_costs_manual topics data_len h = and_then (log_costs topics data_len) (\<lambda>c. record_cost c h)"

text \<open>\<open>WEIGHT_PER_SECOND / GAS_PER_SECOND\<close>.\<close>

definition WEIGHT_PER_GAS :: u64 where "WEIGHT_PER_GAS = 1000000000000 div 40000000"

definition gas_to_weight :: "u64 \<Rightarrow> u64" where
  "gas_to_weight gas = saturating_mul gas WEIGHT_PER_GAS"

definition weight_to_gas :: "u64 \<Rightarrow> u64" where
  "weight_to_gas weight = weight div WEIGHT_PER_GAS"

section \<open>Dispatching a call of the runtime\<close>

text \<open>
  How the runtime runs the calls of one pallet: the pallet itself, the names the filter of the
  runtime sees, and the weights of the calls. No call of these pallets corrects its weight
  afterwards, so the gas used is the gas required.
\<close>

record ('call, 's) runtime_pallet =
  rp_dispatch :: "origin \<times> 'call \<Rightarrow> 's \<Rightarrow> 's dispatch"
  rp_metadata :: "'call \<Rightarrow> call_metadata"
  rp_weight :: "'call \<Rightarrow> u64"

definition runtime_dispatch ::
  "sw_storage \<Rightarrow> ('call, 's) runtime_pallet \<Rightarrow> origin \<times> 'call \<Rightarrow> 's \<Rightarrow> 's dispatch" where
  "runtime_dispatch sw R oc s =
     ensure (call_filter_contains sw (rp_metadata R (snd oc))) CallFiltered (rp_dispatch R oc s)"

definition try_dispatch ::
  "precompile_env \<Rightarrow> sw_storage \<Rightarrow> ('call, 's) runtime_pallet \<Rightarrow> origin \<Rightarrow> 'call
     \<Rightarrow> precompile_handle \<Rightarrow> 's \<Rightarrow> (precompile_handle \<times> 's) evm_result" where
  "try_dispatch E sw R orig call h s =
     (let required_gas = weight_to_gas (rp_weight R call) in
      if required_gas > ph_remaining_gas h then Inl OutOfGas
      else case runtime_dispatch sw R (orig, call) s of
        Inl e \<Rightarrow>
          Inl (if e = Panicked then EvmPanic else Revert (''Dispatched call failed with error: '' @ pe_debug E e))
      | Inr s' \<Rightarrow> and_then (record_cost required_gas h) (\<lambda>h. Inr (h, s')))"

text \<open>The result of a precompile: output, handle and storage. A failure reverts the storage.\<close>

type_synonym 's precompile_result = "(bytes \<times> precompile_handle \<times> 's) evm_result"

text \<open>The arguments: the number of words is checked, then they are read one after the other.\<close>

definition with_args ::
  "nat \<Rightarrow> evm_type list \<Rightarrow> precompile_handle \<Rightarrow> (evm_value list \<Rightarrow> 's precompile_result) \<Rightarrow> 's precompile_result" where
  "with_args n ts h k =
     and_then (er_new_skip_selector (ph_input h)) (\<lambda>r.
     and_then (er_expect_arguments n r) (\<lambda>_.
     and_then (read_all ts r) (\<lambda>(vs, _). k vs)))"

fun un_address :: "evm_value \<Rightarrow> h160" where
  "un_address (VAddress a) = a"
| "un_address _ = 0"

fun un_uint :: "evm_value \<Rightarrow> nat" where
  "un_uint (VUint x) = x"
| "un_uint _ = 0"

fun un_bool :: "evm_value \<Rightarrow> bool" where
  "un_bool (VBool b) = b"
| "un_bool _ = False"

fun un_bytes :: "evm_value \<Rightarrow> bytes" where
  "un_bytes (VBytes bs) = bs"
| "un_bytes _ = []"

fun un_vec :: "evm_value \<Rightarrow> evm_value list" where
  "un_vec (VVec vs) = vs"
| "un_vec _ = []"

definition arg_u128 :: "evm_value \<Rightarrow> u128" where "arg_u128 v = of_nat (un_uint v)"
definition arg_u64 :: "evm_value \<Rightarrow> u64" where "arg_u64 v = of_nat (un_uint v)"
definition arg_u32 :: "evm_value \<Rightarrow> u32" where "arg_u32 v = of_nat (un_uint v)"
definition arg_u8 :: "evm_value \<Rightarrow> u8" where "arg_u8 v = of_nat (un_uint v)"
definition arg_account :: "precompile_env \<Rightarrow> evm_value \<Rightarrow> account" where
  "arg_account E v = pe_into_account_id E (un_address v)"

text \<open>\<open>EvmDataWriter::new().write(value).build()\<close>.\<close>

definition output_of :: "evm_type \<Rightarrow> evm_value \<Rightarrow> bytes" where
  "output_of t v = ew_build (evm_write t v ew_new)"

text \<open>A function that dispatches one call for the caller and returns \<open>true\<close>, and a getter.\<close>

definition call_as_caller ::
  "precompile_env \<Rightarrow> sw_storage \<Rightarrow> ('call, 's) runtime_pallet \<Rightarrow> 'call \<Rightarrow> precompile_handle \<Rightarrow> 's
     \<Rightarrow> 's precompile_result" where
  "call_as_caller E sw R call h s =
     (let origin = Signed (pe_into_account_id E (ph_caller h)) in
      and_then (try_dispatch E sw R origin call h s) (\<lambda>(h, s). Inr (output_of TBool (VBool True), h, s)))"

definition returns :: "evm_type \<Rightarrow> evm_value \<Rightarrow> precompile_handle \<Rightarrow> 's \<Rightarrow> 's precompile_result" where
  "returns t v h s = Inr (output_of t v, h, s)"

text \<open>A getter of a pallet that can panic.\<close>

definition or_panic :: "'a dispatch \<Rightarrow> ('a \<Rightarrow> 'b evm_result) \<Rightarrow> 'b evm_result" where
  "or_panic m k = (case m of Inl _ \<Rightarrow> Inl EvmPanic | Inr x \<Rightarrow> k x)"

text \<open>
  Any mix of EVM calls, each under the switches of its time, and ordinary calls of a pallet.
\<close>

fun mixed_dispatch ::
  "(sw_storage \<Rightarrow> precompile_handle \<Rightarrow> 's \<Rightarrow> 's precompile_result option) \<Rightarrow> ('call, 's) runtime_pallet
     \<Rightarrow> (sw_storage \<times> precompile_handle) + (origin \<times> 'call) \<Rightarrow> 's \<Rightarrow> unit + 's" where
  "mixed_dispatch execute R (Inl (sw, h)) s =
     (case execute sw h s of Some (Inr (_, _, s')) \<Rightarrow> Inr s' | _ \<Rightarrow> Inl ())"
| "mixed_dispatch execute R (Inr oc) s = (case rp_dispatch R oc s of Inl _ \<Rightarrow> Inl () | Inr s' \<Rightarrow> Inr s')"

text \<open>
  The ordinary calls that may stand for a step of such a mix: for an EVM call at most one, signed by
  the account of the EVM caller and let through by the filter of that time, for an ordinary call
  itself.
\<close>

fun stands_for ::
  "precompile_env \<Rightarrow> ('call, 's) runtime_pallet \<Rightarrow> (sw_storage \<times> precompile_handle) + (origin \<times> 'call)
     \<Rightarrow> (origin \<times> 'call) list \<Rightarrow> bool" where
  "stands_for E R (Inl (sw, h)) cs \<longleftrightarrow> cs = [] \<or>
     (\<exists>c. cs = [(Signed (pe_into_account_id E (ph_caller h)), c)] \<and> call_filter_contains sw (rp_metadata R c))"
| "stands_for E R (Inr oc) cs \<longleftrightarrow> cs = [oc]"

section \<open>Lemmas\<close>

lemma runtime_dispatch_eq_Inr [result_eqs]:
  "runtime_dispatch sw R oc s = Inr s' \<longleftrightarrow>
     call_filter_contains sw (rp_metadata R (snd oc)) \<and> rp_dispatch R oc s = Inr s'"
  by (simp add: runtime_dispatch_def result_eqs)

lemma try_dispatchD:
  "try_dispatch E sw R orig call h s = Inr (h', s') \<Longrightarrow> runtime_dispatch sw R (orig, call) s = Inr s'"
  by (auto simp: try_dispatch_def Let_def result_eqs split: if_splits sum.splits)

text \<open>With enough gas, dispatching succeeds exactly when the call does, and the gas is recorded.\<close>

lemma try_dispatch_ok:
  assumes "weight_to_gas (rp_weight R call) \<le> ph_remaining_gas h" and "runtime_dispatch sw R (orig, call) s = Inr s'"
  shows "try_dispatch E sw R orig call h s =
    Inr (h\<lparr>ph_remaining_gas := ph_remaining_gas h - weight_to_gas (rp_weight R call)\<rparr>, s')"
  using assms by (simp add: try_dispatch_def record_cost_def Let_def not_less)

lemma with_args_eq_Inr: "with_args n ts h k = Inr y \<Longrightarrow> \<exists>vs. k vs = Inr y"
  by (auto simp: with_args_def result_eqs)

lemma with_argsE:
  assumes "with_args n ts h k = Inr y"
  obtains vs where "k vs = Inr y"
  using with_args_eq_Inr [OF assms] by blast

lemma call_as_callerD:
  "call_as_caller E sw R call h s = Inr (out, h', s') \<Longrightarrow>
     runtime_dispatch sw R (Signed (pe_into_account_id E (ph_caller h)), call) s = Inr s'"
  by (auto simp: call_as_caller_def and_then_eq_Inr dest!: try_dispatchD)

lemma or_panic_eq_Inr [result_eqs]: "or_panic m k = Inr y \<longleftrightarrow> (\<exists>x. m = Inr x \<and> k x = Inr y)"
  by (auto simp: or_panic_def split: sum.splits)

text \<open>The two ways a function of a precompile can end well.\<close>

definition steps_as_caller ::
  "precompile_env \<Rightarrow> sw_storage \<Rightarrow> ('call, 's) runtime_pallet \<Rightarrow> precompile_handle \<Rightarrow> 's \<Rightarrow> 's \<Rightarrow> bool" where
  "steps_as_caller E sw R h s s' \<longleftrightarrow>
     (\<exists>c. runtime_dispatch sw R (Signed (pe_into_account_id E (ph_caller h)), c) s = Inr s')"

lemma call_as_caller_steps:
  "call_as_caller E sw R call h s = Inr (out, h', s') \<Longrightarrow> steps_as_caller E sw R h s s'"
  by (auto simp: steps_as_caller_def dest: call_as_callerD)

text \<open>With encoded arguments the function gets the values that were encoded.\<close>

lemma with_args_encoded:
  assumes "list_all2 well_typed ts vs" "list_all2 well_typed ts' vs'" "length (ph_input h) < usize_end"
    and "ph_input h = ew_build (write_all (ts @ ts') (vs @ vs') (ew_new_with_selector sel))"
  shows "with_args (length ts) ts h k = k vs"
  using read_encoded(2) [OF assms(1, 2, 4, 3)] by (auto simp: with_args_def)

lemma action_of_mem:
  assumes "(sig, a) \<in> set table" and "distinct (map (function_selector E \<circ> fst) table)"
  shows "action_of E table (function_selector E sig) = Some a"
  using assms
proof (induction table)
  case (Cons p table)
  then show ?case by (cases p) (force simp: action_of_def split: if_splits)
qed simp

section \<open>The contract of a precompile\<close>

locale precompile =
  fixes execute :: "sw_storage \<Rightarrow> precompile_handle \<Rightarrow> 's \<Rightarrow> 's precompile_result option"
    and E :: precompile_env
    and R :: "('call, 's) runtime_pallet"
  assumes execute_step:
    "execute sw h s = Some (Inr (out, h', s')) \<Longrightarrow> s' = s \<or> steps_as_caller E sw R h s s'"
begin

text \<open>What a call does to the storage, one signed call of the pallet does: a relation the pallet keeps is kept.\<close>

lemma execute_rel:
  assumes "execute sw h s = Some (Inr (out, h', s'))" and "P s s"
    and "\<And>c. rp_dispatch R (Signed (pe_into_account_id E (ph_caller h)), c) s = Inr s' \<Longrightarrow> P s s'"
  shows "P s s'"
  using execute_step [OF assms(1)] assms(2, 3) by (auto simp: steps_as_caller_def result_eqs)

lemma mixed_step:
  "\<exists>cs. stands_for E R x cs \<and> exec (mixed_dispatch execute R) [x] s = exec (rp_dispatch R) cs s"
proof (cases x)
  case (Inl p)
  obtain sw h where p: "p = (sw, h)" by (cases p)
  show ?thesis
  proof (cases "execute sw h s")
    case (Some r)
    show ?thesis
    proof (cases r)
      case (Inr y)
      obtain out h' s' where y: "y = (out, h', s')" by (cases y)
      with Some Inr have "s' = s \<or> steps_as_caller E sw R h s s'" using execute_step by blast
      then show ?thesis
      proof
        assume "s' = s"
        then show ?thesis using Some Inr Inl p y by (intro exI [of _ "[]"]) simp
      next
        assume "steps_as_caller E sw R h s s'"
        then obtain c where "call_filter_contains sw (rp_metadata R c)"
          and "rp_dispatch R (Signed (pe_into_account_id E (ph_caller h)), c) s = Inr s'"
          by (auto simp: steps_as_caller_def result_eqs)
        then show ?thesis using Some Inr Inl p y
          by (intro exI [of _ "[(Signed (pe_into_account_id E (ph_caller h)), c)]"]) simp
      qed
    qed (use Inl p Some in \<open>auto intro!: exI [of _ "[]"]\<close>)
  qed (use Inl p in \<open>auto intro!: exI [of _ "[]"]\<close>)
next
  case (Inr oc)
  then show ?thesis by (intro exI [of _ "[oc]"]) (auto split: sum.splits)
qed

lemma exec_mixed:
  "\<exists>css. list_all2 (stands_for E R) xs css \<and>
     exec (mixed_dispatch execute R) xs s = exec (rp_dispatch R) (concat css) s"
proof (induction xs arbitrary: s)
  case (Cons x xs)
  obtain cs where cs: "stands_for E R x cs" "exec (mixed_dispatch execute R) [x] s = exec (rp_dispatch R) cs s"
    using mixed_step by blast
  obtain css where "list_all2 (stands_for E R) xs css"
    "exec (mixed_dispatch execute R) xs (exec (rp_dispatch R) cs s) = exec (rp_dispatch R) (concat css) (exec (rp_dispatch R) cs s)"
    using Cons.IH by blast
  then show ?case
    using cs exec_append [of "mixed_dispatch execute R" "[x]" xs s]
    by (intro exI [of _ "cs # css"]) (simp add: exec_append)
qed simp

end

section \<open>Gas\<close>

lemma WEIGHT_PER_GAS_nat: "unat WEIGHT_PER_GAS = 25000"
  by (simp add: WEIGHT_PER_GAS_def)

text \<open>Converting gas to weight and back loses nothing as long as the weight does not saturate.\<close>

lemma gas_roundtrip: "unat g * 25000 < 2 ^ 64 \<Longrightarrow> weight_to_gas (gas_to_weight g) = g"
  by (rule word_eq_unatI)
    (simp add: weight_to_gas_def gas_to_weight_def unat_div unat_saturating_mul WEIGHT_PER_GAS_nat)

lemma gas_to_weight_mono: "g \<le> g' \<Longrightarrow> gas_to_weight g \<le> gas_to_weight g'"
  by (simp add: word_le_nat_alt gas_to_weight_def unat_saturating_mul WEIGHT_PER_GAS_nat)

end
