(* ===== verification/PrecompileTokens.thy ===== *)
theory PrecompileTokens
  imports PrecompileUtils TokenFungible TokenNonFungible TokenMulti
begin

text \<open>
  The contracts of the three kinds of tokens (\<open>precompiles/src/token_fungible.rs\<close>,
  \<open>token_non_fungible.rs\<close>, \<open>token_multi.rs\<close>): the addresses of tokens, the functions of each
  contract, and the entry point that chooses one by its selector. Each contract satisfies the
  contract of a precompile, so EVM calls add no reachable storage to that of the pallets, and each
  function, called with encoded arguments, is the call of the pallet it names.
\<close>

section \<open>Addresses of tokens\<close>

definition FT_PRECOMPILE_ADDRESS_PREFIX :: bytes where "FT_PRECOMPILE_ADDRESS_PREFIX = [255, 255, 255, 255]"
definition NFT_PRECOMPILE_ADDRESS_PREFIX :: bytes where "NFT_PRECOMPILE_ADDRESS_PREFIX = [254, 255, 255, 255]"
definition MT_PRECOMPILE_ADDRESS_PREFIX :: bytes where "MT_PRECOMPILE_ADDRESS_PREFIX = [253, 255, 255, 255]"

definition TOKEN_FUNGIBLE_CREATE_SELECTOR :: bytes where "TOKEN_FUNGIBLE_CREATE_SELECTOR = [66, 236, 171, 192]"
definition TOKEN_NON_FUNGIBLE_CREATE_SELECTOR :: bytes where "TOKEN_NON_FUNGIBLE_CREATE_SELECTOR = [233, 208, 99, 141]"
definition TOKEN_MULTI_CREATE_SELECTOR :: bytes where "TOKEN_MULTI_CREATE_SELECTOR = [207, 91, 165, 63]"

definition address_bytes :: "h160 \<Rightarrow> bytes" where
  "address_bytes a = be_bytes 20 (unat a)"

text \<open>The three contracts convert addresses in the same way, each with its own prefix.\<close>

definition try_from_address :: "bytes \<Rightarrow> h160 \<Rightarrow> u128 option" where
  "try_from_address own_prefix address =
     (let prefix = take 4 (address_bytes address); i = take 4 (drop 16 (address_bytes address)) in
      if prefix = own_prefix then Some (of_nat (from_be i)) else None)"

definition into_address :: "bytes \<Rightarrow> u128 \<Rightarrow> h160" where
  "into_address own_prefix tid = of_nat (from_be (own_prefix @ be_bytes 16 (unat tid)))"

definition ft_try_from_address :: "h160 \<Rightarrow> u128 option" where
  "ft_try_from_address = try_from_address FT_PRECOMPILE_ADDRESS_PREFIX"

definition ft_into_address :: "u128 \<Rightarrow> h160" where
  "ft_into_address = into_address FT_PRECOMPILE_ADDRESS_PREFIX"

definition nft_try_from_address :: "h160 \<Rightarrow> u128 option" where
  "nft_try_from_address = try_from_address NFT_PRECOMPILE_ADDRESS_PREFIX"

definition nft_into_address :: "u128 \<Rightarrow> h160" where
  "nft_into_address = into_address NFT_PRECOMPILE_ADDRESS_PREFIX"

definition mt_try_from_address :: "h160 \<Rightarrow> u128 option" where
  "mt_try_from_address = try_from_address MT_PRECOMPILE_ADDRESS_PREFIX"

definition mt_into_address :: "u128 \<Rightarrow> h160" where
  "mt_into_address = into_address MT_PRECOMPILE_ADDRESS_PREFIX"

text \<open>\<open>into_evm_address\<close> of the runtime keeps the first 20 bytes of an account.\<close>

definition into_evm_address :: "account \<Rightarrow> h160" where
  "into_evm_address a = of_nat (from_be (take 20 (be_bytes 32 (unat a))))"

section \<open>Fungible tokens\<close>

datatype ft_action =
    FtaName | FtaSymbol | FtaDecimals | FtaTotalSupply | FtaBalanceOf | FtaAllowance
  | FtaTransfer | FtaTransferFrom | FtaMint | FtaBurn | FtaApprove

definition ft_actions :: "(string \<times> ft_action) list" where
  "ft_actions =
     [(''name()'', FtaName), (''symbol()'', FtaSymbol), (''decimals()'', FtaDecimals),
      (''totalSupply()'', FtaTotalSupply), (''balanceOf(address)'', FtaBalanceOf),
      (''allowance(address,address)'', FtaAllowance), (''transfer(address,uint256)'', FtaTransfer),
      (''transferFrom(address,address,uint256)'', FtaTransferFrom), (''mint(address,uint256)'', FtaMint),
      (''burn(uint256)'', FtaBurn), (''approve(address,uint256)'', FtaApprove)]"

fun ft_modifier :: "ft_action \<Rightarrow> function_modifier" where
  "ft_modifier FtaName = View"
| "ft_modifier FtaSymbol = View"
| "ft_modifier FtaDecimals = View"
| "ft_modifier FtaTotalSupply = View"
| "ft_modifier FtaAllowance = View"
| "ft_modifier FtaBalanceOf = View"
| "ft_modifier FtaTransfer = NonPayable"
| "ft_modifier FtaTransferFrom = NonPayable"
| "ft_modifier FtaMint = NonPayable"
| "ft_modifier FtaBurn = NonPayable"
| "ft_modifier FtaApprove = NonPayable"

fun ft_call_name :: "ft_call \<Rightarrow> string" where
  "ft_call_name (FtCreateToken _ _ _ _) = ''create_token''"
| "ft_call_name (FtApprove _ _ _) = ''approve''"
| "ft_call_name (FtTransferCall _ _ _) = ''transfer''"
| "ft_call_name (FtTransferFrom _ _ _ _) = ''transfer_from''"
| "ft_call_name (FtMintCall _ _ _) = ''mint''"
| "ft_call_name (FtBurn _ _) = ''burn''"

definition ft_runtime :: "(ft_call \<Rightarrow> u64) \<Rightarrow> (ft_call, ft_storage) runtime_pallet" where
  "ft_runtime weight = \<lparr>rp_dispatch = ft_dispatch, rp_metadata = (\<lambda>c.
      \<lparr>call_pallet_name = name_bytes ''TokenFungible'', call_function_name = name_bytes (ft_call_name c)\<rparr>),
     rp_weight = weight\<rparr>"

type_synonym ft_function = "u128 \<Rightarrow> precompile_handle \<Rightarrow> ft_storage \<Rightarrow> ft_storage precompile_result"

definition ftp_create :: "precompile_env \<Rightarrow> (ft_call \<Rightarrow> u64) \<Rightarrow> sw_storage \<Rightarrow> ft_function" where
  "ftp_create E W sw tid h s = with_args 3 [TBytes, TBytes, TUint 8] h (\<lambda>vs.
     let name = un_bytes (vs ! 0); symb = un_bytes (vs ! 1); decimals = arg_u8 (vs ! 2) in
     call_as_caller E sw (ft_runtime W) (FtCreateToken tid name symb decimals) h s)"

definition ftp_total_supply :: ft_function where
  "ftp_total_supply tid h s = or_panic (ft_supply tid s) (\<lambda>amount. returns (TUint 128) (VUint (unat amount)) h s)"

definition ftp_balance_of :: "precompile_env \<Rightarrow> ft_function" where
  "ftp_balance_of E tid h s = with_args 1 [TAddress] h (\<lambda>vs.
     returns (TUint 128) (VUint (unat (ft_balance_of tid (arg_account E (vs ! 0)) s))) h s)"

definition ftp_allowance :: "precompile_env \<Rightarrow> ft_function" where
  "ftp_allowance E tid h s = with_args 2 [TAddress, TAddress] h (\<lambda>vs.
     let owner = arg_account E (vs ! 0); spender = arg_account E (vs ! 1) in
     returns (TUint 128) (VUint (unat (ft_allowances s (tid, owner, spender)))) h s)"

definition ftp_approve :: "precompile_env \<Rightarrow> (ft_call \<Rightarrow> u64) \<Rightarrow> sw_storage \<Rightarrow> ft_function" where
  "ftp_approve E W sw tid h s = with_args 2 [TAddress, TUint 128] h (\<lambda>vs.
     let spender = arg_account E (vs ! 0); amount = arg_u128 (vs ! 1) in
     call_as_caller E sw (ft_runtime W) (FtApprove tid spender amount) h s)"

definition ftp_transfer :: "precompile_env \<Rightarrow> (ft_call \<Rightarrow> u64) \<Rightarrow> sw_storage \<Rightarrow> ft_function" where
  "ftp_transfer E W sw tid h s = with_args 2 [TAddress, TUint 128] h (\<lambda>vs.
     let to = arg_account E (vs ! 0); amount = arg_u128 (vs ! 1) in
     call_as_caller E sw (ft_runtime W) (FtTransferCall tid to amount) h s)"

definition ftp_transfer_from :: "precompile_env \<Rightarrow> (ft_call \<Rightarrow> u64) \<Rightarrow> sw_storage \<Rightarrow> ft_function" where
  "ftp_transfer_from E W sw tid h s = with_args 3 [TAddress, TAddress, TUint 128] h (\<lambda>vs.
     let frm = arg_account E (vs ! 0); to = arg_account E (vs ! 1); amount = arg_u128 (vs ! 2) in
     call_as_caller E sw (ft_runtime W) (FtTransferFrom tid frm to amount) h s)"

definition ftp_mint :: "precompile_env \<Rightarrow> (ft_call \<Rightarrow> u64) \<Rightarrow> sw_storage \<Rightarrow> ft_function" where
  "ftp_mint E W sw tid h s = with_args 2 [TAddress, TUint 128] h (\<lambda>vs.
     let to = arg_account E (vs ! 0); amount = arg_u128 (vs ! 1) in
     call_as_caller E sw (ft_runtime W) (FtMintCall tid to amount) h s)"

definition ftp_burn :: "precompile_env \<Rightarrow> (ft_call \<Rightarrow> u64) \<Rightarrow> sw_storage \<Rightarrow> ft_function" where
  "ftp_burn E W sw tid h s = with_args 1 [TUint 128] h (\<lambda>vs.
     call_as_caller E sw (ft_runtime W) (FtBurn tid (arg_u128 (vs ! 0))) h s)"

definition ftp_name :: ft_function where
  "ftp_name tid h s = or_panic (ft_token_name tid s) (\<lambda>name. returns TBytes (VBytes name) h s)"

definition ftp_symbol :: ft_function where
  "ftp_symbol tid h s = or_panic (ft_token_symbol tid s) (\<lambda>symb. returns TBytes (VBytes symb) h s)"

definition ftp_decimals :: ft_function where
  "ftp_decimals tid h s = or_panic (ft_token_decimals tid s) (\<lambda>d. returns (TUint 8) (VUint (unat d)) h s)"

fun ftp_action :: "precompile_env \<Rightarrow> (ft_call \<Rightarrow> u64) \<Rightarrow> sw_storage \<Rightarrow> ft_action \<Rightarrow> ft_function" where
  "ftp_action E W sw FtaTotalSupply = ftp_total_supply"
| "ftp_action E W sw FtaBalanceOf = ftp_balance_of E"
| "ftp_action E W sw FtaName = ftp_name"
| "ftp_action E W sw FtaSymbol = ftp_symbol"
| "ftp_action E W sw FtaDecimals = ftp_decimals"
| "ftp_action E W sw FtaAllowance = ftp_allowance E"
| "ftp_action E W sw FtaMint = ftp_mint E W sw"
| "ftp_action E W sw FtaBurn = ftp_burn E W sw"
| "ftp_action E W sw FtaTransfer = ftp_transfer E W sw"
| "ftp_action E W sw FtaTransferFrom = ftp_transfer_from E W sw"
| "ftp_action E W sw FtaApprove = ftp_approve E W sw"

text \<open>
  The entry point. For an address without a token only the creation of a token is understood; the
  comparison with its selector slices the input and panics when there are fewer than four bytes.
\<close>

definition ft_execute ::
  "precompile_env \<Rightarrow> (ft_call \<Rightarrow> u64) \<Rightarrow> sw_storage \<Rightarrow> precompile_handle \<Rightarrow> ft_storage
     \<Rightarrow> ft_storage precompile_result option" where
  "ft_execute E W sw h s =
     (case ft_try_from_address (ph_code_address h) of None \<Rightarrow> None
      | Some tid \<Rightarrow>
          if ft_exists tid s then
            Some (and_then (er_read_selector (action_of E ft_actions) (ph_input h)) (\<lambda>selector.
              and_then (check_function_modifier h (ft_modifier selector)) (\<lambda>_.
              ftp_action E W sw selector tid h s)))
          else if length (ph_input h) < 4 then Some (Inl EvmPanic)
          else if take 4 (ph_input h) = TOKEN_FUNGIBLE_CREATE_SELECTOR then Some (ftp_create E W sw tid h s)
          else None)"

definition ft_is_precompile :: "h160 \<Rightarrow> ft_storage \<Rightarrow> bool" where
  "ft_is_precompile address s =
     (case ft_try_from_address address of Some tid \<Rightarrow> ft_exists tid s | None \<Rightarrow> False)"

section \<open>Non-fungible tokens\<close>

datatype nft_action =
    NftaBalanceOf | NftaOwnerOf | NftaTransferFrom | NftaMint | NftaBurn | NftaName | NftaSymbol
  | NftaTokenURI | NftaTotalSupply | NftaTokenOfOwnerByIndex | NftaTokenByIndex | NftaApprove

definition nft_actions :: "(string \<times> nft_action) list" where
  "nft_actions =
     [(''balanceOf(address)'', NftaBalanceOf), (''ownerOf(uint256)'', NftaOwnerOf),
      (''transferFrom(address,address,uint256)'', NftaTransferFrom), (''mint(address,uint256)'', NftaMint),
      (''burn(uint256)'', NftaBurn), (''name()'', NftaName), (''symbol()'', NftaSymbol),
      (''tokenURI(uint256)'', NftaTokenURI), (''totalSupply()'', NftaTotalSupply),
      (''tokenOfOwnerByIndex(address,uint256)'', NftaTokenOfOwnerByIndex),
      (''tokenByIndex(uint256)'', NftaTokenByIndex), (''approve(address,uint256)'', NftaApprove)]"

fun nft_modifier :: "nft_action \<Rightarrow> function_modifier" where
  "nft_modifier NftaName = View"
| "nft_modifier NftaSymbol = View"
| "nft_modifier NftaOwnerOf = View"
| "nft_modifier NftaTotalSupply = View"
| "nft_modifier NftaTokenURI = View"
| "nft_modifier NftaTokenOfOwnerByIndex = View"
| "nft_modifier NftaTokenByIndex = View"
| "nft_modifier NftaBalanceOf = View"
| "nft_modifier NftaTransferFrom = NonPayable"
| "nft_modifier NftaMint = NonPayable"
| "nft_modifier NftaBurn = NonPayable"
| "nft_modifier NftaApprove = NonPayable"

fun nft_call_name :: "nft_call \<Rightarrow> string" where
  "nft_call_name (NftCreateToken _ _ _ _) = ''create_token''"
| "nft_call_name (NftApprove _ _ _) = ''approve''"
| "nft_call_name (NftSetApproveForAll _ _ _) = ''set_approve_for_all''"
| "nft_call_name (NftTransferFrom _ _ _ _) = ''transfer_from''"
| "nft_call_name (NftMint _ _ _) = ''mint''"
| "nft_call_name (NftBurn _ _) = ''burn''"

definition nft_runtime :: "(nft_call \<Rightarrow> u64) \<Rightarrow> (nft_call, nft_storage) runtime_pallet" where
  "nft_runtime weight = \<lparr>rp_dispatch = nft_dispatch, rp_metadata = (\<lambda>c.
      \<lparr>call_pallet_name = name_bytes ''TokenNonFungible'', call_function_name = name_bytes (nft_call_name c)\<rparr>),
     rp_weight = weight\<rparr>"

type_synonym nft_function = "u128 \<Rightarrow> precompile_handle \<Rightarrow> nft_storage \<Rightarrow> nft_storage precompile_result"

definition nftp_create :: "precompile_env \<Rightarrow> (nft_call \<Rightarrow> u64) \<Rightarrow> sw_storage \<Rightarrow> nft_function" where
  "nftp_create E W sw tid h s = with_args 3 [TBytes, TBytes, TBytes] h (\<lambda>vs.
     let name = un_bytes (vs ! 0); symb = un_bytes (vs ! 1); base_uri = un_bytes (vs ! 2) in
     call_as_caller E sw (nft_runtime W) (NftCreateToken tid name symb base_uri) h s)"

definition nftp_balance_of :: "precompile_env \<Rightarrow> nft_function" where
  "nftp_balance_of E tid h s = with_args 1 [TAddress] h (\<lambda>vs.
     returns TU256 (VU256 (of_nat (unat (nft_balances s (tid, arg_account E (vs ! 0)))))) h s)"

text \<open>\<open>owner_of(id, token_id).unwrap()\<close> panics for a token that does not exist.\<close>

definition nftp_owner_of :: nft_function where
  "nftp_owner_of tid h s = with_args 1 [TUint 128] h (\<lambda>vs.
     case nft_owners s (tid, arg_u128 (vs ! 0)) of
       None \<Rightarrow> Inl EvmPanic
     | Some owner \<Rightarrow> returns TAddress (VAddress (into_evm_address owner)) h s)"

definition nftp_approve :: "precompile_env \<Rightarrow> (nft_call \<Rightarrow> u64) \<Rightarrow> sw_storage \<Rightarrow> nft_function" where
  "nftp_approve E W sw tid h s = with_args 2 [TAddress, TUint 128] h (\<lambda>vs.
     let to = arg_account E (vs ! 0); token_id = arg_u128 (vs ! 1) in
     call_as_caller E sw (nft_runtime W) (NftApprove tid to token_id) h s)"

definition nftp_transfer_from :: "precompile_env \<Rightarrow> (nft_call \<Rightarrow> u64) \<Rightarrow> sw_storage \<Rightarrow> nft_function" where
  "nftp_transfer_from E W sw tid h s = with_args 3 [TAddress, TAddress, TUint 128] h (\<lambda>vs.
     let frm = arg_account E (vs ! 0); to = arg_account E (vs ! 1); token_id = arg_u128 (vs ! 2) in
     call_as_caller E sw (nft_runtime W) (NftTransferFrom tid frm to token_id) h s)"

definition nftp_mint :: "precompile_env \<Rightarrow> (nft_call \<Rightarrow> u64) \<Rightarrow> sw_storage \<Rightarrow> nft_function" where
  "nftp_mint E W sw tid h s = with_args 2 [TAddress, TUint 128] h (\<lambda>vs.
     let to = arg_account E (vs ! 0); token_id = arg_u128 (vs ! 1) in
     call_as_caller E sw (nft_runtime W) (NftMint tid to token_id) h s)"

definition nftp_burn :: "precompile_env \<Rightarrow> (nft_call \<Rightarrow> u64) \<Rightarrow> sw_storage \<Rightarrow> nft_function" where
  "nftp_burn E W sw tid h s = with_args 1 [TUint 128] h (\<lambda>vs.
     call_as_caller E sw (nft_runtime W) (NftBurn tid (arg_u128 (vs ! 0))) h s)"

definition nftp_name :: nft_function where
  "nftp_name tid h s = or_panic (nft_token_name tid s) (\<lambda>name. returns TBytes (VBytes name) h s)"

definition nftp_symbol :: nft_function where
  "nftp_symbol tid h s = or_panic (nft_token_symbol tid s) (\<lambda>symb. returns TBytes (VBytes symb) h s)"

definition nftp_token_uri :: nft_function where
  "nftp_token_uri tid h s = with_args 1 [TUint 128] h (\<lambda>vs.
     or_panic (nft_token_uri tid (arg_u128 (vs ! 0)) s) (\<lambda>uri. returns TBytes (VBytes uri) h s))"

definition nftp_total_supply :: nft_function where
  "nftp_total_supply tid h s = returns (TUint 32) (VUint (unat (nft_total_supply tid s))) h s"

definition nftp_token_by_index :: nft_function where
  "nftp_token_by_index tid h s = with_args 1 [TUint 32] h (\<lambda>vs.
     returns (TUint 128) (VUint (unat (nft_token_by_index tid (arg_u32 (vs ! 0)) s))) h s)"

definition nftp_token_of_owner_by_index :: "precompile_env \<Rightarrow> nft_function" where
  "nftp_token_of_owner_by_index E tid h s = with_args 2 [TAddress, TUint 32] h (\<lambda>vs.
     let owner = arg_account E (vs ! 0); token_index = arg_u32 (vs ! 1) in
     returns (TUint 128) (VUint (unat (nft_token_of_owner_by_index tid owner token_index s))) h s)"

fun nftp_action :: "precompile_env \<Rightarrow> (nft_call \<Rightarrow> u64) \<Rightarrow> sw_storage \<Rightarrow> nft_action \<Rightarrow> nft_function" where
  "nftp_action E W sw NftaName = nftp_name"
| "nftp_action E W sw NftaSymbol = nftp_symbol"
| "nftp_action E W sw NftaTokenURI = nftp_token_uri"
| "nftp_action E W sw NftaTotalSupply = nftp_total_supply"
| "nftp_action E W sw NftaTokenByIndex = nftp_token_by_index"
| "nftp_action E W sw NftaTokenOfOwnerByIndex = nftp_token_of_owner_by_index E"
| "nftp_action E W sw NftaBalanceOf = nftp_balance_of E"
| "nftp_action E W sw NftaOwnerOf = nftp_owner_of"
| "nftp_action E W sw NftaTransferFrom = nftp_transfer_from E W sw"
| "nftp_action E W sw NftaMint = nftp_mint E W sw"
| "nftp_action E W sw NftaBurn = nftp_burn E W sw"
| "nftp_action E W sw NftaApprove = nftp_approve E W sw"

definition nft_execute ::
  "precompile_env \<Rightarrow> (nft_call \<Rightarrow> u64) \<Rightarrow> sw_storage \<Rightarrow> precompile_handle \<Rightarrow> nft_storage
     \<Rightarrow> nft_storage precompile_result option" where
  "nft_execute E W sw h s =
     (case nft_try_from_address (ph_code_address h) of None \<Rightarrow> None
      | Some tid \<Rightarrow>
          if nft_exists tid s then
            Some (and_then (er_read_selector (action_of E nft_actions) (ph_input h)) (\<lambda>selector.
              and_then (check_function_modifier h (nft_modifier selector)) (\<lambda>_.
              nftp_action E W sw selector tid h s)))
          else if length (ph_input h) < 4 then Some (Inl EvmPanic)
          else if take 4 (ph_input h) = TOKEN_NON_FUNGIBLE_CREATE_SELECTOR then Some (nftp_create E W sw tid h s)
          else None)"

definition nft_is_precompile :: "h160 \<Rightarrow> nft_storage \<Rightarrow> bool" where
  "nft_is_precompile address s =
     (case nft_try_from_address address of Some tid \<Rightarrow> nft_exists tid s | None \<Rightarrow> False)"

section \<open>Multi tokens\<close>

datatype mt_action =
    MtaBalanceOf | MtaBalanceOfBatch | MtaSafeTransferFrom | MtaSafeBatchTransferFrom | MtaMint
  | MtaMintBatch | MtaBurn | MtaBurnBatch | MtaURI | MtaSetApprovalForAll | MtaIsApprovedForAll

definition mt_actions :: "(string \<times> mt_action) list" where
  "mt_actions =
     [(''balanceOf(address,uint256)'', MtaBalanceOf), (''balanceOfBatch(address[],uint256[])'', MtaBalanceOfBatch),
      (''safeTransferFrom(address,address,uint256,uint256,bytes)'', MtaSafeTransferFrom),
      (''safeBatchTransferFrom(address,address,uint256[],uint256[],bytes)'', MtaSafeBatchTransferFrom),
      (''mint(address,uint256,uint256)'', MtaMint), (''mintBatch(address,uint256[],uint256[])'', MtaMintBatch),
      (''burn(uint256,uint256)'', MtaBurn), (''burnBatch(uint256[],uint256[])'', MtaBurnBatch),
      (''uri(uint256)'', MtaURI), (''setApprovalForAll(address,bool)'', MtaSetApprovalForAll),
      (''isApprovedForAll(address,address)'', MtaIsApprovedForAll)]"

fun mt_modifier :: "mt_action \<Rightarrow> function_modifier" where
  "mt_modifier MtaURI = View"
| "mt_modifier MtaBalanceOfBatch = View"
| "mt_modifier MtaIsApprovedForAll = View"
| "mt_modifier MtaBalanceOf = View"
| "mt_modifier MtaSafeTransferFrom = NonPayable"
| "mt_modifier MtaSafeBatchTransferFrom = NonPayable"
| "mt_modifier MtaMint = NonPayable"
| "mt_modifier MtaMintBatch = NonPayable"
| "mt_modifier MtaBurn = NonPayable"
| "mt_modifier MtaSetApprovalForAll = NonPayable"
| "mt_modifier MtaBurnBatch = NonPayable"

fun mt_call_name :: "mt_call \<Rightarrow> string" where
  "mt_call_name (MtCreateToken _ _) = ''create_token''"
| "mt_call_name (MtSetApprovalForAll _ _ _) = ''set_approval_for_all''"
| "mt_call_name (MtTransferFrom _ _ _ _ _) = ''transfer_from''"
| "mt_call_name (MtBatchTransferFrom _ _ _ _ _) = ''batch_transfer_from''"
| "mt_call_name (MtMintCall _ _ _ _) = ''mint''"
| "mt_call_name (MtMintBatch _ _ _ _) = ''mint_batch''"
| "mt_call_name (MtBurnCall _ _ _) = ''burn''"
| "mt_call_name (MtBurnBatch _ _ _) = ''burn_batch''"

definition mt_runtime :: "(mt_call \<Rightarrow> u64) \<Rightarrow> (mt_call, mt_storage) runtime_pallet" where
  "mt_runtime weight = \<lparr>rp_dispatch = mt_dispatch, rp_metadata = (\<lambda>c.
      \<lparr>call_pallet_name = name_bytes ''TokenMulti'', call_function_name = name_bytes (mt_call_name c)\<rparr>),
     rp_weight = weight\<rparr>"

type_synonym mt_function = "u128 \<Rightarrow> precompile_handle \<Rightarrow> mt_storage \<Rightarrow> mt_storage precompile_result"

definition arg_ids :: "evm_value \<Rightarrow> u128 list" where
  "arg_ids v = map arg_u128 (un_vec v)"

definition mtp_create :: "precompile_env \<Rightarrow> (mt_call \<Rightarrow> u64) \<Rightarrow> sw_storage \<Rightarrow> mt_function" where
  "mtp_create E W sw tid h s = with_args 1 [TBytes] h (\<lambda>vs.
     call_as_caller E sw (mt_runtime W) (MtCreateToken tid (un_bytes (vs ! 0))) h s)"

definition mtp_balance_of :: "precompile_env \<Rightarrow> mt_function" where
  "mtp_balance_of E tid h s = with_args 2 [TAddress, TUint 128] h (\<lambda>vs.
     let account = arg_account E (vs ! 0); token_id = arg_u128 (vs ! 1) in
     returns (TUint 128) (VUint (unat (mt_balances s (tid, token_id, account)))) h s)"

text \<open>\<open>balance_of_batch(..).unwrap()\<close> panics when the two lists have different lengths.\<close>

definition mtp_balance_of_batch :: "precompile_env \<Rightarrow> mt_function" where
  "mtp_balance_of_batch E tid h s = with_args 2 [TVec TAddress, TVec (TUint 128)] h (\<lambda>vs.
     let accounts = map (arg_account E) (un_vec (vs ! 0)); token_ids = arg_ids (vs ! 1) in
     or_panic (mt_balance_of_batch tid accounts token_ids s) (\<lambda>balances.
     returns (TVec (TUint 128)) (VVec (map (\<lambda>b. VUint (unat b)) balances)) h s))"

definition mtp_transfer_from :: "precompile_env \<Rightarrow> (mt_call \<Rightarrow> u64) \<Rightarrow> sw_storage \<Rightarrow> mt_function" where
  "mtp_transfer_from E W sw tid h s = with_args 4 [TAddress, TAddress, TUint 128, TUint 128] h (\<lambda>vs.
     let frm = arg_account E (vs ! 0); to = arg_account E (vs ! 1);
         token_id = arg_u128 (vs ! 2); amount = arg_u128 (vs ! 3) in
     call_as_caller E sw (mt_runtime W) (MtTransferFrom tid frm to token_id amount) h s)"

definition mtp_batch_transfer_from :: "precompile_env \<Rightarrow> (mt_call \<Rightarrow> u64) \<Rightarrow> sw_storage \<Rightarrow> mt_function" where
  "mtp_batch_transfer_from E W sw tid h s =
     with_args 4 [TAddress, TAddress, TVec (TUint 128), TVec (TUint 128)] h (\<lambda>vs.
     let frm = arg_account E (vs ! 0); to = arg_account E (vs ! 1);
         token_ids = arg_ids (vs ! 2); amounts = arg_ids (vs ! 3) in
     call_as_caller E sw (mt_runtime W) (MtBatchTransferFrom tid frm to token_ids amounts) h s)"

text \<open>The only function that also records the cost of a log, before anything else.\<close>

definition mtp_mint :: "precompile_env \<Rightarrow> (mt_call \<Rightarrow> u64) \<Rightarrow> sw_storage \<Rightarrow> mt_function" where
  "mtp_mint E W sw tid h s =
     and_then (record_log_costs_manual 3 32 h) (\<lambda>h.
     with_args 3 [TAddress, TUint 128, TUint 128] h (\<lambda>vs.
     let to = arg_account E (vs ! 0); token_id = arg_u128 (vs ! 1); amount = arg_u128 (vs ! 2) in
     call_as_caller E sw (mt_runtime W) (MtMintCall tid to token_id amount) h s))"

definition mtp_mint_batch :: "precompile_env \<Rightarrow> (mt_call \<Rightarrow> u64) \<Rightarrow> sw_storage \<Rightarrow> mt_function" where
  "mtp_mint_batch E W sw tid h s = with_args 3 [TAddress, TVec (TUint 128), TVec (TUint 128)] h (\<lambda>vs.
     let to = arg_account E (vs ! 0); token_ids = arg_ids (vs ! 1); amounts = arg_ids (vs ! 2) in
     call_as_caller E sw (mt_runtime W) (MtMintBatch tid to token_ids amounts) h s)"

definition mtp_burn :: "precompile_env \<Rightarrow> (mt_call \<Rightarrow> u64) \<Rightarrow> sw_storage \<Rightarrow> mt_function" where
  "mtp_burn E W sw tid h s = with_args 2 [TUint 128, TUint 128] h (\<lambda>vs.
     call_as_caller E sw (mt_runtime W) (MtBurnCall tid (arg_u128 (vs ! 0)) (arg_u128 (vs ! 1))) h s)"

definition mtp_burn_batch :: "precompile_env \<Rightarrow> (mt_call \<Rightarrow> u64) \<Rightarrow> sw_storage \<Rightarrow> mt_function" where
  "mtp_burn_batch E W sw tid h s = with_args 2 [TVec (TUint 128), TVec (TUint 128)] h (\<lambda>vs.
     call_as_caller E sw (mt_runtime W) (MtBurnBatch tid (arg_ids (vs ! 0)) (arg_ids (vs ! 1))) h s)"

definition mtp_uri :: mt_function where
  "mtp_uri tid h s = with_args 1 [TUint 128] h (\<lambda>vs.
     or_panic (mt_uri tid (arg_u128 (vs ! 0)) s) (\<lambda>uri. returns TBytes (VBytes uri) h s))"

definition mtp_is_approval_for_all :: "precompile_env \<Rightarrow> mt_function" where
  "mtp_is_approval_for_all E tid h s = with_args 2 [TAddress, TAddress] h (\<lambda>vs.
     let owner = arg_account E (vs ! 0); operator = arg_account E (vs ! 1) in
     returns TBool (VBool (mt_operator_approvals s (tid, owner, operator))) h s)"

definition mtp_set_approval_for_all :: "precompile_env \<Rightarrow> (mt_call \<Rightarrow> u64) \<Rightarrow> sw_storage \<Rightarrow> mt_function" where
  "mtp_set_approval_for_all E W sw tid h s = with_args 2 [TAddress, TBool] h (\<lambda>vs.
     let operator = arg_account E (vs ! 0); approved = un_bool (vs ! 1) in
     call_as_caller E sw (mt_runtime W) (MtSetApprovalForAll tid operator approved) h s)"

fun mtp_action :: "precompile_env \<Rightarrow> (mt_call \<Rightarrow> u64) \<Rightarrow> sw_storage \<Rightarrow> mt_action \<Rightarrow> mt_function" where
  "mtp_action E W sw MtaBalanceOf = mtp_balance_of E"
| "mtp_action E W sw MtaBalanceOfBatch = mtp_balance_of_batch E"
| "mtp_action E W sw MtaURI = mtp_uri"
| "mtp_action E W sw MtaSafeTransferFrom = mtp_transfer_from E W sw"
| "mtp_action E W sw MtaSafeBatchTransferFrom = mtp_batch_transfer_from E W sw"
| "mtp_action E W sw MtaMint = mtp_mint E W sw"
| "mtp_action E W sw MtaMintBatch = mtp_mint_batch E W sw"
| "mtp_action E W sw MtaBurn = mtp_burn E W sw"
| "mtp_action E W sw MtaBurnBatch = mtp_burn_batch E W sw"
| "mtp_action E W sw MtaSetApprovalForAll = mtp_set_approval_for_all E W sw"
| "mtp_action E W sw MtaIsApprovedForAll = mtp_is_approval_for_all E"

definition mt_execute ::
  "precompile_env \<Rightarrow> (mt_call \<Rightarrow> u64) \<Rightarrow> sw_storage \<Rightarrow> precompile_handle \<Rightarrow> mt_storage
     \<Rightarrow> mt_storage precompile_result option" where
  "mt_execute E W sw h s =
     (case mt_try_from_address (ph_code_address h) of None \<Rightarrow> None
      | Some tid \<Rightarrow>
          if mt_exists tid s then
            Some (and_then (er_read_selector (action_of E mt_actions) (ph_input h)) (\<lambda>selector.
              and_then (check_function_modifier h (mt_modifier selector)) (\<lambda>_.
              mtp_action E W sw selector tid h s)))
          else if length (ph_input h) < 4 then Some (Inl EvmPanic)
          else if take 4 (ph_input h) = TOKEN_MULTI_CREATE_SELECTOR then Some (mtp_create E W sw tid h s)
          else None)"

definition mt_is_precompile :: "h160 \<Rightarrow> mt_storage \<Rightarrow> bool" where
  "mt_is_precompile address s =
     (case mt_try_from_address address of Some tid \<Rightarrow> mt_exists tid s | None \<Rightarrow> False)"

section \<open>Lemmas on addresses\<close>

lemma address_bytes_into:
  "length p = 4 \<Longrightarrow> address_bytes (into_address p tid) = p @ be_bytes 16 (unat tid)"
proof -
  let ?bs = "p @ be_bytes 16 (unat tid)"
  assume "length p = 4"
  then have len: "length ?bs = 20" by simp
  with from_be_less [of ?bs] have "unat (of_nat (from_be ?bs) :: h160) = from_be ?bs"
    by (intro unat_of_nat_less) simp
  with len be_bytes_from_be [of ?bs] show ?thesis by (simp add: address_bytes_def into_address_def)
qed

lemma try_from_into:
  "length p = 4 \<Longrightarrow> length q = 4 \<Longrightarrow>
     try_from_address q (into_address p tid) = (if p = q then Some (of_nat (unat tid mod 2 ^ 32)) else None)"
  using drop_be_bytes [of 12 4 "unat tid"]
  by (auto simp: try_from_address_def address_bytes_into from_be_be_bytes)

lemmas prefix_defs = FT_PRECOMPILE_ADDRESS_PREFIX_def NFT_PRECOMPILE_ADDRESS_PREFIX_def MT_PRECOMPILE_ADDRESS_PREFIX_def
lemmas conversion_defs = ft_try_from_address_def nft_try_from_address_def mt_try_from_address_def
  ft_into_address_def nft_into_address_def mt_into_address_def

lemma of_nat_mod_eq: "(of_nat (unat tid mod 2 ^ 32) :: u128) = tid \<longleftrightarrow> unat tid < 2 ^ 32"
proof
  assume "(of_nat (unat tid mod 2 ^ 32) :: u128) = tid"
  then have "unat tid = unat (of_nat (unat tid mod 2 ^ 32) :: u128)" by simp
  also have "\<dots> < 2 ^ 32" by (subst unat_of_nat_less) (simp_all add: less_le_trans [OF mod_less_divisor])
  finally show "unat tid < 2 ^ 32" .
qed simp

section \<open>Steps\<close>

lemmas ftp_defs = ftp_create_def ftp_total_supply_def ftp_balance_of_def ftp_allowance_def ftp_approve_def
  ftp_transfer_def ftp_transfer_from_def ftp_mint_def ftp_burn_def ftp_name_def ftp_symbol_def ftp_decimals_def
lemmas nftp_defs = nftp_create_def nftp_balance_of_def nftp_owner_of_def nftp_approve_def nftp_transfer_from_def
  nftp_mint_def nftp_burn_def nftp_name_def nftp_symbol_def nftp_token_uri_def nftp_total_supply_def
  nftp_token_by_index_def nftp_token_of_owner_by_index_def
lemmas mtp_defs = mtp_create_def mtp_balance_of_def mtp_balance_of_batch_def mtp_transfer_from_def
  mtp_batch_transfer_from_def mtp_mint_batch_def mtp_burn_def mtp_burn_batch_def mtp_uri_def
  mtp_is_approval_for_all_def mtp_set_approval_for_all_def

text \<open>A view function changes nothing; any other one does one call of the pallet, for the caller.\<close>

lemma ftp_action_step:
  "ftp_action E W sw a tid h s = Inr (out, h', s') \<Longrightarrow>
     if ft_modifier a = View then s' = s else steps_as_caller E sw (ft_runtime W) h s s'"
  by (cases a) (auto simp: ftp_defs Let_def returns_def or_panic_eq_Inr elim!: with_argsE dest!: call_as_caller_steps)

lemma nftp_action_step:
  "nftp_action E W sw a tid h s = Inr (out, h', s') \<Longrightarrow>
     if nft_modifier a = View then s' = s else steps_as_caller E sw (nft_runtime W) h s s'"
  by (cases a)
    (auto simp: nftp_defs Let_def returns_def or_panic_eq_Inr elim!: with_argsE dest!: call_as_caller_steps
      split: option.splits)

lemma record_log_costs_caller:
  "record_log_costs_manual n m h = Inr h' \<Longrightarrow> ph_caller h' = ph_caller h"
  by (auto simp: record_log_costs_manual_def record_cost_def result_eqs split: if_splits)

lemma mtp_mint_step:
  "mtp_mint E W sw tid h s = Inr (out, h', s') \<Longrightarrow> steps_as_caller E sw (mt_runtime W) h s s'"
proof -
  assume "mtp_mint E W sw tid h s = Inr (out, h', s')"
  then obtain h1 c where "record_log_costs_manual 3 32 h = Inr h1"
    and "call_as_caller E sw (mt_runtime W) c h1 s = Inr (out, h', s')"
    by (auto simp: mtp_mint_def and_then_eq_Inr Let_def elim!: with_argsE)
  then show ?thesis
    using record_log_costs_caller call_as_caller_steps by (fastforce simp: steps_as_caller_def)
qed

lemma mtp_action_step:
  "mtp_action E W sw a tid h s = Inr (out, h', s') \<Longrightarrow>
     if mt_modifier a = View then s' = s else steps_as_caller E sw (mt_runtime W) h s s'"
  by (cases a)
    (auto simp: mtp_defs Let_def returns_def or_panic_eq_Inr elim!: with_argsE
      dest!: call_as_caller_steps mtp_mint_step)

lemma ft_execute_step:
  "ft_execute E W sw h s = Some (Inr (out, h', s')) \<Longrightarrow> s' = s \<or> steps_as_caller E sw (ft_runtime W) h s s'"
  by (auto simp: ft_execute_def and_then_eq_Inr ftp_create_def Let_def split: option.splits if_splits
      dest!: ftp_action_step elim!: with_argsE dest: call_as_caller_steps)

lemma nft_execute_step:
  "nft_execute E W sw h s = Some (Inr (out, h', s')) \<Longrightarrow> s' = s \<or> steps_as_caller E sw (nft_runtime W) h s s'"
  by (auto simp: nft_execute_def and_then_eq_Inr nftp_create_def Let_def split: option.splits if_splits
      dest!: nftp_action_step elim!: with_argsE dest: call_as_caller_steps)

lemma mt_execute_step:
  "mt_execute E W sw h s = Some (Inr (out, h', s')) \<Longrightarrow> s' = s \<or> steps_as_caller E sw (mt_runtime W) h s s'"
  by (auto simp: mt_execute_def and_then_eq_Inr mtp_create_def Let_def split: option.splits if_splits
      dest!: mtp_action_step elim!: with_argsE dest: call_as_caller_steps)

interpretation ftp: precompile "ft_execute E W" E "ft_runtime W" for E W
  by unfold_locales (rule ft_execute_step)

interpretation nftp: precompile "nft_execute E W" E "nft_runtime W" for E W
  by unfold_locales (rule nft_execute_step)

interpretation mtp: precompile "mt_execute E W" E "mt_runtime W" for E W
  by unfold_locales (rule mt_execute_step)

lemma rp_dispatch_tokens [simp]:
  "rp_dispatch (ft_runtime Wf) = ft_dispatch" "rp_dispatch (nft_runtime Wn) = nft_dispatch"
  "rp_dispatch (mt_runtime Wm) = mt_dispatch"
  by (simp_all add: ft_runtime_def nft_runtime_def mt_runtime_def)

lemma modifier_not_payable:
  "ft_modifier a \<noteq> Payable" "nft_modifier b \<noteq> Payable" "mt_modifier c \<noteq> Payable"
  by (cases a; simp; fail) (cases b; simp; fail | cases c; simp; fail)+

section \<open>The interfaces\<close>

text \<open>
  The functions of the contracts that change something, as a client sees them: the types of the
  arguments and the call of the pallet they mean. The two transfers of a multi token have a last
  argument that the contract does not read, and the mint of a multi token pays for a log before it
  does anything else.
\<close>

type_synonym ('action, 'call) abi_entry = "'action \<times> evm_type list \<times> evm_type list \<times> (evm_value list \<Rightarrow> 'call)"

definition ft_interface :: "precompile_env \<Rightarrow> u128 \<Rightarrow> (ft_action, ft_call) abi_entry list" where
  "ft_interface E tid =
     [(FtaTransfer, [TAddress, TUint 128], [],
         \<lambda>vs. FtTransferCall tid (arg_account E (vs ! 0)) (arg_u128 (vs ! 1))),
      (FtaTransferFrom, [TAddress, TAddress, TUint 128], [],
         \<lambda>vs. FtTransferFrom tid (arg_account E (vs ! 0)) (arg_account E (vs ! 1)) (arg_u128 (vs ! 2))),
      (FtaMint, [TAddress, TUint 128], [], \<lambda>vs. FtMintCall tid (arg_account E (vs ! 0)) (arg_u128 (vs ! 1))),
      (FtaBurn, [TUint 128], [], \<lambda>vs. FtBurn tid (arg_u128 (vs ! 0))),
      (FtaApprove, [TAddress, TUint 128], [], \<lambda>vs. FtApprove tid (arg_account E (vs ! 0)) (arg_u128 (vs ! 1)))]"

definition nft_interface :: "precompile_env \<Rightarrow> u128 \<Rightarrow> (nft_action, nft_call) abi_entry list" where
  "nft_interface E tid =
     [(NftaTransferFrom, [TAddress, TAddress, TUint 128], [],
         \<lambda>vs. NftTransferFrom tid (arg_account E (vs ! 0)) (arg_account E (vs ! 1)) (arg_u128 (vs ! 2))),
      (NftaMint, [TAddress, TUint 128], [], \<lambda>vs. NftMint tid (arg_account E (vs ! 0)) (arg_u128 (vs ! 1))),
      (NftaBurn, [TUint 128], [], \<lambda>vs. NftBurn tid (arg_u128 (vs ! 0))),
      (NftaApprove, [TAddress, TUint 128], [], \<lambda>vs. NftApprove tid (arg_account E (vs ! 0)) (arg_u128 (vs ! 1)))]"

definition mt_interface :: "precompile_env \<Rightarrow> u128 \<Rightarrow> (mt_action, mt_call) abi_entry list" where
  "mt_interface E tid =
     [(MtaSafeTransferFrom, [TAddress, TAddress, TUint 128, TUint 128], [TBytes],
         \<lambda>vs. MtTransferFrom tid (arg_account E (vs ! 0)) (arg_account E (vs ! 1)) (arg_u128 (vs ! 2)) (arg_u128 (vs ! 3))),
      (MtaSafeBatchTransferFrom, [TAddress, TAddress, TVec (TUint 128), TVec (TUint 128)], [TBytes],
         \<lambda>vs. MtBatchTransferFrom tid (arg_account E (vs ! 0)) (arg_account E (vs ! 1)) (arg_ids (vs ! 2)) (arg_ids (vs ! 3))),
      (MtaMint, [TAddress, TUint 128, TUint 128], [],
         \<lambda>vs. MtMintCall tid (arg_account E (vs ! 0)) (arg_u128 (vs ! 1)) (arg_u128 (vs ! 2))),
      (MtaMintBatch, [TAddress, TVec (TUint 128), TVec (TUint 128)], [],
         \<lambda>vs. MtMintBatch tid (arg_account E (vs ! 0)) (arg_ids (vs ! 1)) (arg_ids (vs ! 2))),
      (MtaBurn, [TUint 128, TUint 128], [], \<lambda>vs. MtBurnCall tid (arg_u128 (vs ! 0)) (arg_u128 (vs ! 1))),
      (MtaBurnBatch, [TVec (TUint 128), TVec (TUint 128)], [],
         \<lambda>vs. MtBurnBatch tid (arg_ids (vs ! 0)) (arg_ids (vs ! 1))),
      (MtaSetApprovalForAll, [TAddress, TBool], [],
         \<lambda>vs. MtSetApprovalForAll tid (arg_account E (vs ! 0)) (un_bool (vs ! 1)))]"

definition mt_log_costs :: "mt_action \<Rightarrow> precompile_handle \<Rightarrow> precompile_handle evm_result" where
  "mt_log_costs a h = (if a = MtaMint then record_log_costs_manual 3 32 h else Inr h)"

text \<open>
  A call with the selector of a function and encoded arguments, in a context where the function may
  run. That no two selectors are equal is what the compiler checks for the discriminants of an enum.
\<close>

definition encoded_call ::
  "precompile_env \<Rightarrow> (string \<times> 'a) list \<Rightarrow> ('a, 'call) abi_entry \<Rightarrow> string \<Rightarrow> evm_value list \<Rightarrow> evm_value list
     \<Rightarrow> precompile_handle \<Rightarrow> bool" where
  "encoded_call E table entry sig vs vs' h \<longleftrightarrow>
     (case entry of (a, ts, ts', _) \<Rightarrow>
        (sig, a) \<in> set table \<and> distinct (map (function_selector E \<circ> fst) table) \<and>
        list_all2 well_typed ts vs \<and> list_all2 well_typed ts' vs' \<and>
        ph_input h = ew_build (write_all (ts @ ts') (vs @ vs') (ew_new_with_selector (function_selector E sig))) \<and>
        length (ph_input h) < usize_end \<and> \<not> ph_is_static h \<and> ph_apparent_value h = 0)"

text \<open>The call that creates a token; its selector is a constant of the source.\<close>

definition encoded_create :: "bytes \<Rightarrow> evm_type list \<Rightarrow> evm_value list \<Rightarrow> precompile_handle \<Rightarrow> bool" where
  "encoded_create selector ts vs h \<longleftrightarrow>
     list_all2 well_typed ts vs \<and> length (ph_input h) < usize_end \<and>
     ph_input h = ew_build (write_all ts vs (ew_new_with_selector (of_nat (from_be selector))))"

lemma encoded_createD:
  assumes "encoded_create selector ts vs h" and "length selector = 4"
  shows "take 4 (ph_input h) = selector" and "\<not> length (ph_input h) < 4"
    and "with_args (length ts) ts h k = k vs"
proof -
  from assms(1) have ty: "list_all2 well_typed ts vs" and len: "length (ph_input h) < usize_end"
    and i: "ph_input h = ew_build (write_all ts vs (ew_new_with_selector (of_nat (from_be selector))))"
    by (auto simp: encoded_create_def)
  have "unat (of_nat (from_be selector) :: u32) = from_be selector"
    using from_be_less [of selector] assms(2) by (intro unat_of_nat_less) simp
  then have "be_bytes 4 (unat (of_nat (from_be selector) :: u32)) = selector"
    using be_bytes_from_be [of selector] assms(2) by simp
  with ty have "ph_input h = selector @ layout (parts ts vs)"
    by (simp add: i build_write_all build_layout)
  then show "take 4 (ph_input h) = selector" "\<not> length (ph_input h) < 4" using assms(2) by simp_all
  show "with_args (length ts) ts h k = k vs"
    using with_args_encoded [of ts vs "[]" "[]" h "of_nat (from_be selector)" k] ty len i by simp
qed

lemma encoded_callD:
  assumes "encoded_call E table (a, ts, ts', call) sig vs vs' h"
  shows "er_read_selector (action_of E table) (ph_input h) = Inr a"
    and "with_args (length ts) ts h k = k vs" and "m \<noteq> Payable \<Longrightarrow> check_function_modifier h m = Inr ()"
proof -
  from assms have ty: "list_all2 well_typed ts vs" "list_all2 well_typed ts' vs'"
    and len: "length (ph_input h) < usize_end"
    and i: "ph_input h = ew_build (write_all (ts @ ts') (vs @ vs') (ew_new_with_selector (function_selector E sig)))"
    and d: "(sig, a) \<in> set table" "distinct (map (function_selector E \<circ> fst) table)"
    unfolding encoded_call_def by blast+
  show "with_args (length ts) ts h k = k vs" by (rule with_args_encoded [OF ty len i])
  show "er_read_selector (action_of E table) (ph_input h) = Inr a"
    using read_encoded(1) [OF ty i len, of "action_of E table"] action_of_mem [OF d] by simp
  show "check_function_modifier h m = Inr ()" if "m \<noteq> Payable"
    using assms that by (simp add: encoded_call_def check_function_modifier_def)
qed

text \<open>The function of an entry of an interface reads these arguments and makes this call.\<close>

lemma ft_interface_action:
  assumes "(a, ts, ts', call) \<in> set (ft_interface E tid)"
    and "\<And>k. (with_args (length ts) ts h k :: ft_storage precompile_result) = k vs"
  shows "ftp_action E W sw a tid h s = call_as_caller E sw (ft_runtime W) (call vs) h s"
  using assms unfolding ft_interface_def by (auto simp: ftp_defs eval_nat_numeral)

lemma nft_interface_action:
  assumes "(a, ts, ts', call) \<in> set (nft_interface E tid)"
    and "\<And>k. (with_args (length ts) ts h k :: nft_storage precompile_result) = k vs"
  shows "nftp_action E W sw a tid h s = call_as_caller E sw (nft_runtime W) (call vs) h s"
  using assms unfolding nft_interface_def by (auto simp: nftp_defs eval_nat_numeral)

lemma record_log_costs_input: "record_log_costs_manual n m h = Inr h' \<Longrightarrow> ph_input h' = ph_input h"
  by (auto simp: record_log_costs_manual_def record_cost_def result_eqs split: if_splits)

lemma mt_interface_action:
  assumes "(a, ts, ts', call) \<in> set (mt_interface E tid)"
    and "\<And>k h'. ph_input h' = ph_input h \<Longrightarrow>
      (with_args (length ts) ts h' k :: mt_storage precompile_result) = k vs"
  shows "mtp_action E W sw a tid h s =
    and_then (mt_log_costs a h) (\<lambda>h. call_as_caller E sw (mt_runtime W) (call vs) h s)"
proof (cases "a = MtaMint")
  case True
  then have "ts = [TAddress, TUint 128, TUint 128]"
    and "call vs = MtMintCall tid (arg_account E (vs ! 0)) (arg_u128 (vs ! 1)) (arg_u128 (vs ! 2))"
    using assms(1) by (auto simp: mt_interface_def)
  then show ?thesis
    using True assms(2)
    by (cases "record_log_costs_manual 3 32 h")
      (auto simp: mtp_mint_def mt_log_costs_def eval_nat_numeral Let_def dest!: record_log_costs_input)
next
  case False
  then show ?thesis
    using assms(1) assms(2) [of h] unfolding mt_interface_def
    by (auto simp: mtp_defs mt_log_costs_def eval_nat_numeral)
qed

text \<open>The interfaces leave nothing out: they have every function that is not a view.\<close>

lemma interfaces_complete:
  "fst ` set (ft_interface E tid) = {a. ft_modifier a \<noteq> View}"
  "fst ` set (nft_interface E tid) = {a. nft_modifier a \<noteq> View}"
  "fst ` set (mt_interface E tid) = {a. mt_modifier a \<noteq> View}"
proof -
  have "a \<in> fst ` set (ft_interface E tid) \<longleftrightarrow> ft_modifier a \<noteq> View" for a
    by (cases a) (simp_all add: ft_interface_def)
  then show "fst ` set (ft_interface E tid) = {a. ft_modifier a \<noteq> View}" by blast
  have "a \<in> fst ` set (nft_interface E tid) \<longleftrightarrow> nft_modifier a \<noteq> View" for a
    by (cases a) (simp_all add: nft_interface_def)
  then show "fst ` set (nft_interface E tid) = {a. nft_modifier a \<noteq> View}" by blast
  have "a \<in> fst ` set (mt_interface E tid) \<longleftrightarrow> mt_modifier a \<noteq> View" for a
    by (cases a) (simp_all add: mt_interface_def)
  then show "fst ` set (mt_interface E tid) = {a. mt_modifier a \<noteq> View}" by blast
qed

lemma ft_execute_encoded:
  assumes "ft_try_from_address (ph_code_address h) = Some tid" and "ft_exists tid s"
    and "(a, ts, ts', call) \<in> set (ft_interface E tid)"
    and "encoded_call E ft_actions (a, ts, ts', call) sig vs vs' h"
  shows "ft_execute E W sw h s = Some (call_as_caller E sw (ft_runtime W) (call vs) h s)"
  using ft_interface_action [OF assms(3) encoded_callD(2) [OF assms(4)]] encoded_callD(1, 3) [OF assms(4)] assms(1, 2)
  by (simp add: ft_execute_def modifier_not_payable)

lemma nft_execute_encoded:
  assumes "nft_try_from_address (ph_code_address h) = Some tid" and "nft_exists tid s"
    and "(a, ts, ts', call) \<in> set (nft_interface E tid)"
    and "encoded_call E nft_actions (a, ts, ts', call) sig vs vs' h"
  shows "nft_execute E W sw h s = Some (call_as_caller E sw (nft_runtime W) (call vs) h s)"
  using nft_interface_action [OF assms(3) encoded_callD(2) [OF assms(4)]] encoded_callD(1, 3) [OF assms(4)] assms(1, 2)
  by (simp add: nft_execute_def modifier_not_payable)

lemma mt_execute_encoded:
  assumes "mt_try_from_address (ph_code_address h) = Some tid" and "mt_exists tid s"
    and "(a, ts, ts', call) \<in> set (mt_interface E tid)"
    and "encoded_call E mt_actions (a, ts, ts', call) sig vs vs' h"
  shows "mt_execute E W sw h s =
    Some (and_then (mt_log_costs a h) (\<lambda>h. call_as_caller E sw (mt_runtime W) (call vs) h s))"
proof -
  have "with_args (length ts) ts h' k = k vs" if "ph_input h' = ph_input h" for k and h' :: precompile_handle
    using encoded_callD(2) [OF assms(4)] that by (simp add: with_args_def)
  from mt_interface_action [OF assms(3) this] encoded_callD(1, 3) [OF assms(4)] assms(1, 2) show ?thesis
    by (simp add: mt_execute_def modifier_not_payable)
qed

lemmas create_selectors = TOKEN_FUNGIBLE_CREATE_SELECTOR_def TOKEN_NON_FUNGIBLE_CREATE_SELECTOR_def
  TOKEN_MULTI_CREATE_SELECTOR_def

lemma ft_execute_create:
  assumes "ft_try_from_address (ph_code_address h) = Some tid" and "\<not> ft_exists tid s"
    and "encoded_create TOKEN_FUNGIBLE_CREATE_SELECTOR [TBytes, TBytes, TUint 8] [VBytes nm, VBytes sy, VUint d] h"
  shows "ft_execute E W sw h s =
    Some (call_as_caller E sw (ft_runtime W) (FtCreateToken tid nm sy (of_nat d)) h s)"
proof -
  have l: "length TOKEN_FUNGIBLE_CREATE_SELECTOR = 4" by (simp add: create_selectors)
  from encoded_createD(1, 2) [OF assms(3) l] assms(1, 2) show ?thesis
    by (simp add: ft_execute_def ftp_create_def arg_u8_def numeral_3_eq_3 encoded_createD(3) [OF assms(3) l, simplified])
qed

lemma nft_execute_create:
  assumes "nft_try_from_address (ph_code_address h) = Some tid" and "\<not> nft_exists tid s"
    and "encoded_create TOKEN_NON_FUNGIBLE_CREATE_SELECTOR [TBytes, TBytes, TBytes] [VBytes nm, VBytes sy, VBytes u] h"
  shows "nft_execute E W sw h s =
    Some (call_as_caller E sw (nft_runtime W) (NftCreateToken tid nm sy u) h s)"
proof -
  have l: "length TOKEN_NON_FUNGIBLE_CREATE_SELECTOR = 4" by (simp add: create_selectors)
  from encoded_createD(1, 2) [OF assms(3) l] assms(1, 2) show ?thesis
    by (simp add: nft_execute_def nftp_create_def numeral_3_eq_3 encoded_createD(3) [OF assms(3) l, simplified])
qed

lemma mt_execute_create:
  assumes "mt_try_from_address (ph_code_address h) = Some tid" and "\<not> mt_exists tid s"
    and "encoded_create TOKEN_MULTI_CREATE_SELECTOR [TBytes] [VBytes u] h"
  shows "mt_execute E W sw h s = Some (call_as_caller E sw (mt_runtime W) (MtCreateToken tid u) h s)"
proof -
  have l: "length TOKEN_MULTI_CREATE_SELECTOR = 4" by (simp add: create_selectors)
  from encoded_createD(1, 2) [OF assms(3) l] assms(1, 2) show ?thesis
    by (simp add: mt_execute_def mtp_create_def numeral_3_eq_3 encoded_createD(3) [OF assms(3) l, simplified])
qed

section \<open>Properties\<close>

text \<open>
  C39: The address of a token leads back to the token exactly when its id has at most 32 bits: the
  conversion back reads only the last four bytes, so the address of any other token is the address
  of the token whose id is the remainder. The addresses of the three kinds of tokens never clash.
\<close>

theorem token_address_roundtrip:
  "ft_try_from_address (ft_into_address tid) = Some (of_nat (unat tid mod 2 ^ 32)) \<and>
   nft_try_from_address (nft_into_address tid) = Some (of_nat (unat tid mod 2 ^ 32)) \<and>
   mt_try_from_address (mt_into_address tid) = Some (of_nat (unat tid mod 2 ^ 32)) \<and>
   (ft_try_from_address (ft_into_address tid) = Some tid \<longleftrightarrow> unat tid < 2 ^ 32) \<and>
   nft_try_from_address (ft_into_address tid) = None \<and> mt_try_from_address (ft_into_address tid) = None \<and>
   ft_try_from_address (nft_into_address tid) = None \<and> mt_try_from_address (nft_into_address tid) = None \<and>
   ft_try_from_address (mt_into_address tid) = None \<and> nft_try_from_address (mt_into_address tid) = None"
  using of_nat_mod_eq [of tid] by (simp add: conversion_defs try_from_into prefix_defs)

text \<open>
  A contract that calls a fungible token takes at most what it was allowed: an EVM call lowers the
  balance of an account that is not the caller's by no more than it lowers the allowance of the
  caller.
\<close>

theorem evm_ft_no_theft:
  assumes "ft_execute E W sw h s = Some (Inr (out, h', s'))" and "a \<noteq> pe_into_account_id E (ph_caller h)"
  shows "unat (ft_balances s (tid, a)) + unat (ft_allowances s' (tid, a, pe_into_account_id E (ph_caller h)))
       \<le> unat (ft_balances s' (tid, a)) + unat (ft_allowances s (tid, a, pe_into_account_id E (ph_caller h)))"
  using assms(1) by (rule ftp.execute_rel) (auto intro: ft_debit_allowance [OF _ assms(2)])

text \<open>
  In a static context, and when value is sent along, a call to a token that exists changes nothing.
\<close>

theorem evm_static_readonly:
  assumes "ph_is_static h \<or> ph_apparent_value h > 0"
  shows "(ft_execute E Wf sw h sf = Some (Inr (out, h', sf')) \<and> ft_is_precompile (ph_code_address h) sf \<longrightarrow> sf' = sf) \<and>
    (nft_execute E Wn sw h sn = Some (Inr (out, h', sn')) \<and> nft_is_precompile (ph_code_address h) sn \<longrightarrow> sn' = sn) \<and>
    (mt_execute E Wm sw h sm = Some (Inr (out, h', sm')) \<and> mt_is_precompile (ph_code_address h) sm \<longrightarrow> sm' = sm)"
  using assms
  by (auto simp: modifier_not_payable ft_execute_def nft_execute_def mt_execute_def ft_is_precompile_def nft_is_precompile_def
      mt_is_precompile_def and_then_eq_Inr check_function_modifier_def
      split: option.splits if_splits function_modifier.splits
      dest!: ftp_action_step nftp_action_step mtp_action_step)

text \<open>
  C23: A client that encodes the arguments as Solidity does gets the call it means. For every
  function of a token contract that is not a view, running the contract of an existing token on the
  encoded arguments is dispatching the call of the pallet, signed by the account of the caller; the
  mint of a multi token has paid for a log first. At the address of a token that does not exist,
  the encoded call of \<open>create\<close> is dispatching the creation of that token.
\<close>

theorem evm_token_calls:
  "fst ` set (ft_interface E tid) = {a. ft_modifier a \<noteq> View} \<and>
   fst ` set (nft_interface E tid) = {a. nft_modifier a \<noteq> View} \<and>
   fst ` set (mt_interface E tid) = {a. mt_modifier a \<noteq> View} \<and>
   (ft_try_from_address (ph_code_address h) = Some tid \<and> ft_exists tid sf \<and>
      ef \<in> set (ft_interface E tid) \<and> encoded_call E ft_actions ef sig vs vs' h \<longrightarrow>
      ft_execute E Wf sw h sf = Some (call_as_caller E sw (ft_runtime Wf) (snd (snd (snd ef)) vs) h sf)) \<and>
   (nft_try_from_address (ph_code_address h) = Some tid \<and> nft_exists tid sn \<and>
      en \<in> set (nft_interface E tid) \<and> encoded_call E nft_actions en sig vs vs' h \<longrightarrow>
      nft_execute E Wn sw h sn = Some (call_as_caller E sw (nft_runtime Wn) (snd (snd (snd en)) vs) h sn)) \<and>
   (mt_try_from_address (ph_code_address h) = Some tid \<and> mt_exists tid sm \<and>
      em \<in> set (mt_interface E tid) \<and> encoded_call E mt_actions em sig vs vs' h \<longrightarrow>
      mt_execute E Wm sw h sm = Some (and_then (mt_log_costs (fst em) h) (\<lambda>h.
        call_as_caller E sw (mt_runtime Wm) (snd (snd (snd em)) vs) h sm))) \<and>
   (ft_try_from_address (ph_code_address h) = Some tid \<and> \<not> ft_exists tid sf \<and>
      encoded_create TOKEN_FUNGIBLE_CREATE_SELECTOR [TBytes, TBytes, TUint 8] [VBytes nm, VBytes sy, VUint d] h \<longrightarrow>
      ft_execute E Wf sw h sf = Some (call_as_caller E sw (ft_runtime Wf) (FtCreateToken tid nm sy (of_nat d)) h sf)) \<and>
   (nft_try_from_address (ph_code_address h) = Some tid \<and> \<not> nft_exists tid sn \<and>
      encoded_create TOKEN_NON_FUNGIBLE_CREATE_SELECTOR [TBytes, TBytes, TBytes] [VBytes nm, VBytes sy, VBytes u] h \<longrightarrow>
      nft_execute E Wn sw h sn = Some (call_as_caller E sw (nft_runtime Wn) (NftCreateToken tid nm sy u) h sn)) \<and>
   (mt_try_from_address (ph_code_address h) = Some tid \<and> \<not> mt_exists tid sm \<and>
      encoded_create TOKEN_MULTI_CREATE_SELECTOR [TBytes] [VBytes u] h \<longrightarrow>
      mt_execute E Wm sw h sm = Some (call_as_caller E sw (mt_runtime Wm) (MtCreateToken tid u) h sm))"
  by (cases ef; cases en; cases em)
    (auto simp only: interfaces_complete fst_conv snd_conv
      intro: ft_execute_encoded nft_execute_encoded mt_execute_encoded ft_execute_create nft_execute_create mt_execute_create)

section \<open>Concrete instances\<close>

text \<open>An environment with the selectors of the functions of a fungible token.\<close>

definition keccak_example :: "string \<Rightarrow> bytes" where
  "keccak_example sig = (case map_of
     [(''name()'', [0x06, 0xfd, 0xde, 0x03]), (''symbol()'', [0x95, 0xd8, 0x9b, 0x41]),
      (''decimals()'', [0x31, 0x3c, 0xe5, 0x67]), (''totalSupply()'', [0x18, 0x16, 0x0d, 0xdd]),
      (''balanceOf(address)'', [0x70, 0xa0, 0x82, 0x31]), (''allowance(address,address)'', [0xdd, 0x62, 0xed, 0x3e]),
      (''transfer(address,uint256)'', [0xa9, 0x05, 0x9c, 0xbb]),
      (''transferFrom(address,address,uint256)'', [0x23, 0xb8, 0x72, 0xdd]),
      (''mint(address,uint256)'', [0x40, 0xc1, 0x0f, 0x19]), (''burn(uint256)'', [0x42, 0x96, 0x6c, 0x68]),
      (''approve(address,uint256)'', [0x09, 0x5e, 0xa7, 0xb3])] sig of Some bs \<Rightarrow> bs | None \<Rightarrow> [])"

definition pe_example :: precompile_env where
  "pe_example = \<lparr>pe_into_account_id = (\<lambda>a. of_nat (unat a)), pe_keccak256 = keccak_example, pe_debug = (\<lambda>_. [])\<rparr>"

lemma selectors_example: "map (function_selector pe_example \<circ> fst) ft_actions =
  [0x06fdde03, 0x95d89b41, 0x313ce567, 0x18160ddd, 0x70a08231, 0xdd62ed3e, 0xa9059cbb, 0x23b872dd, 0x40c10f19,
   0x42966c68, 0x095ea7b3]"
  by (simp add: ft_actions_def function_selector_def pe_example_def keccak_example_def from_be_def)

text \<open>Account 2 calls the contract of token 7 of the example, once to take 50 units of account 1, once to look.\<close>

definition ph_example :: "bytes \<Rightarrow> bool \<Rightarrow> precompile_handle" where
  "ph_example input is_static = \<lparr>ph_code_address = ft_into_address 7, ph_input = input, ph_address = ft_into_address 7,
     ph_caller = 2, ph_apparent_value = 0, ph_is_static = is_static, ph_remaining_gas = 100000\<rparr>"

definition transfer_from_example :: precompile_handle where
  "transfer_from_example = ph_example (ew_build (write_all ([TAddress, TAddress, TUint 128] @ [])
     ([VAddress 1, VAddress 3, VUint 50] @ [])
     (ew_new_with_selector (function_selector pe_example ''transferFrom(address,address,uint256)'')))) False"

lemma token_seven: "ft_try_from_address (ft_into_address 7) = Some 7" "ft_exists 7 ft_example"
  by (simp_all add: conversion_defs try_from_into prefix_defs ft_exists_def ft_example_def)

lemma transfer_from_encoded:
  "encoded_call pe_example ft_actions (ft_interface pe_example 7 ! 1) ''transferFrom(address,address,uint256)''
     [VAddress 1, VAddress 3, VUint 50] [] transfer_from_example"
proof -
  have d: "distinct (map (function_selector pe_example \<circ> fst) ft_actions)"
    unfolding selectors_example by simp
  have "length (ph_input transfer_from_example) < usize_end"
    by (simp add: transfer_from_example_def ph_example_def build_write_all build_layout part_def layout_def usize_end_def)
  moreover have "(''transferFrom(address,address,uint256)'', FtaTransferFrom) \<in> set ft_actions"
    by (simp add: ft_actions_def)
  ultimately show ?thesis
    using d by (simp add: encoded_call_def ft_interface_def transfer_from_example_def ph_example_def del: map_map)
qed

theorem evm_token_calls_witness:
  "ft_execute pe_example (\<lambda>_. 0) sw_genesis transfer_from_example ft_example =
     Some (call_as_caller pe_example sw_genesis (ft_runtime (\<lambda>_. 0)) (FtTransferFrom 7 1 3 50) transfer_from_example ft_example)"
  using evm_token_calls [where h = transfer_from_example and tid = 7 and sf = ft_example and E = pe_example
      and ef = "ft_interface pe_example 7 ! 1" and sig = "''transferFrom(address,address,uint256)''"
      and vs = "[VAddress 1, VAddress 3, VUint 50]" and vs' = "[]" and Wf = "\<lambda>_. 0" and sw = sw_genesis]
    transfer_from_encoded
  by (simp add: ft_interface_def arg_account_def arg_u128_def pe_example_def token_seven
      transfer_from_example_def ph_example_def)

lemma transfer_from_runs:
  obtains out h' s' where "ft_execute pe_example (\<lambda>_. 0) sw_genesis transfer_from_example ft_example = Some (Inr (out, h', s'))"
proof -
  obtain s' where s': "ft_dispatch (Signed 2, FtTransferFrom 7 1 3 50) ft_example = Inr s'"
    by (simp add: ft_eval)
  then have "runtime_dispatch sw_genesis (ft_runtime (\<lambda>_. 0)) (Signed 2, FtTransferFrom 7 1 3 50) ft_example = Inr s'"
    by (simp add: runtime_dispatch_def call_filter_contains_def get_overall_toggle_status_def
        switch_off_filter_contains_def sw_genesis_def)
  then have "\<exists>y. call_as_caller pe_example sw_genesis (ft_runtime (\<lambda>_. 0)) (FtTransferFrom 7 1 3 50)
      transfer_from_example ft_example = Inr y"
    by (simp add: call_as_caller_def try_dispatch_ok ft_runtime_def weight_to_gas_def pe_example_def
        transfer_from_example_def ph_example_def)
  moreover have "ft_execute pe_example (\<lambda>_. 0) sw_genesis transfer_from_example ft_example =
     Some (call_as_caller pe_example sw_genesis (ft_runtime (\<lambda>_. 0)) (FtTransferFrom 7 1 3 50) transfer_from_example ft_example)"
  proof -
    obtain a ts ts' call where e: "ft_interface pe_example 7 ! 1 = (a, ts, ts', call)" by (rule prod_cases4)
    then have "(a, ts, ts', call) \<in> set (ft_interface pe_example 7)" by (auto simp: ft_interface_def)
    from ft_execute_encoded [OF _ _ this transfer_from_encoded [unfolded e], of ft_example "\<lambda>_. 0" sw_genesis] e show ?thesis
      by (auto simp: ft_interface_def arg_account_def arg_u128_def pe_example_def token_seven
          transfer_from_example_def ph_example_def)
  qed
  ultimately show ?thesis using that by auto
qed

theorem evm_ft_no_theft_witness:
  "\<exists>out h' s'. ft_execute pe_example (\<lambda>_. 0) sw_genesis transfer_from_example ft_example = Some (Inr (out, h', s'))
     \<and> 100 + unat (ft_allowances s' (7, 1, 2)) \<le> unat (ft_balances s' (7, 1)) + 60"
proof -
  obtain out h' s' where r: "ft_execute pe_example (\<lambda>_. 0) sw_genesis transfer_from_example ft_example = Some (Inr (out, h', s'))"
    by (rule transfer_from_runs)
  have "pe_into_account_id pe_example (ph_caller transfer_from_example) = 2"
    by (simp add: pe_example_def transfer_from_example_def ph_example_def)
  with evm_ft_no_theft [OF r, of 1 7] r show ?thesis by (auto simp: ft_example_def)
qed

theorem evm_static_readonly_witness:
  "\<exists>out h' s'. ft_execute pe_example (\<lambda>_. 0) sw_genesis (ph_example [0x18, 0x16, 0x0d, 0xdd] True) ft_example =
     Some (Inr (out, h', s')) \<and> s' = ft_example"
proof -
  let ?h = "ph_example [0x18, 0x16, 0x0d, 0xdd] True"
  have "action_of pe_example ft_actions 0x18160ddd = Some FtaTotalSupply"
    by (simp add: action_of_def ft_actions_def function_selector_def pe_example_def keccak_example_def from_be_def)
  then have sel: "er_read_selector (action_of pe_example ft_actions) [0x18, 0x16, 0x0d, 0xdd] = Inr FtaTotalSupply"
    by (simp add: er_read_selector_def from_be_def)
  have sup: "ft_supply 7 ft_example = Inr 100" by (simp add: ft_supply_def ft_example_def)
  obtain out h' s' where r: "ft_execute pe_example (\<lambda>_. 0) sw_genesis ?h ft_example = Some (Inr (out, h', s'))"
    using sup sel by (simp add: ft_execute_def token_seven ph_example_def check_function_modifier_def
        ftp_total_supply_def returns_def or_panic_def)
  moreover have "s' = ft_example"
    using evm_static_readonly [of ?h pe_example "\<lambda>_. 0" sw_genesis ft_example out h' s'] r
    by (simp add: ft_is_precompile_def token_seven ph_example_def)
  ultimately show ?thesis by blast
qed

end
