(* ===== verification/PrecompilePallets.thy ===== *)
theory PrecompilePallets
  imports PrecompileTokens Exchange Farming Launchpad Marketplace
begin

text \<open>
  The contracts of the exchange, farming, launchpad and marketplace pallets
  (\<open>precompiles/src/exchange.rs\<close>, \<open>farming.rs\<close>, \<open>launchpad.rs\<close>, \<open>marketplace.rs\<close>) and the
  set of all precompiles of the runtime (\<open>precompiles/src/lib.rs\<close>), which chooses one by the
  address that is called.
\<close>

text \<open>All functions of these four contracts change the state: none may run in a static context.\<close>

definition run_action ::
  "precompile_env \<Rightarrow> (string \<times> 'a) list \<Rightarrow> ('a \<Rightarrow> precompile_handle \<Rightarrow> 's \<Rightarrow> 's precompile_result)
     \<Rightarrow> precompile_handle \<Rightarrow> 's \<Rightarrow> 's precompile_result option" where
  "run_action E table f h s =
     Some (and_then (er_read_selector (action_of E table) (ph_input h)) (\<lambda>selector.
       and_then (check_function_modifier h NonPayable) (\<lambda>_. f selector h s)))"

section \<open>Exchange\<close>

datatype ex_action =
    ExaCreatePool | ExaAddLiquidity | ExaAddLiquidityW3G | ExaRemoveLiquidity | ExaRemoveLiquidityW3G
  | ExaSwapExactTokensForTokens | ExaSwapExactW3GForTokens | ExaSwapTokensForExactTokens
  | ExaSwapTokensForExactW3G

definition ex_actions :: "(string \<times> ex_action) list" where
  "ex_actions =
     [(''create_pool(uint256,uint256)'', ExaCreatePool),
      (''add_liquidity(uint256,uint256,uint256,uint256,uint256,uint256,address,uint256)'', ExaAddLiquidity),
      (''add_liquidity_w3g(uint256,uint256,uint256,uint256,uint256,address,uint256)'', ExaAddLiquidityW3G),
      (''remove_liquidity(uint256,uint256,uint256,uint256,uint256,address,uint256)'', ExaRemoveLiquidity),
      (''remove_liquidity_w3g(uint256,uint256,uint256,uint256,address,uint256)'', ExaRemoveLiquidityW3G),
      (''swap_exact_tokens_for_tokens(uint256,uint256,uint256[],address,uint256)'', ExaSwapExactTokensForTokens),
      (''swap_exact_w3g_for_tokens(uint256,uint256,uint256[],address,uint256)'', ExaSwapExactW3GForTokens),
      (''swap_tokens_for_exact_tokens(uint256,uint256,uint256[],address,uint256)'', ExaSwapTokensForExactTokens),
      (''swap_tokens_for_exact_w3g(uint256,uint256,uint256[],address,uint256)'', ExaSwapTokensForExactW3G)]"

fun ex_call_name :: "ex_call \<Rightarrow> string" where
  "ex_call_name (ExCreatePool _ _) = ''create_pool''"
| "ex_call_name (ExAddLiquidity _ _ _ _ _ _ _ _) = ''add_liquidity''"
| "ex_call_name (ExAddLiquidityW3G _ _ _ _ _ _ _) = ''add_liquidity_w3g''"
| "ex_call_name (ExRemoveLiquidity _ _ _ _ _ _ _) = ''remove_liquidity''"
| "ex_call_name (ExRemoveLiquidityW3G _ _ _ _ _ _) = ''remove_liquidity_w3g''"
| "ex_call_name (ExSwapExactTokensForTokens _ _ _ _ _) = ''swap_exact_tokens_for_tokens''"
| "ex_call_name (ExSwapExactW3GForTokens _ _ _ _ _) = ''swap_exact_w3g_for_tokens''"
| "ex_call_name (ExSwapTokensForExactTokens _ _ _ _ _) = ''swap_tokens_for_exact_tokens''"
| "ex_call_name (ExSwapTokensForExactW3G _ _ _ _ _) = ''swap_tokens_for_exact_w3g''"
| "ex_call_name (ExSetFeeToCall _) = ''set_fee_to''"

definition ex_runtime ::
  "'c currency \<Rightarrow> env \<Rightarrow> ex_params \<Rightarrow> (ex_call \<Rightarrow> u64) \<Rightarrow> (ex_call, 'c ex_world) runtime_pallet" where
  "ex_runtime C B X weight = \<lparr>rp_dispatch = (\<lambda>(orig, c). ex_call_dispatch C B X orig c), rp_metadata = (\<lambda>c.
      \<lparr>call_pallet_name = name_bytes ''Exchange'', call_function_name = name_bytes (ex_call_name c)\<rparr>),
     rp_weight = weight\<rparr>"

text \<open>
  The functions, as the types of their arguments and the call they dispatch; each expects one word
  per argument. The path of a swap is copied element by element.
\<close>

fun exp_args :: "ex_action \<Rightarrow> evm_type list" where
  "exp_args ExaCreatePool = [TUint 128, TUint 128]"
| "exp_args ExaAddLiquidity = [TUint 128, TUint 128, TUint 128, TUint 128, TUint 128, TUint 128, TAddress, TUint 32]"
| "exp_args ExaAddLiquidityW3G = [TUint 128, TUint 128, TUint 128, TUint 128, TUint 128, TAddress, TUint 32]"
| "exp_args ExaRemoveLiquidity = [TUint 128, TUint 128, TUint 128, TUint 128, TUint 128, TAddress, TUint 32]"
| "exp_args ExaRemoveLiquidityW3G = [TUint 128, TUint 128, TUint 128, TUint 128, TAddress, TUint 32]"
| "exp_args ExaSwapExactTokensForTokens = [TUint 128, TUint 128, TVec (TUint 128), TAddress, TUint 32]"
| "exp_args ExaSwapExactW3GForTokens = [TUint 128, TUint 128, TVec (TUint 128), TAddress, TUint 32]"
| "exp_args ExaSwapTokensForExactTokens = [TUint 128, TUint 128, TVec (TUint 128), TAddress, TUint 32]"
| "exp_args ExaSwapTokensForExactW3G = [TUint 128, TUint 128, TVec (TUint 128), TAddress, TUint 32]"

fun exp_call :: "precompile_env \<Rightarrow> ex_action \<Rightarrow> evm_value list \<Rightarrow> ex_call" where
  "exp_call E ExaCreatePool vs = ExCreatePool (arg_u128 (vs ! 0)) (arg_u128 (vs ! 1))"
| "exp_call E ExaAddLiquidity vs = ExAddLiquidity (arg_u128 (vs ! 0)) (arg_u128 (vs ! 1)) (arg_u128 (vs ! 2))
     (arg_u128 (vs ! 3)) (arg_u128 (vs ! 4)) (arg_u128 (vs ! 5)) (arg_account E (vs ! 6)) (arg_u32 (vs ! 7))"
| "exp_call E ExaAddLiquidityW3G vs = ExAddLiquidityW3G (arg_u128 (vs ! 0)) (arg_u128 (vs ! 1)) (arg_u128 (vs ! 2))
     (arg_u128 (vs ! 3)) (arg_u128 (vs ! 4)) (arg_account E (vs ! 5)) (arg_u32 (vs ! 6))"
| "exp_call E ExaRemoveLiquidity vs = ExRemoveLiquidity (arg_u128 (vs ! 0)) (arg_u128 (vs ! 1)) (arg_u128 (vs ! 2))
     (arg_u128 (vs ! 3)) (arg_u128 (vs ! 4)) (arg_account E (vs ! 5)) (arg_u32 (vs ! 6))"
| "exp_call E ExaRemoveLiquidityW3G vs = ExRemoveLiquidityW3G (arg_u128 (vs ! 0)) (arg_u128 (vs ! 1))
     (arg_u128 (vs ! 2)) (arg_u128 (vs ! 3)) (arg_account E (vs ! 4)) (arg_u32 (vs ! 5))"
| "exp_call E ExaSwapExactTokensForTokens vs = ExSwapExactTokensForTokens (arg_u128 (vs ! 0)) (arg_u128 (vs ! 1))
     (arg_ids (vs ! 2)) (arg_account E (vs ! 3)) (arg_u32 (vs ! 4))"
| "exp_call E ExaSwapExactW3GForTokens vs = ExSwapExactW3GForTokens (arg_u128 (vs ! 0)) (arg_u128 (vs ! 1))
     (arg_ids (vs ! 2)) (arg_account E (vs ! 3)) (arg_u32 (vs ! 4))"
| "exp_call E ExaSwapTokensForExactTokens vs = ExSwapTokensForExactTokens (arg_u128 (vs ! 0)) (arg_u128 (vs ! 1))
     (arg_ids (vs ! 2)) (arg_account E (vs ! 3)) (arg_u32 (vs ! 4))"
| "exp_call E ExaSwapTokensForExactW3G vs = ExSwapTokensForExactW3G (arg_u128 (vs ! 0)) (arg_u128 (vs ! 1))
     (arg_ids (vs ! 2)) (arg_account E (vs ! 3)) (arg_u32 (vs ! 4))"

definition ex_execute ::
  "'c currency \<Rightarrow> env \<Rightarrow> ex_params \<Rightarrow> precompile_env \<Rightarrow> (ex_call \<Rightarrow> u64) \<Rightarrow> sw_storage \<Rightarrow> precompile_handle
     \<Rightarrow> 'c ex_world \<Rightarrow> 'c ex_world precompile_result option" where
  "ex_execute C B X E W sw = run_action E ex_actions (\<lambda>a h s.
     with_args (length (exp_args a)) (exp_args a) h (\<lambda>vs.
     call_as_caller E sw (ex_runtime C B X W) (exp_call E a vs) h s))"

section \<open>Farming\<close>

datatype fa_action = FaaStaking | FaaClaim

definition fa_actions :: "(string \<times> fa_action) list" where
  "fa_actions = [(''staking(uint256,uint256)'', FaaStaking), (''claim(uint256)'', FaaClaim)]"

fun fa_call_name :: "fa_call \<Rightarrow> string" where
  "fa_call_name (FaSetAdmin _) = ''set_admin''"
| "fa_call_name (FaCreatePool _ _ _ _ _ _) = ''create_pool''"
| "fa_call_name (FaStakingCall _ _) = ''staking''"
| "fa_call_name (FaClaimCall _) = ''claim''"
| "fa_call_name (FaForceClaim _ _) = ''force_claim''"

definition fa_runtime :: "env \<Rightarrow> (fa_call \<Rightarrow> u64) \<Rightarrow> (fa_call, fa_world) runtime_pallet" where
  "fa_runtime B weight = \<lparr>rp_dispatch = (\<lambda>(orig, c). fa_call_dispatch B orig c), rp_metadata = (\<lambda>c.
      \<lparr>call_pallet_name = name_bytes ''Farming'', call_function_name = name_bytes (fa_call_name c)\<rparr>),
     rp_weight = weight\<rparr>"

fun fap_args :: "fa_action \<Rightarrow> evm_type list" where
  "fap_args FaaStaking = [TUint 64, TUint 128]"
| "fap_args FaaClaim = [TUint 64]"

fun fap_call :: "fa_action \<Rightarrow> evm_value list \<Rightarrow> fa_call" where
  "fap_call FaaStaking vs = FaStakingCall (arg_u64 (vs ! 0)) (arg_u128 (vs ! 1))"
| "fap_call FaaClaim vs = FaClaimCall (arg_u64 (vs ! 0))"

definition fa_execute ::
  "env \<Rightarrow> precompile_env \<Rightarrow> (fa_call \<Rightarrow> u64) \<Rightarrow> sw_storage \<Rightarrow> precompile_handle
     \<Rightarrow> fa_world \<Rightarrow> fa_world precompile_result option" where
  "fa_execute B E W sw = run_action E fa_actions (\<lambda>a h s.
     with_args (length (fap_args a)) (fap_args a) h (\<lambda>vs.
     call_as_caller E sw (fa_runtime B W) (fap_call a vs) h s))"

section \<open>Launchpad\<close>

datatype lp_action = LpaCreatePool | LpaBuyToken | LpaClaim | LpaOwnerClaim

definition lp_actions :: "(string \<times> lp_action) list" where
  "lp_actions =
     [(''create_pool(uint256,uint256,uint256,uint256,uint256,uint256)'', LpaCreatePool),
      (''buy_token(uint256,uint256)'', LpaBuyToken), (''claim(uint256)'', LpaClaim),
      (''owner_claim(uint256)'', LpaOwnerClaim)]"

fun lp_call_name :: "lp_call \<Rightarrow> string" where
  "lp_call_name (LpCreatePool _ _ _ _ _ _) = ''create_pool''"
| "lp_call_name (LpBuyTokenCall _ _) = ''buy_token''"
| "lp_call_name (LpClaimCall _) = ''claim''"
| "lp_call_name (LpOwnerClaimCall _) = ''owner_claim''"

definition lp_runtime :: "env \<Rightarrow> (lp_call \<Rightarrow> u64) \<Rightarrow> (lp_call, lp_world) runtime_pallet" where
  "lp_runtime B weight = \<lparr>rp_dispatch = (\<lambda>(orig, c). lp_dispatch B (env_now B, orig, c)), rp_metadata = (\<lambda>c.
      \<lparr>call_pallet_name = name_bytes ''Launchpad'', call_function_name = name_bytes (lp_call_name c)\<rparr>),
     rp_weight = weight\<rparr>"

fun lpp_args :: "lp_action \<Rightarrow> evm_type list" where
  "lpp_args LpaCreatePool = [TUint 32, TUint 32, TUint 128, TUint 128, TUint 128, TUint 128]"
| "lpp_args LpaBuyToken = [TUint 64, TUint 128]"
| "lpp_args LpaOwnerClaim = [TUint 64]"
| "lpp_args LpaClaim = [TUint 64]"

fun lpp_call :: "lp_action \<Rightarrow> evm_value list \<Rightarrow> lp_call" where
  "lpp_call LpaCreatePool vs = LpCreatePool (arg_u32 (vs ! 0)) (arg_u32 (vs ! 1)) (arg_u128 (vs ! 2))
     (arg_u128 (vs ! 3)) (arg_u128 (vs ! 4)) (arg_u128 (vs ! 5))"
| "lpp_call LpaBuyToken vs = LpBuyTokenCall (arg_u64 (vs ! 0)) (arg_u128 (vs ! 1))"
| "lpp_call LpaOwnerClaim vs = LpOwnerClaimCall (arg_u64 (vs ! 0))"
| "lpp_call LpaClaim vs = LpClaimCall (arg_u64 (vs ! 0))"

definition lp_execute ::
  "env \<Rightarrow> precompile_env \<Rightarrow> (lp_call \<Rightarrow> u64) \<Rightarrow> sw_storage \<Rightarrow> precompile_handle
     \<Rightarrow> lp_world \<Rightarrow> lp_world precompile_result option" where
  "lp_execute B E W sw = run_action E lp_actions (\<lambda>a h s.
     with_args (length (lpp_args a)) (lpp_args a) h (\<lambda>vs.
     call_as_caller E sw (lp_runtime B W) (lpp_call a vs) h s))"

section \<open>Marketplace\<close>

datatype mp_action = MpaCreateOrder | MpaCancelOrder | MpaExecuteOrder | MpaPlaceBid | MpaCancelBid | MpaAcceptBid

definition mp_actions :: "(string \<times> mp_action) list" where
  "mp_actions =
     [(''create_order(uint256,uint256,uint256,uint256,uint256)'', MpaCreateOrder),
      (''cancel_order(uint256,uint256,uint256)'', MpaCancelOrder),
      (''execute_order(uint256,uint256,uint256)'', MpaExecuteOrder),
      (''place_bid(uint256,uint256,uint256,uint256,uint256)'', MpaPlaceBid),
      (''cancel_bid(uint256,uint256,uint256)'', MpaCancelBid),
      (''accept_bid(uint256,uint256,uint256)'', MpaAcceptBid)]"

fun mp_call_name :: "mp_call \<Rightarrow> string" where
  "mp_call_name (MpSetAdmin _) = ''set_admin''"
| "mp_call_name (MpSetServiceFeePoint _) = ''set_service_fee_point''"
| "mp_call_name (MpCreateOrder _ _ _) = ''create_order''"
| "mp_call_name (MpCancelOrder _) = ''cancel_order''"
| "mp_call_name (MpExecuteOrder _) = ''execute_order''"
| "mp_call_name (MpPlaceBid _ _ _) = ''place_bid''"
| "mp_call_name (MpCancelBid _) = ''cancel_bid''"
| "mp_call_name (MpAcceptBid _) = ''accept_bid''"

text \<open>The runtime names this pallet \<open>Martketplace\<close>.\<close>

definition mp_runtime :: "'c currency \<Rightarrow> env \<Rightarrow> (mp_call \<Rightarrow> u64) \<Rightarrow> (mp_call, 'c mp_world) runtime_pallet" where
  "mp_runtime C B weight = \<lparr>rp_dispatch = (\<lambda>(orig, c). mp_call_dispatch C B orig c), rp_metadata = (\<lambda>c.
      \<lparr>call_pallet_name = name_bytes ''Martketplace'', call_function_name = name_bytes (mp_call_name c)\<rparr>),
     rp_weight = weight\<rparr>"

definition mpp_asset :: "evm_value list \<Rightarrow> mp_asset" where
  "mpp_asset vs =
     (let group_id = arg_u128 (vs ! 0); token_id = arg_u128 (vs ! 1); asset_type = arg_u128 (vs ! 2) in
      if asset_type = 0 then NonFungibleToken group_id token_id
      else if asset_type = 1 then MultiToken group_id token_id
      else ErrorToken)"

fun mpp_args :: "mp_action \<Rightarrow> evm_type list" where
  "mpp_args MpaCreateOrder = [TUint 128, TUint 128, TUint 128, TUint 128, TUint 32]"
| "mpp_args MpaCancelOrder = [TUint 128, TUint 128, TUint 128]"
| "mpp_args MpaExecuteOrder = [TUint 128, TUint 128, TUint 128]"
| "mpp_args MpaPlaceBid = [TUint 128, TUint 128, TUint 128, TUint 128, TUint 32]"
| "mpp_args MpaCancelBid = [TUint 128, TUint 128, TUint 128]"
| "mpp_args MpaAcceptBid = [TUint 128, TUint 128, TUint 128]"

fun mpp_call :: "mp_action \<Rightarrow> evm_value list \<Rightarrow> mp_call" where
  "mpp_call MpaCreateOrder vs = MpCreateOrder (mpp_asset vs) (arg_u128 (vs ! 3)) (arg_u32 (vs ! 4))"
| "mpp_call MpaCancelOrder vs = MpCancelOrder (mpp_asset vs)"
| "mpp_call MpaExecuteOrder vs = MpExecuteOrder (mpp_asset vs)"
| "mpp_call MpaPlaceBid vs = MpPlaceBid (mpp_asset vs) (arg_u128 (vs ! 3)) (arg_u32 (vs ! 4))"
| "mpp_call MpaCancelBid vs = MpCancelBid (mpp_asset vs)"
| "mpp_call MpaAcceptBid vs = MpAcceptBid (mpp_asset vs)"

definition mp_execute ::
  "'c currency \<Rightarrow> env \<Rightarrow> precompile_env \<Rightarrow> (mp_call \<Rightarrow> u64) \<Rightarrow> sw_storage \<Rightarrow> precompile_handle
     \<Rightarrow> 'c mp_world \<Rightarrow> 'c mp_world precompile_result option" where
  "mp_execute C B E W sw = run_action E mp_actions (\<lambda>a h s.
     with_args (length (mpp_args a)) (mpp_args a) h (\<lambda>vs.
     call_as_caller E sw (mp_runtime C B W) (mpp_call a vs) h s))"

section \<open>The set of precompiles\<close>

definition hash :: "u64 \<Rightarrow> h160" where
  "hash a = of_nat (unat a)"

definition used_addresses :: "h160 list" where
  "used_addresses = map hash [1, 2, 3, 4, 5, 6, 7, 8, 1024, 1025, 1026]"

text \<open>
  The precompiles: those of other crates by the number of their address, the seven contracts above
  as entry points on the state of the runtime.
\<close>

record 's precompiles =
  pc_external :: "u64 \<Rightarrow> precompile_handle \<Rightarrow> 's \<Rightarrow> 's precompile_result"
  pc_exchange :: "precompile_handle \<Rightarrow> 's \<Rightarrow> 's precompile_result option"
  pc_marketplace :: "precompile_handle \<Rightarrow> 's \<Rightarrow> 's precompile_result option"
  pc_farming :: "precompile_handle \<Rightarrow> 's \<Rightarrow> 's precompile_result option"
  pc_launchpad :: "precompile_handle \<Rightarrow> 's \<Rightarrow> 's precompile_result option"
  pc_fungible :: "precompile_handle \<Rightarrow> 's \<Rightarrow> 's precompile_result option"
  pc_non_fungible :: "precompile_handle \<Rightarrow> 's \<Rightarrow> 's precompile_result option"
  pc_multi :: "precompile_handle \<Rightarrow> 's \<Rightarrow> 's precompile_result option"

definition w3g_execute :: "'s precompiles \<Rightarrow> precompile_handle \<Rightarrow> 's \<Rightarrow> 's precompile_result option" where
  "w3g_execute P h s =
     (let a = ph_code_address h; prefix = take 4 (address_bytes a) in
      if a = hash 1 then Some (pc_external P 1 h s)
      else if a = hash 2 then Some (pc_external P 2 h s)
      else if a = hash 3 then Some (pc_external P 3 h s)
      else if a = hash 4 then Some (pc_external P 4 h s)
      else if a = hash 5 then Some (pc_external P 5 h s)
      else if a = hash 6 then Some (pc_external P 6 h s)
      else if a = hash 7 then Some (pc_external P 7 h s)
      else if a = hash 8 then Some (pc_external P 8 h s)
      else if a = hash 1024 then Some (pc_external P 1024 h s)
      else if a = hash 1025 then Some (pc_external P 1025 h s)
      else if a = hash 1026 then Some (pc_external P 1026 h s)
      else if a = hash 1027 then pc_exchange P h s
      else if a = hash 1028 then pc_marketplace P h s
      else if a = hash 1029 then pc_farming P h s
      else if a = hash 1030 then pc_launchpad P h s
      else if prefix = FT_PRECOMPILE_ADDRESS_PREFIX then pc_fungible P h s
      else if prefix = NFT_PRECOMPILE_ADDRESS_PREFIX then pc_non_fungible P h s
      else if prefix = MT_PRECOMPILE_ADDRESS_PREFIX then pc_multi P h s
      else None)"

definition w3g_is_precompile :: "h160 \<Rightarrow> bool" where
  "w3g_is_precompile address \<longleftrightarrow> address \<in> set used_addresses"

section \<open>The contracts keep the contract of a precompile\<close>

lemma run_action_step:
  assumes "run_action E table (\<lambda>a h s. with_args (n a) (ts a) h (\<lambda>vs. call_as_caller E sw R (c a vs) h s)) h s =
    Some (Inr (out, h', s'))"
  shows "s' = s \<or> steps_as_caller E sw R h s s'"
  using assms by (auto simp: run_action_def and_then_eq_Inr elim!: with_argsE dest: call_as_caller_steps)

text \<open>None of these contracts runs in a static context or with value.\<close>

lemma run_action_static:
  assumes "ph_is_static h \<or> ph_apparent_value h > 0"
  shows "run_action E table f h s \<noteq> Some (Inr r)"
  using assms by (auto simp: run_action_def check_function_modifier_def and_then_eq_Inr)

interpretation exp: precompile "ex_execute C B X E W" E "ex_runtime C B X W" for C B X E W
  by unfold_locales (unfold ex_execute_def, rule run_action_step)

interpretation fap: precompile "fa_execute B E W" E "fa_runtime B W" for B E W
  by unfold_locales (unfold fa_execute_def, rule run_action_step)

interpretation lpp: precompile "lp_execute B E W" E "lp_runtime B W" for B E W
  by unfold_locales (unfold lp_execute_def, rule run_action_step)

interpretation mpp: precompile "mp_execute C B E W" E "mp_runtime C B W" for C B E W
  by unfold_locales (unfold mp_execute_def, rule run_action_step)

lemma rp_dispatch_pallets:
  "rp_dispatch (ex_runtime C B X We) = (\<lambda>(orig, c). ex_call_dispatch C B X orig c)"
  "rp_dispatch (fa_runtime B Wa) = (\<lambda>(orig, c). fa_call_dispatch B orig c)"
  "rp_dispatch (lp_runtime B Wl) = (\<lambda>(orig, c). lp_dispatch B (env_now B, orig, c))"
  "rp_dispatch (mp_runtime C' B Wp) = (\<lambda>(orig, c). mp_call_dispatch C' B orig c)"
  by (simp_all add: ex_runtime_def fa_runtime_def lp_runtime_def mp_runtime_def)

text \<open>
  C22: The EVM gives nobody the authority of another: whatever EVM calls to the seven contracts are
  mixed with ordinary calls of the pallet behind the contract, the state reached is the one that
  ordinary calls alone reach in which every EVM call is left out or replaced by a single call that
  the account of its caller signs and the filter lets through, and every ordinary call is kept.
\<close>

theorem evm_reachable:
  "(\<exists>css. list_all2 (stands_for E (ft_runtime Wf)) xf css \<and>
      exec (mixed_dispatch (ft_execute E Wf) (ft_runtime Wf)) xf sf = exec ft_dispatch (concat css) sf) \<and>
   (\<exists>css. list_all2 (stands_for E (nft_runtime Wn)) xn css \<and>
      exec (mixed_dispatch (nft_execute E Wn) (nft_runtime Wn)) xn sn = exec nft_dispatch (concat css) sn) \<and>
   (\<exists>css. list_all2 (stands_for E (mt_runtime Wm)) xm css \<and>
      exec (mixed_dispatch (mt_execute E Wm) (mt_runtime Wm)) xm sm = exec mt_dispatch (concat css) sm) \<and>
   (\<exists>css. list_all2 (stands_for E (ex_runtime C B X We)) xe css \<and>
      exec (mixed_dispatch (ex_execute C B X E We) (ex_runtime C B X We)) xe se = exec (\<lambda>(orig, c). ex_call_dispatch C B X orig c) (concat css) se) \<and>
   (\<exists>css. list_all2 (stands_for E (fa_runtime B Wa)) xa css \<and>
      exec (mixed_dispatch (fa_execute B E Wa) (fa_runtime B Wa)) xa sa = exec (\<lambda>(orig, c). fa_call_dispatch B orig c) (concat css) sa) \<and>
   (\<exists>css. list_all2 (stands_for E (lp_runtime B Wl)) xl css \<and>
      exec (mixed_dispatch (lp_execute B E Wl) (lp_runtime B Wl)) xl sl = exec (\<lambda>(orig, c). lp_dispatch B (env_now B, orig, c)) (concat css) sl) \<and>
   (\<exists>css. list_all2 (stands_for E (mp_runtime C' B Wp)) xp css \<and>
      exec (mixed_dispatch (mp_execute C' B E Wp) (mp_runtime C' B Wp)) xp sp = exec (\<lambda>(orig, c). mp_call_dispatch C' B orig c) (concat css) sp)"
  using ftp.exec_mixed [of E Wf xf sf] nftp.exec_mixed [of E Wn xn sn] mtp.exec_mixed [of E Wm xm sm]
    exp.exec_mixed [of E C B X We xe se] fap.exec_mixed [of E B Wa xa sa] lpp.exec_mixed [of E B Wl xl sl]
    mpp.exec_mixed [of E C' B Wp xp sp]
  by (simp only: rp_dispatch_tokens rp_dispatch_pallets)

section \<open>The interfaces\<close>

text \<open>
  The contracts as a client sees them, from the Solidity interfaces beside them
  (\<open>precompiles/src/Exchange.sol\<close>, \<open>Farming.sol\<close>, \<open>Launchpad.sol\<close>, \<open>Marketplace.sol\<close>): the
  parameters in the order of the interface, each in the place it has in the call of the pallet, and
  the width that the contract accepts for it. The marketplace names an asset by the id of its collection,
  its token id and the kind of the collection, 0 or 1; every other kind is an asset that the pallet
  refuses.
\<close>

definition ex_interface :: "precompile_env \<Rightarrow> (ex_action, ex_call) abi_entry list" where
  "ex_interface E =
     [(ExaCreatePool, [TUint 128, TUint 128], [],
         \<lambda>vs. ExCreatePool (arg_u128 (vs ! 0)) (arg_u128 (vs ! 1))),
      (ExaAddLiquidity, [TUint 128, TUint 128, TUint 128, TUint 128, TUint 128, TUint 128, TAddress,
          TUint 32], [],
         \<lambda>vs. ExAddLiquidity (arg_u128 (vs ! 0)) (arg_u128 (vs ! 1)) (arg_u128 (vs ! 2))
             (arg_u128 (vs ! 3)) (arg_u128 (vs ! 4)) (arg_u128 (vs ! 5)) (arg_account E (vs ! 6)) (arg_u32 (vs ! 7))),
      (ExaAddLiquidityW3G, [TUint 128, TUint 128, TUint 128, TUint 128, TUint 128, TAddress, TUint 32], [],
         \<lambda>vs. ExAddLiquidityW3G (arg_u128 (vs ! 0)) (arg_u128 (vs ! 1)) (arg_u128 (vs ! 2))
             (arg_u128 (vs ! 3)) (arg_u128 (vs ! 4)) (arg_account E (vs ! 5)) (arg_u32 (vs ! 6))),
      (ExaRemoveLiquidity, [TUint 128, TUint 128, TUint 128, TUint 128, TUint 128, TAddress, TUint 32], [],
         \<lambda>vs. ExRemoveLiquidity (arg_u128 (vs ! 0)) (arg_u128 (vs ! 1)) (arg_u128 (vs ! 2))
             (arg_u128 (vs ! 3)) (arg_u128 (vs ! 4)) (arg_account E (vs ! 5)) (arg_u32 (vs ! 6))),
      (ExaRemoveLiquidityW3G, [TUint 128, TUint 128, TUint 128, TUint 128, TAddress, TUint 32], [],
         \<lambda>vs. ExRemoveLiquidityW3G (arg_u128 (vs ! 0)) (arg_u128 (vs ! 1)) (arg_u128 (vs ! 2))
             (arg_u128 (vs ! 3)) (arg_account E (vs ! 4)) (arg_u32 (vs ! 5))),
      (ExaSwapExactTokensForTokens, [TUint 128, TUint 128, TVec (TUint 128), TAddress, TUint 32], [],
         \<lambda>vs. ExSwapExactTokensForTokens (arg_u128 (vs ! 0)) (arg_u128 (vs ! 1)) (arg_ids (vs ! 2))
             (arg_account E (vs ! 3)) (arg_u32 (vs ! 4))),
      (ExaSwapExactW3GForTokens, [TUint 128, TUint 128, TVec (TUint 128), TAddress, TUint 32], [],
         \<lambda>vs. ExSwapExactW3GForTokens (arg_u128 (vs ! 0)) (arg_u128 (vs ! 1)) (arg_ids (vs ! 2))
             (arg_account E (vs ! 3)) (arg_u32 (vs ! 4))),
      (ExaSwapTokensForExactTokens, [TUint 128, TUint 128, TVec (TUint 128), TAddress, TUint 32], [],
         \<lambda>vs. ExSwapTokensForExactTokens (arg_u128 (vs ! 0)) (arg_u128 (vs ! 1)) (arg_ids (vs ! 2))
             (arg_account E (vs ! 3)) (arg_u32 (vs ! 4))),
      (ExaSwapTokensForExactW3G, [TUint 128, TUint 128, TVec (TUint 128), TAddress, TUint 32], [],
         \<lambda>vs. ExSwapTokensForExactW3G (arg_u128 (vs ! 0)) (arg_u128 (vs ! 1)) (arg_ids (vs ! 2))
             (arg_account E (vs ! 3)) (arg_u32 (vs ! 4)))]"

definition fa_interface :: "(fa_action, fa_call) abi_entry list" where
  "fa_interface =
     [(FaaStaking, [TUint 64, TUint 128], [],
         \<lambda>vs. FaStakingCall (arg_u64 (vs ! 0)) (arg_u128 (vs ! 1))),
      (FaaClaim, [TUint 64], [],
         \<lambda>vs. FaClaimCall (arg_u64 (vs ! 0)))]"

definition lp_interface :: "(lp_action, lp_call) abi_entry list" where
  "lp_interface =
     [(LpaCreatePool, [TUint 32, TUint 32, TUint 128, TUint 128, TUint 128, TUint 128], [],
         \<lambda>vs. LpCreatePool (arg_u32 (vs ! 0)) (arg_u32 (vs ! 1)) (arg_u128 (vs ! 2))
             (arg_u128 (vs ! 3)) (arg_u128 (vs ! 4)) (arg_u128 (vs ! 5))),
      (LpaBuyToken, [TUint 64, TUint 128], [],
         \<lambda>vs. LpBuyTokenCall (arg_u64 (vs ! 0)) (arg_u128 (vs ! 1))),
      (LpaClaim, [TUint 64], [],
         \<lambda>vs. LpClaimCall (arg_u64 (vs ! 0))),
      (LpaOwnerClaim, [TUint 64], [],
         \<lambda>vs. LpOwnerClaimCall (arg_u64 (vs ! 0)))]"

fun asset_of :: "nat \<Rightarrow> nat \<Rightarrow> nat \<Rightarrow> mp_asset" where
  "asset_of g t 0 = NonFungibleToken (of_nat g) (of_nat t)"
| "asset_of g t (Suc 0) = MultiToken (of_nat g) (of_nat t)"
| "asset_of g t _ = ErrorToken"

definition mp_interface :: "(mp_action, mp_call) abi_entry list" where
  "mp_interface =
     [(MpaCreateOrder, [TUint 128, TUint 128, TUint 128, TUint 128, TUint 32], [],
         \<lambda>vs. MpCreateOrder (asset_of (un_uint (vs ! 0)) (un_uint (vs ! 1)) (un_uint (vs ! 2)))
           (arg_u128 (vs ! 3)) (arg_u32 (vs ! 4))),
      (MpaCancelOrder, [TUint 128, TUint 128, TUint 128], [],
         \<lambda>vs. MpCancelOrder (asset_of (un_uint (vs ! 0)) (un_uint (vs ! 1)) (un_uint (vs ! 2)))),
      (MpaExecuteOrder, [TUint 128, TUint 128, TUint 128], [],
         \<lambda>vs. MpExecuteOrder (asset_of (un_uint (vs ! 0)) (un_uint (vs ! 1)) (un_uint (vs ! 2)))),
      (MpaPlaceBid, [TUint 128, TUint 128, TUint 128, TUint 128, TUint 32], [],
         \<lambda>vs. MpPlaceBid (asset_of (un_uint (vs ! 0)) (un_uint (vs ! 1)) (un_uint (vs ! 2)))
           (arg_u128 (vs ! 3)) (arg_u32 (vs ! 4))),
      (MpaCancelBid, [TUint 128, TUint 128, TUint 128], [],
         \<lambda>vs. MpCancelBid (asset_of (un_uint (vs ! 0)) (un_uint (vs ! 1)) (un_uint (vs ! 2)))),
      (MpaAcceptBid, [TUint 128, TUint 128, TUint 128], [],
         \<lambda>vs. MpAcceptBid (asset_of (un_uint (vs ! 0)) (un_uint (vs ! 1)) (un_uint (vs ! 2))))]"

lemma interface_entries:
  "(a, ts, ts', call) \<in> set
      (ex_interface E) \<Longrightarrow> ts = exp_args a \<and> call vs = exp_call E a vs"
  "(b, ts, ts', callf) \<in> set fa_interface \<Longrightarrow> ts = fap_args b \<and> callf vs = fap_call b vs"
  "(c, ts, ts', calll) \<in> set lp_interface \<Longrightarrow> ts = lpp_args c \<and> calll vs = lpp_call c vs"
  by (auto simp: ex_interface_def fa_interface_def lp_interface_def)

lemma asset_of_args:
  assumes "un_uint (vs ! 2) < 2 ^ 128"
  shows "mpp_asset vs = asset_of (un_uint (vs ! 0)) (un_uint (vs ! 1)) (un_uint (vs ! 2))"
proof -
  have n: "unat (arg_u128 (vs ! 2)) = un_uint (vs ! 2)"
    using assms by (simp add: arg_u128_def unat_of_nat_less)
  then have "arg_u128 (vs ! 2) = 0 \<longleftrightarrow> un_uint (vs ! 2) = 0" "arg_u128
      (vs ! 2) = 1 \<longleftrightarrow> un_uint (vs ! 2) = 1"
    by (metis unat_0 word_eq_unatI) (metis n unat_1 word_eq_unatI)
  then show ?thesis
    by (cases "(un_uint (vs ! 0), un_uint (vs ! 1), un_uint (vs ! 2))" rule: asset_of.cases)
      (auto simp: mpp_asset_def Let_def arg_u128_def)
qed

lemma interface_entries_mp:
  assumes "(a, ts, ts', call) \<in> set mp_interface" and "list_all2 well_typed ts vs"
  shows "ts = mpp_args a \<and> call vs = mpp_call a vs"
proof -
  obtain us where ts: "ts = TUint 128 # TUint 128 # TUint 128 # us"
    using assms(1) by (auto simp: mp_interface_def)
  then obtain v where "vs ! 2 = v" "well_typed (TUint 128) v"
    using assms(2) by (auto simp: list_all2_Cons1)
  then have "un_uint (vs ! 2) < 2 ^ 128" by (cases v) auto
  from asset_of_args [OF this] assms(1) show ?thesis by (auto simp: mp_interface_def)
qed

lemma run_action_encoded:
  assumes "encoded_call E table (a, ts, ts', call) sig vs vs' h"
  shows "run_action E table (\<lambda>a h s. with_args (length (args a)) (args a) h
      (\<lambda>vs. k a vs h s)) h s =
    Some (if args a = ts then k a vs h s else with_args (length (args a)) (args a) h (\<lambda>vs. k a vs h s))"
  using encoded_callD(1, 3) [OF assms] by (simp add: run_action_def encoded_callD(2) [OF assms])

text \<open>
  C40: A client of the exchange, farming, launchpad or marketplace contract that encodes the arguments as
  Solidity does gets the call it means: for every function, running the contract on the encoded
  arguments is dispatching this call of the pallet, signed by the account of the caller.
\<close>

theorem evm_pallet_calls:
  "fst ` set (ex_interface E) = UNIV \<and> fst ` set fa_interface = UNIV \<and>
   fst ` set lp_interface = UNIV \<and> fst ` set mp_interface = UNIV \<and>
   (ee \<in> set (ex_interface E) \<and> encoded_call E ex_actions ee sig vs [] h \<longrightarrow>
      ex_execute C B X E We sw h se = Some (call_as_caller E sw (ex_runtime C B X We) (snd (snd
          (snd ee)) vs) h se)) \<and>
   (ea \<in> set fa_interface \<and> encoded_call E fa_actions ea sig vs [] h \<longrightarrow>
      fa_execute B E Wa sw h sa = Some (call_as_caller E sw (fa_runtime B Wa) (snd (snd
          (snd ea)) vs) h sa)) \<and>
   (el \<in> set lp_interface \<and> encoded_call E lp_actions el sig vs [] h \<longrightarrow>
      lp_execute B E Wl sw h sl = Some (call_as_caller E sw (lp_runtime B Wl) (snd (snd
          (snd el)) vs) h sl)) \<and>
   (em \<in> set mp_interface \<and> encoded_call E mp_actions em sig vs [] h \<longrightarrow>
      mp_execute C' B E Wm sw h sm = Some (call_as_caller E sw (mp_runtime C' B Wm) (snd (snd
          (snd em)) vs) h sm))"
proof (intro conjI impI)
  show "fst ` set (ex_interface E) = UNIV"
    by (auto simp: ex_interface_def) (metis ex_action.exhaust)
  show "fst ` set fa_interface = UNIV" by (auto simp: fa_interface_def) (metis fa_action.exhaust)
  show "fst ` set lp_interface = UNIV" by (auto simp: lp_interface_def) (metis lp_action.exhaust)
  show "fst ` set mp_interface = UNIV" by (auto simp: mp_interface_def) (metis mp_action.exhaust)
  assume "ee \<in> set (ex_interface E) \<and> encoded_call E ex_actions ee sig vs [] h"
  then show "ex_execute C B X E We sw h se = Some (call_as_caller E sw (ex_runtime C B X We) (snd (snd
      (snd ee)) vs) h se)"
    by (cases ee) (auto simp: ex_execute_def run_action_encoded dest: interface_entries(1) [where vs = vs])
next
  assume "ea \<in> set fa_interface \<and> encoded_call E fa_actions ea sig vs [] h"
  then show "fa_execute B E Wa sw h sa = Some (call_as_caller E sw (fa_runtime B Wa) (snd (snd
      (snd ea)) vs) h sa)"
    by (cases ea) (auto simp: fa_execute_def run_action_encoded dest: interface_entries(2) [where vs = vs])
next
  assume "el \<in> set lp_interface \<and> encoded_call E lp_actions el sig vs [] h"
  then show "lp_execute B E Wl sw h sl = Some (call_as_caller E sw (lp_runtime B Wl) (snd (snd
      (snd el)) vs) h sl)"
    by (cases el) (auto simp: lp_execute_def run_action_encoded dest: interface_entries(3) [where vs = vs])
next
  assume "em \<in> set mp_interface \<and> encoded_call E mp_actions em sig vs [] h"
  moreover from this have "list_all2 well_typed (fst (snd em)) vs" by (cases em) (simp add: encoded_call_def)
  ultimately show "mp_execute C' B E Wm sw h sm = Some (call_as_caller E sw (mp_runtime C' B Wm) (snd (snd
      (snd em)) vs) h sm)"
    by (cases em) (auto simp: mp_execute_def run_action_encoded dest: interface_entries_mp [where vs = vs])
qed

text \<open>Account 2 calls the contract of the farming pallet to stake 50 units in pool 1.\<close>

definition keccak_farming :: "string \<Rightarrow> bytes" where
  "keccak_farming sig = (if sig = ''staking(uint256,uint256)'' then [0x2e, 0x9f, 0x41, 0x1e] else [0x37, 0x96, 0x07, 0xf5])"

definition pe_farming :: precompile_env where
  "pe_farming = pe_example\<lparr>pe_keccak256 := keccak_farming\<rparr>"

definition staking_example :: precompile_handle where
  "staking_example = (ph_example (ew_build (write_all ([TUint 64, TUint 128] @ []) ([VUint 1, VUint 50] @ [])
     (ew_new_with_selector (function_selector pe_farming ''staking(uint256,uint256)'')))) False)
       \<lparr>ph_code_address := hash 1029, ph_address := hash 1029\<rparr>"

lemma staking_encoded:
  "encoded_call pe_farming fa_actions (fa_interface ! 0) ''staking(uint256,uint256)'' [VUint 1, VUint 50] [] staking_example"
proof -
  have "length (ph_input staking_example) < usize_end"
    by (simp add: staking_example_def ph_example_def build_write_all build_layout part_def layout_def usize_end_def)
  moreover have "distinct (map (function_selector pe_farming \<circ> fst) fa_actions)"
    by (simp add: fa_actions_def function_selector_def pe_farming_def keccak_farming_def from_be_def)
  moreover have "(''staking(uint256,uint256)'', FaaStaking) \<in> set fa_actions"
    by (simp add: fa_actions_def)
  ultimately show ?thesis
    by (simp add: encoded_call_def fa_interface_def staking_example_def ph_example_def del: map_map)
qed

theorem evm_pallet_calls_witness:
  "fa_execute env_example pe_farming (\<lambda>_. 0) sw_genesis staking_example fa_example =
     Some (call_as_caller pe_farming sw_genesis (fa_runtime env_example (\<lambda>_. 0)) (FaStakingCall 1 50)
       staking_example fa_example)"
proof -
  have "fa_interface ! 0 \<in> set fa_interface" by (rule nth_mem) (simp add: fa_interface_def)
  moreover have "snd (snd (snd (fa_interface ! 0))) [VUint 1, VUint 50] = FaStakingCall 1 50"
    by (simp add: fa_interface_def arg_u64_def arg_u128_def)
  ultimately show ?thesis
    using evm_pallet_calls [where ea = "fa_interface ! 0" and E = pe_farming and sig = "''staking(uint256,uint256)''"
        and vs = "[VUint 1, VUint 50]" and h = staking_example and Wa = "\<lambda>_. 0" and sw = sw_genesis
        and sa = fa_example and B = env_example] staking_encoded
    by metis
qed

section \<open>Routing\<close>

lemma take_be_bytes: "take n (be_bytes (n + k) x) = be_bytes n (x div 256 ^ k)"
  by (induction k arbitrary: x) (simp_all add: div_mult2_eq)

lemma unat_hash [simp]: "unat (hash a) = unat a"
  unfolding hash_def using unat_bound [of a] by (intro unat_of_nat_less) simp

lemma hash_prefix: "take 4 (address_bytes (hash a)) = [0, 0, 0, 0]"
proof -
  have a: "unat a < 2 ^ 64" using unat_bound [of a] by simp
  have "be_bytes 4 0 = [0, 0, 0, 0]" unfolding be_bytes_zero by (simp add: eval_nat_numeral)
  then show ?thesis using take_be_bytes [of 4 16 "unat a"] a by (simp add: address_bytes_def)
qed

lemma into_address_prefix [simp]:
  "take 4 (address_bytes (into_address [x, y, z, u] tid)) = [x, y, z, u]"
  by (simp add: address_bytes_into)

lemma into_address_not_hash [simp]: "into_address [x, 255, 255, 255] tid \<noteq> hash n"
proof
  assume "into_address [x, 255, 255, 255] tid = hash n"
  then have "take 4 (address_bytes (into_address [x, 255, 255, 255] tid)) = [0, 0, 0, 0]" by (simp only: hash_prefix)
  then show False by simp
qed

lemma hash_eq_iff [simp]: "hash a = hash b \<longleftrightarrow> a = b"
  by (metis unat_hash word_eq_unatI)

text \<open>
  The address of a token is routed to the contract of its kind, for every id, and the address of a
  pallet to its contract. None of these addresses is one that the set reports as a precompile.
\<close>

theorem w3g_routes:
  "w3g_execute P (h\<lparr>ph_code_address := ft_into_address tid\<rparr>) s = pc_fungible P (h\<lparr>ph_code_address := ft_into_address tid\<rparr>) s \<and>
   w3g_execute P (h\<lparr>ph_code_address := nft_into_address tid\<rparr>) s = pc_non_fungible P (h\<lparr>ph_code_address := nft_into_address tid\<rparr>) s \<and>
   w3g_execute P (h\<lparr>ph_code_address := mt_into_address tid\<rparr>) s = pc_multi P (h\<lparr>ph_code_address := mt_into_address tid\<rparr>) s \<and>
   w3g_execute P (h\<lparr>ph_code_address := hash 1027\<rparr>) s = pc_exchange P (h\<lparr>ph_code_address := hash 1027\<rparr>) s \<and>
   w3g_execute P (h\<lparr>ph_code_address := hash 1028\<rparr>) s = pc_marketplace P (h\<lparr>ph_code_address := hash 1028\<rparr>) s \<and>
   w3g_execute P (h\<lparr>ph_code_address := hash 1029\<rparr>) s = pc_farming P (h\<lparr>ph_code_address := hash 1029\<rparr>) s \<and>
   w3g_execute P (h\<lparr>ph_code_address := hash 1030\<rparr>) s = pc_launchpad P (h\<lparr>ph_code_address := hash 1030\<rparr>) s \<and>
   \<not> w3g_is_precompile (ft_into_address tid) \<and> \<not> w3g_is_precompile (nft_into_address tid) \<and>
   \<not> w3g_is_precompile (mt_into_address tid) \<and> \<not> w3g_is_precompile (hash 1027)"
  by (simp add: w3g_execute_def Let_def w3g_is_precompile_def used_addresses_def conversion_defs prefix_defs)

end
