(* ===== verification/PrecompileSet.thy ===== *)
theory PrecompileSet
  imports PrecompileTokens
begin

text \<open>
  The rest of \<open>precompiles/utils/src\<close>: the cost of subcalls and of logs (\<open>costs.rs\<close>, \<open>logs.rs\<close>,
  \<open>handle.rs\<close>), and the fragments from which a set of precompiles is built (\<open>precompile_set.rs\<close>).
  Fragments count how deeply a precompile is nested, in cells that nested calls share, so the cells are
  an explicit store, and a precompile is a script of subcalls. The theorems bound the nesting and show
  that the counters come back to where they were.
\<close>

section \<open>Costs and logs\<close>

text \<open>The fields of \<open>evm::Config\<close> that the cost of a call looks at.\<close>

record evm_config =
  ec_increase_state_access_gas :: bool
  ec_gas_account_access_cold :: u64
  ec_gas_storage_read_warm :: u64
  ec_empty_considered_exists :: bool
  ec_gas_call :: u64

definition address_access_cost :: "bool \<Rightarrow> u64 \<Rightarrow> evm_config \<Rightarrow> u64" where
  "address_access_cost is_cold regular_value config =
     (if ec_increase_state_access_gas config then
        if is_cold then ec_gas_account_access_cold config else ec_gas_storage_read_warm config
      else regular_value)"

definition xfer_cost :: "bool \<Rightarrow> bool \<Rightarrow> u64" where
  "xfer_cost is_call_or_callcode transfers_value = (if is_call_or_callcode \<and> transfers_value then 9000 else 0)"

definition new_cost :: "bool \<Rightarrow> bool \<Rightarrow> bool \<Rightarrow> evm_config \<Rightarrow> u64" where
  "new_cost is_call_or_staticcall new_account transfers_value config =
     (let eip161 = \<not> ec_empty_considered_exists config in
      if is_call_or_staticcall then
        if eip161 then if transfers_value \<and> new_account then 25000 else 0
        else if new_account then 25000 else 0
      else 0)"

definition call_cost :: "u256 \<Rightarrow> evm_config \<Rightarrow> u64" where
  "call_cost v config =
     (let transfers_value = v \<noteq> 0; is_cold = True; is_call_or_callcode = True; is_call_or_staticcall = True;
          new_account = True in
      address_access_cost is_cold (ec_gas_call config) config + xfer_cost is_call_or_callcode transfers_value
        + new_cost is_call_or_staticcall new_account transfers_value config)"

text \<open>\<open>RuntimeHelper\<close>: the gas of one access to the database, whose weight the runtime configures.\<close>

definition db_write_gas_cost :: "u64 \<Rightarrow> u64" where
  "db_write_gas_cost db_weight_write = weight_to_gas db_weight_write"

definition db_read_gas_cost :: "u64 \<Rightarrow> u64" where
  "db_read_gas_cost db_weight_read = weight_to_gas db_weight_read"

record evm_log =
  log_address :: h160
  log_topics :: "u256 list"
  log_data :: bytes

definition log0 :: "h160 \<Rightarrow> bytes \<Rightarrow> evm_log" where
  "log0 a data = \<lparr>log_address = a, log_topics = [], log_data = data\<rparr>"

definition log1 :: "h160 \<Rightarrow> u256 \<Rightarrow> bytes \<Rightarrow> evm_log" where
  "log1 a topic0 data = \<lparr>log_address = a, log_topics = [topic0], log_data = data\<rparr>"

definition log2 :: "h160 \<Rightarrow> u256 \<Rightarrow> u256 \<Rightarrow> bytes \<Rightarrow> evm_log" where
  "log2 a topic0 topic1 data = \<lparr>log_address = a, log_topics = [topic0, topic1], log_data = data\<rparr>"

definition log3 :: "h160 \<Rightarrow> u256 \<Rightarrow> u256 \<Rightarrow> u256 \<Rightarrow> bytes \<Rightarrow> evm_log" where
  "log3 a topic0 topic1 topic2 data = \<lparr>log_address = a, log_topics = [topic0, topic1, topic2], log_data = data\<rparr>"

definition log4 :: "h160 \<Rightarrow> u256 \<Rightarrow> u256 \<Rightarrow> u256 \<Rightarrow> u256 \<Rightarrow> bytes \<Rightarrow> evm_log" where
  "log4 a topic0 topic1 topic2 topic3 data =
     \<lparr>log_address = a, log_topics = [topic0, topic1, topic2, topic3], log_data = data\<rparr>"

text \<open>\<open>topics.len()\<close> and \<open>data.len()\<close> are \<open>usize\<close>.\<close>

definition compute_cost :: "evm_log \<Rightarrow> u64 evm_result" where
  "compute_cost l = log_costs (of_nat (length (log_topics l))) (of_nat (length (log_data l)))"

definition record_log_costs :: "evm_log list \<Rightarrow> precompile_handle \<Rightarrow> precompile_handle evm_result" where
  "record_log_costs logs h =
     for_each (\<lambda>l. record_log_costs_manual (of_nat (length (log_topics l))) (of_nat (length (log_data l)))) logs h"

section \<open>The parts of a set\<close>

text \<open>
  A precompile, and the code of a contract, seen from the set: it makes subcalls one after the other,
  each depending on the results so far, and ends with a result.
\<close>

datatype script = Done "bytes evm_result" | SubCall precompile_handle "bytes evm_result \<Rightarrow> script"

type_synonym u16 = "16 word"

datatype recursion = UnlimitedRecursion | LimitRecursionTo u16

fun recursion_limit :: "recursion \<Rightarrow> u16 option" where
  "recursion_limit UnlimitedRecursion = None"
| "recursion_limit (LimitRecursionTo n) = Some n"

definition ForbidRecursion :: recursion where
  "ForbidRecursion = LimitRecursionTo 0"

datatype delegate_call = ForbidDelegateCall | AllowDelegateCall

definition allow_delegate_call :: "delegate_call \<Rightarrow> bool" where
  "allow_delegate_call d \<longleftrightarrow> d = AllowDelegateCall"

definition AddressU64 :: "u64 \<Rightarrow> h160" where
  "AddressU64 n = ucast n"

text \<open>A set from elsewhere that a fragment wraps.\<close>

record inner_set =
  in_is_precompile :: "h160 \<Rightarrow> bool"
  in_execute :: "precompile_handle \<Rightarrow> script option"

text \<open>The parameters of the types are arguments of the constructors.\<close>

datatype fragment =
    PrecompileAt h160 "precompile_handle \<Rightarrow> script" recursion delegate_call
  | StatefulPrecompileAt h160 "precompile_handle \<Rightarrow> script" recursion delegate_call
  | PrecompileSetStartingWith bytes inner_set recursion delegate_call
  | RevertPrecompile h160
  | FragmentTuple "fragment list"
  | PrecompilesInRangeInclusive h160 h160 fragment

section \<open>The counters\<close>

text \<open>
  A fragment is found by its path from the root. \<open>ss_level\<close> holds the \<open>RefCell<u16>\<close> of the first two
  kinds, \<open>ss_levels\<close> the \<open>RefCell<BTreeMap<H160, u16>>\<close> of the third; \<open>ss_borrowed\<close> says which cells
  are borrowed. \<open>ss_trace\<close> is for the specification only: it notes when a precompile starts and ends.
  Its counter is the \<open>cell\<close>: the path, and the address where a map is counted in.
\<close>

type_synonym cell = "nat list \<times> h160 option"

datatype trace_event = Enter cell precompile_handle | Leave cell

record set_state =
  ss_level :: "nat list \<Rightarrow> u16"
  ss_levels :: "nat list \<Rightarrow> h160 \<rightharpoonup> u16"
  ss_borrowed :: "nat list \<Rightarrow> bool"
  ss_trace :: "trace_event list"

definition set_new :: set_state where
  "set_new = \<lparr>ss_level = (\<lambda>_. 0), ss_levels = (\<lambda>_. Map.empty), ss_borrowed = (\<lambda>_. False), ss_trace = []\<rparr>"

definition noted :: "trace_event \<Rightarrow> set_state \<Rightarrow> set_state" where
  "noted e st = st\<lparr>ss_trace := ss_trace st @ [e]\<rparr>"

definition level_enter :: "nat list \<Rightarrow> u16 \<Rightarrow> set_state \<Rightarrow> unit evm_result \<times> set_state" where
  "level_enter p max_level st =
     (if ss_level st p > max_level then (Inl (Revert ''precompile is called with too high nesting''), st)
      else (Inr (), st\<lparr>ss_level := (ss_level st)(p := ss_level st p + 1)\<rparr>))"

definition level_leave :: "nat list \<Rightarrow> set_state \<Rightarrow> unit evm_result \<times> set_state" where
  "level_leave p st = (Inr (), st\<lparr>ss_level := (ss_level st)(p := ss_level st p - 1)\<rparr>)"

definition levels_enter :: "nat list \<Rightarrow> h160 \<Rightarrow> u16 \<Rightarrow> set_state \<Rightarrow> unit evm_result \<times> set_state" where
  "levels_enter p a max_level st =
     (let l = (case ss_levels st p a of None \<Rightarrow> 0 | Some l \<Rightarrow> l);
          st = st\<lparr>ss_levels := (ss_levels st)(p := (ss_levels st p)(a \<mapsto> l))\<rparr> in
      if l > max_level then (Inl (Revert ''precompile is called with too high nesting''), st)
      else (Inr (), st\<lparr>ss_levels := (ss_levels st)(p := (ss_levels st p)(a \<mapsto> l + 1))\<rparr>))"

definition levels_leave :: "nat list \<Rightarrow> h160 \<Rightarrow> set_state \<Rightarrow> unit evm_result \<times> set_state" where
  "levels_leave p a st =
     (case ss_levels st p a of
        None \<Rightarrow> (Inl (Revert ''couldn't retreive precompile nesting''), st)
      | Some l \<Rightarrow> (Inr (), st\<lparr>ss_levels := (ss_levels st)(p := (ss_levels st p)(a \<mapsto> l - 1))\<rparr>))"

text \<open>
  \<open>try_borrow_mut\<close> and the use of the cell, which is given back at the end of the match arm, before
  anything else runs.
\<close>

definition try_borrow_mut ::
  "nat list \<Rightarrow> (set_state \<Rightarrow> unit evm_result \<times> set_state) \<Rightarrow> set_state \<Rightarrow> unit evm_result \<times> set_state" where
  "try_borrow_mut p f st =
     (if ss_borrowed st p then (Inl (Revert ''couldn't check precompile nesting''), st)
      else let (r, st) = f (st\<lparr>ss_borrowed := (ss_borrowed st)(p := True)\<rparr>) in
        (r, st\<lparr>ss_borrowed := (ss_borrowed st)(p := False)\<rparr>))"

text \<open>What the three kinds have around the call of the precompile.\<close>

definition guarded ::
  "nat list \<Rightarrow> recursion \<Rightarrow> (u16 \<Rightarrow> set_state \<Rightarrow> unit evm_result \<times> set_state)
     \<Rightarrow> (set_state \<Rightarrow> unit evm_result \<times> set_state)
     \<Rightarrow> (set_state \<Rightarrow> bytes evm_result option \<times> set_state) \<Rightarrow> set_state \<Rightarrow> bytes evm_result option \<times> set_state" where
  "guarded p R enter leave run st =
     (case recursion_limit R of
        None \<Rightarrow> run st
      | Some max_level \<Rightarrow>
          (case try_borrow_mut p (enter max_level) st of
             (Inl e, st) \<Rightarrow> (Some (Inl e), st)
           | (Inr _, st) \<Rightarrow>
               let (res, st) = run st in
               (case try_borrow_mut p leave st of
                  (Inl e, st) \<Rightarrow> (Some (Inl e), st)
                | (Inr _, st) \<Rightarrow> (res, st))))"

section \<open>Execution\<close>

text \<open>A script runs with \<open>sub\<close> for its subcalls; the start and the end of a precompile are noted.\<close>

primrec run_script ::
  "(precompile_handle \<Rightarrow> set_state \<Rightarrow> bytes evm_result \<times> set_state) \<Rightarrow> script \<Rightarrow> set_state
     \<Rightarrow> bytes evm_result \<times> set_state" where
  "run_script sub (Done r) = (\<lambda>st. (r, st))"
| "run_script sub (SubCall h k) = (\<lambda>st. let (r, st) = sub h st in run_script sub (k r) st)"

definition run_noted ::
  "(precompile_handle \<Rightarrow> set_state \<Rightarrow> bytes evm_result \<times> set_state) \<Rightarrow> cell \<Rightarrow> precompile_handle \<Rightarrow> script option
     \<Rightarrow> set_state \<Rightarrow> bytes evm_result option \<times> set_state" where
  "run_noted sub c h body st =
     (case body of
        None \<Rightarrow> (None, st)
      | Some script \<Rightarrow>
          let (r, st) = run_script sub script (noted (Enter c h) st) in (Some r, noted (Leave c) st))"

definition delegated :: "delegate_call \<Rightarrow> precompile_handle \<Rightarrow> bool" where
  "delegated D h \<longleftrightarrow> \<not> allow_delegate_call D \<and> ph_code_address h \<noteq> ph_address h"

definition no_delegate :: "bytes evm_result option" where
  "no_delegate = Some (Inl (Revert ''cannot be called with DELEGATECALL or CALLCODE''))"

definition starting_with_is_precompile :: "bytes \<Rightarrow> inner_set \<Rightarrow> h160 \<Rightarrow> bool" where
  "starting_with_is_precompile pre P a \<longleftrightarrow> take (length pre) (address_bytes a) = pre \<and> in_is_precompile P a"

definition precompile_at_execute ::
  "(precompile_handle \<Rightarrow> set_state \<Rightarrow> bytes evm_result \<times> set_state) \<Rightarrow> nat list \<Rightarrow> h160 \<Rightarrow> (precompile_handle \<Rightarrow> script) \<Rightarrow> recursion \<Rightarrow> delegate_call
     \<Rightarrow> precompile_handle \<Rightarrow> set_state \<Rightarrow> bytes evm_result option \<times> set_state" where
  "precompile_at_execute sub p A P R D h st =
     (if A \<noteq> ph_code_address h then (None, st)
      else if delegated D h then (no_delegate, st)
      else guarded p R (level_enter p) (level_leave p) (run_noted sub (p, None) h (Some (P h))) st)"

text \<open>The same code again, for a precompile that is a value (\<open>self.precompile\<close>) instead of a type.\<close>

definition stateful_precompile_at_execute ::
  "(precompile_handle \<Rightarrow> set_state \<Rightarrow> bytes evm_result \<times> set_state) \<Rightarrow> nat list \<Rightarrow> h160 \<Rightarrow> (precompile_handle \<Rightarrow> script) \<Rightarrow> recursion \<Rightarrow> delegate_call
     \<Rightarrow> precompile_handle \<Rightarrow> set_state \<Rightarrow> bytes evm_result option \<times> set_state" where
  "stateful_precompile_at_execute sub p A P R D h st =
     (if A \<noteq> ph_code_address h then (None, st)
      else if delegated D h then (no_delegate, st)
      else guarded p R (level_enter p) (level_leave p) (run_noted sub (p, None) h (Some (P h))) st)"

definition starting_with_execute ::
  "(precompile_handle \<Rightarrow> set_state \<Rightarrow> bytes evm_result \<times> set_state) \<Rightarrow> nat list \<Rightarrow> bytes \<Rightarrow> inner_set \<Rightarrow> recursion \<Rightarrow> delegate_call
     \<Rightarrow> precompile_handle \<Rightarrow> set_state \<Rightarrow> bytes evm_result option \<times> set_state" where
  "starting_with_execute sub p pre P R D h st =
     (let a = ph_code_address h in
      if \<not> starting_with_is_precompile pre P a then (None, st)
      else if delegated D h then (no_delegate, st)
      else guarded p R (levels_enter p a) (levels_leave p a) (run_noted sub (p, Some a) h (in_execute P h)) st)"

definition revert_precompile_execute ::
  "h160 \<Rightarrow> precompile_handle \<Rightarrow> set_state \<Rightarrow> bytes evm_result option \<times> set_state" where
  "revert_precompile_execute A h st =
     (if A = ph_code_address h then (Some (Inl (Revert ''revert'')), st) else (None, st))"

fun frag_execute ::
  "(precompile_handle \<Rightarrow> set_state \<Rightarrow> bytes evm_result \<times> set_state) \<Rightarrow> nat list \<Rightarrow> fragment
     \<Rightarrow> precompile_handle \<Rightarrow> set_state \<Rightarrow> bytes evm_result option \<times> set_state"
  and frags_execute ::
  "(precompile_handle \<Rightarrow> set_state \<Rightarrow> bytes evm_result \<times> set_state) \<Rightarrow> nat list \<Rightarrow> nat \<Rightarrow> fragment list
     \<Rightarrow> precompile_handle \<Rightarrow> set_state \<Rightarrow> bytes evm_result option \<times> set_state" where
  "frag_execute sub p (PrecompileAt A P R D) h st = precompile_at_execute sub p A P R D h st"
| "frag_execute sub p (StatefulPrecompileAt A P R D) h st = stateful_precompile_at_execute sub p A P R D h st"
| "frag_execute sub p (PrecompileSetStartingWith pre P R D) h st = starting_with_execute sub p pre P R D h st"
| "frag_execute sub p (RevertPrecompile A) h st = revert_precompile_execute A h st"
| "frag_execute sub p (FragmentTuple fs) h st = frags_execute sub p 0 fs h st"
| "frag_execute sub p (PrecompilesInRangeInclusive lo hi f) h st =
     (if lo \<le> ph_code_address h \<and> ph_code_address h \<le> hi then frag_execute sub (p @ [0]) f h st else (None, st))"
| "frags_execute sub p i [] h st = (None, st)"
| "frags_execute sub p i (f # fs) h st =
     (case frag_execute sub (p @ [i]) f h st of
        (Some res, st) \<Rightarrow> (Some res, st)
      | (None, st) \<Rightarrow> frags_execute sub p (Suc i) fs h st)"

fun frag_is_precompile :: "fragment \<Rightarrow> h160 \<Rightarrow> bool" where
  "frag_is_precompile (PrecompileAt A P R D) a \<longleftrightarrow> a = A"
| "frag_is_precompile (StatefulPrecompileAt A P R D) a \<longleftrightarrow> a = A"
| "frag_is_precompile (PrecompileSetStartingWith pre P R D) a \<longleftrightarrow> starting_with_is_precompile pre P a"
| "frag_is_precompile (RevertPrecompile A) a \<longleftrightarrow> a = A"
| "frag_is_precompile (FragmentTuple fs) a \<longleftrightarrow> (\<exists>f\<in>set fs. frag_is_precompile f a)"
| "frag_is_precompile (PrecompilesInRangeInclusive lo hi f) a \<longleftrightarrow>
     (if lo \<le> a \<and> a \<le> hi then frag_is_precompile f a else False)"

fun frag_used_addresses :: "fragment \<Rightarrow> h160 list" where
  "frag_used_addresses (PrecompileAt A P R D) = [A]"
| "frag_used_addresses (StatefulPrecompileAt A P R D) = [A]"
| "frag_used_addresses (PrecompileSetStartingWith pre P R D) = []"
| "frag_used_addresses (RevertPrecompile A) = [A]"
| "frag_used_addresses (FragmentTuple fs) = concat (map frag_used_addresses fs)"
| "frag_used_addresses (PrecompilesInRangeInclusive lo hi f) = frag_used_addresses f"

text \<open>\<open>PrecompileSetBuilder\<close>.\<close>

definition psb_execute ::
  "(precompile_handle \<Rightarrow> set_state \<Rightarrow> bytes evm_result \<times> set_state) \<Rightarrow> fragment
     \<Rightarrow> precompile_handle \<Rightarrow> set_state \<Rightarrow> bytes evm_result option \<times> set_state" where
  "psb_execute sub inner = frag_execute sub [] inner"

definition psb_is_precompile :: "fragment \<Rightarrow> h160 \<Rightarrow> bool" where
  "psb_is_precompile inner = frag_is_precompile inner"

definition psb_used_addresses :: "precompile_env \<Rightarrow> fragment \<Rightarrow> account list" where
  "psb_used_addresses E inner = map (pe_into_account_id E) (frag_used_addresses inner)"

text \<open>
  The EVM around the set: a call goes to the set, and to the code of the contract when the set does not
  serve the address. Calls nest up to a depth \<open>d\<close> (1024 in Ethereum); the code of contracts is
  arbitrary.
\<close>

primrec evm_call ::
  "fragment \<Rightarrow> (precompile_handle \<Rightarrow> script) \<Rightarrow> nat \<Rightarrow> precompile_handle \<Rightarrow> set_state
     \<Rightarrow> bytes evm_result \<times> set_state" where
  "evm_call root code 0 = (\<lambda>h st. (Inl OutOfGas, st))"
| "evm_call root code (Suc d) = (\<lambda>h st.
     (case psb_execute (evm_call root code d) root h st of
        (Some r, st) \<Rightarrow> (r, st)
      | (None, st) \<Rightarrow> run_script (evm_call root code d) (code h) st))"

lemmas leaf_execute_defs =
  precompile_at_execute_def stateful_precompile_at_execute_def starting_with_execute_def revert_precompile_execute_def

section \<open>Specification\<close>

text \<open>How often a counter's precompile is active after a trace.\<close>

definition active :: "cell \<Rightarrow> trace_event list \<Rightarrow> int" where
  "active c tr = (\<Sum>e\<leftarrow>tr. case e of Enter c' _ \<Rightarrow> if c' = c then 1 else 0 | Leave c' \<Rightarrow> if c' = c then -1 else 0)"

text \<open>The fragment at a path, its limit, and whether it refuses \<open>DELEGATECALL\<close>.\<close>

fun frag_at :: "fragment \<Rightarrow> nat list \<Rightarrow> fragment option" where
  "frag_at f [] = Some f"
| "frag_at (FragmentTuple fs) (i # p) = (if i < length fs then frag_at (fs ! i) p else None)"
| "frag_at (PrecompilesInRangeInclusive lo hi f) (i # p) = (if i = 0 then frag_at f p else None)"
| "frag_at _ (i # p) = None"

fun frag_config :: "fragment \<Rightarrow> (recursion \<times> delegate_call) option" where
  "frag_config (PrecompileAt A P R D) = Some (R, D)"
| "frag_config (StatefulPrecompileAt A P R D) = Some (R, D)"
| "frag_config (PrecompileSetStartingWith pre P R D) = Some (R, D)"
| "frag_config _ = None"

definition config_at :: "fragment \<Rightarrow> nat list \<Rightarrow> (recursion \<times> delegate_call) option" where
  "config_at root p = Option.bind (frag_at root p) frag_config"

definition limit_at :: "fragment \<Rightarrow> nat list \<Rightarrow> nat option" where
  "limit_at root p = Option.bind (config_at root p) (\<lambda>(R, D). map_option unat (recursion_limit R))"

text \<open>The value of a counter.\<close>

definition level_of :: "set_state \<Rightarrow> cell \<Rightarrow> nat" where
  "level_of st c =
     (case snd c of
        None \<Rightarrow> unat (ss_level st (fst c))
      | Some a \<Rightarrow> (case ss_levels st (fst c) a of None \<Rightarrow> 0 | Some l \<Rightarrow> unat l))"

text \<open>
  The invariant of an execution: no cell stays borrowed; a counter with a limit counts the active
  precompiles, which were never more than the limit allows; and no precompile that refuses
  \<open>DELEGATECALL\<close> was started by one. A limit of 65535 is left out: there the counter can wrap.
\<close>

definition guards_ok :: "fragment \<Rightarrow> set_state \<Rightarrow> bool" where
  "guards_ok root st \<longleftrightarrow>
     (\<forall>p. \<not> ss_borrowed st p) \<and>
     (\<forall>c N. limit_at root (fst c) = Some N \<and> N < 65535 \<longrightarrow>
        int (level_of st c) = active c (ss_trace st) \<and> (\<forall>n. active c (take n (ss_trace st)) \<le> int N + 1)) \<and>
     (\<forall>c h. Enter c h \<in> set (ss_trace st) \<longrightarrow> (\<exists>R D. config_at root (fst c) = Some (R, D) \<and> \<not> delegated D h))"

text \<open>A step that keeps the invariant and leaves as many precompiles active as there were.\<close>

definition keeps :: "fragment \<Rightarrow> (set_state \<Rightarrow> 'r \<times> set_state) \<Rightarrow> bool" where
  "keeps root f \<longleftrightarrow>
     (\<forall>st r st'. f st = (r, st') \<longrightarrow> guards_ok root st \<longrightarrow>
        guards_ok root st' \<and> (\<forall>c. active c (ss_trace st') = active c (ss_trace st)))"

section \<open>Entering and leaving\<close>

lemma active_simps [simp]:
  "active c [] = 0"
  "active c (tr @ [Enter c' h]) = active c tr + (if c' = c then 1 else 0)"
  "active c (tr @ [Leave c']) = active c tr - (if c' = c then 1 else 0)"
  by (simp_all add: active_def)

lemma noted_simps [simp]:
  "ss_trace (noted e st) = ss_trace st @ [e]"
  "ss_borrowed (noted e st) = ss_borrowed st"
  "level_of (noted e st) c = level_of st c"
  by (simp_all add: noted_def level_of_def split: option.splits)

lemma level_of_borrow [simp]: "level_of (st\<lparr>ss_borrowed := b\<rparr>) c = level_of st c"
  by (simp add: level_of_def split: option.splits)

lemma guards_okD:
  assumes "guards_ok root st"
  shows "\<not> ss_borrowed st p"
    and "limit_at root (fst c) = Some N \<Longrightarrow> N < 65535 \<Longrightarrow> int (level_of st c) = active c (ss_trace st)"
    and "limit_at root (fst c) = Some N \<Longrightarrow> N < 65535 \<Longrightarrow> active c (take n (ss_trace st)) \<le> int N + 1"
    and "Enter c h \<in> set (ss_trace st) \<Longrightarrow> \<exists>R D. config_at root (fst c) = Some (R, D) \<and> \<not> delegated D h"
  using assms unfolding guards_ok_def by blast+

text \<open>One more event, with the counters as they should be after it.\<close>

lemma guards_step:
  assumes "guards_ok root st" and "ss_trace st' = ss_trace st @ [e]" and "\<And>p. \<not> ss_borrowed st' p"
    and "\<And>c N. limit_at root (fst c) = Some N \<Longrightarrow> N < 65535 \<Longrightarrow>
      int (level_of st' c) = active c (ss_trace st') \<and> active c (ss_trace st') \<le> int N + 1"
    and "\<And>c h. e = Enter c h \<Longrightarrow> \<exists>R D. config_at root (fst c) = Some (R, D) \<and> \<not> delegated D h"
  shows "guards_ok root st'"
proof -
  have "active c (take n (ss_trace st')) \<le> int N + 1"
    if "limit_at root (fst c) = Some N" "N < 65535" for c :: cell and N n
    using guards_okD(3) [OF assms(1) that, of n] assms(4) [OF that] assms(2)
    by (cases "n \<le> length (ss_trace st)") auto
  with assms(3, 4) guards_okD(4) [OF assms(1)] assms(2, 5) show ?thesis
    by (auto simp: guards_ok_def split_paired_all simp del: split_paired_All)
qed

lemma guards_same:
  assumes "guards_ok root st" and "ss_trace st' = ss_trace st" and "\<And>p. \<not> ss_borrowed st' p"
    and "\<And>c N. limit_at root (fst c) = Some N \<Longrightarrow> N < 65535 \<Longrightarrow> level_of st' c = level_of st c"
  shows "guards_ok root st'"
  using assms by (auto simp: guards_ok_def simp del: split_paired_All)

lemma guards_enter:
  assumes "guards_ok root st" and "ss_trace st1 = ss_trace st" and "\<And>p. \<not> ss_borrowed st1 p"
    and "\<And>c'. c' \<noteq> c \<Longrightarrow> level_of st1 c' = level_of st c'"
    and "\<And>N. limit_at root (fst c) = Some N \<Longrightarrow> N < 65535 \<Longrightarrow>
      level_of st1 c = Suc (level_of st c) \<and> level_of st c \<le> N"
    and "config_at root (fst c) = Some (R, D)" and "\<not> delegated D h"
  shows "guards_ok root (noted (Enter c h) st1)"
proof (rule guards_step [OF assms(1), of _ "Enter c h"])
  fix c' :: cell and N assume *: "limit_at root (fst c') = Some N" "N < 65535"
  from guards_okD(2) [OF assms(1) *] guards_okD(3) [OF assms(1) *, of "length (ss_trace st)"] assms(4, 5) *
  show "int (level_of (noted (Enter c h) st1) c') = active c' (ss_trace (noted (Enter c h) st1)) \<and>
      active c' (ss_trace (noted (Enter c h) st1)) \<le> int N + 1"
    by (cases "c' = c") (auto simp: assms(2))
qed (use assms in auto)

lemma guards_leave:
  assumes "guards_ok root st" and "ss_trace st1 = ss_trace st @ [Leave c]" and "\<And>p. \<not> ss_borrowed st1 p"
    and "\<And>c'. c' \<noteq> c \<Longrightarrow> level_of st1 c' = level_of st c'"
    and "\<And>N. limit_at root (fst c) = Some N \<Longrightarrow> N < 65535 \<Longrightarrow> level_of st c = Suc (level_of st1 c)"
  shows "guards_ok root st1"
proof (rule guards_step [OF assms(1, 2, 3)])
  fix c' :: cell and N assume *: "limit_at root (fst c') = Some N" "N < 65535"
  from guards_okD(2) [OF assms(1) *] guards_okD(3) [OF assms(1) *, of "length (ss_trace st)"] assms(4, 5) *
  show "int (level_of st1 c') = active c' (ss_trace st1) \<and> active c' (ss_trace st1) \<le> int N + 1"
    by (cases "c' = c") (auto simp: assms(2))
qed simp

section \<open>The contract of a counter\<close>

text \<open>
  Both kinds of counters promise the same: entering is refused above the limit and else counts up,
  leaving counts down, and neither touches another counter, a borrow flag or the trace.
\<close>

definition counter_frame :: "cell \<Rightarrow> set_state \<Rightarrow> set_state \<Rightarrow> bool" where
  "counter_frame c st st' \<longleftrightarrow>
     ss_trace st' = ss_trace st \<and> ss_borrowed st' = ss_borrowed st \<and> (\<forall>c'. c' \<noteq> c \<longrightarrow> level_of st' c' = level_of st c')"

locale recursion_counter =
  fixes enter :: "u16 \<Rightarrow> set_state \<Rightarrow> unit evm_result \<times> set_state"
    and leave :: "set_state \<Rightarrow> unit evm_result \<times> set_state"
    and c :: cell
  assumes enter_frame: "enter m st = (r, st') \<Longrightarrow> counter_frame c st st'"
    and enter_refused: "enter m st = (Inl e, st') \<Longrightarrow> level_of st' c = level_of st c"
    and enter_counts: "enter m st = (Inr u, st') \<Longrightarrow> unat m < 65535 \<Longrightarrow>
      level_of st c \<le> unat m \<and> level_of st' c = Suc (level_of st c)"
    and leave_frame: "leave st = (r, st') \<Longrightarrow> counter_frame c st st'"
    and leave_counts: "leave st = (r, st') \<Longrightarrow> 0 < level_of st c \<Longrightarrow> level_of st c = Suc (level_of st' c)"
begin

lemma borrow_enter:
  assumes "try_borrow_mut p (enter m) st = (r, st')" and "\<And>p. \<not> ss_borrowed st p"
  shows "counter_frame c st st'" and "\<And>p. \<not> ss_borrowed st' p"
    and "r = Inl e \<Longrightarrow> level_of st' c = level_of st c"
    and "r = Inr u \<Longrightarrow> unat m < 65535 \<Longrightarrow> level_of st c \<le> unat m \<and> level_of st' c = Suc (level_of st c)"
proof -
  from assms obtain st1 where st1: "enter m (st\<lparr>ss_borrowed := (ss_borrowed st)(p := True)\<rparr>) = (r, st1)"
    and st': "st' = st1\<lparr>ss_borrowed := (ss_borrowed st1)(p := False)\<rparr>"
    by (auto simp: try_borrow_mut_def Let_def split: prod.splits)
  show "counter_frame c st st'" "\<And>p. \<not> ss_borrowed st' p"
    using enter_frame [OF st1] assms(2) by (auto simp: counter_frame_def st' fun_eq_iff simp del: split_paired_All)
  show "r = Inl e \<Longrightarrow> level_of st' c = level_of st c"
    using enter_refused st1 by (fastforce simp: st')
  show "r = Inr u \<Longrightarrow> unat m < 65535 \<Longrightarrow> level_of st c \<le> unat m \<and> level_of st' c = Suc (level_of st c)"
    using enter_counts st1 by (fastforce simp: st')
qed

lemma borrow_leave:
  assumes "try_borrow_mut p leave st = (r, st')" and "\<And>p. \<not> ss_borrowed st p"
  shows "counter_frame c st st'" and "\<And>p. \<not> ss_borrowed st' p"
    and "0 < level_of st c \<Longrightarrow> level_of st c = Suc (level_of st' c)"
proof -
  from assms obtain st1 where st1: "leave (st\<lparr>ss_borrowed := (ss_borrowed st)(p := True)\<rparr>) = (r, st1)"
    and st': "st' = st1\<lparr>ss_borrowed := (ss_borrowed st1)(p := False)\<rparr>"
    by (auto simp: try_borrow_mut_def Let_def split: prod.splits)
  show "counter_frame c st st'" "\<And>p. \<not> ss_borrowed st' p"
    using leave_frame [OF st1] assms(2) by (auto simp: counter_frame_def st' fun_eq_iff simp del: split_paired_All)
  show "0 < level_of st c \<Longrightarrow> level_of st c = Suc (level_of st' c)"
    using leave_counts [OF st1] by (simp add: st')
qed

end

text \<open>Counting in 16 bits.\<close>

lemma u16_count:
  fixes l m :: u16
  shows "unat m < 65535 \<Longrightarrow> \<not> m < l \<Longrightarrow> unat (l + 1) = Suc (unat l)"
    and "0 < unat l \<Longrightarrow> unat l = Suc (unat (l - 1))"
    and "\<not> m < l \<Longrightarrow> unat l \<le> unat m"
proof -
  show "unat m < 65535 \<Longrightarrow> \<not> m < l \<Longrightarrow> unat (l + 1) = Suc (unat l)"
    using unat_add_small [of l 1] by (simp add: word_less_nat_alt)
  show "0 < unat l \<Longrightarrow> unat l = Suc (unat (l - 1))"
    using unat_diff_le [of 1 l] by (simp add: word_le_nat_alt)
qed (simp add: word_less_nat_alt)

interpretation cell_counter: recursion_counter "level_enter p" "level_leave p" "(p, None)" for p
  by unfold_locales
    (auto simp: level_enter_def level_leave_def counter_frame_def level_of_def u16_count(1, 3)
        split: if_splits option.splits intro: u16_count(2))

interpretation map_counter: recursion_counter "levels_enter p a" "levels_leave p a" "(p, Some a)" for p a
  by unfold_locales
    (auto simp: levels_enter_def levels_leave_def counter_frame_def level_of_def Let_def u16_count(1, 3)
        split: if_splits option.splits intro: u16_count(2))

section \<open>Executions keep the guards\<close>

lemma keepsD:
  assumes "keeps root f" and "f st = (r, st')" and "guards_ok root st"
  shows "guards_ok root st'" and "active c (ss_trace st') = active c (ss_trace st)"
  using assms by (auto simp: keeps_def simp del: split_paired_All)

lemma keeps_return: "keeps root (\<lambda>st. (r, st))"
  by (simp add: keeps_def)

lemma keeps_run_script: "(\<And>h. keeps root (sub h)) \<Longrightarrow> keeps root (run_script sub s)"
proof (induction s)
  case (Done r)
  show ?case by (simp add: keeps_return)
next
  case (SubCall h k)
  then have IH: "keeps root (run_script sub (k r))" for r by blast
  show ?case
    using keepsD [OF SubCall.prems [of h]] keepsD [OF IH]
    by (auto simp: keeps_def Let_def split: prod.splits simp del: split_paired_All)
qed

lemma run_notedE:
  assumes "run_noted sub c h (Some s) st = (r, st')" and "guards_ok root (noted (Enter c h) st)"
    and "\<And>h. keeps root (sub h)"
  obtains st1 where "guards_ok root st1" and "st' = noted (Leave c) st1"
    and "\<And>c'. active c' (ss_trace st1) = active c' (ss_trace st) + (if c = c' then 1 else 0)"
proof -
  from assms(1) obtain r1 st1 where 1: "run_script sub s (noted (Enter c h) st) = (r1, st1)"
    and "st' = noted (Leave c) st1"
    by (auto simp: run_noted_def split: prod.splits)
  with that [of st1] keepsD [OF keeps_run_script [OF assms(3)] 1 assms(2)] show thesis by simp
qed

lemma keeps_unlimited:
  assumes "config_at root (fst c) = Some (R, D)" and "recursion_limit R = None" and "\<not> delegated D h"
    and "\<And>h. keeps root (sub h)"
  shows "keeps root (run_noted sub c h body)"
  unfolding keeps_def
proof (intro allI impI)
  fix st r st' assume run: "run_noted sub c h body st = (r, st')" and ok: "guards_ok root st"
  have none: "limit_at root (fst c) = None" using assms(1, 2) by (simp add: limit_at_def)
  show "guards_ok root st' \<and> (\<forall>c'. active c' (ss_trace st') = active c' (ss_trace st))"
  proof (cases body)
    case None
    with run ok show ?thesis by (simp add: run_noted_def)
  next
    case (Some s)
    have "guards_ok root (noted (Enter c h) st)"
      by (rule guards_enter [OF ok refl _ _ _ assms(1, 3)]) (use guards_okD(1) [OF ok] none in auto)
    then obtain st1 where 1: "guards_ok root st1" "st' = noted (Leave c) st1"
      "\<And>c'. active c' (ss_trace st1) = active c' (ss_trace st) + (if c = c' then 1 else 0)"
      by (rule run_notedE [OF run [unfolded Some] _ assms(4)]) blast
    have "guards_ok root st'"
      by (rule guards_leave [OF 1(1), of _ c]) (use guards_okD(1) [OF 1(1)] none 1(2) in auto)
    with 1(2, 3) show ?thesis by simp
  qed
qed

context recursion_counter
begin

text \<open>One run under a limit, after the counter was taken: a contract that is not there, and one that runs.\<close>

lemma keeps_absent:
  assumes ok: "guards_ok root st" and tr1: "ss_trace st1 = ss_trace st"
    and nb: "\<And>p. \<not> ss_borrowed st1 p"
    and oth: "\<And>c'. c' \<noteq> c \<Longrightarrow> level_of st1 c' = level_of st c'"
    and N: "\<And>N. limit_at root (fst c) = Some N \<longleftrightarrow> N = unat m"
    and up: "unat m < 65535 \<Longrightarrow> level_of st1 c = Suc (level_of st c)"
    and left: "try_borrow_mut (fst c) leave st1 = (z, st3)"
  shows "guards_ok root st3 \<and> (\<forall>c'. active c' (ss_trace st3) = active c' (ss_trace st))"
proof -
  note l = borrow_leave [OF left nb]
  have "level_of st3 c' = level_of st c'" if "limit_at root (fst c') = Some n" "n < 65535" for c' n
    using l(1, 3) up oth that N by (cases "c' = c") (auto simp: counter_frame_def simp del: split_paired_All)
  moreover have "ss_trace st3 = ss_trace st" using l(1) tr1 by (simp add: counter_frame_def)
  ultimately show ?thesis using guards_same [OF ok _ l(2)] by simp
qed

lemma keeps_present:
  assumes ok: "guards_ok root st" and entered: "guards_ok root (noted (Enter c h) st1)" and tr1: "ss_trace st1 = ss_trace st"
    and ran: "run_noted sub c h (Some s) st1 = (y, st2)" and sub: "\<And>h. keeps root (sub h)"
    and left: "try_borrow_mut (fst c) leave st2 = (z, st3)"
  shows "guards_ok root st3 \<and> (\<forall>c'. active c' (ss_trace st3) = active c' (ss_trace st))"
proof -
  from entered obtain st4 where 4: "guards_ok root st4" "st2 = noted (Leave c) st4"
    "\<And>c'. active c' (ss_trace st4) = active c' (ss_trace st) + (if c = c' then 1 else 0)"
    using run_notedE [OF ran _ sub] tr1 by metis
  have nb: "\<not> ss_borrowed st2 p" for p using guards_okD(1) [OF 4(1)] 4(2) by simp
  note l = borrow_leave [OF left nb]
  have tr3: "ss_trace st3 = ss_trace st4 @ [Leave c]" using l(1) 4(2) by (simp add: counter_frame_def)
  have "level_of st4 c = Suc (level_of st3 c)" if "limit_at root (fst c) = Some n" "n < 65535" for n
    using guards_okD(2) [OF 4(1) that] guards_okD(2) [OF ok that] 4(2, 3) l(3) by simp
  with l(1) 4(2) have "guards_ok root st3"
    by (intro guards_leave [OF 4(1) tr3 l(2)]) (auto simp: counter_frame_def simp del: split_paired_All)
  with 4(3) tr3 show ?thesis by simp
qed

lemma keeps_limited:
  assumes cfg: "config_at root (fst c) = Some (R, D)" and lim: "recursion_limit R = Some m"
    and D: "\<not> delegated D h" and sub: "\<And>h. keeps root (sub h)"
  shows "keeps root (guarded (fst c) R enter leave (run_noted sub c h body))"
  unfolding keeps_def
proof (intro allI impI)
  fix st r st'
  assume run: "guarded (fst c) R enter leave (run_noted sub c h body) st = (r, st')" and ok: "guards_ok root st"
  let ?goal = "guards_ok root st' \<and> (\<forall>c'. active c' (ss_trace st') = active c' (ss_trace st))"
  have N: "limit_at root (fst c) = Some N \<longleftrightarrow> N = unat m" for N using cfg lim by (auto simp: limit_at_def)
  obtain x st1 where enter: "try_borrow_mut (fst c) (enter m) st = (x, st1)" by fastforce
  note e = borrow_enter [OF enter guards_okD(1) [OF ok]]
  then have tr1: "ss_trace st1 = ss_trace st" and oth1: "\<And>c'. c' \<noteq> c \<Longrightarrow> level_of st1 c' = level_of st c'"
    by (auto simp: counter_frame_def simp del: split_paired_All)
  show ?goal
  proof (cases x)
    case (Inl y)
    then have st': "st' = st1" using run enter by (simp add: guarded_def lim)
    have "level_of st1 c' = level_of st c'" for c' using e(3) [OF Inl] oth1 by (cases "c' = c") auto
    with guards_same [OF ok tr1 e(2)] show ?thesis by (simp add: st' tr1)
  next
    case (Inr u)
    have up: "level_of st c \<le> unat m \<and> level_of st1 c = Suc (level_of st c)" if "unat m < 65535"
      using e(4) [OF Inr that] .
    obtain y st2 where ran: "run_noted sub c h body st1 = (y, st2)" by fastforce
    obtain z where left: "try_borrow_mut (fst c) leave st2 = (z, st')"
      using run enter ran Inr by (auto simp: guarded_def lim split: prod.splits sum.splits)
    show ?thesis
    proof (cases body)
      case None
      with ran left have "try_borrow_mut (fst c) leave st1 = (z, st')" by (simp add: run_noted_def)
      with up show ?thesis by (intro keeps_absent [OF ok tr1 e(2) oth1 N]) auto
    next
      case (Some s)
      have "guards_ok root (noted (Enter c h) st1)"
        by (rule guards_enter [OF ok tr1 e(2) oth1 _ cfg D]) (use up N in auto)
      then show ?thesis by (rule keeps_present [OF ok _ tr1 ran [unfolded Some] sub left])
    qed
  qed
qed

lemma keeps_guarded:
  assumes "config_at root (fst c) = Some (R, D)" and "\<not> delegated D h" and "\<And>h. keeps root (sub h)"
  shows "keeps root (guarded (fst c) R enter leave (run_noted sub c h body))"
proof (cases "recursion_limit R")
  case None
  then have "guarded (fst c) R enter leave (run_noted sub c h body) = run_noted sub c h body"
    by (simp add: guarded_def fun_eq_iff)
  with keeps_unlimited [OF assms(1) None assms(2, 3)] show ?thesis by simp
next
  case (Some m)
  show ?thesis by (rule keeps_limited [OF assms(1) Some assms(2, 3)])
qed

end

lemma frag_at_append: "frag_at root (p @ q) = Option.bind (frag_at root p) (\<lambda>f. frag_at f q)"
  by (induction root p rule: frag_at.induct) simp_all

lemma keeps_frags:
  assumes "\<And>p f. f \<in> set fs \<Longrightarrow> frag_at root p = Some f \<Longrightarrow> keeps root (frag_execute sub p f h)"
    and "\<And>j. j < length fs \<Longrightarrow> frag_at root (p @ [i + j]) = Some (fs ! j)"
  shows "keeps root (frags_execute sub p i fs h)"
  using assms
proof (induction fs arbitrary: i)
  case Nil
  show ?case by (simp add: keeps_def)
next
  case (Cons f fs)
  have first: "keeps root (frag_execute sub (p @ [i]) f h)"
    using Cons.prems(1) Cons.prems(2) [of 0] by simp
  have rest: "keeps root (frags_execute sub p (Suc i) fs h)"
    using Cons.prems(1) Cons.prems(2) [of "Suc _"] by (intro Cons.IH) auto
  show ?case
    using keepsD [OF first] keepsD [OF rest]
    by (auto simp: keeps_def split: prod.splits option.splits simp del: split_paired_All)
qed

lemma keeps_frag:
  assumes "\<And>h. keeps root (sub h)" and "frag_at root p = Some f"
  shows "keeps root (frag_execute sub p f h)"
  using assms(2)
proof (induction f arbitrary: p)
  case (PrecompileAt A P R D)
  then have cfg: "config_at root p = Some (R, D)" by (simp add: config_at_def)
  from cell_counter.keeps_guarded [of root p R D h sub "Some (P h)"] cfg assms(1) show ?case
    by (auto simp: keeps_def leaf_execute_defs simp del: split_paired_All)
next
  case (StatefulPrecompileAt A P R D)
  then have cfg: "config_at root p = Some (R, D)" by (simp add: config_at_def)
  from cell_counter.keeps_guarded [of root p R D h sub "Some (P h)"] cfg assms(1) show ?case
    by (auto simp: keeps_def leaf_execute_defs simp del: split_paired_All)
next
  case (PrecompileSetStartingWith pre P R D)
  then have cfg: "config_at root p = Some (R, D)" by (simp add: config_at_def)
  from map_counter.keeps_guarded [of root p "ph_code_address h" R D h sub "in_execute P h"] cfg assms(1) show ?case
    by (auto simp: keeps_def leaf_execute_defs Let_def simp del: split_paired_All)
next
  case (RevertPrecompile A)
  show ?case by (simp add: keeps_def leaf_execute_defs)
next
  case (FragmentTuple fs)
  have "keeps root (frags_execute sub p 0 fs h)"
    by (rule keeps_frags) (use FragmentTuple in \<open>auto simp: frag_at_append\<close>)
  then show ?case by (simp add: keeps_def)
next
  case (PrecompilesInRangeInclusive lo hi f)
  then have "keeps root (frag_execute sub (p @ [0]) f h)" by (simp add: frag_at_append)
  then show ?case by (auto simp: keeps_def simp del: split_paired_All)
qed

lemma keeps_evm_call: "keeps root (evm_call root code d h)"
proof (induction d arbitrary: h)
  case 0
  show ?case by (simp add: keeps_return)
next
  case (Suc d)
  have "keeps root (psb_execute (evm_call root code d) root h)"
    unfolding psb_execute_def by (rule keeps_frag) (simp_all add: Suc)
  from keepsD [OF this] keepsD [OF keeps_run_script [OF Suc]] show ?case
    by (auto simp: keeps_def split: prod.splits option.splits simp del: split_paired_All)
qed

lemma guards_new: "guards_ok root set_new"
  by (simp add: guards_ok_def set_new_def level_of_def split: option.splits)

section \<open>Routing\<close>

text \<open>
  What is asked of the sets that fragments wrap: they run for the addresses that they call theirs; and
  of ranges: that the addresses of what they wrap are in them.
\<close>

fun inner_ok :: "fragment \<Rightarrow> precompile_handle \<Rightarrow> bool" where
  "inner_ok (PrecompileSetStartingWith pre P R D) h \<longleftrightarrow>
     in_is_precompile P (ph_code_address h) \<longrightarrow> in_execute P h \<noteq> None"
| "inner_ok (FragmentTuple fs) h \<longleftrightarrow> (\<forall>f\<in>set fs. inner_ok f h)"
| "inner_ok (PrecompilesInRangeInclusive lo hi f) h \<longleftrightarrow> inner_ok f h"
| "inner_ok _ h \<longleftrightarrow> True"

fun ranges_ok :: "fragment \<Rightarrow> bool" where
  "ranges_ok (FragmentTuple fs) \<longleftrightarrow> (\<forall>f\<in>set fs. ranges_ok f)"
| "ranges_ok (PrecompilesInRangeInclusive lo hi f) \<longleftrightarrow>
     (\<forall>a\<in>set (frag_used_addresses f). lo \<le> a \<and> a \<le> hi) \<and> ranges_ok f"
| "ranges_ok _ \<longleftrightarrow> True"

lemma guarded_serves: "(\<And>st. \<exists>r. fst (run st) = Some r) \<Longrightarrow> \<exists>r. fst (guarded p R enter leave run st) = Some r"
  by (auto simp: guarded_def Let_def split: option.splits prod.splits sum.splits) (metis fst_conv)+

lemma run_noted_serves: "\<exists>r. fst (run_noted sub c h (Some s) st) = Some r"
  by (simp add: run_noted_def split: prod.splits)

lemma frags_serves:
  assumes "\<And>f p st. f \<in> set fs \<Longrightarrow>
      if frag_is_precompile f a then fst (frag_execute sub p f h st) \<noteq> None else frag_execute sub p f h st = (None, st)"
  shows "if \<exists>f\<in>set fs. frag_is_precompile f a then fst (frags_execute sub p i fs h st) \<noteq> None
    else frags_execute sub p i fs h st = (None, st)"
  using assms
proof (induction fs arbitrary: i st)
  case (Cons f fs)
  have rest: "if \<exists>f\<in>set fs. frag_is_precompile f a then fst (frags_execute sub p (Suc i) fs h st) \<noteq> None
      else frags_execute sub p (Suc i) fs h st = (None, st)" for st
    by (rule Cons.IH) (use Cons.prems in auto)
  show ?case
    using rest [of st] Cons.prems [of f "p @ [i]" st]
    by (auto split: prod.splits option.splits if_splits)
qed simp

lemma frag_serves:
  assumes "inner_ok f h"
  shows "if frag_is_precompile f (ph_code_address h) then fst (frag_execute sub p f h st) \<noteq> None
    else frag_execute sub p f h st = (None, st)"
  using assms
proof (induction f arbitrary: p st)
  case (FragmentTuple fs)
  have "if \<exists>f\<in>set fs. frag_is_precompile f (ph_code_address h) then fst (frags_execute sub p 0 fs h st) \<noteq> None
      else frags_execute sub p 0 fs h st = (None, st)"
    by (rule frags_serves) (use FragmentTuple in auto)
  then show ?case by simp
next
  case (PrecompileSetStartingWith pre P R D)
  then show ?case
    by (auto simp: leaf_execute_defs Let_def no_delegate_def starting_with_is_precompile_def run_noted_serves intro!: guarded_serves)
qed (auto simp: leaf_execute_defs no_delegate_def run_noted_serves intro!: guarded_serves)

section \<open>What logs cost\<close>

definition log_price :: "evm_log \<Rightarrow> nat" where
  "log_price l = 375 + 375 * length (log_topics l) + 8 * length (log_data l)"

lemma log_costs_value:
  assumes "375 + 375 * n + 8 * m < 2 ^ 64"
  shows "log_costs (of_nat n) (of_nat m) = Inr (of_nat (375 + 375 * n + 8 * m))"
proof -
  have [simp]: "unat (of_nat k :: u64) = k" if "k < 2 ^ 64" for k
    using that by (simp add: unat_of_nat_less)
  have "checked_mul 375 (of_nat n :: u64) = Some (of_nat (375 * n))"
    and "checked_mul 8 (of_nat m :: u64) = Some (of_nat (8 * m))"
    and "checked_add 375 (of_nat (375 * n) :: u64) = Some (of_nat (375 + 375 * n))"
    and "checked_add (of_nat (375 + 375 * n)) (of_nat (8 * m) :: u64) = Some (of_nat (375 + 375 * n + 8 * m))"
    unfolding checked_mul_eq_Some checked_add_eq_Some using assms by (simp_all del: of_nat_add of_nat_mult)
  then show ?thesis by (simp add: log_costs_def)
qed

lemma record_log_costs_value:
  assumes "log_price l < 2 ^ 64"
  shows "record_log_costs_manual (of_nat (length (log_topics l))) (of_nat (length (log_data l))) h =
    (if log_price l \<le> unat (ph_remaining_gas h) then Inr (h\<lparr>ph_remaining_gas := ph_remaining_gas h - of_nat (log_price l)\<rparr>)
     else Inl OutOfGas)"
  using assms
  by (simp add: record_log_costs_manual_def log_costs_value record_cost_def log_price_def word_le_nat_alt unat_of_nat_less
      del: of_nat_add of_nat_mult)

text \<open>A log that fits into the memory of the runtime has a price that fits into 64 bits.\<close>

definition log_fits :: "evm_log \<Rightarrow> bool" where
  "log_fits l \<longleftrightarrow> length (log_topics l) < 2 ^ 32 \<and> length (log_data l) < 2 ^ 32"

lemma log_price_less: "log_fits l \<Longrightarrow> log_price l < 2 ^ 64"
  by (simp add: log_fits_def log_price_def)

section \<open>Properties\<close>

text \<open>
  C31: A precompile with a recursion limit of \<open>N\<close>, below 65535, is never active more than \<open>N + 1\<close> times at once, at
  whatever depth and through whatever contracts it is called, and when the outermost call is over its
  counters are back at zero, also if precompiles failed in between.
\<close>

theorem precompile_nesting_bounded:
  assumes "limit_at root p = Some N" and "N < 65535" and "evm_call root code d h set_new = (r, st)"
  shows "active (p, a) (take n (ss_trace st)) \<le> int N + 1 \<and> level_of st (p, a) = 0"
proof -
  note ok = keepsD [OF keeps_evm_call assms(3) guards_new]
  from guards_okD(3) [OF ok(1), of "(p, a)" N n] guards_okD(2) [OF ok(1), of "(p, a)" N] ok(2) [of "(p, a)"] assms(1, 2)
  show ?thesis by (simp add: set_new_def)
qed

text \<open>
  No precompile is ever started by a \<open>DELEGATECALL\<close> or \<open>CALLCODE\<close> unless its fragment allows it.
\<close>

theorem delegate_calls_refused:
  assumes "evm_call root code d h set_new = (r, st)" and "Enter (p, a) h' \<in> set (ss_trace st)"
    and "ph_code_address h' \<noteq> ph_address h'"
  shows "\<exists>R. config_at root p = Some (R, AllowDelegateCall)"
  using guards_okD(4) [OF keepsD(1) [OF keeps_evm_call assms(1) guards_new] assms(2)] assms(3)
  by (auto simp: delegated_def allow_delegate_call_def)

text \<open>
  A set runs exactly for the addresses that \<open>is_precompile\<close> accepts and leaves its state alone for
  the others, and every address it lists as used is one of them.
\<close>

theorem precompile_set_serves:
  assumes "inner_ok root h" and "ranges_ok root"
  shows "(fst (psb_execute sub root h st) \<noteq> None \<longleftrightarrow> psb_is_precompile root (ph_code_address h)) \<and>
    (\<not> psb_is_precompile root (ph_code_address h) \<longrightarrow> psb_execute sub root h st = (None, st)) \<and>
    (\<forall>a\<in>set (frag_used_addresses root). psb_is_precompile root a)"
proof -
  have "ranges_ok f \<Longrightarrow> a \<in> set (frag_used_addresses f) \<Longrightarrow> frag_is_precompile f a" for f a
    by (induction f) auto
  with frag_serves [OF assms(1), of sub "[]" st] assms(2) show ?thesis
    by (auto simp: psb_execute_def psb_is_precompile_def split: if_splits)
qed

text \<open>
  Recording the cost of logs takes exactly the price of all of them from the remaining gas, or fails
  with out of gas when there is less; the price of a log is 375, 375 for each topic and 8 for each byte.
\<close>

theorem record_log_costs_spec:
  assumes "\<forall>l\<in>set logs. log_fits l"
  shows "record_log_costs logs h =
    (if (\<Sum>l\<leftarrow>logs. log_price l) \<le> unat (ph_remaining_gas h)
     then Inr (h\<lparr>ph_remaining_gas := ph_remaining_gas h - of_nat (\<Sum>l\<leftarrow>logs. log_price l)\<rparr>) else Inl OutOfGas)"
  using assms
proof (induction logs arbitrary: h)
  case Nil
  show ?case by (simp add: record_log_costs_def)
next
  case (Cons l logs)
  show ?case
  proof (cases "log_price l \<le> unat (ph_remaining_gas h)")
    case True
    have "unat (of_nat (log_price l) :: u64) = log_price l"
      using Cons.prems log_price_less [of l] by (simp add: unat_of_nat_less)
    then have "unat (ph_remaining_gas h - of_nat (log_price l)) = unat (ph_remaining_gas h) - log_price l"
      using True unat_diff_le [of "of_nat (log_price l)" "ph_remaining_gas h"] by (simp add: word_le_nat_alt)
    then show ?thesis
      using Cons.IH [of "h\<lparr>ph_remaining_gas := ph_remaining_gas h - of_nat (log_price l)\<rparr>"] Cons.prems True
        log_price_less [of l]
      by (auto simp: record_log_costs_def record_log_costs_value diff_diff_eq)
  qed (use Cons.prems log_price_less [of l] in \<open>auto simp: record_log_costs_def record_log_costs_value\<close>)
qed

text \<open>
  The estimate of a subcall is the sum of its three parts without wrapping, for the prices of any
  Ethereum configuration, and sending value never makes it cheaper.
\<close>

lemma call_cost_value:
  assumes "ec_gas_call config < 2 ^ 32" and "ec_gas_account_access_cold config < 2 ^ 32"
  shows "unat (call_cost v config) = unat (address_access_cost True (ec_gas_call config) config)
      + unat (xfer_cost True (v \<noteq> 0)) + unat (new_cost True True (v \<noteq> 0) config)"
    and "call_cost 0 config \<le> call_cost v config"
proof -
  have *: "unat (address_access_cost True (ec_gas_call config) config) < 2 ^ 32"
    using assms by (simp add: address_access_cost_def word_less_nat_alt)
  show parts: "unat (call_cost v config) = unat (address_access_cost True (ec_gas_call config) config)
      + unat (xfer_cost True (v \<noteq> 0)) + unat (new_cost True True (v \<noteq> 0) config)" for v
    using * by (simp add: call_cost_def xfer_cost_def new_cost_def Let_def unat_word_ariths)
  show "call_cost 0 config \<le> call_cost v config"
    by (simp add: word_le_nat_alt parts) (simp add: xfer_cost_def new_cost_def)
qed

section \<open>Concrete instances\<close>

text \<open>A precompile that calls itself back, in a set that forbids recursion.\<close>

definition handle_example :: "h160 \<Rightarrow> h160 \<Rightarrow> precompile_handle" where
  "handle_example code_address a =
     \<lparr>ph_code_address = code_address, ph_input = [], ph_address = a, ph_caller = 66, ph_apparent_value = 0,
      ph_is_static = False, ph_remaining_gas = 1000\<rparr>"

definition reentrant_set :: "delegate_call \<Rightarrow> fragment" where
  "reentrant_set D =
     FragmentTuple [RevertPrecompile 4, PrecompilesInRangeInclusive 5 6 (PrecompileAt 5 (\<lambda>h. SubCall h Done) ForbidRecursion D)]"

lemmas set_eval =
  leaf_execute_defs   reentrant_set_def handle_example_def psb_execute_def delegated_def allow_delegate_call_def guarded_def
  ForbidRecursion_def try_borrow_mut_def level_enter_def level_leave_def run_noted_def noted_def set_new_def
  limit_at_def config_at_def no_delegate_def

lemma reentrant_run:
  "ss_trace (snd (evm_call (reentrant_set D) (\<lambda>_. Done (Inr [])) 3 (handle_example 5 5) set_new))
     = [Enter ([1, 0], None) (handle_example 5 5), Leave ([1, 0], None)]"
  by (simp add: set_eval numeral_3_eq_3)

theorem precompile_nesting_bounded_witness:
  "\<exists>r st. evm_call (reentrant_set ForbidDelegateCall) (\<lambda>_. Done (Inr [])) 3 (handle_example 5 5) set_new = (r, st)
     \<and> length (ss_trace st) = 2 \<and> active ([1, 0], None) (take 1 (ss_trace st)) \<le> int 0 + 1 \<and> level_of st ([1, 0], None) = 0"
proof -
  obtain r st where run: "evm_call (reentrant_set ForbidDelegateCall) (\<lambda>_. Done (Inr [])) 3 (handle_example 5 5) set_new = (r, st)"
    by fastforce
  have "limit_at (reentrant_set ForbidDelegateCall) [1, 0] = Some 0" by (simp add: set_eval)
  from precompile_nesting_bounded [OF this _ run, of None 1] reentrant_run [of ForbidDelegateCall] run show ?thesis by simp
qed

theorem delegate_calls_refused_witness:
  "\<exists>r st. evm_call (reentrant_set AllowDelegateCall) (\<lambda>_. Done (Inr [])) 3 (handle_example 5 7) set_new = (r, st)
     \<and> (\<exists>R. config_at (reentrant_set AllowDelegateCall) [1, 0] = Some (R, AllowDelegateCall))"
proof -
  obtain r st where run: "evm_call (reentrant_set AllowDelegateCall) (\<lambda>_. Done (Inr [])) 3 (handle_example 5 7) set_new = (r, st)"
    by fastforce
  have "ss_trace (snd (evm_call (reentrant_set AllowDelegateCall) (\<lambda>_. Done (Inr [])) 3 (handle_example 5 7) set_new))
     = [Enter ([1, 0], None) (handle_example 5 7), Leave ([1, 0], None)]"
    by (simp add: set_eval numeral_3_eq_3)
  then have "Enter ([1, 0], None) (handle_example 5 7) \<in> set (ss_trace st)" by (simp add: run)
  from delegate_calls_refused [OF run this] run show ?thesis by (simp add: handle_example_def)
qed

theorem precompile_set_serves_witness:
  "fst (psb_execute (\<lambda>_ st. (Inr [], st)) (reentrant_set ForbidDelegateCall) (handle_example 5 5) set_new) \<noteq> None"
  using precompile_set_serves [of "reentrant_set ForbidDelegateCall" "handle_example 5 5" "\<lambda>_ st. (Inr [], st)" set_new]
  by (simp add: reentrant_set_def handle_example_def psb_is_precompile_def)

theorem record_log_costs_spec_witness:
  "record_log_costs [log1 5 9 [1, 2]] (handle_example 5 5) = Inr ((handle_example 5 5)\<lparr>ph_remaining_gas := 234\<rparr>)"
  using record_log_costs_spec [of "[log1 5 9 [1, 2]]" "handle_example 5 5"]
  by (simp add: log_fits_def log_price_def log1_def handle_example_def)

end
