(* ===== verification/TokenClients.thy ===== *)
theory TokenClients
  imports ExchangeSafety Farming Launchpad Marketplace
begin

text \<open>
  The pallets that use the token pallets and the native currency, seen from what they use: a call of
  the exchange, the farming, launchpad or marketplace pallet keeps whatever the transfers and mints it
  is made of keep, when they are made for accounts in a given set. Each contract is a locale: \<open>ft_mover\<close>
  for transfers of fungible tokens, \<open>wr_keeper\<close> and \<open>ex_keeper\<close> for what the exchange does to the wrap
  pallet, \<open>asset_keeper\<close> for the marketplace. The proofs are in a small calculus of postconditions.
\<close>

section \<open>Postconditions\<close>

definition post :: "'e + 'a \<Rightarrow> ('a \<Rightarrow> bool) \<Rightarrow> bool" where
  "post m Q \<longleftrightarrow> (\<forall>x. m = Inr x \<longrightarrow> Q x)"

named_theorems post_rules \<open>structural rules of the calculus\<close>

lemma postD: "post m Q \<Longrightarrow> m = Inr x \<Longrightarrow> Q x"
  by (simp add: post_def)

lemma post_bind: "post m R \<Longrightarrow> (\<And>x. R x \<Longrightarrow> post (k x) Q) \<Longrightarrow> post (and_then m k) Q"
  by (auto simp: post_def and_then_eq_Inr)

text \<open>A computation that does not change the state: nothing is known of its result.\<close>

lemma post_skip: "(\<And>x. post (k x) Q) \<Longrightarrow> post (and_then m k) Q"
  by (auto simp: post_def and_then_eq_Inr)

lemma post_ensure [post_rules]: "post k Q \<Longrightarrow> post (ensure c e k) Q"
  by (simp add: post_def ensure_eq_Inr)

lemma post_Inr [post_rules]: "Q x \<Longrightarrow> post (Inr x) Q"
  by (simp add: post_def)

lemma post_Inl [post_rules]: "post (Inl e) Q"
  by (simp add: post_def)

lemma post_if [post_rules]: "(c \<Longrightarrow> post a Q) \<Longrightarrow> (\<not> c \<Longrightarrow> post b Q) \<Longrightarrow> post (if c then a else b) Q"
  by simp

lemma post_Let [post_rules]: "(\<And>x. x = a \<Longrightarrow> post (f x) Q) \<Longrightarrow> post (Let a f) Q"
  by (simp add: Let_def)

lemma post_prod [post_rules]: "(\<And>a b. p = (a, b) \<Longrightarrow> post (f a b) Q) \<Longrightarrow> post (case p of (a, b) \<Rightarrow> f a b) Q"
  by (cases p) simp

lemma post_option [post_rules]:
  "post a Q \<Longrightarrow> (\<And>x. m = Some x \<Longrightarrow> post (f x) Q) \<Longrightarrow> post (case m of None \<Rightarrow> a | Some x \<Rightarrow> f x) Q"
  by (cases m) simp_all

lemma post_for_each:
  "P s \<Longrightarrow> (\<And>x s. P s \<Longrightarrow> post (f x s) P) \<Longrightarrow> post (for_each f xs s) P"
  by (induction xs arbitrary: s) (auto intro!: post_Inr post_bind)

lemma post_focus: "post (f (get w)) (\<lambda>s. Q (put s w)) \<Longrightarrow> post (focus get put f w) Q"
  by (auto simp: post_def focus_eq_Inr)

text \<open>An origin that does not act for an account outside a set.\<close>

definition by_user :: "account set \<Rightarrow> origin \<Rightarrow> bool" where
  "by_user A orig \<longleftrightarrow> (\<forall>a. orig = Signed a \<longrightarrow> a \<in> A)"

lemma post_signed:
  "by_user A orig \<Longrightarrow> (\<And>a. a \<in> A \<Longrightarrow> post (k a) Q) \<Longrightarrow> post (and_then (ensure_signed orig) k) Q"
  by (cases orig) (simp_all add: by_user_def post_Inl)

section \<open>Farming and launchpad\<close>

text \<open>Both move fungible tokens by transfers of the caller and of the escrow accounts of their pools.\<close>

locale ft_mover =
  fixes J :: "ft_storage \<Rightarrow> bool" and A :: "account set"
  assumes transfer_keeps: "J s \<Longrightarrow> a \<in> A \<Longrightarrow> post (ft_do_transfer t a b v s) J"
begin

lemma fa_bind_ft:
  assumes "J (fa_ft w)" and "a \<in> A" and "\<And>s. J s \<Longrightarrow> post (k (w\<lparr>fa_ft := s\<rparr>)) Q"
  shows "post (and_then (fa_on_ft (ft_do_transfer t a b v) w) k) Q"
  using assms transfer_keeps [of "fa_ft w" a t b v] by (auto simp: post_def and_then_eq_Inr fa_on_ft_ok)

lemma lp_bind_ft:
  assumes "J (lp_ft w)" and "a \<in> A" and "\<And>s. J s \<Longrightarrow> post (k (w\<lparr>lp_ft := s\<rparr>)) Q"
  shows "post (and_then (lp_on_ft (ft_do_transfer t a b v) w) k) Q"
  using assms transfer_keeps [of "lp_ft w" a t b v] by (auto simp: post_def and_then_eq_Inr lp_on_ft_ok)

lemma fa_dispatch_keeps:
  assumes "J (fa_ft w)" and orig: "by_user A orig"
    and esc: "fa_escrows E \<subseteq> A" "\<forall>p pool. fa_pools w p = Some pool \<longrightarrow> fa_escrow_account pool \<in> fa_escrows E"
  shows "post (fa_call_dispatch E orig c w) (\<lambda>w'. J (fa_ft w') \<and>
    (\<forall>p pool. fa_pools w' p = Some pool \<longrightarrow> fa_escrow_account pool \<in> fa_escrows E))"
proof -
  have pool: "post (and_then (ok_or (fa_pools w p) e) k) Q"
    if "\<And>pool. fa_pools w p = Some pool \<Longrightarrow> fa_escrow_account pool \<in> A \<Longrightarrow> post (k pool) Q" for p e k Q
    using that esc by (cases "fa_pools w p") (auto intro: post_Inl)
  show ?thesis
    using assms
    by (cases c; simp only: fa_call_dispatch.simps)
      (unfold fa_set_admin_def fa_create_pool_def fa_staking_def fa_claim_def fa_force_claim_def Let_def;
        intro post_signed [OF orig] pool fa_bind_ft post_rules post_skip; auto simp: fa_escrows_def)+
qed

lemma lp_dispatch_keeps:
  assumes "J (lp_ft w)" and orig: "by_user A orig"
    and esc: "lp_escrows E \<subseteq> A" "\<forall>p pool. lp_pools w p = Some pool \<longrightarrow> lp_escrow_account pool \<in> lp_escrows E"
  shows "post (lp_dispatch E (now, orig, c) w) (\<lambda>w'. J (lp_ft w') \<and>
    (\<forall>p pool. lp_pools w' p = Some pool \<longrightarrow> lp_escrow_account pool \<in> lp_escrows E))"
proof -
  have pool: "post (and_then (ok_or (lp_pools w p) e) k) Q"
    if "\<And>pool. lp_pools w p = Some pool \<Longrightarrow> lp_escrow_account pool \<in> A \<Longrightarrow> post (k pool) Q" for p e k Q
    using that esc by (cases "lp_pools w p") (auto intro: post_Inl)
  show ?thesis
    using assms
    by (cases c; simp only: lp_dispatch.simps)
      (unfold lp_create_pool_def lp_buy_token_def lp_claim_def lp_owner_claim_def Let_def;
        intro post_signed [OF orig] pool lp_bind_ft post_rules post_skip; auto simp: lp_escrows_def)+
qed

end

section \<open>The exchange\<close>

text \<open>
  What the exchange does to the wrap pallet and, through it, to tokens and currency: it moves, mints and
  burns for accounts in \<open>A\<close>, creates tokens with ids that \<open>P\<close> admits, and wraps and unwraps for callers.
\<close>

locale wr_keeper =
  fixes C :: "'c currency" and E :: env and W :: "'c wr_world \<Rightarrow> bool" and A :: "account set" and P :: "u128 \<Rightarrow> bool"
  assumes transfer: "W u \<Longrightarrow> a \<in> A \<Longrightarrow> post (wr_on_ft (ft_do_transfer t a b v) u) W"
    and burn: "W u \<Longrightarrow> a \<in> A \<Longrightarrow> post (wr_on_ft (ft_do_burn t a v) u) W"
    and mint: "W u \<Longrightarrow> a \<in> A \<Longrightarrow> post (wr_on_ft (ft_do_mint t a b v) u) W"
    and create: "W u \<Longrightarrow> P t \<Longrightarrow> post (wr_on_ft (ft_do_create_token a t name symb d) u) W"
    and native: "W u \<Longrightarrow> a \<in> A \<Longrightarrow> post (wr_on_native (cur_transfer C a b v req) u) W"
    and deposit: "W u \<Longrightarrow> a \<in> A \<Longrightarrow> post (wr_do_deposit C E a v u) W"
    and withdraw: "W u \<Longrightarrow> post (wr_do_withdraw C E a v u) W"
begin

text \<open>Every such contract is one for transfers alone.\<close>

lemma ft_mover: "ft_mover (\<lambda>s. W (u\<lparr>wr_ft := s\<rparr>)) A"
proof
  show "post (ft_do_transfer t a b v s) (\<lambda>s. W (u\<lparr>wr_ft := s\<rparr>))" if "W (u\<lparr>wr_ft := s\<rparr>)" "a \<in> A" for s a t b v
    using transfer [OF that, of t b v] by (auto simp: post_def wr_on_ft_def focus_eq_Inr)
qed

end

text \<open>The state of the exchange: what is kept of the wrap pallet, and that the accounts of the pools are in \<open>A\<close>.\<close>

definition ex_kept :: "('c wr_world \<Rightarrow> bool) \<Rightarrow> account set \<Rightarrow> 'c ex_world \<Rightarrow> bool" where
  "ex_kept W A w \<longleftrightarrow> W (ex_wr w) \<and> (\<forall>k pool. ex_pools w k = Some pool \<longrightarrow> pool_lp_account pool \<in> A)"

lemma ex_kept_simps [simp]:
  "ex_kept W A (ex_deposit_event e w) = ex_kept W A w"
  "ex_kept W A (ex_update_k_last f a b w) = ex_kept W A w"
  "ex_kept W A (w\<lparr>ex_lp_token_to_token := ts\<rparr>) = ex_kept W A w"
  "ex_kept W A (w\<lparr>ex_next_pool_id := n\<rparr>) = ex_kept W A w"
  "ex_kept W A (w\<lparr>ex_reserves := rs\<rparr>) = ex_kept W A w"
  "ex_kept W A (w\<lparr>ex_k_last := ks\<rparr>) = ex_kept W A w"
  "ex_kept W A (w\<lparr>ex_fee_to := fee\<rparr>) = ex_kept W A w"
  by (simp_all add: ex_kept_def)

lemma ex_kept_pool [simp]:
  "ex_kept W A w \<Longrightarrow> pool_lp_account p \<in> A \<Longrightarrow> ex_kept W A (w\<lparr>ex_pools := (ex_pools w)(k \<mapsto> p)\<rparr>)"
  by (simp add: ex_kept_def)

lemma ex_kept_on_wr:
  "ex_kept W A w \<Longrightarrow> post (f (ex_wr w)) W \<Longrightarrow> post (ex_on_wr f w) (ex_kept W A)"
  by (auto simp: post_def ex_on_wr_ok ex_kept_def)

lemma ex_get_pool_bind:
  "ex_kept W A w \<Longrightarrow> (\<And>pool. pool_lp_account pool \<in> A \<Longrightarrow> post (k pool) Q) \<Longrightarrow>
     post (and_then (ex_get_pool key w) k) Q"
  by (cases "ex_pools w key") (auto simp: post_def ex_get_pool_def ex_kept_def simp del: split_paired_All)

lemma ex_do_update_bind:
  "ex_kept W A w \<Longrightarrow> (\<And>w. ex_kept W A w \<Longrightarrow> post (k w) Q) \<Longrightarrow> post (and_then (ex_do_update a b x y w) k) Q"
  by (simp add: ex_do_update_def)

locale ex_keeper = wr_keeper +
  assumes pallet_account: "ex_account_id E \<in> A" and pool_accounts: "ex_sub_accounts E \<subseteq> A"
begin

lemma pool_account: "ex_token_id_to_account_id E t \<in> A"
  using pool_accounts by (auto simp: ex_sub_accounts_def)

lemma ex_op_keeps:
  assumes "ex_kept W A w" and "a \<in> A"
  shows "post (ex_on_ft (ft_do_transfer t a b v) w) (ex_kept W A)"
    and "post (ex_on_ft (ft_do_burn t a v) w) (ex_kept W A)"
    and "post (ex_on_ft (ft_do_mint t a b v) w) (ex_kept W A)"
    and "post (ex_on_wr (wr_on_native (cur_transfer C a b v req)) w) (ex_kept W A)"
    and "post (ex_on_wr (wr_do_deposit C E a v) w) (ex_kept W A)"
  using assms
  by (auto simp: ex_on_ft_def ex_kept_def intro!: ex_kept_on_wr transfer burn mint native deposit)

lemma ex_withdraw_keeps: "ex_kept W A w \<Longrightarrow> post (ex_on_wr (wr_do_withdraw C E a v) w) (ex_kept W A)"
  by (rule ex_kept_on_wr) (simp_all add: ex_kept_def withdraw)

lemma ex_create_keeps:
  "ex_kept W A w \<Longrightarrow> P t \<Longrightarrow> post (ex_on_ft (ft_do_create_token a t nm sy d) w) (ex_kept W A)"
  by (auto simp: ex_on_ft_def ex_kept_def intro!: ex_kept_on_wr create)

lemmas ex_binds = ex_op_keeps [THEN post_bind] ex_withdraw_keeps [THEN post_bind] ex_create_keeps [THEN post_bind] ex_get_pool_bind ex_do_update_bind
lemmas ex_steps = ex_op_keeps ex_withdraw_keeps ex_binds post_rules post_skip

lemma ex_pay_out_keeps: "ex_kept W A w \<Longrightarrow> a \<in> A \<Longrightarrow> post (ex_pay_out t a b v w) (ex_kept W A)"
  unfolding ex_pay_out_def by (intro ex_steps) simp_all

lemma ex_swap_keeps: "ex_kept W A w \<Longrightarrow> post (ex_swap who a b x y to w) (ex_kept W A)"
  unfolding ex_swap_def
  by (intro ex_pay_out_keeps [THEN post_bind] ex_steps) simp_all

lemma ex_do_swap_keeps: "ex_kept W A w \<Longrightarrow> post (ex_do_swap who am path to w) (ex_kept W A)"
  unfolding ex_do_swap_def ex_hop_def
  by (intro post_for_each ex_swap_keeps post_rules post_skip) simp_all

lemma ex_mint_fee_keeps:
  "ex_kept W A w \<Longrightarrow> post (ex_mint_fee E X a b x y w) (\<lambda>(f, w'). ex_kept W A w')"
  unfolding ex_mint_fee_def by (intro ex_steps) (simp_all add: pallet_account)

lemma ex_mint_liquidity_keeps:
  "ex_kept W A w \<Longrightarrow> post (ex_mint_liquidity E X p a b x y t w) (\<lambda>(l, w'). ex_kept W A w')"
  unfolding ex_mint_liquidity_def by (intro ex_steps) (simp_all add: pallet_account)

lemma ex_mint_keeps: "ex_kept W A w \<Longrightarrow> post (ex_mint E X who a b to w) (\<lambda>(l, w'). ex_kept W A w')"
  unfolding ex_mint_def
  by (intro ex_mint_fee_keeps [THEN post_bind] ex_mint_liquidity_keeps [THEN post_bind] ex_steps)
    (auto simp: pallet_account)

lemma ex_burn_keeps: "ex_kept W A w \<Longrightarrow> post (ex_burn E X who a b to w) (\<lambda>(l, w'). ex_kept W A w')"
  unfolding ex_burn_def by (intro ex_mint_fee_keeps [THEN post_bind] ex_steps) auto

lemma ex_do_create_pool_keeps:
  assumes "ex_kept W A w" and "who \<in> A" and "\<And>a b. P (random_id X a b)"
  shows "post (ex_do_create_pool C E X who a b w) (\<lambda>(i, w'). ex_kept W A w')"
  unfolding ex_do_create_pool_def using assms pool_account
  by (intro ex_steps; auto)

lemma ex_pay_in_keeps:
  assumes "ex_kept W A w" and "who \<in> A"
  shows "post (ex_pay_in_and_mint E X who a b p x y to w) (ex_kept W A)"
    and "post (ex_pay_in_and_swap who p am path to w) (ex_kept W A)"
  unfolding ex_pay_in_and_mint_def ex_pay_in_and_swap_def using assms
  by (intro ex_mint_keeps [THEN post_bind] ex_do_swap_keeps ex_steps; auto)+

lemma ex_liquidity_keeps:
  assumes "ex_kept W A w" and orig: "by_user A orig" and fresh: "\<And>a b. P (random_id X a b)"
  shows "post (ex_create_pool C E X orig a b w) (ex_kept W A)"
    and "post (ex_add_liquidity E X orig a b ad bd am bm to dl w) (ex_kept W A)"
    and "post (ex_add_liquidity_w3g C E X orig a ad bd am bm to dl w) (ex_kept W A)"
    and "post (ex_remove_liquidity E X orig a b l am bm to dl w) (ex_kept W A)"
    and "post (ex_remove_liquidity_w3g C E X orig a l am bm to dl w) (ex_kept W A)"
  unfolding ex_create_pool_def ex_add_liquidity_def ex_add_liquidity_w3g_def ex_remove_liquidity_def
    ex_remove_liquidity_w3g_def using assms
  by (intro post_signed [OF orig] ex_do_create_pool_keeps [THEN post_bind] ex_burn_keeps [THEN post_bind]
      ex_pay_in_keeps ex_steps; auto)+

lemma ex_swaps_keeps:
  assumes "ex_kept W A w" and orig: "by_user A orig"
  shows "post (ex_swap_exact_tokens_for_tokens E orig x y path to dl w) (ex_kept W A)"
    and "post (ex_swap_exact_w3g_for_tokens C E orig x y path to dl w) (ex_kept W A)"
    and "post (ex_swap_tokens_for_exact_tokens E orig x y path to dl w) (ex_kept W A)"
    and "post (ex_swap_tokens_for_exact_w3g C E orig x y path to dl w) (ex_kept W A)"
  unfolding ex_swap_exact_tokens_for_tokens_def ex_swap_exact_w3g_for_tokens_def
    ex_swap_tokens_for_exact_tokens_def ex_swap_tokens_for_exact_w3g_def using assms
  by (intro post_signed [OF orig] ex_pay_in_keeps(2) [THEN post_bind] ex_pay_in_keeps ex_steps; auto)+

lemma ex_dispatch_keeps:
  assumes "ex_kept W A w" and "by_user A orig" and "\<And>a b. P (random_id X a b)"
  shows "post (ex_call_dispatch C E X orig c w) (ex_kept W A)"
  using assms by (cases c) (simp_all add: ex_liquidity_keeps ex_swaps_keeps ex_set_fee_to_def post_skip post_Inr)

end

section \<open>The marketplace\<close>

text \<open>
  The marketplace moves assets only by the transfer calls of the two token pallets, and money only for
  its callers and for the administrator. An administrator can be set by root alone.
\<close>

definition mp_admin_in :: "account set \<Rightarrow> 'c mp_world \<Rightarrow> bool" where
  "mp_admin_in A w \<longleftrightarrow> (\<forall>a. mp_admin w = Some a \<longrightarrow> a \<in> A)"

locale asset_keeper = nk: pallet_invariant nft_dispatch K + mk: pallet_invariant mt_dispatch L
  for K :: "nft_storage \<Rightarrow> bool" and L :: "mt_storage \<Rightarrow> bool" +
  fixes C :: "'c currency" and N :: "'c \<Rightarrow> bool" and A :: "account set"
  assumes pay: "N c \<Longrightarrow> a \<in> A \<Longrightarrow> post (cur_transfer C a b v req c) N"
begin

abbreviation kept :: "'c mp_world \<Rightarrow> bool" where
  "kept w \<equiv> K (mp_nft w) \<and> L (mp_mt w) \<and> N (mp_cur w) \<and> mp_admin_in A w"

lemma mp_transfer_keeps:
  assumes "kept w"
  shows "post (mp_transfer_asset_to a x b w) kept"
proof (cases x)
  case (NonFungibleToken g t)
  with assms nk.dispatch_inv [of "mp_nft w" "(Signed a, NftTransferFrom g a b t)"] show ?thesis
    by (auto simp: post_def mp_on_nft_ok nft_transfer_from_def mp_admin_in_def)
next
  case (MultiToken g t)
  with assms mk.dispatch_inv [of "mp_mt w" "(Signed a, MtTransferFrom g a b t 1)"] show ?thesis
    by (auto simp: post_def mp_on_mt_ok mt_transfer_from_def mp_admin_in_def)
qed (simp add: post_Inl)

lemma mp_pay_keeps: "kept w \<Longrightarrow> a \<in> A \<Longrightarrow> post (mp_pay C a b v w) kept"
  using pay [of "mp_cur w" a b v KeepAlive] by (auto simp: post_def mp_pay_ok mp_admin_in_def)

lemma mp_admin_bind:
  "kept w \<Longrightarrow> (\<And>a. a \<in> A \<Longrightarrow> post (k a) Q) \<Longrightarrow> post (and_then (ok_or (mp_admin w) e) k) Q"
  by (cases "mp_admin w") (auto simp: post_def mp_admin_in_def)

lemma mp_kept_simps [simp]:
  "mp_admin_in A (mp_deposit_event e w) = mp_admin_in A w"
  "mp_admin_in A (w\<lparr>mp_orders := os\<rparr>) = mp_admin_in A w"
  "mp_admin_in A (w\<lparr>mp_bids := bs\<rparr>) = mp_admin_in A w"
  "mp_admin_in A (w\<lparr>mp_point := p\<rparr>) = mp_admin_in A w"
  by (simp_all add: mp_admin_in_def)

lemmas mp_binds = mp_transfer_keeps [THEN post_bind] mp_pay_keeps [THEN post_bind] mp_admin_bind
lemmas mp_steps = mp_transfer_keeps mp_pay_keeps mp_binds post_rules post_skip

lemma mp_do_cancel_bid_keeps: "kept w \<Longrightarrow> post (mp_do_cancel_bid C x bid w) kept"
  unfolding mp_do_cancel_bid_def by (intro mp_steps; simp)

lemma mp_refund_bid_keeps: "kept w \<Longrightarrow> post (mp_refund_bid C x w) kept"
  unfolding mp_refund_bid_def by (intro mp_do_cancel_bid_keeps mp_steps; simp)

lemma mp_orders_keep:
  assumes "kept w" and orig: "by_user A orig"
  shows "post (mp_create_order E orig x v d w) kept"
    and "post (mp_cancel_order C E orig x w) kept"
    and "post (mp_cancel_bid C orig x w) kept"
    and "post (mp_accept_bid C E orig x w) kept"
  unfolding mp_create_order_def mp_cancel_order_def mp_cancel_bid_def mp_accept_bid_def using assms
  by (intro post_signed [OF orig] mp_refund_bid_keeps [THEN post_bind] mp_do_cancel_bid_keeps mp_steps; simp)+

lemma mp_execute_order_keeps:
  assumes "kept w" and orig: "by_user A orig"
  shows "post (mp_execute_order C E orig x w) kept"
proof -
  have fee: "post (case mp_admin w of
                 Some admin \<Rightarrow>
                   let service_fee = f in
                   and_then (mp_pay C who admin service_fee w) (\<lambda>w. Inr (service_fee, w))
               | None \<Rightarrow> Inr (0, w)) (\<lambda>(u, w'). kept w')" if "who \<in> A" for f who
    using assms that by (intro mp_steps) simp_all
  show ?thesis
    unfolding mp_execute_order_def using assms
    by (intro post_signed [OF orig] fee [THEN post_bind] mp_refund_bid_keeps [THEN post_bind] mp_steps; simp)
qed

lemma mp_place_bid_keeps:
  assumes "kept w" and orig: "by_user A orig"
  shows "post (mp_place_bid C E orig x v d w) kept"
proof -
  have old: "post (case mp_bids w x of
                 None \<Rightarrow> Inr w
               | Some bid \<Rightarrow> ensure (q bid) e (mp_do_cancel_bid C x bid w)) kept" for q e
    using assms by (intro mp_do_cancel_bid_keeps mp_steps) simp_all
  show ?thesis
    unfolding mp_place_bid_def using assms
    by (intro post_signed [OF orig] old [THEN post_bind] mp_steps; simp)
qed

lemma mp_dispatch_keeps:
  assumes "kept w" and "by_user A orig" and "\<And>a. c = MpSetAdmin a \<Longrightarrow> a \<in> A"
  shows "post (mp_call_dispatch C E orig c w) kept"
  using assms
  by (cases c) (simp_all add: mp_orders_keep mp_execute_order_keeps mp_place_bid_keeps mp_set_admin_def
      mp_set_service_fee_point_def post_skip post_Inr post_ensure mp_admin_in_def [of _ "mp_admin_update _ _"])

end

section \<open>The contracts met\<close>

text \<open>The invariants of the three token pallets are kept by everything the other pallets do.\<close>

lemma ft_ops_inv:
  assumes "ft_inv s"
  shows "post (ft_do_transfer t a b v s) ft_inv" and "post (ft_do_burn t a v s) ft_inv"
    and "post (ft_do_mint t a b v s) ft_inv" and "post (ft_do_create_token a t nm sy d s) ft_inv"
  using assms
  by (auto simp: post_def intro: ft_do_transfer_inv ft_do_burn_inv ft_do_mint_inv ft_do_create_token_inv)

lemma wr_ops_ft_inv:
  assumes "ft_inv (wr_ft u)"
  shows "post (wr_do_deposit C E a v u) (\<lambda>u'. ft_inv (wr_ft u'))"
    and "post (wr_do_withdraw C E a v u) (\<lambda>u'. ft_inv (wr_ft u'))"
  using assms by (auto simp: post_def elim!: wr_do_depositE wr_do_withdrawE intro: ft_do_mint_inv ft_do_burn_inv)

interpretation ftm: ft_mover ft_inv UNIV
  by unfold_locales (rule ft_ops_inv)

interpretation ftc: ex_keeper C E "\<lambda>u. ft_inv (wr_ft u)" UNIV "\<lambda>_. True" for C :: "'c currency" and E
  by unfold_locales
    (auto simp: wr_on_ft_def wr_on_native_def focus_eq_Inr post_def [of "focus _ _ _ _"]
      intro: wr_ops_ft_inv postD [OF ft_ops_inv(1)] postD [OF ft_ops_inv(2)] postD [OF ft_ops_inv(3)]
        postD [OF ft_ops_inv(4)])

interpretation mpc: asset_keeper nft_inv mt_inv C "\<lambda>_. True" UNIV for C :: "'c currency"
  by unfold_locales (simp add: post_def)

text \<open>
  The backing of the wrapped token is kept by everybody but the vault, as long as no new token takes the
  id of the wrapped one.
\<close>

lemma wr_on_ft_inv:
  assumes "wr_inv C E u" and "wr_on_ft f u = Inr u'"
    and "\<And>s t. f (wr_ft u) = Inr s \<Longrightarrow> ft_tokens (wr_ft u) (wr_wrap_token u) = Some t \<Longrightarrow> ft_owner t = wr_account_id E \<Longrightarrow>
      (\<exists>t'. ft_tokens s (wr_wrap_token u) = Some t' \<and> ft_owner t' = ft_owner t) \<and>
      ft_sum s (wr_wrap_token u) \<le> ft_sum (wr_ft u) (wr_wrap_token u)"
  shows "wr_inv C E u' \<and> wr_wrap_token u' = wr_wrap_token u"
  using assms unfolding wr_inv_def wr_on_ft_def focus_eq_Inr by fastforce

definition wr_backed_at :: "'c currency \<Rightarrow> env \<Rightarrow> 'c wr_world \<Rightarrow> bool" where
  "wr_backed_at C E u \<longleftrightarrow> wr_inv C E u \<and> wr_wrap_token u = WW3G"

lemma wr_ft_ops_backed:
  assumes "wr_backed_at C E u"
  shows "post (wr_on_ft (ft_do_transfer t a b v) u) (wr_backed_at C E)"
    and "post (wr_on_ft (ft_do_burn t a v) u) (wr_backed_at C E)"
    and "a \<noteq> wr_account_id E \<Longrightarrow> post (wr_on_ft (ft_do_mint t a b v) u) (wr_backed_at C E)"
    and "t \<noteq> WW3G \<Longrightarrow> post (wr_on_ft (ft_do_create_token a t nm sy d) u) (wr_backed_at C E)"
proof -
  have inv: "wr_inv C E u" and tok: "wr_wrap_token u = WW3G" using assms by (simp_all add: wr_backed_at_def)
  have keep: "post (wr_on_ft f u) (wr_backed_at C E)"
    if "\<And>s k. f (wr_ft u) = Inr s \<Longrightarrow> ft_tokens (wr_ft u) WW3G = Some k \<Longrightarrow> ft_owner k = wr_account_id E \<Longrightarrow>
      (\<exists>k'. ft_tokens s WW3G = Some k' \<and> ft_owner k' = ft_owner k) \<and> ft_sum s WW3G \<le> ft_sum (wr_ft u) WW3G" for f
    using wr_on_ft_inv [OF inv] that by (auto simp: post_def wr_backed_at_def tok)
  show "post (wr_on_ft (ft_do_transfer t a b v) u) (wr_backed_at C E)"
    by (rule keep) (use ft_do_transfer_frame in fastforce)
  show "post (wr_on_ft (ft_do_burn t a v) u) (wr_backed_at C E)"
  proof (rule keep)
    fix s k assume s: "ft_do_burn t a v (wr_ft u) = Inr s" and k: "ft_tokens (wr_ft u) WW3G = Some k"
    from s k ft_do_burn_sum [OF s, of WW3G]
    show "(\<exists>k'. ft_tokens s WW3G = Some k' \<and> ft_owner k' = ft_owner k) \<and> ft_sum s WW3G \<le> ft_sum (wr_ft u) WW3G"
      by (auto simp: ft_do_burn_ok)
  qed
  show "post (wr_on_ft (ft_do_mint t a b v) u) (wr_backed_at C E)" if "a \<noteq> wr_account_id E"
  proof (rule keep)
    fix s k assume s: "ft_do_mint t a b v (wr_ft u) = Inr s" and k: "ft_tokens (wr_ft u) WW3G = Some k"
      "ft_owner k = wr_account_id E"
    from s k that have "t \<noteq> WW3G" by (auto simp: ft_do_mint_ok)
    with s k ft_do_mint_sum [OF s, of WW3G]
    show "(\<exists>k'. ft_tokens s WW3G = Some k' \<and> ft_owner k' = ft_owner k) \<and> ft_sum s WW3G \<le> ft_sum (wr_ft u) WW3G"
      by (auto simp: ft_do_mint_ok ft_internal_mint_ok)
  qed
  show "post (wr_on_ft (ft_do_create_token a t nm sy d) u) (wr_backed_at C E)" if "t \<noteq> WW3G"
    by (rule keep) (use that in \<open>auto simp: ft_do_create_token_ok\<close>)
qed

lemma wr_wrap_token_stays:
  "wr_do_deposit C E a v u = Inr u' \<Longrightarrow> wr_wrap_token u' = wr_wrap_token u"
  "wr_do_withdraw C E a v u = Inr u' \<Longrightarrow> wr_wrap_token u' = wr_wrap_token u"
  by (auto elim!: wr_do_depositE wr_do_withdrawE)

lemma wr_cur_ops_backed:
  assumes laws: "currency_laws C" and backed: "wr_backed_at C E u"
  shows "a \<noteq> wr_account_id E \<Longrightarrow> post (wr_on_native (cur_transfer C a b v req) u) (wr_backed_at C E)"
    and "a \<noteq> wr_account_id E \<Longrightarrow> post (wr_do_deposit C E a v u) (wr_backed_at C E)"
    and "post (wr_do_withdraw C E a v u) (wr_backed_at C E)"
proof -
  have inv: "wr_inv C E u" and tok: "wr_wrap_token u = WW3G" using backed by (simp_all add: wr_backed_at_def)
  have le: "ft_sum (wr_ft u) WW3G \<le> unat (cur_free C (wr_native u) (wr_account_id E))"
    using inv tok by (simp add: wr_inv_def)
  show "post (wr_on_native (cur_transfer C a b v req) u) (wr_backed_at C E)" if "a \<noteq> wr_account_id E"
    using inv tok currency_transfer_ge [OF laws, of a b v req "wr_native u" _ "wr_account_id E"] that
    by (fastforce simp: post_def wr_on_native_def focus_eq_Inr wr_backed_at_def wr_inv_def)
  have call: "wr_backed_at C E u'" if "wr_dispatch C E (Signed a, c) u = Inr u'" "wr_wrap_token u' = WW3G" for c u'
    using wr_dispatch_inv [OF laws inv that(1)] that(2) by (simp add: wr_backed_at_def)
  show "post (wr_do_deposit C E a v u) (wr_backed_at C E)" if "a \<noteq> wr_account_id E"
    using that call [of "WrDeposit v"] tok by (auto simp: post_def wr_deposit_def wr_wrap_token_stays)
  show "post (wr_do_withdraw C E a v u) (wr_backed_at C E)"
  proof (cases "a = wr_account_id E")
    case False
    then show ?thesis
      using call [of "WrWithdraw v"] tok by (auto simp: post_def wr_withdraw_def wr_wrap_token_stays)
  next
    case True
    show ?thesis
      unfolding post_def
    proof (intro allI impI)
      fix u' assume "wr_do_withdraw C E a v u = Inr u'"
      then obtain c s where c: "cur_transfer C a a v KeepAlive (wr_native u) = Inr c"
        and s: "ft_do_burn WW3G a v (wr_ft u) = Inr s"
        and u': "u' = wr_deposit_event (WrWithdrawn a v) (u\<lparr>wr_native := c, wr_ft := s\<rparr>)"
        by (rule wr_do_withdrawE) (simp add: True tok)
      have "cur_free C c = cur_free C (wr_native u)" using laws c by (auto simp: currency_laws_def)
      with inv s ft_do_burn_sum [OF s, of WW3G] le show "wr_backed_at C E u'"
        by (auto simp: wr_backed_at_def wr_inv_def u' tok ft_do_burn_ok)
    qed
  qed
qed

lemma wr_backed_keeper:
  assumes "currency_laws C"
  shows "wr_keeper C E (wr_backed_at C E) (- {wr_account_id E}) (\<lambda>t. t \<noteq> WW3G)"
  using wr_cur_ops_backed [OF assms] by unfold_locales (auto intro: wr_ft_ops_backed)

end
