(* ===== verification/Weights.thy ===== *)
theory Weights
  imports TokenClients PlayerId ProxyPay PrecompilePallets
begin

text \<open>
  The weights of the calls: \<open>W3GWeight\<close> of the pallets' \<open>weights.rs\<close>, which the runtime uses, and the
  constants of the pallets that have no benchmarks. A weight is the measured time in picoseconds and
  the accesses to the database, whose weights (\<open>RocksDbWeight\<close>) are configured.
\<close>

section \<open>Weights of calls\<close>

text \<open>\<open>RuntimeDbWeight\<close>, with \<open>reads\<close> and \<open>writes\<close> as in \<open>frame_support\<close>.\<close>

record db_weight =
  db_read :: u64
  db_write :: u64

definition db_reads :: "db_weight \<Rightarrow> u64 \<Rightarrow> u64" where
  "db_reads db n = saturating_mul (db_read db) n"

definition db_writes :: "db_weight \<Rightarrow> u64 \<Rightarrow> u64" where
  "db_writes db n = saturating_mul (db_write db) n"

text \<open>All the functions have this shape; one of them reads nothing.\<close>

definition measured :: "db_weight \<Rightarrow> u64 \<Rightarrow> u64 \<Rightarrow> u64 \<Rightarrow> u64" where
  "measured db base r w = saturating_add (saturating_add base (db_reads db r)) (db_writes db w)"

fun ft_weight :: "db_weight \<Rightarrow> ft_call \<Rightarrow> u64" where
  "ft_weight db (FtCreateToken _ _ _ _) = measured db 15000000 1 1"
| "ft_weight db (FtApprove _ _ _) = measured db 18000000 2 1"
| "ft_weight db (FtTransferCall _ _ _) = measured db 20000000 2 2"
| "ft_weight db (FtTransferFrom _ _ _ _) = measured db 23000000 3 3"
| "ft_weight db (FtMintCall _ _ _) = measured db 20000000 2 2"
| "ft_weight db (FtBurn _ _) = measured db 19000000 2 2"

fun nft_weight :: "db_weight \<Rightarrow> nft_call \<Rightarrow> u64" where
  "nft_weight db (NftCreateToken _ _ _ _) = measured db 16000000 1 1"
| "nft_weight db (NftApprove _ _ _) = measured db 16000000 1 1"
| "nft_weight db (NftSetApproveForAll _ _ _) = saturating_add 14000000 (db_writes db 1)"
| "nft_weight db (NftTransferFrom _ _ _ _) = measured db 43000000 4 8"
| "nft_weight db (NftMint _ _ _) = measured db 34000000 4 7"
| "nft_weight db (NftBurn _ _) = measured db 49000000 6 8"

fun mt_weight :: "db_weight \<Rightarrow> mt_call \<Rightarrow> u64" where
  "mt_weight db (MtCreateToken _ _) = measured db 15000000 1 1"
| "mt_weight db (MtSetApprovalForAll _ _ _) = measured db 16000000 1 1"
| "mt_weight db (MtTransferFrom _ _ _ _ _) = measured db 20000000 2 2"
| "mt_weight db (MtBatchTransferFrom _ _ _ _ _) = measured db 58000000 10 10"
| "mt_weight db (MtMintCall _ _ _ _) = measured db 21000000 2 2"
| "mt_weight db (MtMintBatch _ _ _ _) = measured db 39000000 6 6"
| "mt_weight db (MtBurnCall _ _ _) = measured db 19000000 2 2"
| "mt_weight db (MtBurnBatch _ _ _) = measured db 43000000 6 6"

fun ex_weight :: "db_weight \<Rightarrow> ex_call \<Rightarrow> u64" where
  "ex_weight db (ExCreatePool _ _) = measured db 58000000 6 5"
| "ex_weight db (ExAddLiquidity _ _ _ _ _ _ _ _) = measured db 84000000 11 8"
| "ex_weight db (ExAddLiquidityW3G _ _ _ _ _ _ _) = measured db 84000000 11 8"
| "ex_weight db (ExRemoveLiquidity _ _ _ _ _ _ _) = measured db 91000000 11 8"
| "ex_weight db (ExRemoveLiquidityW3G _ _ _ _ _ _) = measured db 91000000 11 8"
| "ex_weight db (ExSwapExactTokensForTokens _ _ _ _ _) = measured db 57000000 6 5"
| "ex_weight db (ExSwapExactW3GForTokens _ _ _ _ _) = measured db 57000000 6 5"
| "ex_weight db (ExSwapTokensForExactTokens _ _ _ _ _) = measured db 57000000 6 5"
| "ex_weight db (ExSwapTokensForExactW3G _ _ _ _ _) = measured db 57000000 6 5"
| "ex_weight db (ExSetFeeToCall _) = 10000"

fun fa_weight :: "db_weight \<Rightarrow> fa_call \<Rightarrow> u64" where
  "fa_weight db (FaSetAdmin _) = measured db 5000000 1 1"
| "fa_weight db (FaCreatePool _ _ _ _ _ _) = measured db 30000000 4 4"
| "fa_weight db (FaStakingCall _ _) = measured db 32000000 4 4"
| "fa_weight db (FaClaimCall _) = measured db 49000000 6 5"
| "fa_weight db (FaForceClaim _ _) = measured db 34000000 5 4"

fun lp_weight :: "db_weight \<Rightarrow> lp_call \<Rightarrow> u64" where
  "lp_weight db (LpCreatePool _ _ _ _ _ _) = measured db 28000000 3 4"
| "lp_weight db (LpBuyTokenCall _ _) = measured db 37000000 5 4"
| "lp_weight db (LpClaimCall _) = measured db 37000000 4 3"
| "lp_weight db (LpOwnerClaimCall _) = measured db 43000000 5 4"

text \<open>The calls of the other pallets have a constant weight.\<close>

definition mp_weight :: "mp_call \<Rightarrow> u64" where "mp_weight c = 10000"

definition pid_weight :: "pid_call \<Rightarrow> u64" where "pid_weight c = 10000"

definition pp_weight :: "pp_call \<Rightarrow> u64" where "pp_weight c = 10000"

definition sw_weight :: "sw_call \<Rightarrow> u64" where "sw_weight c = 2000"

section \<open>Bounds\<close>

text \<open>
  The weights of the database of \<open>frame_support\<close> are 25 and 100 microseconds; what follows needs no more
  than that they are not larger.
\<close>

definition db_usual :: "db_weight \<Rightarrow> bool" where
  "db_usual db \<longleftrightarrow> db_read db \<le> 25000000 \<and> db_write db \<le> 100000000"

definition RocksDbWeight :: db_weight where
  "RocksDbWeight = \<lparr>db_read = 25000000, db_write = 100000000\<rparr>"

lemma db_accesses:
  assumes "db_usual db" and "unat n \<le> k"
  shows "unat (db_read db) * unat n \<le> 25000000 * k" and "unat (db_write db) * unat n \<le> 100000000 * k"
  using assms by (auto simp: db_usual_def word_le_nat_alt intro: mult_le_mono)

lemma measured_value:
  assumes "db_usual db" and "base \<le> 100000000" and "r \<le> 100" and "w \<le> 100"
  shows "unat (measured db base r w) = unat base + unat (db_read db) * unat r + unat (db_write db) * unat w"
proof -
  have "unat (db_read db) * unat r \<le> 25000000 * 100" "unat (db_write db) * unat w \<le> 100000000 * 100"
    using db_accesses(1) [OF assms(1), of r 100] db_accesses(2) [OF assms(1), of w 100] assms(3, 4)
    by (simp_all add: word_le_nat_alt)
  moreover have "unat base \<le> 100000000" using assms(2) by (simp add: word_le_nat_alt)
  ultimately show ?thesis
    by (simp add: measured_def db_reads_def db_writes_def unat_saturating_add unat_saturating_mul)
qed

lemma measured_bound:
  assumes "db_usual db" and "base \<le> 100000000" and "r \<le> 11" and "w \<le> 10"
  shows "unat (measured db base r w) \<le> 1375000000"
proof -
  have "unat (db_read db) * unat r \<le> 25000000 * 11" "unat (db_write db) * unat w \<le> 100000000 * 10"
    using db_accesses(1) [OF assms(1), of r 11] db_accesses(2) [OF assms(1), of w 10] assms(3, 4)
    by (simp_all add: word_le_nat_alt)
  with assms show ?thesis
    by (subst measured_value) (auto simp: word_le_nat_alt)
qed

lemma nft_weight_no_reads: "saturating_add 14000000 (db_writes db 1) = measured db 14000000 0 1"
  by (simp add: measured_def db_reads_def saturating_mul_def saturating_add_def)

lemma weight_bounds:
  assumes "db_usual db"
  shows "unat (ft_weight db a) \<le> 1375000000" and "unat (nft_weight db b) \<le> 1375000000"
    and "unat (mt_weight db c) \<le> 1375000000" and "unat (ex_weight db d) \<le> 1375000000"
    and "unat (fa_weight db e) \<le> 1375000000" and "unat (lp_weight db f) \<le> 1375000000"
proof -
  note m = measured_bound [OF assms]
  show "unat (ft_weight db a) \<le> 1375000000" by (cases a) (simp_all add: m)
  show "unat (nft_weight db b) \<le> 1375000000" by (cases b) (simp_all add: m nft_weight_no_reads)
  show "unat (mt_weight db c) \<le> 1375000000" by (cases c) (simp_all add: m)
  show "unat (ex_weight db d) \<le> 1375000000" by (cases d) (simp_all add: m)
  show "unat (fa_weight db e) \<le> 1375000000" by (cases e) (simp_all add: m)
  show "unat (lp_weight db f) \<le> 1375000000" by (cases f) (simp_all add: m)
qed

end
