(* ===== verification/Runtime.thy ===== *)
theory Runtime
  imports TokenClients PlayerId ProxyPay PrecompilePallets
begin

text \<open>
  The runtime (\<open>runtime/web3games/src/lib.rs\<close>, \<open>construct_runtime!\<close>) with the storage of all its own
  pallets side by side, the genesis builds that a configuration gives,
  the dispatch of a call through the call filter, and a whole transaction: the fee is charged through
  \<open>ProxyPay\<close>, the call is dispatched, the fee is corrected. The theorems say what holds of all pallets
  together, whoever calls what in whatever order.
\<close>

section \<open>Storage\<close>

text \<open>
  Every pallet has its storage once. The worlds of the pallets that call others (\<open>ex_world\<close> and so on)
  hold a copy of what they reach; here the shared parts are the first four fields, and a pallet is run on
  the view that has them filled in, from which they are written back.
\<close>

record 'c runtime_world =
  rt_ft :: ft_storage
  rt_nft :: nft_storage
  rt_mt :: mt_storage
  rt_cur :: 'c
  rt_ex :: "'c ex_world"
  rt_pp :: "'c pp_world"
  rt_mp :: "'c mp_world"
  rt_pid :: pid_storage
  rt_sw :: sw_storage
  rt_fa :: fa_world
  rt_lp :: lp_world
  rt_chain_id :: chain_id_storage

definition rt_wr_view :: "'c runtime_world \<Rightarrow> 'c wr_world" where
  "rt_wr_view w = (ex_wr (rt_ex w))\<lparr>wr_native := rt_cur w, wr_ft := rt_ft w\<rparr>"

definition rt_ex_view :: "'c runtime_world \<Rightarrow> 'c ex_world" where
  "rt_ex_view w = (rt_ex w)\<lparr>ex_wr := rt_wr_view w\<rparr>"

definition rt_put_ex :: "'c ex_world \<Rightarrow> 'c runtime_world \<Rightarrow> 'c runtime_world" where
  "rt_put_ex x w = w\<lparr>rt_ex := x, rt_ft := ex_ft x, rt_cur := wr_native (ex_wr x)\<rparr>"

definition rt_on_ex :: "('c ex_world \<Rightarrow> 'c ex_world dispatch) \<Rightarrow> 'c runtime_world \<Rightarrow> 'c runtime_world dispatch" where
  "rt_on_ex = focus rt_ex_view rt_put_ex"

definition rt_mp_view :: "'c runtime_world \<Rightarrow> 'c mp_world" where
  "rt_mp_view w = (rt_mp w)\<lparr>mp_nft := rt_nft w, mp_mt := rt_mt w, mp_cur := rt_cur w\<rparr>"

definition rt_put_mp :: "'c mp_world \<Rightarrow> 'c runtime_world \<Rightarrow> 'c runtime_world" where
  "rt_put_mp x w = w\<lparr>rt_mp := x, rt_nft := mp_nft x, rt_mt := mp_mt x, rt_cur := mp_cur x\<rparr>"

definition rt_pp_view :: "'c runtime_world \<Rightarrow> 'c pp_world" where
  "rt_pp_view w = (rt_pp w)\<lparr>pp_cur := rt_cur w\<rparr>"

definition rt_put_pp :: "'c pp_world \<Rightarrow> 'c runtime_world \<Rightarrow> 'c runtime_world" where
  "rt_put_pp x w = w\<lparr>rt_pp := x, rt_cur := pp_cur x\<rparr>"

definition rt_fa_view :: "'c runtime_world \<Rightarrow> fa_world" where
  "rt_fa_view w = (rt_fa w)\<lparr>fa_ft := rt_ft w\<rparr>"

definition rt_put_fa :: "fa_world \<Rightarrow> 'c runtime_world \<Rightarrow> 'c runtime_world" where
  "rt_put_fa x w = w\<lparr>rt_fa := x, rt_ft := fa_ft x\<rparr>"

definition rt_lp_view :: "'c runtime_world \<Rightarrow> lp_world" where
  "rt_lp_view w = (rt_lp w)\<lparr>lp_ft := rt_ft w\<rparr>"

definition rt_put_lp :: "lp_world \<Rightarrow> 'c runtime_world \<Rightarrow> 'c runtime_world" where
  "rt_put_lp x w = w\<lparr>rt_lp := x, rt_ft := lp_ft x\<rparr>"

section \<open>Calls\<close>

text \<open>
  The calls of the pallets of this repository, with the names that \<open>construct_runtime!\<close> gives the
  pallets (two of them misspelt), and the transfer of the native currency.
\<close>

datatype wrap_call = WrapDeposit u128 | WrapWithdraw u128

datatype runtime_call =
    RtBalancesTransfer account u128
  | RtTokenFungible ft_call
  | RtTokenNonFungible nft_call
  | RtTokenMulti mt_call
  | RtExchange ex_call
  | RtWrapCurrency wrap_call
  | RtProxyPay pp_call
  | RtMartketplace mp_call
  | RtPalyerId pid_call
  | RtCallSwitchgear sw_call
  | RtFarming fa_call
  | RtLaunchpad lp_call

fun wrap_call_name :: "wrap_call \<Rightarrow> string" where
  "wrap_call_name (WrapDeposit _) = ''deposit''"
| "wrap_call_name (WrapWithdraw _) = ''withdraw''"

fun pp_call_name :: "pp_call \<Rightarrow> string" where
  "pp_call_name (PpCreateProgram _) = ''create_program''"
| "pp_call_name (PpTransferProgramOwner _ _) = ''transfer_program_owner''"
| "pp_call_name (PpAddProxyPayCall _ _) = ''add_proxy_pay''"
| "pp_call_name (PpSetProxyPayCall _ _) = ''set_proxy_pay''"

fun pid_call_name :: "pid_call \<Rightarrow> string" where
  "pid_call_name (PidRegister _ _) = ''register''"
| "pid_call_name (PidAddAddress _ _ _) = ''add_address''"
| "pid_call_name (PidRemoveAddress _ _ _) = ''remove_address''"

fun sw_call_name :: "sw_call \<Rightarrow> string" where
  "sw_call_name (SwitchoffTransaction _ _) = ''switchoff_transaction''"
| "sw_call_name (SwitchonTransaction _ _) = ''switchon_transaction''"

fun rt_call_names :: "runtime_call \<Rightarrow> string \<times> string" where
  "rt_call_names (RtBalancesTransfer _ _) = (''Balances'', ''transfer'')"
| "rt_call_names (RtTokenFungible c) = (''TokenFungible'', ft_call_name c)"
| "rt_call_names (RtTokenNonFungible c) = (''TokenNonFungible'', nft_call_name c)"
| "rt_call_names (RtTokenMulti c) = (''TokenMulti'', mt_call_name c)"
| "rt_call_names (RtExchange c) = (''Exchange'', ex_call_name c)"
| "rt_call_names (RtWrapCurrency c) = (''WrapCurrency'', wrap_call_name c)"
| "rt_call_names (RtProxyPay c) = (''ProxyPay'', pp_call_name c)"
| "rt_call_names (RtMartketplace c) = (''Martketplace'', mp_call_name c)"
| "rt_call_names (RtPalyerId c) = (''PalyerId'', pid_call_name c)"
| "rt_call_names (RtCallSwitchgear c) = (''CallSwitchgear'', sw_call_name c)"
| "rt_call_names (RtFarming c) = (''Farming'', fa_call_name c)"
| "rt_call_names (RtLaunchpad c) = (''Launchpad'', lp_call_name c)"

definition rt_metadata :: "runtime_call \<Rightarrow> call_metadata" where
  "rt_metadata c = \<lparr>call_pallet_name = name_bytes (fst (rt_call_names c)),
     call_function_name = name_bytes (snd (rt_call_names c))\<rparr>"

fun wrap_dispatch :: "'c currency \<Rightarrow> env \<Rightarrow> origin \<Rightarrow> wrap_call \<Rightarrow> 'c wr_world \<Rightarrow> 'c wr_world dispatch" where
  "wrap_dispatch C E orig (WrapDeposit v) u = wr_deposit C E orig v u"
| "wrap_dispatch C E orig (WrapWithdraw v) u = wr_withdraw C E orig v u"

text \<open>The pallet of the call does it, on its view of the storage.\<close>

fun rt_pallet_dispatch ::
  "'c currency \<Rightarrow> env \<Rightarrow> ex_params \<Rightarrow> origin \<Rightarrow> runtime_call \<Rightarrow> 'c runtime_world \<Rightarrow> 'c runtime_world dispatch" where
  "rt_pallet_dispatch C E X orig (RtBalancesTransfer dest v) w =
     and_then (ensure_signed orig) (\<lambda>who.
     focus rt_cur (\<lambda>c w. w\<lparr>rt_cur := c\<rparr>) (cur_transfer C who dest v AllowDeath) w)"
| "rt_pallet_dispatch C E X orig (RtTokenFungible c) w =
     focus rt_ft (\<lambda>s w. w\<lparr>rt_ft := s\<rparr>) (ft_dispatch (orig, c)) w"
| "rt_pallet_dispatch C E X orig (RtTokenNonFungible c) w =
     focus rt_nft (\<lambda>s w. w\<lparr>rt_nft := s\<rparr>) (nft_dispatch (orig, c)) w"
| "rt_pallet_dispatch C E X orig (RtTokenMulti c) w =
     focus rt_mt (\<lambda>s w. w\<lparr>rt_mt := s\<rparr>) (mt_dispatch (orig, c)) w"
| "rt_pallet_dispatch C E X orig (RtExchange c) w = rt_on_ex (ex_call_dispatch C E X orig c) w"
| "rt_pallet_dispatch C E X orig (RtWrapCurrency c) w = rt_on_ex (ex_on_wr (wrap_dispatch C E orig c)) w"
| "rt_pallet_dispatch C E X orig (RtProxyPay c) w = focus rt_pp_view rt_put_pp (pp_call_dispatch E orig c) w"
| "rt_pallet_dispatch C E X orig (RtMartketplace c) w = focus rt_mp_view rt_put_mp (mp_call_dispatch C E orig c) w"
| "rt_pallet_dispatch C E X orig (RtPalyerId c) w =
     focus rt_pid (\<lambda>s w. w\<lparr>rt_pid := s\<rparr>) (pid_dispatch (orig, c)) w"
| "rt_pallet_dispatch C E X orig (RtCallSwitchgear c) w =
     focus rt_sw (\<lambda>s w. w\<lparr>rt_sw := s\<rparr>) (sw_dispatch (orig, c)) w"
| "rt_pallet_dispatch C E X orig (RtFarming c) w = focus rt_fa_view rt_put_fa (fa_call_dispatch E orig c) w"
| "rt_pallet_dispatch C E X orig (RtLaunchpad c) w =
     focus rt_lp_view rt_put_lp (lp_dispatch E (env_now E, orig, c)) w"

text \<open>
  \<open>type BaseCallFilter = CallFilter\<close>: FRAME checks the filter for every origin but root.
\<close>

definition rt_dispatch ::
  "'c currency \<Rightarrow> env \<Rightarrow> ex_params \<Rightarrow> origin \<Rightarrow> runtime_call \<Rightarrow> 'c runtime_world \<Rightarrow> 'c runtime_world dispatch" where
  "rt_dispatch C E X orig c w =
     ensure (orig = Root \<or> call_filter_contains (rt_sw w) (rt_metadata c)) CallFiltered (
     rt_pallet_dispatch C E X orig c w)"

section \<open>Transactions\<close>

text \<open>
  A signed transaction, with the fee computed for it, its tip, and the fee it turns out to cost. It is
  refused when the fee cannot be charged or corrected, or when the call panics; a call that fails leaves
  only the charging of the fee behind. \<open>on_unbalanceds\<close> is the treasury.
\<close>

record rt_transaction =
  tx_signer :: account
  tx_fee :: u128
  tx_tip :: u128
  tx_corrected_fee :: u128
  tx_call :: runtime_call

definition storage_layer :: "'s dispatch \<Rightarrow> 's \<Rightarrow> pp_validity_error + 's" where
  "storage_layer r w = (case r of Inr w' \<Rightarrow> Inr w' | Inl e \<Rightarrow> if e = Panicked then Inl PpPanic else Inr w)"

lemma storage_layer_eq_Inr:
  "storage_layer r w = Inr w' \<longleftrightarrow> r = Inr w' \<or> (\<exists>e. r = Inl e \<and> e \<noteq> Panicked \<and> w' = w)"
  by (auto simp: storage_layer_def split: sum.splits)

definition rt_apply ::
  "'c currency \<Rightarrow> (u128 list \<Rightarrow> 'c \<Rightarrow> 'c) \<Rightarrow> env \<Rightarrow> ex_params \<Rightarrow> rt_transaction \<Rightarrow> 'c runtime_world
     \<Rightarrow> pp_validity_error + 'c runtime_world" where
  "rt_apply C on_unbalanceds E X t w =
     and_then (pp_withdraw_fee C (tx_signer t) (tx_fee t) (tx_tip t) (rt_pp_view w)) (\<lambda>(paid, p).
     let w = rt_put_pp p w in
     and_then (storage_layer (rt_dispatch C E X (Signed (tx_signer t)) (tx_call t) w) w) (\<lambda>w.
     focus rt_pp_view rt_put_pp
       (pp_correct_and_deposit_fee C on_unbalanceds (tx_signer t) (tx_corrected_fee t) (tx_tip t) paid) w))"

section \<open>Genesis\<close>

definition CreateTokenDeposit :: u128 where "CreateTokenDeposit = 5000000000000000"

text \<open>
  \<open>GenesisConfig\<close>: what a chain is started with, for the pallets of Substrate too. Keys of authorities
  and accounts are 32 bytes.
\<close>

record genesis_account =
  ga_nonce :: u256
  ga_balance :: u256
  ga_storage :: "u256 \<rightharpoonup> u256"
  ga_code :: bytes

record genesis_config =
  gc_code :: bytes
  gc_balances :: "(account \<times> u128) list"
  gc_aura :: "u256 list"
  gc_grandpa :: "(u256 \<times> u64) list"
  gc_sudo :: "account option"
  gc_chain_id :: u64
  gc_evm :: "h160 \<rightharpoonup> genesis_account"
  gc_base_fee_per_gas :: u256
  gc_is_active :: bool
  gc_elasticity :: u32
  gc_admin_key :: "account option"

text \<open>
  The genesis builds of the pallets: the endowed accounts get their money from \<open>pallet_balances\<close>
  (\<open>build_balances\<close>), the chain id is stored, the wrap pallet creates its token and asserts that this
  worked, the marketplace gets its administrator. All other storage is empty.
\<close>

definition rt_empty :: "'c \<Rightarrow> 'c runtime_world" where
  "rt_empty c = \<lparr>rt_ft = ft_genesis, rt_nft = nft_genesis, rt_mt = mt_genesis, rt_cur = c,
     rt_ex = \<lparr>ex_wr = \<lparr>wr_ft = ft_genesis, wr_native = c, wr_wrap_token = 0, wr_events = []\<rparr>,
       ex_pools = Map.empty, ex_next_pool_id = 0, ex_lp_token_to_token = Map.empty, ex_reserves = (\<lambda>_. (0, 0)),
       ex_k_last = (\<lambda>_. 0), ex_fee_to = None, ex_events = []\<rparr>,
     rt_pp = \<lparr>pp_cur = c, pp_next_program_id = 0, pp_program_info = Map.empty, pp_account_programs = (\<lambda>_. []),
       pp_proxy_pay_times = (\<lambda>_. 0), pp_events = []\<rparr>,
     rt_mp = \<lparr>mp_nft = nft_genesis, mp_mt = mt_genesis, mp_cur = c, mp_admin = None, mp_point = 0,
       mp_orders = Map.empty, mp_bids = Map.empty, mp_events = []\<rparr>,
     rt_pid = pid_genesis, rt_sw = sw_genesis,
     rt_fa = \<lparr>fa_ft = ft_genesis, fa_admin = None, fa_next_pool_id = 0, fa_pools = Map.empty,
       fa_locked = Map.empty, fa_events = []\<rparr>,
     rt_lp = \<lparr>lp_ft = ft_genesis, lp_next_pool_id = 0, lp_pools = Map.empty, lp_locked = Map.empty, lp_events = []\<rparr>,
     rt_chain_id = \<lparr>chain_id = 0\<rparr>\<rparr>"

definition rt_build ::
  "'c currency \<Rightarrow> env \<Rightarrow> ((account \<times> u128) list \<Rightarrow> 'c) \<Rightarrow> genesis_config \<Rightarrow> 'c runtime_world dispatch" where
  "rt_build C E build_balances g =
     (let w = rt_empty (build_balances (gc_balances g));
          w = w\<lparr>rt_chain_id := chain_id_build (gc_chain_id g) (rt_chain_id w)\<rparr> in
      and_then (rt_on_ex (ex_on_wr (\<lambda>u. case wr_create_wrap_token C E CreateTokenDeposit u of
                  Inl _ \<Rightarrow> Inl Panicked | Inr u' \<Rightarrow> Inr u')) w) (\<lambda>w.
      Inr (w\<lparr>rt_mp := mp_build (gc_admin_key g) (rt_mp w)\<rparr>)))"

section \<open>Specification\<close>

text \<open>
  The accounts derived from pallet ids. Nobody has a key for one of them, and the derivation keeps the
  accounts of different pallets apart, as far as their ids are different (launchpad and farming have the
  same one).
\<close>

definition rt_pallet_accounts :: "env \<Rightarrow> account set" where
  "rt_pallet_accounts E =
     {wr_account_id E, ex_account_id E, mp_account_id E} \<union> ex_sub_accounts E \<union> fa_escrows E
       \<union> range (pp_proxy_pay_account_id E)"

definition rt_users :: "env \<Rightarrow> account set" where
  "rt_users E = - rt_pallet_accounts E"

definition rt_accounts_apart :: "env \<Rightarrow> bool" where
  "rt_accounts_apart E \<longleftrightarrow>
     wr_account_id E \<notin> {ex_account_id E} \<union> ex_sub_accounts E \<union> fa_escrows E \<union> range (pp_proxy_pay_account_id E) \<and>
     fa_escrows E \<inter> ex_sub_accounts E = {}"

text \<open>
  What a call must satisfy besides: the id drawn for a liquidity token is fresh and is not the id of the
  wrapped token, and root does not make the vault the administrator of the marketplace.
\<close>

definition rt_allowed :: "env \<Rightarrow> ex_params \<Rightarrow> origin \<Rightarrow> runtime_call \<Rightarrow> 'c runtime_world \<Rightarrow> bool" where
  "rt_allowed E X orig c w \<longleftrightarrow> by_user (rt_users E) orig \<and>
     (case c of
        RtExchange ec \<Rightarrow> ex_fresh E X ec (rt_ex w) \<and> (\<forall>a b. random_id X a b \<noteq> WW3G)
      | RtMartketplace (MpSetAdmin a) \<Rightarrow> a \<noteq> wr_account_id E
      | _ \<Rightarrow> True)"

text \<open>
  The invariants of all pallets together, in three groups: fungible tokens with the wrapped currency and
  the exchange; assets with the marketplace; and the rest.
\<close>

definition rt_fungible_ok :: "'c currency \<Rightarrow> env \<Rightarrow> 'c runtime_world \<Rightarrow> bool" where
  "rt_fungible_ok C E w \<longleftrightarrow> ft_inv (rt_ft w) \<and> wr_backed_at C E (rt_wr_view w) \<and> ex_inv E (rt_ex_view w)"

definition rt_assets_ok :: "env \<Rightarrow> 'c runtime_world \<Rightarrow> bool" where
  "rt_assets_ok E w \<longleftrightarrow> mt_inv (rt_mt w) \<and> mp_inv E (rt_mp_view w) \<and> mp_admin_in (- {wr_account_id E}) (rt_mp w)"

definition rt_rest_ok :: "env \<Rightarrow> 'c runtime_world \<Rightarrow> bool" where
  "rt_rest_ok E w \<longleftrightarrow> pid_inv (rt_pid w) \<and> pp_inv E (rt_pp w) \<and>
     (\<forall>p pool. fa_pools (rt_fa w) p = Some pool \<longrightarrow> fa_escrow_account pool \<in> fa_escrows E) \<and>
     (\<forall>p pool. lp_pools (rt_lp w) p = Some pool \<longrightarrow> lp_escrow_account pool \<in> lp_escrows E)"

definition rt_inv :: "'c currency \<Rightarrow> env \<Rightarrow> 'c runtime_world \<Rightarrow> bool" where
  "rt_inv C E w \<longleftrightarrow> rt_fungible_ok C E w \<and> rt_assets_ok E w \<and> rt_rest_ok E w"

section \<open>The groups\<close>

lemmas rt_views = rt_wr_view_def rt_ex_view_def rt_mp_view_def rt_pp_view_def rt_fa_view_def rt_lp_view_def
lemmas rt_puts = rt_put_ex_def rt_put_mp_def rt_put_pp_def rt_put_fa_def rt_put_lp_def

lemma rt_users_out:
  assumes "a \<in> rt_users E"
  shows "a \<noteq> wr_account_id E" and "a \<noteq> mp_account_id E" and "a \<notin> ex_sub_accounts E" and "a \<notin> fa_escrows E"
    and "a \<notin> range (pp_proxy_pay_account_id E)"
  using assms by (auto simp: rt_users_def rt_pallet_accounts_def)

lemma lp_escrows_eq [simp]: "lp_escrows E = fa_escrows E"
  by (simp add: lp_escrows_def fa_escrows_def lp_escrow_account_id_def fa_escrow_account_id_def fun_eq_iff)

lemma rt_env_now [simp]:
  "wr_account_id (E\<lparr>env_now := n\<rparr>) = wr_account_id E"
  "ex_account_id (E\<lparr>env_now := n\<rparr>) = ex_account_id E"
  "ex_sub_accounts (E\<lparr>env_now := n\<rparr>) = ex_sub_accounts E"
  "fa_escrows (E\<lparr>env_now := n\<rparr>) = fa_escrows E"
  "pp_inv (E\<lparr>env_now := n\<rparr>) = pp_inv E"
  "wr_backed_at C (E\<lparr>env_now := n\<rparr>) = wr_backed_at C E"
  "wr_dispatch C (E\<lparr>env_now := n\<rparr>) = wr_dispatch C E"
  by (simp_all add: fun_eq_iff wr_account_id_def ex_account_id_def ex_sub_accounts_def ex_token_id_to_account_id_def
      fa_escrows_def pp_inv_def pp_proxy_pay_account_id_def wr_backed_at_def wr_inv_def wr_do_deposit_def wr_do_withdraw_def
      wr_deposit_def wr_withdraw_def split: wr_call.split)

text \<open>Money may move as long as the vault loses none.\<close>

lemma rt_fungible_cur:
  assumes "rt_fungible_ok C E w" and "unat (cur_free C (rt_cur w) (wr_account_id E)) \<le> unat (cur_free C c (wr_account_id E))"
    and "rt_ft w' = rt_ft w" and "rt_ex w' = rt_ex w" and "rt_cur w' = c"
  shows "rt_fungible_ok C E w'"
proof -
  have "ex_inv E (rt_ex_view w') \<longleftrightarrow> ex_inv E (rt_ex_view w)"
    by (simp add: ex_inv_def ex_pool_ok_def ex_ft_def rt_views assms cong: option.case_cong)
  with assms show ?thesis
    by (auto simp: rt_fungible_ok_def wr_backed_at_def wr_inv_def rt_views)
qed

lemma rt_assets_cur:
  assumes "rt_assets_ok E w" and "rt_nft w' = rt_nft w" and "rt_mt w' = rt_mt w" and "rt_mp w' = rt_mp w"
  shows "rt_assets_ok E w'"
proof -
  have "mp_inv E (rt_mp_view w') \<longleftrightarrow> mp_inv E (rt_mp_view w)"
    by (rule mp_inv_cong) (simp_all add: rt_views assms)
  with assms show ?thesis by (simp add: rt_assets_ok_def)
qed

lemma rt_rest_same:
  assumes "rt_rest_ok E w" and "rt_pid w' = rt_pid w" and "rt_pp w' = rt_pp w" and "rt_fa w' = rt_fa w" and "rt_lp w' = rt_lp w"
  shows "rt_rest_ok E w'"
  using assms by (simp add: rt_rest_ok_def)

text \<open>Writing a view back and reading it again gives the view.\<close>

lemma rt_view_put [simp]:
  "rt_ex_view (rt_put_ex x w) = x" "rt_wr_view (rt_put_ex x w) = ex_wr x"
  "rt_mp_view (rt_put_mp y w) = y"
  by (simp_all add: rt_views rt_puts ex_ft_def)

lemma rt_put_same [simp]:
  "rt_nft (rt_put_ex x w) = rt_nft w" "rt_mt (rt_put_ex x w) = rt_mt w" "rt_mp (rt_put_ex x w) = rt_mp w"
  "rt_pid (rt_put_ex x w) = rt_pid w" "rt_pp (rt_put_ex x w) = rt_pp w" "rt_fa (rt_put_ex x w) = rt_fa w"
  "rt_lp (rt_put_ex x w) = rt_lp w" "rt_ft (rt_put_ex x w) = wr_ft (ex_wr x)"
  by (simp_all add: rt_puts ex_ft_def)

lemma ex_fresh_view: "ex_fresh E X c (rt_ex_view w) \<longleftrightarrow> ex_fresh E X c (rt_ex w)"
  by (auto simp: ex_fresh_def rt_views split: ex_call.splits)

lemma rt_fungible_put:
  "rt_fungible_ok C E (rt_put_ex x w) \<longleftrightarrow> ft_inv (wr_ft (ex_wr x)) \<and> wr_backed_at C E (ex_wr x) \<and> ex_inv E x"
  by (simp add: rt_fungible_ok_def)

section \<open>Calls on fungible tokens\<close>

lemma rt_backed_keeper:
  assumes "currency_laws C" and "rt_accounts_apart E"
  shows "ex_keeper C (E\<lparr>env_now := n\<rparr>) (wr_backed_at C E) (- {wr_account_id E}) (\<lambda>t. t \<noteq> WW3G)"
proof -
  have "wr_keeper C (E\<lparr>env_now := n\<rparr>) (wr_backed_at C E) (- {wr_account_id E}) (\<lambda>t. t \<noteq> WW3G)"
    using wr_backed_keeper [OF assms(1), of "E\<lparr>env_now := n\<rparr>"] by simp
  with assms(2) show ?thesis
    by (auto simp: ex_keeper_def ex_keeper_axioms_def rt_accounts_apart_def)
qed

lemma rt_exchange_ok:
  assumes laws: "currency_laws C" and apart: "rt_accounts_apart E" and ok: "rt_fungible_ok C E w"
    and orig: "by_user (rt_users E) orig" and fresh: "ex_fresh E X c (rt_ex w)" "\<And>a b. random_id X a b \<noteq> WW3G"
    and call: "ex_call_dispatch C (E\<lparr>env_now := n\<rparr>) X orig c (rt_ex_view w) = Inr x"
  shows "rt_fungible_ok C E (rt_put_ex x w)"
  unfolding rt_fungible_put
proof (intro conjI)
  have pools: "pool_lp_account pool \<in> ex_sub_accounts E" if "ex_pools (rt_ex_view w) k = Some pool" for k pool
    by (rule ex_inv_pool_account [OF _ that]) (use ok in \<open>simp add: rt_fungible_ok_def\<close>)
  have "ex_kept (\<lambda>u. ft_inv (wr_ft u)) UNIV (rt_ex_view w)"
    using ok by (simp add: ex_kept_def rt_fungible_ok_def rt_views)
  then have "post (ex_call_dispatch C (E\<lparr>env_now := n\<rparr>) X orig c (rt_ex_view w)) (ex_kept (\<lambda>u. ft_inv (wr_ft u)) UNIV)"
    by (rule ftc.ex_dispatch_keeps) (simp_all add: by_user_def)
  from postD [OF this call] show "ft_inv (wr_ft (ex_wr x))" by (simp add: ex_kept_def)
  have user: "by_user (- {wr_account_id E}) orig"
    using orig rt_users_out(1) by (auto simp: by_user_def)
  have "ex_kept (wr_backed_at C E) (- {wr_account_id E}) (rt_ex_view w)"
    using ok apart pools by (force simp: ex_kept_def rt_fungible_ok_def rt_views rt_accounts_apart_def)
  from postD [OF ex_keeper.ex_dispatch_keeps [OF rt_backed_keeper [OF laws apart] this user fresh(2)] call]
  show "wr_backed_at C E (ex_wr x)" by (simp add: ex_kept_def)
  show "ex_inv E x"
    by (rule ex_call_inv [OF _ _ _ call])
      (use ok orig fresh(1) rt_users_out(3) in \<open>auto simp: rt_fungible_ok_def by_user_def ex_fresh_view\<close>)
qed

text \<open>Wrap calls, token calls and native transfers are the calls of \<open>wr_dispatch\<close>.\<close>

lemma rt_wr_ok:
  assumes laws: "currency_laws C" and ok: "rt_fungible_ok C E w" and orig: "by_user (rt_users E) orig"
    and call: "wr_dispatch C E (orig, c) (rt_wr_view w) = Inr u" and ft: "ft_inv (wr_ft u)"
    and tok: "wr_wrap_token u = wr_wrap_token (rt_wr_view w)"
  shows "rt_fungible_ok C E (rt_put_ex ((rt_ex_view w)\<lparr>ex_wr := u\<rparr>) w)"
  unfolding rt_fungible_put
proof (intro conjI)
  show "wr_backed_at C E (ex_wr ((rt_ex_view w)\<lparr>ex_wr := u\<rparr>))"
    using wr_dispatch_inv [OF laws _ call] ok tok by (simp add: wr_backed_at_def rt_fungible_ok_def)
  have "ex_on_wr (wr_dispatch C E (orig, c)) (rt_ex_view w) = Inr ((rt_ex_view w)\<lparr>ex_wr := u\<rparr>)"
    using call by (simp add: ex_on_wr_ok rt_ex_view_def)
  from ex_wrap_inv [OF _ _ this] show "ex_inv E ((rt_ex_view w)\<lparr>ex_wr := u\<rparr>)"
    using ok orig rt_users_out(3) by (auto simp: rt_fungible_ok_def by_user_def)
qed (use ft in simp)

lemma rt_wrap_ok:
  assumes laws: "currency_laws C" and ok: "rt_fungible_ok C E w" and orig: "by_user (rt_users E) orig"
    and call: "wrap_dispatch C (E\<lparr>env_now := n\<rparr>) orig c (rt_wr_view w) = Inr u"
  shows "rt_fungible_ok C E (rt_put_ex ((rt_ex_view w)\<lparr>ex_wr := u\<rparr>) w)"
proof (cases c)
  case (WrapDeposit v)
  with call obtain a where a: "orig = Signed a" and d: "wr_do_deposit C E a v (rt_wr_view w) = Inr u"
    by (auto simp: wr_deposit_def wr_do_deposit_def result_eqs)
  have "wr_dispatch C E (orig, WrDeposit v) (rt_wr_view w) = Inr u"
    using a d orig rt_users_out(1) by (auto simp: by_user_def wr_deposit_def)
  moreover have "ft_inv (wr_ft u)"
    using postD [OF wr_ops_ft_inv(1) d] ok by (simp add: rt_fungible_ok_def rt_views)
  ultimately show ?thesis using wr_wrap_token_stays(1) [OF d] by (rule rt_wr_ok [OF laws ok orig])
next
  case (WrapWithdraw v)
  with call obtain a where a: "orig = Signed a" and d: "wr_do_withdraw C E a v (rt_wr_view w) = Inr u"
    by (auto simp: wr_withdraw_def wr_do_withdraw_def result_eqs)
  have "wr_dispatch C E (orig, WrWithdraw v) (rt_wr_view w) = Inr u"
    using a d orig rt_users_out(1) by (auto simp: by_user_def wr_withdraw_def)
  moreover have "ft_inv (wr_ft u)"
    using postD [OF wr_ops_ft_inv(2) d] ok by (simp add: rt_fungible_ok_def rt_views)
  ultimately show ?thesis using wr_wrap_token_stays(2) [OF d] by (rule rt_wr_ok [OF laws ok orig])
qed

lemma rt_token_ok:
  assumes laws: "currency_laws C" and ok: "rt_fungible_ok C E w" and orig: "by_user (rt_users E) orig"
    and call: "ft_dispatch (orig, c) (rt_ft w) = Inr s"
  shows "rt_fungible_ok C E (w\<lparr>rt_ft := s\<rparr>)"
proof -
  let ?u = "(rt_wr_view w)\<lparr>wr_ft := s\<rparr>"
  have "wr_dispatch C E (orig, WrToken c) (rt_wr_view w) = Inr ?u"
    using call orig rt_users_out(1) by (auto simp: by_user_def wr_on_ft_def focus_def rt_wr_view_def ensure_def)
  moreover have "ft_inv (wr_ft ?u)" using ft_dispatch_inv [OF _ call] ok by (simp add: rt_fungible_ok_def)
  ultimately have "rt_fungible_ok C E (rt_put_ex ((rt_ex_view w)\<lparr>ex_wr := ?u\<rparr>) w)"
    by (rule rt_wr_ok [OF laws ok orig]) simp
  then show ?thesis by (simp add: rt_fungible_ok_def rt_views rt_puts ex_ft_def)
qed

text \<open>Farming and launchpad only make transfers, for accounts that are neither the vault nor pools.\<close>

lemma rt_mover:
  assumes "currency_laws C"
  shows "ft_mover (\<lambda>s. rt_fungible_ok C E (w\<lparr>rt_ft := s\<rparr>)) (- ({wr_account_id E} \<union> ex_sub_accounts E))"
proof
  fix s a t b v
  assume ok: "rt_fungible_ok C E (w\<lparr>rt_ft := s\<rparr>)" and a: "a \<in> - ({wr_account_id E} \<union> ex_sub_accounts E)"
  show "post (ft_do_transfer t a b v s) (\<lambda>s. rt_fungible_ok C E (w\<lparr>rt_ft := s\<rparr>))"
    unfolding post_def
  proof (intro allI impI)
    fix s' assume tr: "ft_do_transfer t a b v s = Inr s'"
    let ?v = "rt_ex_view (w\<lparr>rt_ft := s\<rparr>)" and ?v' = "rt_ex_view (w\<lparr>rt_ft := s'\<rparr>)"
    have view: "?v' = ?v\<lparr>ex_wr := (ex_wr ?v)\<lparr>wr_ft := s'\<rparr>\<rparr>" "ex_ft ?v = s"
      by (simp_all add: rt_views ex_ft_def)
    from tr have "ex_on_ft (ft_do_transfer t a b v) ?v = Inr ?v'" by (simp add: ex_on_ft_ok view)
    then have "ex_still E {a} ?v ?v'" by (rule ex_transfer_still)
    with ok a have "ex_inv E ?v'" by (auto simp: rt_fungible_ok_def intro: ex_inv_still)
    moreover have "wr_backed_at C E (rt_wr_view (w\<lparr>rt_ft := s'\<rparr>))"
      using postD [OF wr_ft_ops_backed(1) [of C E "rt_wr_view (w\<lparr>rt_ft := s\<rparr>)" t a b v]] ok tr
      by (auto simp: rt_fungible_ok_def wr_on_ft_def focus_def rt_wr_view_def)
    moreover have "ft_inv s'" using ft_do_transfer_inv [OF _ tr] ok by (simp add: rt_fungible_ok_def)
    ultimately show "rt_fungible_ok C E (w\<lparr>rt_ft := s'\<rparr>)" by (simp add: rt_fungible_ok_def)
  qed
qed

lemma rt_escrows_in:
  assumes "rt_accounts_apart E"
  shows "fa_escrows E \<subseteq> - ({wr_account_id E} \<union> ex_sub_accounts E)"
    and "by_user (rt_users E) orig \<Longrightarrow> by_user (- ({wr_account_id E} \<union> ex_sub_accounts E)) orig"
  using assms rt_users_out by (auto simp: rt_accounts_apart_def by_user_def)

lemma rt_farming_ok:
  assumes laws: "currency_laws C" and apart: "rt_accounts_apart E" and ok: "rt_fungible_ok C E w" "rt_rest_ok E w"
    and orig: "by_user (rt_users E) orig"
    and call: "fa_call_dispatch (E\<lparr>env_now := n\<rparr>) orig c (rt_fa_view w) = Inr x"
  shows "rt_fungible_ok C E (rt_put_fa x w) \<and> rt_rest_ok E (rt_put_fa x w)"
proof -
  have "post (fa_call_dispatch (E\<lparr>env_now := n\<rparr>) orig c (rt_fa_view w)) (\<lambda>x. rt_fungible_ok C E (w\<lparr>rt_ft := fa_ft x\<rparr>) \<and>
      (\<forall>p pool. fa_pools x p = Some pool \<longrightarrow> fa_escrow_account pool \<in> fa_escrows (E\<lparr>env_now := n\<rparr>)))"
    by (rule ft_mover.fa_dispatch_keeps [OF rt_mover [OF laws] _ rt_escrows_in(2) [OF apart orig]])
      (use ok rt_escrows_in(1) [OF apart] in \<open>auto simp: rt_fa_view_def rt_rest_ok_def\<close>)
  from postD [OF this call] ok(2) show ?thesis
    by (simp add: rt_put_fa_def rt_rest_ok_def rt_fungible_ok_def rt_views)
qed

lemma rt_launchpad_ok:
  assumes laws: "currency_laws C" and apart: "rt_accounts_apart E" and ok: "rt_fungible_ok C E w" "rt_rest_ok E w"
    and orig: "by_user (rt_users E) orig"
    and call: "lp_dispatch (E\<lparr>env_now := n\<rparr>) (m, orig, c) (rt_lp_view w) = Inr x"
  shows "rt_fungible_ok C E (rt_put_lp x w) \<and> rt_rest_ok E (rt_put_lp x w)"
proof -
  have "post (lp_dispatch (E\<lparr>env_now := n\<rparr>) (m, orig, c) (rt_lp_view w)) (\<lambda>x. rt_fungible_ok C E (w\<lparr>rt_ft := lp_ft x\<rparr>) \<and>
      (\<forall>p pool. lp_pools x p = Some pool \<longrightarrow> lp_escrow_account pool \<in> lp_escrows (E\<lparr>env_now := n\<rparr>)))"
    by (rule ft_mover.lp_dispatch_keeps [OF rt_mover [OF laws] _ rt_escrows_in(2) [OF apart orig]])
      (use ok rt_escrows_in(1) [OF apart] in \<open>auto simp: rt_lp_view_def rt_rest_ok_def\<close>)
  from postD [OF this call] ok(2) show ?thesis
    by (simp add: rt_put_lp_def rt_rest_ok_def rt_fungible_ok_def rt_views)
qed

section \<open>Calls on assets\<close>

lemma rt_asset_tokens_ok:
  assumes ok: "rt_assets_ok E w" and orig: "by_user (rt_users E) orig"
  shows "nft_dispatch (orig, nc) (rt_nft w) = Inr s \<Longrightarrow> rt_assets_ok E (w\<lparr>rt_nft := s\<rparr>)"
    and "mt_dispatch (orig, mc) (rt_mt w) = Inr r \<Longrightarrow> rt_assets_ok E (w\<lparr>rt_mt := r\<rparr>)"
proof -
  have o: "orig \<noteq> Signed (mp_account_id E)" using orig rt_users_out(2) by (auto simp: by_user_def)
  have inv: "mp_inv E (rt_mp_view w)" and mt: "mt_inv (rt_mt w)" and admin: "mp_admin_in (- {wr_account_id E}) (rt_mp w)"
    using ok by (simp_all add: rt_assets_ok_def)
  show "rt_assets_ok E (w\<lparr>rt_nft := s\<rparr>)" if "nft_dispatch (orig, nc) (rt_nft w) = Inr s"
  proof -
    have "mp_on_nft (nft_dispatch (orig, nc)) (rt_mp_view w) = Inr ((rt_mp_view w)\<lparr>mp_nft := s\<rparr>)"
      using that by (simp add: mp_on_nft_ok rt_mp_view_def)
    from mp_reach_inv [OF mp_reach.nft [OF mp_reach.start o this] inv] mt admin show ?thesis
      using mp_inv_cong [of "rt_mp_view (w\<lparr>rt_nft := s\<rparr>)" "(rt_mp_view w)\<lparr>mp_nft := s\<rparr>"]
      by (simp add: rt_assets_ok_def rt_mp_view_def)
  qed
  show "rt_assets_ok E (w\<lparr>rt_mt := r\<rparr>)" if "mt_dispatch (orig, mc) (rt_mt w) = Inr r"
  proof -
    have "mp_on_mt (mt_dispatch (orig, mc)) (rt_mp_view w) = Inr ((rt_mp_view w)\<lparr>mp_mt := r\<rparr>)"
      using that by (simp add: mp_on_mt_ok rt_mp_view_def)
    from mp_reach_inv [OF mp_reach.multi [OF mp_reach.start o this] inv] mt_dispatch_inv [OF mt that] admin
    show ?thesis
      using mp_inv_cong [of "rt_mp_view (w\<lparr>rt_mt := r\<rparr>)" "(rt_mp_view w)\<lparr>mp_mt := r\<rparr>"]
      by (simp add: rt_assets_ok_def rt_mp_view_def)
  qed
qed

lemma rt_vault_keeper:
  assumes "currency_laws C"
  shows "asset_keeper nft_inv mt_inv C (\<lambda>c. k \<le> unat (cur_free C c a)) (- {a})"
  using currency_transfer_ge [OF assms, of _ _ _ _ _ _ a]
  by unfold_locales (fastforce simp: post_def intro: order_trans)

lemma rt_market_ok:
  assumes laws: "currency_laws C" and ok: "rt_fungible_ok C E w" "rt_assets_ok E w"
    and orig: "by_user (rt_users E) orig" and admin: "\<And>a. c = MpSetAdmin a \<Longrightarrow> a \<noteq> wr_account_id E"
    and call: "mp_call_dispatch C (E\<lparr>env_now := n\<rparr>) orig c (rt_mp_view w) = Inr x"
  shows "rt_fungible_ok C E (rt_put_mp x w) \<and> rt_assets_ok E (rt_put_mp x w)"
proof -
  let ?N = "\<lambda>c. unat (cur_free C (rt_cur w) (wr_account_id E)) \<le> unat (cur_free C c (wr_account_id E))"
  have "post (mp_call_dispatch C (E\<lparr>env_now := n\<rparr>) orig c (rt_mp_view w))
      (\<lambda>w'. nft_inv (mp_nft w') \<and> mt_inv (mp_mt w') \<and> ?N (mp_cur w') \<and> mp_admin_in (- {wr_account_id E}) w')"
    by (rule asset_keeper.mp_dispatch_keeps [OF rt_vault_keeper [OF laws]])
      (use ok(2) mp_invD(1) [of E "rt_mp_view w"] orig rt_users_out(1) admin
        in \<open>auto simp: rt_assets_ok_def rt_mp_view_def mp_admin_in_def by_user_def\<close>)
  note kept = postD [OF this call]
  have o: "orig \<noteq> Signed (mp_account_id E)" using orig rt_users_out(2) by (auto simp: by_user_def)
  have "mp_inv E x" by (rule mp_call_inv [OF _ o call]) (use ok(2) in \<open>simp add: rt_assets_ok_def\<close>)
  with kept have "rt_assets_ok E (rt_put_mp x w)" by (simp add: rt_assets_ok_def) (simp add: rt_put_mp_def)
  moreover have "rt_fungible_ok C E (rt_put_mp x w)"
    by (rule rt_fungible_cur [OF ok(1)]) (use kept in \<open>simp_all add: rt_put_mp_def\<close>)
  ultimately show ?thesis by simp
qed

section \<open>Every call keeps the invariants\<close>

lemma pp_one_cur [simp]: "pp_cur (pp_add_one i x p) = pp_cur p" "pp_cur (pp_set_one i x p) = pp_cur p"
  by (cases x; simp)+

lemma pp_fold_cur [simp]:
  "pp_cur (fold (pp_add_one i) xs p) = pp_cur p" "pp_cur (fold (pp_set_one i) xs p) = pp_cur p"
  by (induction xs arbitrary: p) (simp_all del: pp_add_one.simps pp_set_one.simps)

lemma pp_call_cur: "pp_call_dispatch E orig c p = Inr p' \<Longrightarrow> pp_cur p' = pp_cur p"
  by (cases c) (auto simp: pp_create_program_def pp_transfer_program_owner_def pp_add_proxy_pay_def pp_set_proxy_pay_def
      result_eqs Let_def pp_deposit_event_def)

text \<open>
  Calls of one pallet after another, first those that change fungible tokens or the native currency and
  nothing of the other tokens, then those of pools, then the rest.
\<close>

lemma rt_fungible_calls_inv:
  assumes laws: "currency_laws C" and apart: "rt_accounts_apart E" and inv: "rt_inv C E w"
    and allowed: "rt_allowed E X orig c w"
    and call: "rt_pallet_dispatch C (E\<lparr>env_now := n\<rparr>) X orig c w = Inr w'"
    and c: "c \<in> {RtBalancesTransfer dest v, RtTokenFungible fc, RtExchange ec, RtWrapCurrency wc}"
  shows "rt_inv C E w'"
proof -
  have ok: "rt_fungible_ok C E w" "rt_assets_ok E w" "rt_rest_ok E w" using inv by (simp_all add: rt_inv_def)
  have orig: "by_user (rt_users E) orig" using allowed by (simp add: rt_allowed_def)
  from c consider "c = RtBalancesTransfer dest v" | "c = RtTokenFungible fc" | "c = RtExchange ec" | "c = RtWrapCurrency wc"
    by blast
  then show ?thesis
  proof cases
    case 1
    with call obtain a m where a: "orig = Signed a" and m: "cur_transfer C a dest v AllowDeath (rt_cur w) = Inr m"
      and w': "w' = w\<lparr>rt_cur := m\<rparr>" by (auto simp: result_eqs)
    have "wr_account_id E \<noteq> a" using orig a rt_users_out(1) by (auto simp: by_user_def)
    from rt_fungible_cur [OF ok(1) currency_transfer_ge [OF laws m this]] rt_assets_cur [OF ok(2)] rt_rest_same [OF ok(3)]
    show ?thesis by (simp add: rt_inv_def w')
  next
    case 2
    with call obtain s where s: "ft_dispatch (orig, fc) (rt_ft w) = Inr s" and w': "w' = w\<lparr>rt_ft := s\<rparr>"
      by (auto simp: result_eqs)
    from rt_token_ok [OF laws ok(1) orig s] rt_assets_cur [OF ok(2)] rt_rest_same [OF ok(3)]
    show ?thesis by (simp add: rt_inv_def w')
  next
    case 3
    with call obtain x where x: "ex_call_dispatch C (E\<lparr>env_now := n\<rparr>) X orig ec (rt_ex_view w) = Inr x"
      and w': "w' = rt_put_ex x w" by (auto simp: rt_on_ex_def result_eqs)
    have "ex_fresh E X ec (rt_ex w)" "\<And>a b. random_id X a b \<noteq> WW3G" using allowed 3 by (simp_all add: rt_allowed_def)
    from rt_exchange_ok [OF laws apart ok(1) orig this x] rt_assets_cur [OF ok(2)] rt_rest_same [OF ok(3)]
    show ?thesis by (simp add: rt_inv_def w')
  next
    case 4
    with call obtain u where u: "wrap_dispatch C (E\<lparr>env_now := n\<rparr>) orig wc (rt_wr_view w) = Inr u"
      and w': "w' = rt_put_ex ((rt_ex_view w)\<lparr>ex_wr := u\<rparr>) w"
      by (auto simp: rt_on_ex_def result_eqs ex_on_wr_ok) (auto simp: rt_ex_view_def)
    from rt_wrap_ok [OF laws ok(1) orig u] rt_assets_cur [OF ok(2)] rt_rest_same [OF ok(3)]
    show ?thesis by (simp add: rt_inv_def w')
  qed
qed

lemma rt_pool_calls_inv:
  assumes laws: "currency_laws C" and apart: "rt_accounts_apart E" and inv: "rt_inv C E w"
    and allowed: "rt_allowed E X orig c w"
    and call: "rt_pallet_dispatch C (E\<lparr>env_now := n\<rparr>) X orig c w = Inr w'"
    and c: "c \<in> {RtMartketplace mc, RtFarming fc, RtLaunchpad lc}"
  shows "rt_inv C E w'"
proof -
  have ok: "rt_fungible_ok C E w" "rt_assets_ok E w" "rt_rest_ok E w" using inv by (simp_all add: rt_inv_def)
  have orig: "by_user (rt_users E) orig" using allowed by (simp add: rt_allowed_def)
  from c consider "c = RtMartketplace mc" | "c = RtFarming fc" | "c = RtLaunchpad lc" by blast
  then show ?thesis
  proof cases
    case 1
    with call obtain x where x: "mp_call_dispatch C (E\<lparr>env_now := n\<rparr>) orig mc (rt_mp_view w) = Inr x"
      and w': "w' = rt_put_mp x w" by (auto simp: result_eqs)
    have "\<And>a. mc = MpSetAdmin a \<Longrightarrow> a \<noteq> wr_account_id E" using allowed 1 by (auto simp: rt_allowed_def)
    from rt_market_ok [OF laws ok(1,2) orig this x] rt_rest_same [OF ok(3)]
    show ?thesis by (simp add: rt_inv_def w' rt_put_mp_def)
  next
    case 2
    with call obtain x where x: "fa_call_dispatch (E\<lparr>env_now := n\<rparr>) orig fc (rt_fa_view w) = Inr x"
      and w': "w' = rt_put_fa x w" by (auto simp: result_eqs)
    from rt_farming_ok [OF laws apart ok(1,3) orig x] rt_assets_cur [OF ok(2)]
    show ?thesis by (simp add: rt_inv_def w' rt_put_fa_def)
  next
    case 3
    with call obtain x m where x: "lp_dispatch (E\<lparr>env_now := n\<rparr>) (m, orig, lc) (rt_lp_view w) = Inr x"
      and w': "w' = rt_put_lp x w" by (auto simp: result_eqs)
    from rt_launchpad_ok [OF laws apart ok(1,3) orig x] rt_assets_cur [OF ok(2)]
    show ?thesis by (simp add: rt_inv_def w' rt_put_lp_def)
  qed
qed

lemma rt_proxy_pay_inv:
  assumes inv: "rt_inv C E w" and call: "rt_pallet_dispatch C (E\<lparr>env_now := n\<rparr>) X orig (RtProxyPay pc) w = Inr w'"
  shows "rt_inv C E w'"
proof -
  have ok: "rt_fungible_ok C E w" "rt_assets_ok E w" "rt_rest_ok E w" using inv by (simp_all add: rt_inv_def)
  from call obtain x where x: "pp_call_dispatch (E\<lparr>env_now := n\<rparr>) orig pc (rt_pp_view w) = Inr x"
    and w': "w' = rt_put_pp x w" by (auto simp: result_eqs)
  have "rt_rest_ok E w'"
    using ok(3) pp_call_inv [OF _ x] by (simp add: w' rt_rest_ok_def rt_put_pp_def rt_pp_view_def)
  then show ?thesis
    using pp_call_cur [OF x] rt_fungible_cur [OF ok(1) order_refl, of w'] rt_assets_cur [OF ok(2), of w']
    by (simp add: rt_inv_def w' rt_put_pp_def rt_pp_view_def)
qed

lemma rt_pallet_dispatch_inv:
  assumes laws: "currency_laws C" and apart: "rt_accounts_apart E" and inv: "rt_inv C E w"
    and allowed: "rt_allowed E X orig c w"
    and call: "rt_pallet_dispatch C (E\<lparr>env_now := n\<rparr>) X orig c w = Inr w'"
  shows "rt_inv C E w'"
proof -
  have ok: "rt_fungible_ok C E w" "rt_assets_ok E w" "rt_rest_ok E w" using inv by (simp_all add: rt_inv_def)
  have orig: "by_user (rt_users E) orig" using allowed by (simp add: rt_allowed_def)
  note ft = rt_fungible_calls_inv [OF laws apart inv allowed call]
    and pools = rt_pool_calls_inv [OF laws apart inv allowed call]
  show ?thesis
  proof (cases c)
    case (RtTokenNonFungible nc)
    with call rt_asset_tokens_ok(1) [OF ok(2) orig] rt_fungible_cur [OF ok(1) order_refl] rt_rest_same [OF ok(3)]
    show ?thesis by (auto simp: result_eqs rt_inv_def)
  next
    case (RtTokenMulti mc)
    with call rt_asset_tokens_ok(2) [OF ok(2) orig] rt_fungible_cur [OF ok(1) order_refl] rt_rest_same [OF ok(3)]
    show ?thesis by (auto simp: result_eqs rt_inv_def)
  next
    case (RtPalyerId pc)
    with call obtain x where x: "pid_dispatch (orig, pc) (rt_pid w) = Inr x" and w': "w' = w\<lparr>rt_pid := x\<rparr>"
      by (auto simp: result_eqs)
    have "rt_rest_ok E w'" using ok(3) pid_dispatch_inv [OF _ x] by (simp add: w' rt_rest_ok_def)
    then show ?thesis
      using rt_fungible_cur [OF ok(1) order_refl, of w'] rt_assets_cur [OF ok(2), of w'] by (simp add: rt_inv_def w')
  next
    case (RtCallSwitchgear sc)
    with call rt_fungible_cur [OF ok(1) order_refl] rt_assets_cur [OF ok(2)] rt_rest_same [OF ok(3)]
    show ?thesis by (auto simp: result_eqs rt_inv_def)
  qed (use ft pools rt_proxy_pay_inv [OF inv] call in blast)+
qed

lemma rt_dispatch_inv:
  assumes "currency_laws C" and "rt_accounts_apart E" and "rt_inv C E w" and "rt_allowed E X orig c w"
    and "rt_dispatch C (E\<lparr>env_now := n\<rparr>) X orig c w = Inr w'"
  shows "rt_inv C E w'"
  using assms by (auto simp: rt_dispatch_def result_eqs intro: rt_pallet_dispatch_inv)

section \<open>Fees\<close>

text \<open>The handler of fees takes nothing from the vault.\<close>

definition rt_handler_ok :: "'c currency \<Rightarrow> (u128 list \<Rightarrow> 'c \<Rightarrow> 'c) \<Rightarrow> env \<Rightarrow> bool" where
  "rt_handler_ok C h E \<longleftrightarrow>
     (\<forall>vs c. unat (cur_free C c (wr_account_id E)) \<le> unat (cur_free C (h vs c) (wr_account_id E)))"

lemma currency_withdraw_other:
  assumes "currency_laws C" and "cur_withdraw C a v r k c = Inr c'" and "d \<noteq> a"
  shows "cur_free C c' d = cur_free C c d"
  by (rule currency_withdrawE [OF assms(1,2)]) (use assms(3) in simp)

lemma rt_put_pp_inv:
  assumes inv: "rt_inv C E w" and p: "pp_inv E p"
    and "unat (cur_free C (rt_cur w) (wr_account_id E)) \<le> unat (cur_free C (pp_cur p) (wr_account_id E))"
  shows "rt_inv C E (rt_put_pp p w)"
proof -
  have "rt_fungible_ok C E (rt_put_pp p w)"
    by (rule rt_fungible_cur [OF _ assms(3)]) (use inv in \<open>simp_all add: rt_inv_def rt_put_pp_def\<close>)
  moreover have "rt_assets_ok E (rt_put_pp p w)"
    by (rule rt_assets_cur) (use inv in \<open>simp_all add: rt_inv_def rt_put_pp_def\<close>)
  ultimately show ?thesis using inv p by (simp add: rt_inv_def rt_rest_ok_def) (simp add: rt_put_pp_def)
qed

lemma rt_withdraw_fee_inv:
  assumes laws: "currency_laws C" and apart: "rt_accounts_apart E" and inv: "rt_inv C E w" and who: "who \<in> rt_users E"
    and fee: "pp_withdraw_fee C who f t (rt_pp_view w) = Inr (paid, p)"
  shows "rt_inv C E (rt_put_pp p w)"
proof (rule rt_put_pp_inv [OF inv])
  have pp: "pp_inv E (rt_pp_view w)" using inv by (simp add: rt_inv_def rt_rest_ok_def rt_pp_view_def)
  show "pp_inv E p" by (rule pp_withdraw_fee_inv [OF fee pp])
  from fee show "unat (cur_free C (rt_cur w) (wr_account_id E)) \<le> unat (cur_free C (pp_cur p) (wr_account_id E))"
  proof (cases rule: pp_withdraw_feeE)
    case (own r c)
    from rt_users_out(1) [OF who] have "wr_account_id E \<noteq> who" by simp
    from currency_withdraw_other [OF laws own(4) this] own(5) show ?thesis by (simp add: rt_pp_view_def)
  next
    case (sponsored r c i js program)
    have "wr_account_id E \<noteq> pp_proxy_pay_account program"
      using apart pp_invD(3) [OF pp sponsored(3)] by (auto simp: rt_accounts_apart_def)
    from currency_withdraw_other [OF laws sponsored(5) this] sponsored(6) show ?thesis by (simp add: rt_pp_view_def)
  qed (simp add: rt_pp_view_def)
qed

lemma rt_correct_fee_inv:
  assumes laws: "currency_laws C" and h: "rt_handler_ok C h E" and inv: "rt_inv C E w"
    and fee: "pp_correct_and_deposit_fee C h who f t paid (rt_pp_view w) = Inr p"
  shows "rt_inv C E (rt_put_pp p w)"
proof (rule rt_put_pp_inv [OF inv])
  obtain c where "p = (rt_pp_view w)\<lparr>pp_cur := c\<rparr>" using pp_correct_fee_frame [OF fee] by blast
  then show "pp_inv E p" using inv by (simp add: rt_inv_def rt_rest_ok_def rt_pp_view_def)
  have dep: "unat (cur_free C m (wr_account_id E)) \<le> unat (cur_free C m' (wr_account_id E))"
    if "cur_deposit_into_existing C a v m = Inr m'" for a v m m'
    by (rule currency_depositE [OF laws that]) auto
  have hd: "unat (cur_free C m (wr_account_id E)) \<le> unat (cur_free C (h vs m) (wr_account_id E))" for vs m
    using h by (simp add: rt_handler_ok_def)
  show "unat (cur_free C (rt_cur w) (wr_account_id E)) \<le> unat (cur_free C (pp_cur p) (wr_account_id E))"
    using fee dep order_trans [OF dep hd]
    by (auto simp: pp_correct_and_deposit_fee_def Let_def rt_pp_view_def hd split: option.splits sum.splits if_splits)
qed

lemma rt_apply_inv:
  assumes laws: "currency_laws C" and apart: "rt_accounts_apart E" and h: "rt_handler_ok C h E" and inv: "rt_inv C E w"
    and allowed: "rt_allowed E X (Signed (tx_signer t)) (tx_call t) w"
    and apply': "rt_apply C h (E\<lparr>env_now := n\<rparr>) X t w = Inr w'"
  shows "rt_inv C E w'"
proof -
  have user: "tx_signer t \<in> rt_users E" using allowed by (simp add: rt_allowed_def by_user_def)
  from apply' obtain paid p w2 p' where
    p: "pp_withdraw_fee C (tx_signer t) (tx_fee t) (tx_tip t) (rt_pp_view w) = Inr (paid, p)"
    and d: "rt_dispatch C (E\<lparr>env_now := n\<rparr>) X (Signed (tx_signer t)) (tx_call t) (rt_put_pp p w) = Inr w2 \<or> w2 = rt_put_pp p w"
    and p': "pp_correct_and_deposit_fee C h (tx_signer t) (tx_corrected_fee t) (tx_tip t) paid (rt_pp_view w2) = Inr p'"
    and w': "w' = rt_put_pp p' w2"
    by (auto simp: rt_apply_def result_eqs Let_def storage_layer_eq_Inr split: prod.splits)
  have w1: "rt_inv C E (rt_put_pp p w)" by (rule rt_withdraw_fee_inv [OF laws apart inv user p])
  have "rt_allowed E X (Signed (tx_signer t)) (tx_call t) (rt_put_pp p w)"
    using allowed by (simp add: rt_allowed_def rt_put_pp_def cong: runtime_call.case_cong)
  with d w1 have "rt_inv C E w2" by (auto intro: rt_dispatch_inv [OF laws apart])
  from rt_correct_fee_inv [OF laws h this p'] show ?thesis by (simp add: w')
qed

section \<open>Genesis\<close>

lemma rt_empty_assets: "rt_assets_ok E (rt_empty c)"
  by (simp add: rt_assets_ok_def rt_empty_def mt_genesis_inv mp_inv_def rt_views nft_genesis_inv mp_admin_in_def)
    (simp add: nft_guarded_def mt_guarded_def nft_genesis_def mt_genesis_def)

text \<open>The assertion of the wrap pallet always holds: no genesis panics.\<close>

lemma rt_build_ok: "\<exists>w. rt_build C E build g = Inr w"
  by (simp add: rt_build_def rt_on_ex_def ex_on_wr_def focus_def Let_def
      wr_create_wrap_token_def wr_lift_defs ft_do_create_token_def bounded_vec_def StringLimit_def)

lemma rt_genesis_inv:
  assumes "rt_build C E build g = Inr w" and "gc_admin_key g \<noteq> Some (wr_account_id E)"
  shows "rt_inv C E w"
proof -
  let ?w0 = "(rt_empty (build (gc_balances g)))\<lparr>rt_chain_id := \<lparr>chain_id = gc_chain_id g\<rparr>\<rparr>"
  from assms(1) obtain u where u: "wr_create_wrap_token C E CreateTokenDeposit (rt_wr_view ?w0) = Inr u"
    and w: "w = (rt_put_ex ((rt_ex_view ?w0)\<lparr>ex_wr := u\<rparr>) ?w0)\<lparr>rt_mp := mp_build (gc_admin_key g) (rt_mp ?w0)\<rparr>"
    by (auto simp: rt_build_def result_eqs rt_on_ex_def ex_on_wr_ok Let_def chain_id_build_def rt_empty_def
        rt_ex_view_def split: sum.splits)
  have genesis: "wr_ft (rt_wr_view ?w0) = ft_genesis" by (simp add: rt_wr_view_def rt_empty_def)
  from u obtain s where s: "ft_do_create_token (wr_account_id E) 0 [87, 114, 97, 112, 112, 101, 100, 32, 67, 117, 114,
      114, 101, 110, 99, 121] [87, 87, 51, 71] 18 ft_genesis = Inr s" and "wr_ft u = s" and tok: "wr_wrap_token u = WW3G"
    by (auto simp: wr_create_wrap_token_def wr_lift_defs result_eqs Let_def WW3G_def genesis)
  then have ft: "ft_inv (wr_ft u)" "ft_allowances (wr_ft u) = (\<lambda>_. 0)"
    using ft_do_create_token_inv [OF ft_genesis_inv s] by (auto simp: ft_do_create_token_ok ft_genesis_def)
  have "wr_inv C E u"
    by (rule wr_create_wrap_token_inv [OF u]) (simp add: genesis ft_genesis_def ft_sum_def)
  with tok have "wr_backed_at C E u" by (simp add: wr_backed_at_def)
  moreover have "ex_inv E ((rt_ex_view ?w0)\<lparr>ex_wr := u\<rparr>)"
    by (simp add: ex_inv_def rt_ex_view_def rt_empty_def tok ft ex_ft_def)
  ultimately have "rt_fungible_ok C E w"
    using ft(1) by (simp add: rt_fungible_ok_def w rt_views rt_puts ex_ft_def)
  moreover have "rt_assets_ok E w"
    using rt_empty_assets [of E "wr_native u"] assms(2) mp_inv_cong [of "rt_mp_view w" "rt_mp_view (rt_empty (wr_native u))" E]
    by (auto simp: rt_assets_ok_def w rt_views rt_puts rt_empty_def mp_build_def mp_admin_in_def split: option.splits)
  moreover have "rt_rest_ok E w"
    by (simp add: rt_rest_ok_def w rt_puts rt_empty_def pid_inv_def pid_genesis_def pp_inv_def)
  ultimately show ?thesis by (simp add: rt_inv_def)
qed

section \<open>Properties\<close>

text \<open>What the invariant says of the pallets.\<close>

lemma rt_inv_safe:
  assumes inv: "rt_inv C E w"
  shows "ft_inv (rt_ft w) \<and> nft_inv (rt_nft w) \<and> mt_inv (rt_mt w)
    \<and> ft_sum (rt_ft w) WW3G \<le> unat (cur_free C (rt_cur w) (wr_account_id E))
    \<and> (\<forall>t0 t1 pool. ex_pools (rt_ex w) (t0, t1) = Some pool \<longrightarrow>
         fst (ex_reserves (rt_ex w) (t0, t1)) \<le> ft_balance_of t0 (pool_lp_account pool) (rt_ft w)
       \<and> snd (ex_reserves (rt_ex w) (t0, t1)) \<le> ft_balance_of t1 (pool_lp_account pool) (rt_ft w))
    \<and> (\<forall>x order. mp_orders (rt_mp w) x = Some order \<longrightarrow> mp_holds (mp_account_id E) x (rt_mp_view w))"
proof -
  have f: "rt_fungible_ok C E w" and a: "rt_assets_ok E w" using inv by (simp_all add: rt_inv_def)
  have ex: "ex_inv E (rt_ex_view w)" using f by (simp add: rt_fungible_ok_def)
  have mp: "mp_inv E (rt_mp_view w)" using a by (simp add: rt_assets_ok_def)
  have "nft_inv (rt_nft w)" using mp_invD(1) [OF mp] by (simp add: rt_mp_view_def)
  moreover have "mp_holds (mp_account_id E) x (rt_mp_view w)" if "mp_orders (rt_mp w) x = Some order" for x order
    using mp_invD(4) [OF mp, of x order] that by (simp add: rt_mp_view_def)
  moreover have "fst (ex_reserves (rt_ex w) (t0, t1)) \<le> ft_balance_of t0 (pool_lp_account pool) (rt_ft w)
       \<and> snd (ex_reserves (rt_ex w) (t0, t1)) \<le> ft_balance_of t1 (pool_lp_account pool) (rt_ft w)"
    if "ex_pools (rt_ex w) (t0, t1) = Some pool" for t0 t1 pool
    using ex_invD(1) [OF ex, of "(t0, t1)" pool] that
    by (auto simp: ex_pool_ok_def ft_balance_of_def rt_views ex_ft_def)
  ultimately show ?thesis
    using f a by (auto simp: rt_fungible_ok_def rt_assets_ok_def wr_backed_at_def wr_inv_def rt_wr_view_def)
qed

section \<open>Concrete instances\<close>

text \<open>An environment that keeps the derived accounts of different pallets apart, and a treasury that burns.\<close>

definition rt_id_tag :: "string \<Rightarrow> nat" where
  "rt_id_tag p = (if p = ExchangePalletId then 1 else if p = FarmingPalletId then 2 else if p = ProxyPayPalletId then 3
     else if p = WrapCurrencyPalletId then 4 else 5)"

definition rt_env_example :: env where
  "rt_env_example = \<lparr>env_now = 1, into_account = (\<lambda>p. of_nat (1000 + rt_id_tag p)),
     into_sub_account = (\<lambda>p n. of_nat (rt_id_tag p * 2 ^ 128 + unat n))\<rparr>"

lemma unat_of_nat_account: "k < 2 ^ 256 \<Longrightarrow> unat (of_nat k :: account) = k"
  by (simp add: unat_of_nat take_bit_nat_eq_self)

lemma rt_sub_account_example: "unat (into_sub_account rt_env_example p n) = rt_id_tag p * 2 ^ 128 + unat n"
proof -
  have "rt_id_tag p \<le> 5" by (simp add: rt_id_tag_def)
  then have "rt_id_tag p * 2 ^ 128 + unat n < 2 ^ 256" using u128_bound [of n] by simp
  from unat_of_nat_account [OF this] show ?thesis by (simp only: rt_env_example_def env.simps)
qed

lemma rt_sub_account_tag: "unat (into_sub_account rt_env_example p n) div 2 ^ 128 = rt_id_tag p"
  using u128_bound [of n] by (simp add: rt_sub_account_example)

lemma rt_account_example: "unat (into_account rt_env_example p) = 1000 + rt_id_tag p"
  by (simp add: rt_env_example_def rt_id_tag_def)

lemmas rt_example_ids = wr_account_id_def ex_account_id_def mp_account_id_def ex_token_id_to_account_id_def
  fa_escrow_account_id_def pp_proxy_pay_account_id_def ex_sub_accounts_def fa_escrows_def
  WrapCurrencyPalletId_def ExchangePalletId_def MarketplacePalletId_def FarmingPalletId_def ProxyPayPalletId_def

lemma rt_sub_accounts_example:
  "a \<in> ex_sub_accounts rt_env_example \<Longrightarrow> unat a div 2 ^ 128 = 1"
  "a \<in> fa_escrows rt_env_example \<Longrightarrow> unat a div 2 ^ 128 = 2"
  "a \<in> range (pp_proxy_pay_account_id rt_env_example) \<Longrightarrow> unat a div 2 ^ 128 = 3"
  using rt_sub_account_tag by (auto simp: rt_example_ids) (auto simp: rt_id_tag_def rt_example_ids)

lemma rt_accounts_example:
  "unat (wr_account_id rt_env_example) = 1004" "unat (ex_account_id rt_env_example) = 1001"
  "unat (mp_account_id rt_env_example) = 1005"
  by (simp_all add: rt_example_ids rt_account_example rt_id_tag_def)

lemma rt_env_example_apart: "rt_accounts_apart rt_env_example"
  unfolding rt_accounts_apart_def
  using rt_sub_accounts_example rt_accounts_example by (fastforce simp: disjoint_iff)

lemma rt_users_example: "unat a < 1000 \<Longrightarrow> a \<in> rt_users rt_env_example"
  using rt_sub_accounts_example [of a] rt_accounts_example by (auto simp: rt_users_def rt_pallet_accounts_def)

definition rt_config_example :: genesis_config where
  "rt_config_example = \<lparr>gc_code = [], gc_balances = [(1, 10 ^ 27), (2, 10 ^ 27)], gc_aura = [], gc_grandpa = [], gc_sudo = Some 1,
     gc_chain_id = 105, gc_evm = Map.empty, gc_base_fee_per_gas = 0, gc_is_active = False, gc_elasticity = 0,
     gc_admin_key = Some 1\<rparr>"

definition rt_genesis_example :: "(account \<Rightarrow> u128) runtime_world dispatch" where
  "rt_genesis_example = rt_build ledger_currency rt_env_example
     (\<lambda>bs. foldr (\<lambda>(a, v) c. c(a := v)) bs (\<lambda>_. 0)) rt_config_example"

text \<open>Calls at given blocks, one after the other.\<close>

definition rt_step ::
  "'c currency \<Rightarrow> env \<Rightarrow> ex_params \<Rightarrow> u32 \<times> origin \<times> runtime_call \<Rightarrow> 'c runtime_world \<Rightarrow> 'c runtime_world dispatch" where
  "rt_step C E X = (\<lambda>(n, orig, c). rt_dispatch C (E\<lparr>env_now := n\<rparr>) X orig c)"

lemmas rt_eval = rt_step_def rt_dispatch_def rt_on_ex_def ex_on_wr_def wr_lift_defs focus_def Let_def rt_views rt_puts
  call_filter_contains_def get_overall_toggle_status_def switch_off_filter_contains_def rt_env_example_def rt_id_tag_def
  rt_genesis_example_def rt_config_example_def rt_build_def rt_empty_def sw_genesis_def wr_create_wrap_token_def mp_build_def
  chain_id_build_def ex_ft_def

lemmas rt_ft_eval = ft_do_create_token_def bounded_vec_def StringLimit_def ft_create_token_def ft_mint_def ft_do_mint_def
  ft_maybe_check_permission_def ft_internal_mint_def ft_increase_balance_def ft_decrease_balance_def checked_add_def
  checked_sub_def saturating_add_def ft_exists_def ft_genesis_def ft_deposit_event_def ft_do_transfer_def
  ft_internal_transfer_def ft_balance_of_def

lemmas rt_pool_eval = fa_set_admin_def fa_create_pool_def fa_staking_def fa_claim_def fa_is_admin_def
  fa_escrow_account_id_def fa_on_ft_def fa_pool_status_def fa_staking_end_def fa_deposit_event_def
  lp_create_pool_def lp_owner_claim_def lp_escrow_account_id_def lp_on_ft_def lp_deposit_event_def

lemma rt_example_deposit:
  "\<exists>w0 w. rt_genesis_example = Inr w0 \<and>
     rt_dispatch ledger_currency (rt_env_example\<lparr>env_now := 1\<rparr>) X (Signed 1) (RtWrapCurrency (WrapDeposit 70)) w0 = Inr w"
  by (simp add: rt_eval rt_ft_eval wr_deposit_def wr_do_deposit_def wr_account_id_def wr_deposit_event_def
      ledger_currency_def WrapCurrencyPalletId_def ExchangePalletId_def FarmingPalletId_def ProxyPayPalletId_def
      CreateTokenDeposit_def)

definition rt_params_example :: ex_params where
  "rt_params_example = \<lparr>integer_sqrt = (\<lambda>n. n), integer_sqrt_256 = (\<lambda>n. n), random_id = (\<lambda>a b. 11)\<rparr>"

text \<open>
  C30: Farming and launchpad share their escrow accounts: the escrow of pool \<open>p\<close> of the one is
  that of pool \<open>p\<close> of the other. When the token of the farming pool is the token that the
  launchpad pool is paid in, the claim of the launchpad owner pays him all that the farming pool
  holds of it. Every open stake is then still recorded as open, and claiming it fails at any time.
\<close>

theorem farm_escrow_drained:
  assumes "fa_pools (rt_fa w) p = Some farm" and "fa_escrow_account farm = fa_escrow_account_id E p"
    and "lp_pools (rt_lp w) p = Some sale" and "lp_escrow_account sale = lp_escrow_account_id E p"
    and "lp_buy_token_id sale = fa_locked_token_id farm"
    and "fa_locked (rt_fa w) (a, p) = Some i" and "\<not> fa_is_claimed i" and "0 < fa_staking_balance i"
    and "rt_dispatch C E X orig (RtLaunchpad (LpOwnerClaimCall p)) w = Inr w'"
  shows "unat (ft_balance_of (fa_locked_token_id farm) (lp_owner sale) (rt_ft w')) =
      unat (ft_balance_of (fa_locked_token_id farm) (lp_owner sale) (rt_ft w))
      + unat (ft_balance_of (fa_locked_token_id farm) (fa_escrow_account farm) (rt_ft w))
    \<and> fa_locked (rt_fa w') (a, p) = Some i
    \<and> (\<forall>n. \<exists>e. rt_dispatch C (E\<lparr>env_now := n\<rparr>) X (Signed a) (RtFarming (FaClaimCall p)) w' = Inl e)"
proof -
  let ?t = "fa_locked_token_id farm" and ?e = "fa_escrow_account farm"
  have e: "lp_escrow_account sale = ?e"
    using assms(2, 4) by (simp add: fa_escrow_account_id_def lp_escrow_account_id_def)
  from assms(9) obtain x where x: "lp_owner_claim E orig p (rt_lp_view w) = Inr x" and w': "w' = rt_put_lp x w"
    by (auto simp: rt_dispatch_def focus_def result_eqs)
  have pool: "lp_pools (rt_lp_view w) p = Some sale" using assms(3) by (simp add: rt_lp_view_def)
  note takes = lp_owner_claim_takes [OF x pool, unfolded e assms(5)]
  have empty: "ft_balances (rt_ft w') (?t, ?e) = 0"
    using takes(1) by (simp add: w' rt_put_lp_def ft_balance_of_def)
  have fa: "rt_fa w' = rt_fa w" by (simp add: w' rt_put_lp_def)
  have "fa_claim E' (Signed a) p (rt_fa_view w') \<noteq> Inr y" for E' y
  proof
    assume "fa_claim E' (Signed a) p (rt_fa_view w') = Inr y"
    then obtain s where "ft_do_transfer ?t ?e a (fa_staking_balance i) (rt_ft w') = Inr s"
      using assms(1, 6, 7) by (auto simp: fa_claim_def result_eqs fa_on_ft_def focus_def rt_fa_view_def fa)
    from ftl.move_from [OF this] empty assms(8) show False
      by (simp add: ft_balance_of_def word_less_nat_alt)
  qed
  then have "rt_dispatch C E' X (Signed a) (RtFarming (FaClaimCall p)) w' \<noteq> Inr y" for E' y
    by (auto simp: rt_dispatch_def focus_def result_eqs)
  then have "\<exists>e. rt_dispatch C E' X (Signed a) (RtFarming (FaClaimCall p)) w' = Inl e" for E'
    by (cases "rt_dispatch C E' X (Signed a) (RtFarming (FaClaimCall p)) w'") auto
  moreover have "unat (ft_balance_of ?t (lp_owner sale) (rt_ft w')) =
      unat (ft_balance_of ?t (lp_owner sale) (rt_ft w)) + unat (ft_balance_of ?t ?e (rt_ft w))"
    using takes(2) by (simp add: w' rt_put_lp_def rt_lp_view_def)
  ultimately show ?thesis using assms(6) by (simp add: fa)
qed

text \<open>
  From the genesis of the chain: account 1 opens farming pool 0 and account 2 stakes 100 tokens in it;
  account 3 opens launchpad pool 0, sells nothing and claims, which pays it the stake.
\<close>

definition drain_calls :: "(u32 \<times> origin \<times> runtime_call) list" where
  "drain_calls =
     [(1, Root, RtFarming (FaSetAdmin 1)),
      (1, Signed 1, RtTokenFungible (FtCreateToken 5 [] [] 0)),
      (1, Signed 1, RtTokenFungible (FtMintCall 5 1 1000)),
      (1, Signed 1, RtTokenFungible (FtCreateToken 7 [] [] 0)),
      (1, Signed 1, RtTokenFungible (FtMintCall 7 2 100)),
      (1, Signed 3, RtTokenFungible (FtCreateToken 9 [] [] 0)),
      (1, Signed 3, RtTokenFungible (FtMintCall 9 3 10)),
      (1, Signed 1, RtFarming (FaCreatePool 10 10 10 7 5 1000)),
      (1, Signed 3, RtLaunchpad (LpCreatePool 1 1 9 7 10 1)),
      (10, Signed 2, RtFarming (FaStakingCall 0 100))]"

lemma drain_run:
  "\<exists>w0 w w' farm sale. rt_genesis_example = Inr w0 \<and>
     for_each (rt_step ledger_currency rt_env_example X) drain_calls w0 = Inr w \<and>
     rt_step ledger_currency rt_env_example X (11, Signed 3, RtLaunchpad (LpOwnerClaimCall 0)) w = Inr w' \<and>
     fa_pools (rt_fa w) 0 = Some farm \<and> fa_escrow_account farm = fa_escrow_account_id rt_env_example 0 \<and>
     lp_pools (rt_lp w) 0 = Some sale \<and> lp_escrow_account sale = lp_escrow_account_id rt_env_example 0 \<and>
     lp_buy_token_id sale = 7 \<and> fa_locked_token_id farm = 7 \<and> lp_owner sale = 3 \<and>
     fa_locked (rt_fa w) (2, 0) = Some \<lparr>fa_staking_balance = 100, fa_is_claimed = False\<rparr> \<and>
     ft_balance_of 7 3 (rt_ft w) = 0 \<and> ft_balance_of 7 (fa_escrow_account farm) (rt_ft w) = 100"
  by (simp add: drain_calls_def rt_eval rt_ft_eval rt_pool_eval)

theorem farm_escrow_drained_witness:
  "\<exists>w0 w w'. rt_genesis_example = Inr w0
     \<and> for_each (rt_step ledger_currency rt_env_example rt_params_example) drain_calls w0 = Inr w
     \<and> rt_step ledger_currency rt_env_example rt_params_example (11, Signed 3, RtLaunchpad (LpOwnerClaimCall 0)) w = Inr w'
     \<and> fa_locked (rt_fa w') (2, 0) = Some \<lparr>fa_staking_balance = 100, fa_is_claimed = False\<rparr>
     \<and> unat (ft_balance_of 7 3 (rt_ft w')) = 100
     \<and> (\<forall>n. \<exists>e. rt_step ledger_currency rt_env_example rt_params_example (n, Signed 2, RtFarming (FaClaimCall 0)) w' = Inl e)"
proof -
  obtain w0 w w' farm sale where run: "rt_genesis_example = Inr w0"
      "for_each (rt_step ledger_currency rt_env_example rt_params_example) drain_calls w0 = Inr w"
      "rt_step ledger_currency rt_env_example rt_params_example (11, Signed 3, RtLaunchpad (LpOwnerClaimCall 0)) w = Inr w'"
    and pools: "fa_pools (rt_fa w) 0 = Some farm" "fa_escrow_account farm = fa_escrow_account_id rt_env_example 0"
      "lp_pools (rt_lp w) 0 = Some sale" "lp_escrow_account sale = lp_escrow_account_id rt_env_example 0"
      "lp_buy_token_id sale = 7" "fa_locked_token_id farm = 7" "lp_owner sale = 3"
    and stake: "fa_locked (rt_fa w) (2, 0) = Some \<lparr>fa_staking_balance = 100, fa_is_claimed = False\<rparr>"
    and held: "ft_balance_of 7 3 (rt_ft w) = 0" "ft_balance_of 7 (fa_escrow_account farm) (rt_ft w) = 100"
    using drain_run [of rt_params_example] by blast
  have "fa_escrow_account farm = fa_escrow_account_id (rt_env_example\<lparr>env_now := 11\<rparr>) 0"
    "lp_escrow_account sale = lp_escrow_account_id (rt_env_example\<lparr>env_now := 11\<rparr>) 0"
    using pools by (simp_all add: fa_escrow_account_id_def lp_escrow_account_id_def)
  from farm_escrow_drained [OF pools(1) this(1) pools(3) this(2) _ stake, of ledger_currency rt_params_example "Signed 3" w']
    run(3) pools held
  have "unat (ft_balance_of 7 3 (rt_ft w')) = 100 \<and>
      fa_locked (rt_fa w') (2, 0) = Some \<lparr>fa_staking_balance = 100, fa_is_claimed = False\<rparr> \<and>
      (\<forall>n. \<exists>e. rt_dispatch ledger_currency (rt_env_example\<lparr>env_now := n\<rparr>) rt_params_example (Signed 2)
        (RtFarming (FaClaimCall 0)) w' = Inl e)"
    by (simp add: rt_step_def)
  then show ?thesis using run by (auto simp: rt_step_def)
qed

end
