(* ===== verification/RuntimeConfig.thy ===== *)
theory RuntimeConfig
  imports Weights Runtime
begin

text \<open>
  What the runtime configures besides the pallets of the repository (\<open>runtime/web3games/src/lib.rs\<close>,
  \<open>constants.rs\<close>): units of money and time, the weights of blocks and calls, the price of weight, where
  fees go, the author of a block for the EVM, and how Ethereum transactions become extrinsics.
\<close>

section \<open>Money and time\<close>

definition WEI :: u128 where "WEI = 1"
definition KILOWEI :: u128 where "KILOWEI = 1000"
definition MEGAWEI :: u128 where "MEGAWEI = 1000000"
definition GIGAWEI :: u128 where "GIGAWEI = 1000000000"
definition MICROW3G :: u128 where "MICROW3G = 1000000000000"
definition MILLIW3G :: u128 where "MILLIW3G = 1000000000000000"
definition W3G :: u128 where "W3G = 1000000000000000000"
definition KILOW3G :: u128 where "KILOW3G = 1000000000000000000000"
definition DOLLARS :: u128 where "DOLLARS = W3G"
definition CENTS :: u128 where "CENTS = DOLLARS div 100"
definition MILLICENTS :: u128 where "MILLICENTS = CENTS div 1000"

definition deposit :: "u32 \<Rightarrow> u32 \<Rightarrow> u128" where
  "deposit items nbytes = ucast items * 1000 * CENTS + ucast nbytes * 100 * MILLICENTS"

definition MILLISECS_PER_BLOCK :: u64 where "MILLISECS_PER_BLOCK = 6000"
definition SECS_PER_BLOCK :: u64 where "SECS_PER_BLOCK = MILLISECS_PER_BLOCK div 1000"
definition SLOT_DURATION :: u64 where "SLOT_DURATION = MILLISECS_PER_BLOCK"
definition MINUTES :: u32 where "MINUTES = 60 div ucast SECS_PER_BLOCK"
definition HOURS :: u32 where "HOURS = MINUTES * 60"
definition DAYS :: u32 where "DAYS = HOURS * 24"
definition EPOCH_DURATION_IN_BLOCKS :: u32 where "EPOCH_DURATION_IN_BLOCKS = 10 * MINUTES"

text \<open>The source goes through \<open>f64\<close>; the quotient of the two durations is 1, so nothing is rounded.\<close>

definition EPOCH_DURATION_IN_SLOTS :: u64 where
  "EPOCH_DURATION_IN_SLOTS = ucast EPOCH_DURATION_IN_BLOCKS * (MILLISECS_PER_BLOCK div SLOT_DURATION)"

definition MinimumPeriod :: u64 where "MinimumPeriod = SLOT_DURATION div 2"

definition TransactionByteFee :: u128 where "TransactionByteFee = 10 * MICROW3G"
definition DepositPerItem :: u128 where "DepositPerItem = deposit 1 0"
definition DepositPerByte :: u128 where "DepositPerByte = deposit 0 1"
definition PreimageBaseDeposit :: u128 where "PreimageBaseDeposit = 1 * DOLLARS"
definition PreimageByteDeposit :: u128 where "PreimageByteDeposit = 1 * CENTS"
definition ProposalBondMinimum :: u128 where "ProposalBondMinimum = 1 * DOLLARS"
definition SpendPeriod :: u32 where "SpendPeriod = 6 * DAYS"
definition TipCountdown :: u32 where "TipCountdown = 1 * DAYS"
definition TreasuryPalletId :: string where "TreasuryPalletId = ''w3g/tsry''"

section \<open>Weights of blocks and calls\<close>

definition WEIGHT_PER_SECOND :: u64 where "WEIGHT_PER_SECOND = 1000000000000"

text \<open>
  A \<open>Perbill\<close> is its number of parts of a billion. Its product with a weight is code of
  \<open>sp_arithmetic\<close> and an argument, \<open>mul\<close>; what the configuration relies on is that a product which
  is a whole number is exact, whatever the rounding.
\<close>

definition perbill_law :: "(nat \<Rightarrow> u64 \<Rightarrow> u64) \<Rightarrow> bool" where
  "perbill_law mul \<longleftrightarrow> (\<forall>b x. b \<le> 10 ^ 9 \<and> 10 ^ 9 dvd b * unat x \<longrightarrow> 10 ^ 9 * unat (mul b x) = b * unat x)"

definition AVERAGE_ON_INITIALIZE_RATIO :: nat where "AVERAGE_ON_INITIALIZE_RATIO = 10 * 10 ^ 7"
definition NORMAL_DISPATCH_RATIO :: nat where "NORMAL_DISPATCH_RATIO = 75 * 10 ^ 7"
definition MAXIMUM_BLOCK_WEIGHT :: u64 where "MAXIMUM_BLOCK_WEIGHT = 2 * WEIGHT_PER_SECOND"

datatype dispatch_class = Normal | Operational | Mandatory

text \<open>\<open>max_total\<close> and \<open>reserved\<close> of \<open>RuntimeBlockWeights\<close>.\<close>

fun class_max_total :: "(nat \<Rightarrow> u64 \<Rightarrow> u64) \<Rightarrow> dispatch_class \<Rightarrow> u64 option" where
  "class_max_total mul Normal = Some (mul NORMAL_DISPATCH_RATIO MAXIMUM_BLOCK_WEIGHT)"
| "class_max_total mul Operational = Some MAXIMUM_BLOCK_WEIGHT"
| "class_max_total mul Mandatory = None"

definition operational_reserved :: "(nat \<Rightarrow> u64 \<Rightarrow> u64) \<Rightarrow> u64" where
  "operational_reserved mul = MAXIMUM_BLOCK_WEIGHT - mul NORMAL_DISPATCH_RATIO MAXIMUM_BLOCK_WEIGHT"

definition wrap_weight :: "wrap_call \<Rightarrow> u64" where "wrap_weight c = 10000"

text \<open>The weight of a call of the repository's pallets; \<open>transfer\<close> is that of \<open>pallet_balances\<close>.\<close>

fun rt_weight :: "db_weight \<Rightarrow> u64 \<Rightarrow> runtime_call \<Rightarrow> u64" where
  "rt_weight db transfer (RtBalancesTransfer _ _) = transfer"
| "rt_weight db transfer (RtTokenFungible c) = ft_weight db c"
| "rt_weight db transfer (RtTokenNonFungible c) = nft_weight db c"
| "rt_weight db transfer (RtTokenMulti c) = mt_weight db c"
| "rt_weight db transfer (RtExchange c) = ex_weight db c"
| "rt_weight db transfer (RtWrapCurrency c) = wrap_weight c"
| "rt_weight db transfer (RtProxyPay c) = pp_weight c"
| "rt_weight db transfer (RtMartketplace c) = mp_weight c"
| "rt_weight db transfer (RtPalyerId c) = pid_weight c"
| "rt_weight db transfer (RtCallSwitchgear c) = sw_weight c"
| "rt_weight db transfer (RtFarming c) = fa_weight db c"
| "rt_weight db transfer (RtLaunchpad c) = lp_weight db c"

section \<open>Fees\<close>

record fee_coefficient =
  fc_degree :: u8
  fc_negative :: bool
  fc_coeff_frac :: nat
  fc_coeff_integer :: u128

text \<open>
  \<open>WeightToFee\<close>: a tenth of a \<open>MILLIW3G\<close> for \<open>q\<close>, the base weight of an extrinsic.
  \<open>Perbill::from_rational\<close>, code of \<open>sp_arithmetic\<close>, is an argument.
\<close>

definition weight_to_fee_polynomial :: "(u128 \<Rightarrow> u128 \<Rightarrow> nat) \<Rightarrow> u64 \<Rightarrow> fee_coefficient list" where
  "weight_to_fee_polynomial from_rational extrinsic_base_weight =
     (let p = MILLIW3G div 10; q = ucast extrinsic_base_weight in
      [\<lparr>fc_degree = 1, fc_negative = False, fc_coeff_frac = from_rational (p mod q) q, fc_coeff_integer = p div q\<rparr>])"

text \<open>
  \<open>DealWithFees\<close>, for the fees of the EVM. \<open>ration\<close> of an imbalance is code of \<open>frame_support\<close>, and
  \<open>treasury\<close> is what the treasury pallet does with what it is given. A dropped imbalance is burned.
\<close>

definition deal_on_unbalanceds ::
  "(u32 \<Rightarrow> u32 \<Rightarrow> u128 \<Rightarrow> u128 \<times> u128) \<Rightarrow> (u128 \<Rightarrow> 'c \<Rightarrow> 'c) \<Rightarrow> u128 list \<Rightarrow> 'c \<Rightarrow> 'c" where
  "deal_on_unbalanceds ration treasury fees_then_tips c =
     (case fees_then_tips of
        fees # _ \<Rightarrow> (let (_, to_treasury) = ration 0 100 fees in treasury to_treasury c)
      | [] \<Rightarrow> c)"

definition deal_on_nonzero_unbalanced ::
  "(u32 \<Rightarrow> u32 \<Rightarrow> u128 \<Rightarrow> u128 \<times> u128) \<Rightarrow> (u128 \<Rightarrow> 'c \<Rightarrow> 'c) \<Rightarrow> u128 \<Rightarrow> 'c \<Rightarrow> 'c" where
  "deal_on_nonzero_unbalanced ration treasury amount c =
     (let (_, to_treasury) = ration 0 100 amount in treasury to_treasury c)"

section \<open>The EVM\<close>

definition min_gas_price :: "u256 \<times> u64" where
  "min_gas_price = (ucast (100 * GIGAWEI), 0)"

definition DefaultBaseFeePerGas :: u256 where "DefaultBaseFeePerGas = ucast (100 * GIGAWEI)"

definition BlockGasLimit :: u256 where "BlockGasLimit = ucast (- 1 :: u32)"

definition base_fee_lower :: nat where "base_fee_lower = 0"
definition base_fee_ideal :: nat where "base_fee_ideal = 500000"
definition base_fee_upper :: nat where "base_fee_upper = 1000000"

text \<open>
  \<open>FindAuthorTruncated\<close>: \<open>find_author\<close> is that of Aura, \<open>authorities\<close> are the raw public keys.
\<close>

definition find_author_truncated ::
  "('d list \<Rightarrow> u32 option) \<Rightarrow> bytes list \<Rightarrow> 'd list \<Rightarrow> h160 option dispatch" where
  "find_author_truncated find_author authorities digests =
     (case find_author digests of
        Some author_index \<Rightarrow>
          if unat author_index < length authorities then
            let authority_id = authorities ! unat author_index in
            if 24 \<le> length authority_id
            then Inr (Some (of_nat (from_be (take 20 (drop 4 authority_id))))) else Inl Panicked
          else Inl Panicked
      | None \<Rightarrow> Inr None)"

definition get_all_pallet_accounts :: "env \<Rightarrow> account list" where
  "get_all_pallet_accounts E =
     [into_account E TokenFungiblePalletId, into_account E TokenNonFungiblePalletId, into_account E TokenMultiPalletId,
      into_account E WrapCurrencyPalletId, into_account E ExchangePalletId, zero_account_id]"

definition dust_removal_whitelist_contains :: "env \<Rightarrow> account \<Rightarrow> bool" where
  "dust_removal_whitelist_contains E a \<longleftrightarrow> a \<in> set (get_all_pallet_accounts E)"

section \<open>Ethereum transactions\<close>

text \<open>
  The calls of \<open>pallet_ethereum\<close> and its implementation of self-contained calls are code of another
  crate: the transaction is opaque, and the functions are fields of a record.
\<close>

datatype 'tx ethereum_call = Transact 'tx | EthereumOther

datatype ('tx, 'c) call = CallEthereum "'tx ethereum_call" | CallOther 'c

record ('tx, 'info, 'i) self_contained =
  sc_is_self_contained :: "'tx ethereum_call \<Rightarrow> bool"
  sc_check :: "'tx ethereum_call \<Rightarrow> (string + 'info) option"
  sc_validate :: "'tx ethereum_call \<Rightarrow> 'info \<Rightarrow> 'i \<Rightarrow> nat \<Rightarrow> (string + unit) option"
  sc_pre_dispatch :: "'tx ethereum_call \<Rightarrow> 'info \<Rightarrow> 'i \<Rightarrow> nat \<Rightarrow> (string + unit) option"

definition is_self_contained :: "('tx, 'info, 'i) self_contained \<Rightarrow> ('tx, 'c) call \<Rightarrow> bool" where
  "is_self_contained P c = (case c of CallEthereum call \<Rightarrow> sc_is_self_contained P call | _ \<Rightarrow> False)"

definition check_self_contained :: "('tx, 'info, 'i) self_contained \<Rightarrow> ('tx, 'c) call \<Rightarrow> (string + 'info) option" where
  "check_self_contained P c = (case c of CallEthereum call \<Rightarrow> sc_check P call | _ \<Rightarrow> None)"

definition validate_self_contained ::
  "('tx, 'info, 'i) self_contained \<Rightarrow> ('tx, 'c) call \<Rightarrow> 'info \<Rightarrow> 'i \<Rightarrow> nat \<Rightarrow> (string + unit) option" where
  "validate_self_contained P c info dispatch_info len =
     (case c of CallEthereum call \<Rightarrow> sc_validate P call info dispatch_info len | _ \<Rightarrow> None)"

definition pre_dispatch_self_contained ::
  "('tx, 'info, 'i) self_contained \<Rightarrow> ('tx, 'c) call \<Rightarrow> 'info \<Rightarrow> 'i \<Rightarrow> nat \<Rightarrow> (string + unit) option" where
  "pre_dispatch_self_contained P c info dispatch_info len =
     (case c of CallEthereum call \<Rightarrow> sc_pre_dispatch P call info dispatch_info len | _ \<Rightarrow> None)"

text \<open>\<open>dispatch\<close> runs a call with the origin of an Ethereum transaction of that sender.\<close>

definition apply_self_contained :: "('info \<Rightarrow> ('tx, 'c) call \<Rightarrow> 'r) \<Rightarrow> ('tx, 'c) call \<Rightarrow> 'info \<Rightarrow> 'r option" where
  "apply_self_contained dispatch c info =
     (case c of CallEthereum (Transact _) \<Rightarrow> Some (dispatch info c) | _ \<Rightarrow> None)"

record ('tx, 'c) unchecked_extrinsic =
  ue_signature :: "bytes option"
  ue_function :: "('tx, 'c) call"

definition new_unsigned :: "('tx, 'c) call \<Rightarrow> ('tx, 'c) unchecked_extrinsic" where
  "new_unsigned c = \<lparr>ue_signature = None, ue_function = c\<rparr>"

definition convert_transaction :: "'tx \<Rightarrow> ('tx, 'c) unchecked_extrinsic" where
  "convert_transaction t = new_unsigned (CallEthereum (Transact t))"

definition convert_transaction_opaque ::
  "(('tx, 'c) unchecked_extrinsic \<Rightarrow> bytes) \<Rightarrow> (bytes \<Rightarrow> 'o option) \<Rightarrow> 'tx \<Rightarrow> 'o dispatch" where
  "convert_transaction_opaque encode decode t =
     (case decode (encode (new_unsigned (CallEthereum (Transact t)))) of None \<Rightarrow> Inl Panicked | Some x \<Rightarrow> Inr x)"

definition extrinsic_filter :: "('tx, 'c) unchecked_extrinsic list \<Rightarrow> 'tx list" where
  "extrinsic_filter xts =
     List.map_filter (\<lambda>xt. case ue_function xt of CallEthereum (Transact t) \<Rightarrow> Some t | _ \<Rightarrow> None) xts"

section \<open>Properties\<close>

text \<open>Wrapping Ethereum transactions and filtering them out of a block are inverse.\<close>

theorem convert_filter:
  "extrinsic_filter (map convert_transaction ts @ xs) = ts @ extrinsic_filter xs"
  by (induction ts) (simp_all add: extrinsic_filter_def convert_transaction_def new_unsigned_def List.map_filter_def)

text \<open>What is reserved for operational extrinsics is what normal ones leave of a block.\<close>

lemma perbill_products:
  assumes "perbill_law mul"
  shows "mul NORMAL_DISPATCH_RATIO MAXIMUM_BLOCK_WEIGHT = 1500000000000"
    and "mul AVERAGE_ON_INITIALIZE_RATIO MAXIMUM_BLOCK_WEIGHT = 200000000000"
proof -
  have m: "unat MAXIMUM_BLOCK_WEIGHT = 2000000000000"
    by (simp add: MAXIMUM_BLOCK_WEIGHT_def WEIGHT_PER_SECOND_def)
  have "10 ^ 9 * unat (mul NORMAL_DISPATCH_RATIO MAXIMUM_BLOCK_WEIGHT) = NORMAL_DISPATCH_RATIO * unat MAXIMUM_BLOCK_WEIGHT"
    using assms by (simp add: perbill_law_def NORMAL_DISPATCH_RATIO_def m)
  then have "unat (mul NORMAL_DISPATCH_RATIO MAXIMUM_BLOCK_WEIGHT) = unat (1500000000000 :: u64)"
    by (simp add: NORMAL_DISPATCH_RATIO_def m)
  then show "mul NORMAL_DISPATCH_RATIO MAXIMUM_BLOCK_WEIGHT = 1500000000000" by (rule word_eq_unatI)
  have "10 ^ 9 * unat (mul AVERAGE_ON_INITIALIZE_RATIO MAXIMUM_BLOCK_WEIGHT) = AVERAGE_ON_INITIALIZE_RATIO * unat MAXIMUM_BLOCK_WEIGHT"
    using assms by (simp add: perbill_law_def AVERAGE_ON_INITIALIZE_RATIO_def m)
  then have "unat (mul AVERAGE_ON_INITIALIZE_RATIO MAXIMUM_BLOCK_WEIGHT) = unat (200000000000 :: u64)"
    by (simp add: AVERAGE_ON_INITIALIZE_RATIO_def m)
  then show "mul AVERAGE_ON_INITIALIZE_RATIO MAXIMUM_BLOCK_WEIGHT = 200000000000" by (rule word_eq_unatI)
qed

theorem block_weights_add_up:
  assumes "perbill_law mul" and "class_max_total mul Normal = Some n"
  shows "n + operational_reserved mul = MAXIMUM_BLOCK_WEIGHT \<and> unat n = 1500000000000
     \<and> mul AVERAGE_ON_INITIALIZE_RATIO MAXIMUM_BLOCK_WEIGHT \<le> operational_reserved mul"
  using assms(2) perbill_products [OF assms(1)]
  by (auto simp: operational_reserved_def MAXIMUM_BLOCK_WEIGHT_def WEIGHT_PER_SECOND_def)

text \<open>
  Every call of the repository's pallets fits into a block: its weight and the base weight of an
  extrinsic stay below what normal extrinsics may use of a block, a thousand times over.
\<close>

theorem rt_weights_fit:
  fixes base :: u64
  assumes "db_usual db" and "transfer \<le> 1000000000" and "base \<le> 100000000"
    and "perbill_law mul" and "class_max_total mul Normal = Some n"
  shows "1000 * (unat (rt_weight db transfer c) + unat base) \<le> unat n"
proof -
  have "unat (rt_weight db transfer c) \<le> 1375000000"
    using assms(2)
    by (cases c) (simp_all add: weight_bounds [OF assms(1)] word_le_nat_alt wrap_weight_def pp_weight_def mp_weight_def pid_weight_def sw_weight_def)
  moreover have "unat n = 1500000000000" using block_weights_add_up [OF assms(4, 5)] by simp
  ultimately show ?thesis using assms(3) by (simp add: word_le_nat_alt)
qed

text \<open>
  The law of \<open>Perbill::from_rational\<close> that the price of weight relies on: up to a denominator of a
  billion it is the quotient in parts of a billion, rounded down. (With larger denominators it
  divides both numbers first and is less precise.)
\<close>

definition rational_law :: "(u128 \<Rightarrow> u128 \<Rightarrow> nat) \<Rightarrow> bool" where
  "rational_law from_rational \<longleftrightarrow>
     (\<forall>p q. 0 < q \<and> q \<le> 10 ^ 9 \<and> p < q \<longrightarrow> from_rational p q = unat p * 10 ^ 9 div unat q)"

lemma split_quotient:
  fixes P Q :: nat
  assumes "0 < Q"
  shows "P div Q * 10 ^ 9 + P mod Q * 10 ^ 9 div Q = P * 10 ^ 9 div Q"
proof -
  have "P * 10 ^ 9 = P div Q * 10 ^ 9 * Q + P mod Q * 10 ^ 9"
    by (metis add_mult_distrib div_mult_mod_eq mult.assoc mult.commute)
  then show ?thesis using assms by simp
qed

text \<open>
  The price of weight: the polynomial is linear without a constant, and the integer and the fraction
  of its coefficient together are a tenth of a \<open>MILLIW3G\<close> divided by the base weight of an
  extrinsic, exact to a billionth and never above. As long as the base weight is below a
  billion, the price of one unit of weight is at least 100000, not the 0.8 of the comment.
\<close>

theorem weight_price:
  assumes "rational_law from_rational" and "0 < base" and "base \<le> 10 ^ 9"
  shows "\<exists>c. weight_to_fee_polynomial from_rational base = [c] \<and> fc_degree c = 1 \<and> \<not> fc_negative c \<and>
    fc_coeff_frac c < 10 ^ 9 \<and> 100000 \<le> fc_coeff_integer c \<and>
    unat (fc_coeff_integer c) * 10 ^ 9 + fc_coeff_frac c = 10 ^ 14 * 10 ^ 9 div unat base"
proof -
  let ?q = "ucast base :: u128" and ?p = "MILLIW3G div 10"
  have p: "unat ?p = 10 ^ 14" by (simp add: MILLIW3G_def)
  have q: "unat ?q = unat base" by (simp add: unsigned_ucast_eq take_bit_nat_eq_self order.strict_trans2 [OF unat_bound])
  have b: "0 < unat base" "unat base \<le> 10 ^ 9" using assms(2, 3) by (simp_all add: word_less_nat_alt word_le_nat_alt)
  have "0 < ?q" "?q \<le> 10 ^ 9" "?p mod ?q < ?q"
    using b by (simp_all add: word_less_nat_alt word_le_nat_alt q unat_mod)
  then have f: "from_rational (?p mod ?q) ?q = 10 ^ 14 mod unat base * 10 ^ 9 div unat base"
    using assms(1) p q by (auto simp: rational_law_def unat_mod)
  have "10 ^ 14 mod unat base * 10 ^ 9 < 10 ^ 9 * unat base" using b(1) by simp
  with b(1) have frac: "from_rational (?p mod ?q) ?q < 10 ^ 9" unfolding f by (simp add: div_less_iff_less_mult)
  have i: "unat (?p div ?q) = 10 ^ 14 div unat base" unfolding unat_div [of ?p ?q] p q ..
  have "100000 * unat base \<le> 10 ^ 14" using b(2) by simp
  then have "100000 \<le> 10 ^ 14 div unat base" using b(1) by (simp add: less_eq_div_iff_mult_less_eq)
  with i have "100000 \<le> ?p div ?q" by (simp add: word_le_nat_alt)
  with frac i f split_quotient [OF b(1), of "10 ^ 14"] show ?thesis
    by (simp add: weight_to_fee_polynomial_def Let_def)
qed

text \<open>
  The treasury gets the whole fee of an EVM transaction, and what comes after it, the tip, is dropped;
  \<open>ration\<close> splits in proportion.
\<close>

theorem deal_with_fees:
  assumes "\<And>a b x. (a :: u32) + b \<noteq> 0 \<Longrightarrow> ration a b x = (of_nat (unat x * unat a div unat (a + b)),
      x - of_nat (unat x * unat a div unat (a + b)))"
  shows "deal_on_unbalanceds ration treasury (fees # tips) c = treasury fees c"
    and "deal_on_nonzero_unbalanced ration treasury fees c = treasury fees c"
  using assms [of 0 100 fees] by (simp_all add: deal_on_unbalanceds_def deal_on_nonzero_unbalanced_def)

text \<open>
  The list of pallet accounts leaves some out: the accounts of the marketplace and of farming pools are
  not on it, when accounts of different pallets are different.
\<close>

theorem whitelist_incomplete:
  assumes "inj (into_account E)" and "into_account E MarketplacePalletId \<noteq> zero_account_id"
  shows "\<not> dust_removal_whitelist_contains E (mp_account_id E)"
  using assms(2) inj_eq [OF assms(1)]
  by (simp add: dust_removal_whitelist_contains_def get_all_pallet_accounts_def mp_account_id_def
      TokenFungiblePalletId_def TokenNonFungiblePalletId_def TokenMultiPalletId_def WrapCurrencyPalletId_def
      ExchangePalletId_def MarketplacePalletId_def)

text \<open>The author is found whenever Aura's index is in range, and its address is cut out of its key.\<close>

theorem find_author_in_range:
  assumes "\<And>ds i. find_author ds = Some i \<Longrightarrow> unat i < length authorities" and "\<forall>a\<in>set authorities. length a = 32"
  shows "find_author_truncated find_author authorities ds \<noteq> Inl Panicked"
  using assms by (auto simp: find_author_truncated_def Let_def split: option.splits)

section \<open>Concrete instances\<close>

text \<open>The product of \<open>sp_arithmetic\<close> rounds to the nearest weight, halves down.\<close>

definition mul_example :: "nat \<Rightarrow> u64 \<Rightarrow> u64" where
  "mul_example b x = of_nat ((2 * b * unat x + 10 ^ 9 - 1) div (2 * 10 ^ 9))"

lemma mul_example_law: "perbill_law mul_example"
  unfolding perbill_law_def
proof (intro allI impI)
  fix b and x :: u64
  assume "b \<le> 10 ^ 9 \<and> 10 ^ 9 dvd b * unat x"
  then obtain k where b: "b \<le> 10 ^ 9" and k: "b * unat x = 10 ^ 9 * k" by (auto elim: dvdE)
  have "2 * b * unat x = k * (2 * 10 ^ 9)" using k by simp
  then have "2 * b * unat x + 10 ^ 9 - 1 = 10 ^ 9 - 1 + k * (2 * 10 ^ 9)" by simp
  then have "(2 * b * unat x + 10 ^ 9 - 1) div (2 * 10 ^ 9) = (10 ^ 9 - 1) div (2 * 10 ^ 9) + k"
    by (metis add.commute div_mult_self1 mult_eq_0_iff power_not_zero zero_neq_numeral)
  then have q: "(2 * b * unat x + 10 ^ 9 - 1) div (2 * 10 ^ 9) = k" by simp
  have "10 ^ 9 * k \<le> 10 ^ 9 * unat x" unfolding k [symmetric] using b by (rule mult_le_mono1)
  then have "k < 2 ^ 64" using unat_bound [of x] by simp
  then show "10 ^ 9 * unat (mul_example b x) = b * unat x" unfolding mul_example_def q k by (simp add: unat_of_nat_less)
qed

theorem rt_weights_fit_witness:
  "1000 * (unat (rt_weight RocksDbWeight 0 (RtTokenMulti (MtBatchTransferFrom 1 2 3 [] []))) + unat (86000000 :: u64))
     \<le> 1500000000000"
proof -
  obtain n where n: "class_max_total mul_example Normal = Some n" by simp
  have "db_usual RocksDbWeight" by (simp add: db_usual_def RocksDbWeight_def)
  from rt_weights_fit [OF this _ _ mul_example_law n, of 0 86000000 "RtTokenMulti (MtBatchTransferFrom 1 2 3 [] [])"]
    block_weights_add_up [OF mul_example_law n] show ?thesis by simp
qed

theorem weight_price_witness:
  "\<exists>c. weight_to_fee_polynomial (\<lambda>p q. unat p * 10 ^ 9 div unat q) 86000000 = [c]
     \<and> unat (fc_coeff_integer c) * 10 ^ 9 + fc_coeff_frac c = 1162790697674418"
proof -
  have "rational_law (\<lambda>p q. unat p * 10 ^ 9 div unat q)" by (simp add: rational_law_def)
  from weight_price [OF this, of 86000000] show ?thesis by auto
qed

end
