(* ===== verification/ExchangeRpc.thy ===== *)
theory ExchangeRpc
  imports ExchangeSafety
begin

text \<open>
  The prices that the node answers: the runtime API of the exchange (\<open>ExchangeRuntimeApi\<close> in
  \<open>runtime/web3games/src/lib.rs\<close>) and the RPC server that calls it (\<open>pallets/exchange/rpc\<close>). What they
  answer is what a call of the exchange at the same state does.
\<close>

section \<open>The runtime API\<close>

text \<open>An error of the pallet becomes \<open>None\<close>; a panic traps.\<close>

definition if_ok :: "'a dispatch \<Rightarrow> 'a option dispatch" where
  "if_ok m = (case m of Inr x \<Rightarrow> Inr (Some x) | Inl e \<Rightarrow> if e = Panicked then Inl Panicked else Inr None)"

definition api_get_amount_in_price :: "u128 \<Rightarrow> u128 list \<Rightarrow> 'c ex_world \<Rightarrow> u128 list option dispatch" where
  "api_get_amount_in_price amount path w = if_ok (ex_get_amounts_in amount path w)"


definition api_get_estimate_lp_token ::
  "ex_params \<Rightarrow> u128 \<Rightarrow> u128 \<Rightarrow> u128 \<Rightarrow> u128 \<Rightarrow> 'c ex_world \<Rightarrow> u128 option dispatch" where
  "api_get_estimate_lp_token X token_0 amount_0 token_1 amount_1 w =
     if_ok (ex_get_liquidity X token_0 amount_0 token_1 amount_1 w)"

definition api_get_estimate_out_token :: "u128 \<Rightarrow> u128 \<Rightarrow> u128 \<Rightarrow> 'c ex_world \<Rightarrow> u128 option dispatch" where
  "api_get_estimate_out_token amount token_0 token_1 w =
     if_ok (and_then (ex_get_reserves token_0 token_1 w) (\<lambda>(reserve_a, reserve_b). ex_quote amount reserve_a reserve_b))"

definition api_get_liquidity_to_tokens :: "u128 \<Rightarrow> u128 \<Rightarrow> 'c ex_world \<Rightarrow> (u128 \<times> u128) option dispatch" where
  "api_get_liquidity_to_tokens lp_token lp_balance w = if_ok (ex_liquidity_to_token lp_token lp_balance w)"

section \<open>The RPC server\<close>

text \<open>
  The client knows the hash of the best block and runs the API at the state of a block; that fails when
  the block is unknown or the runtime traps.
\<close>

record ('h, 'w) rpc_client =
  rc_best_hash :: 'h
  rc_state :: "'h \<Rightarrow> 'w option"

datatype rpc_error_kind = DecodeError | RuntimeError

fun rpc_error_code :: "rpc_error_kind \<Rightarrow> int" where
  "rpc_error_code RuntimeError = 1"
| "rpc_error_code DecodeError = 2"

record rpc_error =
  re_code :: int
  re_message :: string
  re_data :: "string option"

definition runtime_error_into_rpc_err :: "string \<Rightarrow> rpc_error" where
  "runtime_error_into_rpc_err err =
     \<lparr>re_code = rpc_error_code RuntimeError, re_message = ''error in exchange pallet'', re_data = Some err\<rparr>"

definition runtime_api :: "('h, 'w) rpc_client \<Rightarrow> 'h \<Rightarrow> ('w \<Rightarrow> 'a dispatch) \<Rightarrow> string + 'a" where
  "runtime_api cl at f =
     (case rc_state cl at of
        None \<Rightarrow> Inl ''UnknownBlock''
      | Some w \<Rightarrow> (case f w of Inl _ \<Rightarrow> Inl ''Trap'' | Inr x \<Rightarrow> Inr x))"

definition rpc_at :: "('h, 'w) rpc_client \<Rightarrow> 'h option \<Rightarrow> ('w \<Rightarrow> 'a dispatch) \<Rightarrow> rpc_error + 'a" where
  "rpc_at cl at f =
     (let at = (case at of Some h \<Rightarrow> h | None \<Rightarrow> rc_best_hash cl) in
      case runtime_api cl at f of Inl err \<Rightarrow> Inl (runtime_error_into_rpc_err err) | Inr x \<Rightarrow> Inr x)"

definition rpc_get_amount_in_price ::
  "('h, 'c ex_world) rpc_client \<Rightarrow> u128 \<Rightarrow> u128 list \<Rightarrow> 'h option \<Rightarrow> rpc_error + u128 list option" where
  "rpc_get_amount_in_price cl amount path at = rpc_at cl at (api_get_amount_in_price amount path)"


definition rpc_get_estimate_lp_token ::
  "ex_params \<Rightarrow> ('h, 'c ex_world) rpc_client \<Rightarrow> u128 \<Rightarrow> u128 \<Rightarrow> u128 \<Rightarrow> u128 \<Rightarrow> 'h option
     \<Rightarrow> rpc_error + u128 option" where
  "rpc_get_estimate_lp_token X cl token_0 amount_0 token_1 amount_1 at =
     rpc_at cl at (api_get_estimate_lp_token X token_0 amount_0 token_1 amount_1)"

definition rpc_get_estimate_out_token ::
  "('h, 'c ex_world) rpc_client \<Rightarrow> u128 \<Rightarrow> u128 \<Rightarrow> u128 \<Rightarrow> 'h option \<Rightarrow> rpc_error + u128 option" where
  "rpc_get_estimate_out_token cl amount token_0 token_1 at =
     rpc_at cl at (api_get_estimate_out_token amount token_0 token_1)"

definition rpc_get_liquidity_to_tokens ::
  "('h, 'c ex_world) rpc_client \<Rightarrow> u128 \<Rightarrow> u128 \<Rightarrow> 'h option \<Rightarrow> rpc_error + (u128 \<times> u128) option" where
  "rpc_get_liquidity_to_tokens cl lp_token lp_balance at =
     rpc_at cl at (api_get_liquidity_to_tokens lp_token lp_balance)"

section \<open>Lemmas\<close>

lemma if_ok_eq_Some: "if_ok m = Inr (Some x) \<longleftrightarrow> m = Inr x"
  by (auto simp: if_ok_def split: sum.splits if_splits)

lemma rpc_at_best:
  "rpc_at cl None f = Inr (Some x) \<longleftrightarrow> (\<exists>w. rc_state cl (rc_best_hash cl) = Some w \<and> f w = Inr (Some x))"
  by (auto simp: rpc_at_def runtime_api_def Let_def split: option.splits sum.splits)

text \<open>Without a fee receiver, collecting the fee changes no token.\<close>

lemma mint_fee_off:
  assumes "ex_mint_fee E X t0 t1 r0 r1 w = Inr (fee_on, w')" and "ex_fee_to w = None"
  shows "ex_ft w' = ex_ft w"
  using assms by (auto simp: ex_mint_fee_def Let_def ex_ft_def)

section \<open>Properties\<close>


text \<open>
  The estimate of liquidity tokens is what depositing these amounts mints, as long as no fee receiver is
  set.
\<close>

theorem rpc_lp_estimate:
  assumes "rpc_get_estimate_lp_token X cl t0 a0 t1 a1 None = Inr (Some l)" and "rc_state cl (rc_best_hash cl) = Some w"
    and "t0 < t1" and "ex_fee_to w = None"
    and "ex_mint E X who t0 t1 to w' = Inr (l', w'')"
    and "ex_reserves w' = ex_reserves w" and "ex_pools w' = ex_pools w" and "ex_fee_to w' = ex_fee_to w"
    and "ft_tokens (ex_ft w') = ft_tokens (ex_ft w)"
    and "ex_pools w (t0, t1) = Some pool" and "ex_reserves w (t0, t1) = (r0, r1)"
    and "unat (ex_bal w' (pool_token_0 pool) (pool_lp_account pool)) = unat r0 + unat a0"
    and "unat (ex_bal w' (pool_token_1 pool) (pool_lp_account pool)) = unat r1 + unat a1"
  shows "l' = l"
proof -
  have l: "ex_get_liquidity X t0 a0 t1 a1 w = Inr l"
    using assms(1, 2)
    by (simp add: rpc_get_estimate_lp_token_def rpc_at_best api_get_estimate_lp_token_def if_ok_eq_Some)
  from assms(5) show ?thesis
  proof (rule ex_mintE)
    fix pool' r0' r1' b0 b1 x0 x1 fee_on w1 sp w2 w3
    assume p: "ex_pools w' (t0, t1) = Some pool'" "ex_reserves w' (t0, t1) = (r0', r1')"
      and b: "b0 = ex_bal w' (pool_token_0 pool') (pool_lp_account pool')"
        "b1 = ex_bal w' (pool_token_1 pool') (pool_lp_account pool')"
      and x: "checked_sub b0 r0' = Some x0" "checked_sub b1 r1' = Some x1"
      and fee: "ex_mint_fee E X t0 t1 r0' r1' w' = Inr (fee_on, w1)"
      and sp: "ft_supply (pool_lp_token pool') (ex_ft w1) = Inr sp"
      and m: "ex_mint_liquidity E X pool' x0 x1 r0' r1' sp w1 = Inr (l', w2)"
    have same: "pool' = pool" "r0' = r0" "r1' = r1" using p assms(6, 7, 10, 11) by auto
    have "x0 = a0" "x1 = a1"
      using x b assms(12, 13) by (auto simp: same checked_sub_eq_Some intro: word_eq_unatI)
    moreover have "ft_supply (pool_lp_token pool) (ex_ft w) = Inr sp"
      using sp mint_fee_off [OF fee] assms(4, 8, 9) by (simp add: same ft_supply_def)
    ultimately show "l' = l"
      using l m assms(3, 10, 11) same
      by (auto simp: ex_get_liquidity_def ex_mint_liquidity_def ex_sort_tokens_def ex_get_pool_def result_eqs Let_def
          split: if_splits)
  qed
qed

section \<open>Concrete instances\<close>



end
