(* ===== verification/ChainExtension.thy ===== *)
theory ChainExtension
  imports TokenFungible TokenNonFungible TokenMulti WrapCurrency
begin

text \<open>
  The chain extension through which ink contracts reach the token pallets
  (\<open>chain-extensions/src/lib.rs\<close> and the three modules beside it). The runtime dispatches only the
  fungible module; the other two are compiled, but their ranges of function ids are commented out.
\<close>

section \<open>The environment of a contract\<close>

text \<open>
  The codec and the environment are code of other crates. Values that cross the boundary are tagged; a
  contract is seen through the account that called it (\<open>env.ext().caller()\<close>), the values decoded from its
  input, whether the charged weight is available and whether its output buffer has room. \<open>ie_read\<close> decodes the whole input as a tuple,
  \<open>ie_read_as k\<close> is the \<open>k\<close>-th of several reads.
\<close>

datatype scale_type = SU8 | SU128 | SBool | SAccount | SBytes | SIds | SAccounts

datatype scale_value =
    VU8 u8 | VU128 u128 | VBool bool | VAccount account | VBytes bytes | VIds "u128 list" | VAccounts "account list"
  | VUnit | VResult "u128 list dispatch" | VHash bytes

record ink_env =
  ie_caller :: account
  ie_read :: "scale_type list \<Rightarrow> scale_value list dispatch"
  ie_read_as :: "nat \<Rightarrow> scale_type \<Rightarrow> scale_value dispatch"
  ie_charge_weight :: "u64 \<Rightarrow> unit dispatch"
  ie_encode :: "scale_value \<Rightarrow> bytes"
  ie_write :: "bytes \<Rightarrow> unit dispatch"

text \<open>A tuple is decoded at its types; these projections are only used at the type that was asked for.\<close>

fun sv_u8 :: "scale_value \<Rightarrow> u8" where "sv_u8 (VU8 x) = x" | "sv_u8 _ = 0"

fun sv_u128 :: "scale_value \<Rightarrow> u128" where "sv_u128 (VU128 x) = x" | "sv_u128 _ = 0"

fun sv_bool :: "scale_value \<Rightarrow> bool" where "sv_bool (VBool x) = x" | "sv_bool _ = False"

fun sv_account :: "scale_value \<Rightarrow> account" where "sv_account (VAccount x) = x" | "sv_account _ = 0"

fun sv_bytes :: "scale_value \<Rightarrow> bytes" where "sv_bytes (VBytes x) = x" | "sv_bytes _ = []"

fun sv_ids :: "scale_value \<Rightarrow> u128 list" where "sv_ids (VIds x) = x" | "sv_ids _ = []"

fun sv_accounts :: "scale_value \<Rightarrow> account list" where "sv_accounts (VAccounts x) = x" | "sv_accounts _ = []"

text \<open>The result of an extension call: the bytes written to the contract, and the storage.\<close>

type_synonym 's ink_result = "(bytes \<times> 's) dispatch"

definition ink_write :: "ink_env \<Rightarrow> string \<Rightarrow> scale_value \<Rightarrow> 's \<Rightarrow> 's ink_result" where
  "ink_write env msg v s =
     (case ie_write env (ie_encode env v) of Inl _ \<Rightarrow> Inl (Other msg) | Inr _ \<Rightarrow> Inr (ie_encode env v, s))"

text \<open>
  The shape of all functions that change storage: decode, charge 10000 weight, run the operation of the
  pallet, and encode its result, which is the unit.
\<close>

definition ink_change ::
  "ink_env \<Rightarrow> scale_type list \<Rightarrow> string \<Rightarrow> (scale_value list \<Rightarrow> 's \<Rightarrow> 's dispatch) \<Rightarrow> 's \<Rightarrow> 's ink_result" where
  "ink_change env types msg f s =
     and_then (ie_read env types) (\<lambda>vs.
     and_then (ie_charge_weight env 10000) (\<lambda>_.
     and_then (f vs s) (\<lambda>s. ink_write env msg VUnit s)))"

definition unimplemented :: "'s ink_result" where
  "unimplemented = Inl (Other ''Unimplemented func_id'')"

section \<open>Fungible tokens\<close>

text \<open>The functions that only read: \<open>exists\<close> and \<open>total_supply\<close>.\<close>

definition ft_ext_query :: "ink_env \<Rightarrow> u32 \<Rightarrow> ft_storage \<Rightarrow> ft_storage ink_result" where
  "ft_ext_query env func_id s =
     (if func_id = 65543 then
        and_then (ie_read_as env 0 SU128) (\<lambda>v.
        ink_write env ''ChainExtension failed to call create collection'' (VBool (ft_exists (sv_u128 v) s)) s)
      else if func_id = 65544 then
        and_then (ie_read_as env 0 SU128) (\<lambda>v.
        and_then (ft_supply (sv_u128 v) s) (\<lambda>supply.
        ink_write env ''ChainExtension failed to call create collection'' (VU128 supply) s))
      else unimplemented)"

text \<open>
  \<open>FungibleTokenExtension::call\<close>. \<open>transfer_from\<close> and \<open>burn\<close> do not look at the caller, and
  \<open>create_token\<close> does not ask whether the id is taken.
\<close>

definition ft_ext_call :: "ink_env \<Rightarrow> u32 \<Rightarrow> ft_storage \<Rightarrow> ft_storage ink_result" where
  "ft_ext_call env func_id s =
     (let caller = ie_caller env in
      if func_id = 65537 then
        ink_change env [SU128, SBytes, SBytes, SU8] ''ChainExtension failed to call create token''
          (\<lambda>vs. ft_do_create_token caller (sv_u128 (vs ! 0)) (sv_bytes (vs ! 1)) (sv_bytes (vs ! 2)) (sv_u8 (vs ! 3))) s
      else if func_id = 65538 then
        ink_change env [SU128, SAccount, SU128] ''ChainExtension failed to call approve''
          (\<lambda>vs. ft_do_approve (sv_u128 (vs ! 0)) caller (sv_account (vs ! 1)) (sv_u128 (vs ! 2))) s
      else if func_id = 65539 then
        ink_change env [SU128, SAccount, SU128] ''ChainExtension failed to call do_mint''
          (\<lambda>vs. ft_do_transfer (sv_u128 (vs ! 0)) caller (sv_account (vs ! 1)) (sv_u128 (vs ! 2))) s
      else if func_id = 65540 then
        ink_change env [SU128, SAccount, SAccount, SU128] ''ChainExtension failed to call do_mint''
          (\<lambda>vs. ft_do_transfer (sv_u128 (vs ! 0)) (sv_account (vs ! 1)) (sv_account (vs ! 2)) (sv_u128 (vs ! 3))) s
      else if func_id = 65541 then
        ink_change env [SU128, SAccount, SU128] ''ChainExtension failed to call do_mint''
          (\<lambda>vs. ft_do_mint (sv_u128 (vs ! 0)) caller (sv_account (vs ! 1)) (sv_u128 (vs ! 2))) s
      else if func_id = 65542 then
        ink_change env [SU128, SAccount, SU128] ''ChainExtension failed to call do_mint''
          (\<lambda>vs. ft_do_burn (sv_u128 (vs ! 0)) (sv_account (vs ! 1)) (sv_u128 (vs ! 2))) s
      else ft_ext_query env func_id s)"

section \<open>Non-fungible tokens\<close>

text \<open>The functions that only read: \<open>exists\<close> and \<open>token_exists\<close>.\<close>

definition nft_ext_query :: "ink_env \<Rightarrow> u32 \<Rightarrow> nft_storage \<Rightarrow> nft_storage ink_result" where
  "nft_ext_query env func_id s =
     (if func_id = 65607 then
        and_then (ie_read_as env 0 SU128) (\<lambda>v.
        ink_write env ''ChainExtension failed to call create collection'' (VBool (nft_exists (sv_u128 v) s)) s)
      else if func_id = 65608 then
        and_then (ie_read_as env 0 SU128) (\<lambda>v.
        and_then (ie_read_as env 1 SU128) (\<lambda>t.
        ink_write env ''ChainExtension failed to call create collection''
          (VBool (nft_token_exists (sv_u128 v) (sv_u128 t) s)) s))
      else unimplemented)"

definition nft_ext_call :: "ink_env \<Rightarrow> u32 \<Rightarrow> nft_storage \<Rightarrow> nft_storage ink_result" where
  "nft_ext_call env func_id s =
     (let caller = ie_caller env in
      if func_id = 65601 then
        ink_change env [SU128, SBytes, SBytes, SBytes] ''ChainExtension failed to call create token''
          (\<lambda>vs. nft_do_create_token caller (sv_u128 (vs ! 0)) (sv_bytes (vs ! 1)) (sv_bytes (vs ! 2)) (sv_bytes (vs ! 3))) s
      else if func_id = 65602 then
        ink_change env [SU128, SAccount, SU128] ''ChainExtension failed to call approve''
          (\<lambda>vs. nft_do_approve caller (sv_u128 (vs ! 0)) (sv_account (vs ! 1)) (sv_u128 (vs ! 2))) s
      else if func_id = 65603 then
        ink_change env [SU128, SAccount, SBool] ''ChainExtension failed to call set_approve_for_all''
          (\<lambda>vs. nft_do_set_approve_for_all caller (sv_u128 (vs ! 0)) (sv_account (vs ! 1)) (sv_bool (vs ! 2))) s
      else if func_id = 65604 then
        ink_change env [SU128, SAccount, SAccount, SU128] ''ChainExtension failed to call set_approve_for_all''
          (\<lambda>vs. nft_do_transfer_from caller (sv_u128 (vs ! 0)) (sv_account (vs ! 1)) (sv_account (vs ! 2)) (sv_u128 (vs ! 3))) s
      else if func_id = 65605 then
        ink_change env [SU128, SAccount, SU128] ''ChainExtension failed to call mint''
          (\<lambda>vs. nft_do_mint caller (sv_u128 (vs ! 0)) (sv_account (vs ! 1)) (sv_u128 (vs ! 2))) s
      else if func_id = 65606 then
        ink_change env [SU128, SU128] ''ChainExtension failed to call burn''
          (\<lambda>vs. nft_do_burn caller (sv_u128 (vs ! 0)) (sv_u128 (vs ! 1))) s
      else nft_ext_query env func_id s)"

section \<open>Multi tokens\<close>

text \<open>The functions that only read: \<open>exists\<close>, \<open>balance_of_batch\<close> and \<open>balance_of\<close>.\<close>

definition mt_ext_query :: "ink_env \<Rightarrow> u32 \<Rightarrow> mt_storage \<Rightarrow> mt_storage ink_result" where
  "mt_ext_query env func_id s =
     (if func_id = 65673 then
        and_then (ie_read_as env 0 SU128) (\<lambda>v.
        ink_write env ''ChainExtension failed to call create collection'' (VBool (mt_exists (sv_u128 v) s)) s)
      else if func_id = 65674 then
        and_then (ie_read_as env 0 SU128) (\<lambda>v.
        and_then (ie_read_as env 1 SIds) (\<lambda>token_ids.
        and_then (ie_read_as env 2 SAccounts) (\<lambda>accounts.
        ink_write env ''ChainExtension failed to call create collection''
          (VResult (mt_balance_of_batch (sv_u128 v) (sv_accounts accounts) (sv_ids token_ids) s)) s)))
      else if func_id = 65675 then
        and_then (ie_read_as env 0 SU128) (\<lambda>v.
        and_then (ie_read_as env 1 SAccount) (\<lambda>account.
        and_then (ie_read_as env 2 SU128) (\<lambda>token_id.
        ink_write env ''ChainExtension failed to call create collection''
          (VU128 (mt_balances s (sv_u128 v, sv_u128 token_id, sv_account account))) s)))
      else unimplemented)"

text \<open>\<open>mint\<close>, \<open>mint_batch\<close>, \<open>burn\<close> and \<open>burn_batch\<close>.\<close>

definition mt_ext_supply :: "ink_env \<Rightarrow> u32 \<Rightarrow> mt_storage \<Rightarrow> mt_storage ink_result" where
  "mt_ext_supply env func_id s =
     (let caller = ie_caller env in
      if func_id = 65669 then
        ink_change env [SU128, SAccount, SU128, SU128] ''ChainExtension failed to call mint''
          (\<lambda>vs. mt_do_mint caller (sv_u128 (vs ! 0)) (sv_account (vs ! 1)) (sv_u128 (vs ! 2)) (sv_u128 (vs ! 3))) s
      else if func_id = 65670 then
        ink_change env [SU128, SAccount, SIds, SIds] ''ChainExtension failed to call mint_batch''
          (\<lambda>vs. mt_do_batch_mint caller (sv_u128 (vs ! 0)) (sv_account (vs ! 1)) (sv_ids (vs ! 2)) (sv_ids (vs ! 3))) s
      else if func_id = 65671 then
        ink_change env [SU128, SU128, SU128] ''ChainExtension failed to call burn''
          (\<lambda>vs. mt_do_burn caller (sv_u128 (vs ! 0)) (sv_u128 (vs ! 1)) (sv_u128 (vs ! 2))) s
      else if func_id = 65672 then
        ink_change env [SU128, SIds, SIds] ''ChainExtension failed to call burn_batch''
          (\<lambda>vs. mt_do_batch_burn caller (sv_u128 (vs ! 0)) (sv_ids (vs ! 1)) (sv_ids (vs ! 2))) s
      else mt_ext_query env func_id s)"

text \<open>\<open>MultiTokenExtension::call\<close>: creation, approvals and transfers, then the rest.\<close>

definition mt_ext_call :: "ink_env \<Rightarrow> u32 \<Rightarrow> mt_storage \<Rightarrow> mt_storage ink_result" where
  "mt_ext_call env func_id s =
     (let caller = ie_caller env in
      if func_id = 65665 then
        ink_change env [SU128, SBytes] ''ChainExtension failed to call create token''
          (\<lambda>vs. mt_do_create_token caller (sv_u128 (vs ! 0)) (sv_bytes (vs ! 1))) s
      else if func_id = 65666 then
        ink_change env [SU128, SAccount, SBool] ''ChainExtension failed to call set_approval_for_all''
          (\<lambda>vs. mt_do_set_approval_for_all caller (sv_u128 (vs ! 0)) (sv_account (vs ! 1)) (sv_bool (vs ! 2))) s
      else if func_id = 65667 then
        ink_change env [SU128, SAccount, SAccount, SU128, SU128] ''ChainExtension failed to call transfer_from''
          (\<lambda>vs. mt_do_transfer_from caller (sv_u128 (vs ! 0)) (sv_account (vs ! 1)) (sv_account (vs ! 2))
                  (sv_u128 (vs ! 3)) (sv_u128 (vs ! 4))) s
      else if func_id = 65668 then
        ink_change env [SU128, SAccount, SAccount, SIds, SIds] ''ChainExtension failed to call batch_transfer_from''
          (\<lambda>vs. mt_do_batch_transfer_from caller (sv_u128 (vs ! 0)) (sv_account (vs ! 1)) (sv_account (vs ! 2))
                  (sv_ids (vs ! 3)) (sv_ids (vs ! 4))) s
      else mt_ext_supply env func_id s)"

section \<open>The extension of the runtime\<close>

text \<open>\<open>Web3GamesChainExtensions::call\<close>; the seed comes from the randomness of the contracts pallet.\<close>

definition ext_call :: "bytes \<Rightarrow> ink_env \<Rightarrow> u32 \<Rightarrow> ft_storage \<Rightarrow> ft_storage ink_result" where
  "ext_call random_seed env func_id s =
     (if func_id = 1024 then ink_write env ''ChainExtension failed to call random'' (VHash random_seed) s
      else if 65537 \<le> func_id \<and> func_id < 65600 then ft_ext_call env func_id s
      else unimplemented)"

lemmas ext_defs = ft_ext_call_def ft_ext_query_def nft_ext_call_def nft_ext_query_def mt_ext_call_def mt_ext_supply_def
  mt_ext_query_def Let_def

section \<open>What a contract can do\<close>

lemma ink_write_ok: "ink_write env msg v s = Inr (out, s') \<Longrightarrow> s' = s"
  by (auto simp: ink_write_def split: sum.splits)

lemma ink_changeE:
  assumes "ink_change env types msg f s = Inr (out, s')"
  obtains vs where "ie_read env types = Inr vs" and "f vs s = Inr s'"
  using assms by (auto simp: ink_change_def result_eqs dest: ink_write_ok)

text \<open>
  The contract that an extension should keep: whatever a contract sends, the storage is left as it is, or
  changed as by a call of the pallet signed by the account that called the contract.
\<close>

locale ink_extension =
  fixes call :: "ink_env \<Rightarrow> u32 \<Rightarrow> 's \<Rightarrow> 's ink_result"
    and dispatch :: "origin \<times> 'c \<Rightarrow> 's \<Rightarrow> 's dispatch"
  assumes own: "call env f s = Inr (out, s') \<Longrightarrow> s' = s \<or> (\<exists>c. dispatch (Signed (ie_caller env), c) s = Inr s')"
begin

text \<open>Contracts reach no state that their callers could not reach by themselves.\<close>

lemma ink_reachable:
  assumes "reachable dispatch s0 s" and "call env f s = Inr (out, s')"
  shows "reachable dispatch s0 s'"
  using own [OF assms(2)] assms(1) by (auto intro: reachable.intros)

end

lemma nft_ext_own:
  assumes "nft_ext_call env f s = Inr (out, s')"
  shows "s' = s \<or> (\<exists>c. nft_dispatch (Signed (ie_caller env), c) s = Inr s')"
proof -
  have call: "\<exists>c. nft_dispatch (Signed (ie_caller env), c) s = Inr s'"
    if "nft_dispatch (Signed (ie_caller env), c) s = Inr s'" for c
    using that by blast
  show ?thesis
    using assms unfolding ext_defs
    by (auto simp: unimplemented_def result_eqs split: if_splits dest: ink_write_ok elim!: ink_changeE
        intro: call [of "NftCreateToken _ _ _ _"] call [of "NftApprove _ _ _"] call [of "NftSetApproveForAll _ _ _"]
          call [of "NftTransferFrom _ _ _ _"] call [of "NftMint _ _ _"] call [of "NftBurn _ _"]
        simp: nft_create_token_def nft_approve_def nft_set_approve_for_all_def nft_transfer_from_def nft_mint_def nft_burn_def)
qed

text \<open>The checks that the extension leaves out before minting are made again by the operation itself.\<close>

lemma ft_mint_call: "ft_do_mint t w a v s = Inr s' \<Longrightarrow> ft_dispatch (Signed w, FtMintCall t a v) s = Inr s'"
  by (auto simp: ft_mint_def ft_do_mint_ok ft_exists_def result_eqs)

lemma mt_mint_call: "mt_do_mint w i a t v s = Inr s' \<Longrightarrow> mt_dispatch (Signed w, MtMintCall i a t v) s = Inr s'"
  by (auto simp: mt_mint_def result_eqs mt_do_mint_ok mt_exists_def)

lemma mt_ext_own:
  assumes "mt_ext_call env f s = Inr (out, s')"
  shows "s' = s \<or> (\<exists>c. mt_dispatch (Signed (ie_caller env), c) s = Inr s')"
proof -
  have call: "\<exists>c. mt_dispatch (Signed (ie_caller env), c) s = Inr s'"
    if "mt_dispatch (Signed (ie_caller env), c) s = Inr s'" for c
    using that by blast
  show ?thesis
    using assms unfolding ext_defs
    by (auto simp: unimplemented_def result_eqs split: if_splits dest: ink_write_ok elim!: ink_changeE
        intro: call [of "MtCreateToken _ _"] call [of "MtSetApprovalForAll _ _ _"] call [of "MtTransferFrom _ _ _ _ _"]
          call [of "MtBatchTransferFrom _ _ _ _ _"] call [OF mt_mint_call] call [of "MtMintBatch _ _ _ _"]
          call [of "MtBurnCall _ _ _"] call [of "MtBurnBatch _ _ _"]
        simp: mt_create_token_def mt_set_approval_for_all_def mt_transfer_from_def mt_batch_transfer_from_def
          mt_mint_batch_def mt_burn_def mt_burn_batch_def)
qed

interpretation nfte: ink_extension nft_ext_call nft_dispatch
  by unfold_locales (rule nft_ext_own)

interpretation mte: ink_extension mt_ext_call mt_dispatch
  by unfold_locales (rule mt_ext_own)

text \<open>
  The fungible module keeps that contract for all but three functions: \<open>create_token\<close>,
  \<open>transfer_from\<close> and \<open>burn\<close>.
\<close>

lemma ft_ext_own:
  assumes "ft_ext_call env f s = Inr (out, s')" and "f \<notin> {65537, 65540, 65542}"
  shows "s' = s \<or> (\<exists>c. ft_dispatch (Signed (ie_caller env), c) s = Inr s')"
proof -
  have call: "\<exists>c. ft_dispatch (Signed (ie_caller env), c) s = Inr s'"
    if "ft_dispatch (Signed (ie_caller env), c) s = Inr s'" for c
    using that by blast
  show ?thesis
    using assms unfolding ext_defs
    by (auto simp: unimplemented_def result_eqs split: if_splits dest: ink_write_ok elim!: ink_changeE
        intro: call [of "FtApprove _ _ _"] call [of "FtTransferCall _ _ _"] call [OF ft_mint_call]
        simp: ft_approve_def ft_transfer_def)
qed

lemma ft_ext_inv:
  assumes "ft_ext_call env f s = Inr (out, s')" and "ft_inv s"
  shows "ft_inv s'"
  using assms unfolding ext_defs
  by (auto simp: unimplemented_def result_eqs split: if_splits dest: ink_write_ok elim!: ink_changeE
      intro: ft_do_create_token_inv ft_do_approve_inv ft_do_transfer_inv ft_do_mint_inv ft_do_burn_inv)

lemma ext_call_cases:
  assumes "ext_call seed env f s = Inr (out, s')"
  obtains "s' = s" | "ft_ext_call env f s = Inr (out, s')"
  using assms by (auto simp: ext_call_def unimplemented_def split: if_splits dest: ink_write_ok)

text \<open>A contract that sends the values \<open>vs\<close>, with enough weight and room.\<close>

definition ink_example :: "account \<Rightarrow> scale_value list \<Rightarrow> ink_env" where
  "ink_example caller vs =
     \<lparr>ie_caller = caller, ie_read = (\<lambda>_. Inr vs), ie_read_as = (\<lambda>k _. Inr (vs ! k)), ie_charge_weight = (\<lambda>_. Inr ()),
      ie_encode = (\<lambda>_. []), ie_write = (\<lambda>_. Inr ())\<rparr>"

section \<open>Properties\<close>

text \<open>
  C27: Whatever a contract sends through the chain extension, the invariant of the fungible tokens is
  kept; and unless it calls \<open>create_token\<close> (65537), \<open>transfer_from\<close> (65540) or \<open>burn\<close> (65542), the
  storage changes only as by a call that the account behind the contract call could have signed itself.
\<close>

theorem ink_calls_own:
  assumes "ext_call seed env f s = Inr (out, s')" and "ft_inv s"
  shows "ft_inv s' \<and>
    (f \<notin> {65537, 65540, 65542} \<longrightarrow> s' = s \<or> (\<exists>c. ft_dispatch (Signed (ie_caller env), c) s = Inr s'))"
  using assms(1)
  by (cases rule: ext_call_cases) (use assms(2) ft_ext_inv ft_ext_own in blast)+

text \<open>
  C28: Function 65540 of the extension, \<open>transfer_from\<close>, asks nobody: a contract that anyone calls moves
  any amount up to the balance of any account \<open>victim\<close> to any other account, without an allowance.
\<close>

theorem ink_transfer_from_unchecked:
  assumes "ie_read env [SU128, SAccount, SAccount, SU128] = Inr [VU128 t, VAccount victim, VAccount thief, VU128 v]"
    and "ie_charge_weight env 10000 = Inr ()" and "ie_write env (ie_encode env VUnit) = Inr ()"
    and "victim \<noteq> thief" and "v \<le> ft_balances s (t, victim)"
    and "unat (ft_balances s (t, thief)) + unat v < 2 ^ 128"
  shows "\<exists>out s'. ext_call seed env 65540 s = Inr (out, s')
    \<and> ft_balances s' = (ft_balances s)((t, victim) := ft_balances s (t, victim) - v,
                                       (t, thief) := ft_balances s (t, thief) + v)"
proof -
  have "\<exists>s'. ft_do_transfer t victim thief v s = Inr s'
    \<and> ft_balances s' = (ft_balances s)((t, victim) := ft_balances s (t, victim) - v,
                                       (t, thief) := ft_balances s (t, thief) + v)"
    using assms(4-6)
    by (simp add: ft_do_transfer_def ft_internal_transfer_def ft_increase_balance_def ft_decrease_balance_def
        checked_add_def checked_sub_def word_le_nat_alt)
  then show ?thesis
    using assms(1-3) by (auto simp: ext_call_def ext_defs ink_change_def ink_write_def)
qed

text \<open>
  C29: A contract takes the wrapped token over. Whoever calls a contract that calls functions 65537,
  \<open>create_token\<close>, and 65541, \<open>mint\<close>, of the extension creates the wrapped token a second time,
  becomes its owner in place of the vault, and mints any amount of it to any account with room for it.
  Nothing is paid into the vault: from an amount on that the vault does not hold, the wrapped token is
  not backed any more.
\<close>

theorem ink_wrap_unbacked:
  assumes "ie_read env1 [SU128, SBytes, SBytes, SU8] = Inr [VU128 (wr_wrap_token w), VBytes nm, VBytes sy, VU8 d]"
    and "ie_charge_weight env1 10000 = Inr ()" and "ie_write env1 (ie_encode env1 VUnit) = Inr ()"
    and "length nm \<le> StringLimit" and "length sy \<le> StringLimit"
    and "ie_read env2 [SU128, SAccount, SU128] = Inr [VU128 (wr_wrap_token w), VAccount a, VU128 v]"
    and "ie_charge_weight env2 10000 = Inr ()" and "ie_write env2 (ie_encode env2 VUnit) = Inr ()"
    and "ie_caller env2 = ie_caller env1"
    and "unat (ft_balances (wr_ft w) (wr_wrap_token w, a)) + unat v < 2 ^ 128"
  shows "\<exists>out1 s1 out2 s2 token. ext_call seed env1 65537 (wr_ft w) = Inr (out1, s1)
    \<and> ext_call seed env2 65541 s1 = Inr (out2, s2)
    \<and> ft_tokens s2 (wr_wrap_token w) = Some token \<and> ft_owner token = ie_caller env1
    \<and> ft_sum s2 (wr_wrap_token w) = ft_sum (wr_ft w) (wr_wrap_token w) + unat v
    \<and> (unat (cur_free C (wr_native w) (wr_account_id E)) < unat v \<longrightarrow> \<not> wr_inv C E (w\<lparr>wr_ft := s2\<rparr>))"
proof -
  let ?t = "wr_wrap_token w" and ?x = "ft_balances (wr_ft w) (wr_wrap_token w, a) + v"
  obtain s1 token where create: "ft_do_create_token (ie_caller env1) ?t nm sy d (wr_ft w) = Inr s1"
    and s1: "ft_tokens s1 ?t = Some token" "ft_owner token = ie_caller env1"
      "ft_balances s1 = ft_balances (wr_ft w)"
    using assms(4, 5) by (simp add: ft_do_create_token_def bounded_vec_def)
  have x: "unat ?x = unat (ft_balances s1 (?t, a)) + unat v"
    using assms(10) s1(3) by (simp add: unat_add_small)
  then obtain s2 where mint: "ft_do_mint ?t (ie_caller env2) a v s1 = Inr s2"
    and s2: "\<exists>t. ft_tokens s2 ?t = Some t \<and> ft_owner t = ie_caller env1"
    using s1 assms(9) by (fastforce simp: ft_do_mint_ok ft_internal_mint_ok)
  have sum: "ft_sum s2 ?t = ft_sum (wr_ft w) ?t + unat v"
    using ft_do_mint_sum [OF mint, of ?t] ft_sum_cong [OF s1(3)] by simp
  have "\<not> wr_inv C E (w\<lparr>wr_ft := s2\<rparr>)" if "unat (cur_free C (wr_native w) (wr_account_id E)) < unat v"
    using that sum by (simp add: wr_inv_def)
  moreover have "ext_call seed env1 65537 (wr_ft w) = Inr (ie_encode env1 VUnit, s1)"
    using assms(1-3) create by (simp add: ext_call_def ext_defs ink_change_def ink_write_def)
  moreover have "ext_call seed env2 65541 s1 = Inr (ie_encode env2 VUnit, s2)"
    using assms(6-8) mint by (simp add: ext_call_def ext_defs ink_change_def ink_write_def)
  ultimately show ?thesis using s2 sum by blast
qed

section \<open>Concrete instances\<close>

lemma ft_example_inv: "ft_inv ft_example"
proof -
  have "ft_token_ok ft_example j" for j
  proof (cases "j = 7")
    case True
    then show ?thesis
      using ft_example_exact by (auto simp: ft_exact_def ft_token_ok_def ft_example_def StringLimit_def)
  next
    case False
    then have "ft_sum ft_example j = 0" by (simp add: ft_example_def ft_sum_def)
    moreover have "ft_tokens ft_example j = None" using False by (simp add: ft_example_def)
    ultimately show ?thesis by (simp add: ft_token_ok_def)
  qed
  then show ?thesis by (simp add: ft_inv_def)
qed

theorem ink_calls_own_witness:
  "\<exists>s'. ext_call [] (ink_example 1 [VU128 7, VAccount 2, VU128 30]) 65539 ft_example = Inr ([], s') \<and> ft_inv s'"
proof -
  obtain s' where s': "ext_call [] (ink_example 1 [VU128 7, VAccount 2, VU128 30]) 65539 ft_example = Inr ([], s')"
    by (simp add: ext_call_def ext_defs ink_change_def ink_write_def ink_example_def ft_eval)
  from ink_calls_own [OF s' ft_example_inv] s' show ?thesis by blast
qed

theorem ink_transfer_from_unchecked_witness:
  "\<exists>out s'. ext_call [] (ink_example 66 [VU128 7, VAccount 1, VAccount 66, VU128 100]) 65540 ft_example = Inr (out, s')
    \<and> ft_balances s' (7, 66) = 100"
  using ink_transfer_from_unchecked
    [of "ink_example 66 [VU128 7, VAccount 1, VAccount 66, VU128 100]" 7 1 66 100 ft_example "[]"]
  by (auto simp: ink_example_def ft_example_def)

text \<open>At the genesis of the wrapped token account 66 takes it over and mints 1000 against the 10 of the vault.\<close>

theorem ink_wrap_unbacked_witness:
  "\<exists>w0 out1 s1 out2 s2. wr_create_wrap_token ledger_currency env_example 10 wr_genesis = Inr w0
     \<and> wr_inv ledger_currency env_example w0
     \<and> ext_call [] (ink_example 66 [VU128 (wr_wrap_token w0), VBytes [], VBytes [], VU8 18]) 65537 (wr_ft w0) = Inr (out1, s1)
     \<and> ext_call [] (ink_example 66 [VU128 (wr_wrap_token w0), VAccount 66, VU128 1000]) 65541 s1 = Inr (out2, s2)
     \<and> \<not> wr_inv ledger_currency env_example (w0\<lparr>wr_ft := s2\<rparr>)"
proof -
  obtain w0 where w0: "wr_create_wrap_token ledger_currency env_example 10 wr_genesis = Inr w0"
    "ft_balances (wr_ft w0) (wr_wrap_token w0, 66) = 0"
    "unat (cur_free ledger_currency (wr_native w0) (wr_account_id env_example)) = 10"
    by (simp add: wr_eval Let_def)
  have "wr_inv ledger_currency env_example w0"
    using wr_create_wrap_token_inv [OF w0(1)] by (simp add: wr_genesis_def ft_genesis_def ft_sum_def)
  moreover from ink_wrap_unbacked
      [of "ink_example 66 [VU128 (wr_wrap_token w0), VBytes [], VBytes [], VU8 18]" w0 "[]" "[]" 18
          "ink_example 66 [VU128 (wr_wrap_token w0), VAccount 66, VU128 1000]" 66 1000 "[]" ledger_currency env_example] w0
  obtain out1 s1 out2 s2 where
      "ext_call [] (ink_example 66 [VU128 (wr_wrap_token w0), VBytes [], VBytes [], VU8 18]) 65537 (wr_ft w0) = Inr (out1, s1)"
      "ext_call [] (ink_example 66 [VU128 (wr_wrap_token w0), VAccount 66, VU128 1000]) 65541 s1 = Inr (out2, s2)"
      "\<not> wr_inv ledger_currency env_example (w0\<lparr>wr_ft := s2\<rparr>)"
    by (auto simp: ink_example_def)
  ultimately show ?thesis using w0(1) by blast
qed

end
