(* ===== verification/RuntimeContracts.thy ===== *)
theory RuntimeContracts
  imports RuntimeConfig ChainExtension
begin

text \<open>
  Contracts on the runtime. The set of precompiles (\<open>precompiles/src/lib.rs\<close>) runs on the storage of the
  whole runtime, each contract on the part of its pallet, with the switches, weights and call names of
  the runtime; the chain extension of ink contracts runs on the fungible tokens. The theorem of this
  theory is the safety of the whole chain: whatever users do through transactions, EVM contracts and
  ink contracts (but for three functions of the chain extension), together with root calls.
\<close>

section \<open>Precompiles on the storage of the runtime\<close>

definition rt_precompile ::
  "('c runtime_world \<Rightarrow> 's) \<Rightarrow> ('s \<Rightarrow> 'c runtime_world \<Rightarrow> 'c runtime_world)
     \<Rightarrow> (sw_storage \<Rightarrow> precompile_handle \<Rightarrow> 's \<Rightarrow> 's precompile_result option)
     \<Rightarrow> precompile_handle \<Rightarrow> 'c runtime_world \<Rightarrow> 'c runtime_world precompile_result option" where
  "rt_precompile get put execute h w =
     map_option (\<lambda>r. and_then r (\<lambda>(out, h, s). Inr (out, h, put s w))) (execute (rt_sw w) h (get w))"

text \<open>
  \<open>Web3GamesPrecompiles\<close>; \<open>ext\<close> are the precompiles of other crates, \<open>W\<close> are the weights of calls.
\<close>

definition rt_precompiles ::
  "'c currency \<Rightarrow> env \<Rightarrow> ex_params \<Rightarrow> precompile_env \<Rightarrow> (runtime_call \<Rightarrow> u64)
     \<Rightarrow> (u64 \<Rightarrow> precompile_handle \<Rightarrow> 'c runtime_world \<Rightarrow> 'c runtime_world precompile_result)
     \<Rightarrow> 'c runtime_world precompiles" where
  "rt_precompiles C E X P W ext =
     \<lparr>pc_external = ext,
      pc_exchange = rt_precompile rt_ex_view rt_put_ex (ex_execute C E X P (W \<circ> RtExchange)),
      pc_marketplace = rt_precompile rt_mp_view rt_put_mp (mp_execute C E P (W \<circ> RtMartketplace)),
      pc_farming = rt_precompile rt_fa_view rt_put_fa (fa_execute E P (W \<circ> RtFarming)),
      pc_launchpad = rt_precompile rt_lp_view rt_put_lp (lp_execute E P (W \<circ> RtLaunchpad)),
      pc_fungible = rt_precompile rt_ft (\<lambda>s w. w\<lparr>rt_ft := s\<rparr>) (ft_execute P (W \<circ> RtTokenFungible)),
      pc_non_fungible = rt_precompile rt_nft (\<lambda>s w. w\<lparr>rt_nft := s\<rparr>) (nft_execute P (W \<circ> RtTokenNonFungible)),
      pc_multi = rt_precompile rt_mt (\<lambda>s w. w\<lparr>rt_mt := s\<rparr>) (mt_execute P (W \<circ> RtTokenMulti))\<rparr>"

text \<open>
  What is needed to run the contract of a pallet on the runtime: the pallet's calls are calls of the
  runtime, with the same names, on the part of the storage that the contract runs on.
\<close>

locale runtime_precompile = precompile execute P R
  for execute :: "sw_storage \<Rightarrow> precompile_handle \<Rightarrow> 's \<Rightarrow> 's precompile_result option"
    and P :: precompile_env and R :: "('call, 's) runtime_pallet" +
  fixes C :: "'c currency" and E :: env and X :: ex_params
    and get :: "'c runtime_world \<Rightarrow> 's" and put :: "'s \<Rightarrow> 'c runtime_world \<Rightarrow> 'c runtime_world"
    and runtime :: "'call \<Rightarrow> runtime_call"
  assumes names: "rp_metadata R c = rt_metadata (runtime c)"
    and calls: "rp_dispatch R (orig, c) (get w) = Inr s \<Longrightarrow> rt_pallet_dispatch C E X orig (runtime c) w = Inr (put s w)"
begin

lemma rt_precompile_step:
  assumes "rt_precompile get put execute h w = Some (Inr (out, h', w'))"
  shows "w' = put (get w) w \<or> (\<exists>c. rt_dispatch C E X (Signed (pe_into_account_id P (ph_caller h))) c w = Inr w')"
proof -
  from assms obtain s' where s': "execute (rt_sw w) h (get w) = Some (Inr (out, h', s'))" "w' = put s' w"
    by (auto simp: rt_precompile_def result_eqs)
  from execute_step [OF s'(1)] show ?thesis
  proof
    assume "s' = get w"
    with s'(2) show ?thesis by simp
  next
    assume "steps_as_caller P (rt_sw w) R h (get w) s'"
    then obtain c where "call_filter_contains (rt_sw w) (rp_metadata R c)"
      "rp_dispatch R (Signed (pe_into_account_id P (ph_caller h)), c) (get w) = Inr s'"
      by (auto simp: steps_as_caller_def result_eqs)
    with calls s'(2) have "rt_dispatch C E X (Signed (pe_into_account_id P (ph_caller h))) (runtime c) w = Inr w'"
      by (simp add: rt_dispatch_def names)
    then show ?thesis by blast
  qed
qed

end

interpretation rt_ftp: runtime_precompile "ft_execute P W" P "ft_runtime W" C E X rt_ft "\<lambda>s w. w\<lparr>rt_ft := s\<rparr>" RtTokenFungible
  for P W C E X
  by unfold_locales (simp_all add: ft_runtime_def rt_metadata_def focus_eq_Inr)

interpretation rt_nftp:
  runtime_precompile "nft_execute P W" P "nft_runtime W" C E X rt_nft "\<lambda>s w. w\<lparr>rt_nft := s\<rparr>" RtTokenNonFungible
  for P W C E X
  by unfold_locales (simp_all add: nft_runtime_def rt_metadata_def focus_eq_Inr)

interpretation rt_mtp: runtime_precompile "mt_execute P W" P "mt_runtime W" C E X rt_mt "\<lambda>s w. w\<lparr>rt_mt := s\<rparr>" RtTokenMulti
  for P W C E X
  by unfold_locales (simp_all add: mt_runtime_def rt_metadata_def focus_eq_Inr)

interpretation rt_exp: runtime_precompile "ex_execute C E X P W" P "ex_runtime C E X W" C E X rt_ex_view rt_put_ex RtExchange
  for C E X P W
  by unfold_locales (simp_all add: ex_runtime_def rt_metadata_def rt_on_ex_def focus_eq_Inr)

interpretation rt_fap: runtime_precompile "fa_execute E P W" P "fa_runtime E W" C E X rt_fa_view rt_put_fa RtFarming
  for E P W C X
  by unfold_locales (simp_all add: fa_runtime_def rt_metadata_def focus_eq_Inr)

interpretation rt_lpp: runtime_precompile "lp_execute E P W" P "lp_runtime E W" C E X rt_lp_view rt_put_lp RtLaunchpad
  for E P W C X
  by unfold_locales (simp_all add: lp_runtime_def rt_metadata_def focus_eq_Inr)

interpretation rt_mpp: runtime_precompile "mp_execute C E P W" P "mp_runtime C E W" C E X rt_mp_view rt_put_mp RtMartketplace
  for C E P W X
  by unfold_locales (simp_all add: mp_runtime_def rt_metadata_def focus_eq_Inr)

section \<open>One call of a contract\<close>

text \<open>
  The precompiles of other crates: all but one compute without touching storage, and \<open>Dispatch\<close> (1025)
  dispatches a call for the caller.
\<close>

definition ext_ok ::
  "'c currency \<Rightarrow> env \<Rightarrow> ex_params \<Rightarrow> precompile_env
     \<Rightarrow> (u64 \<Rightarrow> precompile_handle \<Rightarrow> 'c runtime_world \<Rightarrow> 'c runtime_world precompile_result) \<Rightarrow> bool" where
  "ext_ok C E X P ext \<longleftrightarrow>
     (\<forall>k h w out h' w'. ext k h w = Inr (out, h', w') \<longrightarrow>
        w' = w \<or> (\<exists>c. rt_dispatch C E X (Signed (pe_into_account_id P (ph_caller h))) c w = Inr w'))"

text \<open>Reading a part of the storage and writing it back.\<close>

definition rt_refreshes :: "'c runtime_world \<Rightarrow> 'c runtime_world set" where
  "rt_refreshes w = {w, rt_put_ex (rt_ex_view w) w, rt_put_mp (rt_mp_view w) w, rt_put_fa (rt_fa_view w) w,
     rt_put_lp (rt_lp_view w) w}"

lemma rt_refresh_inv: "w' \<in> rt_refreshes w \<Longrightarrow> rt_inv C E w \<Longrightarrow> rt_inv C E w'"
  by (auto simp: rt_refreshes_def rt_inv_def rt_fungible_ok_def rt_assets_ok_def rt_rest_ok_def rt_views rt_puts ex_ft_def
      mp_admin_in_def intro: mp_inv_cong [THEN iffD1, rotated 4])

lemma rt_precompiles_step:
  assumes "w3g_execute (rt_precompiles C E X P W ext) h w = Some (Inr (out, h', w'))" and "ext_ok C E X P ext"
  shows "w' \<in> rt_refreshes w \<or> (\<exists>c. rt_dispatch C E X (Signed (pe_into_account_id P (ph_caller h))) c w = Inr w')"
proof -
  have ext: "w' = w \<or> (\<exists>c. rt_dispatch C E X (Signed (pe_into_account_id P (ph_caller h))) c w = Inr w')"
    if "ext k h w = Inr (out, h', w')" for k
    using assms(2) that unfolding ext_ok_def by blast
  show ?thesis
    using assms(1)
    by (auto simp: w3g_execute_def rt_precompiles_def Let_def rt_refreshes_def split: if_splits
        dest!: ext rt_exp.rt_precompile_step rt_mpp.rt_precompile_step [where X = X]
          rt_fap.rt_precompile_step [where X = X and C = C] rt_lpp.rt_precompile_step [where X = X and C = C]
          rt_ftp.rt_precompile_step [where X = X and C = C and E = E]
          rt_nftp.rt_precompile_step [where X = X and C = C and E = E]
          rt_mtp.rt_precompile_step [where X = X and C = C and E = E])
qed

text \<open>A signed call satisfies what is asked of calls, when fresh ids are drawn: it does not set the administrator.\<close>

definition rt_draws_ok :: "env \<Rightarrow> ex_params \<Rightarrow> 'c runtime_world \<Rightarrow> bool" where
  "rt_draws_ok E X w \<longleftrightarrow> (\<forall>ec. ex_fresh E X ec (rt_ex w)) \<and> (\<forall>a b. random_id X a b \<noteq> WW3G)"

lemma rt_signed_allowed:
  assumes "rt_draws_ok E X w" and "who \<in> rt_users E"
    and "rt_dispatch C E' X (Signed who) c w = Inr w'"
  shows "rt_allowed E X (Signed who) c w"
proof -
  have "c \<noteq> RtMartketplace (MpSetAdmin a)" for a
    using assms(3) by (auto simp: rt_dispatch_def result_eqs mp_set_admin_def)
  with assms(1, 2) show ?thesis
    by (auto simp: rt_allowed_def rt_draws_ok_def by_user_def split: runtime_call.splits mp_call.splits)
qed

section \<open>The chain\<close>

text \<open>
  Everything that changes the state: dispatched calls of any origin and whole transactions, calls of
  precompiles by EVM contracts and accounts, and calls of the chain extension by ink contracts.
\<close>

inductive chain_reach ::
  "'c currency \<Rightarrow> (u128 list \<Rightarrow> 'c \<Rightarrow> 'c) \<Rightarrow> env \<Rightarrow> 'c runtime_world \<Rightarrow> 'c runtime_world \<Rightarrow> bool"
  for C h E w0 where
  start: "chain_reach C h E w0 w0"
| dispatch: "chain_reach C h E w0 w \<Longrightarrow> rt_allowed E X orig c w \<Longrightarrow>
    rt_dispatch C (E\<lparr>env_now := n\<rparr>) X orig c w = Inr w' \<Longrightarrow> chain_reach C h E w0 w'"
| transaction: "chain_reach C h E w0 w \<Longrightarrow> rt_allowed E X (Signed (tx_signer t)) (tx_call t) w \<Longrightarrow>
    rt_apply C h (E\<lparr>env_now := n\<rparr>) X t w = Inr w' \<Longrightarrow> chain_reach C h E w0 w'"
| evm: "chain_reach C h E w0 w \<Longrightarrow> rt_draws_ok E X w \<Longrightarrow> ext_ok C (E\<lparr>env_now := n\<rparr>) X P ext \<Longrightarrow>
    pe_into_account_id P (ph_caller handle) \<in> rt_users E \<Longrightarrow>
    w3g_execute (rt_precompiles C (E\<lparr>env_now := n\<rparr>) X P W ext) handle w = Some (Inr (out, handle', w')) \<Longrightarrow>
    chain_reach C h E w0 w'"
| ink: "chain_reach C h E w0 w \<Longrightarrow> ie_caller env \<in> rt_users E \<Longrightarrow> f \<notin> {65537, 65540, 65542} \<Longrightarrow>
    ext_call seed env f (rt_ft w) = Inr (out, s') \<Longrightarrow> chain_reach C h E w0 (w\<lparr>rt_ft := s'\<rparr>)"

lemma chain_reach_inv:
  assumes "chain_reach C h E w0 w" and "currency_laws C" and "rt_accounts_apart E" and "rt_handler_ok C h E" and "rt_inv C E w0"
  shows "rt_inv C E w"
  using assms
proof (induction rule: chain_reach.induct)
  case (evm w X n P ext handle W out handle' w')
  then have inv: "rt_inv C E w" by blast
  from rt_precompiles_step [OF evm.hyps(5, 3)] show ?case
  proof
    assume "w' \<in> rt_refreshes w"
    then show ?thesis using inv by (rule rt_refresh_inv)
  next
    assume "\<exists>c. rt_dispatch C (E\<lparr>env_now := n\<rparr>) X (Signed (pe_into_account_id P (ph_caller handle))) c w = Inr w'"
    then obtain c where c: "rt_dispatch C (E\<lparr>env_now := n\<rparr>) X (Signed (pe_into_account_id P (ph_caller handle))) c w = Inr w'" ..
    show ?thesis
      by (rule rt_dispatch_inv [OF evm.prems(1, 2) inv rt_signed_allowed [OF evm.hyps(2, 4) c] c])
  qed
next
  case (ink w env f seed out s')
  then have inv: "rt_inv C E w" by blast
  have "s' = rt_ft w \<or> (\<exists>c. ft_dispatch (Signed (ie_caller env), c) (rt_ft w) = Inr s')"
    using ink.hyps(4) by (rule ext_call_cases) (auto dest!: ft_ext_own [OF _ ink.hyps(3)])
  then show ?case
  proof
    assume "\<exists>c. ft_dispatch (Signed (ie_caller env), c) (rt_ft w) = Inr s'"
    then obtain c X where "rt_pallet_dispatch C (E\<lparr>env_now := n\<rparr>) X (Signed (ie_caller env)) (RtTokenFungible c) w
        = Inr (w\<lparr>rt_ft := s'\<rparr>)" for n
      by (auto simp: focus_eq_Inr)
    moreover have "rt_allowed E X (Signed (ie_caller env)) (RtTokenFungible c) w" for X c
      using ink.hyps(2) by (simp add: rt_allowed_def by_user_def)
    ultimately show ?thesis using rt_pallet_dispatch_inv [OF ink.prems(1, 2) inv] by blast
  qed (use inv in simp)
qed (blast intro: rt_dispatch_inv rt_apply_inv)+

section \<open>Properties\<close>

text \<open>
  C1: The safety of the chain. From any genesis configuration, after any transactions with their
  fees, root calls, EVM calls of precompiles and calls of the chain extension by ink contracts but for
  its three functions that skip checks (\<open>create_token\<close>, \<open>transfer_from\<close> and \<open>burn\<close>): recorded supplies are covered and enumerations are exact, the wrapped
  tokens are backed by the vault, every pool account holds the recorded reserves, and the marketplace
  has every asset that is on sale. Nobody signs for the accounts of pallets, and those of different
  pallets are different; the ids drawn for liquidity tokens are fresh, and root does not make the vault
  the administrator of the marketplace.
\<close>

theorem runtime_safe:
  assumes "currency_laws C" and "rt_accounts_apart E" and "rt_handler_ok C h E"
    and "rt_build C E build g = Inr w0" and "gc_admin_key g \<noteq> Some (wr_account_id E)"
    and "chain_reach C h E w0 w"
  shows "ft_inv (rt_ft w) \<and> nft_inv (rt_nft w) \<and> mt_inv (rt_mt w)
    \<and> ft_sum (rt_ft w) WW3G \<le> unat (cur_free C (rt_cur w) (wr_account_id E))
    \<and> (\<forall>t0 t1 pool. ex_pools (rt_ex w) (t0, t1) = Some pool \<longrightarrow>
         fst (ex_reserves (rt_ex w) (t0, t1)) \<le> ft_balance_of t0 (pool_lp_account pool) (rt_ft w)
       \<and> snd (ex_reserves (rt_ex w) (t0, t1)) \<le> ft_balance_of t1 (pool_lp_account pool) (rt_ft w))
    \<and> (\<forall>x order. mp_orders (rt_mp w) x = Some order \<longrightarrow> mp_holds (mp_account_id E) x (rt_mp_view w))"
  by (rule rt_inv_safe, rule chain_reach_inv [OF assms(6,1-3) rt_genesis_inv [OF assms(4,5)]])

section \<open>Concrete instances\<close>

text \<open>
  Account 1 wraps 70 units of the native currency by a call; a contract that it calls sends 30 of the wrapped
  tokens to account 2; and the \<open>Identity\<close> precompile is run for the EVM account 1.
\<close>

definition evm_example :: precompile_handle where
  "evm_example = \<lparr>ph_code_address = hash 4, ph_input = [], ph_address = hash 4, ph_caller = 1, ph_apparent_value = 0,
     ph_is_static = False, ph_remaining_gas = 100000\<rparr>"

lemma rt_example_ink:
  "\<exists>w0 w out s. rt_genesis_example = Inr w0 \<and>
     rt_dispatch ledger_currency (rt_env_example\<lparr>env_now := 1\<rparr>) X (Signed 1) (RtWrapCurrency (WrapDeposit 70)) w0 = Inr w \<and>
     ext_call [] (ink_example 1 [VU128 0, VAccount 2, VU128 30]) 65539 (rt_ft w) = Inr (out, s) \<and> ft_balances s (0, 2) = 30
     \<and> ex_pools (rt_ex w) = Map.empty"
  by (simp add: rt_eval rt_ft_eval wr_deposit_def wr_do_deposit_def wr_account_id_def wr_deposit_event_def
      ledger_currency_def WrapCurrencyPalletId_def ExchangePalletId_def FarmingPalletId_def ProxyPayPalletId_def
      CreateTokenDeposit_def ext_call_def ext_defs ink_change_def ink_write_def ink_example_def)

theorem runtime_safe_witness:
  "\<exists>w0 w out s. rt_genesis_example = Inr w0
     \<and> rt_dispatch ledger_currency (rt_env_example\<lparr>env_now := 1\<rparr>) rt_params_example (Signed 1) (RtWrapCurrency (WrapDeposit 70)) w0 = Inr w
     \<and> ext_call [] (ink_example 1 [VU128 0, VAccount 2, VU128 30]) 65539 (rt_ft w) = Inr (out, s)
     \<and> w3g_execute (rt_precompiles ledger_currency (rt_env_example\<lparr>env_now := 2\<rparr>) rt_params_example pe_example (\<lambda>_. 0)
           (\<lambda>_ h w. Inr ([], h, w))) evm_example (w\<lparr>rt_ft := s\<rparr>) = Some (Inr ([], evm_example, w\<lparr>rt_ft := s\<rparr>))
     \<and> ft_balances s (0, 2) = 30
     \<and> ft_sum s WW3G \<le> unat (cur_free ledger_currency (rt_cur w) (wr_account_id rt_env_example))"
proof -
  let ?E = rt_env_example and ?ext = "\<lambda>_ h w. Inr ([], h, w)"
  from rt_example_ink [of rt_params_example] obtain w0 w out s where w0: "rt_genesis_example = Inr w0"
    and w: "rt_dispatch ledger_currency (?E\<lparr>env_now := 1\<rparr>) rt_params_example (Signed 1) (RtWrapCurrency (WrapDeposit 70)) w0 = Inr w"
    and s: "ext_call [] (ink_example 1 [VU128 0, VAccount 2, VU128 30]) 65539 (rt_ft w) = Inr (out, s)" "ft_balances s (0, 2) = 30"
    and pools: "ex_pools (rt_ex w) = Map.empty" by blast
  have user: "1 \<in> rt_users ?E" by (rule rt_users_example) simp
  have "rt_allowed ?E rt_params_example (Signed 1) (RtWrapCurrency (WrapDeposit 70)) w0"
    using user by (simp add: rt_allowed_def by_user_def)
  from chain_reach.dispatch [OF chain_reach.start this w] have "chain_reach ledger_currency (\<lambda>_ c. c) ?E w0 w" .
  then have reach: "chain_reach ledger_currency (\<lambda>_ c. c) ?E w0 (w\<lparr>rt_ft := s\<rparr>)"
    by (rule chain_reach.ink [OF _ _ _ s(1)]) (use user in \<open>simp_all add: ink_example_def\<close>)
  have run: "w3g_execute (rt_precompiles ledger_currency (?E\<lparr>env_now := 2\<rparr>) rt_params_example pe_example (\<lambda>_. 0) ?ext)
      evm_example (w\<lparr>rt_ft := s\<rparr>) = Some (Inr ([], evm_example, w\<lparr>rt_ft := s\<rparr>))"
    by (simp add: w3g_execute_def rt_precompiles_def evm_example_def hash_def Let_def)
  have draws: "rt_draws_ok ?E rt_params_example (w\<lparr>rt_ft := s\<rparr>)"
    using pools by (auto simp: rt_draws_ok_def ex_fresh_def rt_params_example_def WW3G_def split: ex_call.splits prod.splits)
  have "chain_reach ledger_currency (\<lambda>_ c. c) ?E w0 (w\<lparr>rt_ft := s\<rparr>)"
    by (rule chain_reach.evm [OF reach draws _ _ run]) (use user in \<open>simp_all add: ext_ok_def pe_example_def evm_example_def\<close>)
  note safe = runtime_safe [OF ledger_currency_laws rt_env_example_apart _ w0 [unfolded rt_genesis_example_def] _ this]
  have "gc_admin_key rt_config_example \<noteq> Some (wr_account_id ?E)"
    using rt_accounts_example(1) by (auto simp: rt_config_example_def)
  with safe w0 w s run show ?thesis by (auto simp: rt_handler_ok_def)
qed

end
