(* ===== verification/ChainSpec.thy ===== *)
theory ChainSpec
  imports RuntimeContracts
begin

text \<open>
  The chains that the node can start (\<open>node/src/chain_spec.rs\<close>): keys derived from seeds, the genesis
  configuration, and the two specifications built from it. Deriving keys and parsing addresses and
  URLs is code of other crates (the record \<open>key_env\<close>); \<open>expect\<close> on its results is the error \<open>Panicked\<close>.
\<close>

section \<open>Keys\<close>

record key_env =
  ke_sr25519 :: "string \<Rightarrow> u256 option"
  ke_ed25519 :: "string \<Rightarrow> u256 option"
  ke_into_account :: "u256 \<Rightarrow> account"
  ke_h160_from_str :: "string \<Rightarrow> h160 option"
  ke_into_account_id :: "h160 \<Rightarrow> account"
  ke_account :: "string \<Rightarrow> u32 \<Rightarrow> u32 \<Rightarrow> account"
  ke_telemetry :: "(string \<times> u8) list \<Rightarrow> (string \<times> u8) list option"

definition expect :: "'a option \<Rightarrow> 'a dispatch" where
  "expect x = (case x of None \<Rightarrow> Inl Panicked | Some v \<Rightarrow> Inr v)"

definition get_from_seed :: "(string \<Rightarrow> u256 option) \<Rightarrow> string \<Rightarrow> u256 dispatch" where
  "get_from_seed from_string seed = expect (from_string (''//'' @ seed))"

definition get_account_id_from_seed :: "key_env \<Rightarrow> string \<Rightarrow> account dispatch" where
  "get_account_id_from_seed K seed =
     and_then (get_from_seed (ke_sr25519 K) seed) (\<lambda>p. Inr (ke_into_account K p))"

definition authority_keys_from_seed :: "key_env \<Rightarrow> string \<Rightarrow> (u256 \<times> u256) dispatch" where
  "authority_keys_from_seed K s =
     and_then (get_from_seed (ke_sr25519 K) s) (\<lambda>a.
     and_then (get_from_seed (ke_ed25519 K) s) (\<lambda>g. Inr (a, g)))"

definition get_account_id_from_evm_address :: "key_env \<Rightarrow> string \<Rightarrow> account dispatch" where
  "get_account_id_from_evm_address K address =
     and_then (expect (ke_h160_from_str K address)) (\<lambda>a. Inr (ke_into_account_id K a))"

section \<open>The genesis configuration\<close>

definition ENDOWMENT :: u128 where "ENDOWMENT = 1000000000 * DOLLARS"

definition revert_bytecode :: bytes where "revert_bytecode = [96, 0, 96, 0, 253]"

definition testnet_genesis ::
  "bytes option \<Rightarrow> (u256 \<times> u256) list \<Rightarrow> account \<Rightarrow> account list \<Rightarrow> u64 \<Rightarrow> account option \<Rightarrow> genesis_config dispatch" where
  "testnet_genesis wasm initial_authorities root_key endowed_accounts chain marketplace_admin =
     and_then (expect wasm) (\<lambda>code.
     Inr \<lparr>gc_code = code,
          gc_balances = map (\<lambda>k. (k, ENDOWMENT)) endowed_accounts,
          gc_aura = map (\<lambda>x. fst x) initial_authorities,
          gc_grandpa = map (\<lambda>x. (snd x, 1)) initial_authorities,
          gc_sudo = Some root_key,
          gc_chain_id = chain,
          gc_evm = fold (\<lambda>addr m. m(addr \<mapsto> \<lparr>ga_nonce = 0, ga_balance = 0, ga_storage = Map.empty, ga_code = revert_bytecode\<rparr>))
                     used_addresses Map.empty,
          gc_base_fee_per_gas = ucast (100 * GIGAWEI),
          gc_is_active = False,
          gc_elasticity = 1250,
          gc_admin_key = marketplace_admin\<rparr>)"

section \<open>The two chains\<close>

datatype chain_type = Development | Local | Live | Custom string

datatype json_value = JNumber nat | JString string

record chain_spec =
  cs_name :: string
  cs_id :: string
  cs_type :: chain_type
  cs_genesis :: "genesis_config dispatch"
  cs_boot_nodes :: "string list"
  cs_telemetry :: "(string \<times> u8) list option"
  cs_protocol_id :: "string option"
  cs_fork_id :: "string option"
  cs_properties :: "(string \<times> json_value) list option"

definition TELEMETRY_URL :: string where "TELEMETRY_URL = ''wss://telemetry.polkadot.io/submit/''"

definition development_config :: "key_env \<Rightarrow> bytes option \<Rightarrow> chain_spec" where
  "development_config K wasm =
     \<lparr>cs_name = ''Web3Games Development Testnet'', cs_id = ''web3games_dev'', cs_type = Development,
      cs_genesis =
        and_then (authority_keys_from_seed K ''Alice'') (\<lambda>authority.
        and_then (get_account_id_from_seed K ''Alice'') (\<lambda>alice.
        and_then (get_account_id_from_seed K ''Bob'') (\<lambda>bob.
        and_then (get_account_id_from_seed K ''Alice//stash'') (\<lambda>alice_stash.
        and_then (get_account_id_from_seed K ''Bob//stash'') (\<lambda>bob_stash.
        and_then (get_account_id_from_evm_address K ''6be02d1d3665660d22ff9624b7be0551ee1ac91b'') (\<lambda>evm1.
        and_then (get_account_id_from_evm_address K ''573394b77fC17F91E9E67F147A9ECe24d67C5073'') (\<lambda>evm2.
        testnet_genesis wasm [authority] alice
          [alice, bob, alice_stash, bob_stash, evm1, evm2,
           ke_account K ''alice'' 0 0, ke_account K ''bob'' 0 0, ke_account K ''charlie'' 0 0]
          105 (Some alice)))))))),
      cs_boot_nodes = [], cs_telemetry = None, cs_protocol_id = None, cs_fork_id = None,
      cs_properties = Some [(''tokenDecimals'', JNumber 18), (''tokenSymbol'', JString ''W3G'')]\<rparr>"

definition staging_root :: account where
  "staging_root = 0x88f40a19d057c7900ae444075b862e6e8892f3fbd7d3b03658d45b651a9b6b09"

definition staging_authorities :: "(u256 \<times> u256) list" where
  "staging_authorities =
     [(0x6ae9bee2cebe04b6bd4acd7e629a3c8af34b65c1f9e915dcc42b5e08d7930032,
       0x2234bbfe296f6b838e722d3819a0ecc7b8888ccbed0fb9fa385c99c8ea30fa97),
      (0x7c64d433048fd5333deffd3d8f94fd17c4992bdd1713d10c335fbe22480d1075,
       0x75635aa9b2b49d164a4842271b99ed03ea91473bba2fe89afb5f2742aa615c81),
      (0xf61fdea138c1586a3d16236c5d980b2ddad2bde3b508798ba036954922d5a63b,
       0x566bbb4c47fe2e370969f6a50d7a74a310e8ccb0493908429e5f3041bcd5dfa7)]"

definition staging_testnet_config :: "key_env \<Rightarrow> bytes option \<Rightarrow> chain_spec" where
  "staging_testnet_config K wasm =
     \<lparr>cs_name = ''Web3Games Testnet'', cs_id = ''web3games_testnet'', cs_type = Live,
      cs_genesis = testnet_genesis wasm staging_authorities staging_root [staging_root] 104 (Some staging_root),
      cs_boot_nodes = [], cs_telemetry = ke_telemetry K [(TELEMETRY_URL, 0)], cs_protocol_id = None, cs_fork_id = None,
      cs_properties = Some [(''tokenDecimals'', JNumber 18), (''tokenSymbol'', JString ''W3G'')]\<rparr>"

section \<open>What the configurations give\<close>

lemma fold_same_value: "fold (\<lambda>a m. m(a \<mapsto> v)) xs m k = (if k \<in> set xs then Some v else m k)"
  by (induction xs arbitrary: m) auto

text \<open>
  The code that the genesis puts at the addresses of precompiles is there for the addresses that
  \<open>is_precompile\<close> knows, and nowhere else. It is missing at the addresses of the contracts of the
  repository, which the set does serve, contrary to the comment in \<open>testnet_genesis\<close>.
\<close>

lemma genesis_precompile_code:
  assumes "testnet_genesis wasm auths root endowed chain admin = Inr g"
  shows "map_option ga_code (gc_evm g a) = (if w3g_is_precompile a then Some revert_bytecode else None)"
    and "a \<in> {hash 1027, hash 1028, hash 1029, hash 1030, ft_into_address t, nft_into_address t, mt_into_address t}
      \<Longrightarrow> gc_evm g a = None"
proof -
  have g: "gc_evm g a = (if w3g_is_precompile a
      then Some \<lparr>ga_nonce = 0, ga_balance = 0, ga_storage = Map.empty, ga_code = revert_bytecode\<rparr> else None)" for a
    using assms by (auto simp: testnet_genesis_def result_eqs fold_same_value w3g_is_precompile_def)
  then show "map_option ga_code (gc_evm g a) = (if w3g_is_precompile a then Some revert_bytecode else None)" by simp
  assume "a \<in> {hash 1027, hash 1028, hash 1029, hash 1030, ft_into_address t, nft_into_address t, mt_into_address t}"
  then have "\<not> w3g_is_precompile a"
    by (auto simp: w3g_is_precompile_def used_addresses_def conversion_defs prefix_defs)
  then show "gc_evm g a = None" using g by simp
qed

lemma unat_ENDOWMENT: "unat ENDOWMENT = 10 ^ 27"
  by (simp add: ENDOWMENT_def DOLLARS_def W3G_def)

text \<open>
  The money of a chain: every endowed account has one thousand million tokens of 18 decimals, and the total
  fits into a balance for as many accounts as the chains have.
\<close>

lemma genesis_money:
  assumes "testnet_genesis wasm auths root endowed chain admin = Inr g" and "length endowed \<le> 10 ^ 11"
  shows "(\<Sum>(a, v) \<leftarrow> gc_balances g. unat v) = length endowed * 10 ^ 27"
    and "(\<Sum>(a, v) \<leftarrow> gc_balances g. unat v) < 2 ^ 128"
proof -
  show sum: "(\<Sum>(a, v) \<leftarrow> gc_balances g. unat v) = length endowed * 10 ^ 27"
    using assms(1) by (auto simp: testnet_genesis_def result_eqs comp_def unat_ENDOWMENT sum_list_triv)
  have "length endowed * 10 ^ 27 \<le> 10 ^ 11 * 10 ^ 27" using assms(2) by (intro mult_right_mono) simp_all
  then show "(\<Sum>(a, v) \<leftarrow> gc_balances g. unat v) < 2 ^ 128" unfolding sum by simp
qed

text \<open>
  The staging chain starts whenever the runtime was compiled in: its three authorities are different, the
  sudo account is the only one with money and the administrator of the marketplace, and the
  state built from it satisfies the invariant of the runtime.
\<close>

theorem staging_starts:
  assumes "wasm = Some code" and "wr_account_id E \<noteq> staging_root"
  shows "\<exists>g w. cs_genesis (staging_testnet_config K wasm) = Inr g \<and> rt_build C E build g = Inr w \<and> rt_inv C E w
    \<and> distinct (gc_aura g) \<and> distinct (map fst (gc_grandpa g)) \<and> length (gc_aura g) = 3
    \<and> gc_balances g = [(staging_root, ENDOWMENT)] \<and> gc_sudo g = Some staging_root \<and> gc_admin_key g = Some staging_root"
proof -
  obtain g where g: "cs_genesis (staging_testnet_config K wasm) = Inr g" and admin: "gc_admin_key g = Some staging_root"
    and rest: "gc_sudo g = Some staging_root" "gc_balances g = [(staging_root, ENDOWMENT)]"
      "distinct (gc_aura g)" "distinct (map fst (gc_grandpa g))" "length (gc_aura g) = 3"
    by (simp add: staging_testnet_config_def testnet_genesis_def expect_def assms(1) staging_authorities_def)
  obtain w where w: "rt_build C E build g = Inr w" using rt_build_ok by blast
  have "rt_inv C E w" by (rule rt_genesis_inv [OF w]) (use admin assms(2) in simp)
  with g admin rest w show ?thesis by blast
qed

text \<open>
  The development chain starts exactly when the runtime was compiled in and all seeds and addresses can be
  read; its marketplace is administered by the sudo account, which is endowed.
\<close>

theorem development_starts:
  "(\<exists>g. cs_genesis (development_config K wasm) = Inr g) \<longleftrightarrow>
     wasm \<noteq> None \<and> ke_ed25519 K ''//Alice'' \<noteq> None
     \<and> (\<forall>s \<in> {''//Alice'', ''//Bob'', ''//Alice//stash'', ''//Bob//stash''}. ke_sr25519 K s \<noteq> None)
     \<and> (\<forall>s \<in> {''6be02d1d3665660d22ff9624b7be0551ee1ac91b'', ''573394b77fC17F91E9E67F147A9ECe24d67C5073''}.
          ke_h160_from_str K s \<noteq> None)"
  by (auto simp: development_config_def testnet_genesis_def authority_keys_from_seed_def get_account_id_from_seed_def
      get_from_seed_def get_account_id_from_evm_address_def expect_def result_eqs split: option.splits)

lemma development_admin:
  assumes "cs_genesis (development_config K wasm) = Inr g"
  shows "gc_admin_key g = gc_sudo g" and "gc_sudo g \<in> Some ` fst ` set (gc_balances g)"
    and "length (gc_aura g) = 1" and "length (gc_balances g) = 9"
  using assms by (auto simp: development_config_def testnet_genesis_def result_eqs)

end
