(* ===== verification/Benchmarks.thy ===== *)
theory Benchmarks
  imports RuntimeConfig
begin

text \<open>
  The benchmarks of the pallets (\<open>benchmarking.rs\<close> of six pallets) and the list of them in the runtime. The
  weights of calls are measured on these scenarios, so they should be runs in which the call succeeds. A
  benchmark is data: steps that set the storage up, a call and its origin, and what it verifies;
  \<open>bench_run\<close> is what the macro \<open>benchmarks!\<close> makes of it.
\<close>

section \<open>Benchmarks\<close>

text \<open>
  \<open>assert_ok!\<close> of a call, a call whose result is dropped (\<open>let _ =\<close>), \<open>System::set_block_number\<close> and
  \<open>Balances::set_balance\<close> by root, which is asserted too.
\<close>

datatype bench_step =
    AssertOk origin runtime_call
  | Ignored origin runtime_call
  | SetBlockNumber u32
  | SetBalance account u128

record benchmark =
  bm_setup :: "bench_step list"
  bm_origin :: origin
  bm_call :: runtime_call
  bm_verify :: "ft_storage \<Rightarrow> bool"

text \<open>
  The number of the block is a part of the state. \<open>set_balance\<close> is code of another crate. A dropped error
  leaves the storage as it was.
\<close>

fun bench_step_run ::
  "'c currency \<Rightarrow> env \<Rightarrow> ex_params \<Rightarrow> (account \<Rightarrow> u128 \<Rightarrow> 'c \<Rightarrow> 'c dispatch) \<Rightarrow> bench_step
     \<Rightarrow> u32 \<times> 'c runtime_world \<Rightarrow> (u32 \<times> 'c runtime_world) dispatch" where
  "bench_step_run C E X set_balance (AssertOk orig c) (n, w) =
     (case rt_pallet_dispatch C (E\<lparr>env_now := n\<rparr>) X orig c w of Inl _ \<Rightarrow> Inl Panicked | Inr w' \<Rightarrow> Inr (n, w'))"
| "bench_step_run C E X set_balance (Ignored orig c) (n, w) =
     (case rt_pallet_dispatch C (E\<lparr>env_now := n\<rparr>) X orig c w of Inl _ \<Rightarrow> Inr (n, w) | Inr w' \<Rightarrow> Inr (n, w'))"
| "bench_step_run C E X set_balance (SetBlockNumber m) (n, w) = Inr (m, w)"
| "bench_step_run C E X set_balance (SetBalance who v) (n, w) =
     (case set_balance who v (rt_cur w) of Inl _ \<Rightarrow> Inl Panicked | Inr c \<Rightarrow> Inr (n, w\<lparr>rt_cur := c\<rparr>))"

fun bench_steps ::
  "'c currency \<Rightarrow> env \<Rightarrow> ex_params \<Rightarrow> (account \<Rightarrow> u128 \<Rightarrow> 'c \<Rightarrow> 'c dispatch) \<Rightarrow> bench_step list
     \<Rightarrow> u32 \<times> 'c runtime_world \<Rightarrow> (u32 \<times> 'c runtime_world) dispatch" where
  "bench_steps C E X set_balance [] s = Inr s"
| "bench_steps C E X set_balance (x # xs) s =
     and_then (bench_step_run C E X set_balance x s) (bench_steps C E X set_balance xs)"

text \<open>The call is dispatched past the call filter; an error of it fails the benchmark.\<close>

definition bench_run ::
  "'c currency \<Rightarrow> env \<Rightarrow> ex_params \<Rightarrow> (account \<Rightarrow> u128 \<Rightarrow> 'c \<Rightarrow> 'c dispatch) \<Rightarrow> benchmark
     \<Rightarrow> u32 \<times> 'c runtime_world \<Rightarrow> 'c runtime_world dispatch" where
  "bench_run C E X set_balance b s =
     and_then (bench_steps C E X set_balance (bm_setup b) s) (\<lambda>(n, w).
     and_then (rt_pallet_dispatch C (E\<lparr>env_now := n\<rparr>) X (bm_origin b) (bm_call b) w) (\<lambda>w.
     if bm_verify b (rt_ft w) then Inr w else Inl Panicked))"

definition bench :: "bench_step list \<Rightarrow> origin \<Rightarrow> runtime_call \<Rightarrow> benchmark" where
  "bench setup orig c = \<lparr>bm_setup = setup, bm_origin = orig, bm_call = c, bm_verify = (\<lambda>_. True)\<rparr>"

text \<open>\<open>account(name, 0, 0)\<close> and \<open>whitelisted_caller()\<close> of the benchmarking crate.\<close>

record bench_accounts =
  ba_alice :: account
  ba_bob :: account
  ba_charlie :: account
  ba_caller :: account

section \<open>Token pallets\<close>

text \<open>The ASCII of \<open>TestToken\<close> and of \<open>TK\<close>.\<close>

definition test_token :: bytes where "test_token = [84, 101, 115, 116, 84, 111, 107, 101, 110]"
definition tk :: bytes where "tk = [84, 75]"

definition ft_benchmarks :: "bench_accounts \<Rightarrow> benchmark list" where
  "ft_benchmarks A =
     (let alice = ba_alice A; bob = ba_bob A; charlie = ba_charlie A;
          create_token = Ignored (Signed alice) (RtTokenFungible (FtCreateToken 1 test_token tk 18));
          mint = Ignored (Signed alice) (RtTokenFungible (FtMintCall 1 alice 100000000000000)) in
      [bench [] (Signed alice) (RtTokenFungible (FtCreateToken 1 test_token tk 18)),
       bench [create_token] (Signed alice) (RtTokenFungible (FtMintCall 1 alice 100000000000000)),
       bench [create_token, mint] (Signed alice) (RtTokenFungible (FtApprove 1 bob 100000000000)),
       bench [create_token, mint] (Signed alice) (RtTokenFungible (FtBurn 1 100000000000000)),
       bench [create_token, mint] (Signed alice) (RtTokenFungible (FtTransferCall 1 bob 100000000000)),
       bench [create_token, mint, Ignored (Signed alice) (RtTokenFungible (FtApprove 1 charlie 100000000000000))]
         (Signed charlie) (RtTokenFungible (FtTransferFrom 1 alice bob 100000000000))])"

definition nft_benchmarks :: "bench_accounts \<Rightarrow> benchmark list" where
  "nft_benchmarks A =
     (let alice = ba_alice A; bob = ba_bob A;
          create_token = Ignored (Signed alice) (RtTokenNonFungible (NftCreateToken 1 (replicate 10 0) (replicate 10 0) (replicate 20 0)));
          mint = Ignored (Signed alice) (RtTokenNonFungible (NftMint 1 alice 1)) in
      [bench [] (Signed alice) (RtTokenNonFungible (NftCreateToken 1 (replicate 10 0) (replicate 10 0) (replicate 20 0))),
       bench [create_token] (Signed alice) (RtTokenNonFungible (NftMint 1 alice 1)),
       bench [create_token, mint] (Signed alice) (RtTokenNonFungible (NftBurn 1 1)),
       bench [create_token, mint] (Signed alice) (RtTokenNonFungible (NftApprove 1 bob 1)),
       bench [create_token, mint] (Signed alice) (RtTokenNonFungible (NftSetApproveForAll 1 bob True)),
       bench [create_token, mint] (Signed alice) (RtTokenNonFungible (NftTransferFrom 1 alice bob 1))])"

definition mt_benchmarks :: "bench_accounts \<Rightarrow> benchmark list" where
  "mt_benchmarks A =
     (let alice = ba_alice A; bob = ba_bob A;
          create_token = Ignored (Signed alice) (RtTokenMulti (MtCreateToken 1 (replicate 20 0)));
          mint = Ignored (Signed alice) (RtTokenMulti (MtMintCall 1 alice 1 10));
          mint_batch = Ignored (Signed alice) (RtTokenMulti (MtMintBatch 1 alice [1, 2, 3, 4, 5] (replicate 5 10))) in
      [bench [] (Signed alice) (RtTokenMulti (MtCreateToken 1 (replicate 20 0))),
       bench [create_token] (Signed alice) (RtTokenMulti (MtMintCall 1 alice 1 10)),
       bench [create_token] (Signed alice) (RtTokenMulti (MtMintBatch 1 alice [1, 2, 3, 4, 5] (replicate 5 10))),
       bench [create_token, mint] (Signed alice) (RtTokenMulti (MtSetApprovalForAll 1 bob True)),
       bench [create_token, mint] (Signed alice) (RtTokenMulti (MtBurnCall 1 1 5)),
       bench [create_token, mint_batch] (Signed alice) (RtTokenMulti (MtBurnBatch 1 [1, 2, 3, 4, 5] (replicate 5 5))),
       bench [create_token, mint] (Signed alice) (RtTokenMulti (MtTransferFrom 1 alice bob 1 5)),
       bench [create_token, mint_batch] (Signed alice)
         (RtTokenMulti (MtBatchTransferFrom 1 alice bob [1, 2, 3, 4, 5] (replicate 5 5)))])"

section \<open>Farming and launchpad\<close>

text \<open>Both files have the constants \<open>W3G = 1\<close> and \<open>USDT = 2\<close>, and 18 and 6 decimals.\<close>

definition W3G_DECIMALS :: u128 where "W3G_DECIMALS = 1000000000000000000"
definition USDT_DECIMALS :: u128 where "USDT_DECIMALS = 1000000"

definition fa_setup :: "bench_accounts \<Rightarrow> bench_step list" where
  "fa_setup A =
     (let alice = ba_alice A; bob = ba_bob A in
      [AssertOk (Signed alice) (RtTokenFungible (FtCreateToken 1 test_token tk 18)),
       AssertOk (Signed alice) (RtTokenFungible (FtCreateToken 2 test_token tk 18)),
       AssertOk (Signed alice) (RtTokenFungible (FtMintCall 2 alice (100 * USDT_DECIMALS))),
       AssertOk (Signed alice) (RtTokenFungible (FtMintCall 1 bob (100 * W3G_DECIMALS)))])"

definition fa_benchmarks :: "bench_accounts \<Rightarrow> benchmark list" where
  "fa_benchmarks A =
     (let alice = ba_alice A; bob = ba_bob A;
          set_admin = AssertOk Root (RtFarming (FaSetAdmin alice));
          create_pool = AssertOk (Signed alice) (RtFarming (FaCreatePool 10 10 10 1 2 (10 * USDT_DECIMALS)));
          staking = AssertOk (Signed bob) (RtFarming (FaStakingCall 0 (10 * W3G_DECIMALS))) in
      [bench [] Root (RtFarming (FaSetAdmin alice)),
       bench (fa_setup A @ [set_admin]) (Signed alice) (RtFarming (FaCreatePool 1 10 10 1 2 (10 * USDT_DECIMALS))),
       bench (fa_setup A @ [set_admin, create_pool, SetBlockNumber 10]) (Signed bob)
         (RtFarming (FaStakingCall 0 (10 * W3G_DECIMALS))),
       bench (fa_setup A @ [set_admin, create_pool, SetBlockNumber 10, staking, SetBlockNumber 30]) (Signed bob)
         (RtFarming (FaClaimCall 0)),
       bench (fa_setup A @ [set_admin, create_pool, SetBlockNumber 10, staking]) (Signed alice)
         (RtFarming (FaForceClaim bob 0))])"

definition lp_setup :: "bench_accounts \<Rightarrow> bench_step list" where
  "lp_setup A =
     (let alice = ba_alice A; bob = ba_bob A in
      [AssertOk (Signed alice) (RtTokenFungible (FtCreateToken 1 test_token tk 18)),
       AssertOk (Signed alice) (RtTokenFungible (FtCreateToken 2 test_token tk 6)),
       AssertOk (Signed alice) (RtTokenFungible (FtMintCall 2 bob (100 * USDT_DECIMALS))),
       AssertOk (Signed alice) (RtTokenFungible (FtMintCall 1 alice (100 * W3G_DECIMALS)))])"

definition lp_benchmarks :: "bench_accounts \<Rightarrow> benchmark list" where
  "lp_benchmarks A =
     (let alice = ba_alice A; bob = ba_bob A;
          pool = RtLaunchpad (LpCreatePool 10 10 1 2 (10 * W3G_DECIMALS) (1 * USDT_DECIMALS)) in
      [bench (lp_setup A) (Signed alice) pool,
       bench (lp_setup A @ [AssertOk (Signed alice) pool, SetBlockNumber 10]) (Signed bob) (RtLaunchpad (LpBuyTokenCall 0 2)),
       bench (lp_setup A @ [AssertOk (Signed alice) pool, SetBlockNumber 10,
           AssertOk (Signed bob) (RtLaunchpad (LpBuyTokenCall 0 2)), SetBlockNumber 21]) (Signed bob) (RtLaunchpad (LpClaimCall 0)),
       bench (lp_setup A @ [AssertOk (Signed alice) pool, SetBlockNumber 21]) (Signed alice) (RtLaunchpad (LpOwnerClaimCall 0))])"

section \<open>Exchange\<close>

definition bench_set_balance :: "account \<Rightarrow> bench_step list" where
  "bench_set_balance who = [SetBalance who 100000000000000000000]"

definition bench_create_token :: "account \<Rightarrow> bench_step list" where
  "bench_create_token who =
     [AssertOk (Signed who) (RtTokenFungible (FtCreateToken 1 test_token tk 18)),
      AssertOk (Signed who) (RtTokenFungible (FtCreateToken 2 test_token tk 18)),
      AssertOk (Signed who) (RtTokenFungible (FtCreateToken 3 test_token tk 18))]"

definition bench_mint_token :: "account \<Rightarrow> bench_step list" where
  "bench_mint_token who =
     [AssertOk (Signed who) (RtTokenFungible (FtMintCall 1 who 100000000000000000000)),
      AssertOk (Signed who) (RtTokenFungible (FtMintCall 2 who 100000000000000000000))]"

definition init_create_pool :: "bench_accounts \<Rightarrow> u128 \<Rightarrow> u128 \<Rightarrow> bench_step list" where
  "init_create_pool A token_a token_b = [AssertOk (Signed (ba_caller A)) (RtExchange (ExCreatePool token_a token_b))]"

definition ex_benchmarks :: "bench_accounts \<Rightarrow> benchmark list" where
  "ex_benchmarks A =
     (let alice = ba_caller A;
          pool = bench_set_balance alice @ bench_create_token alice @ init_create_pool A 1 2 @ bench_mint_token alice;
          add = RtExchange (ExAddLiquidity 1 2 10000000000000000 10000000000000000 0 0 alice 10000);
          liquid = pool @ [AssertOk (Signed alice) add] in
      [(bench (bench_set_balance alice @ bench_create_token alice) (Signed alice) (RtExchange (ExCreatePool 1 2)))
         \<lparr>bm_verify := ft_exists 1\<rparr>,
       bench pool (Signed alice) add,
       bench liquid (Signed alice) (RtExchange (ExRemoveLiquidity 1 2 10000000000 0 0 alice 10000)),
       bench liquid (Signed alice) (RtExchange (ExSwapExactTokensForTokens 1000000000000000 0 [1, 2] alice 10000)),
       bench liquid (Signed alice)
         (RtExchange (ExSwapTokensForExactTokens 1000000000000000 100000000000000000 [1, 2] alice 10000))])"

section \<open>All benchmarks of the runtime\<close>

text \<open>
  \<open>define_benchmarks!\<close>, \<open>list_benchmark!\<close> and \<open>add_benchmark!\<close> name the same pallets of the repository in the
  same order.
\<close>

definition rt_benchmarks :: "bench_accounts \<Rightarrow> (string \<times> benchmark list) list" where
  "rt_benchmarks A =
     [(''TokenFungible'', ft_benchmarks A), (''TokenMulti'', mt_benchmarks A), (''TokenNonFungible'', nft_benchmarks A),
      (''Exchange'', ex_benchmarks A), (''Farming'', fa_benchmarks A), (''Launchpad'', lp_benchmarks A)]"

section \<open>They run\<close>

lemma bench_genesis:
  assumes "rt_build C E build g = Inr w"
  shows "rt_nft w = nft_genesis" "rt_mt w = mt_genesis"
    and "\<exists>t. ft_tokens (rt_ft w) = [0 \<mapsto> t]" "ft_balances (rt_ft w) = (\<lambda>_. 0)" "ft_allowances (rt_ft w) = (\<lambda>_. 0)"
    and "fa_next_pool_id (rt_fa w) = 0" "fa_locked (rt_fa w) = Map.empty" "lp_next_pool_id (rt_lp w) = 0"
      "lp_locked (rt_lp w) = Map.empty"
    and "ex_next_pool_id (rt_ex w) = 0" "ex_pools (rt_ex w) = Map.empty" "ex_reserves (rt_ex w) = (\<lambda>_. (0, 0))"
      "ex_fee_to (rt_ex w) = None"
  using assms
  by (simp_all add: rt_build_def rt_on_ex_def ex_on_wr_def focus_def Let_def wr_create_wrap_token_def wr_lift_defs
      ft_do_create_token_def bounded_vec_def StringLimit_def rt_empty_def rt_puts rt_views ft_genesis_def ft_deposit_event_def
      ex_ft_def) auto

text \<open>The accounts of the benchmarks are different, and none of them is the account of a pallet.\<close>

definition bench_accounts_ok :: "env \<Rightarrow> bench_accounts \<Rightarrow> bool" where
  "bench_accounts_ok E A \<longleftrightarrow> distinct [ba_alice A, ba_bob A, ba_charlie A] \<and>
     {ba_alice A, ba_bob A, ba_charlie A, ba_caller A} \<subseteq> rt_users E"

lemma bench_accounts_neq:
  assumes "bench_accounts_ok E A"
  shows "ba_alice A \<noteq> ba_bob A" "ba_bob A \<noteq> ba_alice A" "ba_alice A \<noteq> ba_charlie A" "ba_charlie A \<noteq> ba_alice A"
    "ba_bob A \<noteq> ba_charlie A" "ba_charlie A \<noteq> ba_bob A"
  using assms by (auto simp: bench_accounts_ok_def)

lemmas bench_eval = bench_def bench_run_def and_then_def Let_def focus_def ensure_def ok_or_def checked_add_def checked_sub_def
  saturating_add_def saturating_sub_def saturating_mul_def bounded_vec_def StringLimit_def

lemmas bench_nft_eval = nft_call_defs nft_do_create_token_def nft_do_mint_def nft_do_transfer_from_def nft_do_transfer_def
  nft_do_burn_def nft_do_approve_def nft_do_set_approve_for_all_def nft_exists_def nft_token_exists_def nft_has_permission_def
  nft_is_approved_or_owner_def nft_add_token_to_all_tokens_enumeration_def nft_add_token_to_owner_enumeration_def
  nft_remove_token_from_owner_enumeration_def nft_remove_token_from_all_tokens_enumeration_def nft_clear_approval_def
  nft_deposit_event_def nft_genesis_def

lemma replicate_five: "replicate 5 x = [x, x, x, x, x]"
  by (simp add: eval_nat_numeral)

lemmas bench_mt_eval = mt_call_defs mt_do_create_token_def mt_do_mint_def mt_do_batch_mint_def mt_do_burn_def mt_do_batch_burn_def
  mt_do_transfer_from_def mt_do_batch_transfer_from_def mt_do_set_approval_for_all_def mt_exists_def mt_genesis_def
  mt_deposit_event_def mt_has_permission_def mt_mint_one_def mt_burn_one_def mt_transfer_one_def
  mt_increase_balance_def mt_decrease_balance_def mt_owner_or_approved_def replicate_five

lemmas bench_pool_eval = test_token_def tk_def USDT_DECIMALS_def W3G_DECIMALS_def fa_setup_def lp_setup_def fa_set_admin_def
  fa_create_pool_def fa_staking_def fa_claim_def fa_force_claim_def fa_is_admin_def fa_on_ft_def fa_pool_status_def
  fa_staking_end_def fa_deposit_event_def fa_award_def fa_escrow_account_id_def lp_escrow_account_id_def lp_create_pool_def
  lp_buy_token_def lp_claim_def lp_owner_claim_def lp_on_ft_def lp_deposit_event_def ft_token_decimals_def ft_metadata_def
  ft_balance_of_def rt_views rt_puts

lemma ft_benchmarks_run:
  assumes "bench_accounts_ok E A" and "rt_build C E build g = Inr w" and "b \<in> set (ft_benchmarks A)"
  shows "\<exists>w'. bench_run C E X set_balance b (n, w) = Inr w'"
proof -
  obtain t where t: "ft_tokens (rt_ft w) = [0 \<mapsto> t]" using bench_genesis(3) [OF assms(2)] ..
  from assms(3) show ?thesis
    unfolding ft_benchmarks_def Let_def list.set insert_iff empty_iff
    by (elim disjE) (use bench_accounts_neq [OF assms(1)] t bench_genesis(4, 5) [OF assms(2)] in
        \<open>simp_all add: bench_eval ft_eval test_token_def tk_def\<close>)
qed

lemma nft_benchmarks_run:
  assumes "bench_accounts_ok E A" and "rt_build C E build g = Inr w" and "b \<in> set (nft_benchmarks A)"
  shows "\<exists>w'. bench_run C E X set_balance b (n, w) = Inr w'"
  using assms(3)
  unfolding nft_benchmarks_def Let_def list.set insert_iff empty_iff
  by (elim disjE) (use bench_accounts_neq [OF assms(1)] bench_genesis(1) [OF assms(2)] in
      \<open>simp_all add: bench_eval bench_nft_eval\<close>)

lemma mt_benchmarks_run:
  assumes "bench_accounts_ok E A" and "rt_build C E build g = Inr w" and "b \<in> set (mt_benchmarks A)"
  shows "\<exists>w'. bench_run C E X set_balance b (n, w) = Inr w'"
  using assms(3)
  unfolding mt_benchmarks_def Let_def list.set insert_iff empty_iff
  by (elim disjE) (use bench_accounts_neq [OF assms(1)] bench_genesis(2) [OF assms(2)] in
      \<open>simp_all add: bench_eval bench_mt_eval\<close>)

lemma bench_escrow_neq:
  assumes "bench_accounts_ok E A"
  shows "ba_alice A \<noteq> into_sub_account E FarmingPalletId 0" "ba_bob A \<noteq> into_sub_account E FarmingPalletId 0"
    "into_sub_account E FarmingPalletId 0 \<noteq> ba_alice A" "into_sub_account E FarmingPalletId 0 \<noteq> ba_bob A"
proof -
  have "into_sub_account E FarmingPalletId 0 = fa_escrow_account_id E 0" by (simp add: fa_escrow_account_id_def)
  also have "\<dots> \<notin> rt_users E" by (auto simp: rt_users_def rt_pallet_accounts_def fa_escrows_def)
  finally have "into_sub_account E FarmingPalletId 0 \<notin> rt_users E" .
  then show "ba_alice A \<noteq> into_sub_account E FarmingPalletId 0" "ba_bob A \<noteq> into_sub_account E FarmingPalletId 0"
    "into_sub_account E FarmingPalletId 0 \<noteq> ba_alice A" "into_sub_account E FarmingPalletId 0 \<noteq> ba_bob A"
    using assms by (auto simp: bench_accounts_ok_def)
qed

lemma fa_benchmarks_run:
  assumes "bench_accounts_ok E A" and "rt_build C E build g = Inr w" and "b \<in> set (fa_benchmarks A)"
  shows "\<exists>w'. bench_run C E X set_balance b (n, w) = Inr w'"
proof -
  obtain t where t: "ft_tokens (rt_ft w) = [0 \<mapsto> t]" using bench_genesis(3) [OF assms(2)] ..
  from assms(3) show ?thesis
    unfolding fa_benchmarks_def Let_def list.set insert_iff empty_iff
    by (elim disjE) (use bench_accounts_neq [OF assms(1)] bench_escrow_neq [OF assms(1)] t bench_genesis(4-7) [OF assms(2)] in
        \<open>simp_all add: bench_eval ft_eval bench_pool_eval\<close>)
qed

lemma lp_benchmarks_run:
  assumes "bench_accounts_ok E A" and "rt_build C E build g = Inr w" and "b \<in> set (lp_benchmarks A)"
  shows "\<exists>w'. bench_run C E X set_balance b (n, w) = Inr w'"
proof -
  obtain t where t: "ft_tokens (rt_ft w) = [0 \<mapsto> t]" using bench_genesis(3) [OF assms(2)] ..
  from assms(3) show ?thesis
    unfolding lp_benchmarks_def Let_def list.set insert_iff empty_iff
    by (elim disjE) (use bench_accounts_neq [OF assms(1)] bench_escrow_neq [OF assms(1)] t bench_genesis(4, 5, 8, 9) [OF assms(2)] in
        \<open>simp_all add: bench_eval ft_eval bench_pool_eval\<close>)
qed

text \<open>
  What the benchmarks of the exchange need of other code: the balance set for the caller pays the deposit of a
  pool, the drawn id is none of the tokens that exist and has an account of its own, and the square root of a square is right.
\<close>

definition bench_exchange_ok ::
  "'c currency \<Rightarrow> env \<Rightarrow> ex_params \<Rightarrow> (account \<Rightarrow> u128 \<Rightarrow> 'c \<Rightarrow> 'c dispatch) \<Rightarrow> account \<Rightarrow> 'c \<Rightarrow> bool" where
  "bench_exchange_ok C E X set_balance who c \<longleftrightarrow>
     (\<exists>c1 c2. set_balance who 100000000000000000000 c = Inr c1
        \<and> cur_transfer C who (ex_account_id E) CreatePoolDeposit AllowDeath c1 = Inr c2)
     \<and> random_id X 1 2 \<notin> {0, 1, 2, 3} \<and> ex_account_id E \<noteq> ex_token_id_to_account_id E (random_id X 1 2)
     \<and> integer_sqrt X 100000000000000000000000000000000 = 10000000000000000"

lemma bench_exchangeD:
  assumes "bench_exchange_ok C E X set_balance who c"
  shows "random_id X 1 2 \<noteq> 0" "random_id X 1 2 \<noteq> 1" "random_id X 1 2 \<noteq> 2" "random_id X 1 2 \<noteq> 3"
    "0 \<noteq> random_id X 1 2" "1 \<noteq> random_id X 1 2" "2 \<noteq> random_id X 1 2" "3 \<noteq> random_id X 1 2"
    "ex_account_id E \<noteq> ex_token_id_to_account_id E (random_id X 1 2)"
    "ex_token_id_to_account_id E (random_id X 1 2) \<noteq> ex_account_id E"
    "integer_sqrt X 100000000000000000000000000000000 = 10000000000000000"
  using assms by (auto simp: bench_exchange_ok_def)

lemma bench_pool_neq:
  assumes "bench_accounts_ok E A"
  shows "ba_caller A \<noteq> ex_token_id_to_account_id E t" "ex_token_id_to_account_id E t \<noteq> ba_caller A"
    "ba_caller A \<noteq> ex_account_id E" "ex_account_id E \<noteq> ba_caller A"
proof -
  have "ba_caller A \<in> rt_users E" using assms by (simp add: bench_accounts_ok_def)
  moreover have "ex_token_id_to_account_id E t \<notin> rt_users E" "ex_account_id E \<notin> rt_users E"
    by (auto simp: rt_users_def rt_pallet_accounts_def ex_sub_accounts_def)
  ultimately show "ba_caller A \<noteq> ex_token_id_to_account_id E t" "ex_token_id_to_account_id E t \<noteq> ba_caller A"
    "ba_caller A \<noteq> ex_account_id E" "ex_account_id E \<noteq> ba_caller A"
    by auto
qed

lemmas bench_ex_eval = test_token_def tk_def bench_set_balance_def bench_create_token_def bench_mint_token_def init_create_pool_def
  ex_create_pool_def ex_exists_def ex_sort_tokens_def ex_do_create_pool_def ex_on_wr_def wr_on_native_def wr_on_ft_def ex_on_ft_def
  ex_ft_def ex_deposit_event_def rt_on_ex_def rt_views rt_puts ex_add_liquidity_def ex_get_pool_def ex_do_add_liquidity_def
  ex_get_reserves_def ex_pay_in_and_mint_def ex_mint_def ex_mint_fee_def ft_supply_def ex_mint_liquidity_def MINIMUM_LIQUIDITY_def
  ex_do_update_def ex_update_k_last_def ft_balance_of_def

lemma ex_create_benchmarks_run:
  assumes "bench_accounts_ok E A" and "rt_build C E build g = Inr w"
    and "bench_exchange_ok C E X set_balance (ba_caller A) (rt_cur w)" and "n < 10000" and "b \<in> set (take 2 (ex_benchmarks A))"
  shows "\<exists>w'. bench_run C E X set_balance b (n, w) = Inr w'"
proof -
  obtain t where t: "ft_tokens (rt_ft w) = [0 \<mapsto> t]" using bench_genesis(3) [OF assms(2)] ..
  obtain c1 c2 where c: "set_balance (ba_caller A) 100000000000000000000 (rt_cur w) = Inr c1"
    "cur_transfer C (ba_caller A) (ex_account_id E) CreatePoolDeposit AllowDeath c1 = Inr c2"
    using assms(3) by (auto simp: bench_exchange_ok_def)
  from assms(5) show ?thesis
    unfolding ex_benchmarks_def Let_def take_Suc_Cons take_0 numeral_2_eq_2 list.set insert_iff empty_iff
    by (elim disjE) (use assms(4) c bench_exchangeD [OF assms(3)] t bench_pool_neq [OF assms(1)] bench_genesis(4, 5, 10-13) [OF assms(2)] in
        \<open>simp_all add: bench_eval ft_eval bench_ex_eval\<close>)
qed

text \<open>The state of the pool in the other benchmarks, with its liquidity.\<close>

definition bench_pool_at :: "account \<Rightarrow> account \<Rightarrow> u128 \<Rightarrow> 'c runtime_world \<Rightarrow> bool" where
  "bench_pool_at a p r w \<longleftrightarrow>
     ex_pools (rt_ex w) (1, 2) = Some \<lparr>pool_token_0 = 1, pool_token_1 = 2, pool_lp_token = r, pool_lp_account = p\<rparr>
     \<and> ex_reserves (rt_ex w) (1, 2) = (10000000000000000, 10000000000000000) \<and> ex_fee_to (rt_ex w) = None
     \<and> ft_balances (rt_ft w) (1, a) = 99990000000000000000 \<and> ft_balances (rt_ft w) (2, a) = 99990000000000000000
     \<and> ft_balances (rt_ft w) (1, p) = 10000000000000000 \<and> ft_balances (rt_ft w) (2, p) = 10000000000000000
     \<and> ft_balances (rt_ft w) (r, a) = 9999999999999000 \<and> ft_balances (rt_ft w) (r, p) = 0
     \<and> (\<exists>t. ft_tokens (rt_ft w) r = Some t \<and> ft_total_supply t = 10000000000000000)"

lemma bench_liquid:
  assumes "bench_accounts_ok E A" and "rt_build C E build g = Inr w"
    and "bench_exchange_ok C E X set_balance (ba_caller A) (rt_cur w)" and "n < 10000"
    and liquid: "liquid = bench_set_balance (ba_caller A) @ bench_create_token (ba_caller A) @ init_create_pool A 1 2
      @ bench_mint_token (ba_caller A)
      @ [AssertOk (Signed (ba_caller A)) (RtExchange (ExAddLiquidity 1 2 10000000000000000 10000000000000000 0 0 (ba_caller A) 10000))]"
  shows "\<exists>w'. bench_steps C E X set_balance liquid (n, w) = Inr (n, w')
    \<and> bench_pool_at (ba_caller A) (ex_token_id_to_account_id E (random_id X 1 2)) (random_id X 1 2) w'"
proof -
  obtain t where t: "ft_tokens (rt_ft w) = [0 \<mapsto> t]" using bench_genesis(3) [OF assms(2)] ..
  obtain c1 c2 where c: "set_balance (ba_caller A) 100000000000000000000 (rt_cur w) = Inr c1"
    "cur_transfer C (ba_caller A) (ex_account_id E) CreatePoolDeposit AllowDeath c1 = Inr c2"
    using assms(3) by (auto simp: bench_exchange_ok_def)
  show ?thesis
    using assms(4) c bench_exchangeD [OF assms(3)] t bench_pool_neq [OF assms(1)] bench_genesis(4, 5, 10-13) [OF assms(2)]
    unfolding liquid bench_pool_at_def
    by (simp add: bench_eval ft_eval bench_ex_eval)
qed

lemma bench_prices:
  "ex_get_amount_out 1000000000000000 10000000000000000 10000000000000000 = Inr 906610893880149"
  "ex_get_amount_in 1000000000000000 10000000000000000 10000000000000000 = Inr 1114454474534716"
  by (simp_all add: ex_get_amount_out_value ex_get_amount_in_value price_out_def price_in_def)

lemma bench_amounts:
  assumes "ex_reserves v (1, 2) = (10000000000000000, 10000000000000000)"
  shows "ex_get_amounts_out 1000000000000000 [1, 2] v = Inr [1000000000000000, 906610893880149]"
    and "ex_get_amounts_in 1000000000000000 [1, 2] v = Inr [1114454474534716, 1000000000000000]"
  using assms bench_prices
  by (simp_all add: ex_get_amounts_out_def ex_get_amounts_in_def ex_get_reserves_def ex_sort_tokens_def ensure_def)

lemmas bench_swap_eval = ex_remove_liquidity_def ex_burn_def mul_div_def checked_mul_def checked_div_def u256_of_def u128_try_from_def
  ex_swap_exact_tokens_for_tokens_def ex_swap_tokens_for_exact_tokens_def ex_first_pool_def index_def ex_pay_in_and_swap_def
  ex_do_swap_def ex_hop_def ex_swap_def ex_pay_out_def ex_init_amount_in_def ex_init_balance_adjusted_def ex_k_check_def

lemma bench_remove_run:
  assumes "bench_pool_at a p r w" and "n < 10000" and "a \<noteq> p" and "r \<noteq> 1" and "r \<noteq> 2"
  shows "\<exists>w'. rt_pallet_dispatch C (E\<lparr>env_now := n\<rparr>) X (Signed a) (RtExchange (ExRemoveLiquidity 1 2 10000000000 0 0 a 10000)) w
    = Inr w'"
  using assms assms(3-5) [symmetric] unfolding bench_pool_at_def
  by (auto simp: bench_eval ft_eval bench_ex_eval bench_swap_eval)

lemma bench_swap_run:
  assumes "bench_pool_at a p r w" and "n < 10000" and "a \<noteq> p" and "r \<noteq> 1" and "r \<noteq> 2"
  shows "\<exists>w'. rt_pallet_dispatch C (E\<lparr>env_now := n\<rparr>) X (Signed a)
      (RtExchange (ExSwapExactTokensForTokens 1000000000000000 0 [1, 2] a 10000)) w = Inr w'"
    and "\<exists>w'. rt_pallet_dispatch C (E\<lparr>env_now := n\<rparr>) X (Signed a)
      (RtExchange (ExSwapTokensForExactTokens 1000000000000000 100000000000000000 [1, 2] a 10000)) w = Inr w'"
  using assms assms(3-5) [symmetric] unfolding bench_pool_at_def
  by (auto simp: bench_eval ft_eval bench_ex_eval bench_swap_eval bench_amounts)

lemma ex_liquid_benchmarks_run:
  assumes "bench_accounts_ok E A" and "rt_build C E build g = Inr w"
    and "bench_exchange_ok C E X set_balance (ba_caller A) (rt_cur w)" and "n < 10000" and "b \<in> set (drop 2 (ex_benchmarks A))"
  shows "\<exists>w'. bench_run C E X set_balance b (n, w) = Inr w'"
proof -
  let ?a = "ba_caller A" and ?r = "random_id X 1 2"
  let ?p = "ex_token_id_to_account_id E ?r"
  have neq: "?a \<noteq> ?p" "?r \<noteq> 1" "?r \<noteq> 2" using bench_pool_neq [OF assms(1)] bench_exchangeD [OF assms(3)] by auto
  obtain liquid where liquid: "liquid = bench_set_balance ?a @ bench_create_token ?a @ init_create_pool A 1 2 @ bench_mint_token ?a
      @ [AssertOk (Signed ?a) (RtExchange (ExAddLiquidity 1 2 10000000000000000 10000000000000000 0 0 ?a 10000))]" by blast
  from bench_liquid [OF assms(1-4) this] obtain w1 where w1: "bench_steps C E X set_balance liquid (n, w) = Inr (n, w1)"
    and at: "bench_pool_at ?a ?p ?r w1" by blast
  from assms(5) have "b \<in> {bench liquid (Signed ?a) (RtExchange (ExRemoveLiquidity 1 2 10000000000 0 0 ?a 10000)),
      bench liquid (Signed ?a) (RtExchange (ExSwapExactTokensForTokens 1000000000000000 0 [1, 2] ?a 10000)),
      bench liquid (Signed ?a) (RtExchange (ExSwapTokensForExactTokens 1000000000000000 100000000000000000 [1, 2] ?a 10000))}"
    by (simp add: ex_benchmarks_def Let_def liquid)
  then show ?thesis
    using bench_remove_run [OF at assms(4) neq] bench_swap_run [OF at assms(4) neq] w1
    by (auto simp: bench_def bench_run_def simp del: rt_pallet_dispatch.simps)
qed

lemma ex_benchmarks_run:
  assumes "bench_accounts_ok E A" and "rt_build C E build g = Inr w"
    and "bench_exchange_ok C E X set_balance (ba_caller A) (rt_cur w)" and "n < 10000" and "b \<in> set (ex_benchmarks A)"
  shows "\<exists>w'. bench_run C E X set_balance b (n, w) = Inr w'"
proof -
  have "b \<in> set (take 2 (ex_benchmarks A)) \<union> set (drop 2 (ex_benchmarks A))"
    using assms(5) by (metis append_take_drop_id set_append)
  with ex_create_benchmarks_run [OF assms(1-4)] ex_liquid_benchmarks_run [OF assms(1-4)] show ?thesis by blast
qed

section \<open>Properties\<close>

text \<open>
  C15: Every benchmark of the runtime runs: its setup does not fail, its call succeeds and what it verifies
  holds, on the state that any genesis gives, at every block before the deadlines. So weights are
  measured on calls that succeed.
\<close>

theorem benchmarks_run:
  assumes "bench_accounts_ok E A" and "rt_build C E build g = Inr w"
    and "bench_exchange_ok C E X set_balance (ba_caller A) (rt_cur w)" and "n < 10000"
    and "(pallet, bs) \<in> set (rt_benchmarks A)" and "b \<in> set bs"
  shows "\<exists>w'. bench_run C E X set_balance b (n, w) = Inr w'"
  using assms(5, 6) ft_benchmarks_run [OF assms(1,2)] mt_benchmarks_run [OF assms(1,2)] nft_benchmarks_run [OF assms(1,2)]
    ex_benchmarks_run [OF assms(1-4)] fa_benchmarks_run [OF assms(1,2)] lp_benchmarks_run [OF assms(1,2)]
  by (auto simp: rt_benchmarks_def)

text \<open>
  Which calls are measured: every call of the token pallets, of farming and of the launchpad, and of the
  exchange those that move no native currency. The four calls for the native currency and \<open>set_fee_to\<close>
  have no benchmark of their own.
\<close>

definition bench_measures :: "bench_accounts \<Rightarrow> runtime_call \<Rightarrow> bool" where
  "bench_measures A c \<longleftrightarrow> rt_call_names c \<in> (\<lambda>b. rt_call_names (bm_call b)) ` set (concat (map snd (rt_benchmarks A)))"

theorem benchmarks_cover:
  "bench_measures A (RtTokenFungible fc)" "bench_measures A (RtTokenNonFungible nc)" "bench_measures A (RtTokenMulti mc)"
  "bench_measures A (RtFarming ac)" "bench_measures A (RtLaunchpad lc)"
  "bench_measures A (RtExchange ec) \<longleftrightarrow>
     (case ec of ExAddLiquidityW3G _ _ _ _ _ _ _ \<Rightarrow> False | ExRemoveLiquidityW3G _ _ _ _ _ _ \<Rightarrow> False
      | ExSwapExactW3GForTokens _ _ _ _ _ \<Rightarrow> False | ExSwapTokensForExactW3G _ _ _ _ _ \<Rightarrow> False
      | ExSetFeeToCall _ \<Rightarrow> False | _ \<Rightarrow> True)"
  unfolding bench_measures_def rt_benchmarks_def
  by ((cases fc; simp add: ft_benchmarks_def bench_def Let_def), (cases nc; simp add: nft_benchmarks_def bench_def Let_def),
      (cases mc; simp add: mt_benchmarks_def bench_def Let_def), (cases ac; simp add: fa_benchmarks_def bench_def Let_def),
      (cases lc; simp add: lp_benchmarks_def bench_def Let_def),
      (cases ec; simp add: ft_benchmarks_def nft_benchmarks_def mt_benchmarks_def ex_benchmarks_def fa_benchmarks_def
        lp_benchmarks_def bench_def Let_def))

section \<open>Concrete instances\<close>

definition bench_accounts_example :: bench_accounts where
  "bench_accounts_example = \<lparr>ba_alice = 1, ba_bob = 2, ba_charlie = 3, ba_caller = 4\<rparr>"

definition bench_params_example :: ex_params where
  "bench_params_example = rt_params_example\<lparr>integer_sqrt := (\<lambda>_. 10000000000000000)\<rparr>"

definition bench_set_balance_example :: "account \<Rightarrow> u128 \<Rightarrow> (account \<Rightarrow> u128) \<Rightarrow> (account \<Rightarrow> u128) dispatch" where
  "bench_set_balance_example a v c = Inr (c(a := v))"

lemma bench_example_ok:
  shows "bench_accounts_ok rt_env_example bench_accounts_example"
    and "c (ex_account_id rt_env_example) = 0 \<Longrightarrow>
      bench_exchange_ok ledger_currency rt_env_example bench_params_example bench_set_balance_example
        (ba_caller bench_accounts_example) c"
proof -
  show "bench_accounts_ok rt_env_example bench_accounts_example"
    by (simp add: bench_accounts_ok_def bench_accounts_example_def rt_users_example)
  have ex: "ex_account_id rt_env_example = 1001" by (simp add: rt_example_ids rt_env_example_def rt_id_tag_def)
  have sub: "ex_account_id rt_env_example \<notin> ex_sub_accounts rt_env_example"
    using rt_sub_accounts_example(1) rt_accounts_example(2) by fastforce
  assume "c (ex_account_id rt_env_example) = 0"
  with sub show "bench_exchange_ok ledger_currency rt_env_example bench_params_example bench_set_balance_example
      (ba_caller bench_accounts_example) c"
    by (auto simp: bench_exchange_ok_def ledger_currency_def bench_set_balance_example_def bench_accounts_example_def ex
        bench_params_example_def rt_params_example_def CreatePoolDeposit_def checked_sub_def checked_add_def ex_sub_accounts_def)
qed

lemma bench_genesis_example: "\<exists>w. rt_genesis_example = Inr w \<and> rt_cur w (ex_account_id rt_env_example) = 0"
  by (simp add: rt_eval rt_ft_eval rt_example_ids ledger_currency_def CreateTokenDeposit_def)

theorem benchmarks_run_witness:
  "\<exists>w b w'. rt_genesis_example = Inr w \<and> b \<in> set (ex_benchmarks bench_accounts_example)
     \<and> bm_call b = RtExchange (ExSwapExactTokensForTokens 1000000000000000 0 [1, 2] 4 10000)
     \<and> bench_run ledger_currency rt_env_example bench_params_example bench_set_balance_example b (1, w) = Inr w'"
proof -
  let ?b = "ex_benchmarks bench_accounts_example ! 3"
  from bench_genesis_example obtain w where w: "rt_genesis_example = Inr w" "rt_cur w (ex_account_id rt_env_example) = 0"
    by blast
  have b: "?b \<in> set (ex_benchmarks bench_accounts_example)"
    "bm_call ?b = RtExchange (ExSwapExactTokensForTokens 1000000000000000 0 [1, 2] 4 10000)"
    by (simp_all add: ex_benchmarks_def Let_def bench_def bench_accounts_example_def)
  have "(''Exchange'', ex_benchmarks bench_accounts_example) \<in> set (rt_benchmarks bench_accounts_example)"
    by (simp add: rt_benchmarks_def)
  from benchmarks_run [OF bench_example_ok(1) w(1) [unfolded rt_genesis_example_def] bench_example_ok(2) [of "rt_cur w", OF w(2)] _ this b(1), of 1]
  show ?thesis using w(1) b by auto
qed

end
