(* ===== verification/PrecompileTesting.thy ===== *)
theory PrecompileTesting
  imports PrecompileSet PrecompilePallets
begin

text \<open>
  The tools for testing precompiles (\<open>precompiles/utils/src/testing.rs\<close>): a handle that counts gas and
  keeps logs, and a tester that runs a set of precompiles on it and asserts what came out. The
  handle refines the one that precompiles are modelled on, as far as gas is concerned; the tester's
  assertions mean what their names say, with one exception.
\<close>

section \<open>The mock handle\<close>

record evm_context =
  cx_address :: h160
  cx_caller :: h160
  cx_apparent_value :: u256

record evm_transfer =
  tr_source :: h160
  tr_target :: h160
  tr_value :: u256

datatype exit_reason = ExitSucceed | ExitRevert | ExitError evm_error | ExitFatal

record subcall =
  sub_address :: h160
  sub_transfer :: "evm_transfer option"
  sub_input :: bytes
  sub_target_gas :: "u64 option"
  sub_is_static :: bool
  sub_context :: evm_context

record subcall_output =
  so_reason :: exit_reason
  so_output :: bytes
  so_cost :: u64
  so_logs :: "evm_log list"

text \<open>A subcall handle is a closure that may change what it has captured: a function with its state.\<close>

type_synonym 'f subcall_handle = "('f \<Rightarrow> subcall \<Rightarrow> subcall_output \<times> 'f) \<times> 'f"

record 'f mock_handle =
  mh_gas_limit :: u64
  mh_gas_used :: u64
  mh_logs :: "evm_log list"
  mh_subcall_handle :: "'f subcall_handle option"
  mh_code_address :: h160
  mh_input :: bytes
  mh_context :: evm_context
  mh_is_static :: bool

definition mock_new :: "h160 \<Rightarrow> evm_context \<Rightarrow> 'f mock_handle" where
  "mock_new code_address context =
     \<lparr>mh_gas_limit = - 1, mh_gas_used = 0, mh_logs = [], mh_subcall_handle = None, mh_code_address = code_address,
      mh_input = [], mh_context = context, mh_is_static = False\<rparr>"

text \<open>
  Tests are built with overflow checks, so \<open>+=\<close> and \<open>-\<close> panic where they would wrap (\<open>EvmPanic\<close>). A handle
  is changed in place, also when the result is an error.
\<close>

definition mock_record_cost :: "u64 \<Rightarrow> 'f mock_handle \<Rightarrow> unit evm_result \<times> 'f mock_handle" where
  "mock_record_cost cost m =
     (case checked_add (mh_gas_used m) cost of
        None \<Rightarrow> (Inl EvmPanic, m)
      | Some used \<Rightarrow>
          let m = m\<lparr>mh_gas_used := used\<rparr> in
          (if mh_gas_used m > mh_gas_limit m then Inl OutOfGas else Inr (), m))"

definition mock_remaining_gas :: "'f mock_handle \<Rightarrow> u64 evm_result" where
  "mock_remaining_gas m = ok_or (checked_sub (mh_gas_limit m) (mh_gas_used m)) EvmPanic"

definition mock_log :: "evm_log \<Rightarrow> 'f mock_handle \<Rightarrow> 'f mock_handle" where
  "mock_log l m = m\<lparr>mh_logs := mh_logs m @ [l]\<rparr>"

text \<open>\<open>config\<close> is \<open>evm::Config::london()\<close>.\<close>

definition mock_call ::
  "evm_config \<Rightarrow> subcall \<Rightarrow> 'f mock_handle \<Rightarrow> (exit_reason \<times> bytes) evm_result \<times> 'f mock_handle" where
  "mock_call config c m =
     (case mock_record_cost (call_cost (cx_apparent_value (sub_context c)) config) m of
        (Inl EvmPanic, m) \<Rightarrow> (Inl EvmPanic, m)
      | (Inl _, m) \<Rightarrow> (Inr (ExitError OutOfGas, []), m)
      | (Inr _, m) \<Rightarrow>
          (case mh_subcall_handle m of
             None \<Rightarrow> (Inl EvmPanic, m)
           | Some (f, x) \<Rightarrow>
               let (out, x) = f x c; m = m\<lparr>mh_subcall_handle := Some (f, x)\<rparr> in
               (case mock_record_cost (so_cost out) m of
                  (Inl EvmPanic, m) \<Rightarrow> (Inl EvmPanic, m)
                | (Inl _, m) \<Rightarrow> (Inr (ExitError OutOfGas, []), m)
                | (Inr _, m) \<Rightarrow> (Inr (so_reason out, so_output out), fold mock_log (so_logs out) m))))"

section \<open>The tester\<close>

text \<open>
  A set of precompiles as the tester runs it: on the mock handle and on the storage. The result is none when
  no precompile has the address.
\<close>

type_synonym ('f, 's) mock_set = "'f mock_handle \<Rightarrow> 's \<Rightarrow> bytes evm_result option \<times> 'f mock_handle \<times> 's"

record ('f, 's) tester =
  pt_precompiles :: "('f, 's) mock_set"
  pt_handle :: "'f mock_handle"
  pt_target_gas :: "u64 option"
  pt_subcall_handle :: "'f subcall_handle option"
  pt_expected_cost :: "u64 option"
  pt_expected_logs :: "evm_log list option"

definition tester_new :: "('f, 's) mock_set \<Rightarrow> h160 \<Rightarrow> h160 \<Rightarrow> bytes \<Rightarrow> ('f, 's) tester" where
  "tester_new precompiles from_address to_address data =
     (let handle = mock_new to_address
            \<lparr>cx_address = to_address, cx_caller = from_address, cx_apparent_value = 0\<rparr>;
          handle = handle\<lparr>mh_input := data\<rparr> in
      \<lparr>pt_precompiles = precompiles, pt_handle = handle, pt_target_gas = None, pt_subcall_handle = None,
       pt_expected_cost = None, pt_expected_logs = None\<rparr>)"

definition prepare_test :: "('f, 's) mock_set \<Rightarrow> h160 \<Rightarrow> h160 \<Rightarrow> bytes \<Rightarrow> ('f, 's) tester" where
  "prepare_test precompiles from_address to_address data = tester_new precompiles from_address to_address data"

definition with_value :: "u256 \<Rightarrow> ('f, 's) tester \<Rightarrow> ('f, 's) tester" where
  "with_value v t =
     t\<lparr>pt_handle := (pt_handle t)\<lparr>mh_context := (mh_context (pt_handle t))\<lparr>cx_apparent_value := v\<rparr>\<rparr>\<rparr>"

definition with_subcall_handle :: "'f subcall_handle \<Rightarrow> ('f, 's) tester \<Rightarrow> ('f, 's) tester" where
  "with_subcall_handle f t = t\<lparr>pt_subcall_handle := Some f\<rparr>"

definition with_target_gas :: "u64 option \<Rightarrow> ('f, 's) tester \<Rightarrow> ('f, 's) tester" where
  "with_target_gas gas t = t\<lparr>pt_target_gas := gas\<rparr>"

definition expect_cost :: "u64 \<Rightarrow> ('f, 's) tester \<Rightarrow> ('f, 's) tester" where
  "expect_cost cost t = t\<lparr>pt_expected_cost := Some cost\<rparr>"

definition expect_no_logs :: "('f, 's) tester \<Rightarrow> ('f, 's) tester" where
  "expect_no_logs t = t\<lparr>pt_expected_logs := Some []\<rparr>"

definition expect_log :: "evm_log \<Rightarrow> ('f, 's) tester \<Rightarrow> ('f, 's) tester" where
  "expect_log l t =
     t\<lparr>pt_expected_logs := Some ((case pt_expected_logs t of None \<Rightarrow> [] | Some logs \<Rightarrow> logs) @ [l])\<rparr>"

text \<open>Assertions that hold; a failed one panics.\<close>

definition assert_optionals :: "('f, 's) tester \<Rightarrow> bool" where
  "assert_optionals t \<longleftrightarrow>
     (case pt_expected_cost t of None \<Rightarrow> True | Some cost \<Rightarrow> mh_gas_used (pt_handle t) = cost) \<and>
     (case pt_expected_logs t of None \<Rightarrow> True | Some logs \<Rightarrow> mh_logs (pt_handle t) = logs)"

definition tester_execute :: "('f, 's) tester \<Rightarrow> 's \<Rightarrow> bytes evm_result option \<times> ('f, 's) tester \<times> 's" where
  "tester_execute t s =
     (let handle = (pt_handle t)\<lparr>mh_subcall_handle := pt_subcall_handle t\<rparr>;
          handle = (case pt_target_gas t of None \<Rightarrow> handle | Some gas_limit \<Rightarrow> handle\<lparr>mh_gas_limit := gas_limit\<rparr>);
          (res, handle, s) = pt_precompiles t handle s in
      (res, t\<lparr>pt_handle := handle\<lparr>mh_subcall_handle := None\<rparr>, pt_subcall_handle := mh_subcall_handle handle\<rparr>, s))"

text \<open>The five ways to run a test: whether it passes, and the storage it leaves. A panic of a precompile fails the test.\<close>

definition tester_check :: "(bytes evm_result option \<Rightarrow> bool) \<Rightarrow> ('f, 's) tester \<Rightarrow> 's \<Rightarrow> bool \<times> 's" where
  "tester_check ok t s =
     (let (res, t, s) = tester_execute t s in (res \<noteq> Some (Inl EvmPanic) \<and> ok res \<and> assert_optionals t, s))"

definition execute_some :: "('f, 's) tester \<Rightarrow> 's \<Rightarrow> bool \<times> 's" where
  "execute_some = tester_check (\<lambda>res. res \<noteq> None)"

definition execute_none :: "('f, 's) tester \<Rightarrow> 's \<Rightarrow> bool \<times> 's" where
  "execute_none = tester_check (\<lambda>res. res \<noteq> None)"

definition execute_returns :: "bytes \<Rightarrow> ('f, 's) tester \<Rightarrow> 's \<Rightarrow> bool \<times> 's" where
  "execute_returns output = tester_check (\<lambda>res. res = Some (Inr output))"

definition execute_reverts :: "(string \<Rightarrow> bool) \<Rightarrow> ('f, 's) tester \<Rightarrow> 's \<Rightarrow> bool \<times> 's" where
  "execute_reverts check =
     tester_check (\<lambda>res. case res of Some (Inl (Revert output)) \<Rightarrow> check output | _ \<Rightarrow> False)"

definition execute_error :: "evm_error \<Rightarrow> ('f, 's) tester \<Rightarrow> 's \<Rightarrow> bool \<times> 's" where
  "execute_error error = tester_check (\<lambda>res. res = Some (Inl error))"

text \<open>The data of a log as the debug output shows it: two upper-case hexadecimal digits for each byte.\<close>

definition hex_digit :: "nat \<Rightarrow> char" where
  "hex_digit n = ''0123456789ABCDEF'' ! n"

definition pretty_data :: "bytes \<Rightarrow> string" where
  "pretty_data data = concat (map (\<lambda>b. [hex_digit (unat b div 16), hex_digit (unat b mod 16)]) data)"

section \<open>The mock handle refines the handle of the model\<close>

definition mock_abs :: "'f mock_handle \<Rightarrow> precompile_handle" where
  "mock_abs m =
     \<lparr>ph_code_address = mh_code_address m, ph_input = mh_input m, ph_address = cx_address (mh_context m),
      ph_caller = cx_caller (mh_context m), ph_apparent_value = cx_apparent_value (mh_context m),
      ph_is_static = mh_is_static m, ph_remaining_gas = mh_gas_limit m - mh_gas_used m\<rparr>"

text \<open>The gas used is within the limit until a cost is refused; nothing is looked at afterwards.\<close>

definition mock_ok :: "'f mock_handle \<Rightarrow> bool" where
  "mock_ok m \<longleftrightarrow> mh_gas_used m \<le> mh_gas_limit m"

lemma mock_remaining: "mock_ok m \<Longrightarrow> mock_remaining_gas m = Inr (ph_remaining_gas (mock_abs m))"
  by (simp add: mock_remaining_gas_def mock_ok_def mock_abs_def checked_sub_def word_le_nat_alt)

text \<open>
  Recording a cost is recording it on the abstract handle: it succeeds in the same cases and leaves the same
  gas. The one difference is a cost so large that the sum overflows, where the test panics.
\<close>

lemma mock_record_cost_refines:
  assumes ok: "mock_ok m"
  shows "(case record_cost cost (mock_abs m) of
      Inr h \<Rightarrow> mock_record_cost cost m = (Inr (), m\<lparr>mh_gas_used := mh_gas_used m + cost\<rparr>) \<and>
        mock_abs (m\<lparr>mh_gas_used := mh_gas_used m + cost\<rparr>) = h \<and> mock_ok (m\<lparr>mh_gas_used := mh_gas_used m + cost\<rparr>)
    | Inl e \<Rightarrow> e = OutOfGas \<and> fst (mock_record_cost cost m) \<in> {Inl OutOfGas, Inl EvmPanic})"
proof -
  have le: "unat (mh_gas_used m) \<le> unat (mh_gas_limit m)" using ok by (simp add: mock_ok_def word_le_nat_alt)
  have bound: "unat (mh_gas_limit m) < 2 ^ 64" using unat_bound [of "mh_gas_limit m"] by simp
  have rem: "unat (mh_gas_limit m - mh_gas_used m) = unat (mh_gas_limit m) - unat (mh_gas_used m)"
    using le by (simp add: unat_sub word_le_nat_alt)
  show ?thesis
  proof (cases "cost \<le> mh_gas_limit m - mh_gas_used m")
    case True
    then have sum: "unat (mh_gas_used m) + unat cost \<le> unat (mh_gas_limit m)" using rem le by (simp add: word_le_nat_alt)
    then have add: "unat (mh_gas_used m + cost) = unat (mh_gas_used m) + unat cost"
      using bound by (intro unat_add_small) simp
    have "mh_gas_used m + cost \<le> mh_gas_limit m" using sum add by (simp add: word_le_nat_alt)
    with True sum bound show ?thesis
      by (simp add: record_cost_def mock_record_cost_def mock_abs_def mock_ok_def checked_add_def Let_def not_less
          diff_diff_eq)
  next
    case False
    then have gt: "unat (mh_gas_limit m) < unat (mh_gas_used m) + unat cost" using rem le by (simp add: word_le_nat_alt)
    have "fst (mock_record_cost cost m) \<in> {Inl OutOfGas, Inl EvmPanic}"
    proof (cases "unat (mh_gas_used m) + unat cost < 2 ^ 64")
      case True
      then have "unat (mh_gas_used m + cost) = unat (mh_gas_used m) + unat cost" by (intro unat_add_small) simp
      with gt True show ?thesis by (simp add: mock_record_cost_def checked_add_def Let_def word_less_nat_alt)
    qed (simp add: mock_record_cost_def checked_add_def)
    with False show ?thesis by (simp add: record_cost_def mock_abs_def not_less)
  qed
qed

text \<open>
  A subcall that stays within the limit costs its own price and what the handle says, in this order, and
  appends the logs of the subcall; without a handle the test panics.
\<close>

lemma fold_mock_log: "fold mock_log ls m = m\<lparr>mh_logs := mh_logs m @ ls\<rparr>"
  by (induction ls arbitrary: m) (simp_all add: mock_log_def)

lemma mock_record_cost_within:
  assumes "unat (mh_gas_used m) + unat cost \<le> unat (mh_gas_limit m)"
  shows "mock_record_cost cost m = (Inr (), m\<lparr>mh_gas_used := mh_gas_used m + cost\<rparr>)"
    and "unat (mh_gas_used m + cost) = unat (mh_gas_used m) + unat cost"
proof -
  have lt: "unat (mh_gas_used m) + unat cost < 2 ^ LENGTH(64)" using assms unat_bound [of "mh_gas_limit m"] by simp
  show add: "unat (mh_gas_used m + cost) = unat (mh_gas_used m) + unat cost" using lt by (rule unat_add_small)
  have "\<not> mh_gas_limit m < mh_gas_used m + cost" using assms add by (simp add: word_less_nat_alt)
  with lt show "mock_record_cost cost m = (Inr (), m\<lparr>mh_gas_used := mh_gas_used m + cost\<rparr>)"
    by (simp add: mock_record_cost_def checked_add_def Let_def)
qed

lemma mock_call_within:
  assumes handle: "mh_subcall_handle m = Some (f, x)" and out: "f x c = (out, x')"
    and gas: "unat (mh_gas_used m) + unat (call_cost (cx_apparent_value (sub_context c)) config) + unat (so_cost out)
      \<le> unat (mh_gas_limit m)"
  shows "mock_call config c m =
    (Inr (so_reason out, so_output out),
     m\<lparr>mh_gas_used := mh_gas_used m + call_cost (cx_apparent_value (sub_context c)) config + so_cost out,
       mh_logs := mh_logs m @ so_logs out, mh_subcall_handle := Some (f, x')\<rparr>)"
proof -
  define cost where "cost = call_cost (cx_apparent_value (sub_context c)) config"
  let ?m = "m\<lparr>mh_gas_used := mh_gas_used m + cost, mh_subcall_handle := Some (f, x')\<rparr>"
  have first: "unat (mh_gas_used m) + unat cost \<le> unat (mh_gas_limit m)" using gas by (simp add: cost_def)
  have "unat (mh_gas_used ?m) + unat (so_cost out) \<le> unat (mh_gas_limit ?m)"
    using gas mock_record_cost_within(2) [OF first] by (simp add: cost_def)
  note second = mock_record_cost_within(1) [OF this]
  show ?thesis
    using handle out second mock_record_cost_within(1) [OF first]
    by (simp add: mock_call_def cost_def [symmetric] Let_def fold_mock_log)
qed

lemma mock_call_no_handle:
  "mh_subcall_handle m = None \<Longrightarrow> fst (mock_call config c m) \<in> {Inl EvmPanic, Inr (ExitError OutOfGas, [])}"
  by (auto simp: mock_call_def mock_record_cost_def Let_def split: option.splits)

section \<open>The tester on the precompiles of the model\<close>

text \<open>
  A set of precompiles of the model, run on a mock handle: what is left of the gas is what the run
  has left. The storage of a failed run is the one before.
\<close>

definition mock_run ::
  "(precompile_handle \<Rightarrow> 's \<Rightarrow> 's precompile_result option) \<Rightarrow> ('f, 's) mock_set" where
  "mock_run P m s =
     (case P (mock_abs m) s of
        None \<Rightarrow> (None, m, s)
      | Some (Inl e) \<Rightarrow> (Some (Inl e), m, s)
      | Some (Inr (out, h, s')) \<Rightarrow>
          (Some (Inr out), m\<lparr>mh_gas_used := mh_gas_limit m - ph_remaining_gas h\<rparr>, s'))"

definition test_handle :: "h160 \<Rightarrow> h160 \<Rightarrow> bytes \<Rightarrow> u256 \<Rightarrow> u64 \<Rightarrow> precompile_handle" where
  "test_handle from_address to_address data v gas =
     \<lparr>ph_code_address = to_address, ph_input = data, ph_address = to_address, ph_caller = from_address,
      ph_apparent_value = v, ph_is_static = False, ph_remaining_gas = gas\<rparr>"

lemmas tester_defs = prepare_test_def tester_new_def mock_new_def with_value_def with_target_gas_def expect_cost_def
  tester_check_def tester_execute_def assert_optionals_def mock_run_def mock_abs_def test_handle_def Let_def

text \<open>
  A test that expects an output and a cost passes exactly when the precompiles return the output
  on the handle that the test describes and use that much gas.
\<close>

theorem execute_returns_sound:
  "fst (execute_returns output
      (expect_cost cost (with_target_gas (Some gas) (with_value v (prepare_test (mock_run P) a b data)))) s) \<longleftrightarrow>
   (\<exists>h s'. P (test_handle a b data v gas) s = Some (Inr (output, h, s')) \<and> gas - ph_remaining_gas h = cost)"
  by (auto simp: execute_returns_def tester_defs split: option.splits sum.splits)

text \<open>Likewise for a revert, whose message the given check has to accept.\<close>

theorem execute_reverts_sound:
  "fst (execute_reverts check (with_target_gas (Some gas) (with_value v (prepare_test (mock_run P) a b data))) s) \<longleftrightarrow>
   (\<exists>msg. P (test_handle a b data v gas) s = Some (Inl (Revert msg)) \<and> check msg)"
  by (auto simp: execute_reverts_def tester_defs split: option.splits sum.splits evm_error.splits)

text \<open>
  \<open>execute_none\<close> is meant to pass when no precompile has run. It makes the assertion of \<open>execute_some\<close>: it
  fails whenever there is no precompile at the address, and passes when there is one and it does not panic.
\<close>

theorem execute_none_inverted:
  "fst (execute_none (with_target_gas (Some gas) (with_value v (prepare_test (mock_run P) a b data))) s) \<longleftrightarrow>
   P (test_handle a b data v gas) s \<notin> {None, Some (Inl EvmPanic)}"
  by (auto simp: execute_none_def tester_defs split: option.splits sum.splits)

lemma prefix_nine: "take 4 (be_bytes 20 9) = [0, 0, 0, 0]"
  by code_simp

corollary execute_none_on_unused_address:
  "\<not> fst (execute_none (with_target_gas (Some gas) (with_value v (prepare_test (mock_run (w3g_execute P)) a (hash 9) data))) s)"
  by (simp add: execute_none_inverted w3g_execute_def test_handle_def hash_def Let_def address_bytes_def prefix_nine
      FT_PRECOMPILE_ADDRESS_PREFIX_def NFT_PRECOMPILE_ADDRESS_PREFIX_def MT_PRECOMPILE_ADDRESS_PREFIX_def)

section \<open>The debug output\<close>

text \<open>Different data are shown differently.\<close>

lemma hex_digit_inj: "hex_digit i = hex_digit j \<Longrightarrow> i < 16 \<Longrightarrow> j < 16 \<Longrightarrow> i = j"
  using nth_eq_iff_index_eq [of "''0123456789ABCDEF''" i j] by (simp add: hex_digit_def)

lemma pretty_data_inj: "pretty_data d = pretty_data e \<Longrightarrow> d = e"
proof (induction d arbitrary: e)
  case Nil
  then show ?case by (cases e) (simp_all add: pretty_data_def)
next
  case (Cons b d)
  then obtain c e' where e: "e = c # e'" by (cases e) (simp_all add: pretty_data_def)
  have b: "unat b < 256" "unat c < 256" using unat_bound [of b] unat_bound [of c] by simp_all
  have "unat b div 16 = unat c div 16" "unat b mod 16 = unat c mod 16"
    using Cons.prems e b by (auto intro!: hex_digit_inj simp: pretty_data_def)
  then have "b = c" by (metis div_mult_mod_eq word_eq_unatI)
  moreover have "d = e'" using Cons.prems e by (intro Cons.IH) (simp add: pretty_data_def)
  ultimately show ?case using e by simp
qed

end
