(* ===== verification/NodeService.thy ===== *)
theory NodeService
  imports ChainSpec
begin

text \<open>
  How the node is put together (\<open>node/src/service.rs\<close>, \<open>node/src/rpc.rs\<close>). The crates of Substrate and
  Frontier that the node calls are parameters: what may fail is a \<open>node_call\<close>, what may not is a \<open>node_action\<close>, and
  a record \<open>node_env\<close> says what they do to a world of any type. The theorems are about the order of these calls: which
  tasks a node runs, when it starts its network, what it does when something fails, which modules its RPC server has.
\<close>

section \<open>Command line and configuration\<close>

datatype sealing = SealManual | SealInstant


record run_cmd =
  rc_sealing :: sealing
  rc_enable_dev_signer :: bool
  rc_max_past_logs :: u32
  rc_fee_history_limit :: u64
  rc_target_gas_price :: u64


text \<open>A path is the list of its components.\<close>

type_synonym path = "string list"

datatype database_source = RocksDb path nat | ParityDb path | AutoDb path path nat | CustomDb

text \<open>The part of \<open>sc_service::Configuration\<close> that the node looks at.\<close>

record configuration =
  cf_chain_id :: string
  cf_base_path :: "path option"
  cf_database :: database_source
  cf_keystore_remote :: "string option"
  cf_telemetry_endpoints :: "(string \<times> u8) list option"
  cf_is_authority :: bool
  cf_force_authoring :: bool
  cf_disable_grandpa :: bool
  cf_offchain_worker :: bool
  cf_node_name :: string
  cf_extra_sets :: "string list"

text \<open>The feature that the node is built with: \<open>aura\<close> or \<open>manual-seal\<close>.\<close>

datatype consensus = Aura_Feature | Manual_Seal_Feature

section \<open>RPC modules\<close>

datatype storage_schema = SchemaUndefined | SchemaV1 | SchemaV2 | SchemaV3
datatype storage_override = SchemaV1Override | SchemaV2Override | SchemaV3Override | RuntimeApiStorageOverride

record override_handle =
  oh_schemas :: "storage_schema \<rightharpoonup> storage_override"
  oh_fallback :: storage_override

definition overrides_handle :: override_handle where
  "overrides_handle =
     (let overrides_map = Map.empty;
          overrides_map = overrides_map(SchemaV1 \<mapsto> SchemaV1Override);
          overrides_map = overrides_map(SchemaV2 \<mapsto> SchemaV2Override);
          overrides_map = overrides_map(SchemaV3 \<mapsto> SchemaV3Override) in
      \<lparr>oh_schemas = overrides_map, oh_fallback = RuntimeApiStorageOverride\<rparr>)"

text \<open>
  The dependencies of the RPC server. Client, pools, network, databases and caches are objects of other
  crates; whether an optional one is there is kept.
\<close>

record full_deps =
  fd_deny_unsafe :: bool
  fd_is_authority :: bool
  fd_enable_dev_signer :: bool
  fd_filter_pool :: bool
  fd_max_past_logs :: u32
  fd_fee_history_limit :: u64
  fd_command_sink :: bool
  fd_overrides :: override_handle

datatype eth_signer = EthDevSigner

datatype rpc_module =
    SystemRpc bool
  | TransactionPaymentRpc
  | ContractsRpc
  | ExchangeRpc
  | EthRpc "eth_signer list" override_handle bool u64
  | EthFilterRpc nat u32
  | NetRpc bool
  | Web3Rpc
  | EthPubSubRpc override_handle
  | ManualSealRpc

text \<open>\<open>merge\<close> adds the methods of a module to the server's and fails on a method that is there already.\<close>

definition create_full :: "(rpc_module list \<Rightarrow> rpc_module \<Rightarrow> string option) \<Rightarrow> full_deps \<Rightarrow> string + rpc_module list" where
  "create_full clash deps =
     (let merge = (\<lambda>m r. and_then r (\<lambda>io. case clash io m of None \<Rightarrow> Inr (io @ [m]) | Some e \<Rightarrow> Inl e));
          io = Inr [];
          io = merge (SystemRpc (fd_deny_unsafe deps)) io;
          io = merge TransactionPaymentRpc io;
          io = merge ContractsRpc io;
          io = merge ExchangeRpc io;
          signers = (if fd_enable_dev_signer deps then [EthDevSigner] else []);
          io = merge (EthRpc signers (fd_overrides deps) (fd_is_authority deps) (fd_fee_history_limit deps)) io;
          io = (if fd_filter_pool deps then merge (EthFilterRpc 500 (fd_max_past_logs deps)) io else io);
          io = merge (NetRpc True) io;
          io = merge Web3Rpc io;
          io = merge (EthPubSubRpc (fd_overrides deps)) io;
          io = (if fd_command_sink deps then merge ManualSealRpc io else io) in
      io)"

section \<open>The crates that the node calls\<close>

text \<open>The futures that the node spawns, with the settings that it gives them.\<close>

datatype node_future =
    TelemetryRun
  | MappingSync nat nat nat
  | FilterPoolTask u64
  | FeeHistoryTask u64
  | ManualSealFuture u256
  | InstantSealFuture u256
  | AuraFuture
  | GrandpaFuture

record node_task =
  nt_name :: string
  nt_group :: "string option"
  nt_essential :: bool
  nt_blocking :: bool
  nt_future :: node_future

record aura_params =
  ap_slot_duration :: u64
  ap_target_gas_price :: u64
  ap_force_authoring :: bool
  ap_backoff_authoring_blocks :: "unit option"
  ap_block_proposal_slot_portion :: "nat \<times> nat"
  ap_max_block_proposal_slot_portion :: "(nat \<times> nat) option"

record grandpa_params =
  gp_gossip_duration :: nat
  gp_justification_period :: u32
  gp_name :: string
  gp_observer_enabled :: bool
  gp_keystore :: bool
  gp_local_role :: bool
  gp_protocol_name :: string

datatype node_call =
    NewTelemetryWorker nat
  | NewFullParts bool
  | OpenFrontierBackend database_source
  | GrandpaBlockImport bool
  | AuraImportQueue u64 u64
  | BuildNetwork "string list" bool
  | SpawnTasks "bool \<Rightarrow> full_deps"
  | StartAura aura_params
  | RunGrandpaVoter grandpa_params

datatype node_action =
    NewTransactionPool bool
  | NewManualSealQueue
  | BuildOffchainWorkers
  | NewBlockDataCache nat nat
  | NewProposerFactory
  | SpawnTask node_task
  | StartNetwork

record 'w node_env =
  ne_call :: "node_call \<Rightarrow> 'w \<Rightarrow> string option \<times> 'w"
  ne_do :: "node_action \<Rightarrow> 'w \<Rightarrow> 'w"
  ne_slot_duration :: "'w \<Rightarrow> string + u64"
  ne_genesis_hash :: "'w \<Rightarrow> u256 option"
  ne_config_dir :: "path \<Rightarrow> string \<Rightarrow> path"
  ne_from_project :: "string \<Rightarrow> string \<Rightarrow> string \<Rightarrow> path"
  ne_protocol_name :: "u256 \<Rightarrow> string \<Rightarrow> string"

text \<open>A failure stops the function that called, and the world stays as it was left.\<close>

datatype service_error = Service_Other string | Service_Failed string | Service_Panicked

type_synonym ('w, 'a) node_io = "'w \<Rightarrow> (service_error + 'a) \<times> 'w"

definition io_return :: "'a \<Rightarrow> ('w, 'a) node_io" where
  "io_return x w = (Inr x, w)"

definition io_fail :: "service_error \<Rightarrow> ('w, 'a) node_io" where
  "io_fail e w = (Inl e, w)"

definition io_bind :: "('w, 'a) node_io \<Rightarrow> ('a \<Rightarrow> ('w, 'b) node_io) \<Rightarrow> ('w, 'b) node_io" where
  "io_bind m f w = (case m w of (Inl e, w) \<Rightarrow> (Inl e, w) | (Inr x, w) \<Rightarrow> f x w)"

definition io_when :: "bool \<Rightarrow> ('w, unit) node_io \<Rightarrow> ('w, unit) node_io" where
  "io_when b m = (if b then m else io_return ())"

definition io_call :: "'w node_env \<Rightarrow> node_call \<Rightarrow> ('w, unit) node_io" where
  "io_call N c w = (case ne_call N c w of (None, w) \<Rightarrow> (Inr (), w) | (Some e, w) \<Rightarrow> (Inl (Service_Failed e), w))"

definition io_do :: "'w node_env \<Rightarrow> node_action \<Rightarrow> ('w, unit) node_io" where
  "io_do N a w = (Inr (), ne_do N a w)"

section \<open>Timestamps of sealed blocks\<close>

definition INHERENT_IDENTIFIER :: string where "INHERENT_IDENTIFIER = ''timstap0''"

text \<open>\<open>TIMESTAMP\<close> is the state; the data put under the identifier is the new timestamp. A release build wraps.\<close>

definition provide_inherent_data :: "u64 \<Rightarrow> (string \<rightharpoonup> u64) \<Rightarrow> (string \<rightharpoonup> u64) \<times> u64" where
  "provide_inherent_data timestamp inherent_data =
     (let timestamp = timestamp + SLOT_DURATION in (inherent_data(INHERENT_IDENTIFIER \<mapsto> timestamp), timestamp))"

text \<open>
  The inherents of a block: by the clock with Aura, by the counter with sealing. \<open>slot_of\<close> is
  \<open>from_timestamp_and_slot_duration\<close>.
\<close>

definition aura_inherents :: "(u64 \<Rightarrow> u64 \<Rightarrow> 'slot) \<Rightarrow> u64 \<Rightarrow> u64 \<Rightarrow> u64 \<Rightarrow> u64 \<times> 'slot \<times> u256" where
  "aura_inherents slot_of slot_duration target_gas_price now =
     (let timestamp = now; slot = slot_of timestamp slot_duration; dynamic_fee = ucast target_gas_price in
      (timestamp, slot, dynamic_fee))"

section \<open>The database of Frontier\<close>

definition frontier_database_dir :: "'w node_env \<Rightarrow> configuration \<Rightarrow> string \<Rightarrow> path" where
  "frontier_database_dir N config p =
     (let config_dir =
            (case cf_base_path config of
               Some base_path \<Rightarrow> ne_config_dir N base_path (cf_chain_id config)
             | None \<Rightarrow> ne_config_dir N (ne_from_project N '''' '''' ''websgames'') (cf_chain_id config)) in
      (config_dir @ [''frontier'']) @ [p])"

definition frontier_source :: "'w node_env \<Rightarrow> configuration \<Rightarrow> database_source option" where
  "frontier_source N config =
     (case cf_database config of
        RocksDb _ _ \<Rightarrow> Some (RocksDb (frontier_database_dir N config ''db'') 0)
      | ParityDb _ \<Rightarrow> Some (ParityDb (frontier_database_dir N config ''paritydb''))
      | AutoDb _ _ _ \<Rightarrow>
          Some (AutoDb (frontier_database_dir N config ''db'') (frontier_database_dir N config ''paritydb'') 0)
      | CustomDb \<Rightarrow> None)"

definition open_frontier_backend :: "'w node_env \<Rightarrow> configuration \<Rightarrow> ('w, unit) node_io" where
  "open_frontier_backend N config =
     (case frontier_source N config of
        Some source \<Rightarrow> io_call N (OpenFrontierBackend source)
      | None \<Rightarrow> io_fail (Service_Failed ''Supported db sources: `rocksdb` | `paritydb` | `auto`''))"

section \<open>A node without tasks\<close>

datatype consensus_result = GrandpaLink | SealingResult sealing

record partial_components =
  pc_telemetry :: bool
  pc_filter_pool :: bool
  pc_consensus :: consensus_result

definition slot_duration :: "'w node_env \<Rightarrow> ('w, u64) node_io" where
  "slot_duration N w = (case ne_slot_duration N w of Inl e \<Rightarrow> (Inl (Service_Failed e), w) | Inr d \<Rightarrow> (Inr d, w))"

definition telemetry_task :: node_task where
  "telemetry_task =
     \<lparr>nt_name = ''telemetry'', nt_group = None, nt_essential = False, nt_blocking = False, nt_future = TelemetryRun\<rparr>"

definition new_partial :: "consensus \<Rightarrow> 'w node_env \<Rightarrow> configuration \<Rightarrow> run_cmd \<Rightarrow> ('w, partial_components) node_io" where
  "new_partial F N config cli =
     (if cf_keystore_remote config \<noteq> None then io_fail (Service_Other ''Remote Keystores are not supported.'')
      else
        let telemetry = (case cf_telemetry_endpoints config of None \<Rightarrow> False | Some x \<Rightarrow> x \<noteq> []) in
        io_bind (io_when telemetry (io_call N (NewTelemetryWorker 16))) (\<lambda>_.
        io_bind (io_call N (NewFullParts telemetry)) (\<lambda>_.
        io_bind (io_when telemetry (io_do N (SpawnTask telemetry_task))) (\<lambda>_.
        io_bind (io_do N (NewTransactionPool (cf_is_authority config))) (\<lambda>_.
        let filter_pool = True in
        io_bind (open_frontier_backend N config) (\<lambda>_.
        case F of
          Manual_Seal_Feature \<Rightarrow>
            io_bind (io_do N NewManualSealQueue) (\<lambda>_.
            io_return \<lparr>pc_telemetry = telemetry, pc_filter_pool = filter_pool, pc_consensus = SealingResult (rc_sealing cli)\<rparr>)
        | Aura_Feature \<Rightarrow>
            io_bind (io_call N (GrandpaBlockImport telemetry)) (\<lambda>_.
            io_bind (slot_duration N) (\<lambda>duration.
            io_bind (io_call N (AuraImportQueue duration (rc_target_gas_price cli))) (\<lambda>_.
            io_return \<lparr>pc_telemetry = telemetry, pc_filter_pool = filter_pool, pc_consensus = GrandpaLink\<rparr>)))))))))"

section \<open>A full node\<close>

definition remote_keystore :: "string \<Rightarrow> string + unit" where
  "remote_keystore url = Inl ''Remote Keystore not supported.''"

definition rpc_extensions_builder :: "configuration \<Rightarrow> run_cmd \<Rightarrow> partial_components \<Rightarrow> bool \<Rightarrow> full_deps" where
  "rpc_extensions_builder config cli pcs deny_unsafe =
     \<lparr>fd_deny_unsafe = deny_unsafe, fd_is_authority = cf_is_authority config,
      fd_enable_dev_signer = rc_enable_dev_signer cli, fd_filter_pool = pc_filter_pool pcs,
      fd_max_past_logs = rc_max_past_logs cli, fd_fee_history_limit = rc_fee_history_limit cli,
      fd_command_sink = True, fd_overrides = overrides_handle\<rparr>"

definition essential_task :: "string \<Rightarrow> string option \<Rightarrow> bool \<Rightarrow> node_future \<Rightarrow> node_action" where
  "essential_task name grp blocking f =
     SpawnTask \<lparr>nt_name = name, nt_group = grp, nt_essential = True, nt_blocking = blocking, nt_future = f\<rparr>"

definition spawn_frontier_tasks :: "'w node_env \<Rightarrow> run_cmd \<Rightarrow> partial_components \<Rightarrow> ('w, unit) node_io" where
  "spawn_frontier_tasks N cli pcs =
     io_bind (io_do N (essential_task ''frontier-mapping-sync-worker'' None False (MappingSync 6 3 0))) (\<lambda>_.
     io_bind (io_when (pc_filter_pool pcs)
       (io_do N (essential_task ''frontier-filter-pool'' None False (FilterPoolTask 100)))) (\<lambda>_.
     io_do N (essential_task ''frontier-fee-history'' None False (FeeHistoryTask (rc_fee_history_limit cli)))))"

definition start_manual_seal :: "'w node_env \<Rightarrow> configuration \<Rightarrow> run_cmd \<Rightarrow> sealing \<Rightarrow> ('w, unit) node_io" where
  "start_manual_seal N config cli sealing =
     io_when (cf_is_authority config)
       (io_bind (io_do N NewProposerFactory) (\<lambda>_.
        case sealing of
          SealManual \<Rightarrow>
            io_do N (essential_task ''manual-seal'' None True (ManualSealFuture (ucast (rc_target_gas_price cli))))
        | SealInstant \<Rightarrow>
            io_do N (essential_task ''instant-seal'' None True (InstantSealFuture (ucast (rc_target_gas_price cli))))))"

definition start_aura_grandpa :: "'w node_env \<Rightarrow> configuration \<Rightarrow> run_cmd \<Rightarrow> string \<Rightarrow> ('w, unit) node_io" where
  "start_aura_grandpa N config cli grandpa_protocol_name =
     io_bind (io_when (cf_is_authority config)
       (io_bind (io_do N NewProposerFactory) (\<lambda>_.
        io_bind (slot_duration N) (\<lambda>duration.
        io_bind (io_call N (StartAura \<lparr>ap_slot_duration = duration, ap_target_gas_price = rc_target_gas_price cli,
          ap_force_authoring = cf_force_authoring config, ap_backoff_authoring_blocks = None,
          ap_block_proposal_slot_portion = (2, 3), ap_max_block_proposal_slot_portion = None\<rparr>)) (\<lambda>_.
        io_do N (essential_task ''aura'' (Some ''block-authoring'') True AuraFuture)))))) (\<lambda>_.
     let grandpa_config = \<lparr>gp_gossip_duration = 333, gp_justification_period = 512, gp_name = cf_node_name config,
           gp_observer_enabled = False, gp_keystore = cf_is_authority config, gp_local_role = cf_is_authority config,
           gp_protocol_name = grandpa_protocol_name\<rparr> in
     io_when (\<not> cf_disable_grandpa config)
       (io_bind (io_call N (RunGrandpaVoter grandpa_config)) (\<lambda>_.
        io_do N (essential_task ''grandpa-voter'' None True GrandpaFuture))))"

definition new_full :: "consensus \<Rightarrow> 'w node_env \<Rightarrow> configuration \<Rightarrow> run_cmd \<Rightarrow> ('w, unit) node_io" where
  "new_full F N config cli =
     io_bind (new_partial F N config cli) (\<lambda>pcs.
     io_bind (case cf_keystore_remote config of
         None \<Rightarrow> io_return ()
       | Some url \<Rightarrow>
           (case remote_keystore url of
              Inr k \<Rightarrow> io_return ()
            | Inl e \<Rightarrow> io_fail (Service_Other (''Error hooking up remote keystore for '' @ url @ '': '' @ e)))) (\<lambda>_.
     io_bind (\<lambda>w. case ne_genesis_hash N w of None \<Rightarrow> (Inl Service_Panicked, w) | Some h \<Rightarrow> (Inr h, w)) (\<lambda>genesis.
     let grandpa_protocol_name = ne_protocol_name N genesis (cf_chain_id config);
         config = (case F of
             Aura_Feature \<Rightarrow> config\<lparr>cf_extra_sets := cf_extra_sets config @ [grandpa_protocol_name]\<rparr>
           | Manual_Seal_Feature \<Rightarrow> config);
         warp_sync = (F = Aura_Feature) in
     io_bind (io_call N (BuildNetwork (cf_extra_sets config) warp_sync)) (\<lambda>_.
     io_bind (io_when (cf_offchain_worker config) (io_do N BuildOffchainWorkers)) (\<lambda>_.
     io_bind (io_do N (NewBlockDataCache 50 50)) (\<lambda>_.
     io_bind (io_call N (SpawnTasks (rpc_extensions_builder config cli pcs))) (\<lambda>_.
     io_bind (spawn_frontier_tasks N cli pcs) (\<lambda>_.
     io_bind (case pc_consensus pcs of
         SealingResult sealing \<Rightarrow> start_manual_seal N config cli sealing
       | GrandpaLink \<Rightarrow> start_aura_grandpa N config cli grandpa_protocol_name) (\<lambda>_.
     io_do N StartNetwork)))))))))"

section \<open>What happens before the network starts\<close>

text \<open>
  \<open>io_inv P Q m\<close>: from a world with \<open>P\<close>, a failure leaves a world with \<open>P\<close> and a success one with \<open>Q\<close>.
\<close>

definition io_inv :: "('w \<Rightarrow> bool) \<Rightarrow> ('w \<Rightarrow> bool) \<Rightarrow> ('w, 'a) node_io \<Rightarrow> bool" where
  "io_inv P Q m \<longleftrightarrow> (\<forall>w. P w \<longrightarrow> (case m w of (Inl e, w') \<Rightarrow> P w' | (Inr x, w') \<Rightarrow> Q w'))"

named_theorems io_rules

lemma io_inv_bind [io_rules]:
  assumes "io_inv P P m" "\<And>x. io_inv P Q (f x)"
  shows "io_inv P Q (io_bind m f)"
  unfolding io_inv_def
proof (intro allI impI)
  fix w
  assume w: "P w"
  obtain r w1 where m: "m w = (r, w1)" by (cases "m w")
  show "case io_bind m f w of (Inl e, w') \<Rightarrow> P w' | (Inr x, w') \<Rightarrow> Q w'"
  proof (cases r)
    case (Inl e)
    then show ?thesis using assms(1) w m by (auto simp: io_inv_def io_bind_def split: sum.splits)
  next
    case (Inr x)
    then have "P w1" using assms(1) w m by (auto simp: io_inv_def split: prod.splits sum.splits)
    then show ?thesis using assms(2) [of x] m Inr by (simp add: io_inv_def io_bind_def)
  qed
qed

lemma io_inv_return [io_rules]: "io_inv P P (io_return x)"
  by (simp add: io_inv_def io_return_def)

lemma io_inv_fail [io_rules]: "io_inv P Q (io_fail e)"
  by (simp add: io_inv_def io_fail_def)

lemma io_inv_when [io_rules]: "io_inv P P m \<Longrightarrow> io_inv P P (io_when b m)"
  by (simp add: io_when_def io_inv_return)

lemma io_inv_slot_duration [io_rules]: "io_inv P P (slot_duration N)"
  by (auto simp: io_inv_def slot_duration_def split: sum.splits)

text \<open>
  What holds of a world while the node is set up: every call keeps it, and every action but the start
  of the network. Of the tasks, only telemetry is not essential.
\<close>

locale node_setup =
  fixes N :: "'w node_env" and P :: "'w \<Rightarrow> bool"
  assumes calls: "P w \<Longrightarrow> P (snd (ne_call N c w))"
    and actions: "P w \<Longrightarrow> a \<noteq> StartNetwork \<Longrightarrow> (\<And>t. a = SpawnTask t \<Longrightarrow> nt_essential t \<or> t = telemetry_task) \<Longrightarrow> P (ne_do N a w)"
begin

lemma io_inv_call: "io_inv P P (io_call N c)"
  using calls by (auto simp: io_inv_def io_call_def split: prod.splits option.splits) (metis snd_conv)+

lemma io_inv_do:
  "a \<noteq> StartNetwork \<Longrightarrow> (\<And>t. a = SpawnTask t \<Longrightarrow> nt_essential t \<or> t = telemetry_task) \<Longrightarrow> io_inv P P (io_do N a)"
  by (simp add: io_inv_def io_do_def actions)

lemma io_inv_essential: "io_inv P P (io_do N (essential_task name grp blocking f))"
  by (rule io_inv_do) (simp_all add: essential_task_def)

lemmas setup_rules = io_rules io_inv_call io_inv_essential

lemma new_partial_keeps: "io_inv P P (new_partial F N config cli)"
  by (auto simp: new_partial_def open_frontier_backend_def Let_def intro!: setup_rules io_inv_do
      split: consensus.splits option.splits)

lemma spawn_frontier_tasks_keeps: "io_inv P P (spawn_frontier_tasks N cli pcs)"
  by (auto simp: spawn_frontier_tasks_def intro!: setup_rules)

lemma start_manual_seal_keeps: "io_inv P P (start_manual_seal N config cli sealing)"
  by (auto simp: start_manual_seal_def intro!: setup_rules io_inv_do split: sealing.splits)

lemma start_aura_grandpa_keeps: "io_inv P P (start_aura_grandpa N config cli name)"
  by (auto simp: start_aura_grandpa_def Let_def intro!: setup_rules io_inv_do)

lemma genesis_keeps: "io_inv P P (\<lambda>w. case ne_genesis_hash N w of None \<Rightarrow> (Inl Service_Panicked, w) | Some h \<Rightarrow> (Inr h, w))"
  by (auto simp: io_inv_def split: option.splits)

lemma start_network: "io_inv P (\<lambda>w'. \<exists>w. P w \<and> w' = ne_do N StartNetwork w) (io_do N StartNetwork)"
  by (auto simp: io_inv_def io_do_def)

text \<open>The network starts last, and not at all when something has failed.\<close>

lemma new_full_network:
  "io_inv P (\<lambda>w'. \<exists>w. P w \<and> w' = ne_do N StartNetwork w) (new_full F N config cli)"
  unfolding new_full_def Let_def remote_keystore_def
  by (auto intro!: io_rules new_partial_keeps genesis_keeps start_network io_inv_call io_inv_do spawn_frontier_tasks_keeps
      start_manual_seal_keeps start_aura_grandpa_keeps split: option.splits sum.splits consensus_result.splits)

lemma new_full_cases:
  assumes "P w" "new_full F N config cli w = (r, w')"
  shows "(\<exists>e. r = Inl e \<and> P w') \<or> (\<exists>w1. r = Inr () \<and> P w1 \<and> w' = ne_do N StartNetwork w1)"
  using new_full_network [of F config cli] assms by (cases r) (auto simp: io_inv_def)

end

section \<open>The calls of a node, in order\<close>

text \<open>
  A world that records what is called. \<open>answer\<close> says which calls fail, also depending on what has been
  called before.
\<close>

datatype node_event = Called node_call | Did node_action

definition trace_env ::
  "(node_event list \<Rightarrow> node_call \<Rightarrow> string option) \<Rightarrow> (node_event list \<Rightarrow> string + u64) \<Rightarrow> u256 option
     \<Rightarrow> (u256 \<Rightarrow> string \<Rightarrow> string) \<Rightarrow> node_event list node_env" where
  "trace_env answer slot genesis protocol =
     \<lparr>ne_call = (\<lambda>c w. (answer w c, w @ [Called c])), ne_do = (\<lambda>a w. w @ [Did a]), ne_slot_duration = slot,
      ne_genesis_hash = (\<lambda>w. genesis), ne_config_dir = (\<lambda>base chain. base @ [''chains'', chain]),
      ne_from_project = (\<lambda>qualifier organization application. [application]), ne_protocol_name = protocol\<rparr>"

definition spawned :: "node_event list \<Rightarrow> node_task list" where
  "spawned w = List.map_filter (\<lambda>e. case e of Did (SpawnTask t) \<Rightarrow> Some t | _ \<Rightarrow> None) w"

lemma spawned_simps [simp]:
  "spawned [] = []"
  "spawned (Called c # w) = spawned w"
  "spawned (Did a # w) = (case a of SpawnTask t \<Rightarrow> t # spawned w | _ \<Rightarrow> spawned w)"
  "spawned (w @ w') = spawned w @ spawned w'"
  by (simp_all add: spawned_def List.map_filter_def split: node_action.splits)

interpretation tr_net: node_setup "trace_env answer slot genesis protocol" "\<lambda>w. Did StartNetwork \<notin> set w"
  for answer slot genesis protocol
  by unfold_locales (simp_all add: trace_env_def)

interpretation tr_task: node_setup "trace_env answer slot genesis protocol"
  "\<lambda>w. \<forall>t \<in> set (spawned w). nt_essential t \<or> t = telemetry_task"
  for answer slot genesis protocol
  by unfold_locales (auto simp: trace_env_def split: node_action.splits)

text \<open>The network is started once, as the last thing a node does, and never when an earlier call has failed.\<close>

theorem network_starts_last:
  assumes "new_full F (trace_env answer slot genesis protocol) config cli [] = (r, w)"
  shows "(\<exists>e. r = Inl e \<and> Did StartNetwork \<notin> set w) \<or>
    (\<exists>w1. r = Inr () \<and> w = w1 @ [Did StartNetwork] \<and> Did StartNetwork \<notin> set w1)"
  using tr_net.new_full_cases [of "[]" F answer slot genesis protocol config cli r w] assms by (auto simp: trace_env_def)

text \<open>Every task but telemetry is essential: when one of them ends, the node shuts down.\<close>

theorem tasks_essential:
  assumes "new_full F (trace_env answer slot genesis protocol) config cli [] = (r, w)" "t \<in> set (spawned w)"
  shows "nt_essential t \<or> t = telemetry_task"
  using tr_task.new_full_cases [of "[]" F answer slot genesis protocol config cli r w] assms by (auto simp: trace_env_def)

text \<open>
  A remote keystore is refused before anything is called, so the code for one in \<open>new_full\<close> is never reached.
\<close>

theorem remote_keystore_refused:
  assumes "cf_keystore_remote config = Some url"
  shows "new_full F N config cli w = (Inl (Service_Other ''Remote Keystores are not supported.''), w)"
  using assms by (simp add: new_full_def new_partial_def io_bind_def io_fail_def)

section \<open>The tasks of a node\<close>























text \<open>\<open>io_ok m\<close>: \<open>m\<close> succeeds.\<close>

definition io_ok :: "('w, 'a) node_io \<Rightarrow> bool" where
  "io_ok m \<longleftrightarrow> (\<forall>w. \<exists>x. fst (m w) = Inr x)"

named_theorems ok_rules

lemma io_ok_bind [ok_rules]:
  assumes "io_ok m" "\<And>x. io_ok (f x)"
  shows "io_ok (io_bind m f)"
  unfolding io_ok_def
proof
  fix w
  obtain x w1 where "m w = (Inr x, w1)" using assms(1) by (metis io_ok_def prod.collapse)
  then show "\<exists>y. fst (io_bind m f w) = Inr y" using assms(2) [of x] by (simp add: io_ok_def io_bind_def)
qed

lemma io_ok_return [ok_rules]: "io_ok (io_return x)"
  by (simp add: io_ok_def io_return_def)

lemma io_ok_when [ok_rules]: "io_ok m \<Longrightarrow> io_ok (io_when b m)"
  by (simp add: io_when_def io_ok_return)

lemma io_ok_do [ok_rules]: "io_ok (io_do N a)"
  by (simp add: io_ok_def io_do_def)

text \<open>
  A node starts, with these tasks, whenever nothing it calls fails, its database is not a custom one
  and its keys are local.
\<close>

theorem node_starts:
  assumes calls: "\<And>c w. fst (ne_call N c w) = None" and slot: "\<And>w. \<not> isl (ne_slot_duration N w)"
    and genesis: "\<And>w. ne_genesis_hash N w \<noteq> None"
    and config: "cf_database config \<noteq> CustomDb" "cf_keystore_remote config = None"
  shows "fst (new_full F N config cli w) = Inr ()"
proof -
  have call: "io_ok (io_call N c)" for c
    using calls by (auto simp: io_ok_def io_call_def split: prod.splits option.splits) (metis fst_conv option.distinct(1))
  have slots: "io_ok (slot_duration N)"
    using slot by (auto simp: io_ok_def slot_duration_def split: sum.splits) (metis isl_def)
  have hash: "io_ok (\<lambda>w. case ne_genesis_hash N w of None \<Rightarrow> (Inl Service_Panicked, w) | Some h \<Rightarrow> (Inr h, w))"
    using genesis by (auto simp: io_ok_def split: option.splits)
  have parts_ok: "io_ok (new_partial F N config cli)"
    using config by (auto simp: new_partial_def open_frontier_backend_def frontier_source_def Let_def
        intro!: ok_rules call slots split: consensus.splits database_source.splits)
  have "io_ok (new_full F N config cli)"
    using config(2)
    by (auto simp: new_full_def Let_def spawn_frontier_tasks_def start_manual_seal_def start_aura_grandpa_def
        intro!: ok_rules parts_ok call slots hash split: consensus_result.splits sealing.splits)
  then show ?thesis by (cases "fst (new_full F N config cli w)") (auto simp: io_ok_def)
qed

section \<open>Modules of the RPC server\<close>

definition rpc_modules :: "full_deps \<Rightarrow> rpc_module list" where
  "rpc_modules deps =
     [SystemRpc (fd_deny_unsafe deps), TransactionPaymentRpc, ContractsRpc, ExchangeRpc,
      EthRpc (if fd_enable_dev_signer deps then [EthDevSigner] else []) (fd_overrides deps) (fd_is_authority deps)
        (fd_fee_history_limit deps)] @
     (if fd_filter_pool deps then [EthFilterRpc 500 (fd_max_past_logs deps)] else []) @
     [NetRpc True, Web3Rpc, EthPubSubRpc (fd_overrides deps)] @ (if fd_command_sink deps then [ManualSealRpc] else [])"

lemma create_full_modules: "create_full clash deps = Inr io \<Longrightarrow> io = rpc_modules deps"
  by (auto simp: create_full_def rpc_modules_def Let_def and_then_eq_Inr split: option.splits if_splits)

lemma create_full_no_clash: "(\<And>io m. clash io m = None) \<Longrightarrow> create_full clash deps = Inr (rpc_modules deps)"
  by (simp add: create_full_def rpc_modules_def Let_def)

text \<open>
  Keys of the development signer are served only when asked for. The commands of manual sealing are
  served by every node, one built with Aura too, where nothing receives them.
\<close>

theorem rpc_of_node:
  assumes "create_full clash (rpc_extensions_builder config cli pcs deny_unsafe) = Inr io"
  shows "ManualSealRpc \<in> set io"
    and "EthRpc signers overrides authority limit \<in> set io \<Longrightarrow>
      (signers \<noteq> [] \<longleftrightarrow> rc_enable_dev_signer cli) \<and> limit = rc_fee_history_limit cli"
  using create_full_modules [OF assms] by (auto simp: rpc_modules_def rpc_extensions_builder_def split: if_splits)

text \<open>Each schema of Ethereum's storage is read by its own override, an unknown one by the runtime.\<close>

lemma overrides_of_schemas:
  "map (\<lambda>s. case oh_schemas overrides_handle s of None \<Rightarrow> oh_fallback overrides_handle | Some x \<Rightarrow> x)
     [SchemaUndefined, SchemaV1, SchemaV2, SchemaV3] =
   [RuntimeApiStorageOverride, SchemaV1Override, SchemaV2Override, SchemaV3Override]"
  by (simp add: overrides_handle_def Let_def)

section \<open>Timestamps and databases\<close>

text \<open>Sealed blocks have the timestamps \<open>SLOT_DURATION\<close>, twice that, and so on: time passes by one slot for a block.\<close>

lemma mock_timestamp:
  "((\<lambda>(d, t). provide_inherent_data t d) ^^ n) (Map.empty, 0) =
     (if n = 0 then Map.empty else [INHERENT_IDENTIFIER \<mapsto> of_nat n * SLOT_DURATION], of_nat n * SLOT_DURATION)"
  by (induction n) (auto simp: provide_inherent_data_def Let_def algebra_simps)

lemma mock_timestamp_increases:
  assumes "m < n" "n * 6000 < 2 ^ 64"
  shows "of_nat m * SLOT_DURATION < of_nat n * SLOT_DURATION"
proof -
  have "unat (of_nat k * SLOT_DURATION) = k * 6000" if "k \<le> n" for k
    using that assms(2) by (simp add: SLOT_DURATION_def MILLISECS_PER_BLOCK_def unat_word_ariths unat_of_nat)
  then show ?thesis using assms by (simp add: word_less_nat_alt)
qed

text \<open>
  Chains with different ids have different databases of Frontier; the two kinds of databases of a
  chain do too.
\<close>

lemma frontier_databases_apart:
  assumes dirs: "\<And>base c d. ne_config_dir N base c = ne_config_dir N base d \<Longrightarrow> c = d"
    and base: "cf_base_path config = cf_base_path config'"
    and eq: "frontier_database_dir N config p = frontier_database_dir N config' q"
  shows "cf_chain_id config = cf_chain_id config' \<and> p = q"
  using eq base by (auto simp: frontier_database_dir_def Let_def dest!: dirs split: option.splits)

end
