(* ===== verification/NodeCommand.thy ===== *)
theory NodeCommand
  imports NodeService
begin

text \<open>
  The commands of the node (\<open>node/src/cli.rs\<close>, \<open>command.rs\<close>, \<open>command_helper.rs\<close>): which chain an id stands for,
  what each subcommand does, and the transactions that measure the overhead of a block. What a
  subcommand of Substrate does itself is a parameter (\<open>ce_run\<close>), on the same world as in \<open>NodeService\<close>.
\<close>

section \<open>Chains by name\<close>

definition load_spec :: "key_env \<Rightarrow> bytes option \<Rightarrow> (string \<Rightarrow> string + chain_spec) \<Rightarrow> string \<Rightarrow> string + chain_spec" where
  "load_spec K wasm from_json_file chain =
     (if chain = ''dev'' then Inr (development_config K wasm)
      else if chain = ''testnet'' then Inr (staging_testnet_config K wasm)
      else if chain = ''mainnet'' then Inl ''The mainnet is not yet available.''
      else from_json_file chain)"

section \<open>Subcommands\<close>

datatype benchmark_cmd = BenchPallet | BenchBlock | BenchStorage | BenchOverhead | BenchMachine

datatype subcommand =
    Key
  | BuildSpec
  | CheckBlock
  | ExportBlocks
  | ExportState
  | ImportBlocks
  | PurgeChain
  | RevertChain
  | Benchmark benchmark_cmd

record cli =
  cl_subcommand :: "subcommand option"
  cl_run :: run_cmd
  cl_no_hardware_benchmarks :: bool

text \<open>The commands of Substrate that are run, with what the node gives them besides its client and configuration.\<close>

datatype cmd_run =
    RunKey
  | RunBuildSpec string
  | RunCheckBlock
  | RunExportBlocks database_source
  | RunExportState string
  | RunImportBlocks
  | RunPurgeChain database_source
  | RunRevert
  | RunBenchPallet
  | RunBenchBlock
  | RunBenchStorage
  | RunBenchOverhead "(string \<rightharpoonup> u64)"
  | RunBenchMachine

record 'w command_env =
  ce_node :: "'w node_env"
  ce_create_runner :: "subcommand option \<Rightarrow> string + configuration"
  ce_run :: "cmd_run \<Rightarrow> 'w \<Rightarrow> string option \<times> 'w"
  ce_timestamp_provider :: "u64 \<Rightarrow> (string \<rightharpoonup> u64) \<Rightarrow> string + (string \<rightharpoonup> u64)"

definition cmd_run :: "'w command_env \<Rightarrow> cmd_run \<Rightarrow> ('w, unit) node_io" where
  "cmd_run C c w = (case ce_run C c w of (None, w) \<Rightarrow> (Inr (), w) | (Some e, w) \<Rightarrow> (Inl (Service_Failed e), w))"

definition create_runner :: "'w command_env \<Rightarrow> subcommand option \<Rightarrow> ('w, configuration) node_io" where
  "create_runner C cmd = (case ce_create_runner C cmd of Inl e \<Rightarrow> io_fail (Service_Failed e) | Inr config \<Rightarrow> io_return config)"

definition inherent_benchmark_data :: "'w command_env \<Rightarrow> ('w, string \<rightharpoonup> u64) node_io" where
  "inherent_benchmark_data C =
     (case ce_timestamp_provider C 0 Map.empty of
        Inl e \<Rightarrow> io_fail (Service_Failed (''creating inherent data: '' @ e))
      | Inr inherent_data \<Rightarrow> io_return inherent_data)"

text \<open>\<open>B\<close>: the node is built with the feature \<open>runtime-benchmarks\<close>.\<close>

definition benchmark_run :: "bool \<Rightarrow> 'w command_env \<Rightarrow> benchmark_cmd \<Rightarrow> ('w, unit) node_io" where
  "benchmark_run B C cmd =
     (case cmd of
        BenchPallet \<Rightarrow>
          if \<not> B then io_fail (Service_Failed
            (''Runtime benchmarking wasn't enabled when building the node. '' @
             ''You can enable it with `--features runtime-benchmarks`.''))
          else cmd_run C RunBenchPallet
      | BenchBlock \<Rightarrow> cmd_run C RunBenchBlock
      | BenchStorage \<Rightarrow> cmd_run C RunBenchStorage
      | BenchOverhead \<Rightarrow> io_bind (inherent_benchmark_data C) (\<lambda>data. cmd_run C (RunBenchOverhead data))
      | BenchMachine \<Rightarrow> cmd_run C RunBenchMachine)"

definition purge_run :: "'w command_env \<Rightarrow> configuration \<Rightarrow> ('w, unit) node_io" where
  "purge_run C config =
     (let frontier_database_config = RocksDb (frontier_database_dir (ce_node C) config ''db'') 0 in
      io_bind (cmd_run C (RunPurgeChain frontier_database_config)) (\<lambda>_.
      cmd_run C (RunPurgeChain (cf_database config))))"

definition run :: "consensus \<Rightarrow> bool \<Rightarrow> 'w command_env \<Rightarrow> cli \<Rightarrow> ('w, unit) node_io" where
  "run F B C cli =
     (let partial = (\<lambda>config. new_partial F (ce_node C) config (cl_run cli)) in
      case cl_subcommand cli of
        Some Key \<Rightarrow> cmd_run C RunKey
      | Some BuildSpec \<Rightarrow>
          io_bind (create_runner C (Some BuildSpec)) (\<lambda>config. cmd_run C (RunBuildSpec (cf_chain_id config)))
      | Some CheckBlock \<Rightarrow>
          io_bind (create_runner C (Some CheckBlock)) (\<lambda>config.
          io_bind (partial config) (\<lambda>_. cmd_run C RunCheckBlock))
      | Some ExportBlocks \<Rightarrow>
          io_bind (create_runner C (Some ExportBlocks)) (\<lambda>config.
          io_bind (partial config) (\<lambda>_. cmd_run C (RunExportBlocks (cf_database config))))
      | Some ExportState \<Rightarrow>
          io_bind (create_runner C (Some ExportState)) (\<lambda>config.
          io_bind (partial config) (\<lambda>_. cmd_run C (RunExportState (cf_chain_id config))))
      | Some ImportBlocks \<Rightarrow>
          io_bind (create_runner C (Some ImportBlocks)) (\<lambda>config.
          io_bind (partial config) (\<lambda>_. cmd_run C RunImportBlocks))
      | Some PurgeChain \<Rightarrow>
          io_bind (create_runner C (Some PurgeChain)) (\<lambda>config. purge_run C config)
      | Some RevertChain \<Rightarrow>
          io_bind (create_runner C (Some RevertChain)) (\<lambda>config.
          io_bind (partial config) (\<lambda>_. cmd_run C RunRevert))
      | Some (Benchmark cmd) \<Rightarrow>
          io_bind (create_runner C (Some (Benchmark cmd))) (\<lambda>config.
          io_bind (partial config) (\<lambda>_. benchmark_run B C cmd))
      | None \<Rightarrow>
          io_bind (create_runner C None) (\<lambda>config. new_full F (ce_node C) config (cl_run cli)))"

section \<open>Transactions for benchmarks\<close>

text \<open>The version of the runtime and how many blocks' hashes it keeps.\<close>

record runtime_version =
  rv_spec_name :: string
  rv_impl_name :: string
  rv_authoring_version :: u32
  rv_spec_version :: u32
  rv_impl_version :: u32
  rv_transaction_version :: u32
  rv_state_version :: u8

definition VERSION :: runtime_version where
  "VERSION =
     \<lparr>rv_spec_name = ''web3games-node'', rv_impl_name = ''web3games-node'', rv_authoring_version = 1,
      rv_spec_version = 2, rv_impl_version = 1, rv_transaction_version = 1, rv_state_version = 1\<rparr>"

definition BlockHashCount :: u32 where "BlockHashCount = 2400"

text \<open>The least power of two that is not less, when there is one of 32 bits.\<close>

function next_power_from :: "nat \<Rightarrow> nat \<Rightarrow> nat" where
  "next_power_from n p = (if p = 0 \<or> n \<le> p then p else next_power_from n (2 * p))"
  by pat_completeness auto
termination by (relation "measure (\<lambda>(n, p). n - p)") auto

declare next_power_from.simps [simp del]

definition checked_next_power_of_two :: "u32 \<Rightarrow> u32 option" where
  "checked_next_power_of_two n =
     (let p = next_power_from (unat n) 1 in if p < 2 ^ 32 then Some (of_nat p) else None)"

definition benchmark_period :: "u32 \<Rightarrow> u64" where
  "benchmark_period block_hash_count =
     ucast (case map_option (\<lambda>c. c div 2) (checked_next_power_of_two block_hash_count) of None \<Rightarrow> 2 | Some c \<Rightarrow> c)"

record bench_client =
  bc_genesis_hash :: "u256 option"
  bc_best_hash :: u256
  bc_best_number :: u32

record 'era signed_extra =
  sx_era :: 'era
  sx_nonce :: u32
  sx_tip :: u128

text \<open>What is signed besides the call and the extra: versions and hashes.\<close>

type_synonym additional_signed = "u32 \<times> u32 \<times> u256 \<times> u256"

record ('call, 'era) signed_extrinsic =
  se_call :: 'call
  se_address :: account
  se_signature :: bytes
  se_extra :: "'era signed_extra"

text \<open>\<open>mortal\<close> is \<open>Era::mortal\<close>; a key pair is its account and how it signs a payload, which \<open>encode\<close> writes.\<close>

definition create_benchmark_extrinsic ::
  "(u64 \<Rightarrow> u64 \<Rightarrow> 'era) \<Rightarrow> ('call \<times> 'era signed_extra \<times> additional_signed \<Rightarrow> bytes) \<Rightarrow> bench_client
     \<Rightarrow> account \<times> (bytes \<Rightarrow> bytes) \<Rightarrow> 'call \<Rightarrow> u32 \<Rightarrow> ('call, 'era) signed_extrinsic dispatch" where
  "create_benchmark_extrinsic mortal encode client sender call nonce =
     and_then (expect (bc_genesis_hash client)) (\<lambda>genesis_hash.
     let best_hash = bc_best_hash client;
         best_block = bc_best_number client;
         period = benchmark_period BlockHashCount;
         extra = \<lparr>sx_era = mortal period (ucast best_block), sx_nonce = nonce, sx_tip = 0\<rparr>;
         raw_payload =
           (call, extra, (rv_spec_version VERSION, rv_transaction_version VERSION, genesis_hash, best_hash));
         signature = snd sender (encode raw_payload) in
     Inr \<lparr>se_call = call, se_address = fst sender, se_signature = signature, se_extra = extra\<rparr>)"

datatype system_call = Remark bytes

definition bench_remark ::
  "(u64 \<Rightarrow> u64 \<Rightarrow> 'era) \<Rightarrow> (system_call \<times> 'era signed_extra \<times> additional_signed \<Rightarrow> bytes) \<Rightarrow> account \<times> (bytes \<Rightarrow> bytes)
     \<Rightarrow> bench_client \<Rightarrow> u32 \<Rightarrow> (system_call, 'era) signed_extrinsic dispatch" where
  "bench_remark mortal encode bob client nonce = create_benchmark_extrinsic mortal encode client bob (Remark []) nonce"

section \<open>Which chain is loaded\<close>

text \<open>
  The name of the production chain is refused, whatever files there are; the specifications built
  in have the ids of the development chain and of the test network.
\<close>

theorem load_spec_ids:
  "load_spec K wasm from_json_file ''mainnet'' = Inl ''The mainnet is not yet available.''"
  "load_spec K wasm from_json_file chain = Inr spec \<Longrightarrow> from_json_file chain = Inr spec \<or>
     (chain, cs_id spec, cs_type spec) \<in> {(''dev'', ''web3games_dev'', Development), (''testnet'', ''web3games_testnet'', Live)}"
  by (auto simp: load_spec_def development_config_def staging_testnet_config_def split: if_splits)

section \<open>What subcommands start\<close>

text \<open>
  A subcommand sets up the parts of a node at most: what every setup step and the command itself keep
  holds afterwards. In particular no subcommand starts the network.
\<close>

lemma io_invD: "io_inv P P m \<Longrightarrow> P w \<Longrightarrow> m w = (r, w') \<Longrightarrow> P w'"
  by (cases r) (fastforce simp: io_inv_def)+

lemma cmd_run_keeps: "(\<And>w. P w \<Longrightarrow> P (snd (ce_run C c w))) \<Longrightarrow> io_inv P P (cmd_run C c)"
  by (auto simp: io_inv_def cmd_run_def split: prod.splits option.splits) (metis snd_conv)+

lemma create_runner_keeps: "io_inv P P (create_runner C c)"
  by (simp add: create_runner_def io_inv_fail io_inv_return split: sum.splits)

lemma inherent_data_keeps: "io_inv P P (inherent_benchmark_data C)"
  by (simp add: inherent_benchmark_data_def io_inv_fail io_inv_return split: sum.splits)

lemma run_keeps:
  assumes partial: "\<And>config. io_inv P P (new_partial F (ce_node C) config (cl_run cli))"
    and commands: "\<And>c w. P w \<Longrightarrow> P (snd (ce_run C c w))" and sub: "cl_subcommand cli = Some s"
  shows "io_inv P P (run F B C cli)"
  using sub
  by (cases s) (auto simp: run_def purge_run_def benchmark_run_def Let_def intro!: io_inv_bind io_inv_fail create_runner_keeps
      partial cmd_run_keeps commands inherent_data_keeps split: benchmark_cmd.splits)

theorem subcommands_start_no_network:
  assumes node: "ce_node C = trace_env answer slot genesis protocol" and sub: "cl_subcommand cli \<noteq> None"
    and commands: "\<And>c w. snd (ce_run C c w) = w"
    and run: "run F B C cli [] = (r, w)"
  shows "Did StartNetwork \<notin> set w"
proof -
  from sub obtain s where "cl_subcommand cli = Some s" by blast
  then have "io_inv (\<lambda>w. Did StartNetwork \<notin> set w) (\<lambda>w. Did StartNetwork \<notin> set w) (run F B C cli)"
    using node commands by (intro run_keeps) (simp_all add: tr_net.new_partial_keeps)
  from io_invD [OF this _ run] show ?thesis by simp
qed

section \<open>Purging a chain\<close>

text \<open>The directories of a database.\<close>

fun source_paths :: "database_source \<Rightarrow> path list" where
  "source_paths (RocksDb p c) = [p]"
| "source_paths (ParityDb p) = [p]"
| "source_paths (AutoDb p q c) = [p, q]"
| "source_paths CustomDb = []"

definition inside :: "path \<Rightarrow> database_source \<Rightarrow> bool" where
  "inside p source \<longleftrightarrow> (\<exists>d \<in> set (source_paths source). \<exists>q. p = d @ q)"

text \<open>
  Purging removes the database of Frontier only where it is a RocksDb: with ParityDb, what is in
  Frontier's database stays, though the chain that it describes is gone. The world is a file system; the
  hypothesis is that purging a database leaves alone what is outside of its directories.
\<close>

theorem purge_leaves_frontier_paritydb:
  fixes C :: "(path \<Rightarrow> 'file option) command_env"
  assumes local: "\<And>source w p. \<not> inside p source \<Longrightarrow> snd (ce_run C (RunPurgeChain source) w) p = w p"
    and db: "cf_database config = ParityDb d"
    and apart: "\<not> inside (frontier_database_dir (ce_node C) config ''paritydb'' @ file) (ParityDb d)"
  shows "frontier_source (ce_node C) config = Some (ParityDb (frontier_database_dir (ce_node C) config ''paritydb''))"
    and "snd (purge_run C config w) (frontier_database_dir (ce_node C) config ''paritydb'' @ file) =
      w (frontier_database_dir (ce_node C) config ''paritydb'' @ file)"
proof -
  let ?p = "frontier_database_dir (ce_node C) config ''paritydb'' @ file"
  show "frontier_source (ce_node C) config = Some (ParityDb (frontier_database_dir (ce_node C) config ''paritydb''))"
    using db by (simp add: frontier_source_def)
  have "\<not> inside ?p (RocksDb (frontier_database_dir (ce_node C) config ''db'') 0)"
    by (simp add: inside_def frontier_database_dir_def Let_def)
  then have step: "snd (cmd_run C (RunPurgeChain (RocksDb (frontier_database_dir (ce_node C) config ''db'') 0)) w) ?p = w ?p"
    for w using local [of ?p] by (auto simp: cmd_run_def split: prod.splits option.splits) (metis snd_conv)+
  have last: "snd (cmd_run C (RunPurgeChain (ParityDb d)) w) ?p = w ?p" for w
    using local [OF apart] by (auto simp: cmd_run_def split: prod.splits option.splits) (metis snd_conv)+
  show "snd (purge_run C config w) ?p = w ?p"
    using step [of w] last db by (auto simp: purge_run_def io_bind_def Let_def split: prod.splits sum.splits)
qed

text \<open>Opened with RocksDb, the database of Frontier is the one that is purged.\<close>

lemma purge_matches_rocksdb:
  "cf_database config = RocksDb d c \<Longrightarrow>
    frontier_source N config = Some (RocksDb (frontier_database_dir N config ''db'') 0)"
  by (simp add: frontier_source_def)

section \<open>Lifetime of benchmark transactions\<close>

lemma next_power_from_power:
  assumes "p = 2 ^ i"
  shows "\<exists>j. next_power_from n p = 2 ^ j \<and> n \<le> 2 ^ j \<and> (2 ^ j = p \<or> 2 ^ j < 2 * n)"
  using assms
proof (induction n p arbitrary: i rule: next_power_from.induct)
  case (1 n p)
  show ?case
  proof (cases "n \<le> p")
    case True
    then have "next_power_from n p = p" by (subst next_power_from.simps) simp
    with True 1(2) show ?thesis by (intro exI [of _ i]) simp
  next
    case False
    have step: "next_power_from n p = next_power_from n (2 * p)"
      using False 1(2) by (subst next_power_from.simps) simp
    obtain j where j: "next_power_from n (2 * p) = 2 ^ j" "n \<le> 2 ^ j" "2 ^ j = 2 * p \<or> 2 ^ j < 2 * n"
      using 1(1) [of "Suc i"] False 1(2) by auto
    then show ?thesis using step False by (intro exI [of _ j]) auto
  qed
qed

lemma next_power_of_two:
  assumes "checked_next_power_of_two n = Some p" "n > 0"
  shows "\<exists>j. unat p = 2 ^ j \<and> unat n \<le> 2 ^ j \<and> 2 ^ j < 2 * unat n"
proof -
  have pos: "0 < unat n" using assms(2) by (simp add: word_less_nat_alt)
  obtain j where j: "next_power_from (unat n) 1 = 2 ^ j" "unat n \<le> 2 ^ j" "(2::nat) ^ j = 1 \<or> 2 ^ j < 2 * unat n"
    using next_power_from_power [of 1 0 "unat n"] by (metis power_0)
  from assms(1) have "unat p = next_power_from (unat n) 1"
    by (auto simp del: One_nat_def simp: checked_next_power_of_two_def Let_def unat_of_nat_less split: if_splits)
  then have "unat p = 2 ^ j" using j(1) by simp
  with j pos show ?thesis by (intro exI [of _ j]) auto
qed

text \<open>
  A benchmark transaction lives for 2048 blocks, a power of two as mortal eras require and less
  than the number of blocks whose hashes are kept, so the hash it names can be looked up as long as it lives.
\<close>

lemma benchmark_period_value: "benchmark_period BlockHashCount = 2048"
  by (simp add: benchmark_period_def checked_next_power_of_two_def BlockHashCount_def next_power_from.simps Let_def)

lemma benchmark_period_kept:
  assumes "checked_next_power_of_two n = Some p" "n > 1"
  shows "unat (benchmark_period n) < unat n \<and> (\<exists>j. unat (benchmark_period n) = 2 ^ j)"
proof -
  have n: "1 < unat n" using assms(2) by (simp add: word_less_nat_alt)
  have "n > 0" using n by (simp add: word_less_nat_alt)
  from next_power_of_two [OF assms(1) this] obtain j where
    j: "unat p = 2 ^ j" "unat n \<le> 2 ^ j" "2 ^ j < 2 * unat n" by blast
  obtain i where i: "j = Suc i" using j(2) n by (cases j) auto
  have "unat (benchmark_period n) = unat (p div 2)"
    using u32_bound [of "p div 2"] by (simp add: benchmark_period_def assms(1) unsigned_ucast_eq take_bit_nat_eq_self)
  also have "\<dots> = 2 ^ i" using j(1) i by (simp add: unat_div)
  finally show ?thesis using j(3) i by auto
qed

text \<open>The signature covers the call, the options and the versions and hashes that the runtime checks.\<close>

theorem benchmark_extrinsic_signed:
  assumes "create_benchmark_extrinsic mortal encode client (who, sign) call nonce = Inr x"
  shows "\<exists>genesis_hash. bc_genesis_hash client = Some genesis_hash \<and>
    se_signature x = sign (encode (se_call x, se_extra x, (2, 1, genesis_hash, bc_best_hash client))) \<and>
    se_call x = call \<and> se_address x = who \<and> sx_nonce (se_extra x) = nonce \<and> sx_tip (se_extra x) = 0 \<and>
    sx_era (se_extra x) = mortal 2048 (ucast (bc_best_number client))"
  using assms
  by (auto simp: create_benchmark_extrinsic_def expect_def Let_def VERSION_def and_then_eq_Inr benchmark_period_value
      split: option.splits)

end
