(* ===== verification/RuntimeApis.thy ===== *)
theory RuntimeApis
  imports RuntimeConfig PrecompileTokens
begin

text \<open>
  What the runtime offers to the node and to other crates: the traits of \<open>pallets/support/src/lib.rs\<close> as
  interfaces with the laws their users rely on, and the runtime API of \<open>runtime/web3games/src/lib.rs\<close> that
  serves Ethereum, ink contracts, Grandpa and benchmarks. The EVM and the contracts pallet are parameters.
\<close>

section \<open>Traits of the support crate\<close>

text \<open>
  \<open>TokenIdConversion\<close>: the address of a token whose id has 32 bits leads back to the id.
\<close>

locale token_id_conversion =
  fixes try_from :: "h160 \<Rightarrow> u128 option" and into :: "u128 \<Rightarrow> h160"
  assumes returns: "unat tid < 2 ^ 32 \<Longrightarrow> try_from (into tid) = Some tid"
begin

lemma into_injective: "unat tid < 2 ^ 32 \<Longrightarrow> unat tid' < 2 ^ 32 \<Longrightarrow> into tid = into tid' \<Longrightarrow> tid = tid'"
  using returns by (metis option.inject)

lemma registry_lookup:
  assumes "\<And>tid. tid \<in> S \<Longrightarrow> unat tid < 2 ^ 32"
  shows "{tid. \<exists>a \<in> into ` S. try_from a = Some tid} = S"
  using assms returns by force

end

text \<open>
  Two kinds of tokens at one set of addresses: the address of a token of one kind is no address of the
  other.
\<close>

locale two_token_kinds = a: token_id_conversion try_a into_a + b: token_id_conversion try_b into_b
  for try_a :: "h160 \<Rightarrow> u128 option" and into_a :: "u128 \<Rightarrow> h160" and try_b :: "h160 \<Rightarrow> u128 option" and into_b :: "u128 \<Rightarrow> h160" +
  assumes apart: "try_b (into_a tid) = None" "try_a (into_b tid) = None"
begin

lemma kinds_disjoint: "range into_a \<inter> into_b ` {tid. unat tid < 2 ^ 32} = {}"
proof -
  have "into_a t \<noteq> into_b u" if "unat u < 2 ^ 32" for t u
    using apart(1) [of t] b.returns [OF that] by auto
  then show ?thesis by auto
qed

end

lemma conversion_small: "unat (tid :: u128) < 2 ^ 32 \<Longrightarrow> (of_nat (unat tid mod 2 ^ 32) :: u128) = tid"
  by (rule of_nat_mod_eq [THEN iffD2])

interpretation ft_id: token_id_conversion ft_try_from_address ft_into_address
  by unfold_locales (simp add: conversion_defs try_from_into prefix_defs conversion_small)

interpretation nft_id: token_id_conversion nft_try_from_address nft_into_address
  by unfold_locales (simp add: conversion_defs try_from_into prefix_defs conversion_small)

interpretation mt_id: token_id_conversion mt_try_from_address mt_into_address
  by unfold_locales (simp add: conversion_defs try_from_into prefix_defs conversion_small)

interpretation ft_nft: two_token_kinds ft_try_from_address ft_into_address nft_try_from_address nft_into_address
  by unfold_locales (simp_all add: conversion_defs try_from_into prefix_defs)

interpretation ft_mt: two_token_kinds ft_try_from_address ft_into_address mt_try_from_address mt_into_address
  by unfold_locales (simp_all add: conversion_defs try_from_into prefix_defs)

interpretation nft_mt: two_token_kinds nft_try_from_address nft_into_address mt_try_from_address mt_into_address
  by unfold_locales (simp_all add: conversion_defs try_from_into prefix_defs)

lemma words_below: "(of_nat :: nat \<Rightarrow> u32) ` {..<unat n} = {..<n}" for n :: u32
proof
  show "(of_nat :: nat \<Rightarrow> u32) ` {..<unat n} \<subseteq> {..<n}"
    using u32_bound [of n] by (auto simp: word_less_nat_alt unat_of_nat_less)
  show "{..<n} \<subseteq> (of_nat :: nat \<Rightarrow> u32) ` {..<unat n}"
  proof
    fix x
    assume "x \<in> {..<n}"
    then show "x \<in> (of_nat :: nat \<Rightarrow> u32) ` {..<unat n}"
      by (intro image_eqI [of _ _ "unat x"]) (simp_all add: word_less_nat_alt)
  qed
qed

lemma words_inj: "inj_on (of_nat :: nat \<Rightarrow> u32) {..<unat n}" for n :: u32
proof (rule inj_onI)
  fix x y
  assume xy: "x \<in> {..<unat n}" "y \<in> {..<unat n}" "(of_nat x :: u32) = of_nat y"
  have "unat (of_nat x :: u32) = x" "unat (of_nat y :: u32) = y"
    using xy(1,2) u32_bound [of n] by (simp_all add: unat_of_nat_less)
  with xy(3) show "x = y" by metis
qed

text \<open>
  \<open>NonFungibleEnumerable\<close>: indices below the supply, and below the balance of an owner, number the
  tokens. A user can then list them all.
\<close>

locale non_fungible_enumerable =
  fixes ok :: "'s \<Rightarrow> bool" and tokens :: "u128 \<Rightarrow> 's \<Rightarrow> 't set" and total :: "u128 \<Rightarrow> 's \<Rightarrow> u32"
    and by_index :: "u128 \<Rightarrow> u32 \<Rightarrow> 's \<Rightarrow> 't" and balance :: "u128 \<Rightarrow> account \<Rightarrow> 's \<Rightarrow> u32"
    and owned :: "u128 \<Rightarrow> account \<Rightarrow> 's \<Rightarrow> 't set" and of_owner_by_index :: "u128 \<Rightarrow> account \<Rightarrow> u32 \<Rightarrow> 's \<Rightarrow> 't"
  assumes all: "ok s \<Longrightarrow> bij_betw (\<lambda>i. by_index tid i s) {..<total tid s} (tokens tid s)"
    and own: "ok s \<Longrightarrow> bij_betw (\<lambda>i. of_owner_by_index tid a i s) {..<balance tid a s} (owned tid a s)"
begin

lemma listing:
  assumes "bij_betw f {..<n :: u32} S"
  shows "distinct (map (\<lambda>i. f (of_nat i)) [0..<unat n])" and "set (map (\<lambda>i. f (of_nat i)) [0..<unat n]) = S"
proof -
  have "inj_on (f \<circ> of_nat) {..<unat n}"
    using assms words_inj words_below by (intro comp_inj_on) (auto simp: bij_betw_def)
  then show "distinct (map (\<lambda>i. f (of_nat i)) [0..<unat n])"
    by (simp add: distinct_map comp_def atLeast0LessThan)
  have "set (map (\<lambda>i. f (of_nat i)) [0..<unat n]) = f ` ((of_nat :: nat \<Rightarrow> u32) ` {..<unat n})"
    by (auto simp: image_image)
  with assms show "set (map (\<lambda>i. f (of_nat i)) [0..<unat n]) = S" by (simp add: words_below bij_betw_def)
qed

lemmas list_all_tokens = listing [OF all]
lemmas list_owned_tokens = listing [OF own]

lemma balance_is_count: "ok s \<Longrightarrow> card (owned tid a s) = unat (balance tid a s)"
  using list_owned_tokens [of s tid a] distinct_card by (metis length_map length_upt diff_zero)

end

interpretation nft_enum: non_fungible_enumerable nft_inv "\<lambda>tid s. {t. nft_token_exists tid t s}" nft_total_supply
  nft_token_by_index "\<lambda>tid a s. nft_balances s (tid, a)" "\<lambda>tid a s. {t. nft_owners s (tid, t) = Some a}"
  nft_token_of_owner_by_index
proof unfold_locales
  fix s tid a
  assume inv: "nft_inv s"
  show "bij_betw (\<lambda>i. nft_token_by_index tid i s) {..<nft_total_supply tid s} {t. nft_token_exists tid t s}"
    using nft_invD(1) [OF inv, of tid]
    by (auto simp: nft_all_ok_def nft_all_def nft_token_by_index_def nft_total_supply_def nft_token_exists_def
        intro: enumerates_bij)
  show "bij_betw (\<lambda>i. nft_token_of_owner_by_index tid a i s) {..<nft_balances s (tid, a)} {t. nft_owners s (tid, t) = Some a}"
    using nft_invD(4) [OF inv, of tid a]
    by (auto simp: nft_owned_ok_def nft_owned_def nft_token_of_owner_by_index_def intro: enumerates_bij)
qed

text \<open>What a wallet does: ask for the balance, then for the token at each index. It gets the tokens of the account.\<close>

theorem nft_wallet_lists_tokens:
  assumes "nft_inv s"
  shows "set (map (\<lambda>i. nft_token_of_owner_by_index tid a (of_nat i) s) [0..<unat (nft_balances s (tid, a))]) =
      {t. nft_owners s (tid, t) = Some a}"
    and "distinct (map (\<lambda>i. nft_token_of_owner_by_index tid a (of_nat i) s) [0..<unat (nft_balances s (tid, a))])"
  using nft_enum.list_owned_tokens [OF assms] by simp_all

section \<open>The runtime API for Ethereum\<close>

definition api_account_basic :: "(h160 \<Rightarrow> 'account \<times> u64) \<Rightarrow> h160 \<Rightarrow> 'account" where
  "api_account_basic account_basic address = (let (account, _) = account_basic address in account)"

definition api_gas_price :: u256 where
  "api_gas_price = (let (gas_price, _) = min_gas_price in gas_price)"

text \<open>\<open>to_big_endian\<close> and \<open>from_slice\<close>: the index of a slot as the hash with the same bytes.\<close>

definition api_storage_at :: "(h160 \<Rightarrow> u256 \<Rightarrow> u256) \<Rightarrow> h160 \<Rightarrow> u256 \<Rightarrow> u256" where
  "api_storage_at account_storages address slot_index =
     (let tmp = be_bytes 32 (unat slot_index) in account_storages address (of_nat (from_be tmp)))"

definition unique_saturated_into_u64 :: "u256 \<Rightarrow> u64" where
  "unique_saturated_into_u64 x = (if unat x < 2 ^ 64 then ucast x else - 1)"

text \<open>A configuration of the EVM, of which the flag \<open>estimate\<close> matters here.\<close>

record 'cfg evm_settings =
  es_estimate :: bool
  es_rest :: 'cfg

type_synonym access_list = "(h160 \<times> u256 list) list"

definition estimate_config :: "'cfg evm_settings \<Rightarrow> bool \<Rightarrow> 'cfg evm_settings" where
  "estimate_config runtime_config estimate =
     (let config = (if estimate then Some (runtime_config\<lparr>es_estimate := True\<rparr>) else None) in
      case config of None \<Rightarrow> runtime_config | Some config \<Rightarrow> config)"

text \<open>What the runner of the EVM is asked for; \<open>create\<close> has no target.\<close>

record 'cfg evm_request =
  rq_source :: h160
  rq_target :: "h160 option"
  rq_data :: bytes
  rq_value :: u256
  rq_gas_limit :: u64
  rq_max_fee_per_gas :: "u256 option"
  rq_max_priority_fee_per_gas :: "u256 option"
  rq_nonce :: "u256 option"
  rq_access_list :: access_list
  rq_is_transactional :: bool
  rq_validate :: bool
  rq_config :: "'cfg evm_settings"

definition api_call ::
  "('cfg evm_request \<Rightarrow> 'err + 'info) \<Rightarrow> ('err \<Rightarrow> 'dispatch_error) \<Rightarrow> 'cfg evm_settings
     \<Rightarrow> h160 \<Rightarrow> h160 \<Rightarrow> bytes \<Rightarrow> u256 \<Rightarrow> u256 \<Rightarrow> u256 option \<Rightarrow> u256 option \<Rightarrow> u256 option \<Rightarrow> bool \<Rightarrow> access_list option
     \<Rightarrow> 'dispatch_error + 'info" where
  "api_call runner_call err_into runtime_config from_address to_address data v gas_limit max_fee_per_gas
       max_priority_fee_per_gas nonce estimate access =
     (let is_transactional = False; validate = True; evm_config = estimate_config runtime_config estimate in
      case runner_call
        \<lparr>rq_source = from_address, rq_target = Some to_address, rq_data = data, rq_value = v,
         rq_gas_limit = unique_saturated_into_u64 gas_limit, rq_max_fee_per_gas = max_fee_per_gas,
         rq_max_priority_fee_per_gas = max_priority_fee_per_gas, rq_nonce = nonce,
         rq_access_list = (case access of None \<Rightarrow> [] | Some l \<Rightarrow> l), rq_is_transactional = is_transactional,
         rq_validate = validate, rq_config = evm_config\<rparr> of
        Inl err \<Rightarrow> Inl (err_into err)
      | Inr info \<Rightarrow> Inr info)"

definition api_create ::
  "('cfg evm_request \<Rightarrow> 'err + 'info) \<Rightarrow> ('err \<Rightarrow> 'dispatch_error) \<Rightarrow> 'cfg evm_settings
     \<Rightarrow> h160 \<Rightarrow> bytes \<Rightarrow> u256 \<Rightarrow> u256 \<Rightarrow> u256 option \<Rightarrow> u256 option \<Rightarrow> u256 option \<Rightarrow> bool \<Rightarrow> access_list option
     \<Rightarrow> 'dispatch_error + 'info" where
  "api_create runner_create err_into runtime_config from_address data v gas_limit max_fee_per_gas
       max_priority_fee_per_gas nonce estimate access =
     (let is_transactional = False; validate = True; evm_config = estimate_config runtime_config estimate in
      case runner_create
        \<lparr>rq_source = from_address, rq_target = None, rq_data = data, rq_value = v,
         rq_gas_limit = unique_saturated_into_u64 gas_limit, rq_max_fee_per_gas = max_fee_per_gas,
         rq_max_priority_fee_per_gas = max_priority_fee_per_gas, rq_nonce = nonce,
         rq_access_list = (case access of None \<Rightarrow> [] | Some l \<Rightarrow> l), rq_is_transactional = is_transactional,
         rq_validate = validate, rq_config = evm_config\<rparr> of
        Inl err \<Rightarrow> Inl (err_into err)
      | Inr info \<Rightarrow> Inr info)"

record ('block, 'receipt, 'status) ethereum_storage =
  eth_current_block :: "'block option"
  eth_current_receipts :: "'receipt list option"
  eth_current_statuses :: "'status list option"

definition api_current_all ::
  "('block, 'receipt, 'status) ethereum_storage \<Rightarrow> 'block option \<times> 'receipt list option \<times> 'status list option" where
  "api_current_all s = (eth_current_block s, eth_current_receipts s, eth_current_statuses s)"

definition api_elasticity :: "nat \<Rightarrow> nat option" where
  "api_elasticity base_fee_elasticity = Some base_fee_elasticity"

lemma unat_saturated: "unat (unique_saturated_into_u64 x) = min (unat x) (2 ^ 64 - 1)"
proof (cases "unat x < 2 ^ 64")
  case True
  then have "unat (ucast x :: u64) = unat x" by (simp add: unsigned_ucast_eq take_bit_nat_eq_self)
  with True show ?thesis by (simp add: unique_saturated_into_u64_def)
qed (simp add: unique_saturated_into_u64_def unat_minus_one)

text \<open>
  A call over RPC runs with as much gas as was asked for, up to what 64 bits hold; it is validated like a
  transaction, changes nothing (\<open>is_transactional\<close> is off), and the configuration is that of the
  runtime but for the flag for estimates, which is set when asked.
\<close>

theorem api_call_request:
  assumes "\<not> es_estimate runtime_config"
  shows "\<exists>rq. api_call runner_call err_into runtime_config a b data v gas fee tip nonce estimate access =
      map_sum err_into id (runner_call rq) \<and>
    unat (rq_gas_limit rq) = min (unat gas) (2 ^ 64 - 1) \<and> \<not> rq_is_transactional rq \<and> rq_validate rq \<and>
    rq_target rq = Some b \<and> (es_estimate (rq_config rq) \<longleftrightarrow> estimate) \<and>
    es_rest (rq_config rq) = es_rest runtime_config"
proof -
  have sum: "(case r of Inl e \<Rightarrow> Inl (err_into e) | Inr x \<Rightarrow> Inr x) = map_sum err_into id r" for r
    by (cases r) simp_all
  show ?thesis
    unfolding api_call_def Let_def sum
    by (rule exI, rule conjI, rule refl) (use assms in \<open>simp add: unat_saturated estimate_config_def\<close>)
qed

text \<open>Slots are read at the index that was asked for.\<close>

theorem api_storage_at_index: "api_storage_at account_storages address slot_index = account_storages address slot_index"
proof -
  have "from_be (be_bytes 32 (unat slot_index)) = unat slot_index"
    using unat_bound [of slot_index] by (simp add: from_be_be_bytes)
  then show ?thesis by (simp add: api_storage_at_def)
qed

lemma api_gas_price_value: "api_gas_price = 100000000000"
  by (simp add: api_gas_price_def min_gas_price_def GIGAWEI_def)

section \<open>Ink contracts and finality\<close>

record contract_request =
  cr_origin :: account
  cr_dest :: account
  cr_value :: u128
  cr_gas_limit :: u64
  cr_storage_deposit_limit :: "u128 option"
  cr_input_data :: bytes
  cr_debug :: bool

definition api_contracts_call ::
  "(contract_request \<Rightarrow> 'r) \<Rightarrow> account \<Rightarrow> account \<Rightarrow> u128 \<Rightarrow> u64 \<Rightarrow> u128 option \<Rightarrow> bytes \<Rightarrow> 'r" where
  "api_contracts_call bare_call orig dest v gas_limit storage_deposit_limit input_data =
     bare_call \<lparr>cr_origin = orig, cr_dest = dest, cr_value = v, cr_gas_limit = gas_limit,
       cr_storage_deposit_limit = storage_deposit_limit, cr_input_data = input_data, cr_debug = True\<rparr>"

text \<open>Equivocations are not reported: both functions have no result.\<close>

definition submit_report_equivocation_unsigned_extrinsic :: "'proof \<Rightarrow> 'owner \<Rightarrow> unit option" where
  "submit_report_equivocation_unsigned_extrinsic equivocation_proof key_owner_proof = None"

definition generate_key_ownership_proof :: "u64 \<Rightarrow> u256 \<Rightarrow> bytes option" where
  "generate_key_ownership_proof set_id authority_id = None"

section \<open>Benchmarks\<close>

definition benchmark_pallets :: "string list" where
  "benchmark_pallets =
     [''frame_system'', ''pallet_balances'', ''pallet_timestamp'', ''pallet_token_fungible'', ''pallet_token_multi'',
      ''pallet_token_non_fungible'', ''pallet_exchange'', ''pallet_farming'', ''pallet_launchpad'']"

text \<open>\<open>list_benchmark!\<close> lists the benchmarks of a pallet, \<open>add_benchmark!\<close> runs the requested one.\<close>

definition benchmark_metadata :: "(string \<Rightarrow> 'list) \<Rightarrow> 'info \<Rightarrow> 'list list \<times> 'info" where
  "benchmark_metadata benchmarks storage_info = (map benchmarks benchmark_pallets, storage_info)"

definition benchmark_whitelist :: "u256 list" where
  "benchmark_whitelist =
     [0x26aa394eea5630e07c48ae0c9558cef702a5c1b19ab7a04f536c519aca4983ac,
      0xc2261276cc9d1f8598ea4b6a74b15c2f57c875e4cff74148e4628f264b974c80,
      0x26aa394eea5630e07c48ae0c9558cef7ff553b5a9862a516939d82b3d3d8661a,
      0x26aa394eea5630e07c48ae0c9558cef70a98fdbe9ce6c55837576c60c7af3850,
      0x26aa394eea5630e07c48ae0c9558cef780d41e5e16056765bc8461851072c9d7]"

definition dispatch_benchmark :: "(u256 list \<Rightarrow> string \<Rightarrow> string + 'batch) \<Rightarrow> string \<Rightarrow> string + 'batch list" where
  "dispatch_benchmark run_benchmark pallet =
     and_then (fold (\<lambda>p batches.
         and_then batches (\<lambda>bs.
           if p = pallet then and_then (run_benchmark benchmark_whitelist p) (\<lambda>b. Inr (bs @ [b])) else Inr bs))
       benchmark_pallets (Inr []))
     (\<lambda>batches. if batches = [] then Inl ''Benchmark not found for this pallet.'' else Inr batches)"

text \<open>A benchmark is found exactly for the pallets that are listed; then its own result is the only one.\<close>

lemma fold_not_requested:
  "pallet \<notin> set ps \<Longrightarrow>
    fold (\<lambda>p batches. and_then batches (\<lambda>bs. if p = pallet then f p bs else Inr bs)) ps (Inr bs) = Inr bs"
  by (induction ps) auto

lemma fold_failed: "fold (\<lambda>p batches. and_then batches (g p)) ps (Inl e) = Inl e"
  by (induction ps) auto

theorem dispatch_benchmark_listed:
  "dispatch_benchmark run_benchmark pallet =
     (if pallet \<in> set benchmark_pallets then map_sum id (\<lambda>b. [b]) (run_benchmark benchmark_whitelist pallet)
      else Inl ''Benchmark not found for this pallet.'')"
proof (cases "pallet \<in> set benchmark_pallets")
  case False
  then show ?thesis unfolding dispatch_benchmark_def by (simp add: fold_not_requested)
next
  case True
  then obtain ps qs where split: "benchmark_pallets = ps @ pallet # qs" by (meson split_list)
  have "distinct (ps @ pallet # qs)" unfolding split [symmetric] by (simp add: benchmark_pallets_def)
  then have "pallet \<notin> set ps" "pallet \<notin> set qs" by auto
  then show ?thesis
    using True unfolding dispatch_benchmark_def split
    by (cases "run_benchmark benchmark_whitelist pallet") (simp_all add: fold_not_requested fold_failed)
qed

end
