(* ===== verification/Conformance.thy ===== *)
theory Conformance
  imports Benchmarks
begin

text \<open>
  Unit tests of the repository, run on the model. The tests of a pallet (\<open>tests.rs\<close>) are transcribed as lists of
  steps; that they pass shows that the definitions compute what the authors of the code expect of it: errors by
  name, balances to the unit, records field by field.
\<close>

section \<open>Tests\<close>

text \<open>
  \<open>assert_ok!\<close>, \<open>assert_noop!\<close> (this error, and nothing is written), \<open>assert_eq!\<close> and \<open>assert!\<close> on the state, and
  \<open>run_to_block\<close>.
\<close>

datatype 'w test_step =
    TestOk origin runtime_call
  | TestNoop origin runtime_call dispatch_error
  | TestThat "'w \<Rightarrow> bool"
  | RunToBlock u32

fun test_passes ::
  "'c currency \<Rightarrow> env \<Rightarrow> ex_params \<Rightarrow> 'c runtime_world test_step list \<Rightarrow> u32 \<Rightarrow> 'c runtime_world \<Rightarrow> bool" where
  "test_passes C E X [] n w = True"
| "test_passes C E X (TestOk orig c # ts) n w =
     (case rt_pallet_dispatch C (E\<lparr>env_now := n\<rparr>) X orig c w of Inl _ \<Rightarrow> False | Inr w \<Rightarrow> test_passes C E X ts n w)"
| "test_passes C E X (TestNoop orig c e # ts) n w =
     (rt_pallet_dispatch C (E\<lparr>env_now := n\<rparr>) X orig c w = Inl e \<and> test_passes C E X ts n w)"
| "test_passes C E X (TestThat P # ts) n w = (P w \<and> test_passes C E X ts n w)"
| "test_passes C E X (RunToBlock m # ts) n w = test_passes C E X ts m w"

text \<open>The mocks start without tokens; the accounts that tests use have native currency.\<close>

definition test_ext :: "(account \<Rightarrow> u128) runtime_world" where
  "test_ext = (rt_empty (\<lambda>a. if unat a < 10 then 10 ^ 30 else 0))"

section \<open>Farming\<close>

text \<open>ALICE, BOB and CHARLIE are 1, 2 and 3; W3G, USDT and USDC are the tokens 1, 2 and 3.\<close>

definition fa_test_setup :: "(account \<Rightarrow> u128) runtime_world test_step list" where
  "fa_test_setup =
     [TestOk (Signed 1) (RtTokenFungible (FtCreateToken 1 [87, 51, 71, 49] [87, 51, 71, 49] 18)),
      TestOk (Signed 1) (RtTokenFungible (FtCreateToken 2 [87, 51, 71, 50] [87, 51, 71, 50] 18)),
      TestOk (Signed 1) (RtTokenFungible (FtCreateToken 3 [87, 51, 71, 50] [87, 51, 71, 50] 18)),
      TestOk (Signed 1) (RtTokenFungible (FtMintCall 1 2 (100 * W3G_DECIMALS))),
      TestOk (Signed 1) (RtTokenFungible (FtMintCall 1 3 (100 * W3G_DECIMALS))),
      TestOk (Signed 1) (RtTokenFungible (FtMintCall 2 1 (100 * USDT_DECIMALS))),
      TestOk (Signed 1) (RtTokenFungible (FtMintCall 3 1 (100 * USDT_DECIMALS))),
      TestOk Root (RtFarming (FaSetAdmin 1))]"

definition fa_escrow :: account where "fa_escrow = fa_escrow_account_id rt_env_example 0"

definition fa_test_pool :: "u32 \<Rightarrow> u128 \<Rightarrow> fa_pool" where
  "fa_test_pool start locked =
     \<lparr>fa_escrow_account = fa_escrow, fa_start_at = start, fa_staking_duration = 10, fa_locked_duration = 10,
      fa_locked_token_id = 1, fa_award_token_id = 2, fa_total_locked = locked, fa_total_award = 10 * USDT_DECIMALS\<rparr>"

definition balance_is :: "u128 \<Rightarrow> account \<Rightarrow> u128 \<Rightarrow> (account \<Rightarrow> u128) runtime_world test_step" where
  "balance_is token a v = TestThat (\<lambda>w. ft_balance_of token a (rt_ft w) = v)"

definition fa_pool_is :: "fa_pool \<Rightarrow> (account \<Rightarrow> u128) runtime_world test_step" where
  "fa_pool_is pool = TestThat (\<lambda>w. fa_pools (rt_fa w) 0 = Some pool)"

definition fa_locked_is :: "account \<Rightarrow> (u128 \<times> bool) option \<Rightarrow> (account \<Rightarrow> u128) runtime_world test_step" where
  "fa_locked_is a x =
     TestThat (\<lambda>w. fa_locked (rt_fa w) (a, 0) = map_option (\<lambda>(v, c). \<lparr>fa_staking_balance = v, fa_is_claimed = c\<rparr>) x)"

definition fa_create_pool_should_work :: "(account \<Rightarrow> u128) runtime_world test_step list" where
  "fa_create_pool_should_work = fa_test_setup @
     [TestOk (Signed 1) (RtFarming (FaCreatePool 1 10 10 1 2 (10 * USDT_DECIMALS))),
      balance_is 2 1 (100 * USDT_DECIMALS - 10 * USDT_DECIMALS),
      balance_is 2 fa_escrow (10 * USDT_DECIMALS),
      fa_pool_is (fa_test_pool 1 0),
      TestThat (\<lambda>w. fa_next_pool_id (rt_fa w) = 1)]"

definition fa_staking_should_work :: "(account \<Rightarrow> u128) runtime_world test_step list" where
  "fa_staking_should_work = fa_test_setup @
     [TestOk (Signed 1) (RtFarming (FaCreatePool 10 10 10 1 2 (10 * USDT_DECIMALS))),
      TestNoop (Signed 2) (RtFarming (FaStakingCall 0 (10 * W3G_DECIMALS))) (FarmingError FaStakingNotStart),
      RunToBlock 10,
      TestOk (Signed 2) (RtFarming (FaStakingCall 0 (10 * W3G_DECIMALS))),
      balance_is 1 2 (100 * W3G_DECIMALS - 10 * W3G_DECIMALS),
      balance_is 1 fa_escrow (10 * W3G_DECIMALS),
      fa_locked_is 2 (Some (10 * W3G_DECIMALS, False)),
      fa_pool_is (fa_test_pool 10 (10 * W3G_DECIMALS)),
      TestNoop (Signed 2) (RtFarming (FaStakingCall 1 (10 * W3G_DECIMALS))) (FarmingError FaPoolNotFound),
      TestOk (Signed 2) (RtFarming (FaStakingCall 0 (10 * W3G_DECIMALS))),
      balance_is 1 2 (100 * W3G_DECIMALS - 20 * W3G_DECIMALS),
      balance_is 1 fa_escrow (20 * W3G_DECIMALS),
      fa_locked_is 2 (Some (20 * W3G_DECIMALS, False)),
      fa_pool_is (fa_test_pool 10 (20 * W3G_DECIMALS)),
      RunToBlock 20,
      TestNoop (Signed 2) (RtFarming (FaStakingCall 0 (10 * W3G_DECIMALS))) (FarmingError FaCurrentLockedTime),
      RunToBlock 30,
      TestNoop (Signed 2) (RtFarming (FaStakingCall 0 (10 * W3G_DECIMALS))) (FarmingError FaCurrentClaimTime)]"

definition fa_claim_should_work :: "(account \<Rightarrow> u128) runtime_world test_step list" where
  "fa_claim_should_work = fa_test_setup @
     [TestOk (Signed 1) (RtFarming (FaCreatePool 10 10 10 1 2 (10 * USDT_DECIMALS))),
      TestNoop (Signed 2) (RtFarming (FaClaimCall 0)) (FarmingError FaStakingNotStart),
      RunToBlock 10,
      TestOk (Signed 2) (RtFarming (FaStakingCall 0 (2 * W3G_DECIMALS))),
      TestOk (Signed 3) (RtFarming (FaStakingCall 0 (3 * W3G_DECIMALS))),
      TestNoop (Signed 2) (RtFarming (FaClaimCall 0)) (FarmingError FaCurrentStakingTime),
      RunToBlock 20,
      TestNoop (Signed 2) (RtFarming (FaClaimCall 1)) (FarmingError FaPoolNotFound),
      TestNoop (Signed 2) (RtFarming (FaClaimCall 0)) (FarmingError FaCurrentLockedTime),
      RunToBlock 30,
      TestNoop (Signed 1) (RtFarming (FaClaimCall 0)) (FarmingError FaNotStaking),
      TestOk (Signed 2) (RtFarming (FaClaimCall 0)),
      balance_is 1 2 (100 * W3G_DECIMALS),
      balance_is 2 2 (2 * W3G_DECIMALS * 10 * USDT_DECIMALS div (5 * W3G_DECIMALS)),
      balance_is 1 fa_escrow (3 * W3G_DECIMALS),
      balance_is 2 fa_escrow (10 * USDT_DECIMALS - 2 * W3G_DECIMALS * 10 * USDT_DECIMALS div (5 * W3G_DECIMALS)),
      fa_locked_is 2 (Some (2 * W3G_DECIMALS, True)),
      fa_pool_is (fa_test_pool 10 (5 * W3G_DECIMALS)),
      TestOk (Signed 3) (RtFarming (FaClaimCall 0)),
      balance_is 1 3 (100 * W3G_DECIMALS),
      balance_is 2 3 (3 * W3G_DECIMALS * 10 * USDT_DECIMALS div (5 * W3G_DECIMALS)),
      balance_is 1 fa_escrow 0,
      balance_is 2 fa_escrow 0,
      fa_locked_is 3 (Some (3 * W3G_DECIMALS, True)),
      TestNoop (Signed 2) (RtFarming (FaClaimCall 0)) (FarmingError FaAlreadyClaim),
      TestNoop (Signed 3) (RtFarming (FaClaimCall 0)) (FarmingError FaAlreadyClaim)]"

definition fa_force_claim_should_work :: "(account \<Rightarrow> u128) runtime_world test_step list" where
  "fa_force_claim_should_work = fa_test_setup @
     [TestOk (Signed 1) (RtFarming (FaCreatePool 10 10 10 1 2 (10 * USDT_DECIMALS))),
      RunToBlock 10,
      TestOk (Signed 2) (RtFarming (FaStakingCall 0 (2 * W3G_DECIMALS))),
      TestOk (Signed 3) (RtFarming (FaStakingCall 0 (10 * W3G_DECIMALS))),
      TestNoop (Signed 2) (RtFarming (FaForceClaim 2 0)) (FarmingError FaNoPermisson),
      TestOk Root (RtFarming (FaSetAdmin 1)),
      TestOk (Signed 1) (RtFarming (FaForceClaim 2 0)),
      balance_is 1 2 (100 * W3G_DECIMALS),
      balance_is 1 fa_escrow (10 * W3G_DECIMALS),
      fa_locked_is 2 None,
      fa_pool_is (fa_test_pool 10 (10 * W3G_DECIMALS)),
      RunToBlock 30,
      TestNoop (Signed 2) (RtFarming (FaClaimCall 0)) (FarmingError FaNotStaking),
      TestOk (Signed 1) (RtFarming (FaForceClaim 3 0)),
      fa_locked_is 3 None,
      balance_is 1 3 (100 * W3G_DECIMALS),
      balance_is 1 fa_escrow 0,
      fa_pool_is (fa_test_pool 10 0)]"

lemmas test_eval = test_ext_def rt_empty_def focus_def Let_def rt_views rt_puts W3G_DECIMALS_def USDT_DECIMALS_def
  balance_is_def rt_env_example_def rt_id_tag_def

lemmas fa_test_eval = test_eval rt_ft_eval rt_pool_eval fa_force_claim_def fa_award_def saturating_sub_def fa_test_setup_def fa_escrow_def
  fa_test_pool_def fa_pool_is_def fa_locked_is_def rt_example_ids

theorem farming_tests_pass:
  "test_passes ledger_currency rt_env_example X fa_create_pool_should_work 1 test_ext"
  "test_passes ledger_currency rt_env_example X fa_staking_should_work 1 test_ext"
  "test_passes ledger_currency rt_env_example X fa_claim_should_work 1 test_ext"
  "test_passes ledger_currency rt_env_example X fa_force_claim_should_work 1 test_ext"
  by (simp_all add: fa_create_pool_should_work_def fa_staking_should_work_def fa_claim_should_work_def
      fa_force_claim_should_work_def fa_test_eval)

section \<open>Fungible tokens\<close>

definition ft_test_create :: "(account \<Rightarrow> u128) runtime_world test_step" where
  "ft_test_create = TestOk (Signed 1) (RtTokenFungible (FtCreateToken 1 [87, 51, 71] [87, 51, 71] 18))"

definition ft_ok :: "account \<Rightarrow> ft_call \<Rightarrow> (account \<Rightarrow> u128) runtime_world test_step" where
  "ft_ok a c = TestOk (Signed a) (RtTokenFungible c)"

definition ft_noop :: "account \<Rightarrow> ft_call \<Rightarrow> fungible_error \<Rightarrow> (account \<Rightarrow> u128) runtime_world test_step" where
  "ft_noop a c e = TestNoop (Signed a) (RtTokenFungible c) (TokenFungibleError e)"

definition ft_supply_is :: "u128 \<Rightarrow> (account \<Rightarrow> u128) runtime_world test_step" where
  "ft_supply_is v = TestThat (\<lambda>w. ft_supply 1 (rt_ft w) = Inr v)"

definition ft_allowance_is :: "account \<Rightarrow> account \<Rightarrow> u128 \<Rightarrow> (account \<Rightarrow> u128) runtime_world test_step" where
  "ft_allowance_is a b v = TestThat (\<lambda>w. ft_allowances (rt_ft w) (1, a, b) = v)"

definition ft_tests :: "(account \<Rightarrow> u128) runtime_world test_step list list" where
  "ft_tests =
     [[ft_test_create, TestThat (\<lambda>w. ft_exists 1 (rt_ft w)),
       TestThat (\<lambda>w. ft_tokens (rt_ft w) 1 =
         Some \<lparr>ft_owner = 1, ft_name = [87, 51, 71], ft_symbol = [87, 51, 71], ft_decimals = 18, ft_total_supply = 0\<rparr>)],
      [ft_test_create, ft_noop 1 (FtCreateToken 1 [87, 51, 71] [87, 51, 71] 18) FtInvalidId],
      [ft_test_create, ft_ok 1 (FtMintCall 1 1 100), balance_is 1 1 100, ft_supply_is 100,
       ft_ok 1 (FtMintCall 1 1 100), balance_is 1 1 200, ft_supply_is 200],
      [ft_noop 1 (FtMintCall 1 1 100) FtInvalidId, ft_test_create, ft_noop 2 (FtMintCall 1 1 100) FtNoPermission],
      [ft_test_create, ft_ok 1 (FtMintCall 1 1 100), ft_ok 1 (FtMintCall 1 2 100), balance_is 1 1 100, balance_is 1 2 100,
       ft_supply_is 200, ft_ok 1 (FtBurn 1 50), ft_ok 1 (FtBurn 1 0), balance_is 1 1 50, ft_supply_is 150,
       ft_ok 2 (FtBurn 1 50), balance_is 1 2 50, ft_supply_is 100],
      [ft_noop 1 (FtBurn 1 50) FtUnknown, ft_test_create, ft_noop 2 (FtBurn 1 100) FtNumOverflow],
      [ft_test_create, ft_ok 1 (FtMintCall 1 1 100), balance_is 1 1 100, ft_ok 1 (FtTransferCall 1 2 10), balance_is 1 1 90,
       balance_is 1 2 10, ft_supply_is 100],
      [ft_test_create, ft_ok 1 (FtMintCall 1 1 100), ft_ok 1 (FtApprove 1 2 50), ft_allowance_is 1 2 50, ft_supply_is 100],
      [ft_noop 1 (FtApprove 1 2 50) FtInsufficientAuthorizedTokens, ft_test_create, ft_ok 1 (FtMintCall 1 1 100),
       ft_noop 1 (FtApprove 1 2 200) FtInsufficientAuthorizedTokens, ft_noop 1 (FtApprove 1 1 100) FtApproveToCurrentOwner,
       ft_supply_is 100],
      [ft_test_create, ft_ok 1 (FtMintCall 1 1 100), ft_ok 1 (FtApprove 1 2 50), ft_allowance_is 1 2 50,
       ft_ok 2 (FtTransferFrom 1 1 3 20), ft_allowance_is 1 2 30, balance_is 1 3 20, balance_is 1 1 80, ft_supply_is 100],
      [ft_noop 2 (FtTransferFrom 1 1 3 20) FtInsufficientAuthorizedTokens, ft_noop 2 (FtTransferFrom 1 1 2 20) FtConfuseBehavior,
       ft_test_create, ft_ok 1 (FtMintCall 1 1 100), ft_ok 1 (FtApprove 1 2 50), ft_allowance_is 1 2 50,
       ft_noop 2 (FtTransferFrom 1 1 2 20) FtConfuseBehavior,
       ft_noop 2 (FtTransferFrom 1 3 1 20) FtInsufficientAuthorizedTokens, ft_supply_is 100]]"

lemmas ft_test_eval = test_eval rt_ft_eval ft_test_create_def ft_ok_def ft_noop_def ft_supply_is_def ft_allowance_is_def ft_supply_def
  ft_burn_def ft_do_burn_def ft_transfer_def ft_approve_def ft_do_approve_def ft_transfer_from_def ft_do_transfer_from_def
  saturating_sub_def

theorem fungible_tests_pass:
  "t \<in> set ft_tests \<Longrightarrow> test_passes ledger_currency rt_env_example X t 1 test_ext"
  by (auto simp: ft_tests_def ft_test_eval)

section \<open>Non-fungible tokens\<close>

text \<open>The ASCII of \<open>https://web3games.com/\<close>.\<close>

definition test_uri :: bytes where
  "test_uri = [104, 116, 116, 112, 115, 58, 47, 47, 119, 101, 98, 51, 103, 97, 109, 101, 115, 46, 99, 111, 109, 47]"

definition nft_ok :: "account \<Rightarrow> nft_call \<Rightarrow> (account \<Rightarrow> u128) runtime_world test_step" where
  "nft_ok a c = TestOk (Signed a) (RtTokenNonFungible c)"

definition nft_noop :: "account \<Rightarrow> nft_call \<Rightarrow> non_fungible_error \<Rightarrow> (account \<Rightarrow> u128) runtime_world test_step" where
  "nft_noop a c e = TestNoop (Signed a) (RtTokenNonFungible c) (TokenNonFungibleError e)"

definition nft_that :: "(nft_storage \<Rightarrow> bool) \<Rightarrow> (account \<Rightarrow> u128) runtime_world test_step" where
  "nft_that P = TestThat (\<lambda>w. P (rt_nft w))"

definition nft_test_create :: nft_call where
  "nft_test_create = NftCreateToken 1 [87, 51, 71] [87, 51, 71] test_uri"

definition nft_tests :: "(account \<Rightarrow> u128) runtime_world test_step list list" where
  "nft_tests =
     [[nft_ok 1 nft_test_create, nft_that (nft_exists 1), nft_that (\<lambda>s. nft_token_name 1 s = Inr [87, 51, 71]),
       nft_that (\<lambda>s. nft_token_symbol 1 s = Inr [87, 51, 71]), nft_that (\<lambda>s. nft_token_uri 1 0 s = Inr (test_uri @ [48])),
       nft_that (\<lambda>s. nft_total_supply 1 s = 0)],
      [nft_ok 1 nft_test_create, nft_noop 1 nft_test_create NftInvalidId],
      [nft_ok 1 nft_test_create, nft_ok 1 (NftMint 1 1 1), nft_ok 1 (NftMint 1 2 100),
       nft_that (\<lambda>s. nft_balances s (1, 1) = 1), nft_that (\<lambda>s. nft_owners s (1, 1) = Some 1),
       nft_that (\<lambda>s. nft_total_supply 1 s = 2), nft_that (\<lambda>s. nft_token_by_index 1 1 s = 100), nft_ok 1 (NftMint 1 1 2),
       nft_that (\<lambda>s. nft_balances s (1, 1) = 2), nft_that (\<lambda>s. nft_owners s (1, 2) = Some 1),
       nft_that (\<lambda>s. nft_token_by_index 1 2 s = 2), nft_that (\<lambda>s. nft_total_supply 1 s = 3),
       nft_that (\<lambda>s. nft_token_of_owner_by_index 1 1 0 s = 1), nft_that (\<lambda>s. nft_token_of_owner_by_index 1 1 1 s = 2)],
      [nft_noop 1 (NftMint 1 1 1) NftInvalidId, nft_ok 1 nft_test_create, nft_noop 2 (NftMint 1 1 100) NftNoPermission,
       nft_ok 1 (NftMint 1 1 2), nft_noop 1 (NftMint 1 1 2) NftTokenAlreadyMinted],
      [nft_ok 1 nft_test_create, nft_ok 1 (NftMint 1 1 1), nft_ok 1 (NftMint 1 2 2),
       nft_that (\<lambda>s. nft_balances s (1, 1) = 1), nft_that (\<lambda>s. nft_balances s (1, 2) = 1),
       nft_that (\<lambda>s. nft_total_supply 1 s = 2), nft_ok 1 (NftBurn 1 1), nft_that (\<lambda>s. nft_balances s (1, 1) = 0),
       nft_that (\<lambda>s. nft_owners s (1, 1) = None), nft_that (\<lambda>s. nft_total_supply 1 s = 1), nft_ok 2 (NftBurn 1 2),
       nft_that (\<lambda>s. nft_balances s (1, 2) = 0), nft_that (\<lambda>s. nft_owners s (1, 2) = None),
       nft_that (\<lambda>s. nft_total_supply 1 s = 0)],
      [nft_noop 1 (NftBurn 1 0) NftNotFound, nft_ok 1 nft_test_create, nft_noop 2 (NftBurn 1 0) NftNotFound],
      [nft_ok 1 nft_test_create, nft_ok 1 (NftMint 1 1 0), nft_ok 1 (NftApprove 1 2 0)],
      [nft_noop 1 (NftApprove 1 2 50) NftNotFound, nft_ok 1 nft_test_create, nft_ok 1 (NftMint 1 1 0),
       nft_noop 1 (NftApprove 1 2 1) NftNotFound, nft_noop 1 (NftApprove 1 1 0) NftApproveToCurrentOwner,
       nft_that (\<lambda>s. nft_total_supply 1 s = 1)],
      [nft_ok 1 nft_test_create, nft_ok 1 (NftMint 1 1 1), nft_ok 1 (NftSetApproveForAll 1 2 True)],
      [nft_ok 1 nft_test_create, nft_ok 1 (NftMint 1 1 0), nft_ok 1 (NftMint 1 1 1), nft_that (\<lambda>s. nft_balances s (1, 1) = 2),
       nft_ok 1 (NftApprove 1 2 0), nft_ok 1 (NftSetApproveForAll 1 3 True), nft_ok 2 (NftTransferFrom 1 1 3 0),
       nft_that (\<lambda>s. nft_balances s (1, 3) = 1), nft_that (\<lambda>s. nft_balances s (1, 1) = 1),
       nft_ok 3 (NftTransferFrom 1 1 3 1), nft_that (\<lambda>s. nft_balances s (1, 3) = 2),
       nft_that (\<lambda>s. nft_balances s (1, 1) = 0), nft_that (\<lambda>s. nft_total_supply 1 s = 2)],
      [nft_noop 2 (NftTransferFrom 1 1 3 0) NftTokenNonExistent, nft_ok 1 nft_test_create, nft_ok 1 (NftMint 1 1 0),
       nft_ok 1 (NftMint 1 1 1), nft_that (\<lambda>s. nft_balances s (1, 1) = 2), nft_ok 1 (NftApprove 1 2 0),
       nft_noop 2 (NftTransferFrom 1 1 2 1) NftNotOwnerOrApproved, nft_noop 2 (NftTransferFrom 1 2 1 1) NftNotOwnerOrApproved,
       nft_that (\<lambda>s. nft_total_supply 1 s = 2)]]"

lemmas nft_test_eval = test_eval bench_nft_eval bench_eval nft_ok_def nft_noop_def nft_that_def nft_test_create_def test_uri_def
  nft_token_name_def nft_token_symbol_def nft_token_uri_def nft_total_supply_def nft_token_by_index_def
  nft_token_of_owner_by_index_def decimal.simps

theorem non_fungible_tests_pass:
  "t \<in> set nft_tests \<Longrightarrow> test_passes ledger_currency rt_env_example X t 1 test_ext"
  by (auto simp: nft_tests_def nft_test_eval)

section \<open>Multi tokens\<close>

definition mt_ok :: "account \<Rightarrow> mt_call \<Rightarrow> (account \<Rightarrow> u128) runtime_world test_step" where
  "mt_ok a c = TestOk (Signed a) (RtTokenMulti c)"

definition mt_noop :: "account \<Rightarrow> mt_call \<Rightarrow> multi_error \<Rightarrow> (account \<Rightarrow> u128) runtime_world test_step" where
  "mt_noop a c e = TestNoop (Signed a) (RtTokenMulti c) (TokenMultiError e)"

text \<open>Balances of an account of several tokens of the collection 1.\<close>

definition mt_balances_are :: "account \<Rightarrow> u128 list \<Rightarrow> u128 \<Rightarrow> (account \<Rightarrow> u128) runtime_world test_step" where
  "mt_balances_are a ts v = TestThat (\<lambda>w. \<forall>t \<in> set ts. mt_balances (rt_mt w) (1, t, a) = v)"

definition mt_tests :: "(account \<Rightarrow> u128) runtime_world test_step list list" where
  "mt_tests =
     [[mt_ok 1 (MtCreateToken 1 test_uri), TestThat (\<lambda>w. mt_exists 1 (rt_mt w)),
       TestThat (\<lambda>w. mt_uri 1 1 (rt_mt w) = Inr (test_uri @ [49])), TestThat (\<lambda>w. mt_owner_or_approved 1 1 1 (rt_mt w))],
      [mt_ok 1 (MtCreateToken 1 test_uri), mt_noop 1 (MtCreateToken 1 test_uri) MtInvalidId],
      [mt_ok 1 (MtCreateToken 1 test_uri), mt_ok 1 (MtMintCall 1 1 1 100), mt_ok 1 (MtMintCall 1 2 1 100),
       mt_balances_are 1 [1] 100, mt_balances_are 2 [1] 100],
      [mt_noop 1 (MtMintCall 1 1 1 100) MtInvalidId, mt_ok 1 (MtCreateToken 1 test_uri), mt_ok 1 (MtMintCall 1 1 1 100),
       mt_noop 2 (MtMintCall 1 2 1 100) MtNoPermission],
      [mt_ok 1 (MtCreateToken 1 test_uri), mt_ok 1 (MtMintBatch 1 1 [1, 2, 3, 4, 5] [100, 100, 100, 100, 100]),
       mt_balances_are 1 [1, 2, 3, 4, 5] 100],
      [mt_noop 1 (MtMintBatch 1 1 [1, 2, 3, 4, 5] [100, 100, 100, 100, 100]) MtInvalidId, mt_ok 1 (MtCreateToken 1 test_uri),
       mt_noop 2 (MtMintBatch 1 1 [1, 2, 3, 4, 5] [100, 100, 100, 100, 100]) MtNoPermission,
       mt_noop 1 (MtMintBatch 1 1 [1, 2, 3, 4, 5] [100, 100, 100, 100]) MtLengthMismatch],
      [mt_ok 1 (MtCreateToken 1 test_uri), mt_ok 1 (MtMintCall 1 1 1 100), mt_ok 1 (MtBurnCall 1 1 5), mt_balances_are 1 [1] 95],
      [mt_noop 1 (MtBurnCall 1 1 5) MtUnknown, mt_ok 1 (MtCreateToken 1 test_uri), mt_noop 2 (MtBurnCall 1 1 5) MtNumOverflow],
      [mt_ok 1 (MtCreateToken 1 test_uri), mt_ok 1 (MtMintBatch 1 1 [1, 2, 3, 4, 5] [100, 100, 100, 100, 100]),
       mt_balances_are 1 [1, 2, 3, 4, 5] 100, mt_ok 1 (MtBurnBatch 1 [1, 2, 3, 4, 5] [5, 5, 5, 5, 5]),
       mt_balances_are 1 [1, 2, 3, 4, 5] 95],
      [mt_ok 1 (MtCreateToken 1 test_uri), mt_ok 1 (MtMintCall 1 1 1 100), mt_ok 1 (MtSetApprovalForAll 1 2 True),
       TestThat (\<lambda>w. mt_owner_or_approved 1 2 1 (rt_mt w))],
      [mt_ok 1 (MtCreateToken 1 test_uri), mt_ok 1 (MtCreateToken 2 test_uri), mt_ok 1 (MtMintCall 1 1 1 100),
       mt_ok 1 (MtMintCall 1 1 2 100), mt_balances_are 1 [1, 2] 100, mt_balances_are 2 [1, 2] 0,
       mt_ok 1 (MtSetApprovalForAll 1 2 True), mt_ok 1 (MtTransferFrom 1 1 2 1 50), mt_balances_are 1 [1] 50,
       mt_balances_are 2 [1] 50, mt_ok 2 (MtTransferFrom 1 1 2 1 20), mt_balances_are 1 [1] 30, mt_balances_are 2 [1] 70,
       mt_ok 2 (MtTransferFrom 1 1 2 2 50), mt_balances_are 1 [2] 50, mt_balances_are 2 [2] 50],
      [mt_ok 1 (MtCreateToken 1 test_uri), mt_ok 1 (MtCreateToken 2 test_uri), mt_ok 1 (MtMintCall 1 1 1 100),
       mt_ok 1 (MtMintCall 1 1 2 100), mt_noop 2 (MtTransferFrom 1 1 2 1 50) MtNotOwnerOrApproved,
       mt_noop 1 (MtTransferFrom 1 1 2 1 101) MtInsufficientTokens],
      [mt_ok 1 (MtCreateToken 1 test_uri), mt_ok 1 (MtMintBatch 1 1 [1, 2, 3] [100, 100, 100]), mt_balances_are 1 [1, 2, 3] 100,
       mt_balances_are 2 [1, 2, 3] 0, mt_ok 1 (MtBatchTransferFrom 1 1 2 [1, 2, 3] [50, 50, 50]),
       mt_balances_are 1 [1, 2, 3] 50, mt_balances_are 2 [1, 2, 3] 50]]"

lemmas mt_test_eval = test_eval bench_mt_eval bench_eval mt_ok_def mt_noop_def mt_balances_are_def test_uri_def mt_uri_def decimal.simps

theorem multi_tests_pass:
  "t \<in> set mt_tests \<Longrightarrow> test_passes ledger_currency rt_env_example X t 1 test_ext"
  by (auto simp: mt_tests_def mt_test_eval)

section \<open>Launchpad\<close>

definition lp_test_setup :: "(account \<Rightarrow> u128) runtime_world test_step list" where
  "lp_test_setup =
     [TestOk (Signed 1) (RtTokenFungible (FtCreateToken 1 [87, 51, 71, 49] [87, 51, 71, 49] 18)),
      TestOk (Signed 1) (RtTokenFungible (FtCreateToken 2 [87, 51, 71, 50] [87, 51, 71, 50] 6)),
      TestOk (Signed 1) (RtTokenFungible (FtMintCall 1 1 (100 * W3G_DECIMALS))),
      TestOk (Signed 1) (RtTokenFungible (FtMintCall 2 2 (100 * USDT_DECIMALS))),
      TestOk (Signed 1) (RtTokenFungible (FtMintCall 2 3 (100 * USDT_DECIMALS))),
      TestOk (Signed 1) (RtLaunchpad (LpCreatePool 1 10 1 2 (10 * W3G_DECIMALS) (1 * USDT_DECIMALS)))]"

definition lp_escrow :: account where "lp_escrow = lp_escrow_account_id rt_env_example 0"

definition lp_raise_is :: "u128 \<Rightarrow> (account \<Rightarrow> u128) runtime_world test_step" where
  "lp_raise_is v = TestThat (\<lambda>w. map_option lp_raise_amount (lp_pools (rt_lp w) 0) = Some v)"

definition lp_locked_is :: "account \<Rightarrow> u128 \<Rightarrow> bool \<Rightarrow> (account \<Rightarrow> u128) runtime_world test_step" where
  "lp_locked_is a v claimed =
     TestThat (\<lambda>w. lp_locked (rt_lp w) (a, 0) = Some \<lparr>lp_balance = v, lp_is_claimed = claimed\<rparr>)"

definition lp_ok :: "account \<Rightarrow> lp_call \<Rightarrow> (account \<Rightarrow> u128) runtime_world test_step" where
  "lp_ok a c = TestOk (Signed a) (RtLaunchpad c)"

definition lp_noop :: "account \<Rightarrow> lp_call \<Rightarrow> launchpad_error \<Rightarrow> (account \<Rightarrow> u128) runtime_world test_step" where
  "lp_noop a c e = TestNoop (Signed a) (RtLaunchpad c) (LaunchpadError e)"

definition lp_tests :: "(account \<Rightarrow> u128) runtime_world test_step list list" where
  "lp_tests =
     [lp_test_setup @
      [balance_is 1 1 (100 * W3G_DECIMALS - 10 * W3G_DECIMALS), balance_is 1 lp_escrow (10 * W3G_DECIMALS),
       TestThat (\<lambda>w. lp_pools (rt_lp w) 0 =
         Some \<lparr>lp_owner = 1, lp_escrow_account = lp_escrow, lp_sale_start = 1, lp_sale_end = 1 + 10, lp_sale_token_id = 1,
           lp_buy_token_id = 2, lp_token_price = 1 * USDT_DECIMALS, lp_total_sale_amount = 10 * W3G_DECIMALS,
           lp_raise_amount = 10 * W3G_DECIMALS\<rparr>),
       TestThat (\<lambda>w. lp_next_pool_id (rt_lp w) = 1)],
      lp_test_setup @
      [lp_ok 2 (LpBuyTokenCall 0 1), balance_is 2 2 (100 * USDT_DECIMALS - 1 * USDT_DECIMALS),
       balance_is 2 lp_escrow (1 * USDT_DECIMALS), lp_locked_is 2 (1 * W3G_DECIMALS) False,
       lp_raise_is (10 * W3G_DECIMALS - 1 * W3G_DECIMALS), lp_noop 2 (LpBuyTokenCall 1 1) LpPoolNotFound,
       lp_ok 2 (LpBuyTokenCall 0 1), balance_is 2 2 (100 * USDT_DECIMALS - 1 * USDT_DECIMALS - 1 * USDT_DECIMALS),
       balance_is 2 lp_escrow (2 * USDT_DECIMALS), lp_raise_is (10 * W3G_DECIMALS - 1 * W3G_DECIMALS - 1 * W3G_DECIMALS),
       RunToBlock 12, lp_noop 2 (LpBuyTokenCall 0 1) LpOutOfSaleTime],
      lp_test_setup @
      [lp_ok 2 (LpBuyTokenCall 0 1), lp_locked_is 2 (1 * W3G_DECIMALS) False,
       lp_raise_is (10 * W3G_DECIMALS - 1 * W3G_DECIMALS), lp_ok 2 (LpBuyTokenCall 0 1), lp_ok 3 (LpBuyTokenCall 0 3),
       lp_noop 1 (LpOwnerClaimCall 0) LpClaimNotStart, RunToBlock 12, lp_noop 2 (LpOwnerClaimCall 0) LpNotOwner,
       lp_ok 2 (LpClaimCall 0), lp_ok 3 (LpClaimCall 0), balance_is 1 2 (2 * W3G_DECIMALS), balance_is 1 3 (3 * W3G_DECIMALS),
       balance_is 1 lp_escrow (5 * W3G_DECIMALS), balance_is 2 2 (100 * USDT_DECIMALS - 2 * USDT_DECIMALS),
       balance_is 2 3 (100 * USDT_DECIMALS - 3 * USDT_DECIMALS), balance_is 2 lp_escrow (5 * USDT_DECIMALS),
       lp_ok 1 (LpOwnerClaimCall 0), balance_is 2 lp_escrow 0, balance_is 2 1 (5 * USDT_DECIMALS),
       balance_is 1 1 ((100 - 10 + 5) * W3G_DECIMALS)]]"

lemmas lp_test_eval = test_eval rt_ft_eval bench_pool_eval lp_test_setup_def lp_escrow_def lp_raise_is_def lp_locked_is_def
  lp_ok_def lp_noop_def saturating_sub_def saturating_mul_def rt_example_ids

theorem launchpad_tests_pass:
  "t \<in> set lp_tests \<Longrightarrow> test_passes ledger_currency rt_env_example X t 1 test_ext"
  by (auto simp: lp_tests_def lp_test_eval)

section \<open>Exchange\<close>

text \<open>
  The pool of tokens 1 and 2 has the liquidity token 11, and the square root of \<open>2 * 10 ^ 30\<close> is the one
  that is taken.
\<close>

definition ex_test_params :: ex_params where
  "ex_test_params = \<lparr>integer_sqrt = (\<lambda>n. if n = 2 * 10 ^ 30 then 1414213562373095 else 0),
     integer_sqrt_256 = (\<lambda>n. if n = 2 * 10 ^ 30 then 1414213562373095 else 0), random_id = (\<lambda>a b. 11)\<rparr>"

definition ex_test_tokens :: "(account \<Rightarrow> u128) runtime_world test_step list" where
  "ex_test_tokens =
     map (\<lambda>t. TestOk (Signed 1) (RtTokenFungible (FtCreateToken t [87, 51, 71] [87, 51, 71] 18))) [1, 2, 3]"

definition ex_test_balances :: "(account \<Rightarrow> u128) runtime_world test_step list" where
  "ex_test_balances = map (\<lambda>t. TestOk (Signed 1) (RtTokenFungible (FtMintCall t 1 (10 ^ 18)))) [1, 2, 3]"

definition ex_ok :: "ex_call \<Rightarrow> (account \<Rightarrow> u128) runtime_world test_step" where
  "ex_ok c = TestOk (Signed 1) (RtExchange c)"

definition ex_noop :: "ex_call \<Rightarrow> exchange_error \<Rightarrow> (account \<Rightarrow> u128) runtime_world test_step" where
  "ex_noop c e = TestNoop (Signed 1) (RtExchange c) (ExchangeError e)"

definition ex_lp_account :: account where "ex_lp_account = ex_token_id_to_account_id rt_env_example 11"

definition ex_test_pool :: "(account \<Rightarrow> u128) runtime_world test_step list" where
  "ex_test_pool = ex_test_tokens @ [ex_ok (ExCreatePool 1 2)] @ ex_test_balances @
     [ex_ok (ExAddLiquidity 1 2 (10 ^ 15) (2 * 10 ^ 15) 0 0 1 100)]"

definition ex_reserves_are :: "u128 \<Rightarrow> u128 \<Rightarrow> (account \<Rightarrow> u128) runtime_world test_step" where
  "ex_reserves_are a b = TestThat (\<lambda>w. ex_get_reserves 1 2 (rt_ex_view w) = Inr (a, b))"

definition ex_create_tests :: "(account \<Rightarrow> u128) runtime_world test_step list list" where
  "ex_create_tests =
     [ex_test_tokens @ [ex_ok (ExCreatePool 1 2), TestThat (\<lambda>w. ex_exists 1 2 (rt_ex_view w)),
        TestThat (\<lambda>w. \<not> ex_exists 1 3 (rt_ex_view w))],
      [ex_noop (ExCreatePool 1 2) ExTokenAccountNotFound] @ ex_test_tokens @
        [ex_noop (ExCreatePool 1 1) ExTokenRepeat, ex_ok (ExCreatePool 1 2), ex_noop (ExCreatePool 1 2) ExPoolAlreadyCreated]]"

definition ex_liquidity_tests :: "(account \<Rightarrow> u128) runtime_world test_step list list" where
  "ex_liquidity_tests =
     [ex_test_pool @ [balance_is 1 1 (10 ^ 18 - 10 ^ 15), balance_is 2 1 (10 ^ 18 - 2 * 10 ^ 15),
        balance_is 11 1 (1414213562373095 - 1000), balance_is 1 ex_lp_account (10 ^ 15), balance_is 2 ex_lp_account (2 * 10 ^ 15)],
      ex_test_pool @ [ex_ok (ExRemoveLiquidity 1 2 ((1414213562373095 - 1000) div 2) 0 0 1 200),
        balance_is 11 ex_lp_account 0,
        balance_is 11 1 ((1414213562373095 - 1000) - (1414213562373095 - 1000) div 2)]]"

text \<open>What a swap pays, as the tests compute it.\<close>

definition test_amount_out :: u128 where
  "test_amount_out = 10 ^ 12 * 997 * (2 * 10 ^ 15) div (10 ^ 15 * 1000 + 10 ^ 12 * 997)"

definition test_amount_in :: u128 where
  "test_amount_in = 10 ^ 15 * 10 ^ 12 * 1000 div ((2 * 10 ^ 15 - 10 ^ 12) * 997) + 1"

definition ex_swap_tests :: "(account \<Rightarrow> u128) runtime_world test_step list list" where
  "ex_swap_tests =
     [ex_test_pool @ [ex_reserves_are (10 ^ 15) (2 * 10 ^ 15),
        TestThat (\<lambda>w. ex_get_amount_out (10 ^ 12) (10 ^ 15) (2 * 10 ^ 15) = Inr test_amount_out),
        ex_ok (ExSwapExactTokensForTokens (10 ^ 12) 0 [1, 2] 1 100),
        ex_reserves_are (10 ^ 15 + 10 ^ 12) (2 * 10 ^ 15 - test_amount_out),
        balance_is 1 1 (10 ^ 18 - 10 ^ 15 - 10 ^ 12), balance_is 2 1 (10 ^ 18 - 2 * 10 ^ 15 + test_amount_out)],
      ex_test_pool @ [ex_reserves_are (10 ^ 15) (2 * 10 ^ 15),
        TestThat (\<lambda>w. ex_get_amount_in (10 ^ 12) (10 ^ 15) (2 * 10 ^ 15) = Inr test_amount_in),
        ex_ok (ExSwapTokensForExactTokens (10 ^ 12) (- 1) [1, 2] 1 100),
        ex_reserves_are (10 ^ 15 + test_amount_in) (2 * 10 ^ 15 - 10 ^ 12),
        balance_is 1 1 (10 ^ 18 - 10 ^ 15 - test_amount_in), balance_is 2 1 (10 ^ 18 - 2 * 10 ^ 15 + 10 ^ 12)]]"

lemmas ex_test_eval = test_eval rt_ft_eval bench_ex_eval bench_swap_eval ex_test_params_def ex_test_tokens_def
  ex_test_balances_def ex_ok_def ex_noop_def ex_lp_account_def ex_test_pool_def ex_reserves_are_def
  ledger_currency_def CreatePoolDeposit_def rt_example_ids ft_do_burn_def saturating_sub_def

theorem exchange_tests_pass:
  "t \<in> set (ex_create_tests @ ex_liquidity_tests) \<Longrightarrow> test_passes ledger_currency rt_env_example ex_test_params t 1 test_ext"
  by (auto simp: ex_create_tests_def ex_liquidity_tests_def ex_test_eval)

lemma test_prices:
  "ex_get_amount_out 1000000000000 1000000000000000 2000000000000000 = Inr 1992013962079"
  "ex_get_amount_in 1000000000000 1000000000000000 2000000000000000 = Inr 501755391237"
  by (simp_all add: ex_get_amount_out_value ex_get_amount_in_value price_out_def price_in_def)

theorem exchange_swap_tests_pass:
  "t \<in> set ex_swap_tests \<Longrightarrow> test_passes ledger_currency rt_env_example ex_test_params t 1 test_ext"
  by (auto simp: ex_swap_tests_def ex_test_eval test_amount_out_def test_amount_in_def ex_get_amounts_out_def
      ex_get_amounts_in_def test_prices)

section \<open>Marketplace and player ids\<close>

definition mp_test :: "(account \<Rightarrow> u128) runtime_world test_step list" where
  "mp_test =
     [nft_ok 1 nft_test_create, nft_that (nft_exists 1), nft_ok 1 (NftMint 1 1 2), nft_that (\<lambda>s. nft_owners s (1, 2) = Some 1),
      TestOk (Signed 1) (RtMartketplace (MpCreateOrder (NonFungibleToken 1 2) (100 * W3G_DECIMALS) 100)),
      TestThat (\<lambda>w. mp_orders (rt_mp w) (NonFungibleToken 1 2) =
        Some \<lparr>mp_creater = 1, mp_price = 100 * W3G_DECIMALS, mp_start = 1, mp_duration = 100\<rparr>)]"

text \<open>\<open>tester\<close>, and an account of thirty-two ones.\<close>

definition pid_test :: "(account \<Rightarrow> u128) runtime_world test_step list" where
  "pid_test =
     (let alice = of_nat (from_be (replicate 32 1)) in
      [TestOk (Signed alice) (RtPalyerId (PidRegister [116, 101, 115, 116, 101, 114] alice))])"

theorem marketplace_test_passes: "test_passes ledger_currency rt_env_example X mp_test 1 test_ext"
  by (simp add: mp_test_def nft_test_eval mp_create_order_def mp_on_nft_def mp_deposit_event_def MIN_PRICE_def MIN_DURATION_def
      rt_example_ids)

theorem player_id_test_passes: "test_passes ledger_currency rt_env_example X pid_test 1 test_ext"
  by (simp add: pid_test_def test_eval pid_eval)

end
