(* ===== verification/Spec2Isabelle.thy ===== *)
theory Spec2Isabelle
  imports TokenFungible TokenNonFungible TokenMulti WrapCurrency ExchangeSafety Farming Launchpad Marketplace PlayerId
    ProxyPay CallSwitchgear PrecompilePallets PrecompileSet RuntimeConfig ExchangeRpc ChainExtension
    RuntimeContracts ChainSpec Benchmarks PrecompileTesting NodeCommand RuntimeApis Conformance
begin

text \<open>
  A verification development for the runtime of the web3games blockchain.

  \<^bold>\<open>The program.\<close> The chain is a Substrate runtime. Its own logic is a set of pallets
  (\<open>pallets/\<close>): three token pallets (fungible, non-fungible and multi tokens), the wrapping of the
  native currency as a fungible token, an exchange with constant-product pools over fungible tokens,
  staking pools (farming), token sales (launchpad), a marketplace for non-fungible and multi tokens,
  player identities, the sponsoring of transaction fees (proxy-pay), switches for calls, and the
  Ethereum chain id. EVM contracts reach seven of the pallets through precompiled contracts
  (\<open>precompiles/\<close>), which decode call data and dispatch calls of the pallets; ink contracts reach the
  fungible tokens through a chain extension (\<open>chain-extensions/\<close>). The runtime
  (\<open>runtime/web3games\<close>) configures and joins everything: it applies transactions, pays their fees and
  filters their calls. The node (\<open>node/\<close>) builds the genesis, runs the tasks around the runtime and serves
  its RPC.

  \<^bold>\<open>How code is modelled.\<close> The storage of a pallet is a record of maps, an extrinsic is a function
  from an origin, its arguments and the storage to \<open>dispatch_error + storage\<close>, with one branch per
  check and early return of the code, in the order of the code. An error drops what was written, as
  the storage transaction around an extrinsic does. A panic (\<open>unwrap\<close> of \<open>None\<close>, index out of
  range, division by zero) is the error \<open>Panicked\<close>. Integers are words of their width: checked,
  saturating and wrapping operations are those of Rust, and plain \<open>+\<close>, \<open>-\<close> and \<open>*\<close> wrap, which is
  what the release profile of the runtime does. \<open>usize\<close> has 32 bits. A pallet that calls another one
  has the storage of that pallet as a part of its state (\<open>focus\<close> in \<open>Prelude\<close>).

  \<^bold>\<open>The theories.\<close>
  \<^item> \<open>Prelude\<close>: results, checked arithmetic, loops, sums over all accounts, big-endian bytes, sequences
    of calls (\<open>exec\<close>, \<open>reachable\<close>) and the locales \<open>pallet_invariant\<close> and \<open>pallet_history\<close>, which
    lift what one call keeps to all reachable states.
  \<^item> \<open>Enumeration\<close>: lists kept as two maps with removal by swapping with the last element, the locale
    behind both enumerations of the non-fungible tokens.
  \<^item> \<open>Frame\<close>: origins, errors of all pallets, accounts of pallets, and the native currency as a record
    of operations with its laws.
  \<^item> \<open>TokenFungible\<close>, \<open>TokenNonFungible\<close>, \<open>TokenMulti\<close> (\<open>pallets/token-*/src/lib.rs\<close>): all calls,
    internal operations and getters. Recorded supplies and enumerations are exact or bounded by the
    balances after any sequence of calls; nobody's tokens move without authority; when transfers
    succeed and what they change; no call of the non-fungible pallet panics.
  \<^item> \<open>WrapCurrency\<close> (\<open>pallets/wrap-currency\<close>): the wrapped supply is backed by native currency, as far
    as calls of this and the fungible token pallet and native transfers go (\<open>runtime_safe\<close> below is the
    statement for the whole chain, and \<open>ChainExtension\<close> has the calls that break it).
  \<^item> \<open>ExchangeMath\<close>, \<open>Exchange\<close>, \<open>ExchangeSafety\<close> (\<open>pallets/exchange\<close>): prices computed in 256 bits
    are the exact rounded prices until a numerator saturates; under calls of the exchange, wrap-currency
    and the fungible token pallet, pool accounts hold the recorded reserves; a swap that passes
    the check keeps the product of the reserves as long as it fits into 128 bits (and the check is
    empty when it does not).
  \<^item> \<open>Farming\<close>, \<open>Launchpad\<close> (\<open>pallets/farming\<close>, \<open>pallets/launchpad\<close>): solvency of the escrow
    accounts, the records as a refinement of the history of events, and that claims succeed, each for calls of
    one of the two pallets and the fungible token pallet. The runtime gives both the same escrow
    accounts; \<open>Runtime\<close> shows what a launchpad owner takes from farming then.
  \<^item> \<open>Marketplace\<close> (\<open>pallets/marketplace\<close>): the marketplace holds every asset with an open order;
    what executing an order pays; that orders can be cancelled.
  \<^item> \<open>PlayerId\<close> (\<open>pallets/player-id\<close>): soundness of the index, and that only a player changes its
    addresses. The binary search of the standard library is modelled as it is written.
  \<^item> \<open>ProxyPay\<close> (\<open>pallets/proxy-pay\<close>): who pays a fee, and the list of sponsoring programs.
  \<^item> \<open>CallSwitchgear\<close> (\<open>pallets/call-switchgear\<close>, \<open>pallets/ethereum-chain-id\<close>, the call filter of the
    runtime): the filter answers as the last accepted commands say.
  \<^item> \<open>EvmData\<close> (\<open>precompiles/utils/src/data\<close>): the reader and the writer of call data. The writer
    produces the head and tail encoding of Solidity, and the reader inverts it; on any input, arguments of
    one word are read as the words say or the call reverts.
  \<^item> \<open>PrecompileUtils\<close> (the rest of \<open>precompiles/utils/src\<close> that the contracts use): modifiers, gas,
    dispatch, and the locale \<open>precompile\<close>, the contract every precompiled contract keeps.
  \<^item> \<open>PrecompileTokens\<close>, \<open>PrecompilePallets\<close> (\<open>precompiles/src\<close>): the seven contracts and the set that
    routes to them. Every EVM call does what one call signed by its caller's account does, or nothing;
    encoded arguments mean the call that the interface names, for every function that changes something; a
    static call changes nothing.
  \<^item> \<open>PrecompileSet\<close> (\<open>costs.rs\<close>, \<open>logs.rs\<close> and \<open>precompile_set.rs\<close> of \<open>precompiles/utils/src\<close>): gas of
    calls, logs and storage access, and sets of precompiles built from fragments. The counters of
    recursion are right whatever the contracts do, so nesting is bounded; a set serves the addresses of
    its first matching fragment; delegate calls are refused where they are not allowed.
  \<^item> \<open>ChainExtension\<close> (\<open>chain-extensions/src\<close>): the functions for fungible tokens, and those for the other
    tokens, which are written but not connected. All but three do what the caller of the contract could
    do by a call; creating a token, transferring from an account and burning skip the checks of the
    extrinsics, so that anybody's tokens move and the backing of the wrapped currency breaks, which is
    proved for all states, callers and amounts.
  \<^item> \<open>TokenClients\<close>: what the invariants of wrap-currency, the exchange and the marketplace need of the token
    pallets when calls of other pallets come between their own.
  \<^item> \<open>Runtime\<close> (\<open>runtime/web3games/src/lib.rs\<close>): the storage of all pallets together, the calls of the
    runtime under the call filter, the genesis builds, transactions with the fee taken before and settled
    after, and that one invariant of all pallets is kept.
  \<^item> \<open>Weights\<close>, \<open>RuntimeConfig\<close> (\<open>weights.rs\<close> of the pallets, \<open>runtime/web3games/src/constants.rs\<close> and
    the configuration in \<open>lib.rs\<close>): weights of calls fit into blocks, the price of weight, where fees go
    (the first imbalance to the treasury, a tip nowhere), the author of a block is in range, and Ethereum
    transactions are converted and filtered as extrinsics.
  \<^item> \<open>ExchangeRpc\<close> (\<open>pallets/exchange/rpc\<close>): the quotes that the RPC gives are the amounts a swap executes.
  \<^item> \<open>RuntimeContracts\<close>: the precompiles and the chain extension on the storage of the runtime, and the
    safety of the whole chain (\<open>runtime_safe\<close>).
  \<^item> \<open>ChainSpec\<close> (\<open>node/src/chain_spec.rs\<close>): the genesis configuration and the two chains of the node. No
    genesis panics in a pallet, and the staging chain starts in a state that satisfies the invariant; the code deployed at genesis is at the
    addresses that \<open>is_precompile\<close> knows, which leaves out the contracts of the repository.
  \<^item> \<open>NodeService\<close> (\<open>node/src/service.rs\<close>, \<open>node/src/rpc.rs\<close>): how a node is put together out of services of
    Substrate and Frontier, which are calls on a world of any type. The locale \<open>node_setup\<close> carries what
    every step of the setup keeps; with a world that records the calls, the network starts last and only when
    nothing has failed, and the tasks of a node that has started are known. A node starts when no call fails.
  \<^item> \<open>NodeCommand\<close> (\<open>node/src/cli.rs\<close>, \<open>command.rs\<close>, \<open>command_helper.rs\<close>): the chains by name and the
    subcommands. No subcommand starts the network; purging leaves Frontier's database behind when it is a
    ParityDb; benchmark transactions live shorter than the hashes of blocks are kept.
  \<^item> \<open>RuntimeApis\<close> (\<open>pallets/support/src/lib.rs\<close>, \<open>impl_runtime_apis!\<close>): the traits of the support crate as
    locales, interpreted on the token pallets (addresses of token ids, listing of tokens by index), and the
    runtime API for Ethereum, ink contracts, Grandpa and benchmarks.
  \<^item> \<open>Benchmarks\<close> (\<open>benchmarking.rs\<close> of the pallets): the benchmarks as data, run on the model of the
    runtime. All of them succeed from any genesis, and which calls they measure is known.
  \<^item> \<open>Conformance\<close> (\<open>tests.rs\<close> of the pallets): the unit tests of the repository as lists of steps. All of them
    hold of the model, errors and balances as the tests expect them.
  \<^item> \<open>PrecompileTesting\<close> (\<open>precompiles/utils/src/testing.rs\<close>): the mock handle refines the handle of the model as
    to gas, and a test passes exactly when the precompiles do what it expects, except \<open>execute_none\<close>, which asserts
    the opposite of its name.

  \<^bold>\<open>What is assumed.\<close> Code of other crates is an argument of the definitions that use it: the accounts
  derived from pallet ids (the record \<open>env\<close>), the native currency (\<open>currency_laws\<close> states that a
  successful transfer moves exactly the amount), the square root and the hash of the exchange, the
  handler of fees, the mapping of EVM addresses to accounts, the hash of selectors, the ids that the
  runtime draws, the precompiles of other crates, the depth of EVM calls, the environment and the codec
  of ink contracts, the rounding of ratios (\<open>perbill_law\<close>, \<open>rational_law\<close>), the derivation of keys, and the services and commands of
  Substrate and Frontier that the node calls (the records \<open>node_env\<close> and \<open>command_env\<close>). The safety of the chain asks
  that the accounts of pallets differ from each other (\<open>rt_accounts_apart\<close>), that nobody signs for them, that drawn ids are
  unused (\<open>ex_fresh\<close>), that the handler of fees takes nothing from the vault (\<open>rt_handler_ok\<close>), and that
  precompiles of other crates only dispatch calls for their caller (\<open>ext_ok\<close>). Laws that a theorem
  needs are its hypotheses, and its instance shows that they can be met, for the currency by a plain
  ledger. All loops are structural recursions or folds, except the binary
  search and the search for a power of two, whose termination is proved. The depth to which EVM calls nest is an argument of \<open>evm_call\<close>, as
  the EVM bounds it, and the theorems hold for every depth; there is no other fuel.

  \<^bold>\<open>Not modelled.\<close> Mocks, the tests of utilities and the copies of weights for tests; the weights and benchmarks of
  proxy-pay, which are copies of those of the exchange that nothing uses; networking, consensus and databases
  inside the services that the node calls; the types and constants with which FRAME pallets are configured, the
  runtime APIs that only pass their arguments on, and the pallets of FRAME, frontier and the contracts pallet, whose
  code is elsewhere; the execution of EVM and
  ink bytecode, which the model replaces by arbitrary sequences of calls. The three functions of the
  chain extension that skip the checks of the extrinsics are modelled, but left out of the steps of
  \<open>runtime_safe\<close>: with them it does not hold.
\<close>

end
